(* ===== verification/Prelude.thy ===== *)
theory Prelude
  imports Main "HOL-Library.AList"
begin

text \<open>
  Shared vocabulary of the development.

  A Go function that talks to a server, may return an error and may panic is modelled by the
  type \<open>('s, 'e, 'a) go\<close>: it takes the state of the world outside the process and returns an
  outcome together with the new state.  An outcome is a value, a Go \<open>error\<close>, a panic, or the
  end of the process (\<open>log.Fatalf\<close>, \<open>os.Exit\<close>).  \<open>bindM\<close> is the sequencing of statements:
  the rest of the function runs only after a value, which is the
  \<open>if err != nil { return err }\<close> of the source.

  The theory also holds the loops (\<open>forM\<close>, \<open>mapM\<close>, \<open>foldM\<close>), the frame rule \<open>preserves\<close> with its
  introduction rules, and the facts on maps and lists that several components use.
\<close>

section \<open>Collections of facts\<close>

named_theorems go_simps \<open>how sequenced statements evaluate and when they end well\<close>
named_theorems preserves_intros \<open>rules that show that a statement preserves a state predicate\<close>

section \<open>Outcomes and stateful Go functions\<close>

datatype ('e, 'a) outcome = Ok 'a | Err 'e | Panic string | Fatal string

type_synonym ('s, 'e, 'a) go = "'s \<Rightarrow> ('e, 'a) outcome \<times> 's"

definition ret :: "'a \<Rightarrow> ('s, 'e, 'a) go" where
  "ret x s = (Ok x, s)"

definition throw :: "'e \<Rightarrow> ('s, 'e, 'a) go" where
  "throw e s = (Err e, s)"

definition panic :: "string \<Rightarrow> ('s, 'e, 'a) go" where
  "panic m s = (Panic m, s)"

definition fatal :: "string \<Rightarrow> ('s, 'e, 'a) go" where
  "fatal m s = (Fatal m, s)"

definition bindM :: "('s, 'e, 'a) go \<Rightarrow> ('a \<Rightarrow> ('s, 'e, 'b) go) \<Rightarrow> ('s, 'e, 'b) go" where
  "bindM m f s =
     (case m s of
        (Ok x, s') \<Rightarrow> f x s'
      | (Err e, s') \<Rightarrow> (Err e, s')
      | (Panic p, s') \<Rightarrow> (Panic p, s')
      | (Fatal p, s') \<Rightarrow> (Fatal p, s'))"

text \<open>
  \<open>tryM\<close> runs a statement and hands its error to the code after it: it is a call whose
  \<open>err\<close> is inspected instead of being returned at once.
\<close>

definition tryM :: "('s, 'e, 'a) go \<Rightarrow> ('s, 'e, 'e + 'a) go" where
  "tryM m s =
     (case m s of
        (Ok x, s') \<Rightarrow> (Ok (Inr x), s')
      | (Err e, s') \<Rightarrow> (Ok (Inl e), s')
      | (Panic p, s') \<Rightarrow> (Panic p, s')
      | (Fatal p, s') \<Rightarrow> (Fatal p, s'))"

text \<open>A \<open>for _, x := range xs\<close> loop that leaves the function at the first error.\<close>

fun forM :: "'x list \<Rightarrow> ('x \<Rightarrow> ('s, 'e, unit) go) \<Rightarrow> ('s, 'e, unit) go" where
  "forM [] f = ret ()"
| "forM (x # xs) f = bindM (f x) (\<lambda>_. forM xs f)"

text \<open>The same loop, appending one result for each element.\<close>

fun mapM :: "('x \<Rightarrow> ('s, 'e, 'y) go) \<Rightarrow> 'x list \<Rightarrow> ('s, 'e, 'y list) go" where
  "mapM f [] = ret []"
| "mapM f (x # xs) = bindM (f x) (\<lambda>y. bindM (mapM f xs) (\<lambda>ys. ret (y # ys)))"

text \<open>A loop that adds to a value, such as a map that it builds.\<close>

fun foldM :: "('x \<Rightarrow> 'b \<Rightarrow> ('s, 'e, 'b) go) \<Rightarrow> 'x list \<Rightarrow> 'b \<Rightarrow> ('s, 'e, 'b) go" where
  "foldM f [] b = ret b"
| "foldM f (x # xs) b = bindM (f x b) (\<lambda>b'. foldM f xs b')"

definition succeeds :: "('e, 'a) outcome \<times> 's \<Rightarrow> bool" where
  "succeeds r = (case fst r of Ok _ \<Rightarrow> True | _ \<Rightarrow> False)"

lemma ret_run [simp, go_simps]: "ret x s = (Ok x, s)"
  by (simp add: ret_def)

lemma throw_run [simp, go_simps]: "throw e s = (Err e, s)"
  by (simp add: throw_def)

lemma panic_run [simp, go_simps]: "panic m s = (Panic m, s)"
  by (simp add: panic_def)

lemma fatal_run [simp, go_simps]: "fatal m s = (Fatal m, s)"
  by (simp add: fatal_def)

lemma bindM_Ok_iff [go_simps]:
  "bindM m f s = (Ok y, s') \<longleftrightarrow> (\<exists>x t. m s = (Ok x, t) \<and> f x t = (Ok y, s'))"
  by (auto simp: bindM_def split: prod.splits outcome.splits)

lemma bindM_OkE:
  assumes "bindM m f s = (Ok y, s')"
  obtains x t where "m s = (Ok x, t)" "f x t = (Ok y, s')"
  using assms by (auto simp: bindM_Ok_iff)

lemma bindM_run [simp]:
  "m s = (Ok x, t) \<Longrightarrow> bindM m f s = f x t"
  "m s = (Err e, t) \<Longrightarrow> bindM m f s = (Err e, t)"
  "m s = (Panic p, t) \<Longrightarrow> bindM m f s = (Panic p, t)"
  "m s = (Fatal p, t) \<Longrightarrow> bindM m f s = (Fatal p, t)"
  by (simp_all add: bindM_def)

lemma bindM_ret [simp]: "bindM (ret x) f = f x"
  by (simp add: bindM_def fun_eq_iff)

lemma bindM_ret_right [simp]: "bindM m ret = m"
  by (auto simp: bindM_def fun_eq_iff split: prod.splits outcome.splits)

lemma bindM_assoc: "bindM (bindM m f) g = bindM m (\<lambda>x. bindM (f x) g)"
  by (auto simp: bindM_def fun_eq_iff split: prod.splits outcome.splits)

lemma tryM_Ok_iff [go_simps]:
  "tryM m s = (Ok r, s') \<longleftrightarrow>
     (case r of Inr x \<Rightarrow> m s = (Ok x, s') | Inl e \<Rightarrow> m s = (Err e, s'))"
  by (auto simp: tryM_def split: prod.splits outcome.splits sum.splits)

lemma tryM_run [simp]:
  "m s = (Ok x, t) \<Longrightarrow> tryM m s = (Ok (Inr x), t)"
  "m s = (Err e, t) \<Longrightarrow> tryM m s = (Ok (Inl e), t)"
  by (simp_all add: tryM_def)

section \<open>State predicates kept by a statement\<close>

text \<open>
  \<open>preserves I m\<close>: whatever the outcome of \<open>m\<close>, an error included, the state it leaves
  satisfies \<open>I\<close> if the state it started from did.
\<close>

definition preserves :: "('s \<Rightarrow> bool) \<Rightarrow> ('s, 'e, 'a) go \<Rightarrow> bool" where
  "preserves I m \<longleftrightarrow> (\<forall>s. I s \<longrightarrow> I (snd (m s)))"

lemma preservesD: "preserves I m \<Longrightarrow> I s \<Longrightarrow> m s = (r, s') \<Longrightarrow> I s'"
  by (force simp: preserves_def)

lemma preserves_ret [preserves_intros, simp]: "preserves I (ret x)"
  and preserves_throw [preserves_intros, simp]: "preserves I (throw e)"
  and preserves_panic [preserves_intros, simp]: "preserves I (panic p)"
  and preserves_fatal [preserves_intros, simp]: "preserves I (fatal p)"
  by (simp_all add: preserves_def)

lemma preserves_bindM [preserves_intros]:
  assumes "preserves I m" and "\<And>x. preserves I (f x)"
  shows "preserves I (bindM m f)"
  unfolding preserves_def
proof (intro allI impI)
  fix s assume "I s"
  with assms(1) have "I (snd (m s))" by (simp add: preserves_def)
  then show "I (snd (bindM m f s))"
    using assms(2) by (cases "m s"; cases "fst (m s)") (auto simp: bindM_def preserves_def)
qed

lemma preserves_tryM [preserves_intros]: "preserves I m \<Longrightarrow> preserves I (tryM m)"
  unfolding preserves_def tryM_def
  by (metis (mono_tags, lifting) case_prod_beta outcome.exhaust outcome.simps(17-20) snd_conv)

lemma preserves_forM:
  assumes "\<And>x. x \<in> set xs \<Longrightarrow> preserves I (f x)"
  shows "preserves I (forM xs f)"
  using assms by (induction xs) (auto intro!: preserves_intros)

lemma preserves_mapM:
  assumes "\<And>x. x \<in> set xs \<Longrightarrow> preserves I (f x)"
  shows "preserves I (mapM f xs)"
  using assms by (induction xs) (auto intro!: preserves_intros)

lemma preserves_if [preserves_intros]:
  "(b \<Longrightarrow> preserves I m) \<Longrightarrow> (\<not> b \<Longrightarrow> preserves I n) \<Longrightarrow> preserves I (if b then m else n)"
  by simp

lemma preserves_option [preserves_intros]:
  assumes "v = None \<Longrightarrow> preserves I m" and "\<And>x. v = Some x \<Longrightarrow> preserves I (f x)"
  shows "preserves I (case v of None \<Rightarrow> m | Some x \<Rightarrow> f x)"
  using assms by (cases v) auto

lemma preserves_sum [preserves_intros]:
  assumes "\<And>x. v = Inl x \<Longrightarrow> preserves I (f x)" and "\<And>x. v = Inr x \<Longrightarrow> preserves I (g x)"
  shows "preserves I (case v of Inl x \<Rightarrow> f x | Inr x \<Rightarrow> g x)"
  using assms by (cases v) auto

section \<open>Loops that end well\<close>

lemma forM_append: "forM (xs @ ys) f = bindM (forM xs f) (\<lambda>_. forM ys f)"
  by (induction xs) (simp_all add: bindM_assoc)

lemma mapM_length: "mapM f xs s = (Ok ys, s') \<Longrightarrow> length ys = length xs"
  by (induction xs arbitrary: s ys) (auto simp: go_simps)

text \<open>
  A loop whose body never fails on the states it meets runs to its end, and a predicate that
  relates the elements already visited to the state holds at the end.
\<close>

lemma forM_induct:
  assumes ok: "forM xs f s = (Ok u, s')"
    and init: "P [] s"
    and step: "\<And>ys x zs t t' v. xs = ys @ x # zs \<Longrightarrow> P ys t \<Longrightarrow> f x t = (Ok v, t') \<Longrightarrow> P (ys @ [x]) t'"
  shows "P xs s'"
proof -
  have "P (ys @ xs') s'"
    if "xs = ys @ xs'" "P ys t" "forM xs' f t = (Ok w, s')" for ys xs' t w
    using that
  proof (induction xs' arbitrary: ys t)
    case Nil
    then show ?case by simp
  next
    case (Cons x zs)
    from Cons.prems(3) obtain v t' where "f x t = (Ok v, t')" "forM zs f t' = (Ok w, s')"
      by (auto simp: go_simps)
    with Cons.IH [of "ys @ [x]" t'] Cons.prems(1,2) step [of ys x zs t v t'] show ?case
      by simp
  qed
  from this [of "[]" xs s u] ok init show ?thesis by simp
qed

section \<open>Go maps\<close>

text \<open>
  A Go map is an association list with distinct keys (\<open>go_map\<close>): \<open>map_of m k\<close> is the lookup
  \<open>v, ok := m[k]\<close> and \<open>AList.update k v m\<close> the assignment \<open>m[k] = v\<close>.  The language leaves
  open in which order \<open>range\<close> visits the entries: a loop over a map takes a function \<open>ord\<close>
  that gives, for a map of \<open>n\<close> entries, the order of the visits as a permutation of the
  indices below \<open>n\<close> (\<open>range_perm\<close>), and theorems hold for every such \<open>ord\<close>.
\<close>

type_synonym ('k, 'v) gomap = "('k \<times> 'v) list"

type_synonym range_ord = "nat \<Rightarrow> nat list"

definition go_map :: "('k, 'v) gomap \<Rightarrow> bool" where
  "go_map m \<longleftrightarrow> distinct (map fst m)"

definition range_perm :: "range_ord \<Rightarrow> bool" where
  "range_perm ord \<longleftrightarrow> (\<forall>n. distinct (ord n) \<and> set (ord n) = {..<n})"

definition range_of :: "range_ord \<Rightarrow> 'a list \<Rightarrow> 'a list" where
  "range_of ord m = map (\<lambda>i. m ! i) (ord (length m))"

definition in_order :: range_ord where
  "in_order n = [0..<n]"

definition in_reverse :: range_ord where
  "in_reverse n = rev [0..<n]"

lemma range_perm_in_order: "range_perm in_order"
  by (auto simp: range_perm_def in_order_def)

lemma range_perm_in_reverse: "range_perm in_reverse"
  by (auto simp: range_perm_def in_reverse_def)

lemma range_of_in_order: "range_of in_order m = m"
  by (simp add: range_of_def in_order_def map_nth)

lemma set_range_of [simp]: "range_perm ord \<Longrightarrow> set (range_of ord m) = set m"
  by (simp add: range_perm_def range_of_def nth_image lessThan_atLeast0)

lemma go_map_range_of:
  assumes "range_perm ord" "go_map m"
  shows "go_map (range_of ord m)"
proof -
  have "inj_on ((!) (map fst m)) (set (ord (length m)))"
    using assms by (auto simp: range_perm_def go_map_def inj_on_nth)
  moreover have "map fst (range_of ord m) = map ((!) (map fst m)) (ord (length m))"
    using assms(1) by (simp add: range_of_def range_perm_def)
  ultimately show ?thesis
    using assms(1) by (simp add: go_map_def distinct_map range_perm_def)
qed

lemma map_of_eq_set:
  assumes "go_map m" "go_map m'" "set m = set m'"
  shows "map_of m = map_of m'"
  by (metis assms go_map_def map_of_inject_set)

lemma map_of_range_of:
  "range_perm ord \<Longrightarrow> go_map m \<Longrightarrow> map_of (range_of ord m) = map_of m"
  by (rule map_of_eq_set) (auto intro: go_map_range_of)

lemma go_map_Nil [simp]: "go_map []"
  by (simp add: go_map_def)

lemma go_map_update [simp]: "go_map m \<Longrightarrow> go_map (AList.update k v m)"
  by (simp add: go_map_def distinct_update)

lemma go_map_lookup: "go_map m \<Longrightarrow> map_of m k = Some v \<longleftrightarrow> (k, v) \<in> set m"
  by (simp add: go_map_def)

lemma go_map_entry_unique:
  "go_map m \<Longrightarrow> (k, v) \<in> set m \<Longrightarrow> (k, w) \<in> set m \<Longrightarrow> v = w"
  by (metis go_map_lookup option.inject)

lemma map_of_fold_update:
  "map_of (fold (\<lambda>(k, v). AList.update k v) kvs m) = map_of m ++ map_of (rev kvs)"
  by (induction kvs arbitrary: m) (auto simp: update_conv' map_add_upd_left fun_eq_iff map_add_def split: option.splits)

lemma go_map_fold_update [simp]:
  "go_map m \<Longrightarrow> go_map (fold (\<lambda>(k, v). AList.update k v) kvs m)"
  by (induction kvs arbitrary: m) auto

lemma map_of_rev_go_map: "go_map m \<Longrightarrow> map_of (rev m) = map_of m"
  by (rule map_of_eq_set) (simp_all add: go_map_def rev_map [symmetric])

lemma map_le_iff: "m \<subseteq>\<^sub>m n \<longleftrightarrow> (\<forall>k v. m k = Some v \<longrightarrow> n k = Some v)"
  by (force simp: map_le_def dom_def)

section \<open>Lists\<close>

lemma find_last_snoc: "find P (rev (xs @ [x])) = (if P x then Some x else find P (rev xs))"
  by simp

lemma find_rev_None: "find P (rev xs) = None \<longleftrightarrow> (\<forall>x \<in> set xs. \<not> P x)"
  by (auto simp: find_None_iff)

lemma find_append: "find P (xs @ ys) = (case find P xs of None \<Rightarrow> find P ys | Some x \<Rightarrow> Some x)"
  by (induction xs) auto

lemma find_SomeD: "find P xs = Some x \<Longrightarrow> P x \<and> x \<in> set xs"
  by (induction xs) (auto split: if_splits)

lemma filter_unique_key:
  assumes "distinct (map f xs)"
  shows "filter (\<lambda>x. f x = k \<and> Q x) xs =
     (case find (\<lambda>x. f x = k) xs of None \<Rightarrow> [] | Some x \<Rightarrow> if Q x then [x] else [])"
  using assms
proof (induction xs)
  case (Cons x xs)
  show ?case
  proof (cases "f x = k")
    case True
    with Cons.prems have "filter (\<lambda>x. f x = k \<and> Q x) xs = []"
      by (auto simp: filter_empty_conv image_iff)
    with True show ?thesis by simp
  next
    case False
    with Cons show ?thesis by simp
  qed
qed simp

end
