(* ===== verification/VncTypes.thy ===== *)
theory VncTypes
  imports Prelude
begin

text \<open>
  The objects of the Contrail configuration API that the provisioner reads and writes
  (\<open>contrail-provisioner/contrail-go-types\<close>), and the client it reaches them through.

  The generated Go types embed \<open>contrail.ObjectBase\<close> of the package contrail-go-api, which is
  not part of the repository: its state is the type variable \<open>'b\<close> and its methods are fields of
  the record \<open>contrail_api\<close>, as are the methods of \<open>contrail.Client\<close>.  Every definition that
  calls them takes that record as an argument.  \<open>'l\<close> is \<open>contrail.ListResult\<close>, \<open>'s\<close> is what
  the API server stores.

  Each object record has the fields that the provisioner uses, with \<open>modified\<close> (and \<open>valid\<close>
  where a getter tests it) as the set of the field names whose flag is true.
\<close>

section \<open>Errors\<close>

text \<open>
  A Go \<open>error\<close> as far as the provisioner looks into it: its text, whether it implements
  \<open>net.Error\<close> and then what \<open>Timeout()\<close> says, and what \<open>errors.Unwrap\<close> gives.
\<close>

datatype wrapped_error = OpError string | Errno int | OtherError string

datatype go_error =
  GoError (error_text: string) (net_timeout: "bool option") (unwrapped: "wrapped_error option")

definition errors_New :: "string \<Rightarrow> go_error" where
  "errors_New msg = GoError msg None None"

section \<open>Objects\<close>

type_synonym key_value_pairs = "(string \<times> string) list"

record reference =
  ref_to :: "string list"
  ref_uuid :: string
  ref_href :: string

text \<open>\<open>AnalyticsNode\<close>, \<open>ConfigNode\<close> and \<open>DatabaseNode\<close> have the same shape.\<close>

record 'b infra_node =
  nd_base :: 'b
  nd_ip_address :: string
  nd_annotations :: key_value_pairs
  nd_modified :: "string set"

record bgp_router_params =
  AdminDown :: bool
  Vendor :: string
  AutonomousSystem :: int
  Identifier :: string
  Address :: string
  Port :: int
  HoldTime :: int
  AddressFamilies :: "string list option"
  RouterType :: string

definition no_bgp_router_params :: bgp_router_params where
  "no_bgp_router_params =
     \<lparr>AdminDown = False, Vendor = [], AutonomousSystem = 0, Identifier = [], Address = [],
      Port = 0, HoldTime = 0, AddressFamilies = None, RouterType = []\<rparr>"

record 'b bgp_router =
  br_base :: 'b
  br_parameters :: bgp_router_params
  br_annotations :: key_value_pairs
  br_modified :: "string set"

record 'b virtual_router =
  vr_base :: 'b
  vr_ip_address :: string
  vr_annotations :: key_value_pairs
  vr_virtual_machine_interfaces :: "reference list"
  vr_valid :: "string set"
  vr_modified :: "string set"

record 'b virtual_machine_interface =
  vmi_base :: 'b
  vmi_disable_policy :: bool
  vmi_virtual_network_refs :: "reference list"
  vmi_valid :: "string set"
  vmi_modified :: "string set"
  vmi_baseMap :: "string \<rightharpoonup> reference list"

record 'b global_system_config =
  gsc_base :: 'b
  gsc_bgp_router_refs :: "reference list"
  gsc_valid :: "string set"
  gsc_modified :: "string set"
  gsc_baseMap :: "string \<rightharpoonup> reference list"

record ecmp_hashing_include_fields =
  HashingConfigured :: bool
  SourceIp :: bool
  DestinationIp :: bool
  IpProtocol :: bool
  SourcePort :: bool
  DestinationPort :: bool

record 'b global_vrouter_config =
  gvc_base :: 'b
  gvc_encapsulation_priorities :: "string list"
  gvc_ecmp_hashing :: ecmp_hashing_include_fields
  gvc_vxlan_mode :: string
  gvc_modified :: "string set"

datatype 'b iobject =
    AnalyticsNodeObj "'b infra_node"
  | ConfigNodeObj "'b infra_node"
  | DatabaseNodeObj "'b infra_node"
  | BgpRouterObj "'b bgp_router"
  | VirtualRouterObj "'b virtual_router"
  | VMIObj "'b virtual_machine_interface"
  | GlobalSystemConfigObj "'b global_system_config"
  | GlobalVrouterConfigObj "'b global_vrouter_config"
  | RoutingInstanceObj 'b
  | VirtualNetworkObj 'b

fun obj_base :: "'b iobject \<Rightarrow> 'b" where
  "obj_base (AnalyticsNodeObj n) = nd_base n"
| "obj_base (ConfigNodeObj n) = nd_base n"
| "obj_base (DatabaseNodeObj n) = nd_base n"
| "obj_base (BgpRouterObj r) = br_base r"
| "obj_base (VirtualRouterObj r) = vr_base r"
| "obj_base (VMIObj v) = vmi_base v"
| "obj_base (GlobalSystemConfigObj g) = gsc_base g"
| "obj_base (GlobalVrouterConfigObj g) = gvc_base g"
| "obj_base (RoutingInstanceObj b) = b"
| "obj_base (VirtualNetworkObj b) = b"

fun GetType :: "'b iobject \<Rightarrow> string" where
  "GetType (AnalyticsNodeObj n) = ''analytics-node''"
| "GetType (ConfigNodeObj n) = ''config-node''"
| "GetType (DatabaseNodeObj n) = ''database-node''"
| "GetType (BgpRouterObj r) = ''bgp-router''"
| "GetType (VirtualRouterObj r) = ''virtual-router''"
| "GetType (VMIObj v) = ''virtual-machine-interface''"
| "GetType (GlobalSystemConfigObj g) = ''global-system-config''"
| "GetType (GlobalVrouterConfigObj g) = ''global-vrouter-config''"
| "GetType (RoutingInstanceObj b) = ''routing-instance''"
| "GetType (VirtualNetworkObj b) = ''virtual-network''"

section \<open>The client and the object base\<close>

text \<open>
  The interface \<open>contrailclient.ApiClient\<close> and the methods of \<open>contrail.ObjectBase\<close>.
  \<open>base_SetName\<close> and \<open>base_SetParent\<close> are \<open>VSetName\<close> and \<open>VSetParent\<close>, which also see the
  type of the object they are called on.  \<open>Create\<close> works through a pointer: it returns the
  object as it is after the call (the server gives it its UUID).  \<open>GetField\<close> asks the server for
  one list of references; it returns \<open>None\<close> when the answer has no such field, so that the
  object stays as it is.
\<close>

record ('b, 'l, 's) contrail_api =
  base_new :: 'b
  base_SetFQName :: "string \<Rightarrow> string list \<Rightarrow> 'b \<Rightarrow> 'b"
  base_SetName :: "string \<Rightarrow> string \<Rightarrow> 'b \<Rightarrow> 'b"
  base_SetParent :: "string \<Rightarrow> 'b iobject \<Rightarrow> 'b \<Rightarrow> 'b"
  base_GetName :: "'b \<Rightarrow> string"
  base_GetFQName :: "'b \<Rightarrow> string list"
  base_GetUuid :: "'b \<Rightarrow> string"
  base_GetHref :: "'b \<Rightarrow> string"
  base_IsTransient :: "'b \<Rightarrow> bool"
  api_GetField :: "'b iobject \<Rightarrow> string \<Rightarrow> ('s, go_error, reference list option) go"
  api_Create :: "'b iobject \<Rightarrow> ('s, go_error, 'b iobject) go"
  api_Update :: "'b iobject \<Rightarrow> ('s, go_error, unit) go"
  api_Delete :: "'b iobject \<Rightarrow> ('s, go_error, unit) go"
  api_DeleteByUuid :: "string \<Rightarrow> string \<Rightarrow> ('s, go_error, unit) go"
  api_FindByUuid :: "string \<Rightarrow> string \<Rightarrow> ('s, go_error, 'b iobject) go"
  api_FindByName :: "string \<Rightarrow> string \<Rightarrow> ('s, go_error, 'b iobject) go"
  api_List :: "string \<Rightarrow> ('s, go_error, 'l list) go"
  api_ReadListResult :: "string \<Rightarrow> 'l \<Rightarrow> ('s, go_error, 'b iobject) go"

definition obj_GetName :: "('b, 'l, 's) contrail_api \<Rightarrow> 'b iobject \<Rightarrow> string" where
  "obj_GetName cl obj = base_GetName cl (obj_base obj)"

definition obj_GetFQName :: "('b, 'l, 's) contrail_api \<Rightarrow> 'b iobject \<Rightarrow> string list" where
  "obj_GetFQName cl obj = base_GetFQName cl (obj_base obj)"

definition obj_GetUuid :: "('b, 'l, 's) contrail_api \<Rightarrow> 'b iobject \<Rightarrow> string" where
  "obj_GetUuid cl obj = base_GetUuid cl (obj_base obj)"

definition reference_to :: "('b, 'l, 's) contrail_api \<Rightarrow> 'b \<Rightarrow> reference" where
  "reference_to cl b =
     \<lparr>ref_to = base_GetFQName cl b, ref_uuid = base_GetUuid cl b, ref_href = base_GetHref cl b\<rparr>"

section \<open>Type assertions\<close>

text \<open>The assertion \<open>obj.(*T)\<close> without the second result: a panic when the type is another.\<close>

fun as_AnalyticsNode :: "'b iobject \<Rightarrow> ('s, go_error, 'b infra_node) go" where
  "as_AnalyticsNode (AnalyticsNodeObj n) = ret n"
| "as_AnalyticsNode _ = panic ''interface conversion''"

fun as_ConfigNode :: "'b iobject \<Rightarrow> ('s, go_error, 'b infra_node) go" where
  "as_ConfigNode (ConfigNodeObj n) = ret n"
| "as_ConfigNode _ = panic ''interface conversion''"

fun as_DatabaseNode :: "'b iobject \<Rightarrow> ('s, go_error, 'b infra_node) go" where
  "as_DatabaseNode (DatabaseNodeObj n) = ret n"
| "as_DatabaseNode _ = panic ''interface conversion''"

fun as_BgpRouter :: "'b iobject \<Rightarrow> ('s, go_error, 'b bgp_router) go" where
  "as_BgpRouter (BgpRouterObj r) = ret r"
| "as_BgpRouter _ = panic ''interface conversion''"

fun as_VirtualRouter :: "'b iobject \<Rightarrow> ('s, go_error, 'b virtual_router) go" where
  "as_VirtualRouter (VirtualRouterObj r) = ret r"
| "as_VirtualRouter _ = panic ''interface conversion''"

fun as_GlobalSystemConfig :: "'b iobject \<Rightarrow> ('s, go_error, 'b global_system_config) go" where
  "as_GlobalSystemConfig (GlobalSystemConfigObj g) = ret g"
| "as_GlobalSystemConfig _ = panic ''interface conversion''"

fun as_GlobalVrouterConfig :: "'b iobject \<Rightarrow> ('s, go_error, 'b global_vrouter_config) go" where
  "as_GlobalVrouterConfig (GlobalVrouterConfigObj g) = ret g"
| "as_GlobalVrouterConfig _ = panic ''interface conversion''"

fun as_RoutingInstance :: "'b iobject \<Rightarrow> ('s, go_error, 'b) go" where
  "as_RoutingInstance (RoutingInstanceObj b) = ret b"
| "as_RoutingInstance _ = panic ''interface conversion''"

fun as_VirtualNetwork :: "'b iobject \<Rightarrow> ('s, go_error, 'b) go" where
  "as_VirtualNetwork (VirtualNetworkObj b) = ret b"
| "as_VirtualNetwork _ = panic ''interface conversion''"

lemma preserves_as [preserves_intros]:
  "preserves I (as_AnalyticsNode obj)" "preserves I (as_ConfigNode obj)"
  "preserves I (as_DatabaseNode obj)" "preserves I (as_BgpRouter obj)"
  "preserves I (as_VirtualRouter obj)" "preserves I (as_GlobalSystemConfig obj)"
  "preserves I (as_GlobalVrouterConfig obj)" "preserves I (as_RoutingInstance obj)"
  "preserves I (as_VirtualNetwork obj)"
  by (cases obj; simp)+

lemma as_Ok_iff [go_simps]:
  "as_AnalyticsNode obj s = (Ok n, s') \<longleftrightarrow> obj = AnalyticsNodeObj n \<and> s' = s"
  "as_ConfigNode obj s = (Ok n, s') \<longleftrightarrow> obj = ConfigNodeObj n \<and> s' = s"
  "as_DatabaseNode obj s = (Ok n, s') \<longleftrightarrow> obj = DatabaseNodeObj n \<and> s' = s"
  "as_BgpRouter obj s = (Ok r, s') \<longleftrightarrow> obj = BgpRouterObj r \<and> s' = s"
  "as_VirtualRouter obj s = (Ok v, s') \<longleftrightarrow> obj = VirtualRouterObj v \<and> s' = s"
  "as_GlobalSystemConfig obj s = (Ok g, s') \<longleftrightarrow> obj = GlobalSystemConfigObj g \<and> s' = s"
  by (cases obj; auto)+

section \<open>Setters and reference lists of the generated types\<close>

definition new_infra_node :: "('b, 'l, 's) contrail_api \<Rightarrow> 'b infra_node" where
  "new_infra_node cl =
     \<lparr>nd_base = base_new cl, nd_ip_address = [], nd_annotations = [], nd_modified = {}\<rparr>"

definition SetAnalyticsNodeIpAddress :: "string \<Rightarrow> 'b infra_node \<Rightarrow> 'b infra_node" where
  "SetAnalyticsNodeIpAddress v n =
     n\<lparr>nd_ip_address := v, nd_modified := insert ''analytics_node_ip_address'' (nd_modified n)\<rparr>"

definition SetConfigNodeIpAddress :: "string \<Rightarrow> 'b infra_node \<Rightarrow> 'b infra_node" where
  "SetConfigNodeIpAddress v n =
     n\<lparr>nd_ip_address := v, nd_modified := insert ''config_node_ip_address'' (nd_modified n)\<rparr>"

definition SetDatabaseNodeIpAddress :: "string \<Rightarrow> 'b infra_node \<Rightarrow> 'b infra_node" where
  "SetDatabaseNodeIpAddress v n =
     n\<lparr>nd_ip_address := v, nd_modified := insert ''database_node_ip_address'' (nd_modified n)\<rparr>"

definition nd_SetAnnotations :: "key_value_pairs \<Rightarrow> 'b infra_node \<Rightarrow> 'b infra_node" where
  "nd_SetAnnotations v n =
     n\<lparr>nd_annotations := v, nd_modified := insert ''annotations'' (nd_modified n)\<rparr>"

definition nd_SetFQName ::
  "('b, 'l, 's) contrail_api \<Rightarrow> string \<Rightarrow> string list \<Rightarrow> 'b infra_node \<Rightarrow> 'b infra_node" where
  "nd_SetFQName cl parentType fqn n = n\<lparr>nd_base := base_SetFQName cl parentType fqn (nd_base n)\<rparr>"

definition new_bgp_router :: "('b, 'l, 's) contrail_api \<Rightarrow> 'b bgp_router" where
  "new_bgp_router cl =
     \<lparr>br_base = base_new cl, br_parameters = no_bgp_router_params, br_annotations = [],
      br_modified = {}\<rparr>"

definition br_SetFQName ::
  "('b, 'l, 's) contrail_api \<Rightarrow> string \<Rightarrow> string list \<Rightarrow> 'b bgp_router \<Rightarrow> 'b bgp_router" where
  "br_SetFQName cl parentType fqn r = r\<lparr>br_base := base_SetFQName cl parentType fqn (br_base r)\<rparr>"

definition br_SetName ::
  "('b, 'l, 's) contrail_api \<Rightarrow> string \<Rightarrow> 'b bgp_router \<Rightarrow> 'b bgp_router" where
  "br_SetName cl name r = r\<lparr>br_base := base_SetName cl ''bgp-router'' name (br_base r)\<rparr>"

definition br_SetParent ::
  "('b, 'l, 's) contrail_api \<Rightarrow> 'b iobject \<Rightarrow> 'b bgp_router \<Rightarrow> 'b bgp_router" where
  "br_SetParent cl parent r = r\<lparr>br_base := base_SetParent cl ''bgp-router'' parent (br_base r)\<rparr>"

definition br_SetAnnotations :: "key_value_pairs \<Rightarrow> 'b bgp_router \<Rightarrow> 'b bgp_router" where
  "br_SetAnnotations v r =
     r\<lparr>br_annotations := v, br_modified := insert ''annotations'' (br_modified r)\<rparr>"

definition SetBgpRouterParameters :: "bgp_router_params \<Rightarrow> 'b bgp_router \<Rightarrow> 'b bgp_router" where
  "SetBgpRouterParameters v r =
     r\<lparr>br_parameters := v, br_modified := insert ''bgp_router_parameters'' (br_modified r)\<rparr>"

definition new_virtual_router :: "('b, 'l, 's) contrail_api \<Rightarrow> 'b virtual_router" where
  "new_virtual_router cl =
     \<lparr>vr_base = base_new cl, vr_ip_address = [], vr_annotations = [],
      vr_virtual_machine_interfaces = [], vr_valid = {}, vr_modified = {}\<rparr>"

definition vr_SetName ::
  "('b, 'l, 's) contrail_api \<Rightarrow> string \<Rightarrow> 'b virtual_router \<Rightarrow> 'b virtual_router" where
  "vr_SetName cl name r = r\<lparr>vr_base := base_SetName cl ''virtual-router'' name (vr_base r)\<rparr>"

definition vr_SetParent ::
  "('b, 'l, 's) contrail_api \<Rightarrow> 'b iobject \<Rightarrow> 'b virtual_router \<Rightarrow> 'b virtual_router" where
  "vr_SetParent cl parent r =
     r\<lparr>vr_base := base_SetParent cl ''virtual-router'' parent (vr_base r)\<rparr>"

definition SetVirtualRouterIpAddress :: "string \<Rightarrow> 'b virtual_router \<Rightarrow> 'b virtual_router" where
  "SetVirtualRouterIpAddress v r =
     r\<lparr>vr_ip_address := v, vr_modified := insert ''virtual_router_ip_address'' (vr_modified r)\<rparr>"

definition vr_SetAnnotations :: "key_value_pairs \<Rightarrow> 'b virtual_router \<Rightarrow> 'b virtual_router" where
  "vr_SetAnnotations v r =
     r\<lparr>vr_annotations := v, vr_modified := insert ''annotations'' (vr_modified r)\<rparr>"

text \<open>
  \<open>readVirtualMachineInterfaces\<close> and \<open>GetVirtualMachineInterfaces\<close>: the list is read from the
  server the first time; the object itself is updated.
\<close>

definition GetVirtualMachineInterfaces ::
  "('b, 'l, 's) contrail_api \<Rightarrow> 'b virtual_router
    \<Rightarrow> ('s, go_error, reference list \<times> 'b virtual_router) go" where
  "GetVirtualMachineInterfaces cl r =
     (if \<not> base_IsTransient cl (vr_base r) \<and> ''virtual_machine_interfaces'' \<notin> vr_valid r
      then bindM (api_GetField cl (VirtualRouterObj r) ''virtual_machine_interfaces'') (\<lambda>v.
             case v of
               None \<Rightarrow> ret (vr_virtual_machine_interfaces r, r)
             | Some refs \<Rightarrow>
                 ret (refs, r\<lparr>vr_virtual_machine_interfaces := refs,
                               vr_valid := insert ''virtual_machine_interfaces'' (vr_valid r)\<rparr>))
      else ret (vr_virtual_machine_interfaces r, r))"

definition new_vmi :: "('b, 'l, 's) contrail_api \<Rightarrow> 'b virtual_machine_interface" where
  "new_vmi cl =
     \<lparr>vmi_base = base_new cl, vmi_disable_policy = False, vmi_virtual_network_refs = [],
      vmi_valid = {}, vmi_modified = {}, vmi_baseMap = Map.empty\<rparr>"

definition vmi_SetName ::
  "('b, 'l, 's) contrail_api \<Rightarrow> string \<Rightarrow> 'b virtual_machine_interface
    \<Rightarrow> 'b virtual_machine_interface" where
  "vmi_SetName cl name v =
     v\<lparr>vmi_base := base_SetName cl ''virtual-machine-interface'' name (vmi_base v)\<rparr>"

definition vmi_SetParent ::
  "('b, 'l, 's) contrail_api \<Rightarrow> 'b iobject \<Rightarrow> 'b virtual_machine_interface
    \<Rightarrow> 'b virtual_machine_interface" where
  "vmi_SetParent cl parent v =
     v\<lparr>vmi_base := base_SetParent cl ''virtual-machine-interface'' parent (vmi_base v)\<rparr>"

definition SetVirtualMachineInterfaceDisablePolicy ::
  "bool \<Rightarrow> 'b virtual_machine_interface \<Rightarrow> 'b virtual_machine_interface" where
  "SetVirtualMachineInterfaceDisablePolicy b v =
     v\<lparr>vmi_disable_policy := b,
       vmi_modified := insert ''virtual_machine_interface_disable_policy'' (vmi_modified v)\<rparr>"

definition ClearVirtualNetwork :: "'b virtual_machine_interface \<Rightarrow> 'b virtual_machine_interface" where
  "ClearVirtualNetwork v =
     (let v' = (if ''virtual_network_refs'' \<in> vmi_valid v \<and> ''virtual_network_refs'' \<notin> vmi_modified v
                then v\<lparr>vmi_baseMap := (vmi_baseMap v)(''virtual-network'' \<mapsto> vmi_virtual_network_refs v)\<rparr>
                else v)
      in v'\<lparr>vmi_virtual_network_refs := [],
            vmi_valid := insert ''virtual_network_refs'' (vmi_valid v'),
            vmi_modified := insert ''virtual_network_refs'' (vmi_modified v')\<rparr>)"

definition SetVirtualNetworkList ::
  "('b, 'l, 's) contrail_api \<Rightarrow> 'b list \<Rightarrow> 'b virtual_machine_interface
    \<Rightarrow> 'b virtual_machine_interface" where
  "SetVirtualNetworkList cl networks v =
     (ClearVirtualNetwork v)\<lparr>vmi_virtual_network_refs := map (reference_to cl) networks\<rparr>"

definition VirtualNetworkByName ::
  "('b, 'l, 's) contrail_api \<Rightarrow> string \<Rightarrow> ('s, go_error, 'b) go" where
  "VirtualNetworkByName cl fqn =
     bindM (api_FindByName cl ''virtual-network'' fqn) as_VirtualNetwork"

text \<open>The references of a \<open>GlobalSystemConfig\<close> to BGP routers.\<close>

definition readBgpRouterRefs ::
  "('b, 'l, 's) contrail_api \<Rightarrow> 'b global_system_config
    \<Rightarrow> ('s, go_error, 'b global_system_config) go" where
  "readBgpRouterRefs cl g =
     (if \<not> base_IsTransient cl (gsc_base g) \<and> ''bgp_router_refs'' \<notin> gsc_valid g
      then bindM (api_GetField cl (GlobalSystemConfigObj g) ''bgp_router_refs'') (\<lambda>v.
             case v of
               None \<Rightarrow> ret g
             | Some refs \<Rightarrow>
                 ret (g\<lparr>gsc_bgp_router_refs := refs,
                        gsc_valid := insert ''bgp_router_refs'' (gsc_valid g)\<rparr>))
      else ret g)"

definition storeBgpRouterBase :: "'b global_system_config \<Rightarrow> 'b global_system_config" where
  "storeBgpRouterBase g =
     (if ''bgp_router_refs'' \<notin> gsc_modified g
      then g\<lparr>gsc_baseMap := (gsc_baseMap g)(''bgp-router'' \<mapsto> gsc_bgp_router_refs g)\<rparr>
      else g)"

definition GetBgpRouterRefs ::
  "('b, 'l, 's) contrail_api \<Rightarrow> 'b global_system_config \<Rightarrow> ('s, go_error, reference list) go" where
  "GetBgpRouterRefs cl g = bindM (readBgpRouterRefs cl g) (\<lambda>g. ret (gsc_bgp_router_refs g))"

definition AddBgpRouter ::
  "('b, 'l, 's) contrail_api \<Rightarrow> 'b bgp_router \<Rightarrow> 'b global_system_config
    \<Rightarrow> ('s, go_error, 'b global_system_config) go" where
  "AddBgpRouter cl rhs g =
     bindM (readBgpRouterRefs cl g) (\<lambda>g.
       let g = storeBgpRouterBase g
       in ret (g\<lparr>gsc_bgp_router_refs := gsc_bgp_router_refs g @ [reference_to cl (br_base rhs)],
                 gsc_modified := insert ''bgp_router_refs'' (gsc_modified g)\<rparr>))"

text \<open>The loop of \<open>DeleteBgpRouter\<close>: it drops the first reference with the UUID and stops.\<close>

fun drop_first_ref :: "string \<Rightarrow> reference list \<Rightarrow> reference list" where
  "drop_first_ref uuid [] = []"
| "drop_first_ref uuid (r # rs) = (if ref_uuid r = uuid then rs else r # drop_first_ref uuid rs)"

definition DeleteBgpRouter ::
  "('b, 'l, 's) contrail_api \<Rightarrow> string \<Rightarrow> 'b global_system_config
    \<Rightarrow> ('s, go_error, 'b global_system_config) go" where
  "DeleteBgpRouter cl uuid g =
     bindM (readBgpRouterRefs cl g) (\<lambda>g.
       let g = storeBgpRouterBase g
       in ret (g\<lparr>gsc_bgp_router_refs := drop_first_ref uuid (gsc_bgp_router_refs g),
                 gsc_modified := insert ''bgp_router_refs'' (gsc_modified g)\<rparr>))"

definition new_global_vrouter_config :: "('b, 'l, 's) contrail_api \<Rightarrow> 'b global_vrouter_config" where
  "new_global_vrouter_config cl =
     \<lparr>gvc_base = base_new cl, gvc_encapsulation_priorities = [],
      gvc_ecmp_hashing = \<lparr>HashingConfigured = False, SourceIp = False, DestinationIp = False,
                          IpProtocol = False, SourcePort = False, DestinationPort = False\<rparr>,
      gvc_vxlan_mode = [], gvc_modified = {}\<rparr>"

definition SetEncapsulationPriorities ::
  "string list \<Rightarrow> 'b global_vrouter_config \<Rightarrow> 'b global_vrouter_config" where
  "SetEncapsulationPriorities v g =
     g\<lparr>gvc_encapsulation_priorities := v,
       gvc_modified := insert ''encapsulation_priorities'' (gvc_modified g)\<rparr>"

definition SetEcmpHashingIncludeFields ::
  "ecmp_hashing_include_fields \<Rightarrow> 'b global_vrouter_config \<Rightarrow> 'b global_vrouter_config" where
  "SetEcmpHashingIncludeFields v g =
     g\<lparr>gvc_ecmp_hashing := v,
       gvc_modified := insert ''ecmp_hashing_include_fields'' (gvc_modified g)\<rparr>"

definition SetVxlanNetworkIdentifierMode ::
  "string \<Rightarrow> 'b global_vrouter_config \<Rightarrow> 'b global_vrouter_config" where
  "SetVxlanNetworkIdentifierMode v g =
     g\<lparr>gvc_vxlan_mode := v,
       gvc_modified := insert ''vxlan_network_identifier_mode'' (gvc_modified g)\<rparr>"

definition gvc_SetFQName ::
  "('b, 'l, 's) contrail_api \<Rightarrow> string \<Rightarrow> string list \<Rightarrow> 'b global_vrouter_config
    \<Rightarrow> 'b global_vrouter_config" where
  "gvc_SetFQName cl parentType fqn g = g\<lparr>gvc_base := base_SetFQName cl parentType fqn (gvc_base g)\<rparr>"

lemma drop_first_ref_count:
  "length (filter (\<lambda>r. ref_uuid r = u) (drop_first_ref u rs)) =
     length (filter (\<lambda>r. ref_uuid r = u) rs) - 1"
  by (induction rs) auto

lemma drop_first_ref_other:
  "u \<noteq> v \<Longrightarrow> filter (\<lambda>r. ref_uuid r = v) (drop_first_ref u rs) = filter (\<lambda>r. ref_uuid r = v) rs"
  by (induction rs) auto

lemma drop_first_ref_absent: "\<forall>r \<in> set rs. ref_uuid r \<noteq> u \<Longrightarrow> drop_first_ref u rs = rs"
  by (induction rs) auto

end
