(* ===== verification/ContrailClient.thy ===== *)
theory ContrailClient
  imports VncTypes
begin

text \<open>
  \<open>contrail-provisioner/contrailclient/contrailclient.go\<close>: the helpers that every node type of
  the provisioner shares.  Annotation maps are Go maps (\<open>None\<close> is the nil map, which reads as
  the empty one).
\<close>

section \<open>Annotations\<close>

type_synonym annotation_map = "(string, string) gomap option"

definition entries :: "annotation_map \<Rightarrow> (string, string) gomap" where
  "entries m = (case m of None \<Rightarrow> [] | Some kvs \<Rightarrow> kvs)"

text \<open>\<open>HasRequiredAnnotations\<close>: the flag is cleared at every required entry that is missing.\<close>

definition HasRequiredAnnotations ::
  "range_ord \<Rightarrow> annotation_map \<Rightarrow> (string, string) gomap \<Rightarrow> bool" where
  "HasRequiredAnnotations ord actualAnnotations requiredAnnotations =
     fold (\<lambda>(reqKey, reqVal) hasRequiredAnnotations.
             case map_of (entries actualAnnotations) reqKey of
               None \<Rightarrow> False
             | Some actualVal \<Rightarrow> if actualVal \<noteq> reqVal then False else hasRequiredAnnotations)
       (range_of ord requiredAnnotations) True"

definition ConvertContrailKeyValuePairsToMap :: "key_value_pairs \<Rightarrow> annotation_map" where
  "ConvertContrailKeyValuePairsToMap keyValPairs =
     Some (fold (\<lambda>(key, val). AList.update key val) keyValPairs [])"

definition ConvertMapToContrailKeyValuePairs :: "range_ord \<Rightarrow> annotation_map \<Rightarrow> key_value_pairs" where
  "ConvertMapToContrailKeyValuePairs ord keyValMap =
     fold (\<lambda>(key, val) keyVals. keyVals @ [(key, val)]) (range_of ord (entries keyValMap)) []"

section \<open>Objects by name\<close>

fun find_by_name ::
  "('b, 'l, 's) contrail_api \<Rightarrow> string \<Rightarrow> string \<Rightarrow> 'l list \<Rightarrow> ('s, go_error, 'b iobject) go" where
  "find_by_name cl contrailType requiredName [] =
     throw (errors_New (contrailType @ '' '' @ requiredName @ '' not found.''))"
| "find_by_name cl contrailType requiredName (listResult # listResults) =
     bindM (api_ReadListResult cl contrailType listResult) (\<lambda>obj.
       if obj_GetName cl obj = requiredName then ret obj
       else find_by_name cl contrailType requiredName listResults)"

definition GetContrailObjectByName ::
  "('b, 'l, 's) contrail_api \<Rightarrow> string \<Rightarrow> string \<Rightarrow> ('s, go_error, 'b iobject) go" where
  "GetContrailObjectByName cl contrailType requiredName =
     bindM (api_List cl contrailType) (find_by_name cl contrailType requiredName)"

section \<open>Facts\<close>

lemma fold_clear_flag:
  "fold (\<lambda>(k, v) b. case f k of None \<Rightarrow> False | Some w \<Rightarrow> if w \<noteq> v then False else b) kvs b \<longleftrightarrow>
     b \<and> (\<forall>(k, v) \<in> set kvs. f k = Some v)"
  by (induction kvs arbitrary: b) (auto split: option.splits)

lemma HasRequiredAnnotations_iff:
  assumes "range_perm ord" "go_map req"
  shows "HasRequiredAnnotations ord act req \<longleftrightarrow> map_of req \<subseteq>\<^sub>m map_of (entries act)"
proof -
  have "HasRequiredAnnotations ord act req \<longleftrightarrow>
      (\<forall>(k, v) \<in> set req. map_of (entries act) k = Some v)"
    using assms(1) by (simp add: HasRequiredAnnotations_def fold_clear_flag)
  also have "\<dots> \<longleftrightarrow> (\<forall>k v. map_of req k = Some v \<longrightarrow> map_of (entries act) k = Some v)"
    by (auto simp: go_map_lookup [OF assms(2)])
  also have "\<dots> \<longleftrightarrow> map_of req \<subseteq>\<^sub>m map_of (entries act)"
    by (simp add: map_le_iff)
  finally show ?thesis .
qed

lemma fold_snoc: "fold (\<lambda>(k, v) acc. acc @ [(k, v)]) kvs acc = acc @ kvs"
  by (induction kvs arbitrary: acc) auto

lemma ConvertMap_eq: "ConvertMapToContrailKeyValuePairs ord m = range_of ord (entries m)"
  by (simp add: ConvertMapToContrailKeyValuePairs_def fold_snoc)

lemma go_map_ConvertPairs: "go_map (entries (ConvertContrailKeyValuePairsToMap kvs))"
  by (simp add: ConvertContrailKeyValuePairsToMap_def entries_def)

lemma map_of_ConvertPairs:
  "map_of (entries (ConvertContrailKeyValuePairsToMap kvs)) = map_of (rev kvs)"
  by (simp add: ConvertContrailKeyValuePairsToMap_def entries_def map_of_fold_update)

lemma ConvertPairs_ConvertMap:
  assumes "range_perm ord" "go_map (entries m)"
  shows "map_of (entries (ConvertContrailKeyValuePairsToMap (ConvertMapToContrailKeyValuePairs ord m)))
         = map_of (entries m)"
  using assms by (simp add: map_of_ConvertPairs ConvertMap_eq map_of_rev_go_map go_map_range_of map_of_range_of)

lemma find_by_name_Ok:
  assumes "find_by_name cl ty nm ls s = (Ok obj, s')"
  shows "obj_GetName cl obj = nm"
  using assms
proof (induction ls arbitrary: s)
  case (Cons l ls)
  then obtain x t where "api_ReadListResult cl ty l s = (Ok x, t)"
    and *: "(if obj_GetName cl x = nm then ret x else find_by_name cl ty nm ls) t = (Ok obj, s')"
    by (auto simp: go_simps)
  show ?case
  proof (cases "obj_GetName cl x = nm")
    case True
    with * show ?thesis by simp
  next
    case False
    with * Cons.IH show ?thesis by simp
  qed
qed simp

end
