(* ===== verification/ContrailNodes.thy ===== *)
theory ContrailNodes
  imports ContrailClient
begin

text \<open>
  The node types of the provisioner: \<open>contrailnode\<close>, \<open>analyticsnode\<close>, \<open>confignode\<close>,
  \<open>databasenode\<close>, \<open>controlnode\<close> and \<open>vrouternode\<close> under \<open>contrail-provisioner\<close>.  Each package
  implements the interface \<open>ContrailNode\<close>: \<open>Create\<close>, \<open>Update\<close> and \<open>Delete\<close> against the API
  server, and accessors for the host name and the annotations.  The interface value is the
  datatype \<open>contrail_node\<close>, a method call on it is the case distinction of \<open>node_Create\<close> and its
  siblings.  Log lines are left out.
\<close>

section \<open>contrailnode: the common part and the interface\<close>

record node =
  IPAddress :: string
  Hostname :: string
  Annotations :: annotation_map

record control_node = node +
  ASN :: int

datatype contrail_node =
    VrouterNode node
  | DatabaseNode node
  | AnalyticsNode node
  | ControlNode control_node
  | ConfigNode node

datatype contrail_node_type =
  VrouterNodeType | DatabaseNodeType | AnalyticsNodeType | ControlNodeType | ConfigNodeType

fun node_type_string :: "contrail_node_type \<Rightarrow> string" where
  "node_type_string VrouterNodeType = ''virtual-router''"
| "node_type_string DatabaseNodeType = ''database-node''"
| "node_type_string AnalyticsNodeType = ''analytics-node''"
| "node_type_string ControlNodeType = ''control-node''"
| "node_type_string ConfigNodeType = ''config-node''"

section \<open>analyticsnode, confignode, databasenode\<close>

definition AnalyticsNode_Create ::
  "('b, 'l, 's) contrail_api \<Rightarrow> range_ord \<Rightarrow> node \<Rightarrow> ('s, go_error, unit) go" where
  "AnalyticsNode_Create cl ord c =
     (let vncNode = nd_SetFQName cl [] [''default-global-system-config'', Hostname c] (new_infra_node cl);
          vncNode = SetAnalyticsNodeIpAddress (IPAddress c) vncNode;
          vncNode = nd_SetAnnotations (ConvertMapToContrailKeyValuePairs ord (Annotations c)) vncNode
      in bindM (api_Create cl (AnalyticsNodeObj vncNode)) (\<lambda>_. ret ()))"

definition AnalyticsNode_Update ::
  "('b, 'l, 's) contrail_api \<Rightarrow> range_ord \<Rightarrow> node \<Rightarrow> ('s, go_error, unit) go" where
  "AnalyticsNode_Update cl ord c =
     bindM (GetContrailObjectByName cl ''analytics-node'' (Hostname c)) (\<lambda>obj.
     bindM (as_AnalyticsNode obj) (\<lambda>typedNode.
       let typedNode = nd_SetFQName cl [] [''default-global-system-config'', Hostname c] typedNode;
           typedNode = SetAnalyticsNodeIpAddress (IPAddress c) typedNode;
           typedNode = nd_SetAnnotations (ConvertMapToContrailKeyValuePairs ord (Annotations c)) typedNode
       in api_Update cl (AnalyticsNodeObj typedNode)))"

definition AnalyticsNode_Delete ::
  "('b, 'l, 's) contrail_api \<Rightarrow> node \<Rightarrow> ('s, go_error, unit) go" where
  "AnalyticsNode_Delete cl c =
     bindM (GetContrailObjectByName cl ''analytics-node'' (Hostname c)) (api_Delete cl)"

definition AnalyticsNode_FromApiServer ::
  "('b, 'l, 's) contrail_api \<Rightarrow> ('s, go_error, contrail_node list) go" where
  "AnalyticsNode_FromApiServer cl =
     bindM (api_List cl ''analytics-node'') (mapM (\<lambda>listResult.
       bindM (api_ReadListResult cl ''analytics-node'' listResult) (\<lambda>obj.
       bindM (as_AnalyticsNode obj) (\<lambda>typedNode.
         ret (AnalyticsNode
           \<lparr>IPAddress = nd_ip_address typedNode,
            Hostname = base_GetName cl (nd_base typedNode),
            Annotations = ConvertContrailKeyValuePairsToMap (nd_annotations typedNode)\<rparr>)))))"

definition ConfigNode_Create ::
  "('b, 'l, 's) contrail_api \<Rightarrow> range_ord \<Rightarrow> node \<Rightarrow> ('s, go_error, unit) go" where
  "ConfigNode_Create cl ord c =
     (let typedNode = nd_SetFQName cl [] [''default-global-system-config'', Hostname c] (new_infra_node cl);
          typedNode = SetConfigNodeIpAddress (IPAddress c) typedNode;
          typedNode = nd_SetAnnotations (ConvertMapToContrailKeyValuePairs ord (Annotations c)) typedNode
      in bindM (api_Create cl (ConfigNodeObj typedNode)) (\<lambda>_. ret ()))"

definition ConfigNode_Update ::
  "('b, 'l, 's) contrail_api \<Rightarrow> range_ord \<Rightarrow> node \<Rightarrow> ('s, go_error, unit) go" where
  "ConfigNode_Update cl ord c =
     bindM (GetContrailObjectByName cl ''config-node'' (Hostname c)) (\<lambda>obj.
     bindM (as_ConfigNode obj) (\<lambda>typedNode.
       let typedNode = nd_SetFQName cl [] [''default-global-system-config'', Hostname c] typedNode;
           typedNode = SetConfigNodeIpAddress (IPAddress c) typedNode;
           typedNode = nd_SetAnnotations (ConvertMapToContrailKeyValuePairs ord (Annotations c)) typedNode
       in api_Update cl (ConfigNodeObj typedNode)))"

definition ConfigNode_Delete ::
  "('b, 'l, 's) contrail_api \<Rightarrow> node \<Rightarrow> ('s, go_error, unit) go" where
  "ConfigNode_Delete cl c =
     bindM (GetContrailObjectByName cl ''config-node'' (Hostname c)) (api_Delete cl)"

definition ConfigNode_FromApiServer ::
  "('b, 'l, 's) contrail_api \<Rightarrow> ('s, go_error, contrail_node list) go" where
  "ConfigNode_FromApiServer cl =
     bindM (api_List cl ''config-node'') (mapM (\<lambda>listResult.
       bindM (api_ReadListResult cl ''config-node'' listResult) (\<lambda>obj.
       bindM (as_ConfigNode obj) (\<lambda>typedNode.
         ret (ConfigNode
           \<lparr>IPAddress = nd_ip_address typedNode,
            Hostname = base_GetName cl (nd_base typedNode),
            Annotations = ConvertContrailKeyValuePairsToMap (nd_annotations typedNode)\<rparr>)))))"

definition DatabaseNode_Create ::
  "('b, 'l, 's) contrail_api \<Rightarrow> range_ord \<Rightarrow> node \<Rightarrow> ('s, go_error, unit) go" where
  "DatabaseNode_Create cl ord c =
     (let vncNode = nd_SetFQName cl [] [''default-global-system-config'', Hostname c] (new_infra_node cl);
          vncNode = SetDatabaseNodeIpAddress (IPAddress c) vncNode;
          vncNode = nd_SetAnnotations (ConvertMapToContrailKeyValuePairs ord (Annotations c)) vncNode
      in bindM (api_Create cl (DatabaseNodeObj vncNode)) (\<lambda>_. ret ()))"

definition DatabaseNode_Update ::
  "('b, 'l, 's) contrail_api \<Rightarrow> range_ord \<Rightarrow> node \<Rightarrow> ('s, go_error, unit) go" where
  "DatabaseNode_Update cl ord c =
     bindM (GetContrailObjectByName cl ''database-node'' (Hostname c)) (\<lambda>obj.
     bindM (as_DatabaseNode obj) (\<lambda>typedNode.
       let typedNode = nd_SetFQName cl [] [''default-global-system-config'', Hostname c] typedNode;
           typedNode = SetDatabaseNodeIpAddress (IPAddress c) typedNode;
           typedNode = nd_SetAnnotations (ConvertMapToContrailKeyValuePairs ord (Annotations c)) typedNode
       in api_Update cl (DatabaseNodeObj typedNode)))"

definition DatabaseNode_Delete ::
  "('b, 'l, 's) contrail_api \<Rightarrow> node \<Rightarrow> ('s, go_error, unit) go" where
  "DatabaseNode_Delete cl c =
     bindM (GetContrailObjectByName cl ''database-node'' (Hostname c)) (api_Delete cl)"

definition DatabaseNode_FromApiServer ::
  "('b, 'l, 's) contrail_api \<Rightarrow> ('s, go_error, contrail_node list) go" where
  "DatabaseNode_FromApiServer cl =
     bindM (api_List cl ''database-node'') (mapM (\<lambda>listResult.
       bindM (api_ReadListResult cl ''database-node'' listResult) (\<lambda>obj.
       bindM (as_DatabaseNode obj) (\<lambda>typedNode.
         ret (DatabaseNode
           \<lparr>IPAddress = nd_ip_address typedNode,
            Hostname = base_GetName cl (nd_base typedNode),
            Annotations = ConvertContrailKeyValuePairsToMap (nd_annotations typedNode)\<rparr>)))))"

section \<open>controlnode\<close>

definition ip_fabric_fqname :: "string list" where
  "ip_fabric_fqname = [''default-domain'', ''default-project'', ''ip-fabric'', ''__default__'']"

definition control_bgp_parameters :: "control_node \<Rightarrow> bgp_router_params" where
  "control_bgp_parameters c =
     \<lparr>AdminDown = False, Vendor = ''contrail'', AutonomousSystem = ASN c,
      Identifier = IPAddress c, Address = IPAddress c, Port = 179, HoldTime = 90,
      AddressFamilies = Some [''route-target'', ''inet-vpn'', ''inet6-vpn'', ''e-vpn'', ''erm-vpn''],
      RouterType = ''control-node''\<rparr>"

text \<open>
  The loop over the routing instances: the variable starts as the zero \<open>RoutingInstance\<close>, and
  the last instance with the name of the IP fabric wins.
\<close>

fun find_routing_instance ::
  "('b, 'l, 's) contrail_api \<Rightarrow> 'b \<Rightarrow> 'l list \<Rightarrow> ('s, go_error, 'b) go" where
  "find_routing_instance cl routingInstance [] = ret routingInstance"
| "find_routing_instance cl routingInstance (o1 # os) =
     bindM (api_ReadListResult cl ''routing-instance'' o1) (\<lambda>obj.
       if obj_GetFQName cl obj = ip_fabric_fqname
       then bindM (as_RoutingInstance obj) (\<lambda>ri. find_routing_instance cl ri os)
       else find_routing_instance cl routingInstance os)"

text \<open>List the global system configurations and read each of them.\<close>

definition read_gsc_objects ::
  "('b, 'l, 's) contrail_api \<Rightarrow> ('s, go_error, 'b global_system_config list) go" where
  "read_gsc_objects cl =
     bindM (api_List cl ''global-system-config'') (mapM (\<lambda>gscObject.
       bindM (api_ReadListResult cl ''global-system-config'' gscObject) as_GlobalSystemConfig))"

definition ControlNode_Create ::
  "('b, 'l, 's) contrail_api \<Rightarrow> range_ord \<Rightarrow> control_node \<Rightarrow> ('s, go_error, unit) go" where
  "ControlNode_Create cl ord c =
     (let bgpRouter = br_SetFQName cl [] (ip_fabric_fqname @ [Hostname c]) (new_bgp_router cl);
          bgpRouter = br_SetName cl (Hostname c) bgpRouter;
          bgpRouter = br_SetAnnotations (ConvertMapToContrailKeyValuePairs ord (Annotations c)) bgpRouter;
          bgpRouter = SetBgpRouterParameters (control_bgp_parameters c) bgpRouter
      in bindM (api_List cl ''routing-instance'') (\<lambda>routingInstanceObjectsList.
         bindM (find_routing_instance cl (base_new cl) routingInstanceObjectsList) (\<lambda>routingInstance.
         bindM (api_Create cl (BgpRouterObj (br_SetParent cl (RoutingInstanceObj routingInstance) bgpRouter)))
           (\<lambda>created.
         bindM (as_BgpRouter created) (\<lambda>bgpRouter.
         bindM (read_gsc_objects cl) (\<lambda>gscObjects.
         bindM (forM gscObjects (\<lambda>gsc.
                  bindM (AddBgpRouter cl bgpRouter gsc) (\<lambda>gsc.
                    api_Update cl (GlobalSystemConfigObj gsc)))) (\<lambda>_.
         bindM (read_gsc_objects cl) (\<lambda>gscObjects.
           forM gscObjects (\<lambda>gsc. bindM (GetBgpRouterRefs cl gsc) (\<lambda>bgpRefs. ret ()))))))))))"

definition ControlNode_Update ::
  "('b, 'l, 's) contrail_api \<Rightarrow> range_ord \<Rightarrow> control_node \<Rightarrow> ('s, go_error, unit) go" where
  "ControlNode_Update cl ord c =
     bindM (GetContrailObjectByName cl ''bgp-router'' (Hostname c)) (\<lambda>obj.
     bindM (as_BgpRouter obj) (\<lambda>typedNode.
       let typedNode = br_SetFQName cl [] (ip_fabric_fqname @ [Hostname c]) typedNode;
           typedNode = br_SetAnnotations (ConvertMapToContrailKeyValuePairs ord (Annotations c)) typedNode;
           typedNode = SetBgpRouterParameters (control_bgp_parameters c) typedNode
       in api_Update cl (BgpRouterObj typedNode)))"

definition ControlNode_Delete ::
  "('b, 'l, 's) contrail_api \<Rightarrow> control_node \<Rightarrow> ('s, go_error, unit) go" where
  "ControlNode_Delete cl c =
     bindM (GetContrailObjectByName cl ''bgp-router'' (Hostname c)) (\<lambda>bgpRouterObj.
     bindM (read_gsc_objects cl) (\<lambda>gscObjects.
     bindM (forM gscObjects (\<lambda>gsc.
              bindM (DeleteBgpRouter cl (obj_GetUuid cl bgpRouterObj) gsc) (\<lambda>gsc.
                api_Update cl (GlobalSystemConfigObj gsc)))) (\<lambda>_.
       api_Delete cl bgpRouterObj)))"

text \<open>Only BGP routers of type \<open>control-node\<close> are control nodes; the others are skipped.\<close>

fun control_nodes_of ::
  "('b, 'l, 's) contrail_api \<Rightarrow> 'l list \<Rightarrow> ('s, go_error, contrail_node list) go" where
  "control_nodes_of cl [] = ret []"
| "control_nodes_of cl (listResult # listResults) =
     bindM (api_ReadListResult cl ''bgp-router'' listResult) (\<lambda>obj.
     bindM (as_BgpRouter obj) (\<lambda>typedNode.
       if RouterType (br_parameters typedNode) \<noteq> ''control-node''
       then control_nodes_of cl listResults
       else bindM (control_nodes_of cl listResults) (\<lambda>nodes.
         ret (ControlNode
           \<lparr>IPAddress = Address (br_parameters typedNode),
            Hostname = base_GetName cl (br_base typedNode),
            Annotations = ConvertContrailKeyValuePairsToMap (br_annotations typedNode),
            ASN = AutonomousSystem (br_parameters typedNode)\<rparr> # nodes))))"

definition ControlNode_FromApiServer ::
  "('b, 'l, 's) contrail_api \<Rightarrow> ('s, go_error, contrail_node list) go" where
  "ControlNode_FromApiServer cl = bindM (api_List cl ''bgp-router'') (control_nodes_of cl)"

section \<open>vrouternode\<close>

definition ipFabricNetworkFQName :: string where
  "ipFabricNetworkFQName = ''default-domain:default-project:ip-fabric''"

definition vhost0VMIName :: string where
  "vhost0VMIName = ''vhost0''"

fun vmi_named_vhost0 ::
  "('b, 'l, 's) contrail_api \<Rightarrow> reference list \<Rightarrow> ('s, go_error, bool) go" where
  "vmi_named_vhost0 cl [] = ret False"
| "vmi_named_vhost0 cl (vmiRef # vmiList) =
     bindM (api_FindByUuid cl ''virtual-machine-interface'' (ref_uuid vmiRef)) (\<lambda>vmiObj.
       if obj_GetName cl vmiObj = vhost0VMIName then ret True
       else vmi_named_vhost0 cl vmiList)"

definition vhost0VMIPresent ::
  "('b, 'l, 's) contrail_api \<Rightarrow> 'b virtual_router \<Rightarrow> ('s, go_error, bool \<times> 'b virtual_router) go" where
  "vhost0VMIPresent cl virtualRouter =
     bindM (GetVirtualMachineInterfaces cl virtualRouter) (\<lambda>(vmiList, virtualRouter).
     bindM (vmi_named_vhost0 cl vmiList) (\<lambda>b. ret (b, virtualRouter)))"

definition createVhost0VMI ::
  "('b, 'l, 's) contrail_api \<Rightarrow> 'b virtual_router \<Rightarrow> ('s, go_error, unit) go" where
  "createVhost0VMI cl virtualRouter =
     bindM (VirtualNetworkByName cl ipFabricNetworkFQName) (\<lambda>network.
       let vncVMI = vmi_SetParent cl (VirtualRouterObj virtualRouter) (new_vmi cl);
           vncVMI = SetVirtualNetworkList cl [network] vncVMI;
           vncVMI = SetVirtualMachineInterfaceDisablePolicy False vncVMI;
           vncVMI = vmi_SetName cl vhost0VMIName vncVMI
       in bindM (api_Create cl (VMIObj vncVMI)) (\<lambda>_. ret ()))"

definition ensureVMIVhost0Interface ::
  "('b, 'l, 's) contrail_api \<Rightarrow> 'b virtual_router \<Rightarrow> ('s, go_error, unit) go" where
  "ensureVMIVhost0Interface cl virtualRouter =
     bindM (vhost0VMIPresent cl virtualRouter) (\<lambda>(present, virtualRouter).
       if present then ret () else createVhost0VMI cl virtualRouter)"

definition VrouterNode_ensureVMIVhost0Interface ::
  "('b, 'l, 's) contrail_api \<Rightarrow> node \<Rightarrow> ('s, go_error, unit) go" where
  "VrouterNode_ensureVMIVhost0Interface cl c =
     bindM (GetContrailObjectByName cl ''virtual-router'' (Hostname c)) (\<lambda>obj.
     bindM (as_VirtualRouter obj) (ensureVMIVhost0Interface cl))"

definition VrouterNode_Create ::
  "('b, 'l, 's) contrail_api \<Rightarrow> range_ord \<Rightarrow> node \<Rightarrow> ('s, go_error, unit) go" where
  "VrouterNode_Create cl ord c =
     bindM (read_gsc_objects cl) (\<lambda>gscObjects.
     bindM (forM gscObjects (\<lambda>gsc.
              let virtualRouter = SetVirtualRouterIpAddress (IPAddress c) (new_virtual_router cl);
                  virtualRouter = vr_SetParent cl (GlobalSystemConfigObj gsc) virtualRouter;
                  virtualRouter = vr_SetName cl (Hostname c) virtualRouter;
                  virtualRouter =
                    vr_SetAnnotations (ConvertMapToContrailKeyValuePairs ord (Annotations c)) virtualRouter
              in bindM (api_Create cl (VirtualRouterObj virtualRouter)) (\<lambda>_. ret ()))) (\<lambda>_.
       VrouterNode_ensureVMIVhost0Interface cl c))"

definition VrouterNode_Update ::
  "('b, 'l, 's) contrail_api \<Rightarrow> range_ord \<Rightarrow> node \<Rightarrow> ('s, go_error, unit) go" where
  "VrouterNode_Update cl ord c =
     bindM (GetContrailObjectByName cl ''virtual-router'' (Hostname c)) (\<lambda>obj.
     bindM (as_VirtualRouter obj) (\<lambda>virtualRouter.
       let virtualRouter = SetVirtualRouterIpAddress (IPAddress c) virtualRouter;
           virtualRouter =
             vr_SetAnnotations (ConvertMapToContrailKeyValuePairs ord (Annotations c)) virtualRouter
       in bindM (api_Update cl (VirtualRouterObj virtualRouter)) (\<lambda>_.
            VrouterNode_ensureVMIVhost0Interface cl c)))"

definition deleteVMIs ::
  "('b, 'l, 's) contrail_api \<Rightarrow> 'b virtual_router \<Rightarrow> ('s, go_error, unit) go" where
  "deleteVMIs cl virtualRouter =
     bindM (GetVirtualMachineInterfaces cl virtualRouter) (\<lambda>(vmiList, virtualRouter).
       forM vmiList (\<lambda>vmiRef. api_DeleteByUuid cl ''virtual-machine-interface'' (ref_uuid vmiRef)))"

definition VrouterNode_Delete ::
  "('b, 'l, 's) contrail_api \<Rightarrow> node \<Rightarrow> ('s, go_error, unit) go" where
  "VrouterNode_Delete cl c =
     bindM (GetContrailObjectByName cl ''virtual-router'' (Hostname c)) (\<lambda>obj.
     bindM (as_VirtualRouter obj) (\<lambda>virtualRouter.
     bindM (deleteVMIs cl virtualRouter) (\<lambda>_.
       api_Delete cl obj)))"

definition VrouterNode_FromApiServer ::
  "('b, 'l, 's) contrail_api \<Rightarrow> ('s, go_error, contrail_node list) go" where
  "VrouterNode_FromApiServer cl =
     bindM (api_List cl ''virtual-router'') (mapM (\<lambda>listResult.
       bindM (api_ReadListResult cl ''virtual-router'' listResult) (\<lambda>obj.
       bindM (as_VirtualRouter obj) (\<lambda>typedNode.
         ret (VrouterNode
           \<lparr>IPAddress = vr_ip_address typedNode,
            Hostname = base_GetName cl (vr_base typedNode),
            Annotations = ConvertContrailKeyValuePairsToMap (vr_annotations typedNode)\<rparr>)))))"

section \<open>Method calls on the interface\<close>

fun node_Create ::
  "('b, 'l, 's) contrail_api \<Rightarrow> range_ord \<Rightarrow> contrail_node \<Rightarrow> ('s, go_error, unit) go" where
  "node_Create cl ord (VrouterNode c) = VrouterNode_Create cl ord c"
| "node_Create cl ord (DatabaseNode c) = DatabaseNode_Create cl ord c"
| "node_Create cl ord (AnalyticsNode c) = AnalyticsNode_Create cl ord c"
| "node_Create cl ord (ControlNode c) = ControlNode_Create cl ord c"
| "node_Create cl ord (ConfigNode c) = ConfigNode_Create cl ord c"

fun node_Update ::
  "('b, 'l, 's) contrail_api \<Rightarrow> range_ord \<Rightarrow> contrail_node \<Rightarrow> ('s, go_error, unit) go" where
  "node_Update cl ord (VrouterNode c) = VrouterNode_Update cl ord c"
| "node_Update cl ord (DatabaseNode c) = DatabaseNode_Update cl ord c"
| "node_Update cl ord (AnalyticsNode c) = AnalyticsNode_Update cl ord c"
| "node_Update cl ord (ControlNode c) = ControlNode_Update cl ord c"
| "node_Update cl ord (ConfigNode c) = ConfigNode_Update cl ord c"

fun node_Delete ::
  "('b, 'l, 's) contrail_api \<Rightarrow> contrail_node \<Rightarrow> ('s, go_error, unit) go" where
  "node_Delete cl (VrouterNode c) = VrouterNode_Delete cl c"
| "node_Delete cl (DatabaseNode c) = DatabaseNode_Delete cl c"
| "node_Delete cl (AnalyticsNode c) = AnalyticsNode_Delete cl c"
| "node_Delete cl (ControlNode c) = ControlNode_Delete cl c"
| "node_Delete cl (ConfigNode c) = ConfigNode_Delete cl c"

fun GetHostname :: "contrail_node \<Rightarrow> string" where
  "GetHostname (VrouterNode c) = Hostname c"
| "GetHostname (DatabaseNode c) = Hostname c"
| "GetHostname (AnalyticsNode c) = Hostname c"
| "GetHostname (ControlNode c) = Hostname c"
| "GetHostname (ConfigNode c) = Hostname c"

fun GetAnnotations :: "contrail_node \<Rightarrow> annotation_map" where
  "GetAnnotations (VrouterNode c) = Annotations c"
| "GetAnnotations (DatabaseNode c) = Annotations c"
| "GetAnnotations (AnalyticsNode c) = Annotations c"
| "GetAnnotations (ControlNode c) = Annotations c"
| "GetAnnotations (ConfigNode c) = Annotations c"

fun SetAnnotations :: "annotation_map \<Rightarrow> contrail_node \<Rightarrow> contrail_node" where
  "SetAnnotations a (VrouterNode c) = VrouterNode (c\<lparr>Annotations := a\<rparr>)"
| "SetAnnotations a (DatabaseNode c) = DatabaseNode (c\<lparr>Annotations := a\<rparr>)"
| "SetAnnotations a (AnalyticsNode c) = AnalyticsNode (c\<lparr>Annotations := a\<rparr>)"
| "SetAnnotations a (ControlNode c) = ControlNode (c\<lparr>Annotations := a\<rparr>)"
| "SetAnnotations a (ConfigNode c) = ConfigNode (c\<lparr>Annotations := a\<rparr>)"

fun node_kind :: "contrail_node \<Rightarrow> contrail_node_type" where
  "node_kind (VrouterNode c) = VrouterNodeType"
| "node_kind (DatabaseNode c) = DatabaseNodeType"
| "node_kind (AnalyticsNode c) = AnalyticsNodeType"
| "node_kind (ControlNode c) = ControlNodeType"
| "node_kind (ConfigNode c) = ConfigNodeType"

section \<open>The accessors\<close>

text \<open>
  What the reconciler relies on of the accessors of a node type: the annotations are what was
  last set, and setting them keeps the host name.
\<close>

locale annotated_node =
  fixes hostname :: "'n \<Rightarrow> string"
    and get_annotations :: "'n \<Rightarrow> annotation_map"
    and set_annotations :: "annotation_map \<Rightarrow> 'n \<Rightarrow> 'n"
  assumes hostname_set: "hostname (set_annotations a n) = hostname n"
    and get_set: "get_annotations (set_annotations a n) = a"
    and set_set: "set_annotations a (set_annotations b n) = set_annotations a n"
begin

lemma hostnames_set: "map hostname (map (\<lambda>n. set_annotations (f n) n) ns) = map hostname ns"
  by (simp add: hostname_set o_def)

lemma annotations_of_set: "map get_annotations (map (\<lambda>n. set_annotations (f n) n) ns) = map f ns"
  by (simp add: get_set o_def)

end

interpretation iface: annotated_node GetHostname GetAnnotations SetAnnotations
proof unfold_locales
  fix a b n
  show "GetHostname (SetAnnotations a n) = GetHostname n" by (cases n) simp_all
  show "GetAnnotations (SetAnnotations a n) = a" by (cases n) simp_all
  show "SetAnnotations a (SetAnnotations b n) = SetAnnotations a n" by (cases n) simp_all
qed

lemma node_kind_SetAnnotations [simp]: "node_kind (SetAnnotations a n) = node_kind n"
  by (cases n) simp_all

end
