(* ===== verification/ProvReconcile.thy ===== *)
theory ProvReconcile
  imports ContrailNodes
begin

text \<open>
  \<open>contrail-provisioner/reconcile/reconcile.go\<close> and \<open>contrail-provisioner/nodemanager\<close>: bring
  the nodes of one type in the API server in line with the list of required nodes.  Nodes that do
  not carry the required annotations are not managed and are left alone.

  The action map is a Go map; \<open>executeActionMap\<close> takes the order in which \<open>range\<close> visits it.
\<close>

section \<open>The reconciler\<close>

datatype action = UpdateAction | CreateAction | DeleteAction

record node_with_action =
  nwa_node :: contrail_node
  nwa_action :: action

record ('b, 'l, 's) reconciler =
  rc_cl :: "('b, 'l, 's) contrail_api"
  rc_requiredNodes :: "contrail_node list"
  rc_requiredAnnotations :: "(string, string) gomap"

definition NewReconciler ::
  "('b, 'l, 's) contrail_api \<Rightarrow> contrail_node list \<Rightarrow> (string, string) gomap
    \<Rightarrow> ('b, 'l, 's) reconciler" where
  "NewReconciler cl requiredNodes requiredAnnotations =
     \<lparr>rc_cl = cl, rc_requiredNodes = requiredNodes, rc_requiredAnnotations = requiredAnnotations\<rparr>"

definition ensureRequiredAnnotationsSetOnNode ::
  "range_ord \<Rightarrow> (string, string) gomap \<Rightarrow> contrail_node \<Rightarrow> contrail_node" where
  "ensureRequiredAnnotationsSetOnNode ord requiredAnnotations node =
     (let nodeAnnotations = (case GetAnnotations node of None \<Rightarrow> [] | Some m \<Rightarrow> m)
      in SetAnnotations
           (Some (fold (\<lambda>(key, val). AList.update key val) (range_of ord requiredAnnotations)
                    nodeAnnotations))
           node)"

definition ensureRequiredAnnotationsOnRequiredNodes ::
  "range_ord \<Rightarrow> ('b, 'l, 's) reconciler \<Rightarrow> ('b, 'l, 's) reconciler" where
  "ensureRequiredAnnotationsOnRequiredNodes ord r =
     r\<lparr>rc_requiredNodes :=
         map (ensureRequiredAnnotationsSetOnNode ord (rc_requiredAnnotations r)) (rc_requiredNodes r)\<rparr>"

definition getNodesWithRequiredAnnotations ::
  "range_ord \<Rightarrow> ('b, 'l, 's) reconciler \<Rightarrow> contrail_node list \<Rightarrow> contrail_node list" where
  "getNodesWithRequiredAnnotations ord r nodesInApiServer =
     filter (\<lambda>node. HasRequiredAnnotations ord (GetAnnotations node) (rc_requiredAnnotations r))
       nodesInApiServer"

definition add_required ::
  "contrail_node \<Rightarrow> (string, node_with_action) gomap \<Rightarrow> (string, node_with_action) gomap" where
  "add_required requiredNode actionMap =
     AList.update (GetHostname requiredNode)
       \<lparr>nwa_node = requiredNode, nwa_action = CreateAction\<rparr> actionMap"

definition add_in_api ::
  "contrail_node \<Rightarrow> (string, node_with_action) gomap \<Rightarrow> (string, node_with_action) gomap" where
  "add_in_api nodeInApiServer actionMap =
     (case map_of actionMap (GetHostname nodeInApiServer) of
        Some requiredNodeWithAction \<Rightarrow>
          AList.update (GetHostname nodeInApiServer)
            \<lparr>nwa_node = nwa_node requiredNodeWithAction, nwa_action = UpdateAction\<rparr> actionMap
      | None \<Rightarrow>
          AList.update (GetHostname nodeInApiServer)
            \<lparr>nwa_node = nodeInApiServer, nwa_action = DeleteAction\<rparr> actionMap)"

definition createContrailNodesActionMap ::
  "('b, 'l, 's) reconciler \<Rightarrow> contrail_node list \<Rightarrow> (string, node_with_action) gomap" where
  "createContrailNodesActionMap r nodesInApiServer =
     fold add_in_api nodesInApiServer (fold add_required (rc_requiredNodes r) [])"

definition executeActionMap ::
  "range_ord \<Rightarrow> range_ord \<Rightarrow> ('b, 'l, 's) reconciler \<Rightarrow> (string, node_with_action) gomap
    \<Rightarrow> ('s, go_error, unit) go" where
  "executeActionMap ord aord r actionMap =
     forM (range_of aord actionMap) (\<lambda>(_, nodeWithAction).
       case nwa_action nodeWithAction of
         UpdateAction \<Rightarrow> node_Update (rc_cl r) ord (nwa_node nodeWithAction)
       | CreateAction \<Rightarrow> node_Create (rc_cl r) ord (nwa_node nodeWithAction)
       | DeleteAction \<Rightarrow> node_Delete (rc_cl r) (nwa_node nodeWithAction))"

definition ReconcileNodes ::
  "range_ord \<Rightarrow> range_ord \<Rightarrow> ('b, 'l, 's) reconciler \<Rightarrow> contrail_node list
    \<Rightarrow> ('s, go_error, unit) go" where
  "ReconcileNodes ord aord r nodesInApiServer =
     (let r = ensureRequiredAnnotationsOnRequiredNodes ord r;
          managedNodesInApiServer = getNodesWithRequiredAnnotations ord r nodesInApiServer;
          actionMap = createContrailNodesActionMap r managedNodesInApiServer
      in executeActionMap ord aord r actionMap)"

section \<open>The node manager\<close>

text \<open>
  \<open>yaml.Unmarshal\<close> (package gopkg.in/yaml.v2) is a parameter: how it reads the bytes of a
  provisioning file into a list of nodes.
\<close>

record yaml_lib =
  yaml_nodes :: "string \<Rightarrow> go_error + node list"
  yaml_control_nodes :: "string \<Rightarrow> go_error + control_node list"

definition unmarshal_or_panic ::
  "(go_error + 'n list) \<Rightarrow> ('n \<Rightarrow> contrail_node) \<Rightarrow> ('s, go_error, contrail_node list) go" where
  "unmarshal_or_panic result wrap =
     (case result of Inl err \<Rightarrow> panic (error_text err) | Inr nodes \<Rightarrow> ret (map wrap nodes))"

fun getContrailNodesFromBytes ::
  "yaml_lib \<Rightarrow> string \<Rightarrow> contrail_node_type \<Rightarrow> ('s, go_error, contrail_node list) go" where
  "getContrailNodesFromBytes yl data VrouterNodeType = unmarshal_or_panic (yaml_nodes yl data) VrouterNode"
| "getContrailNodesFromBytes yl data AnalyticsNodeType = unmarshal_or_panic (yaml_nodes yl data) AnalyticsNode"
| "getContrailNodesFromBytes yl data ConfigNodeType = unmarshal_or_panic (yaml_nodes yl data) ConfigNode"
| "getContrailNodesFromBytes yl data ControlNodeType =
     unmarshal_or_panic (yaml_control_nodes yl data) ControlNode"
| "getContrailNodesFromBytes yl data DatabaseNodeType = unmarshal_or_panic (yaml_nodes yl data) DatabaseNode"

fun getContrailNodesInApiServer ::
  "('b, 'l, 's) contrail_api \<Rightarrow> contrail_node_type \<Rightarrow> ('s, go_error, contrail_node list) go" where
  "getContrailNodesInApiServer cl VrouterNodeType = VrouterNode_FromApiServer cl"
| "getContrailNodesInApiServer cl AnalyticsNodeType = AnalyticsNode_FromApiServer cl"
| "getContrailNodesInApiServer cl ConfigNodeType = ConfigNode_FromApiServer cl"
| "getContrailNodesInApiServer cl ControlNodeType = ControlNode_FromApiServer cl"
| "getContrailNodesInApiServer cl DatabaseNodeType = DatabaseNode_FromApiServer cl"

definition ManageNodes ::
  "yaml_lib \<Rightarrow> range_ord \<Rightarrow> range_ord \<Rightarrow> string \<Rightarrow> (string, string) gomap \<Rightarrow> contrail_node_type
    \<Rightarrow> ('b, 'l, 's) contrail_api \<Rightarrow> ('s, go_error, unit) go" where
  "ManageNodes yl ord aord requiredNodesData requiredAnnotations nodeType cl =
     bindM (getContrailNodesFromBytes yl requiredNodesData nodeType) (\<lambda>requiredNodes.
       let reconciler = NewReconciler cl requiredNodes requiredAnnotations
       in bindM (getContrailNodesInApiServer cl nodeType) (\<lambda>nodesInApiServer.
            ReconcileNodes ord aord reconciler nodesInApiServer))"

section \<open>The required annotations\<close>

lemma ensure_hostname [simp]: "GetHostname (ensureRequiredAnnotationsSetOnNode ord req n) = GetHostname n"
  by (simp add: ensureRequiredAnnotationsSetOnNode_def Let_def iface.hostname_set)

lemma ensure_kind [simp]: "node_kind (ensureRequiredAnnotationsSetOnNode ord req n) = node_kind n"
  by (simp add: ensureRequiredAnnotationsSetOnNode_def Let_def)

lemma ensure_entries:
  "entries (GetAnnotations (ensureRequiredAnnotationsSetOnNode ord req n)) =
     fold (\<lambda>(k, v). AList.update k v) (range_of ord req) (entries (GetAnnotations n))"
  by (cases "GetAnnotations n")
     (simp_all add: ensureRequiredAnnotationsSetOnNode_def Let_def iface.get_set entries_def)

lemma ensure_go_map:
  "go_map (entries (GetAnnotations n)) \<Longrightarrow>
     go_map (entries (GetAnnotations (ensureRequiredAnnotationsSetOnNode ord req n)))"
  by (simp add: ensure_entries)

lemma ensure_annotations:
  assumes "range_perm ord" "go_map req"
  shows "map_of (entries (GetAnnotations (ensureRequiredAnnotationsSetOnNode ord req n))) =
     map_of (entries (GetAnnotations n)) ++ map_of req"
  using assms
  by (simp add: ensure_entries map_of_fold_update map_of_rev_go_map go_map_range_of map_of_range_of)

lemma ensure_HasRequired:
  assumes "range_perm ord" "range_perm ord'" "go_map req"
  shows "HasRequiredAnnotations ord'
           (GetAnnotations (ensureRequiredAnnotationsSetOnNode ord req n)) req"
  using assms by (simp add: HasRequiredAnnotations_iff ensure_annotations)

section \<open>The action map\<close>

text \<open>The required node of a host name: the last one in the list, as later entries overwrite.\<close>

definition required_for :: "contrail_node list \<Rightarrow> string \<Rightarrow> contrail_node option" where
  "required_for ns h = find (\<lambda>n. GetHostname n = h) (rev ns)"

definition in_api :: "contrail_node list \<Rightarrow> string \<Rightarrow> contrail_node list" where
  "in_api ns h = filter (\<lambda>n. GetHostname n = h) ns"

text \<open>What the loops of \<open>createContrailNodesActionMap\<close> leave for one host name.\<close>

definition planned_action ::
  "contrail_node list \<Rightarrow> contrail_node list \<Rightarrow> string \<Rightarrow> node_with_action option" where
  "planned_action required nodes h =
     (case required_for required h of
        Some n \<Rightarrow> Some \<lparr>nwa_node = n,
                       nwa_action = (if in_api nodes h = [] then CreateAction else UpdateAction)\<rparr>
      | None \<Rightarrow>
          (case in_api nodes h of
             [] \<Rightarrow> None
           | [n] \<Rightarrow> Some \<lparr>nwa_node = n, nwa_action = DeleteAction\<rparr>
           | n # _ # _ \<Rightarrow> Some \<lparr>nwa_node = n, nwa_action = UpdateAction\<rparr>))"

lemma map_of_fold_required:
  "map_of (fold add_required ns am) h =
     (case required_for ns h of
        None \<Rightarrow> map_of am h
      | Some n \<Rightarrow> Some \<lparr>nwa_node = n, nwa_action = CreateAction\<rparr>)"
proof (induction ns rule: rev_induct)
  case (snoc n ns)
  then show ?case
    by (simp add: add_required_def required_for_def update_conv' split: option.splits)
qed (simp add: required_for_def)

lemma go_map_fold_required: "go_map am \<Longrightarrow> go_map (fold add_required ns am)"
  by (induction ns arbitrary: am) (simp_all add: add_required_def)

lemma go_map_fold_in_api: "go_map am \<Longrightarrow> go_map (fold add_in_api ns am)"
  by (induction ns arbitrary: am) (simp_all add: add_in_api_def split: option.splits)

lemma go_map_actionMap: "go_map (createContrailNodesActionMap r ns)"
  by (simp add: createContrailNodesActionMap_def go_map_fold_required go_map_fold_in_api)

lemma in_api_snoc: "in_api (ns @ [n]) h = in_api ns h @ (if GetHostname n = h then [n] else [])"
  by (simp add: in_api_def)

lemma map_of_actionMap:
  "map_of (createContrailNodesActionMap r ns) h = planned_action (rc_requiredNodes r) ns h"
proof (induction ns rule: rev_induct)
  case Nil
  show ?case
    by (simp add: createContrailNodesActionMap_def planned_action_def map_of_fold_required in_api_def
        split: option.splits)
next
  case (snoc n ns)
  show ?case
  proof (cases "GetHostname n = h")
    case True
    with snoc show ?thesis
      by (auto simp: createContrailNodesActionMap_def add_in_api_def update_conv' planned_action_def
          in_api_snoc split: option.splits list.splits)
  next
    case False
    with snoc show ?thesis
      by (auto simp: createContrailNodesActionMap_def add_in_api_def update_conv' planned_action_def
          in_api_snoc split: option.splits list.splits)
  qed
qed

lemma actionMap_entry:
  "(h, nwa) \<in> set (createContrailNodesActionMap r ns) \<longleftrightarrow>
     planned_action (rc_requiredNodes r) ns h = Some nwa"
  by (metis go_map_actionMap go_map_lookup map_of_actionMap)

lemma required_for_SomeD:
  "required_for ns h = Some n \<Longrightarrow> n \<in> set ns \<and> GetHostname n = h"
  by (auto simp: required_for_def dest: find_SomeD)

lemma required_for_None_iff: "required_for ns h = None \<longleftrightarrow> h \<notin> GetHostname ` set ns"
  by (auto simp: required_for_def find_rev_None)

lemma in_api_Nil_iff: "in_api ns h = [] \<longleftrightarrow> h \<notin> GetHostname ` set ns"
  by (auto simp: in_api_def filter_empty_conv)

lemma in_api_ConsD: "in_api ns h = n # rest \<Longrightarrow> n \<in> set ns \<and> GetHostname n = h"
  unfolding in_api_def by (metis (mono_tags, lifting) filter_eq_ConsD in_set_conv_decomp)

lemma planned_action_hostname:
  assumes "planned_action required nodes h = Some nwa"
  shows "GetHostname (nwa_node nwa) = h"
  using assms
  by (auto simp: planned_action_def dest: required_for_SomeD in_api_ConsD
      split: option.splits list.splits)

lemma planned_action_node:
  assumes "planned_action required nodes h = Some nwa"
  shows "nwa_node nwa \<in> set required \<union> set nodes"
    and "nwa_action nwa = DeleteAction \<Longrightarrow> nwa_node nwa \<in> set nodes"
    and "nwa_action nwa = CreateAction \<Longrightarrow> nwa_node nwa \<in> set required"
  using assms
  by (auto simp: planned_action_def dest: required_for_SomeD in_api_ConsD
      split: option.splits list.splits if_splits)

text \<open>
  A reconciliation is the run of an action map whose entry for each host name is the planned
  action.
\<close>

lemma ReconcileNodes_plan:
  obtains am where "go_map am"
    and "\<And>h. map_of am h = planned_action (map (ensureRequiredAnnotationsSetOnNode ord ann) req)
        (filter (\<lambda>n. HasRequiredAnnotations ord (GetAnnotations n) ann) ns) h"
    and "ReconcileNodes ord aord (NewReconciler cl req ann) ns =
      forM (range_of aord am) (\<lambda>(_, w). case nwa_action w of
          UpdateAction \<Rightarrow> node_Update cl ord (nwa_node w)
        | CreateAction \<Rightarrow> node_Create cl ord (nwa_node w)
        | DeleteAction \<Rightarrow> node_Delete cl (nwa_node w))"
proof -
  let ?r = "ensureRequiredAnnotationsOnRequiredNodes ord (NewReconciler cl req ann)"
  let ?m = "getNodesWithRequiredAnnotations ord ?r ns"
  have r: "rc_cl ?r = cl" "rc_requiredNodes ?r = map (ensureRequiredAnnotationsSetOnNode ord ann) req"
    "?m = filter (\<lambda>n. HasRequiredAnnotations ord (GetAnnotations n) ann) ns"
    by (simp_all add: ensureRequiredAnnotationsOnRequiredNodes_def NewReconciler_def
        getNodesWithRequiredAnnotations_def)
  show thesis
  proof (rule that [of "createContrailNodesActionMap ?r ?m"])
    show "ReconcileNodes ord aord (NewReconciler cl req ann) ns =
      forM (range_of aord (createContrailNodesActionMap ?r ?m)) (\<lambda>(_, w). case nwa_action w of
          UpdateAction \<Rightarrow> node_Update cl ord (nwa_node w)
        | CreateAction \<Rightarrow> node_Create cl ord (nwa_node w)
        | DeleteAction \<Rightarrow> node_Delete cl (nwa_node w))"
      unfolding ReconcileNodes_def executeActionMap_def Let_def r(1) ..
  qed (simp_all add: go_map_actionMap map_of_actionMap r)
qed

end
