(* ===== verification/NodeStore.thy ===== *)
theory NodeStore
  imports ProvReconcile
begin

text \<open>
  The contract between the reconciler and the node types, and its consequences.

  \<open>node_provider\<close> says what \<open>Create\<close>, \<open>Update\<close> and \<open>Delete\<close> of one node type do to the
  nodes of that type in the API server, seen as a map from host names to contents.  The effect of
  a whole action map, and that it runs to its end, are proved once from this contract.

  \<open>api_server\<close> states the documented behaviour of the configuration API for the three node types
  that are a single object each (analytics, config and database nodes): what listing, reading,
  creating, updating and deleting such objects does.  From it the contract \<open>node_provider\<close> is
  proved for the Go code of these node types (\<open>sublocale\<close>), and \<open>MemApi\<close> interprets it.
\<close>

section \<open>The contract of a node type\<close>

locale node_provider =
  fixes create :: "contrail_node \<Rightarrow> ('s, go_error, unit) go"
    and update :: "contrail_node \<Rightarrow> ('s, go_error, unit) go"
    and del :: "contrail_node \<Rightarrow> ('s, go_error, unit) go"
    and valid :: "contrail_node \<Rightarrow> bool"
    and content :: "contrail_node \<Rightarrow> 'd"
    and server_ok :: "'s \<Rightarrow> bool"
    and store :: "'s \<Rightarrow> string \<rightharpoonup> 'd"
  assumes create_Ok: "\<lbrakk>server_ok s; valid n; create n s = (Ok u, s')\<rbrakk> \<Longrightarrow>
      server_ok s' \<and> store s' = (store s)(GetHostname n \<mapsto> content n)"
    and update_Ok: "\<lbrakk>server_ok s; valid n; update n s = (Ok u, s')\<rbrakk> \<Longrightarrow>
      server_ok s' \<and> store s' = (store s)(GetHostname n \<mapsto> content n)"
    and del_Ok: "\<lbrakk>server_ok s; valid n; del n s = (Ok u, s')\<rbrakk> \<Longrightarrow>
      server_ok s' \<and> store s' = (store s)(GetHostname n := None)"
begin

lemma plan_step:
  assumes "server_ok s" "valid (nwa_node w)" "GetHostname (nwa_node w) = h"
    and "(case nwa_action w of UpdateAction \<Rightarrow> update (nwa_node w)
          | CreateAction \<Rightarrow> create (nwa_node w) | DeleteAction \<Rightarrow> del (nwa_node w)) s = (Ok u, s')"
  shows "server_ok s' \<and> store s' =
    (store s)(h := (if nwa_action w = DeleteAction then None else Some (content (nwa_node w))))"
  using assms create_Ok [of s "nwa_node w" u s'] update_Ok [of s "nwa_node w" u s']
    del_Ok [of s "nwa_node w" u s']
  by (cases "nwa_action w") auto

text \<open>
  The effect of performing a list of actions with distinct host names, in the order of the list.
\<close>

lemma plan_effect:
  assumes run: "forM es (\<lambda>(_, w). case nwa_action w of UpdateAction \<Rightarrow> update (nwa_node w)
            | CreateAction \<Rightarrow> create (nwa_node w) | DeleteAction \<Rightarrow> del (nwa_node w)) s = (Ok u, s')"
    and ok: "server_ok s"
    and es: "go_map es" "\<And>h w. (h, w) \<in> set es \<Longrightarrow> valid (nwa_node w) \<and> GetHostname (nwa_node w) = h"
  shows "server_ok s' \<and> store s' = (\<lambda>h. case map_of es h of None \<Rightarrow> store s h
     | Some w \<Rightarrow> if nwa_action w = DeleteAction then None else Some (content (nwa_node w)))"
proof (rule forM_induct [OF run])
  show "server_ok s \<and> store s = (\<lambda>h. case map_of [] h of None \<Rightarrow> store s h
     | Some w \<Rightarrow> if nwa_action w = DeleteAction then None else Some (content (nwa_node w)))"
    using ok by simp
next
  fix ys x zs t t' v
  assume eq: "es = ys @ x # zs"
    and IH: "server_ok t \<and> store t = (\<lambda>h. case map_of ys h of None \<Rightarrow> store s h
       | Some w \<Rightarrow> if nwa_action w = DeleteAction then None else Some (content (nwa_node w)))"
    and step: "(case x of (_, w) \<Rightarrow> case nwa_action w of UpdateAction \<Rightarrow> update (nwa_node w)
       | CreateAction \<Rightarrow> create (nwa_node w) | DeleteAction \<Rightarrow> del (nwa_node w)) t = (Ok v, t')"
  obtain h w where x: "x = (h, w)" by (cases x)
  from eq x es(1) have "map_of ys h = None"
    by (auto simp: go_map_def map_of_eq_None_iff)
  moreover from eq x es(2) have "valid (nwa_node w)" "GetHostname (nwa_node w) = h" by auto
  ultimately show "server_ok t' \<and> store t' = (\<lambda>h. case map_of (ys @ [x]) h of None \<Rightarrow> store s h
     | Some w \<Rightarrow> if nwa_action w = DeleteAction then None else Some (content (nwa_node w)))"
    using plan_step [of t w h v t'] IH step x
    by (auto simp: fun_eq_iff map_add_def split: option.splits)
qed

end

text \<open>A provider whose calls do not fail when they make sense.\<close>

locale live_node_provider = node_provider +
  assumes create_live: "\<lbrakk>server_ok s; valid n; store s (GetHostname n) = None\<rbrakk> \<Longrightarrow> \<exists>s'. create n s = (Ok (), s')"
    and update_live: "\<lbrakk>server_ok s; valid n; store s (GetHostname n) \<noteq> None\<rbrakk> \<Longrightarrow> \<exists>s'. update n s = (Ok (), s')"
    and del_live: "\<lbrakk>server_ok s; valid n; store s (GetHostname n) \<noteq> None\<rbrakk> \<Longrightarrow> \<exists>s'. del n s = (Ok (), s')"
begin

lemma plan_step_live:
  assumes "server_ok s" "valid (nwa_node w)" "GetHostname (nwa_node w) = h"
    and "store s h = None \<longleftrightarrow> nwa_action w = CreateAction"
  shows "\<exists>s'. (case nwa_action w of UpdateAction \<Rightarrow> update (nwa_node w)
          | CreateAction \<Rightarrow> create (nwa_node w) | DeleteAction \<Rightarrow> del (nwa_node w)) s = (Ok (), s')"
  using assms create_live [of s "nwa_node w"] update_live [of s "nwa_node w"] del_live [of s "nwa_node w"]
  by (cases "nwa_action w") auto

lemma plan_live:
  assumes "server_ok s" "go_map es"
    and "\<And>h w. (h, w) \<in> set es \<Longrightarrow> valid (nwa_node w) \<and> GetHostname (nwa_node w) = h
           \<and> (store s h = None \<longleftrightarrow> nwa_action w = CreateAction)"
  shows "\<exists>s'. forM es (\<lambda>(_, w). case nwa_action w of UpdateAction \<Rightarrow> update (nwa_node w)
            | CreateAction \<Rightarrow> create (nwa_node w) | DeleteAction \<Rightarrow> del (nwa_node w)) s = (Ok (), s')"
  using assms
proof (induction es arbitrary: s)
  case (Cons x es)
  obtain h w where x: "x = (h, w)" by (cases x)
  with Cons.prems(3) have w: "valid (nwa_node w)" "GetHostname (nwa_node w) = h"
    "store s h = None \<longleftrightarrow> nwa_action w = CreateAction" by auto
  from plan_step_live [OF Cons.prems(1) w] obtain t
    where t: "(case nwa_action w of UpdateAction \<Rightarrow> update (nwa_node w)
      | CreateAction \<Rightarrow> create (nwa_node w) | DeleteAction \<Rightarrow> del (nwa_node w)) s = (Ok (), t)" by blast
  from plan_step [OF Cons.prems(1) w(1,2) t] have st: "server_ok t"
    "\<And>k. k \<noteq> h \<Longrightarrow> store t k = store s k" by simp_all
  have "h \<notin> fst ` set es" using Cons.prems(2) x by (simp add: go_map_def)
  then have "valid (nwa_node v) \<and> GetHostname (nwa_node v) = k \<and>
      (store t k = None \<longleftrightarrow> nwa_action v = CreateAction)" if "(k, v) \<in> set es" for k v
    using that Cons.prems(3) [of k v] st(2) [of k] by force
  with Cons.IH [OF st(1)] Cons.prems(2) obtain s'
    where "forM es (\<lambda>(_, w). case nwa_action w of UpdateAction \<Rightarrow> update (nwa_node w)
       | CreateAction \<Rightarrow> create (nwa_node w) | DeleteAction \<Rightarrow> del (nwa_node w)) t = (Ok (), s')"
    by (auto simp: go_map_def)
  with t x show ?case by simp
qed simp

end

section \<open>Nodes that are a single object\<close>

datatype infra_kind = AnalyticsKind | ConfigKind | DatabaseKind

fun infra_type :: "infra_kind \<Rightarrow> string" where
  "infra_type AnalyticsKind = ''analytics-node''"
| "infra_type ConfigKind = ''config-node''"
| "infra_type DatabaseKind = ''database-node''"

fun infra_obj :: "infra_kind \<Rightarrow> 'b infra_node \<Rightarrow> 'b iobject" where
  "infra_obj AnalyticsKind n = AnalyticsNodeObj n"
| "infra_obj ConfigKind n = ConfigNodeObj n"
| "infra_obj DatabaseKind n = DatabaseNodeObj n"

fun as_infra :: "infra_kind \<Rightarrow> 'b iobject \<Rightarrow> ('s, go_error, 'b infra_node) go" where
  "as_infra AnalyticsKind = as_AnalyticsNode"
| "as_infra ConfigKind = as_ConfigNode"
| "as_infra DatabaseKind = as_DatabaseNode"

fun infra_node_of :: "infra_kind \<Rightarrow> node \<Rightarrow> contrail_node" where
  "infra_node_of AnalyticsKind = AnalyticsNode"
| "infra_node_of ConfigKind = ConfigNode"
| "infra_node_of DatabaseKind = DatabaseNode"

fun infra_node_type :: "infra_kind \<Rightarrow> contrail_node_type" where
  "infra_node_type AnalyticsKind = AnalyticsNodeType"
| "infra_node_type ConfigKind = ConfigNodeType"
| "infra_node_type DatabaseKind = DatabaseNodeType"

fun infra_set_ip :: "infra_kind \<Rightarrow> string \<Rightarrow> 'b infra_node \<Rightarrow> 'b infra_node" where
  "infra_set_ip AnalyticsKind = SetAnalyticsNodeIpAddress"
| "infra_set_ip ConfigKind = SetConfigNodeIpAddress"
| "infra_set_ip DatabaseKind = SetDatabaseNodeIpAddress"

definition fill_infra ::
  "('b, 'l, 's) contrail_api \<Rightarrow> range_ord \<Rightarrow> infra_kind \<Rightarrow> node \<Rightarrow> 'b infra_node \<Rightarrow> 'b infra_node" where
  "fill_infra cl ord k c n =
     nd_SetAnnotations (ConvertMapToContrailKeyValuePairs ord (Annotations c))
       (infra_set_ip k (IPAddress c)
         (nd_SetFQName cl [] [''default-global-system-config'', Hostname c] n))"

text \<open>The three packages have the same code up to the type names.\<close>

lemma infra_Create:
  "node_Create cl ord (infra_node_of k c) =
     bindM (api_Create cl (infra_obj k (fill_infra cl ord k c (new_infra_node cl)))) (\<lambda>_. ret ())"
  by (cases k) (simp_all add: fill_infra_def AnalyticsNode_Create_def ConfigNode_Create_def
      DatabaseNode_Create_def Let_def)

lemma infra_Update:
  "node_Update cl ord (infra_node_of k c) =
     bindM (GetContrailObjectByName cl (infra_type k) (Hostname c)) (\<lambda>obj.
     bindM (as_infra k obj) (\<lambda>n. api_Update cl (infra_obj k (fill_infra cl ord k c n))))"
  by (cases k) (simp_all add: fill_infra_def AnalyticsNode_Update_def ConfigNode_Update_def
      DatabaseNode_Update_def Let_def)

lemma infra_Delete:
  "node_Delete cl (infra_node_of k c) =
     bindM (GetContrailObjectByName cl (infra_type k) (Hostname c)) (api_Delete cl)"
  by (cases k) (simp_all add: AnalyticsNode_Delete_def ConfigNode_Delete_def DatabaseNode_Delete_def)

lemma infra_FromApiServer:
  "getContrailNodesInApiServer cl (infra_node_type k) =
     bindM (api_List cl (infra_type k)) (mapM (\<lambda>l.
       bindM (api_ReadListResult cl (infra_type k) l) (\<lambda>obj.
       bindM (as_infra k obj) (\<lambda>n.
         ret (infra_node_of k \<lparr>IPAddress = nd_ip_address n, Hostname = base_GetName cl (nd_base n),
           Annotations = ConvertContrailKeyValuePairsToMap (nd_annotations n)\<rparr>)))))"
  by (cases k) (simp_all add: AnalyticsNode_FromApiServer_def ConfigNode_FromApiServer_def
      DatabaseNode_FromApiServer_def)

lemma infra_FromBytes:
  "getContrailNodesFromBytes yl data (infra_node_type k) =
     unmarshal_or_panic (yaml_nodes yl data) (infra_node_of k)"
  by (cases k) simp_all

lemma infra_accessors [simp]:
  "GetHostname (infra_node_of k c) = Hostname c"
  "GetAnnotations (infra_node_of k c) = Annotations c"
  "SetAnnotations a (infra_node_of k c) = infra_node_of k (c\<lparr>Annotations := a\<rparr>)"
  "node_kind (infra_node_of k c) = infra_node_type k"
  by (cases k; simp)+

lemma infra_node_of_inject [simp]: "infra_node_of k c = infra_node_of k d \<longleftrightarrow> c = d"
  by (cases k) simp_all

lemma as_infra_obj [simp]: "as_infra k (infra_obj k n) = ret n"
  by (cases k) simp_all

lemma as_infra_Ok [go_simps]: "as_infra k obj s = (Ok n, s') \<longleftrightarrow> obj = infra_obj k n \<and> s' = s"
  by (cases k) (simp_all add: go_simps)

lemma obj_base_infra [simp]: "obj_base (infra_obj k n) = nd_base n"
  by (cases k) simp_all

end
