(* ===== verification/ApiServer.thy ===== *)
theory ApiServer
  imports NodeStore
begin

text \<open>
  The documented behaviour of the configuration API for analytics, config and database nodes
  (locale \<open>api_server\<close>), and what the provisioner's code makes of it: the contract
  \<open>node_provider\<close> of the reconciler and the nodes that \<open>GetContrailNodesFromApiServer\<close> returns.

  An entry is one object as the server stores it.  The server keeps UUIDs and fully qualified
  names of a type unique (a second object with the same name is the error "409 Conflict").
\<close>

record api_entry =
  en_uuid :: string
  en_fqname :: "string list"
  en_name :: string
  en_ip :: string
  en_annotations :: key_value_pairs

definition entry_of :: "('b, 'l, 's) contrail_api \<Rightarrow> 'b infra_node \<Rightarrow> api_entry" where
  "entry_of cl n =
     \<lparr>en_uuid = base_GetUuid cl (nd_base n), en_fqname = base_GetFQName cl (nd_base n),
      en_name = base_GetName cl (nd_base n), en_ip = nd_ip_address n,
      en_annotations = nd_annotations n\<rparr>"

text \<open>What a node says, independently of the order of its annotations.\<close>

type_synonym node_content = "string \<times> (string \<rightharpoonup> string)"

definition entry_content :: "api_entry \<Rightarrow> node_content" where
  "entry_content e = (en_ip e, map_of (rev (en_annotations e)))"

definition store_of :: "api_entry list \<Rightarrow> string \<rightharpoonup> node_content" where
  "store_of es = map_of (map (\<lambda>e. (en_name e, entry_content e)) es)"

fun node_content :: "contrail_node \<Rightarrow> node_content" where
  "node_content (VrouterNode c) = (IPAddress c, map_of (entries (Annotations c)))"
| "node_content (DatabaseNode c) = (IPAddress c, map_of (entries (Annotations c)))"
| "node_content (AnalyticsNode c) = (IPAddress c, map_of (entries (Annotations c)))"
| "node_content (ControlNode c) = (IPAddress c, map_of (entries (Annotations c)))"
| "node_content (ConfigNode c) = (IPAddress c, map_of (entries (Annotations c)))"

text \<open>The node that \<open>GetContrailNodesFromApiServer\<close> makes of an object.\<close>

definition node_of_entry :: "infra_kind \<Rightarrow> api_entry \<Rightarrow> contrail_node" where
  "node_of_entry k e = infra_node_of k
     \<lparr>IPAddress = en_ip e, Hostname = en_name e,
      Annotations = ConvertContrailKeyValuePairsToMap (en_annotations e)\<rparr>"

text \<open>Every node of the type is a child of the default global system configuration.\<close>

definition entries_ok :: "api_entry list \<Rightarrow> bool" where
  "entries_ok es \<longleftrightarrow> distinct (map en_uuid es) \<and> distinct (map en_fqname es) \<and>
     (\<forall>e \<in> set es. en_fqname e = [''default-global-system-config'', en_name e])"

definition valid_node :: "infra_kind \<Rightarrow> contrail_node \<Rightarrow> bool" where
  "valid_node k n \<longleftrightarrow> (\<exists>c. n = infra_node_of k c) \<and> go_map (entries (GetAnnotations n))"

lemma entries_ok_names: "entries_ok es \<Longrightarrow> distinct (map en_name es)"
proof -
  assume ok: "entries_ok es"
  then have "map en_fqname es = map (\<lambda>x. [''default-global-system-config'', x]) (map en_name es)"
    by (auto simp: entries_ok_def)
  then show ?thesis
    using ok by (metis distinct_map entries_ok_def)
qed

lemma store_of_entry:
  assumes "entries_ok es" "e \<in> set es"
  shows "store_of es (en_name e) = Some (entry_content e)"
  using entries_ok_names [OF assms(1)] assms(2)
  by (auto simp: store_of_def comp_def intro!: map_of_is_SomeI)

lemma store_of_SomeE:
  assumes "store_of es h = Some d"
  obtains e where "e \<in> set es" "en_name e = h" "entry_content e = d"
  using assms by (auto simp: store_of_def dest!: map_of_SomeD)

lemma store_of_None: "store_of es h = None \<longleftrightarrow> (\<forall>e \<in> set es. en_name e \<noteq> h)"
  by (force simp: store_of_def map_of_eq_None_iff)

lemma store_of_append:
  "store_of es (en_name e) = None \<Longrightarrow> store_of (es @ [e]) = (store_of es)(en_name e \<mapsto> entry_content e)"
  by (auto simp: store_of_def map_add_def fun_eq_iff split: option.splits)

lemma store_of_replace:
  assumes "distinct (map en_name es)" "e \<in> set es" "en_name e' = en_name e" "distinct (map en_uuid es)"
  shows "store_of (map (\<lambda>x. if en_uuid x = en_uuid e then e' else x) es) =
     (store_of es)(en_name e \<mapsto> entry_content e')"
  using assms
proof (induction es)
  case (Cons x es)
  show ?case
  proof (cases "x = e")
    case True
    with Cons.prems have "\<forall>y \<in> set es. en_uuid y \<noteq> en_uuid e" by (auto simp: image_iff)
    then have "map (\<lambda>x. if en_uuid x = en_uuid e then e' else x) es = es"
      by (intro map_idI) simp
    with True Cons.prems(3) show ?thesis by (auto simp: store_of_def fun_eq_iff)
  next
    case False
    with Cons.prems have "e \<in> set es" "en_uuid x \<noteq> en_uuid e" "en_name x \<noteq> en_name e"
      by (auto simp: image_iff)
    with Cons show ?thesis by (auto simp: store_of_def fun_eq_iff)
  qed
qed simp

lemma store_of_remove:
  assumes "distinct (map en_name es)" "e \<in> set es" "distinct (map en_uuid es)"
  shows "store_of (filter (\<lambda>x. en_uuid x \<noteq> en_uuid e) es) = (store_of es)(en_name e := None)"
  using assms
proof (induction es)
  case (Cons x es)
  show ?case
  proof (cases "x = e")
    case True
    with Cons.prems have u: "\<forall>y \<in> set es. en_uuid y \<noteq> en_uuid e"
      and "\<forall>y \<in> set es. en_name y \<noteq> en_name e" by (auto simp: image_iff)
    then have "store_of es (en_name e) = None" by (simp add: store_of_None)
    moreover have "filter (\<lambda>x. en_uuid x \<noteq> en_uuid e) es = es"
      using u by (intro filter_True) simp
    ultimately show ?thesis using True by (auto simp: store_of_def fun_eq_iff)
  next
    case False
    with Cons.prems have "e \<in> set es" "en_uuid x \<noteq> en_uuid e" "en_name x \<noteq> en_name e"
      by (auto simp: image_iff)
    with Cons show ?thesis by (auto simp: store_of_def fun_eq_iff)
  qed
qed simp

lemma entries_ok_replace:
  assumes "entries_ok es" "e \<in> set es" "en_uuid e' = en_uuid e" "en_fqname e' = en_fqname e"
    "en_name e' = en_name e"
  shows "entries_ok (map (\<lambda>x. if en_uuid x = en_uuid e then e' else x) es)"
proof -
  have "x = e" if "x \<in> set es" "en_uuid x = en_uuid e" for x
    using assms(1,2) that by (auto simp: entries_ok_def distinct_map inj_on_def)
  then have same: "map en_uuid (map (\<lambda>x. if en_uuid x = en_uuid e then e' else x) es) = map en_uuid es"
    "map en_fqname (map (\<lambda>x. if en_uuid x = en_uuid e then e' else x) es) = map en_fqname es"
    using assms(3,4) by auto
  have "\<forall>x \<in> set (map (\<lambda>x. if en_uuid x = en_uuid e then e' else x) es).
      en_fqname x = [''default-global-system-config'', en_name x]"
    using assms by (auto simp: entries_ok_def)
  then show ?thesis
    using assms(1) by (simp only: entries_ok_def same)
qed

lemma entries_ok_filter: "entries_ok es \<Longrightarrow> entries_ok (filter P es)"
  by (auto simp: entries_ok_def distinct_map_filter)

section \<open>The documented behaviour of the API\<close>

locale api_server =
  fixes cl :: "('b, 'l, 's) contrail_api"
    and contents :: "'s \<Rightarrow> infra_kind \<Rightarrow> api_entry list"
  assumes SetFQName_GetName: "base_GetName cl (base_SetFQName cl pt (fqn @ [name]) b) = name"
    and SetFQName_GetFQName: "base_GetFQName cl (base_SetFQName cl pt fqn b) = fqn"
    and SetFQName_GetUuid: "base_GetUuid cl (base_SetFQName cl pt fqn b) = base_GetUuid cl b"
    and List_Ok: "api_List cl (infra_type k) s = (Ok ls, s') \<Longrightarrow>
      s' = s \<and> length ls = length (contents s k)"
    and Read_Ok: "\<lbrakk>api_List cl (infra_type k) s = (Ok ls, t); i < length ls;
      api_ReadListResult cl (infra_type k) (ls ! i) s = (Ok obj, s')\<rbrakk> \<Longrightarrow>
      s' = s \<and> (\<exists>n. obj = infra_obj k n \<and> entry_of cl n = contents s k ! i)"
    and Create_Ok: "api_Create cl (infra_obj k n) s = (Ok obj, s') \<Longrightarrow>
      en_fqname (entry_of cl n) \<notin> en_fqname ` set (contents s k) \<and>
      (\<exists>u. u \<notin> en_uuid ` set (contents s k) \<and>
        contents s' = (contents s)(k := contents s k @ [(entry_of cl n)\<lparr>en_uuid := u\<rparr>]))"
    and Update_Ok: "api_Update cl (infra_obj k n) s = (Ok u, s') \<Longrightarrow>
      contents s' = (contents s)(k :=
        map (\<lambda>e. if en_uuid e = en_uuid (entry_of cl n) then entry_of cl n else e) (contents s k))"
    and Delete_Ok: "api_Delete cl (infra_obj k n) s = (Ok u, s') \<Longrightarrow>
      contents s' = (contents s)(k :=
        filter (\<lambda>e. en_uuid e \<noteq> en_uuid (entry_of cl n)) (contents s k))"
begin

lemma entry_fill:
  "entry_of cl (fill_infra cl ord k c n) =
     \<lparr>en_uuid = base_GetUuid cl (nd_base n),
      en_fqname = [''default-global-system-config'', Hostname c], en_name = Hostname c,
      en_ip = IPAddress c, en_annotations = ConvertMapToContrailKeyValuePairs ord (Annotations c)\<rparr>"
  using SetFQName_GetName [of "[]" "[''default-global-system-config'']" "Hostname c" "nd_base n"]
  by (cases k) (simp_all add: entry_of_def fill_infra_def nd_SetAnnotations_def nd_SetFQName_def
      SetAnalyticsNodeIpAddress_def SetConfigNodeIpAddress_def SetDatabaseNodeIpAddress_def
      SetFQName_GetFQName SetFQName_GetUuid)

text \<open>A successful search by name returns an object that the server stores under that name.\<close>

lemma find_by_name_entry:
  assumes "find_by_name cl (infra_type k) h (drop i ls) s = (Ok obj, s')"
    and "api_List cl (infra_type k) s = (Ok ls, t)"
  shows "s' = s \<and> (\<exists>n. obj = infra_obj k n \<and> entry_of cl n \<in> set (contents s k) \<and> en_name (entry_of cl n) = h)"
  using assms(1)
proof (induction "length ls - i" arbitrary: i)
  case 0
  then show ?case by (simp add: go_simps)
next
  case (Suc d)
  then have i: "i < length ls" by simp
  then have d: "drop i ls = ls ! i # drop (Suc i) ls" by (simp add: Cons_nth_drop_Suc)
  from Suc.prems [unfolded d] obtain x t'
    where x: "api_ReadListResult cl (infra_type k) (ls ! i) s = (Ok x, t')"
    and rest: "(if obj_GetName cl x = h then ret x
       else find_by_name cl (infra_type k) h (drop (Suc i) ls)) t' = (Ok obj, s')"
    by (auto simp: go_simps)
  from Read_Ok [OF assms(2) i x] obtain n
    where n: "t' = s" "x = infra_obj k n" "entry_of cl n = contents s k ! i" by blast
  have len: "i < length (contents s k)" using List_Ok [OF assms(2)] i by simp
  show ?case
  proof (cases "obj_GetName cl x = h")
    case True
    with rest n len show ?thesis
      by (auto simp: obj_GetName_def entry_of_def)
  next
    case False
    with rest n Suc.hyps(1) [of "Suc i"] Suc.hyps(2) show ?thesis by simp
  qed
qed

lemma GetObject_Ok:
  assumes "GetContrailObjectByName cl (infra_type k) h s = (Ok obj, s')"
  shows "s' = s \<and> (\<exists>n. obj = infra_obj k n \<and> entry_of cl n \<in> set (contents s k) \<and> en_name (entry_of cl n) = h)"
proof -
  from assms obtain ls t where ls: "api_List cl (infra_type k) s = (Ok ls, t)"
    and f: "find_by_name cl (infra_type k) h ls t = (Ok obj, s')"
    by (auto simp: GetContrailObjectByName_def go_simps)
  have "t = s" using List_Ok [OF ls] by simp
  with find_by_name_entry [of k h 0 ls s obj s' t] ls f show ?thesis by simp
qed

text \<open>The nodes read from the server are its entries, in their order.\<close>

lemma read_nodes:
  assumes "mapM (\<lambda>l. bindM (api_ReadListResult cl (infra_type k) l) (\<lambda>obj.
       bindM (as_infra k obj) (\<lambda>n.
         ret (infra_node_of k \<lparr>IPAddress = nd_ip_address n, Hostname = base_GetName cl (nd_base n),
           Annotations = ConvertContrailKeyValuePairsToMap (nd_annotations n)\<rparr>)))) (drop i ls) s = (Ok ns, s')"
    and ls: "api_List cl (infra_type k) s = (Ok ls, t)" and "i \<le> length ls"
  shows "s' = s \<and> ns = map (node_of_entry k) (drop i (contents s k))"
  using assms(1,3)
proof (induction "length ls - i" arbitrary: i ns)
  case 0
  with List_Ok [OF ls] show ?case by simp
next
  case (Suc d)
  then have i: "i < length ls" by simp
  then have d: "drop i ls = ls ! i # drop (Suc i) ls"
    and dc: "drop i (contents s k) = contents s k ! i # drop (Suc i) (contents s k)"
    using List_Ok [OF ls] by (simp_all add: Cons_nth_drop_Suc)
  from Suc.prems(1) [unfolded d] obtain x n t' ns'
    where x: "api_ReadListResult cl (infra_type k) (ls ! i) s = (Ok x, t')" "x = infra_obj k n"
    and ns: "ns = infra_node_of k \<lparr>IPAddress = nd_ip_address n, Hostname = base_GetName cl (nd_base n),
           Annotations = ConvertContrailKeyValuePairsToMap (nd_annotations n)\<rparr> # ns'"
    and rest: "mapM (\<lambda>l. bindM (api_ReadListResult cl (infra_type k) l) (\<lambda>obj.
       bindM (as_infra k obj) (\<lambda>n.
         ret (infra_node_of k \<lparr>IPAddress = nd_ip_address n, Hostname = base_GetName cl (nd_base n),
           Annotations = ConvertContrailKeyValuePairsToMap (nd_annotations n)\<rparr>)))) (drop (Suc i) ls) t' = (Ok ns', s')"
    by (auto simp: go_simps)
  from Read_Ok [OF ls i x(1)] x(2) have "t' = s" and e: "entry_of cl n = contents s k ! i"
    by (cases k; auto)+
  with rest Suc.hyps(1) [of "Suc i" ns'] Suc.hyps(2) i
  have "s' = s" "ns' = map (node_of_entry k) (drop (Suc i) (contents s k))" by auto
  with ns dc show ?case by (simp add: node_of_entry_def e [symmetric] entry_of_def)
qed

lemma FromApiServer_Ok:
  assumes "getContrailNodesInApiServer cl (infra_node_type k) s = (Ok ns, s')"
  shows "s' = s \<and> ns = map (node_of_entry k) (contents s k)"
proof -
  from assms obtain ls t where ls: "api_List cl (infra_type k) s = (Ok ls, t)"
    and r: "mapM (\<lambda>l. bindM (api_ReadListResult cl (infra_type k) l) (\<lambda>obj.
       bindM (as_infra k obj) (\<lambda>n.
         ret (infra_node_of k \<lparr>IPAddress = nd_ip_address n, Hostname = base_GetName cl (nd_base n),
           Annotations = ConvertContrailKeyValuePairsToMap (nd_annotations n)\<rparr>)))) ls t = (Ok ns, s')"
    unfolding infra_FromApiServer by (auto simp: go_simps)
  with List_Ok [OF ls] read_nodes [of k 0 ls s ns s' t] show ?thesis by simp
qed

end

section \<open>The contract of the reconciler\<close>

locale infra_server = api_server +
  fixes ord :: range_ord and k :: infra_kind
  assumes ord: "range_perm ord"
begin

lemma content_fill:
  assumes "valid_node k (infra_node_of k c)"
  shows "entry_content (entry_of cl (fill_infra cl ord k c n)) = node_content (infra_node_of k c)"
proof -
  have "map_of (rev (ConvertMapToContrailKeyValuePairs ord (Annotations c))) = map_of (entries (Annotations c))"
    using assms ord
    by (simp add: ConvertMap_eq valid_node_def map_of_rev_go_map go_map_range_of map_of_range_of)
  then show ?thesis by (cases k) (simp_all add: entry_content_def entry_fill)
qed

lemma provider_create:
  assumes ok: "entries_ok (contents s k)" and v: "valid_node k n"
    and run: "node_Create cl ord n s = (Ok u, s')"
  shows "entries_ok (contents s' k) \<and>
    store_of (contents s' k) = (store_of (contents s k))(GetHostname n \<mapsto> node_content n)"
proof -
  from v obtain c where n: "n = infra_node_of k c" by (auto simp: valid_node_def)
  let ?e = "entry_of cl (fill_infra cl ord k c (new_infra_node cl))"
  from run n obtain obj where "api_Create cl (infra_obj k (fill_infra cl ord k c (new_infra_node cl))) s = (Ok obj, s')"
    by (auto simp: infra_Create go_simps)
  from Create_Ok [OF this] obtain i where fresh: "en_fqname ?e \<notin> en_fqname ` set (contents s k)"
    "i \<notin> en_uuid ` set (contents s k)"
    and s': "contents s' k = contents s k @ [?e\<lparr>en_uuid := i\<rparr>]" by auto
  have names: "en_fqname ?e = [''default-global-system-config'', en_name ?e]" "en_name ?e = Hostname c"
    by (simp_all add: entry_fill)
  have "store_of (contents s k) (en_name (?e\<lparr>en_uuid := i\<rparr>)) = None"
    using fresh(1) ok names by (auto simp: store_of_None entries_ok_def image_iff)
  from store_of_append [OF this] s' names
  have "store_of (contents s' k) = (store_of (contents s k))(Hostname c \<mapsto> entry_content ?e)"
    by (simp add: entry_content_def)
  moreover have "entries_ok (contents s' k)"
    using ok fresh names s' by (auto simp: entries_ok_def)
  ultimately show ?thesis using n v content_fill by simp
qed

lemma provider_update:
  assumes ok: "entries_ok (contents s k)" and v: "valid_node k n"
    and run: "node_Update cl ord n s = (Ok u, s')"
  shows "entries_ok (contents s' k) \<and>
    store_of (contents s' k) = (store_of (contents s k))(GetHostname n \<mapsto> node_content n)"
proof -
  from v obtain c where n: "n = infra_node_of k c" by (auto simp: valid_node_def)
  from run n obtain obj t m where get: "GetContrailObjectByName cl (infra_type k) (Hostname c) s = (Ok obj, t)"
    and m: "obj = infra_obj k m" and up: "api_Update cl (infra_obj k (fill_infra cl ord k c m)) t = (Ok u, s')"
    by (auto simp: infra_Update go_simps)
  let ?e = "entry_of cl m" and ?e' = "entry_of cl (fill_infra cl ord k c m)"
  from GetObject_Ok [OF get] m have t: "t = s" and e: "?e \<in> set (contents s k)" "en_name ?e = Hostname c"
    by (cases k; auto)+
  have e': "en_uuid ?e' = en_uuid ?e" "en_name ?e' = en_name ?e" "en_fqname ?e' = en_fqname ?e"
    using e ok by (auto simp: entry_fill entries_ok_def) (simp add: entry_of_def)
  from Update_Ok [OF up] t e' have s': "contents s' k =
      map (\<lambda>x. if en_uuid x = en_uuid ?e then ?e' else x) (contents s k)" by simp
  have "store_of (contents s' k) = (store_of (contents s k))(Hostname c \<mapsto> entry_content ?e')"
    using store_of_replace [OF entries_ok_names [OF ok] e(1) e'(2)] ok s' e(2)
    by (simp add: entries_ok_def)
  moreover have "entries_ok (contents s' k)"
    using entries_ok_replace [OF ok e(1) e'(1) e'(3) e'(2)] s' by simp
  ultimately show ?thesis using n v content_fill by simp
qed

lemma provider_delete:
  assumes ok: "entries_ok (contents s k)" and v: "valid_node k n"
    and run: "node_Delete cl n s = (Ok u, s')"
  shows "entries_ok (contents s' k) \<and>
    store_of (contents s' k) = (store_of (contents s k))(GetHostname n := None)"
proof -
  from v obtain c where n: "n = infra_node_of k c" by (auto simp: valid_node_def)
  from run n obtain obj t where get: "GetContrailObjectByName cl (infra_type k) (Hostname c) s = (Ok obj, t)"
    and del: "api_Delete cl obj t = (Ok u, s')"
    by (auto simp: infra_Delete go_simps)
  from GetObject_Ok [OF get] obtain m where t: "t = s" and m: "obj = infra_obj k m"
    and e: "entry_of cl m \<in> set (contents s k)" "en_name (entry_of cl m) = Hostname c" by blast
  from Delete_Ok [of k m t u s'] del m t
  have s': "contents s' k = filter (\<lambda>x. en_uuid x \<noteq> en_uuid (entry_of cl m)) (contents s k)" by simp
  with store_of_remove [OF entries_ok_names [OF ok] e(1)] entries_ok_filter [OF ok] ok e(2) n
  show ?thesis by (simp add: entries_ok_def)
qed

end

sublocale infra_server \<subseteq> prov: node_provider
  "node_Create cl ord" "node_Update cl ord" "node_Delete cl" "valid_node k" node_content
  "\<lambda>s. entries_ok (contents s k)" "\<lambda>s. store_of (contents s k)"
  by unfold_locales (fact provider_create provider_update provider_delete)+

section \<open>The outcome of a reconciliation\<close>

text \<open>
  The abstract specification: a required node is stored with its address, its annotations and the
  required annotations; a node that is not required is removed if it carries the required
  annotations, and stays as it is otherwise.
\<close>

definition reconciled ::
  "(string, string) gomap \<Rightarrow> contrail_node list \<Rightarrow> (string \<rightharpoonup> node_content) \<Rightarrow> (string \<rightharpoonup> node_content)" where
  "reconciled ann req st h =
     (case required_for req h of
        Some n \<Rightarrow> Some (fst (node_content n), snd (node_content n) ++ map_of ann)
      | None \<Rightarrow>
          (case st h of
             None \<Rightarrow> None
           | Some d \<Rightarrow> if map_of ann \<subseteq>\<^sub>m snd d then None else Some d))"

lemma node_of_entry_hostname [simp]: "GetHostname (node_of_entry k e) = en_name e"
  by (simp add: node_of_entry_def)

lemma valid_node_of_entry [simp]: "valid_node k (node_of_entry k e)"
  by (auto simp: valid_node_def node_of_entry_def go_map_ConvertPairs)

lemma managed_entry:
  assumes "range_perm ord" "go_map ann"
  shows "HasRequiredAnnotations ord (GetAnnotations (node_of_entry k e)) ann \<longleftrightarrow>
     map_of ann \<subseteq>\<^sub>m snd (entry_content e)"
  using assms
  by (simp add: HasRequiredAnnotations_iff node_of_entry_def map_of_ConvertPairs entry_content_def)

lemma in_api_managed:
  assumes "entries_ok es" "range_perm ord" "go_map ann"
  shows "in_api (filter (\<lambda>n. HasRequiredAnnotations ord (GetAnnotations n) ann) (map (node_of_entry k) es)) h =
     map (node_of_entry k) (filter (\<lambda>e. en_name e = h \<and> map_of ann \<subseteq>\<^sub>m snd (entry_content e)) es)"
proof -
  have "in_api (filter (\<lambda>n. HasRequiredAnnotations ord (GetAnnotations n) ann) (map (node_of_entry k) es)) h =
     map (node_of_entry k) (filter (\<lambda>e. en_name e = h \<and>
       HasRequiredAnnotations ord (GetAnnotations (node_of_entry k e)) ann) es)"
    by (simp add: in_api_def filter_map o_def conj_commute)
  then show ?thesis by (simp add: managed_entry [OF assms(2,3)])
qed

lemma in_api_managed_cases:
  assumes "entries_ok es" "range_perm ord" "go_map ann"
  shows "in_api (filter (\<lambda>n. HasRequiredAnnotations ord (GetAnnotations n) ann) (map (node_of_entry k) es)) h =
     (case find (\<lambda>e. en_name e = h) es of
        None \<Rightarrow> []
      | Some e \<Rightarrow> if map_of ann \<subseteq>\<^sub>m snd (entry_content e) then [node_of_entry k e] else [])"
proof -
  have "filter (\<lambda>e. en_name e = h \<and> Q e) es =
      (case find (\<lambda>e. en_name e = h) es of None \<Rightarrow> [] | Some e \<Rightarrow> if Q e then [e] else [])" for Q
    using filter_unique_key [OF entries_ok_names [OF assms(1)], of h Q] .
  then show ?thesis unfolding in_api_managed [OF assms] by (simp split: option.splits)
qed

lemma store_of_find: "store_of es h = map_option entry_content (find (\<lambda>e. en_name e = h) es)"
  by (induction es) (auto simp: store_of_def)

lemma required_for_map:
  "(\<And>n. GetHostname (f n) = GetHostname n) \<Longrightarrow> required_for (map f ns) h = map_option f (required_for ns h)"
  by (induction ns rule: rev_induct) (auto simp: required_for_def)

lemma node_content_ensure:
  assumes "range_perm ord" "go_map ann"
  shows "node_content (ensureRequiredAnnotationsSetOnNode ord ann n) =
     (fst (node_content n), snd (node_content n) ++ map_of ann)"
proof -
  have c: "node_content m = (fst (node_content m), map_of (entries (GetAnnotations m)))" for m
    by (cases m) simp_all
  have "fst (node_content (ensureRequiredAnnotationsSetOnNode ord ann n)) = fst (node_content n)"
    by (cases n) (simp_all add: ensureRequiredAnnotationsSetOnNode_def Let_def)
  with c [of n] c [of "ensureRequiredAnnotationsSetOnNode ord ann n"] ensure_annotations [OF assms, of n]
  show ?thesis by (metis snd_conv)
qed

text \<open>The effect that the action map of a reconciliation has according to the contract.\<close>

lemma planned_effect:
  fixes req :: "contrail_node list" and k :: infra_kind
  assumes "entries_ok es" "range_perm ord" "go_map ann"
  defines "req' \<equiv> map (ensureRequiredAnnotationsSetOnNode ord ann) req"
    and "managed \<equiv> filter (\<lambda>n. HasRequiredAnnotations ord (GetAnnotations n) ann) (map (node_of_entry k) es)"
  shows "(case planned_action req' managed h of None \<Rightarrow> store_of es h
     | Some w \<Rightarrow> if nwa_action w = DeleteAction then None else Some (node_content (nwa_node w)))
     = reconciled ann req (store_of es) h"
proof -
  have r: "required_for req' h =
      map_option (ensureRequiredAnnotationsSetOnNode ord ann) (required_for req h)"
    unfolding req'_def by (rule required_for_map) simp
  have m: "in_api managed h = (case find (\<lambda>e. en_name e = h) es of None \<Rightarrow> []
      | Some e \<Rightarrow> if map_of ann \<subseteq>\<^sub>m snd (entry_content e) then [node_of_entry k e] else [])"
    unfolding managed_def by (rule in_api_managed_cases [OF assms(1-3)])
  show ?thesis
    by (cases "required_for req h"; cases "find (\<lambda>e. en_name e = h) es")
       (simp_all add: planned_action_def reconciled_def r m store_of_find
          node_content_ensure [OF assms(2,3)])
qed

lemma planned_create_iff:
  fixes req :: "contrail_node list" and k :: infra_kind
  assumes "entries_ok es" "range_perm ord" "go_map ann"
    and "\<forall>n \<in> set req. \<forall>d. store_of es (GetHostname n) = Some d \<longrightarrow> map_of ann \<subseteq>\<^sub>m snd d"
    and "planned_action (map (ensureRequiredAnnotationsSetOnNode ord ann) req)
      (filter (\<lambda>n. HasRequiredAnnotations ord (GetAnnotations n) ann) (map (node_of_entry k) es)) h = Some w"
  shows "store_of es h = None \<longleftrightarrow> nwa_action w = CreateAction"
proof -
  have r: "required_for (map (ensureRequiredAnnotationsSetOnNode ord ann) req) h =
      map_option (ensureRequiredAnnotationsSetOnNode ord ann) (required_for req h)"
    by (rule required_for_map) simp
  have "map_of ann \<subseteq>\<^sub>m snd d" if "required_for req h = Some n" "store_of es h = Some d" for n d
    using assms(4) required_for_SomeD [OF that(1)] that(2) by blast
  with assms(5) show ?thesis
    by (auto simp: planned_action_def r in_api_managed_cases [OF assms(1-3)] store_of_find
        split: option.splits if_splits list.splits)
qed

lemma planned_valid:
  assumes "planned_action (map (ensureRequiredAnnotationsSetOnNode ord ann) req)
      (filter P (map (node_of_entry k) es)) h = Some w"
    and "\<forall>n \<in> set req. valid_node k n"
  shows "valid_node k (nwa_node w) \<and> GetHostname (nwa_node w) = h"
proof -
  have "valid_node k (ensureRequiredAnnotationsSetOnNode ord ann n)" if "n \<in> set req" for n
    using assms(2) that ensure_go_map [of n ord ann]
    by (auto simp: valid_node_def ensureRequiredAnnotationsSetOnNode_def Let_def)
  with planned_action_node(1) [OF assms(1)] planned_action_hostname [OF assms(1)]
  show ?thesis by auto
qed

context infra_server
begin

lemma ReconcileNodes_effect:
  assumes run: "ReconcileNodes ord aord (NewReconciler cl req ann) (map (node_of_entry k) (contents s k)) s = (Ok u, s')"
    and ok: "entries_ok (contents s k)" and req: "\<forall>n \<in> set req. valid_node k n"
    and ann: "go_map ann" and aord: "range_perm aord"
  shows "entries_ok (contents s' k) \<and>
     store_of (contents s' k) = reconciled ann req (store_of (contents s k))"
proof -
  obtain am where am: "go_map am"
    and plan: "\<And>h. map_of am h = planned_action (map (ensureRequiredAnnotationsSetOnNode ord ann) req)
      (filter (\<lambda>n. HasRequiredAnnotations ord (GetAnnotations n) ann) (map (node_of_entry k) (contents s k))) h"
    and eq: "ReconcileNodes ord aord (NewReconciler cl req ann) (map (node_of_entry k) (contents s k)) =
      forM (range_of aord am) (\<lambda>(_, w). case nwa_action w of
          UpdateAction \<Rightarrow> node_Update cl ord (nwa_node w)
        | CreateAction \<Rightarrow> node_Create cl ord (nwa_node w)
        | DeleteAction \<Rightarrow> node_Delete cl (nwa_node w))"
    by (rule ReconcileNodes_plan [where ord = ord and ann = ann and req = req and aord = aord and
          cl = cl and ns = "map (node_of_entry k) (contents s k)"]) (rule that; blast)
  have es: "valid_node k (nwa_node w) \<and> GetHostname (nwa_node w) = h"
    if "(h, w) \<in> set (range_of aord am)" for h w
    using that planned_valid [OF _ req] am plan
    by (metis aord go_map_lookup set_range_of)
  have "entries_ok (contents s' k) \<and> store_of (contents s' k) =
      (\<lambda>h. case map_of (range_of aord am) h of None \<Rightarrow> store_of (contents s k) h
       | Some w \<Rightarrow> if nwa_action w = DeleteAction then None else Some (node_content (nwa_node w)))"
    using prov.plan_effect [OF _ ok go_map_range_of [OF aord am] es] run eq by simp
  then show ?thesis
    by (simp add: map_of_range_of [OF aord am] plan planned_effect [OF ok ord ann] fun_eq_iff)
qed

end

section \<open>A server that answers\<close>

locale live_api_server = api_server +
  assumes List_live: "\<exists>ls. api_List cl (infra_type k) s = (Ok ls, s)"
    and Read_live: "\<lbrakk>api_List cl (infra_type k) s = (Ok ls, t); i < length ls\<rbrakk> \<Longrightarrow>
      \<exists>obj. api_ReadListResult cl (infra_type k) (ls ! i) s = (Ok obj, s)"
    and Create_live: "en_fqname (entry_of cl n) \<notin> en_fqname ` set (contents s k) \<Longrightarrow>
      \<exists>obj s'. api_Create cl (infra_obj k n) s = (Ok obj, s')"
    and Update_live: "en_uuid (entry_of cl n) \<in> en_uuid ` set (contents s k) \<Longrightarrow>
      \<exists>s'. api_Update cl (infra_obj k n) s = (Ok (), s')"
    and Delete_live: "en_uuid (entry_of cl n) \<in> en_uuid ` set (contents s k) \<Longrightarrow>
      \<exists>s'. api_Delete cl (infra_obj k n) s = (Ok (), s')"
begin

lemma find_by_name_live:
  assumes ls: "api_List cl (infra_type k) s = (Ok ls, s)"
    and "\<exists>j \<ge> i. j < length ls \<and> en_name (contents s k ! j) = h"
  shows "\<exists>obj. find_by_name cl (infra_type k) h (drop i ls) s = (Ok obj, s)"
  using assms(2)
proof (induction "length ls - i" arbitrary: i)
  case (Suc d)
  then have i: "i < length ls" by simp
  then have d: "drop i ls = ls ! i # drop (Suc i) ls" by (simp add: Cons_nth_drop_Suc)
  from Read_live [OF ls i] obtain x where x: "api_ReadListResult cl (infra_type k) (ls ! i) s = (Ok x, s)" by blast
  from Read_Ok [OF ls i x] have n: "obj_GetName cl x = en_name (contents s k ! i)"
    by (auto simp: obj_GetName_def entry_of_def) (metis api_entry.select_convs(3) entry_of_def)
  show ?case
  proof (cases "obj_GetName cl x = h")
    case True
    with d x show ?thesis by simp
  next
    case False
    with Suc.prems n have "\<exists>j \<ge> Suc i. j < length ls \<and> en_name (contents s k ! j) = h"
      by (metis Suc_leI le_neq_implies_less)
    with Suc.hyps(1) [of "Suc i"] Suc.hyps(2) False d x show ?thesis by simp
  qed
qed auto

lemma GetObject_live:
  assumes "store_of (contents s k) h \<noteq> None"
  shows "\<exists>n. GetContrailObjectByName cl (infra_type k) h s = (Ok (infra_obj k n), s) \<and>
     entry_of cl n \<in> set (contents s k) \<and> en_name (entry_of cl n) = h"
proof -
  from List_live obtain ls where ls: "api_List cl (infra_type k) s = (Ok ls, s)" by blast
  from assms obtain i where "i < length (contents s k)" "en_name (contents s k ! i) = h"
    by (auto simp: store_of_None in_set_conv_nth)
  with List_Ok [OF ls] find_by_name_live [OF ls, of 0 h] obtain obj
    where "GetContrailObjectByName cl (infra_type k) h s = (Ok obj, s)"
    by (auto simp: GetContrailObjectByName_def ls)
  with GetObject_Ok [OF this] show ?thesis by auto
qed

lemma FromApiServer_live:
  "getContrailNodesInApiServer cl (infra_node_type k) s = (Ok (map (node_of_entry k) (contents s k)), s)"
proof -
  from List_live obtain ls where ls: "api_List cl (infra_type k) s = (Ok ls, s)" by blast
  have "\<exists>ns. mapM (\<lambda>l. bindM (api_ReadListResult cl (infra_type k) l) (\<lambda>obj.
       bindM (as_infra k obj) (\<lambda>n.
         ret (infra_node_of k \<lparr>IPAddress = nd_ip_address n, Hostname = base_GetName cl (nd_base n),
           Annotations = ConvertContrailKeyValuePairsToMap (nd_annotations n)\<rparr>)))) (drop i ls) s = (Ok ns, s)" for i
  proof (induction "length ls - i" arbitrary: i)
    case (Suc d)
    then have i: "i < length ls" by simp
    then have d: "drop i ls = ls ! i # drop (Suc i) ls" by (simp add: Cons_nth_drop_Suc)
    from Read_live [OF ls i] obtain x where x: "api_ReadListResult cl (infra_type k) (ls ! i) s = (Ok x, s)" by blast
    have "d = length ls - Suc i" using Suc.hyps(2) by simp
    from Suc.hyps(1) [OF this] Read_Ok [OF ls i x] d x show ?case by auto
  qed simp
  from this [of 0] obtain ns where "getContrailNodesInApiServer cl (infra_node_type k) s = (Ok ns, s)"
    by (auto simp: infra_FromApiServer ls)
  with FromApiServer_Ok [OF this] show ?thesis by simp
qed

end

locale live_infra_server = live_api_server + infra_server
begin

lemma provider_create_live:
  assumes "entries_ok (contents s k)" "valid_node k n" "store_of (contents s k) (GetHostname n) = None"
  shows "\<exists>s'. node_Create cl ord n s = (Ok (), s')"
proof -
  from assms(2) obtain c where n: "n = infra_node_of k c" by (auto simp: valid_node_def)
  have "en_fqname (entry_of cl (fill_infra cl ord k c (new_infra_node cl))) \<notin> en_fqname ` set (contents s k)"
    using assms n by (auto simp: entry_fill entries_ok_def store_of_None)
  from Create_live [OF this] n show ?thesis by (auto simp: infra_Create)
qed

lemma provider_update_live:
  assumes "entries_ok (contents s k)" "valid_node k n" "store_of (contents s k) (GetHostname n) \<noteq> None"
  shows "\<exists>s'. node_Update cl ord n s = (Ok (), s')"
proof -
  from assms(2) obtain c where n: "n = infra_node_of k c" by (auto simp: valid_node_def)
  from GetObject_live [OF assms(3)] n obtain m
    where m: "GetContrailObjectByName cl (infra_type k) (Hostname c) s = (Ok (infra_obj k m), s)"
    and e: "entry_of cl m \<in> set (contents s k)" by auto
  have "en_uuid (entry_of cl (fill_infra cl ord k c m)) \<in> en_uuid ` set (contents s k)"
    using imageI [OF e, of en_uuid] by (simp add: entry_fill) (simp add: entry_of_def)
  from Update_live [OF this] m n show ?thesis by (auto simp: infra_Update)
qed

lemma provider_delete_live:
  assumes "entries_ok (contents s k)" "valid_node k n" "store_of (contents s k) (GetHostname n) \<noteq> None"
  shows "\<exists>s'. node_Delete cl n s = (Ok (), s')"
proof -
  from assms(2) obtain c where n: "n = infra_node_of k c" by (auto simp: valid_node_def)
  from GetObject_live [OF assms(3)] n obtain m
    where m: "GetContrailObjectByName cl (infra_type k) (Hostname c) s = (Ok (infra_obj k m), s)"
    and e: "en_uuid (entry_of cl m) \<in> en_uuid ` set (contents s k)" by auto
  from Delete_live [OF e] m n show ?thesis by (auto simp: infra_Delete)
qed

end

sublocale live_infra_server \<subseteq> lprov: live_node_provider
  "node_Create cl ord" "node_Update cl ord" "node_Delete cl" "valid_node k" node_content
  "\<lambda>s. entries_ok (contents s k)" "\<lambda>s. store_of (contents s k)"
  by unfold_locales (fact provider_create_live provider_update_live provider_delete_live)+

context live_infra_server
begin

text \<open>
  A reconciliation runs to its end, unless a required node has the name of a node that the
  provisioner does not manage (the server refuses to create it a second time).
\<close>

lemma ReconcileNodes_live:
  assumes ok: "entries_ok (contents s k)" and req: "\<forall>n \<in> set req. valid_node k n"
    and ann: "go_map ann" and aord: "range_perm aord"
    and free: "\<forall>n \<in> set req. \<forall>d. store_of (contents s k) (GetHostname n) = Some d \<longrightarrow> map_of ann \<subseteq>\<^sub>m snd d"
  shows "\<exists>s'. ReconcileNodes ord aord (NewReconciler cl req ann) (map (node_of_entry k) (contents s k)) s = (Ok (), s')"
proof -
  obtain am where am: "go_map am"
    and plan: "\<And>h. map_of am h = planned_action (map (ensureRequiredAnnotationsSetOnNode ord ann) req)
      (filter (\<lambda>n. HasRequiredAnnotations ord (GetAnnotations n) ann) (map (node_of_entry k) (contents s k))) h"
    and eq: "ReconcileNodes ord aord (NewReconciler cl req ann) (map (node_of_entry k) (contents s k)) =
      forM (range_of aord am) (\<lambda>(_, w). case nwa_action w of
          UpdateAction \<Rightarrow> node_Update cl ord (nwa_node w)
        | CreateAction \<Rightarrow> node_Create cl ord (nwa_node w)
        | DeleteAction \<Rightarrow> node_Delete cl (nwa_node w))"
    by (rule ReconcileNodes_plan [where ord = ord and ann = ann and req = req and aord = aord and
          cl = cl and ns = "map (node_of_entry k) (contents s k)"]) (rule that; blast)
  have es: "valid_node k (nwa_node w) \<and> GetHostname (nwa_node w) = h
      \<and> (store_of (contents s k) h = None \<longleftrightarrow> nwa_action w = CreateAction)"
    if "(h, w) \<in> set (range_of aord am)" for h w
  proof -
    have "planned_action (map (ensureRequiredAnnotationsSetOnNode ord ann) req)
      (filter (\<lambda>n. HasRequiredAnnotations ord (GetAnnotations n) ann) (map (node_of_entry k) (contents s k))) h = Some w"
      using that am plan by (metis aord go_map_lookup set_range_of)
    then show ?thesis
      using planned_valid [OF _ req] planned_create_iff [OF ok ord ann free] by blast
  qed
  from lprov.plan_live [OF ok go_map_range_of [OF aord am] es] show ?thesis by (simp add: eq)
qed

end

end
