(* ===== verification/MemApi.thy ===== *)
theory MemApi
  imports ApiServer
begin

text \<open>
  A configuration API in memory: its state is the list of entries of each node type.  It has the
  documented behaviour of \<open>live_infra_server\<close> (the interpretation below), so that the theorems
  that assume this behaviour apply to runs of the provisioner against it.  The last section
  states the outcome of \<open>ManageNodes\<close> for every such server.
\<close>

section \<open>The server\<close>

record mem_base =
  mb_fqname :: "string list"
  mb_name :: string
  mb_uuid :: string

type_synonym mem_state = "infra_kind \<Rightarrow> api_entry list"

definition mem_kind :: "string \<Rightarrow> infra_kind option" where
  "mem_kind ty =
     (if ty = ''analytics-node'' then Some AnalyticsKind
      else if ty = ''config-node'' then Some ConfigKind
      else if ty = ''database-node'' then Some DatabaseKind
      else None)"

fun mem_part :: "'b iobject \<Rightarrow> (infra_kind \<times> 'b infra_node) option" where
  "mem_part (AnalyticsNodeObj n) = Some (AnalyticsKind, n)"
| "mem_part (ConfigNodeObj n) = Some (ConfigKind, n)"
| "mem_part (DatabaseNodeObj n) = Some (DatabaseKind, n)"
| "mem_part _ = None"

definition mem_entry :: "mem_base infra_node \<Rightarrow> api_entry" where
  "mem_entry n =
     \<lparr>en_uuid = mb_uuid (nd_base n), en_fqname = mb_fqname (nd_base n), en_name = mb_name (nd_base n),
      en_ip = nd_ip_address n, en_annotations = nd_annotations n\<rparr>"

definition mem_node :: "api_entry \<Rightarrow> mem_base infra_node" where
  "mem_node e =
     \<lparr>nd_base = \<lparr>mb_fqname = en_fqname e, mb_name = en_name e, mb_uuid = en_uuid e\<rparr>,
      nd_ip_address = en_ip e, nd_annotations = en_annotations e, nd_modified = {}\<rparr>"

text \<open>A UUID that no entry has: it is longer than each of theirs.\<close>

definition mem_fresh_uuid :: "api_entry list \<Rightarrow> string" where
  "mem_fresh_uuid es = CHR ''u'' # concat (map en_uuid es)"

definition mem_List :: "string \<Rightarrow> (mem_state, go_error, nat list) go" where
  "mem_List ty s =
     (case mem_kind ty of
        None \<Rightarrow> (Err (errors_New ''404 Not Found''), s)
      | Some k \<Rightarrow> (Ok [0..<length (s k)], s))"

definition mem_Read :: "string \<Rightarrow> nat \<Rightarrow> (mem_state, go_error, mem_base iobject) go" where
  "mem_Read ty i s =
     (case mem_kind ty of
        None \<Rightarrow> (Err (errors_New ''404 Not Found''), s)
      | Some k \<Rightarrow> if i < length (s k) then (Ok (infra_obj k (mem_node (s k ! i))), s)
                  else (Err (errors_New ''404 Not Found''), s))"

definition mem_Create :: "mem_base iobject \<Rightarrow> (mem_state, go_error, mem_base iobject) go" where
  "mem_Create obj s =
     (case mem_part obj of
        None \<Rightarrow> (Err (errors_New ''400 Bad Request''), s)
      | Some (k, n) \<Rightarrow>
          if mb_fqname (nd_base n) \<in> set (map en_fqname (s k)) then (Err (errors_New ''409 Conflict''), s)
          else let e = (mem_entry n)\<lparr>en_uuid := mem_fresh_uuid (s k)\<rparr>
               in (Ok (infra_obj k (mem_node e)), s(k := s k @ [e])))"

definition mem_Update :: "mem_base iobject \<Rightarrow> (mem_state, go_error, unit) go" where
  "mem_Update obj s =
     (case mem_part obj of
        None \<Rightarrow> (Err (errors_New ''400 Bad Request''), s)
      | Some (k, n) \<Rightarrow>
          if mb_uuid (nd_base n) \<in> set (map en_uuid (s k))
          then (Ok (), s(k := map (\<lambda>e. if en_uuid e = mb_uuid (nd_base n) then mem_entry n else e) (s k)))
          else (Err (errors_New ''404 Not Found''), s))"

definition mem_Delete :: "mem_base iobject \<Rightarrow> (mem_state, go_error, unit) go" where
  "mem_Delete obj s =
     (case mem_part obj of
        None \<Rightarrow> (Err (errors_New ''400 Bad Request''), s)
      | Some (k, n) \<Rightarrow>
          if mb_uuid (nd_base n) \<in> set (map en_uuid (s k))
          then (Ok (), s(k := filter (\<lambda>e. en_uuid e \<noteq> mb_uuid (nd_base n)) (s k)))
          else (Err (errors_New ''404 Not Found''), s))"

definition mem_api :: "(mem_base, nat, mem_state) contrail_api" where
  "mem_api =
     \<lparr>base_new = \<lparr>mb_fqname = [], mb_name = [], mb_uuid = []\<rparr>,
      base_SetFQName = (\<lambda>_ fqn b. b\<lparr>mb_fqname := fqn, mb_name := last fqn\<rparr>),
      base_SetName = (\<lambda>_ name b. b\<lparr>mb_name := name\<rparr>),
      base_SetParent = (\<lambda>_ parent b. b\<lparr>mb_fqname := mb_fqname (obj_base parent) @ [mb_name b]\<rparr>),
      base_GetName = mb_name, base_GetFQName = mb_fqname, base_GetUuid = mb_uuid,
      base_GetHref = mb_uuid, base_IsTransient = (\<lambda>b. mb_uuid b = []),
      api_GetField = (\<lambda>_ _. ret None),
      api_Create = mem_Create, api_Update = mem_Update, api_Delete = mem_Delete,
      api_DeleteByUuid = (\<lambda>_ _. throw (errors_New ''404 Not Found'')),
      api_FindByUuid = (\<lambda>_ _. throw (errors_New ''404 Not Found'')),
      api_FindByName = (\<lambda>_ _. throw (errors_New ''404 Not Found'')),
      api_List = mem_List, api_ReadListResult = mem_Read\<rparr>"

lemma mem_kind_infra_type [simp]: "mem_kind (infra_type k) = Some k"
  by (cases k) (simp_all add: mem_kind_def)

lemma mem_part_infra_obj [simp]: "mem_part (infra_obj k n) = Some (k, n)"
  by (cases k) simp_all

lemma entry_of_mem [simp]: "entry_of mem_api n = mem_entry n"
  by (simp add: entry_of_def mem_entry_def mem_api_def)

lemma mem_entry_mem_node [simp]: "mem_entry (mem_node e) = e"
  by (simp add: mem_entry_def mem_node_def)

lemma mem_fresh_uuid: "mem_fresh_uuid es \<notin> en_uuid ` set es"
proof -
  have "length (en_uuid e) \<le> length (concat (map en_uuid es))" if "e \<in> set es" for e
    using that by (induction es) auto
  then have "length (en_uuid e) < length (mem_fresh_uuid es)" if "e \<in> set es" for e
    using that by (simp add: mem_fresh_uuid_def less_Suc_eq_le)
  then show ?thesis by (metis imageE less_irrefl)
qed

lemma mem_api_sel [simp]:
  "base_new mem_api = \<lparr>mb_fqname = [], mb_name = [], mb_uuid = []\<rparr>"
  "base_SetFQName mem_api pt fqn b = b\<lparr>mb_fqname := fqn, mb_name := last fqn\<rparr>"
  "base_GetName mem_api = mb_name" "base_GetFQName mem_api = mb_fqname"
  "base_GetUuid mem_api = mb_uuid"
  "api_Create mem_api = mem_Create" "api_Update mem_api = mem_Update" "api_Delete mem_api = mem_Delete"
  "api_List mem_api = mem_List" "api_ReadListResult mem_api = mem_Read"
  by (simp_all add: mem_api_def)

lemmas mem_ops = mem_List_def mem_Read_def mem_Create_def mem_Update_def mem_Delete_def

interpretation mem: live_infra_server mem_api "\<lambda>s. s" in_order k for k
proof (unfold_locales, goal_cases)
  case (4 k s ls s')
  then show ?case by (auto simp: mem_ops)
next
  case (5 k s ls t i obj s')
  then show ?case by (auto simp: mem_ops intro!: exI [of _ "mem_node (s k ! i)"] split: if_splits)
next
  case (6 k n s obj s')
  then show ?case using mem_fresh_uuid
    by (auto simp: mem_ops Let_def mem_entry_def split: if_splits)
next
  case (7 k n s u s')
  then show ?case by (auto simp: mem_ops mem_entry_def split: if_splits)
next
  case (8 k n s u s')
  then show ?case by (auto simp: mem_ops mem_entry_def split: if_splits)
qed (auto simp: mem_ops mem_entry_def Let_def range_perm_in_order image_iff split: if_splits)

section \<open>ManageNodes against a server\<close>

lemma unmarshal_Ok [simp]: "unmarshal_or_panic (Inr ns) wrap = ret (map wrap ns)"
  by (simp add: unmarshal_or_panic_def)

lemma managed_iff_annotated:
  assumes "range_perm ord" "go_map ann"
  shows "HasRequiredAnnotations ord (GetAnnotations n) ann \<longleftrightarrow> map_of ann \<subseteq>\<^sub>m snd (node_content n)"
  using assms by (cases n) (simp_all add: HasRequiredAnnotations_iff)

text \<open>
  \<open>ManageNodes\<close> against a server with the documented behaviour: it returns no error and the
  nodes are reconciled, if no required node has the name of a node that is not managed.
\<close>

lemma ManageNodes_outcome:
  assumes srv: "live_infra_server cl contents ord"
    and yaml: "yaml_nodes yl data = Inr req"
    and ok: "entries_ok (contents s k)"
    and req: "\<forall>c \<in> set req. go_map (entries (Annotations c))"
    and ann: "go_map ann" and aord: "range_perm aord"
    and free: "\<forall>c \<in> set req. \<forall>d. store_of (contents s k) (Hostname c) = Some d \<longrightarrow> map_of ann \<subseteq>\<^sub>m snd d"
  shows "\<exists>s'. ManageNodes yl ord aord data ann (infra_node_type k) cl s = (Ok (), s') \<and>
     entries_ok (contents s' k) \<and>
     store_of (contents s' k) = reconciled ann (map (infra_node_of k) req) (store_of (contents s k))"
proof -
  let ?req = "map (infra_node_of k) req"
  have infra: "infra_server cl contents ord" using srv by (rule live_infra_server.axioms)
  have v: "\<forall>n \<in> set ?req. valid_node k n" using req by (auto simp: valid_node_def)
  have f: "\<forall>n \<in> set ?req. \<forall>d. store_of (contents s k) (GetHostname n) = Some d \<longrightarrow> map_of ann \<subseteq>\<^sub>m snd d"
    using free by simp
  have eq: "ManageNodes yl ord aord data ann (infra_node_type k) cl s =
      ReconcileNodes ord aord (NewReconciler cl ?req ann) (map (node_of_entry k) (contents s k)) s"
    using live_api_server.FromApiServer_live [of cl contents k s] srv
    by (simp add: ManageNodes_def infra_FromBytes yaml live_infra_server_def)
  from live_infra_server.ReconcileNodes_live [OF srv ok v ann aord f] obtain s'
    where s': "ReconcileNodes ord aord (NewReconciler cl ?req ann) (map (node_of_entry k) (contents s k)) s = (Ok (), s')"
    by blast
  from infra_server.ReconcileNodes_effect [OF infra s' ok v ann aord] eq s' show ?thesis by auto
qed

end
