(* ===== verification/Retry.thy ===== *)
theory Retry
  imports Prelude
begin

text \<open>
  The function \<open>retry\<close> of \<open>contrail-provisioner/main.go\<close>.  With \<open>attempts = 0\<close> it may loop for
  ever, so it is a \<open>partial_function\<close> into \<open>option\<close>: \<open>None\<close> is a call that does not return.
  Functions that call it have the type \<open>('s, 'e, 'a) goD\<close>; \<open>bindD\<close> sequences them and \<open>liftD\<close>
  turns a function that always returns into one of them.
\<close>

section \<open>Functions that may not return\<close>

type_synonym ('s, 'e, 'a) goD = "'s \<Rightarrow> (('e, 'a) outcome \<times> 's) option"

definition liftD :: "('s, 'e, 'a) go \<Rightarrow> ('s, 'e, 'a) goD" where
  "liftD m s = Some (m s)"

definition bindD :: "('s, 'e, 'a) goD \<Rightarrow> ('a \<Rightarrow> ('s, 'e, 'b) goD) \<Rightarrow> ('s, 'e, 'b) goD" where
  "bindD m f s =
     (case m s of
        None \<Rightarrow> None
      | Some (Ok x, t) \<Rightarrow> f x t
      | Some (Err e, t) \<Rightarrow> Some (Err e, t)
      | Some (Panic p, t) \<Rightarrow> Some (Panic p, t)
      | Some (Fatal p, t) \<Rightarrow> Some (Fatal p, t))"

definition tryD :: "('s, 'e, 'a) goD \<Rightarrow> ('s, 'e, 'e + 'a) goD" where
  "tryD m s =
     (case m s of
        None \<Rightarrow> None
      | Some (Ok x, t) \<Rightarrow> Some (Ok (Inr x), t)
      | Some (Err e, t) \<Rightarrow> Some (Ok (Inl e), t)
      | Some (Panic p, t) \<Rightarrow> Some (Panic p, t)
      | Some (Fatal p, t) \<Rightarrow> Some (Fatal p, t))"

fun forD :: "'x list \<Rightarrow> ('x \<Rightarrow> ('s, 'e, unit) goD) \<Rightarrow> ('s, 'e, unit) goD" where
  "forD [] f = liftD (ret ())"
| "forD (x # xs) f = bindD (f x) (\<lambda>_. forD xs f)"

definition returns :: "('s, 'e, 'a) goD \<Rightarrow> bool" where
  "returns m \<longleftrightarrow> (\<forall>s. m s \<noteq> None)"

named_theorems returns_intros \<open>rules that show that a statement returns\<close>

lemma liftD_run [simp]: "liftD m s = Some (m s)"
  by (simp add: liftD_def)

lemma bindD_run [simp]:
  "m s = Some (Ok x, t) \<Longrightarrow> bindD m f s = f x t"
  "m s = Some (Err e, t) \<Longrightarrow> bindD m f s = Some (Err e, t)"
  "m s = Some (Panic p, t) \<Longrightarrow> bindD m f s = Some (Panic p, t)"
  "m s = Some (Fatal p, t) \<Longrightarrow> bindD m f s = Some (Fatal p, t)"
  by (simp_all add: bindD_def)

lemma bindD_Ok_iff [go_simps]:
  "bindD m f s = Some (Ok y, s') \<longleftrightarrow> (\<exists>x t. m s = Some (Ok x, t) \<and> f x t = Some (Ok y, s'))"
  by (auto simp: bindD_def split: option.splits prod.splits outcome.splits)

lemma bindD_assoc: "bindD (bindD m f) g = bindD m (\<lambda>x. bindD (f x) g)"
  by (auto simp: bindD_def fun_eq_iff split: option.splits prod.splits outcome.splits)

lemma bindD_ret [simp]: "bindD (liftD (ret x)) f = f x"
  by (simp add: bindD_def fun_eq_iff)

lemma tryD_run [simp]:
  "m s = Some (Ok x, t) \<Longrightarrow> tryD m s = Some (Ok (Inr x), t)"
  "m s = Some (Err e, t) \<Longrightarrow> tryD m s = Some (Ok (Inl e), t)"
  "m s = Some (Panic p, t) \<Longrightarrow> tryD m s = Some (Panic p, t)"
  "m s = Some (Fatal p, t) \<Longrightarrow> tryD m s = Some (Fatal p, t)"
  by (simp_all add: tryD_def)

lemma returnsD: "returns m \<Longrightarrow> \<exists>r t. m s = Some (r, t)"
  unfolding returns_def by (metis not_None_eq surj_pair)

lemma returns_liftD [returns_intros]: "returns (liftD m)"
  by (simp add: returns_def)

lemma returns_bindD [returns_intros]:
  "returns m \<Longrightarrow> (\<And>x. returns (f x)) \<Longrightarrow> returns (bindD m f)"
  by (auto simp: returns_def bindD_def split: option.splits prod.splits outcome.splits)

lemma returns_tryD [returns_intros]: "returns m \<Longrightarrow> returns (tryD m)"
  by (auto simp: returns_def tryD_def split: option.splits prod.splits outcome.splits)

lemma returns_forD [returns_intros]: "(\<And>x. returns (f x)) \<Longrightarrow> returns (forD xs f)"
  by (induction xs) (auto intro!: returns_intros)

lemma returns_if [returns_intros]:
  "(b \<Longrightarrow> returns m) \<Longrightarrow> (\<not> b \<Longrightarrow> returns n) \<Longrightarrow> returns (if b then m else n)"
  by simp

lemma returns_option [returns_intros]:
  assumes "v = None \<Longrightarrow> returns m" and "\<And>x. v = Some x \<Longrightarrow> returns (f x)"
  shows "returns (case v of None \<Rightarrow> m | Some x \<Rightarrow> f x)"
  using assms by (cases v) auto

lemma returns_sum [returns_intros]:
  assumes "\<And>x. v = Inl x \<Longrightarrow> returns (f x)" and "\<And>x. v = Inr x \<Longrightarrow> returns (g x)"
  shows "returns (case v of Inl x \<Rightarrow> f x | Inr x \<Rightarrow> g x)"
  using assms by (cases v) auto

section \<open>retry\<close>

text \<open>
  The loop at counter \<open>i\<close>.  A panic or the end of the process inside \<open>f\<close> leaves the loop.  The
  pause between two attempts changes no state and is left out.
\<close>

partial_function (option) retry_from ::
  "int \<Rightarrow> ('s, 'e, 'a) go \<Rightarrow> int \<Rightarrow> ('s, 'e, 'a) goD" where
  "retry_from attempts f i s =
     (case f s of
        (Ok x, t) \<Rightarrow> Some (Ok x, t)
      | (Panic p, t) \<Rightarrow> Some (Panic p, t)
      | (Fatal p, t) \<Rightarrow> Some (Fatal p, t)
      | (Err e, t) \<Rightarrow>
          if attempts \<noteq> 0 \<and> attempts - 1 \<le> i then Some (Err e, t)
          else retry_from attempts f (i + 1) t)"

definition retry :: "int \<Rightarrow> ('s, 'e, 'a) go \<Rightarrow> ('s, 'e, 'a) goD" where
  "retry attempts f = retry_from attempts f 0"

text \<open>The state after \<open>k\<close> failed attempts, if each of the first \<open>k\<close> attempts fails.\<close>

fun after_failures :: "('s, 'e, 'a) go \<Rightarrow> nat \<Rightarrow> 's \<Rightarrow> 's option" where
  "after_failures f 0 s = Some s"
| "after_failures f (Suc k) s =
     (case f s of (Err e, t) \<Rightarrow> after_failures f k t | _ \<Rightarrow> None)"

lemma after_failures_Suc:
  "after_failures f (Suc k) s =
     (case after_failures f k s of
        None \<Rightarrow> None
      | Some t \<Rightarrow> (case f t of (Err e, u) \<Rightarrow> Some u | _ \<Rightarrow> None))"
proof (induction k arbitrary: s)
  case 0
  show ?case by (simp split: prod.splits outcome.splits)
next
  case (Suc k)
  obtain r t where "f s = (r, t)" by (cases "f s")
  with Suc [of t] show ?case by (cases r) simp_all
qed

lemma after_failures_mono:
  assumes "after_failures f k s \<noteq> None" "j \<le> k"
  shows "after_failures f j s \<noteq> None"
  using assms by (induction k) (auto simp: after_failures_Suc le_Suc_eq simp del: after_failures.simps(2) split: option.splits)

definition is_error :: "('e, 'a) outcome \<Rightarrow> bool" where
  "is_error r \<longleftrightarrow> (case r of Err e \<Rightarrow> True | _ \<Rightarrow> False)"

text \<open>Failed attempts that do not use up the budget only move the loop on.\<close>

lemma retry_from_skip:
  assumes "after_failures f k s = Some t" "attempts = 0 \<or> i + int k < attempts"
  shows "retry_from attempts f i s = retry_from attempts f (i + int k) t"
  using assms
proof (induction k arbitrary: i s)
  case (Suc k)
  from Suc.prems(1) obtain e u where u: "f s = (Err e, u)" "after_failures f k u = Some t"
    by (auto split: prod.splits outcome.splits)
  from Suc.IH [OF u(2), of "i + 1"] Suc.prems(2) u(1) show ?case
    by (subst retry_from.simps) (auto simp: algebra_simps)
qed simp

lemma retry_from_end:
  assumes "f t = (r, u)" "is_error r \<Longrightarrow> attempts \<noteq> 0 \<and> attempts - 1 \<le> i"
  shows "retry_from attempts f i t = Some (r, u)"
  using assms by (subst retry_from.simps) (cases r; auto simp: is_error_def)

lemma retry_reaches:
  assumes "after_failures f k s = Some t" "f t = (r, u)" "attempts = 0 \<or> int k < attempts"
    and "is_error r \<Longrightarrow> attempts \<noteq> 0 \<and> attempts - 1 \<le> int k"
  shows "retry attempts f s = Some (r, u)"
  using retry_from_skip [OF assms(1), of attempts 0] retry_from_end [where f = f and t = t and i = "int k"] assms(2-4)
  by (simp add: retry_def)

lemma after_failures_cases:
  obtains (all) t where "after_failures f n s = Some t"
  | (stop) k t r u where "k < n" "after_failures f k s = Some t" "f t = (r, u)" "\<not> is_error r"
proof -
  have "(\<exists>t. after_failures f n s = Some t) \<or>
     (\<exists>k t r u. k < n \<and> after_failures f k s = Some t \<and> f t = (r, u) \<and> \<not> is_error r)"
  proof (induction n)
    case (Suc n)
    then show ?case
    proof (elim disjE exE conjE)
      fix t assume t: "after_failures f n s = Some t"
      obtain r u where r: "f t = (r, u)" by (cases "f t")
      show ?thesis
      proof (cases "is_error r")
        case True
        with t r have "after_failures f (Suc n) s = Some u"
          by (auto simp: after_failures_Suc is_error_def simp del: after_failures.simps(2) split: outcome.splits)
        then show ?thesis by blast
      next
        case False
        with t r show ?thesis by blast
      qed
    qed (meson less_Suc_eq)
  qed simp
  then show thesis using all stop by blast
qed

text \<open>With a positive budget the call returns.\<close>

lemma retry_positive:
  assumes "0 < attempts"
  shows "\<exists>k t. int k < attempts \<and> after_failures f k s = Some t \<and> retry attempts f s = Some (f t) \<and>
     (is_error (fst (f t)) \<longrightarrow> int k = attempts - 1)"
proof (cases rule: after_failures_cases [of f "nat (attempts - 1)" s])
  case (all t)
  obtain r u where r: "f t = (r, u)" by (cases "f t")
  from retry_reaches [OF all r, of attempts] assms r all show ?thesis
    by (intro exI [of _ "nat (attempts - 1)"] exI [of _ t]) auto
next
  case (stop k t r u)
  from retry_reaches [OF stop(2,3), of attempts] assms stop show ?thesis
    by (intro exI [of _ k] exI [of _ t]) auto
qed

lemma returns_retry [returns_intros]: "0 < attempts \<Longrightarrow> returns (retry attempts f)"
  unfolding returns_def using retry_positive by (metis option.distinct(1))

text \<open>Without a budget: the call returns if and only if some attempt does not fail.\<close>

lemma retry_from_returns:
  fixes f :: "('s, 'e, 'a) go"
  shows "retry_from attempts f i s = Some y \<Longrightarrow> attempts = 0 \<longrightarrow> (\<exists>k. after_failures f k s = None)"
proof (erule retry_from.raw_induct
    [where P = "\<lambda>attempts f i s y. attempts = 0 \<longrightarrow> (\<exists>k. after_failures f k s = None)", rotated], intro impI)
  fix rf :: "int \<Rightarrow> ('s, 'e, 'a) go \<Rightarrow> int \<Rightarrow> ('s, 'e, 'a) goD"
    and attempts i s y and f :: "('s, 'e, 'a) go"
  assume 1: "\<And>attempts f i s y. rf attempts f i s = Some y \<Longrightarrow>
      attempts = 0 \<longrightarrow> (\<exists>k. after_failures f k s = None)"
    "(case f s of (Ok x, t) \<Rightarrow> Some (Ok x, t) | (Panic p, t) \<Rightarrow> Some (Panic p, t)
      | (Fatal p, t) \<Rightarrow> Some (Fatal p, t)
      | (Err e, t) \<Rightarrow> if attempts \<noteq> 0 \<and> attempts - 1 \<le> i then Some (Err e, t)
                      else rf attempts f (i + 1) t) = Some y"
    "attempts = 0"
  obtain r t where r: "f s = (r, t)" by (cases "f s")
  show "\<exists>k. after_failures f k s = None"
  proof (cases r)
    case (Err e)
    with 1(2,3) r have "rf attempts f (i + 1) t = Some y" by simp
    with 1(1,3) obtain k where "after_failures f k t = None" by blast
    with r Err have "after_failures f (Suc k) s = None" by simp
    then show ?thesis by blast
  qed (use r in \<open>auto intro: exI [of _ "Suc 0"]\<close>)
qed

lemma retry_forever_iff: "retry 0 f s = None \<longleftrightarrow> (\<forall>k. after_failures f k s \<noteq> None)"
proof
  assume none: "retry 0 f s = None"
  show "\<forall>k. after_failures f k s \<noteq> None"
  proof
    fix k
    show "after_failures f k s \<noteq> None"
    proof (cases rule: after_failures_cases [of f k s])
      case (stop j t r u)
      then show ?thesis using retry_reaches [OF stop(2,3), of 0] none by simp
    qed simp
  qed
next
  assume "\<forall>k. after_failures f k s \<noteq> None"
  then show "retry 0 f s = None"
    using retry_from_returns [of 0 f 0 s] by (cases "retry 0 f s") (auto simp: retry_def, metis option.distinct(1))
qed

end
