(* ===== verification/Watcher.thy ===== *)
theory Watcher
  imports Retry
begin

text \<open>
  \<open>contrail-provisioner/watcher.go\<close>: the loop of \<open>FileWatcher.run\<close>.  Each round of its
  \<open>select\<close> takes one of three cases; the cases taken, in their order, are the list the model
  recurses on, so a theorem for all lists covers every interleaving of file events, ticks and the
  closing of the watcher.  Package fsnotify is a parameter: the two operation codes the code
  compares with, and the effect of \<open>Remove\<close> and \<open>Add\<close> (whose errors the code drops).
\<close>

section \<open>The loop\<close>

record 'o fs_event =
  ev_Name :: string
  ev_Op :: 'o

record ('o, 'w) fsnotify =
  op_Remove :: 'o
  op_Write :: 'o
  fs_Remove :: "string \<Rightarrow> 'w \<Rightarrow> 'w"
  fs_Add :: "string \<Rightarrow> 'w \<Rightarrow> 'w"

datatype 'o select_case = FsEvent "'o fs_event" | Tick | DoneCase

text \<open>What the loop has come to after the cases of the list: closed, or waiting in \<open>select\<close>.\<close>

datatype 'o run_state = Waiting "'o fs_event option" | Closed

definition on_event ::
  "('o, 'w) fsnotify \<Rightarrow> 'o fs_event \<Rightarrow> 'o fs_event option \<Rightarrow> 'w \<Rightarrow> 'o fs_event option \<times> 'w" where
  "on_event fsn event lastWriteEvent w =
     (let (lastWriteEvent, w) =
            (if ev_Op event = op_Remove fsn
             then (Some event, fs_Add fsn (ev_Name event) (fs_Remove fsn (ev_Name event) w))
             else (lastWriteEvent, w))
      in (if ev_Op event = op_Write fsn then Some event else lastWriteEvent, w))"

text \<open>\<open>callback\<close> is the function given to \<open>WatchFile\<close>; it may end the process.\<close>

fun run ::
  "('o, 'w) fsnotify \<Rightarrow> ('w, 'e, unit) goD \<Rightarrow> 'o select_case list \<Rightarrow> 'o fs_event option
    \<Rightarrow> ('w, 'e, 'o run_state) goD" where
  "run fsn callback [] lastWriteEvent = liftD (ret (Waiting lastWriteEvent))"
| "run fsn callback (FsEvent event # cs) lastWriteEvent =
     (\<lambda>w. let (lastWriteEvent, w) = on_event fsn event lastWriteEvent w
          in run fsn callback cs lastWriteEvent w)"
| "run fsn callback (Tick # cs) lastWriteEvent =
     (case lastWriteEvent of
        None \<Rightarrow> run fsn callback cs None
      | Some _ \<Rightarrow> bindD callback (\<lambda>_. run fsn callback cs None))"
| "run fsn callback (DoneCase # cs) lastWriteEvent = liftD (ret Closed)"

section \<open>When the callback runs\<close>

text \<open>An event the loop reacts to.\<close>

definition relevant :: "('o, 'w) fsnotify \<Rightarrow> 'o fs_event \<Rightarrow> bool" where
  "relevant fsn event \<longleftrightarrow> ev_Op event = op_Remove fsn \<or> ev_Op event = op_Write fsn"

text \<open>
  The specification: cut the events before the closing of the watcher at the ticks; the callback
  is due once for each interval that a tick ends and that has a relevant event.
\<close>

fun tick_intervals :: "'o select_case list \<Rightarrow> 'o fs_event list list" where
  "tick_intervals [] = []"
| "tick_intervals (DoneCase # cs) = []"
| "tick_intervals (Tick # cs) = [] # tick_intervals cs"
| "tick_intervals (FsEvent e # cs) =
     (case tick_intervals cs of [] \<Rightarrow> [] | es # ess \<Rightarrow> (e # es) # ess)"

definition due_callbacks :: "('o, 'w) fsnotify \<Rightarrow> 'o select_case list \<Rightarrow> nat" where
  "due_callbacks fsn cs = length (filter (list_ex (relevant fsn)) (tick_intervals cs))"

text \<open>The callbacks due when an event is already pending at the start.\<close>

definition due_pending :: "('o, 'w) fsnotify \<Rightarrow> bool \<Rightarrow> 'o select_case list \<Rightarrow> nat" where
  "due_pending fsn pending cs =
     (case tick_intervals cs of
        [] \<Rightarrow> 0
      | es # ess \<Rightarrow>
          (if pending \<or> list_ex (relevant fsn) es then 1 else 0)
            + length (filter (list_ex (relevant fsn)) ess))"

lemma due_pending_False: "due_pending fsn False cs = due_callbacks fsn cs"
  by (simp add: due_pending_def due_callbacks_def split: list.splits)

lemma due_pending_simps [simp]:
  "due_pending fsn p [] = 0"
  "due_pending fsn p (DoneCase # cs) = 0"
  "due_pending fsn p (Tick # cs) = (if p then Suc (due_callbacks fsn cs) else due_callbacks fsn cs)"
  "due_pending fsn p (FsEvent e # cs) = due_pending fsn (p \<or> relevant fsn e) cs"
  by (simp_all add: due_pending_def due_callbacks_def split: list.splits)

text \<open>
  Registering a path with fsnotify does not touch what the callback works on (\<open>quiet\<close>): then the
  loop is the callback, as often as it is due.  This holds for every callback, one that fails or
  ends the process included.
\<close>

definition quiet :: "('o, 'w) fsnotify \<Rightarrow> bool" where
  "quiet fsn \<longleftrightarrow> (\<forall>name w. fs_Remove fsn name w = w \<and> fs_Add fsn name w = w)"

lemma on_event_quiet:
  "quiet fsn \<Longrightarrow> on_event fsn e lwe w = (if relevant fsn e then Some e else lwe, w)"
  by (simp add: on_event_def relevant_def quiet_def)

lemma run_pending:
  assumes "quiet fsn"
  shows "\<exists>st. run fsn callback cs lwe =
      bindD (forD (replicate (due_pending fsn (lwe \<noteq> None) cs) ()) (\<lambda>_. callback)) (\<lambda>_. liftD (ret st))
    \<and> (st = Closed \<longleftrightarrow> DoneCase \<in> set cs)"
proof (induction cs arbitrary: lwe)
  case Nil
  show ?case by (intro exI [of _ "Waiting lwe"]) (simp add: fun_eq_iff)
next
  case (Cons c cs)
  show ?case
  proof (cases c)
    case (FsEvent e)
    with Cons [of "if relevant fsn e then Some e else lwe"] show ?thesis
      by (auto simp: on_event_quiet [OF assms] fun_eq_iff Let_def)
  next
    case Tick
    then show ?thesis
      using Cons [of None]
      by (cases lwe) (auto simp: due_pending_False bindD_assoc)
  next
    case DoneCase
    then show ?thesis by (intro exI [of _ Closed]) (simp add: fun_eq_iff)
  qed
qed

section \<open>Facts on the intervals\<close>

lemma tick_intervals_ne: "DoneCase \<notin> set cs \<Longrightarrow> tick_intervals (cs @ Tick # ds) \<noteq> []"
proof (induction cs)
  case (Cons c cs)
  then show ?case by (cases c) (auto split: list.splits)
qed simp

lemma tick_intervals_append:
  assumes "DoneCase \<notin> set cs"
  shows "tick_intervals (cs @ Tick # ds) = tick_intervals (cs @ [Tick]) @ tick_intervals ds"
  using assms
proof (induction cs)
  case (Cons c cs)
  then show ?case
    using tick_intervals_ne [of cs "[]"] by (cases c) (auto split: list.splits)
qed simp

lemma due_append:
  "DoneCase \<notin> set cs \<Longrightarrow>
     due_callbacks fsn (cs @ Tick # ds) = due_callbacks fsn (cs @ [Tick]) + due_callbacks fsn ds"
  by (simp add: due_callbacks_def tick_intervals_append [of cs ds])

lemma due_le_ticks: "due_callbacks fsn cs \<le> count_list cs Tick"
proof -
  have "length (tick_intervals cs) \<le> count_list cs Tick"
    by (induction cs rule: tick_intervals.induct) (auto split: list.splits)
  then show ?thesis
    unfolding due_callbacks_def by (meson le_trans length_filter_le)
qed

text \<open>An interval of events without ticks, ended by a tick.\<close>

lemma tick_intervals_events:
  "tick_intervals (map FsEvent es @ Tick # ds) = es # tick_intervals ds"
  by (induction es) simp_all

lemma due_interval:
  "due_callbacks fsn (map FsEvent es @ Tick # ds) =
     (if list_ex (relevant fsn) es then 1 else 0) + due_callbacks fsn ds"
  by (simp add: due_callbacks_def tick_intervals_events)

end
