(* ===== verification/ProvMain.thy ===== *)
theory ProvMain
  imports MemApi GoStd Watcher
begin

text \<open>
  \<open>contrail-provisioner/main.go\<close>: the configuration it reads, how it finds an API server, the
  global vrouter configuration, and the two modes of the program.

  The world is the file system and the state of the API server.  The parts of contrail-go-api
  that open a connection, and the YAML and JSON decoders, are parameters (\<open>client_lib\<close>,
  \<open>conf_lib\<close>).  Command line flags always have a value, so the tests for \<open>nil\<close> pointers to them
  are true.
\<close>

section \<open>Configuration data\<close>

record encryption =
  CA :: string
  Cert :: string
  Key :: string
  Insecure :: bool

record APIServer =
  APIPort :: string
  APIServerList :: "string list"
  as_Encryption :: encryption

record KeystoneAuthParameters =
  AdminUsername :: string
  AdminPassword :: string
  AuthUrl :: string
  TenantName :: string
  ka_Encryption :: encryption

record GlobalVrouterConfiguration =
  gv_EcmpHashingIncludeFields :: ecmp_hashing_include_fields
  EncapsulationPriorities :: string
  VxlanNetworkIdentifierMode :: string

definition RequiredAnnotationsKey :: string where
  "RequiredAnnotationsKey = ''managed_by''"

definition MaxRetryAttempts :: int where
  "MaxRetryAttempts = 5"

section \<open>The world\<close>

text \<open>
  A path of the file system: nothing there; \<open>os.Stat\<close> and \<open>ReadFile\<close> fail; \<open>Stat\<close> succeeds and
  \<open>ReadFile\<close> fails; or a file with its bytes.
\<close>

datatype file_entry = NoFile | NoAccess go_error | NoRead go_error | FileData string

record 's world =
  w_files :: "string \<Rightarrow> file_entry"
  w_api :: 's

definition on_api :: "('s, 'e, 'a) go \<Rightarrow> ('s world, 'e, 'a) go" where
  "on_api m w = (case m (w_api w) of (r, s) \<Rightarrow> (r, w\<lparr>w_api := s\<rparr>))"

definition os_exists :: "string \<Rightarrow> 's world \<Rightarrow> bool" where
  "os_exists path w = (case w_files w path of NoFile \<Rightarrow> False | NoAccess _ \<Rightarrow> False | _ \<Rightarrow> True)"

definition ReadFile :: "string \<Rightarrow> ('s world, go_error, string) go" where
  "ReadFile path w =
     (case w_files w path of
        NoFile \<Rightarrow> (Err (errors_New ''no such file or directory''), w)
      | NoAccess e \<Rightarrow> (Err e, w)
      | NoRead e \<Rightarrow> (Err e, w)
      | FileData d \<Rightarrow> (Ok d, w))"

text \<open>An error that is handed to \<open>panic\<close>.\<close>

definition or_panic :: "('s, go_error, 'a) go \<Rightarrow> ('s, go_error, 'a) go" where
  "or_panic m =
     bindM (tryM m) (\<lambda>r. case r of Inl err \<Rightarrow> panic (error_text err) | Inr x \<Rightarrow> ret x)"

definition decode_or_panic :: "(go_error + 'a) \<Rightarrow> ('s, go_error, 'a) go" where
  "decode_or_panic r = (case r of Inl err \<Rightarrow> panic (error_text err) | Inr x \<Rightarrow> ret x)"

text \<open>A dereferenced pointer.\<close>

definition deref :: "'a option \<Rightarrow> ('s, go_error, 'a) go" where
  "deref p = (case p of None \<Rightarrow> panic ''nil pointer dereference'' | Some x \<Rightarrow> ret x)"

definition loadBytesFromFile :: "string \<Rightarrow> ('s world, go_error, string) go" where
  "loadBytesFromFile filePath =
     (\<lambda>w. if w_files w filePath = NoFile then (Ok [], w) else or_panic (ReadFile filePath) w)"

section \<open>Decoders and the client library\<close>

record conf_lib =
  yaml_APIServer :: "string \<Rightarrow> go_error + APIServer"
  yaml_Keystone :: "string \<Rightarrow> go_error + KeystoneAuthParameters option"
  json_GlobalVrouter :: "string \<Rightarrow> go_error + GlobalVrouterConfiguration option"

text \<open>
  \<open>'c\<close> is \<open>contrail.Client\<close>, \<open>'k\<close> is \<open>contrail.KeepaliveKeystoneClient\<close>.  \<open>client_api\<close> gives the
  calls through a client; for \<open>None\<close> the calls through a \<open>nil\<close> client.
\<close>

record ('c, 'k, 'b, 'l, 's) client_lib =
  NewClient :: "string \<Rightarrow> int \<Rightarrow> 'c"
  client_AddEncryption ::
    "string \<Rightarrow> string \<Rightarrow> string \<Rightarrow> bool \<Rightarrow> 'c \<Rightarrow> ('s, go_error, 'c) go"
  client_SetAuthenticator :: "'k \<Rightarrow> 'c \<Rightarrow> 'c"
  NewKeepaliveKeystoneClient :: "string \<Rightarrow> string \<Rightarrow> string \<Rightarrow> string \<Rightarrow> string \<Rightarrow> 'k"
  ks_AddEncryption :: "string \<Rightarrow> string \<Rightarrow> string \<Rightarrow> bool \<Rightarrow> 'k \<Rightarrow> ('s, go_error, 'k) go"
  ks_AuthenticateV3 :: "'k \<Rightarrow> ('s, go_error, 'k) go"
  client_api :: "'c option \<Rightarrow> ('b, 'l, 's) contrail_api"

text \<open>An error that is printed before \<open>os.Exit(1)\<close>.\<close>

definition or_exit :: "('s, go_error, 'a) go \<Rightarrow> ('s, go_error, 'a) go" where
  "or_exit m =
     bindM (tryM m) (\<lambda>r. case r of Inl err \<Rightarrow> fatal (error_text err) | Inr x \<Rightarrow> ret x)"

definition setupAuthKeystone ::
  "('c, 'k, 'b, 'l, 's) client_lib \<Rightarrow> 'c \<Rightarrow> KeystoneAuthParameters \<Rightarrow> ('s, go_error, 'c) go" where
  "setupAuthKeystone lib client ka =
     bindM
       (if has_prefix (AuthUrl ka) ''https''
        then or_exit (ks_AddEncryption lib (CA (ka_Encryption ka)) (Key (ka_Encryption ka))
               (Cert (ka_Encryption ka)) (Insecure (ka_Encryption ka))
               (NewKeepaliveKeystoneClient lib (replace_first (AuthUrl ka) ''https'' ''http'')
                  (TenantName ka) (AdminUsername ka) (AdminPassword ka) []))
        else ret (NewKeepaliveKeystoneClient lib (AuthUrl ka) (TenantName ka) (AdminUsername ka)
                    (AdminPassword ka) []))
       (\<lambda>keystone.
     bindM (or_exit (ks_AuthenticateV3 lib keystone)) (\<lambda>keystone.
       ret (client_SetAuthenticator lib keystone client)))"

text \<open>
  The loop of \<open>getAPIClient\<close>.  The variable \<open>contrailClient\<close> in it shadows the outer one, so
  that every error leaves the function with a \<open>nil\<close> client.
\<close>

fun try_servers ::
  "('c, 'k, 'b, 'l, 's) client_lib \<Rightarrow> encryption \<Rightarrow> KeystoneAuthParameters option \<Rightarrow> string list
    \<Rightarrow> ('s, go_error, 'c) go" where
  "try_servers lib enc ka [] = throw (errors_New ''cannot get api server'')"
| "try_servers lib enc ka (apiServer # servers) =
     (case split_on CHR '':'' apiServer of
        host # port # _ \<Rightarrow>
          (case Atoi port of
             None \<Rightarrow> throw (errors_New (''strconv.Atoi: parsing '' @ port))
           | Some apiPortInt \<Rightarrow>
               bindM (client_AddEncryption lib (CA enc) (Key enc) (Cert enc) True
                        (NewClient lib host apiPortInt)) (\<lambda>contrailClient.
               bindM (deref ka) (\<lambda>keystoneAuthParameters.
               bindM (if AuthUrl keystoneAuthParameters \<noteq> []
                      then setupAuthKeystone lib contrailClient keystoneAuthParameters
                      else ret contrailClient) (\<lambda>contrailClient.
               bindM (tryM (api_List (client_api lib (Some contrailClient)) ''global-system-config'')) (\<lambda>r.
                 case r of
                   Inr _ \<Rightarrow> ret contrailClient
                 | Inl _ \<Rightarrow> try_servers lib enc ka servers)))))
      | _ \<Rightarrow> panic ''index out of range'')"

definition getAPIClient ::
  "('c, 'k, 'b, 'l, 's) client_lib \<Rightarrow> APIServer \<Rightarrow> KeystoneAuthParameters option
    \<Rightarrow> ('s, go_error, 'c) go" where
  "getAPIClient lib apiServerObj ka =
     try_servers lib (as_Encryption apiServerObj) ka (APIServerList apiServerObj)"

text \<open>\<open>syscall.ECONNREFUSED\<close> on Linux.\<close>

definition ECONNREFUSED :: int where
  "ECONNREFUSED = 111"

definition connectionError :: "go_error option \<Rightarrow> bool" where
  "connectionError e =
     (case e of
        None \<Rightarrow> False
      | Some err \<Rightarrow>
          if net_timeout err = Some True then True
          else (case unwrapped err of
                  Some (OpError Op) \<Rightarrow>
                    if Op = ''dial'' then True else if Op = ''read'' then True else False
                | Some (Errno t) \<Rightarrow> t = ECONNREFUSED
                | _ \<Rightarrow> False))"

section \<open>The node managers and their watchers\<close>

record prov_env =
  env_yaml :: yaml_lib
  env_conf :: conf_lib
  env_ord :: range_ord
  env_aord :: range_ord

definition runNodeManager ::
  "prov_env \<Rightarrow> string \<Rightarrow> contrail_node_type \<Rightarrow> ('b, 'l, 's) contrail_api \<Rightarrow> (string, string) gomap
    \<Rightarrow> ('s world, go_error, unit) goD" where
  "runNodeManager env filePath nodeType cl requiredAnnotations =
     bindD (liftD (loadBytesFromFile filePath)) (\<lambda>requiredNodesData.
     bindD (tryD (retry MaxRetryAttempts
              (on_api (ManageNodes (env_yaml env) (env_ord env) (env_aord env) requiredNodesData
                 requiredAnnotations nodeType cl)))) (\<lambda>r.
       case r of
         Inl err \<Rightarrow> liftD (fatal (node_type_string nodeType @ '' node manager failed''))
       | Inr _ \<Rightarrow> liftD (ret ())))"

text \<open>What \<open>WatchFile\<close> is given: the directory of the file and the callback.\<close>

record 's file_watcher =
  fw_path :: string
  fw_callback :: "('s world, go_error, unit) goD"

definition watch_path :: "string \<Rightarrow> string" where
  "watch_path filePath = trim_suffix filePath (last (split_on CHR ''/'' filePath))"

text \<open>\<open>newWatcher\<close> is the error of \<open>fsnotify.NewWatcher\<close>, if it fails.\<close>

definition setupNodeFileWatcher ::
  "prov_env \<Rightarrow> go_error option \<Rightarrow> string \<Rightarrow> contrail_node_type \<Rightarrow> ('b, 'l, 's) contrail_api
    \<Rightarrow> (string, string) gomap \<Rightarrow> ('s world, go_error, 's file_watcher) goD" where
  "setupNodeFileWatcher env newWatcher filePath nodeType cl requiredAnnotations =
     bindD (runNodeManager env filePath nodeType cl requiredAnnotations) (\<lambda>_.
       case newWatcher of
         Some err \<Rightarrow> liftD (fatal (error_text err))
       | None \<Rightarrow>
           liftD (ret \<lparr>fw_path = watch_path filePath,
                       fw_callback = runNodeManager env filePath nodeType cl requiredAnnotations\<rparr>))"

section \<open>The global vrouter configuration\<close>

definition globalVrouterConfFQName :: "string list" where
  "globalVrouterConfFQName = [''default-global-system-config'', ''default-global-vrouter-config'']"

definition fill_GlobalVrouterConfig ::
  "GlobalVrouterConfiguration \<Rightarrow> 'b global_vrouter_config \<Rightarrow> 'b global_vrouter_config" where
  "fill_GlobalVrouterConfig conf g =
     SetVxlanNetworkIdentifierMode (VxlanNetworkIdentifierMode conf)
       (SetEcmpHashingIncludeFields (gv_EcmpHashingIncludeFields conf)
         (SetEncapsulationPriorities (split_on CHR '','' (EncapsulationPriorities conf)) g))"

definition provisionGlobalVrouter ::
  "('b, 'l, 's) contrail_api \<Rightarrow> GlobalVrouterConfiguration \<Rightarrow> ('s, go_error, unit) go" where
  "provisionGlobalVrouter cl conf =
     bindM (tryM (api_Create cl (GlobalVrouterConfigObj (fill_GlobalVrouterConfig conf
              (gvc_SetFQName cl [] globalVrouterConfFQName (new_global_vrouter_config cl)))))) (\<lambda>r.
       case r of
         Inr _ \<Rightarrow> ret ()
       | Inl err \<Rightarrow>
           if \<not> contains_str (error_text err) ''409 Conflict'' then panic (error_text err)
           else bindM (or_panic (api_FindByName cl ''global-vrouter-config''
                        (join_with '':'' globalVrouterConfFQName))) (\<lambda>obj.
                bindM (as_GlobalVrouterConfig obj) (\<lambda>g.
                  or_panic (api_Update cl
                    (GlobalVrouterConfigObj (fill_GlobalVrouterConfig conf g))))))"

section \<open>main\<close>

record flags =
  controlNodes :: string
  configNodes :: string
  analyticsNodes :: string
  vrouterNodes :: string
  databaseNodes :: string
  apiserver :: string
  keystoneAuthConf :: string
  globalVrouterConf :: string
  requiredAnnotationsFile :: string
  mode :: string

definition no_encryption :: encryption where
  "no_encryption = \<lparr>CA = [], Cert = [], Key = [], Insecure = False\<rparr>"

definition no_keystone :: KeystoneAuthParameters where
  "no_keystone = \<lparr>AdminUsername = [], AdminPassword = [], AuthUrl = [], TenantName = [],
     ka_Encryption = no_encryption\<rparr>"

definition no_global_vrouter :: GlobalVrouterConfiguration where
  "no_global_vrouter =
     \<lparr>gv_EcmpHashingIncludeFields = \<lparr>HashingConfigured = False, SourceIp = False,
        DestinationIp = False, IpProtocol = False, SourcePort = False, DestinationPort = False\<rparr>,
      EncapsulationPriorities = [], VxlanNetworkIdentifierMode = []\<rparr>"

definition getKeystoneAuthParametersFromFile ::
  "prov_env \<Rightarrow> string \<Rightarrow> ('s world, go_error, KeystoneAuthParameters option) go" where
  "getKeystoneAuthParametersFromFile env path =
     bindM (or_panic (ReadFile path)) (\<lambda>d. decode_or_panic (yaml_Keystone (env_conf env) d))"

definition getGlobalVrouterConfigFromFile ::
  "prov_env \<Rightarrow> string \<Rightarrow> ('s world, go_error, GlobalVrouterConfiguration option) go" where
  "getGlobalVrouterConfigFromFile env path =
     bindM (or_panic (ReadFile path)) (\<lambda>d. decode_or_panic (json_GlobalVrouter (env_conf env) d))"

text \<open>The first statements of both modes: the API servers and the Keystone parameters.\<close>

definition readConnection ::
  "prov_env \<Rightarrow> flags \<Rightarrow> ('s world, go_error, APIServer \<times> KeystoneAuthParameters option) go" where
  "readConnection env fl =
     bindM (or_panic (ReadFile (apiserver fl))) (\<lambda>apiServerYaml.
     bindM (decode_or_panic (yaml_APIServer (env_conf env) apiServerYaml)) (\<lambda>apiServer.
       \<lambda>w. bindM (if os_exists (keystoneAuthConf fl) w
                  then getKeystoneAuthParametersFromFile env (keystoneAuthConf fl)
                  else ret (Some no_keystone)) (\<lambda>ka. ret (apiServer, ka)) w))"

definition requiredAnnotations_of ::
  "flags \<Rightarrow> ('s world, go_error, (string, string) gomap) go" where
  "requiredAnnotations_of fl =
     bindM (loadBytesFromFile (requiredAnnotationsFile fl)) (\<lambda>value.
       ret [(RequiredAnnotationsKey, value)])"

definition main_run ::
  "prov_env \<Rightarrow> ('c, 'k, 'b, 'l, 's) client_lib \<Rightarrow> flags \<Rightarrow> (string, string) gomap
    \<Rightarrow> ('s world, go_error, unit) goD" where
  "main_run env lib fl ann =
     bindD (liftD (readConnection env fl)) (\<lambda>(apiServer, ka).
     bindD (liftD (or_panic (on_api (getAPIClient lib apiServer ka)))) (\<lambda>client.
       let cl = client_api lib (Some client)
       in forD [(controlNodes fl, ControlNodeType), (vrouterNodes fl, VrouterNodeType),
                (configNodes fl, ConfigNodeType), (analyticsNodes fl, AnalyticsNodeType),
                (databaseNodes fl, DatabaseNodeType)]
            (\<lambda>(path, ty). runNodeManager env path ty cl ann)))"

text \<open>Watch mode up to the point where it blocks; the watchers are then running.\<close>

definition main_watch ::
  "prov_env \<Rightarrow> ('c, 'k, 'b, 'l, 's) client_lib \<Rightarrow> go_error option \<Rightarrow> flags \<Rightarrow> (string, string) gomap
    \<Rightarrow> ('s world, go_error, 's file_watcher list) goD" where
  "main_watch env lib newWatcher fl ann =
     bindD (liftD (readConnection env fl)) (\<lambda>(apiServer, ka).
     bindD (tryD (retry 5 (on_api (getAPIClient lib apiServer ka)))) (\<lambda>r.
     bindD (case r of
              Inr client \<Rightarrow> liftD (ret (Some client))
            | Inl err \<Rightarrow> if \<not> connectionError (Some err) then liftD (panic (error_text err))
                         else liftD (ret None)) (\<lambda>client.
       let cl = client_api lib client
       in bindD (liftD (\<lambda>w. (if os_exists (globalVrouterConf fl) w
                 then getGlobalVrouterConfigFromFile env (globalVrouterConf fl)
                 else ret (Some no_global_vrouter)) w)) (\<lambda>conf.
          bindD (liftD (deref conf)) (\<lambda>conf.
          bindD (liftD (on_api (provisionGlobalVrouter cl conf))) (\<lambda>_.
          bindD (setupNodeFileWatcher env newWatcher (controlNodes fl) ControlNodeType cl ann) (\<lambda>w1.
          bindD (setupNodeFileWatcher env newWatcher (vrouterNodes fl) VrouterNodeType cl ann) (\<lambda>w2.
          bindD (setupNodeFileWatcher env newWatcher (analyticsNodes fl) AnalyticsNodeType cl ann) (\<lambda>w3.
          bindD (setupNodeFileWatcher env newWatcher (configNodes fl) ConfigNodeType cl ann) (\<lambda>w4.
          bindD (setupNodeFileWatcher env newWatcher (databaseNodes fl) DatabaseNodeType cl ann) (\<lambda>w5.
            liftD (ret [w1, w2, w3, w4, w5]))))))))))))"

definition provisioner_main ::
  "prov_env \<Rightarrow> ('c, 'k, 'b, 'l, 's) client_lib \<Rightarrow> go_error option \<Rightarrow> flags
    \<Rightarrow> ('s world, go_error, 's file_watcher list) goD" where
  "provisioner_main env lib newWatcher fl =
     bindD (liftD (requiredAnnotations_of fl)) (\<lambda>ann.
       if mode fl = ''watch'' then main_watch env lib newWatcher fl ann
       else if mode fl = ''run'' then bindD (main_run env lib fl ann) (\<lambda>_. liftD (ret []))
       else liftD (ret []))"

section \<open>The program returns\<close>

lemma returns_runNodeManager [returns_intros]: "returns (runNodeManager env path ty cl ann)"
  unfolding runNodeManager_def
  by (intro returns_intros) (simp add: MaxRetryAttempts_def)

lemma returns_setupNodeFileWatcher [returns_intros]:
  "returns (setupNodeFileWatcher env nw path ty cl ann)"
  unfolding setupNodeFileWatcher_def by (intro returns_intros)

lemma returns_main_run [returns_intros]: "returns (main_run env lib fl ann)"
  unfolding main_run_def Let_def by (auto intro!: returns_intros split: prod.split)

lemma returns_main_watch [returns_intros]: "returns (main_watch env lib nw fl ann)"
  unfolding main_watch_def Let_def by (auto intro!: returns_intros split: prod.split)

section \<open>Error-free steps\<close>

lemma on_api_run [simp]: "m (w_api w) = (r, s) \<Longrightarrow> on_api m w = (r, w\<lparr>w_api := s\<rparr>)"
  by (simp add: on_api_def)

lemma loadBytes_run [simp]:
  "w_files w path = FileData d \<Longrightarrow> loadBytesFromFile path w = (Ok d, w)"
  "w_files w path = NoFile \<Longrightarrow> loadBytesFromFile path w = (Ok [], w)"
  by (simp_all add: loadBytesFromFile_def or_panic_def ReadFile_def)

lemma retry_first_Ok:
  assumes "0 < attempts" "f s = (Ok x, t)"
  shows "retry attempts f s = Some (Ok x, t)"
  using retry_reaches [of f 0 s s "Ok x" t attempts] assms by (simp add: is_error_def)

lemma runNodeManager_Ok:
  assumes "w_files w path = FileData d"
    and "ManageNodes (env_yaml env) (env_ord env) (env_aord env) d ann ty cl (w_api w) = (Ok (), s')"
  shows "runNodeManager env path ty cl ann w = Some (Ok (), w\<lparr>w_api := s'\<rparr>)"
  unfolding runNodeManager_def using assms
  by (simp add: retry_first_Ok MaxRetryAttempts_def)

section \<open>Finding an API server\<close>

definition client_of ::
  "('c, 'k, 'b, 'l, 's) client_lib \<Rightarrow> encryption \<Rightarrow> string \<Rightarrow> int \<Rightarrow> 'c \<Rightarrow> bool" where
  "client_of lib enc host p c \<longleftrightarrow>
     (\<exists>c0 t t'. client_AddEncryption lib (CA enc) (Key enc) (Cert enc) True (NewClient lib host p) t = (Ok c0, t') \<and>
        (c = c0 \<or> (\<exists>k. c = client_SetAuthenticator lib k c0)))"

lemma setupAuthKeystone_Ok:
  "setupAuthKeystone lib c0 ka t = (Ok c, u) \<Longrightarrow> \<exists>k. c = client_SetAuthenticator lib k c0"
  by (auto simp: setupAuthKeystone_def bindM_Ok_iff)

lemma try_servers_Ok:
  assumes "try_servers lib enc ka servers s = (Ok c, s')"
  shows "\<exists>server \<in> set servers. \<exists>host port rest p t l. split_on CHR '':'' server = host # port # rest \<and>
     Atoi port = Some p \<and> client_of lib enc host p c \<and>
     api_List (client_api lib (Some c)) ''global-system-config'' t = (Ok l, s')"
  using assms
proof (induction servers arbitrary: s)
  case (Cons a servers)
  from Cons.prems obtain host port rest p where
    a: "split_on CHR '':'' a = host # port # rest" "Atoi port = Some p"
    by (auto split: list.splits option.splits)
  with Cons.prems obtain c0 t0 k t1 t2 c' t r u where
    c0: "client_AddEncryption lib (CA enc) (Key enc) (Cert enc) True (NewClient lib host p) s = (Ok c0, t0)"
    and c': "(if AuthUrl k \<noteq> [] then setupAuthKeystone lib c0 k else ret c0) t1 = (Ok c', t)"
    and r: "tryM (api_List (client_api lib (Some c')) ''global-system-config'') t = (Ok r, u)"
    and rest: "(case r of Inr _ \<Rightarrow> ret c' | Inl _ \<Rightarrow> try_servers lib enc ka servers) u = (Ok c, s')"
    by (auto simp: bindM_Ok_iff)
  have of': "client_of lib enc host p c'"
    unfolding client_of_def using c0 c' setupAuthKeystone_Ok by (fastforce split: if_splits)
  show ?case
  proof (cases r)
    case (Inl e)
    with rest Cons.IH [of u] show ?thesis by auto
  next
    case (Inr l)
    with r rest have "c' = c" "api_List (client_api lib (Some c)) ''global-system-config'' t = (Ok l, s')"
      by (auto simp: tryM_Ok_iff)
    with a of' show ?thesis by auto
  qed
qed simp

lemma or_exit_no_Err: "or_exit m s \<noteq> (Err e, s')"
  by (auto simp: or_exit_def bindM_def tryM_def split: prod.splits outcome.splits sum.splits)

lemma bindM_Err_iff:
  "bindM m f s = (Err e, s') \<longleftrightarrow>
     m s = (Err e, s') \<or> (\<exists>x t. m s = (Ok x, t) \<and> f x t = (Err e, s'))"
  by (auto simp: bindM_def split: prod.splits outcome.splits)

lemma setupAuthKeystone_no_Err: "setupAuthKeystone lib client ka s \<noteq> (Err e, s')"
  by (auto simp: setupAuthKeystone_def bindM_Err_iff or_exit_no_Err)

lemma tryM_no_Err: "tryM m s \<noteq> (Err e, s')"
  by (auto simp: tryM_def split: prod.splits outcome.splits)

lemma connectionError_plain: "\<not> connectionError (Some (errors_New msg))"
  by (simp add: connectionError_def errors_New_def)

text \<open>The errors of \<open>getAPIClient\<close>: the one of \<open>AddEncryption\<close>, or one it makes itself.\<close>

lemma try_servers_Err:
  assumes "try_servers lib enc ka servers s = (Err e, s')"
  shows "(\<exists>msg. e = errors_New msg) \<or>
     (\<exists>host p t. client_AddEncryption lib (CA enc) (Key enc) (Cert enc) True (NewClient lib host p) t = (Err e, s'))"
  using assms
proof (induction servers arbitrary: s)
  case (Cons a servers)
  show ?case
  proof (cases "split_on CHR '':'' a")
    case (Cons host ports)
    then show ?thesis
    proof (cases ports)
      case Nil
      with Cons Cons.prems show ?thesis by simp
    next
      case (Cons port rest)
      note a = \<open>split_on CHR '':'' a = host # ports\<close> Cons
      show ?thesis
      proof (cases "Atoi port")
        case None
        with a Cons.prems show ?thesis by auto
      next
        case (Some p)
        with a Cons.prems show ?thesis
          using Cons.IH setupAuthKeystone_no_Err [of lib]
          by (auto simp: bindM_Err_iff tryM_no_Err deref_def split: option.splits sum.splits if_splits)
             (metis sumE)+
      qed
    qed
  qed simp
qed auto

section \<open>An API server that can not be reached\<close>

lemma or_exit_run:
  "m s = (Ok x, s') \<Longrightarrow> or_exit m s = (Ok x, s')"
  "m s = (Err e, s') \<Longrightarrow> or_exit m s = (Fatal (error_text e), s')"
  by (simp_all add: or_exit_def bindM_def tryM_def)

text \<open>
  The set-up of Keystone, whose client takes the configured certificates: it ends with a client, or
  with \<open>os.Exit(1)\<close> when Keystone refuses.
\<close>

lemma setupAuthKeystone_run:
  assumes enc: "\<forall>k t. \<exists>k'. ks_AddEncryption lib (CA (ka_Encryption ka)) (Key (ka_Encryption ka))
      (Cert (ka_Encryption ka)) (Insecure (ka_Encryption ka)) k t = (Ok k', t)"
  shows "\<forall>k t. \<exists>k'. ks_AuthenticateV3 lib k t = (Ok k', t) \<Longrightarrow>
      \<exists>c'. setupAuthKeystone lib c ka s = (Ok c', s)"
    and "\<forall>k t. ks_AuthenticateV3 lib k t = (Err e, t) \<Longrightarrow>
      setupAuthKeystone lib c ka s = (Fatal (error_text e), s)"
proof -
  let ?new = "\<lambda>url. NewKeepaliveKeystoneClient lib url (TenantName ka) (AdminUsername ka) (AdminPassword ka) []"
  obtain k where k: "(if has_prefix (AuthUrl ka) ''https''
        then or_exit (ks_AddEncryption lib (CA (ka_Encryption ka)) (Key (ka_Encryption ka))
               (Cert (ka_Encryption ka)) (Insecure (ka_Encryption ka))
               (?new (replace_first (AuthUrl ka) ''https'' ''http'')))
        else ret (?new (AuthUrl ka))) s = (Ok k, s)"
  proof (cases "has_prefix (AuthUrl ka) ''https''")
    case True
    from enc obtain k' where "ks_AddEncryption lib (CA (ka_Encryption ka)) (Key (ka_Encryption ka))
      (Cert (ka_Encryption ka)) (Insecure (ka_Encryption ka))
      (?new (replace_first (AuthUrl ka) ''https'' ''http'')) s = (Ok k', s)" by blast
    with True that show ?thesis by (simp add: or_exit_run)
  next
    case False
    with that show ?thesis by simp
  qed
  {
    assume "\<forall>k t. \<exists>k'. ks_AuthenticateV3 lib k t = (Ok k', t)"
    then obtain k' where "ks_AuthenticateV3 lib k s = (Ok k', s)" by blast
    with k show "\<exists>c'. setupAuthKeystone lib c ka s = (Ok c', s)"
      unfolding setupAuthKeystone_def bindM_def by (simp add: or_exit_run)
  next
    assume "\<forall>k t. ks_AuthenticateV3 lib k t = (Err e, t)"
    then have "ks_AuthenticateV3 lib k s = (Err e, s)" by blast
    with k show "setupAuthKeystone lib c ka s = (Fatal (error_text e), s)"
      unfolding setupAuthKeystone_def bindM_def by (simp add: or_exit_run)
  }
qed

text \<open>No server answers the probe: the loop ends with its own error, or in \<open>os.Exit\<close> without Keystone.\<close>

lemma try_servers_unreachable:
  assumes "\<forall>a \<in> set servers. \<exists>host port rest p. split_on CHR '':'' a = host # port # rest \<and> Atoi port = Some p"
    and "\<forall>c t. \<exists>c'. client_AddEncryption lib (CA enc) (Key enc) (Cert enc) True c t = (Ok c', t)"
    and "\<forall>c t. \<exists>e. api_List (client_api lib (Some c)) ''global-system-config'' t = (Err e, t)"
    and "AuthUrl ka = [] \<or> (\<forall>c t. \<exists>c'. setupAuthKeystone lib c ka t = (Ok c', t))"
  shows "try_servers lib enc (Some ka) servers s = (Err (errors_New ''cannot get api server''), s)"
  using assms(1)
proof (induction servers)
  case (Cons a servers)
  from Cons.prems obtain host port rest p where
    a: "split_on CHR '':'' a = host # port # rest" "Atoi port = Some p" by auto
  obtain c' where c': "client_AddEncryption lib (CA enc) (Key enc) (Cert enc) True (NewClient lib host p) s = (Ok c', s)"
    using assms(2) by blast
  obtain c where c: "(if AuthUrl ka \<noteq> [] then setupAuthKeystone lib c' ka else ret c') s = (Ok c, s)"
    using assms(4) by (cases "AuthUrl ka = []") auto
  obtain e where e: "api_List (client_api lib (Some c)) ''global-system-config'' s = (Err e, s)"
    using assms(3) by blast
  show ?case using Cons a c' c e by (simp add: deref_def bindM_def)
qed simp

lemma try_servers_keystone_down:
  assumes "split_on CHR '':'' a = host # port # rest" "Atoi port = Some p"
    and "\<forall>c t. \<exists>c'. client_AddEncryption lib (CA enc) (Key enc) (Cert enc) True c t = (Ok c', t)"
    and "AuthUrl ka \<noteq> []" "\<forall>c t. setupAuthKeystone lib c ka t = (Fatal msg, t)"
  shows "try_servers lib enc (Some ka) (a # servers) s = (Fatal msg, s)"
proof -
  obtain c' where "client_AddEncryption lib (CA enc) (Key enc) (Cert enc) True (NewClient lib host p) s = (Ok c', s)"
    using assms(3) by blast
  with assms show ?thesis by (simp add: deref_def bindM_def)
qed

lemma retry_all_fail:
  assumes "0 < attempts" "f s = (Err e, s)"
  shows "retry attempts f s = Some (Err e, s)"
proof -
  have af: "after_failures f k s = Some s" for k
    using assms(2) by (induction k) simp_all
  from retry_positive [OF assms(1), of f s] af assms(2) show ?thesis by auto
qed

lemma retry_stops: "f s = (Fatal p, s') \<Longrightarrow> retry attempts f s = Some (Fatal p, s')"
  unfolding retry_def by (simp add: retry_from.simps)

end
