(* ===== verification/ProvProps.thy ===== *)
theory ProvProps
  imports ProvMain
begin

text \<open>
  The properties of the provisioner.  The witnesses run it against the API in memory of
  \<open>MemApi\<close> with one required node and one managed node that is no longer required.
\<close>

section \<open>The example run\<close>

definition ex_ann :: "(string, string) gomap" where
  "ex_ann = [(''managed_by'', ''prov'')]"

definition ex_req :: node where
  "ex_req = \<lparr>IPAddress = ''1.1.1.1'', Hostname = ''a'', Annotations = None\<rparr>"

definition ex_entry :: api_entry where
  "ex_entry = \<lparr>en_uuid = ''u'', en_fqname = [''default-global-system-config'', ''b''], en_name = ''b'',
     en_ip = ''2.2.2.2'', en_annotations = [(''managed_by'', ''prov'')]\<rparr>"

definition ex_state :: mem_state where
  "ex_state k = [ex_entry]"

definition ex_yaml :: yaml_lib where
  "ex_yaml = \<lparr>yaml_nodes = (\<lambda>d. Inr [ex_req]), yaml_control_nodes = (\<lambda>d. Inr [])\<rparr>"

definition ex_conf :: conf_lib where
  "ex_conf = \<lparr>yaml_APIServer = (\<lambda>d. Inr \<lparr>APIPort = [], APIServerList = [''h:8082''], as_Encryption = no_encryption\<rparr>),
     yaml_Keystone = (\<lambda>d. Inr None), json_GlobalVrouter = (\<lambda>d. Inr None)\<rparr>"

definition ex_env :: prov_env where
  "ex_env = \<lparr>env_yaml = ex_yaml, env_conf = ex_conf, env_ord = in_order, env_aord = in_order\<rparr>"

definition ex_world :: "mem_state world" where
  "ex_world = \<lparr>w_files = (\<lambda>p. if p = ''/keystone'' then NoFile else FileData []), w_api = ex_state\<rparr>"

lemma ex_facts:
  "entries_ok (ex_state k)" "go_map ex_ann" "\<forall>c \<in> set [ex_req]. go_map (entries (Annotations c))"
  "\<forall>c \<in> set [ex_req]. \<forall>d. store_of (ex_state k) (Hostname c) = Some d \<longrightarrow> map_of ex_ann \<subseteq>\<^sub>m snd d"
  by (simp_all add: ex_state_def ex_entry_def entries_ok_def ex_ann_def go_map_def ex_req_def entries_def store_of_def)

section \<open>Convergence\<close>

text \<open>
  C2: the node manager of a node type, run against an API server with the documented behaviour,
  returns without an error and leaves exactly the wanted nodes: every required node is there with
  its address and with the required annotations added, every managed node that is not required is
  gone, and every other node is as it was.  The condition is that no required node has the host
  name of a node that is there and is not managed.
\<close>

theorem runNodeManager_converges:
  assumes srv: "live_infra_server cl contents (env_ord env)" and aord: "range_perm (env_aord env)"
    and fdata: "w_files w path = FileData d" and yaml: "yaml_nodes (env_yaml env) d = Inr req"
    and ok: "entries_ok (contents (w_api w) k)" and req: "\<forall>c \<in> set req. go_map (entries (Annotations c))"
    and ann: "go_map ann"
    and free: "\<forall>c \<in> set req. \<forall>x. store_of (contents (w_api w) k) (Hostname c) = Some x \<longrightarrow> map_of ann \<subseteq>\<^sub>m snd x"
  shows "\<exists>s'. runNodeManager env path (infra_node_type k) cl ann w = Some (Ok (), w\<lparr>w_api := s'\<rparr>) \<and>
     entries_ok (contents s' k) \<and>
     store_of (contents s' k) =
       reconciled ann (map (infra_node_of k) req) (store_of (contents (w_api w) k))"
proof -
  from ManageNodes_outcome [OF srv yaml ok req ann aord free] obtain s' where
    "ManageNodes (env_yaml env) (env_ord env) (env_aord env) d ann (infra_node_type k) cl (w_api w) = (Ok (), s')"
    "entries_ok (contents s' k)"
    "store_of (contents s' k) = reconciled ann (map (infra_node_of k) req) (store_of (contents (w_api w) k))"
    by blast
  with runNodeManager_Ok [OF fdata this(1)] show ?thesis by blast
qed

theorem runNodeManager_converges_witness:
  "\<exists>s'. runNodeManager ex_env ''/f'' ConfigNodeType mem_api ex_ann ex_world = Some (Ok (), ex_world\<lparr>w_api := s'\<rparr>) \<and>
     store_of (s' ConfigKind) ''a'' = Some (''1.1.1.1'', [''managed_by'' \<mapsto> ''prov'']) \<and>
     store_of (s' ConfigKind) ''b'' = None"
proof -
  have "\<exists>s'. runNodeManager ex_env ''/f'' (infra_node_type ConfigKind) mem_api ex_ann ex_world
       = Some (Ok (), ex_world\<lparr>w_api := s'\<rparr>) \<and> entries_ok (s' ConfigKind) \<and>
     store_of (s' ConfigKind) =
       reconciled ex_ann (map (infra_node_of ConfigKind) [ex_req]) (store_of (w_api ex_world ConfigKind))"
    by (rule runNodeManager_converges [where contents = "\<lambda>s. s" and d = "[]"])
       (use mem.live_infra_server_axioms ex_facts in
         \<open>simp_all add: ex_env_def ex_yaml_def ex_world_def range_perm_in_order\<close>)
  moreover have "reconciled ex_ann (map (infra_node_of ConfigKind) [ex_req]) (store_of (w_api ex_world ConfigKind)) ''a''
      = Some (''1.1.1.1'', [''managed_by'' \<mapsto> ''prov''])"
    "reconciled ex_ann (map (infra_node_of ConfigKind) [ex_req]) (store_of (w_api ex_world ConfigKind)) ''b'' = None"
    by (simp_all add: reconciled_def required_for_def ex_req_def ex_ann_def ex_world_def ex_state_def ex_entry_def
        store_of_def entry_content_def entries_def map_le_def)
  ultimately show ?thesis by auto
qed

text \<open>
  C3: the action map has, for each host name, the planned action: create a required node that is
  not managed in the server yet, update one that is, delete a managed node that is not required.
  A host name that is neither required nor managed has no action.
\<close>

theorem actionMap_planned:
  "map_of (createContrailNodesActionMap r ns) h = planned_action (rc_requiredNodes r) ns h"
  by (rule map_of_actionMap)

text \<open>
  C4: only managed nodes are deleted: a node with a delete action carries all required
  annotations in the server and its host name is not required.
\<close>

theorem delete_only_managed:
  assumes "(h, w) \<in> set (createContrailNodesActionMap r (getNodesWithRequiredAnnotations ord r ns))"
    and "nwa_action w = DeleteAction"
  shows "nwa_node w \<in> set ns \<and> GetHostname (nwa_node w) = h \<and>
     HasRequiredAnnotations ord (GetAnnotations (nwa_node w)) (rc_requiredAnnotations r) \<and>
     h \<notin> GetHostname ` set (rc_requiredNodes r)"
proof -
  let ?m = "getNodesWithRequiredAnnotations ord r ns"
  have p: "planned_action (rc_requiredNodes r) ?m h = Some w"
    using assms(1) by (simp add: actionMap_entry)
  then have "required_for (rc_requiredNodes r) h = None"
    using assms(2) by (auto simp: planned_action_def split: option.splits if_splits)
  then have "h \<notin> GetHostname ` set (rc_requiredNodes r)" by (simp add: required_for_None_iff)
  moreover have "nwa_node w \<in> set ?m" using planned_action_node(2) [OF p assms(2)] .
  moreover have "GetHostname (nwa_node w) = h" using planned_action_hostname [OF p] .
  ultimately show ?thesis by (simp add: getNodesWithRequiredAnnotations_def)
qed

definition ex_managed :: contrail_node where
  "ex_managed = ConfigNode \<lparr>IPAddress = [], Hostname = ''b'', Annotations = Some ex_ann\<rparr>"

definition ex_reconciler :: "(mem_base, nat, mem_state) reconciler" where
  "ex_reconciler = NewReconciler mem_api [] ex_ann"

theorem delete_only_managed_witness:
  "HasRequiredAnnotations in_order (GetAnnotations ex_managed) ex_ann \<and>
   (''b'', \<lparr>nwa_node = ex_managed, nwa_action = DeleteAction\<rparr>)
     \<in> set (createContrailNodesActionMap ex_reconciler
          (getNodesWithRequiredAnnotations in_order ex_reconciler [ex_managed]))"
proof -
  have mem: "(''b'', \<lparr>nwa_node = ex_managed, nwa_action = DeleteAction\<rparr>)
     \<in> set (createContrailNodesActionMap ex_reconciler
          (getNodesWithRequiredAnnotations in_order ex_reconciler [ex_managed]))"
    by (simp add: ex_reconciler_def ex_managed_def NewReconciler_def getNodesWithRequiredAnnotations_def
        createContrailNodesActionMap_def add_in_api_def HasRequiredAnnotations_def ex_ann_def entries_def
        range_of_in_order)
  from delete_only_managed [OF this] mem show ?thesis
    by (simp add: ex_reconciler_def NewReconciler_def)
qed

text \<open>
  C5: two managed nodes of one host name in the server, not required any more, are not deleted:
  the second one turns the delete action of the first into an update.
\<close>

theorem duplicate_not_deleted:
  assumes "required_for (rc_requiredNodes r) h = None" "in_api ns h = n # n' # rest"
  shows "map_of (createContrailNodesActionMap r ns) h = Some \<lparr>nwa_node = n, nwa_action = UpdateAction\<rparr>"
  using assms by (simp add: map_of_actionMap planned_action_def)

theorem duplicate_not_deleted_witness:
  "map_of (createContrailNodesActionMap ex_reconciler [ex_managed, ex_managed]) ''b'' =
     Some \<lparr>nwa_node = ex_managed, nwa_action = UpdateAction\<rparr>"
  by (rule duplicate_not_deleted [where n' = ex_managed and rest = "[]"])
     (simp_all add: ex_reconciler_def NewReconciler_def required_for_def in_api_def ex_managed_def)

section \<open>Annotations\<close>

text \<open>
  after the reconciler has prepared a required node, the node has every required annotation
  with the required value, keeps its other annotations, and counts as managed, whatever the
  orders in which the maps are visited.
\<close>

theorem required_node_annotated:
  assumes "range_perm ord" "range_perm ord'" "go_map req"
  shows "map_of (entries (GetAnnotations (ensureRequiredAnnotationsSetOnNode ord req n))) =
       map_of (entries (GetAnnotations n)) ++ map_of req \<and>
     HasRequiredAnnotations ord' (GetAnnotations (ensureRequiredAnnotationsSetOnNode ord req n)) req \<and>
     GetHostname (ensureRequiredAnnotationsSetOnNode ord req n) = GetHostname n"
  using ensure_annotations [OF assms(1,3)] ensure_HasRequired [OF assms] by simp

theorem required_node_annotated_witness:
  "HasRequiredAnnotations in_reverse (GetAnnotations (ensureRequiredAnnotationsSetOnNode in_order ex_ann ex_managed)) ex_ann"
  using required_node_annotated [OF range_perm_in_order range_perm_in_reverse ex_facts(2), of ex_managed] by simp

text \<open>
  the annotations of a node survive the way to the server and back: turning the map into
  key-value pairs and the pairs into a map gives the same map, for every order of the pairs.
\<close>

theorem annotations_roundtrip:
  assumes "range_perm ord" "go_map (entries m)"
  shows "map_of (entries (ConvertContrailKeyValuePairsToMap (ConvertMapToContrailKeyValuePairs ord m))) = map_of (entries m)"
  using assms by (rule ConvertPairs_ConvertMap)

theorem annotations_roundtrip_witness:
  "map_of (entries (ConvertContrailKeyValuePairsToMap
     (ConvertMapToContrailKeyValuePairs in_reverse (Some [(''x'', ''1''), (''y'', ''2'')])))) ''x'' = Some ''1''"
  by (subst annotations_roundtrip) (simp_all add: range_perm_in_reverse entries_def go_map_def)

text \<open>
  \<open>HasRequiredAnnotations\<close> decides whether the required annotations are a part of the actual
  ones, and does not depend on the order of the map.
\<close>

theorem HasRequired_submap:
  assumes "range_perm ord" "go_map req"
  shows "HasRequiredAnnotations ord act req \<longleftrightarrow> map_of req \<subseteq>\<^sub>m map_of (entries act)"
  using assms by (rule HasRequiredAnnotations_iff)

theorem HasRequired_submap_witness:
  "HasRequiredAnnotations in_reverse (Some [(''o'', ''1''), (''managed_by'', ''prov'')]) ex_ann"
  using HasRequired_submap [OF range_perm_in_reverse ex_facts(2), of "Some [(''o'', ''1''), (''managed_by'', ''prov'')]"]
  by (simp add: ex_ann_def entries_def map_le_def)

section \<open>retry\<close>

text \<open>
  C6: with a positive number of attempts, \<open>retry\<close> returns what the first attempt that does not
  fail gives, or the error of the last attempt when all of them fail; it makes at most that many
  attempts.
\<close>

theorem retry_bounded:
  assumes "0 < attempts"
  shows "\<exists>k t. int k < attempts \<and> after_failures f k s = Some t \<and> retry attempts f s = Some (f t) \<and>
     (is_error (fst (f t)) \<longrightarrow> int k = attempts - 1)"
  using assms by (rule retry_positive)

definition ex_flaky :: "(nat, string, unit) go" where
  "ex_flaky n = (if n < 2 then (Err ''down'', n + 1) else (Ok (), n))"

theorem retry_bounded_witness: "\<exists>r. retry 5 ex_flaky 0 = Some r"
  using retry_bounded [of 5 ex_flaky 0] by auto

text \<open>
  C7: with 0 attempts, \<open>retry\<close> never returns exactly when every attempt fails.
\<close>

theorem retry_unbounded: "retry 0 f s = None \<longleftrightarrow> (\<forall>k. after_failures f k s \<noteq> None)"
  by (rule retry_forever_iff)

section \<open>The file watcher\<close>

text \<open>
  C8: whatever the order of file events, ticks and closing, the watcher runs its callback once
  for each interval between two ticks that has a write or a remove event, and not otherwise; it is
  closed exactly when it was asked to close.
\<close>

theorem watcher_runs_due:
  assumes "quiet fsn"
  shows "\<exists>st. run fsn callback cs None =
      bindD (forD (replicate (due_callbacks fsn cs) ()) (\<lambda>_. callback)) (\<lambda>_. liftD (ret st))
    \<and> (st = Closed \<longleftrightarrow> DoneCase \<in> set cs)"
  using run_pending [OF assms, of callback cs None] by (simp add: due_pending_False)

definition ex_fsn :: "(nat, nat) fsnotify" where
  "ex_fsn = \<lparr>op_Remove = 4, op_Write = 2, fs_Remove = (\<lambda>_ w. w), fs_Add = (\<lambda>_ w. w)\<rparr>"

definition ex_write :: "nat fs_event" where
  "ex_write = \<lparr>ev_Name = ''f'', ev_Op = 2\<rparr>"

theorem watcher_runs_due_witness:
  "\<exists>st. run ex_fsn (liftD (\<lambda>n. (Ok (), n + 1))) [FsEvent ex_write, FsEvent ex_write, Tick, Tick] None 0 =
     Some ((Ok st :: (string, nat run_state) outcome), 1::nat) \<and> st \<noteq> Closed"
proof -
  let ?cb = "liftD (\<lambda>n. ((Ok () :: (string, unit) outcome), n + 1))"
  let ?cs = "[FsEvent ex_write, FsEvent ex_write, Tick, Tick]"
  have "quiet ex_fsn" by (simp add: quiet_def ex_fsn_def)
  from watcher_runs_due [OF this, of ?cb ?cs] obtain st where
    eq: "run ex_fsn ?cb ?cs None =
      bindD (forD (replicate (due_callbacks ex_fsn ?cs) ()) (\<lambda>_. ?cb)) (\<lambda>_. liftD (ret st))"
    and st: "st \<noteq> Closed" by auto
  have "due_callbacks ex_fsn ?cs = 1"
    by (simp add: due_callbacks_def relevant_def ex_fsn_def ex_write_def)
  with fun_cong [OF eq, of 0] show ?thesis using st
    by (intro exI [of _ st]) (simp del: run.simps)
qed

text \<open>
  a burst of events before a tick leads to one callback if one of them is a write or a
  remove, to none otherwise; the callbacks are never more than the ticks.
\<close>

theorem watcher_deduplicates:
  "due_callbacks fsn (map FsEvent es @ Tick # cs) =
     (if list_ex (relevant fsn) es then 1 else 0) + due_callbacks fsn cs \<and>
   due_callbacks fsn cs \<le> count_list cs Tick"
  by (simp add: due_interval due_le_ticks)

section \<open>Connecting\<close>

text \<open>
  C9: a client that \<open>getAPIClient\<close> returns is a client of one of the configured servers, whose
  entry has a host and a numeric port, with the encryption of the configuration, and the last thing that happened is that it answered the
  request for the global system configuration.
\<close>

theorem getAPIClient_answered:
  assumes "getAPIClient lib srv ka s = (Ok c, s')"
  shows "\<exists>server \<in> set (APIServerList srv). \<exists>host port rest p t l.
     split_on CHR '':'' server = host # port # rest \<and> Atoi port = Some p \<and>
     client_of lib (as_Encryption srv) host p c \<and>
     api_List (client_api lib (Some c)) ''global-system-config'' t = (Ok l, s')"
  using assms unfolding getAPIClient_def by (rule try_servers_Ok)

definition ex_api :: "(mem_base, nat, mem_state) contrail_api" where
  "ex_api = mem_api\<lparr>api_List := (\<lambda>ty. if ty = ''global-system-config'' then ret [] else mem_List ty)\<rparr>"

definition ex_lib :: "(string \<times> int, unit, mem_base, nat, mem_state) client_lib" where
  "ex_lib = \<lparr>NewClient = (\<lambda>h p. (h, p)), client_AddEncryption = (\<lambda>_ _ _ _ c. ret c),
     client_SetAuthenticator = (\<lambda>_ c. c), NewKeepaliveKeystoneClient = (\<lambda>_ _ _ _ _. ()),
     ks_AddEncryption = (\<lambda>_ _ _ _ k. ret k), ks_AuthenticateV3 = ret,
     client_api = (\<lambda>c. if c = Some (''h2'', 8082) then ex_api
       else ex_api\<lparr>api_List := (\<lambda>_. throw (GoError ''refused'' None (Some (Errno ECONNREFUSED))))\<rparr>)\<rparr>"

definition ex_server :: "string list \<Rightarrow> APIServer" where
  "ex_server hosts = \<lparr>APIPort = [], APIServerList = hosts, as_Encryption = no_encryption\<rparr>"

lemma ex_Atoi: "Atoi ''8082'' = Some 8082"
  by (simp add: Atoi_def parse_int_def dec_to_nat_def is_digit_def digit_val_def int64_def)

lemma ex_getAPIClient:
  "getAPIClient ex_lib (ex_server [''h1:8082'', ''h2:8082'']) (Some no_keystone) ex_state = (Ok (''h2'', 8082), ex_state)"
  by (simp add: getAPIClient_def ex_server_def ex_Atoi ex_lib_def ex_api_def deref_def no_keystone_def)

theorem getAPIClient_answered_witness:
  "\<exists>server \<in> set [''h1:8082'', ''h2:8082'']. \<exists>t l.
     api_List (client_api ex_lib (Some (''h2'', 8082))) ''global-system-config'' t = (Ok l, ex_state)"
  using getAPIClient_answered [OF ex_getAPIClient] by (auto simp: ex_server_def)

text \<open>
  C10: watch mode when every entry of the server list is a host and a port, the clients take the
  configured certificates, and no server answers the probe.  Without Keystone, or when Keystone
  authenticates, the program ends in the panic "cannot get api server", also if the servers refuse
  the connection: the error that says so is dropped, so that the test for a connection error does
  not see it.  When Keystone is configured and refuses the authentication, the program ends in
  \<open>os.Exit(1)\<close> at the first server of the list, and neither the retries nor the test for a
  connection error are reached.
\<close>

theorem watch_unreachable_panics:
  assumes conn: "readConnection env fl w = (Ok (srv, Some ka), w)"
    and entries: "\<forall>a \<in> set (APIServerList srv). \<exists>host port rest p.
      split_on CHR '':'' a = host # port # rest \<and> Atoi port = Some p"
    and enc: "\<forall>c t. \<exists>c'. client_AddEncryption lib (CA (as_Encryption srv)) (Key (as_Encryption srv))
      (Cert (as_Encryption srv)) True c t = (Ok c', t)"
    and kenc: "\<forall>k t. \<exists>k'. ks_AddEncryption lib (CA (ka_Encryption ka)) (Key (ka_Encryption ka))
      (Cert (ka_Encryption ka)) (Insecure (ka_Encryption ka)) k t = (Ok k', t)"
    and probe: "\<forall>c t. \<exists>e. api_List (client_api lib (Some c)) ''global-system-config'' t = (Err e, t)"
  shows "(AuthUrl ka = [] \<or> (\<forall>k t. \<exists>k'. ks_AuthenticateV3 lib k t = (Ok k', t)) \<longrightarrow>
       main_watch env lib nw fl ann w = Some (Panic ''cannot get api server'', w)) \<and>
     (AuthUrl ka \<noteq> [] \<and> (\<forall>k t. ks_AuthenticateV3 lib k t = (Err e, t)) \<and> APIServerList srv \<noteq> [] \<longrightarrow>
       main_watch env lib nw fl ann w = Some (Fatal (error_text e), w))"
proof (intro conjI impI)
  assume "AuthUrl ka = [] \<or> (\<forall>k t. \<exists>k'. ks_AuthenticateV3 lib k t = (Ok k', t))"
  with setupAuthKeystone_run(1) [OF kenc]
  have "getAPIClient lib srv (Some ka) (w_api w) = (Err (errors_New ''cannot get api server''), w_api w)"
    unfolding getAPIClient_def by (intro try_servers_unreachable entries enc probe) auto
  then have "on_api (getAPIClient lib srv (Some ka)) w = (Err (errors_New ''cannot get api server''), w)"
    by (simp add: on_api_def)
  then have "retry 5 (on_api (getAPIClient lib srv (Some ka))) w = Some (Err (errors_New ''cannot get api server''), w)"
    by (simp add: retry_all_fail)
  then show "main_watch env lib nw fl ann w = Some (Panic ''cannot get api server'', w)"
    unfolding main_watch_def using conn connectionError_plain
    by (simp add: errors_New_def)
next
  assume down: "AuthUrl ka \<noteq> [] \<and> (\<forall>k t. ks_AuthenticateV3 lib k t = (Err e, t)) \<and> APIServerList srv \<noteq> []"
  then obtain a servers where a: "APIServerList srv = a # servers" by (cases "APIServerList srv") auto
  with entries obtain host port rest p where "split_on CHR '':'' a = host # port # rest" "Atoi port = Some p"
    by auto
  with down setupAuthKeystone_run(2) [OF kenc, of e]
  have "getAPIClient lib srv (Some ka) (w_api w) = (Fatal (error_text e), w_api w)"
    unfolding getAPIClient_def a by (intro try_servers_keystone_down enc) auto
  then have "on_api (getAPIClient lib srv (Some ka)) w = (Fatal (error_text e), w)"
    by (simp add: on_api_def)
  then have "retry 5 (on_api (getAPIClient lib srv (Some ka))) w = Some (Fatal (error_text e), w)"
    by (rule retry_stops)
  then show "main_watch env lib nw fl ann w = Some (Fatal (error_text e), w)"
    unfolding main_watch_def using conn by simp
qed

definition ex_flags :: flags where
  "ex_flags = \<lparr>controlNodes = ''/p'', configNodes = ''/p'', analyticsNodes = ''/p'', vrouterNodes = ''/p'',
     databaseNodes = ''/p'', apiserver = ''/p'', keystoneAuthConf = ''/keystone'', globalVrouterConf = ''/p'',
     requiredAnnotationsFile = ''/p'', mode = ''watch''\<rparr>"

definition ex_dead_lib :: "(string \<times> int, unit, mem_base, nat, mem_state) client_lib" where
  "ex_dead_lib = ex_lib\<lparr>client_api := (\<lambda>c. ex_api
     \<lparr>api_List := (\<lambda>_. throw (GoError ''refused'' None (Some (Errno ECONNREFUSED))))\<rparr>)\<rparr>"

text \<open>The same program with a Keystone that refuses.\<close>

definition ex_keystone :: KeystoneAuthParameters where
  "ex_keystone = no_keystone\<lparr>AuthUrl := ''https://keystone:5555/v3''\<rparr>"

definition ex_keystone_env :: prov_env where
  "ex_keystone_env = ex_env\<lparr>env_conf := ex_conf\<lparr>yaml_Keystone := (\<lambda>_. Inr (Some ex_keystone))\<rparr>\<rparr>"

definition ex_keystone_world :: "mem_state world" where
  "ex_keystone_world = ex_world\<lparr>w_files := (\<lambda>_. FileData [])\<rparr>"

definition ex_refused_lib :: "(string \<times> int, unit, mem_base, nat, mem_state) client_lib" where
  "ex_refused_lib = ex_dead_lib\<lparr>ks_AuthenticateV3 := (\<lambda>_. throw (errors_New ''401 Unauthorized''))\<rparr>"

theorem watch_unreachable_panics_witness:
  "main_watch ex_env ex_dead_lib None ex_flags ex_ann ex_world = Some (Panic ''cannot get api server'', ex_world) \<and>
   main_watch ex_keystone_env ex_refused_lib None ex_flags ex_ann ex_keystone_world =
     Some (Fatal ''401 Unauthorized'', ex_keystone_world)"
proof (intro conjI)
  have "readConnection ex_env ex_flags ex_world = (Ok (ex_server [''h:8082''], Some no_keystone), ex_world)"
    by (simp add: readConnection_def or_panic_def ReadFile_def decode_or_panic_def ex_world_def ex_flags_def
        ex_env_def ex_conf_def ex_server_def os_exists_def)
  from watch_unreachable_panics [OF this, of ex_dead_lib None ex_ann]
  show "main_watch ex_env ex_dead_lib None ex_flags ex_ann ex_world = Some (Panic ''cannot get api server'', ex_world)"
    by (simp add: no_keystone_def ex_server_def ex_Atoi ex_dead_lib_def ex_lib_def ex_api_def)
  have "readConnection ex_keystone_env ex_flags ex_keystone_world =
      (Ok (ex_server [''h:8082''], Some ex_keystone), ex_keystone_world)"
    by (simp add: readConnection_def or_panic_def ReadFile_def decode_or_panic_def ex_world_def ex_flags_def
        ex_env_def ex_conf_def ex_server_def os_exists_def ex_keystone_env_def ex_keystone_world_def
        getKeystoneAuthParametersFromFile_def)
  from watch_unreachable_panics [OF this, of ex_refused_lib None ex_ann "errors_New ''401 Unauthorized''"]
  show "main_watch ex_keystone_env ex_refused_lib None ex_flags ex_ann ex_keystone_world =
     Some (Fatal ''401 Unauthorized'', ex_keystone_world)"
    by (simp add: ex_keystone_def no_keystone_def ex_server_def ex_Atoi ex_refused_lib_def ex_dead_lib_def ex_lib_def
        ex_api_def errors_New_def)
qed

text \<open>
  an error of \<open>getAPIClient\<close> that counts as a connection error can only come from setting up
  the encryption of a client.
\<close>

theorem getAPIClient_connection_error:
  assumes "getAPIClient lib srv ka s = (Err e, s')" "connectionError (Some e)"
  shows "\<exists>host p t. client_AddEncryption lib (CA (as_Encryption srv)) (Key (as_Encryption srv))
     (Cert (as_Encryption srv)) True (NewClient lib host p) t = (Err e, s')"
  using try_servers_Err [OF assms(1) [unfolded getAPIClient_def]] assms(2) connectionError_plain by auto

definition ex_refusal :: go_error where
  "ex_refusal = GoError ''refused'' None (Some (Errno ECONNREFUSED))"

theorem getAPIClient_connection_error_witness:
  "\<exists>host p t. client_AddEncryption (ex_lib\<lparr>client_AddEncryption := (\<lambda>_ _ _ _ c. throw ex_refusal)\<rparr>)
     [] [] [] True (NewClient ex_lib host p) t = (Err ex_refusal, ex_state)"
proof -
  have "getAPIClient (ex_lib\<lparr>client_AddEncryption := (\<lambda>_ _ _ _ c. throw ex_refusal)\<rparr>) (ex_server [''h1:8082''])
      (Some no_keystone) ex_state = (Err ex_refusal, ex_state)"
    by (simp add: getAPIClient_def ex_server_def ex_Atoi)
  moreover have "connectionError (Some ex_refusal)"
    by (simp add: connectionError_def ex_refusal_def)
  ultimately show ?thesis
    using getAPIClient_connection_error by (auto simp: ex_lib_def)
qed

section \<open>The program\<close>

text \<open>
  C11: both modes reach their end or stop with an error in finitely many steps: no retry loop of
  the program runs for ever.
\<close>

theorem main_returns: "provisioner_main env lib nw fl w \<noteq> None"
proof -
  have "returns (provisioner_main env lib nw fl)"
    unfolding provisioner_main_def by (intro returns_intros)
  then show ?thesis by (simp add: returns_def)
qed

section \<open>The global vrouter configuration\<close>

text \<open>
  The documented behaviour of the API server for this object, of which it holds at most one.
  \<open>MarshalJSON\<close> and \<open>UpdateObject\<close> of \<open>global_vrouter_config.go\<close> send the fields that are marked
  modified; the server takes these and keeps the others.  Creating an object that is there is
  answered with "409 Conflict".  Every call may also fail, and then changes nothing.
\<close>

definition gvc_received :: "'b global_vrouter_config \<Rightarrow> 'b global_vrouter_config \<Rightarrow> 'b global_vrouter_config" where
  "gvc_received g old = old\<lparr>
     gvc_encapsulation_priorities := (if ''encapsulation_priorities'' \<in> gvc_modified g
       then gvc_encapsulation_priorities g else gvc_encapsulation_priorities old),
     gvc_ecmp_hashing := (if ''ecmp_hashing_include_fields'' \<in> gvc_modified g
       then gvc_ecmp_hashing g else gvc_ecmp_hashing old),
     gvc_vxlan_mode := (if ''vxlan_network_identifier_mode'' \<in> gvc_modified g
       then gvc_vxlan_mode g else gvc_vxlan_mode old)\<rparr>"

definition is_conflict :: "go_error \<Rightarrow> bool" where
  "is_conflict e \<longleftrightarrow> contains_str (error_text e) ''409 Conflict''"

definition gvc_contract ::
  "('b, 'l, 's) contrail_api \<Rightarrow> ('s \<Rightarrow> 'b global_vrouter_config option) \<Rightarrow> bool" where
  "gvc_contract cl stored \<longleftrightarrow>
     (\<forall>g t c t'. api_Create cl (GlobalVrouterConfigObj g) t = (c, t') \<longrightarrow>
        (\<exists>obj. c = Ok obj) \<and> stored t = None \<and>
          stored t' = Some (gvc_received g ((new_global_vrouter_config cl)\<lparr>gvc_base := gvc_base g\<rparr>)) \<or>
        (\<exists>e. c = Err e \<and> (is_conflict e \<longrightarrow> stored t \<noteq> None)) \<and> stored t' = stored t) \<and>
     (\<forall>t f t'. api_FindByName cl ''global-vrouter-config''
          ''default-global-system-config:default-global-vrouter-config'' t = (f, t') \<longrightarrow>
        stored t' = stored t \<and> ((\<exists>g. stored t = Some g \<and> f = Ok (GlobalVrouterConfigObj g)) \<or> (\<exists>e. f = Err e))) \<and>
     (\<forall>g t x t'. api_Update cl (GlobalVrouterConfigObj g) t = (x, t') \<longrightarrow>
        x = Ok () \<and> stored t' = map_option (gvc_received g) (stored t) \<or>
        (\<exists>e. x = Err e) \<and> stored t' = stored t)"

text \<open>The configured values, as fields of the stored object.\<close>

definition gvc_has :: "GlobalVrouterConfiguration \<Rightarrow> 'b global_vrouter_config \<Rightarrow> bool" where
  "gvc_has conf g \<longleftrightarrow>
     gvc_encapsulation_priorities g = split_on CHR '','' (EncapsulationPriorities conf) \<and>
     gvc_ecmp_hashing g = gv_EcmpHashingIncludeFields conf \<and>
     gvc_vxlan_mode g = VxlanNetworkIdentifierMode conf"

lemma received_filled:
  "gvc_has conf (gvc_received (fill_GlobalVrouterConfig conf g) old)"
  "gvc_base (gvc_received g old) = gvc_base old"
  "gvc_base (fill_GlobalVrouterConfig conf g) = gvc_base g"
  by (simp_all add: gvc_has_def gvc_received_def fill_GlobalVrouterConfig_def SetVxlanNetworkIdentifierMode_def
      SetEcmpHashingIncludeFields_def SetEncapsulationPriorities_def)

lemma gvc_contractD:
  assumes "gvc_contract cl stored"
  shows gvc_Create: "api_Create cl (GlobalVrouterConfigObj g) t = (c, t') \<Longrightarrow>
      (\<exists>obj. c = Ok obj) \<and> stored t = None \<and>
        stored t' = Some (gvc_received g ((new_global_vrouter_config cl)\<lparr>gvc_base := gvc_base g\<rparr>)) \<or>
      (\<exists>e. c = Err e \<and> (is_conflict e \<longrightarrow> stored t \<noteq> None)) \<and> stored t' = stored t"
    and gvc_Find: "api_FindByName cl ''global-vrouter-config''
        ''default-global-system-config:default-global-vrouter-config'' t = (f, t') \<Longrightarrow>
      stored t' = stored t \<and> ((\<exists>g. stored t = Some g \<and> f = Ok (GlobalVrouterConfigObj g)) \<or> (\<exists>e. f = Err e))"
    and gvc_Update: "api_Update cl (GlobalVrouterConfigObj g) t = (x, t') \<Longrightarrow>
      x = Ok () \<and> stored t' = map_option (gvc_received g) (stored t) \<or> (\<exists>e. x = Err e) \<and> stored t' = stored t"
  using assms unfolding gvc_contract_def by blast+

lemma update_run:
  assumes contract: "gvc_contract cl stored" and old: "stored t = Some g"
    and run: "bindM (or_panic (api_FindByName cl ''global-vrouter-config''
                 (join_with '':'' globalVrouterConfFQName))) (\<lambda>obj.
              bindM (as_GlobalVrouterConfig obj) (\<lambda>g.
                or_panic (api_Update cl (GlobalVrouterConfigObj (fill_GlobalVrouterConfig conf g))))) t = (r, t')"
  shows "(r = Ok () \<and> (\<exists>g'. stored t' = Some g' \<and> gvc_base g' = gvc_base g \<and> gvc_has conf g')) \<or>
     ((\<exists>msg. r = Panic msg) \<and> stored t' = stored t)"
proof -
  let ?name = "''default-global-system-config:default-global-vrouter-config''"
  have name: "join_with '':'' globalVrouterConfFQName = ?name" by (simp add: globalVrouterConfFQName_def)
  obtain f u where f: "api_FindByName cl ''global-vrouter-config'' ?name t = (f, u)" by force
  note found = gvc_Find [OF contract f]
  show ?thesis
  proof (cases f)
    case (Ok obj)
    obtain x v where x: "api_Update cl (GlobalVrouterConfigObj (fill_GlobalVrouterConfig conf g)) u = (x, v)" by force
    from gvc_Update [OF contract x] Ok found old f x run name show ?thesis
      by (cases x) (auto simp: or_panic_def bindM_def tryM_def ret_def panic_def received_filled)
  qed (use found f run name in \<open>auto simp: or_panic_def bindM_def tryM_def ret_def panic_def\<close>)
qed

lemma update_returns:
  assumes contract: "gvc_contract cl stored"
    and f: "api_FindByName cl ''global-vrouter-config''
        ''default-global-system-config:default-global-vrouter-config'' t = (Ok obj, u)"
    and upd: "\<forall>g. fst (api_Update cl (GlobalVrouterConfigObj g) u) = Ok ()"
  shows "fst (bindM (or_panic (api_FindByName cl ''global-vrouter-config''
                 (join_with '':'' globalVrouterConfFQName))) (\<lambda>obj.
              bindM (as_GlobalVrouterConfig obj) (\<lambda>g.
                or_panic (api_Update cl (GlobalVrouterConfigObj (fill_GlobalVrouterConfig conf g))))) t) = Ok ()"
proof -
  have name: "join_with '':'' globalVrouterConfFQName = ''default-global-system-config:default-global-vrouter-config''"
    by (simp add: globalVrouterConfFQName_def)
  from gvc_Find [OF contract f] obtain g where "obj = GlobalVrouterConfigObj g" by auto
  moreover obtain v where
    "api_Update cl (GlobalVrouterConfigObj (fill_GlobalVrouterConfig conf g)) u = (Ok (), v)"
    using upd by (metis prod.collapse)
  ultimately show ?thesis
    using f name by (auto simp: or_panic_def bindM_def tryM_def ret_def)
qed

text \<open>
  C12: provisioning the global vrouter configuration against a server that keeps its contract.
  Either the call returns, and then the server stores the configured encapsulation priorities, the
  configured ECMP hashing fields and the configured VXLAN mode, in a new object with the fixed name
  if there was none and in the object that was there otherwise; or it panics and the stored object
  is as before.  An error of the creation other than a conflict is such a panic, with the text of the
  error; after a conflict the call returns if the object can be read and written.
\<close>

theorem provisionGlobalVrouter_upserts:
  assumes contract: "gvc_contract cl stored"
  shows "(case provisionGlobalVrouter cl conf s of
       (Ok _, s') \<Rightarrow> \<exists>g. stored s' = Some g \<and> gvc_has conf g \<and>
          gvc_base g = (case stored s of
             None \<Rightarrow> base_SetFQName cl [] [''default-global-system-config'', ''default-global-vrouter-config''] (base_new cl)
           | Some g0 \<Rightarrow> gvc_base g0)
     | (Panic _, s') \<Rightarrow> stored s' = stored s
     | _ \<Rightarrow> False) \<and>
   (\<forall>e t. api_Create cl (GlobalVrouterConfigObj (fill_GlobalVrouterConfig conf
        (gvc_SetFQName cl [] globalVrouterConfFQName (new_global_vrouter_config cl)))) s = (Err e, t) \<longrightarrow>
      (if \<not> is_conflict e then provisionGlobalVrouter cl conf s = (Panic (error_text e), t)
       else (\<exists>obj u. api_FindByName cl ''global-vrouter-config''
                ''default-global-system-config:default-global-vrouter-config'' t = (Ok obj, u) \<and>
              (\<forall>g. fst (api_Update cl (GlobalVrouterConfigObj g) u) = Ok ())) \<longrightarrow>
            fst (provisionGlobalVrouter cl conf s) = Ok ()))"
proof -
  let ?new = "fill_GlobalVrouterConfig conf (gvc_SetFQName cl [] globalVrouterConfFQName (new_global_vrouter_config cl))"
  let ?upd = "bindM (or_panic (api_FindByName cl ''global-vrouter-config''
                 (join_with '':'' globalVrouterConfFQName))) (\<lambda>obj.
              bindM (as_GlobalVrouterConfig obj) (\<lambda>g.
                or_panic (api_Update cl (GlobalVrouterConfigObj (fill_GlobalVrouterConfig conf g)))))"
  obtain c t where c: "api_Create cl (GlobalVrouterConfigObj ?new) s = (c, t)" by force
  note created = gvc_Create [OF contract c]
  show ?thesis
  proof (cases c)
    case (Ok obj)
    with c have "provisionGlobalVrouter cl conf s = (Ok (), t)"
      by (simp add: provisionGlobalVrouter_def bindM_def tryM_def ret_def)
    moreover from created Ok have "stored s = None"
      "stored t = Some (gvc_received ?new ((new_global_vrouter_config cl)\<lparr>gvc_base := gvc_base ?new\<rparr>))" by auto
    ultimately show ?thesis
      using c Ok by (simp add: received_filled gvc_SetFQName_def new_global_vrouter_config_def globalVrouterConfFQName_def)
  next
    case (Err e)
    show ?thesis
    proof (cases "is_conflict e")
      case False
      with c Err have "provisionGlobalVrouter cl conf s = (Panic (error_text e), t)"
        by (simp add: provisionGlobalVrouter_def bindM_def tryM_def panic_def is_conflict_def)
      with created Err c False show ?thesis by auto
    next
      case True
      with created Err obtain g where g: "stored t = Some g" "stored t = stored s" by auto
      obtain r u where r: "?upd t = (r, u)" by (cases "?upd t")
      from c Err True r have run: "provisionGlobalVrouter cl conf s = (r, u)"
        by (simp add: provisionGlobalVrouter_def bindM_def tryM_def is_conflict_def)
      have "r = Ok ()" if "api_FindByName cl ''global-vrouter-config''
          ''default-global-system-config:default-global-vrouter-config'' t = (Ok obj, v)"
        and "\<forall>g. fst (api_Update cl (GlobalVrouterConfigObj g) v) = Ok ()" for obj v
        using update_returns [OF contract that, of conf] unfolding r by simp
      then show ?thesis
        using update_run [OF contract g(1) r] run g(1) g(2) [symmetric] Err c True by auto
    qed
  qed (use created in simp_all)
qed

text \<open>A server that keeps the one object in its state.\<close>

definition ex_gvc_server :: "(mem_base, unit, mem_base global_vrouter_config option) contrail_api" where
  "ex_gvc_server =
     \<lparr>base_new = base_new mem_api, base_SetFQName = base_SetFQName mem_api, base_SetName = base_SetName mem_api,
      base_SetParent = base_SetParent mem_api, base_GetName = mb_name, base_GetFQName = mb_fqname,
      base_GetUuid = mb_uuid, base_GetHref = mb_uuid, base_IsTransient = base_IsTransient mem_api,
      api_GetField = (\<lambda>_ _. ret None),
      api_Create = (\<lambda>obj t. case (obj, t) of
          (GlobalVrouterConfigObj g, None) \<Rightarrow> (Ok obj, Some (gvc_received g
             \<lparr>gvc_base = gvc_base g, gvc_encapsulation_priorities = [],
              gvc_ecmp_hashing = gv_EcmpHashingIncludeFields no_global_vrouter, gvc_vxlan_mode = [], gvc_modified = {}\<rparr>))
        | (_, Some g) \<Rightarrow> (Err (errors_New ''409 Conflict''), Some g)
        | (_, None) \<Rightarrow> (Err (errors_New ''400 Bad Request''), None)),
      api_Update = (\<lambda>obj t. case obj of
          GlobalVrouterConfigObj g \<Rightarrow> (Ok (), map_option (gvc_received g) t)
        | _ \<Rightarrow> (Err (errors_New ''400 Bad Request''), t)),
      api_Delete = (\<lambda>_. throw (errors_New ''400 Bad Request'')),
      api_DeleteByUuid = (\<lambda>_ _. throw (errors_New ''404 Not Found'')),
      api_FindByUuid = (\<lambda>_ _. throw (errors_New ''404 Not Found'')),
      api_FindByName = (\<lambda>_ _ t. case t of
          None \<Rightarrow> (Err (errors_New ''404 Not Found''), t) | Some g \<Rightarrow> (Ok (GlobalVrouterConfigObj g), t)),
      api_List = (\<lambda>_. ret []), api_ReadListResult = (\<lambda>_ _. throw (errors_New ''404 Not Found''))\<rparr>"

lemma ex_gvc_contract: "gvc_contract ex_gvc_server (\<lambda>t. t)"
  unfolding gvc_contract_def
  by (auto simp: ex_gvc_server_def new_global_vrouter_config_def no_global_vrouter_def is_conflict_def errors_New_def
      split: option.split)

definition ex_gv_conf :: GlobalVrouterConfiguration where
  "ex_gv_conf = \<lparr>gv_EcmpHashingIncludeFields = \<lparr>HashingConfigured = True, SourceIp = True, DestinationIp = True,
       IpProtocol = True, SourcePort = False, DestinationPort = True\<rparr>,
     EncapsulationPriorities = ''VXLAN,MPLSoUDP'', VxlanNetworkIdentifierMode = ''automatic''\<rparr>"

text \<open>A second configuration replaces the first in the same object.\<close>

theorem provisionGlobalVrouter_upserts_witness:
  "gvc_contract ex_gvc_server (\<lambda>t. t) \<and>
   (\<exists>g g'. provisionGlobalVrouter ex_gvc_server no_global_vrouter None = (Ok (), Some g) \<and>
      provisionGlobalVrouter ex_gvc_server ex_gv_conf (Some g) = (Ok (), Some g') \<and>
      gvc_base g' = gvc_base g \<and> gvc_has ex_gv_conf g' \<and>
      SourcePort (gvc_ecmp_hashing g') = False \<and> SourceIp (gvc_ecmp_hashing g') = True)"
proof -
  obtain s1 where s1: "provisionGlobalVrouter ex_gvc_server no_global_vrouter None = (Ok (), s1)"
    by (simp add: provisionGlobalVrouter_def ex_gvc_server_def)
  from provisionGlobalVrouter_upserts [OF ex_gvc_contract, of no_global_vrouter None] s1
  obtain g where g: "s1 = Some g" by auto
  obtain s2 where s2: "provisionGlobalVrouter ex_gvc_server ex_gv_conf (Some g) = (Ok (), s2)"
    by (simp add: provisionGlobalVrouter_def ex_gvc_server_def errors_New_def or_panic_def)
  from provisionGlobalVrouter_upserts [OF ex_gvc_contract, of ex_gv_conf "Some g"] s2
  obtain g' where "s2 = Some g'" "gvc_has ex_gv_conf g'" "gvc_base g' = gvc_base g" by auto
  with s1 g s2 ex_gvc_contract show ?thesis
    by (auto simp: gvc_has_def ex_gv_conf_def)
qed

end
