(* ===== verification/K8s.thy ===== *)
theory K8s
  imports VncTypes GoStd
begin

text \<open>
  What the operator sees of Kubernetes: the parts of the API objects that the modelled code reads
  or writes, and the client of controller-runtime.  The client, \<open>controllerutil\<close> and the error
  predicates of apimachinery are not part of the repository; they are the records
  \<open>kind_client\<close> (one for each type of object, as the Go methods dispatch on the type) and
  \<open>k8s_lib\<close>, which every definition that calls them takes as arguments.

  \<open>kind_server\<close> is the contract of such a client: the objects of one type are a map from
  namespaced names, and each call reads or changes it as the documentation says.
  \<open>policy_server\<close> adds what a deletion with a propagation policy may do.
\<close>

section \<open>Objects\<close>

text \<open>A Go map that may be \<open>nil\<close>.\<close>

type_synonym string_map = "(string, string) gomap option"

definition map_entries :: "string_map \<Rightarrow> (string, string) gomap" where
  "map_entries m = (case m of None \<Rightarrow> [] | Some es \<Rightarrow> es)"

record owner_reference =
  or_APIVersion :: string
  or_Kind :: string
  or_Name :: string
  or_UID :: string
  or_Controller :: "bool option"
  or_BlockOwnerDeletion :: "bool option"

record object_meta =
  om_Name :: string
  om_Namespace :: string
  om_UID :: string
  om_Labels :: string_map
  om_Annotations :: string_map
  om_OwnerReferences :: "owner_reference list"
  om_Deleted :: bool
  om_Generation :: int

definition new_meta :: object_meta where
  "new_meta = \<lparr>om_Name = [], om_Namespace = [], om_UID = [], om_Labels = None, om_Annotations = None,
     om_OwnerReferences = [], om_Deleted = False, om_Generation = 0\<rparr>"

text \<open>\<open>types.NamespacedName\<close>: namespace and name.\<close>

type_synonym namespaced_name = "string \<times> string"

definition key_of :: "object_meta \<Rightarrow> namespaced_name" where
  "key_of m = (om_Namespace m, om_Name m)"

record container_status =
  cs_Name :: string
  cs_Ready :: bool
  cs_Running :: bool
  cs_Terminated :: bool

record pod =
  pod_meta :: object_meta
  pod_HostNetwork :: bool
  pod_Hostname :: string
  pod_NodeName :: string
  pod_Phase :: string
  pod_PodIP :: string
  pod_ContainerStatuses :: "container_status list"
  pod_InitContainerStatuses :: "container_status list option"
  pod_Conditions :: "(string \<times> string) list"

text \<open>The addresses of a node: type and address.\<close>

record k8s_node =
  kn_meta :: object_meta
  kn_Addresses :: "(string \<times> string) list"

record host_alias =
  ha_IP :: string
  ha_Hostnames :: "string list"

record config_map =
  cm_meta :: object_meta
  cm_Data :: string_map

section \<open>The client\<close>

record ('o, 's) kind_client =
  kc_Get :: "namespaced_name \<Rightarrow> ('s, go_error, 'o) go"
  kc_List :: "string \<Rightarrow> (string, string) gomap \<Rightarrow> ('s, go_error, 'o list) go"
  kc_Create :: "'o \<Rightarrow> ('s, go_error, 'o) go"
  kc_Update :: "'o \<Rightarrow> ('s, go_error, 'o) go"
  kc_Delete :: "object_meta \<Rightarrow> ('s, go_error, unit) go"
  kc_DeleteWith :: "string \<Rightarrow> object_meta \<Rightarrow> ('s, go_error, unit) go"
  kc_StatusUpdate :: "'o \<Rightarrow> ('s, go_error, unit) go"
  kc_CreateOrUpdate :: "'o \<Rightarrow> ('o \<Rightarrow> ('s, go_error, 'o) go) \<Rightarrow> ('s, go_error, 'o) go"

record k8s_lib =
  IsNotFound :: "go_error \<Rightarrow> bool"
  IsAlreadyExists :: "go_error \<Rightarrow> bool"
  SetControllerReference :: "object_meta \<Rightarrow> object_meta \<Rightarrow> go_error + object_meta"

definition sum_result :: "(go_error + 'a) \<Rightarrow> ('s, go_error, 'a) go" where
  "sum_result r = (case r of Inl e \<Rightarrow> throw e | Inr x \<Rightarrow> ret x)"

text \<open>An error of one kind that the caller drops.\<close>

definition ignoring ::
  "(go_error \<Rightarrow> bool) \<Rightarrow> 'a \<Rightarrow> ('s, go_error, 'a) go \<Rightarrow> ('s, go_error, 'a) go" where
  "ignoring p x m =
     bindM (tryM m) (\<lambda>r. case r of Inr y \<Rightarrow> ret y | Inl e \<Rightarrow> if p e then ret x else throw e)"

definition deref_ptr :: "'a option \<Rightarrow> ('s, go_error, 'a) go" where
  "deref_ptr p = (case p of None \<Rightarrow> panic ''nil pointer dereference'' | Some x \<Rightarrow> ret x)"

lemma sum_result_Ok_iff [go_simps]: "sum_result r s = (Ok x, s') \<longleftrightarrow> r = Inr x \<and> s' = s"
  by (cases r) (auto simp: sum_result_def)

lemma sum_result_simps [simp]: "sum_result (Inr x) = ret x" "sum_result (Inl e) = throw e"
  by (simp_all add: sum_result_def)

lemma deref_ptr_Ok_iff [go_simps]: "deref_ptr p s = (Ok x, s') \<longleftrightarrow> p = Some x \<and> s' = s"
  by (cases p) (auto simp: deref_ptr_def)

lemma deref_ptr_Some [simp]: "deref_ptr (Some x) = ret x"
  by (simp add: deref_ptr_def)

lemma ignoring_Ok_iff [go_simps]:
  "ignoring p x m s = (Ok y, s') \<longleftrightarrow> m s = (Ok y, s') \<or> (\<exists>e. m s = (Err e, s') \<and> p e \<and> y = x)"
  by (auto simp: ignoring_def bindM_def tryM_def split: prod.splits outcome.splits sum.splits if_splits)

lemma preserves_sum_result [preserves_intros]: "preserves I (sum_result r)"
  by (cases r) (simp_all add: sum_result_def)

lemma preserves_deref_ptr [preserves_intros]: "preserves I (deref_ptr p)"
  by (cases p) (simp_all add: deref_ptr_def)

lemma preserves_ignoring [preserves_intros]: "preserves I m \<Longrightarrow> preserves I (ignoring p x m)"
  unfolding ignoring_def by (intro preserves_intros) auto

section \<open>The contract of a client\<close>

text \<open>
  \<open>objects s\<close> are the objects of the type in the cluster.  \<open>CreateOrUpdate\<close> reads the object
  with the key of its argument; it calls the function on it, or on the argument when there is
  none; then it creates the object, or writes it when the function changed it.
\<close>

locale kind_server =
  fixes lib :: k8s_lib
    and kc :: "('o, 's) kind_client"
    and meta :: "'o \<Rightarrow> object_meta"
    and objects :: "'s \<Rightarrow> namespaced_name \<rightharpoonup> 'o"
  assumes Get_Ok: "kc_Get kc k s = (Ok x, s') \<Longrightarrow> s' = s \<and> objects s k = Some x"
    and Get_Err: "kc_Get kc k s = (Err e, s') \<Longrightarrow> s' = s \<and> (IsNotFound lib e \<longrightarrow> objects s k = None)"
    and Delete_Ok: "kc_Delete kc m s = (Ok u, s') \<Longrightarrow> objects s' = (objects s)(key_of m := None)"
    and Delete_Err: "kc_Delete kc m s = (Err e, s') \<Longrightarrow>
      s' = s \<and> (IsNotFound lib e \<longrightarrow> objects s (key_of m) = None)"
    and CreateOrUpdate_Ok: "kc_CreateOrUpdate kc x f s = (Ok y, s') \<Longrightarrow>
      \<exists>t. f (case objects s (key_of (meta x)) of None \<Rightarrow> x | Some z \<Rightarrow> z) s = (Ok y, t) \<and>
        objects s' = (objects t)(key_of (meta x) \<mapsto> y)"
begin

lemma Delete_ignoring:
  assumes "ignoring (IsNotFound lib) () (kc_Delete kc m) s = (Ok u, s')"
  shows "objects s' = (objects s)(key_of m := None)"
  using assms Delete_Ok [of m s u s'] Delete_Err [of m s _ s']
  by (auto simp: go_simps fun_upd_idem_iff)

end

text \<open>
  A server that follows the propagation policy of a deletion.  With the policy \<open>Background\<close> the object
  is gone at once; with \<open>Foreground\<close> it may stay, marked as being deleted (\<open>mark\<close>), until its
  dependents are gone.  A request that fails changes nothing.
\<close>

locale policy_server = kind_server +
  fixes mark :: "'a \<Rightarrow> 'a"
  assumes mark_deleted: "om_Deleted (meta (mark x))"
    and mark_key: "key_of (meta (mark x)) = key_of (meta x)"
    and Background_Ok: "kc_DeleteWith kc ''Background'' m s = (Ok u, s') \<Longrightarrow> objects s' = (objects s)(key_of m := None)"
    and Foreground_Ok: "kc_DeleteWith kc ''Foreground'' m s = (Ok u, s') \<Longrightarrow>
      objects s' = (objects s)(key_of m := None) \<or>
      (\<exists>x. objects s (key_of m) = Some x \<and> objects s' = (objects s)(key_of m \<mapsto> mark x))"
    and DeleteWith_fails: "kc_DeleteWith kc p m s = (r, s') \<Longrightarrow> (\<And>u. r \<noteq> Ok u) \<Longrightarrow> objects s' = objects s"
begin

text \<open>Whatever the policy and the outcome, the other objects stay, and so does what the object is.\<close>

lemma Foreground_cases:
  assumes "kc_DeleteWith kc ''Foreground'' m s = (r, s')"
  shows "objects s' = objects s \<or> objects s' = (objects s)(key_of m := None) \<or>
    (\<exists>x. objects s (key_of m) = Some x \<and> objects s' = (objects s)(key_of m \<mapsto> mark x))"
  using Foreground_Ok [of m s _ s'] DeleteWith_fails [OF assms] assms by (cases r) auto

end

text \<open>A server whose \<open>Update\<close> stores the object.\<close>

locale store_server = kind_server +
  assumes Update_Ok: "kc_Update kc x s = (Ok y, s') \<Longrightarrow> objects s' = (objects s)(key_of (meta x) \<mapsto> x)"

end
