(* ===== verification/Utils.thy ===== *)
theory Utils
  imports K8s
begin

text \<open>
  \<open>pkg/controller/utils/utils.go\<close>: the predicates that decide which update events lead to a
  reconciliation, the merging of the common configuration, and the collection of the addresses
  of the pods of an instance.

  An event carries objects of unknown type; a failed type assertion gives a \<open>nil\<close> pointer
  (\<open>None\<close>), and reading a field through it is a panic.  \<open>schema.FromAPIVersionAndKind\<close> and
  \<open>schema.ParseGroupKind\<close> of apimachinery are parameters.
\<close>

section \<open>Group kinds\<close>

record 'gk schema_lib =
  FromAPIVersionAndKind :: "string \<Rightarrow> string \<Rightarrow> 'gk"
  ParseGroupKind :: "string \<Rightarrow> 'gk"

definition CASSANDRA :: string where "CASSANDRA = ''Cassandra.contrail.juniper.net''"
definition ZOOKEEPER :: string where "ZOOKEEPER = ''Zookeeper.contrail.juniper.net''"
definition RABBITMQ :: string where "RABBITMQ = ''Rabbitmq.contrail.juniper.net''"
definition CONFIG :: string where "CONFIG = ''Config.contrail.juniper.net''"
definition CONTROL :: string where "CONTROL = ''Control.contrail.juniper.net''"
definition WEBUI :: string where "WEBUI = ''Webui.contrail.juniper.net''"
definition VROUTER :: string where "VROUTER = ''Vrouter.contrail.juniper.net''"
definition KUBEMANAGER :: string where "KUBEMANAGER = ''Kubemanager.contrail.juniper.net''"
definition MANAGER :: string where "MANAGER = ''Manager.contrail.juniper.net''"
definition REPLICASET :: string where "REPLICASET = ''ReplicaSet.apps''"
definition DEPLOYMENT :: string where "DEPLOYMENT = ''Deployment.apps''"

definition WebuiGroupKind :: "'gk schema_lib \<Rightarrow> 'gk" where
  "WebuiGroupKind sl = ParseGroupKind sl WEBUI"
definition VrouterGroupKind :: "'gk schema_lib \<Rightarrow> 'gk" where
  "VrouterGroupKind sl = ParseGroupKind sl VROUTER"
definition ControlGroupKind :: "'gk schema_lib \<Rightarrow> 'gk" where
  "ControlGroupKind sl = ParseGroupKind sl CONTROL"
definition ConfigGroupKind :: "'gk schema_lib \<Rightarrow> 'gk" where
  "ConfigGroupKind sl = ParseGroupKind sl CONFIG"
definition KubemanagerGroupKind :: "'gk schema_lib \<Rightarrow> 'gk" where
  "KubemanagerGroupKind sl = ParseGroupKind sl KUBEMANAGER"
definition CassandraGroupKind :: "'gk schema_lib \<Rightarrow> 'gk" where
  "CassandraGroupKind sl = ParseGroupKind sl CASSANDRA"
definition ZookeeperGroupKind :: "'gk schema_lib \<Rightarrow> 'gk" where
  "ZookeeperGroupKind sl = ParseGroupKind sl ZOOKEEPER"
definition RabbitmqGroupKind :: "'gk schema_lib \<Rightarrow> 'gk" where
  "RabbitmqGroupKind sl = ParseGroupKind sl RABBITMQ"
definition ReplicaSetGroupKind :: "'gk schema_lib \<Rightarrow> 'gk" where
  "ReplicaSetGroupKind sl = ParseGroupKind sl REPLICASET"
definition ManagerGroupKind :: "'gk schema_lib \<Rightarrow> 'gk" where
  "ManagerGroupKind sl = ParseGroupKind sl MANAGER"
definition DeploymentGroupKind :: "'gk schema_lib \<Rightarrow> 'gk" where
  "DeploymentGroupKind sl = ParseGroupKind sl DEPLOYMENT"

section \<open>Update events\<close>

record workload =
  wl_meta :: object_meta
  wl_Ready :: int

text \<open>The objects of an event.  Workloads carry their count of ready replicas (nodes).\<close>

datatype event_object =
    DeploymentObj workload
  | StatefulSetObj workload
  | DaemonSetObj workload
  | PodObj pod
  | CassandraObj "bool option"
  | ConfigObj "bool option"
  | VrouterObj "bool option"
  | ControlObj "bool option"
  | RabbitmqObj "bool option"
  | ZookeeperObj "bool option"
  | OtherObj

record update_event =
  ObjectOld :: event_object
  ObjectNew :: event_object
  MetaOld_Labels :: string_map

fun ev_Deployment where
  "ev_Deployment (DeploymentObj w) = Some w" | "ev_Deployment _ = None"
fun ev_StatefulSet where
  "ev_StatefulSet (StatefulSetObj w) = Some w" | "ev_StatefulSet _ = None"
fun ev_DaemonSet where
  "ev_DaemonSet (DaemonSetObj w) = Some w" | "ev_DaemonSet _ = None"
fun ev_Pod where
  "ev_Pod (PodObj p) = Some p" | "ev_Pod _ = None"
fun ev_Cassandra where
  "ev_Cassandra (CassandraObj a) = Some a" | "ev_Cassandra _ = None"
fun ev_Config where
  "ev_Config (ConfigObj a) = Some a" | "ev_Config _ = None"
fun ev_Vrouter where
  "ev_Vrouter (VrouterObj a) = Some a" | "ev_Vrouter _ = None"
fun ev_Control where
  "ev_Control (ControlObj a) = Some a" | "ev_Control _ = None"
fun ev_Rabbitmq where
  "ev_Rabbitmq (RabbitmqObj a) = Some a" | "ev_Rabbitmq _ = None"
fun ev_Zookeeper where
  "ev_Zookeeper (ZookeeperObj a) = Some a" | "ev_Zookeeper _ = None"

text \<open>The loop over the owner references.\<close>

fun owner_loop ::
  "'gk schema_lib \<Rightarrow> 'gk \<Rightarrow> owner_reference list \<Rightarrow> bool \<Rightarrow> ('s, go_error, bool) go" where
  "owner_loop sl gk [] isOwner = ret isOwner"
| "owner_loop sl gk (owner # owners) isOwner =
     bindM (deref_ptr (or_Controller owner)) (\<lambda>controller.
       owner_loop sl gk owners
         (if controller \<and> gk = FromAPIVersionAndKind sl (or_APIVersion owner) (or_Kind owner)
          then True else isOwner))"

text \<open>The common body of the three predicates on workloads; \<open>sel\<close> is the type assertion.\<close>

definition workload_change ::
  "(event_object \<Rightarrow> workload option) \<Rightarrow> 'gk schema_lib \<Rightarrow> 'gk \<Rightarrow> update_event
    \<Rightarrow> ('s, go_error, bool) go" where
  "workload_change sel sl appGroupKind e =
     bindM (deref_ptr (sel (ObjectNew e))) (\<lambda>new.
     bindM (owner_loop sl appGroupKind (om_OwnerReferences (wl_meta new)) False) (\<lambda>isOwner.
     bindM (deref_ptr (sel (ObjectOld e))) (\<lambda>old.
       ret (wl_Ready old \<noteq> wl_Ready new \<and> isOwner))))"

definition DeploymentStatusChange ::
  "'gk schema_lib \<Rightarrow> 'gk \<Rightarrow> update_event \<Rightarrow> ('s, go_error, bool) go" where
  "DeploymentStatusChange = workload_change ev_Deployment"

definition STSStatusChange ::
  "'gk schema_lib \<Rightarrow> 'gk \<Rightarrow> update_event \<Rightarrow> ('s, go_error, bool) go" where
  "STSStatusChange = workload_change ev_StatefulSet"

definition DSStatusChange ::
  "'gk schema_lib \<Rightarrow> 'gk \<Rightarrow> update_event \<Rightarrow> ('s, go_error, bool) go" where
  "DSStatusChange = workload_change ev_DaemonSet"

text \<open>The readiness loop: it stops at the first container that is not ready.\<close>

fun containers_ready :: "container_status list \<Rightarrow> bool" where
  "containers_ready [] = True"
| "containers_ready (c # cs) = (if \<not> cs_Ready c then False else containers_ready cs)"

definition PodStatusChange ::
  "'gk schema_lib \<Rightarrow> 'gk \<Rightarrow> update_event \<Rightarrow> ('s, go_error, bool) go" where
  "PodStatusChange sl appGroupKind e =
     bindM (deref_ptr (ev_Pod (ObjectNew e))) (\<lambda>newPod.
     bindM (owner_loop sl appGroupKind (om_OwnerReferences (pod_meta newPod)) False) (\<lambda>isOwner.
     bindM (deref_ptr (ev_Pod (ObjectOld e))) (\<lambda>oldPod.
       ret (containers_ready (pod_ContainerStatuses oldPod)
              \<noteq> containers_ready (pod_ContainerStatuses newPod) \<and> isOwner))))"

text \<open>
  The loop over the labels of the old object: at the first label that the application has with
  the same value, the function returns.  A key that \<open>appLabel\<close> lacks reads as the empty string.
\<close>

fun first_matching_label ::
  "(string, string) gomap \<Rightarrow> (string \<times> string) list \<Rightarrow> ('s, go_error, bool) go
    \<Rightarrow> ('s, go_error, bool) go" where
  "first_matching_label appLabel [] found = ret False"
| "first_matching_label appLabel ((key, value) # ls) found =
     (if (case map_of appLabel key of None \<Rightarrow> [] | Some v \<Rightarrow> v) = value then found
      else first_matching_label appLabel ls found)"

definition PodIPChange ::
  "range_ord \<Rightarrow> (string, string) gomap \<Rightarrow> update_event \<Rightarrow> ('s, go_error, bool) go" where
  "PodIPChange ord appLabel e =
     first_matching_label appLabel (range_of ord (map_entries (MetaOld_Labels e)))
       (bindM (deref_ptr (ev_Pod (ObjectOld e))) (\<lambda>oldPod.
        bindM (deref_ptr (ev_Pod (ObjectNew e))) (\<lambda>newPod.
          ret (pod_PodIP oldPod \<noteq> pod_PodIP newPod))))"

text \<open>Whether every init container with the name \<open>init\<close> has a property, and there is a list.\<close>

fun init_loop :: "(container_status \<Rightarrow> bool) \<Rightarrow> container_status list \<Rightarrow> bool \<Rightarrow> bool" where
  "init_loop p [] r = r"
| "init_loop p (c # cs) r =
     init_loop p cs (if cs_Name c = ''init'' then (if \<not> p c then False else r) else r)"

definition init_state :: "(container_status \<Rightarrow> bool) \<Rightarrow> pod \<Rightarrow> bool" where
  "init_state p po =
     (case pod_InitContainerStatuses po of
        None \<Rightarrow> init_loop p [] False
      | Some cs \<Rightarrow> init_loop p cs True)"

definition PodInitStatusChange ::
  "range_ord \<Rightarrow> (string, string) gomap \<Rightarrow> update_event \<Rightarrow> ('s, go_error, bool) go" where
  "PodInitStatusChange ord appLabel e =
     first_matching_label appLabel (range_of ord (map_entries (MetaOld_Labels e)))
       (bindM (deref_ptr (ev_Pod (ObjectNew e))) (\<lambda>newPod.
        bindM (deref_ptr (ev_Pod (ObjectOld e))) (\<lambda>oldPod.
          ret (init_state cs_Ready newPod \<noteq> init_state cs_Ready oldPod))))"

definition PodInitRunning ::
  "range_ord \<Rightarrow> (string, string) gomap \<Rightarrow> update_event \<Rightarrow> ('s, go_error, bool) go" where
  "PodInitRunning ord appLabel e =
     first_matching_label appLabel (range_of ord (map_entries (MetaOld_Labels e)))
       (bindM (deref_ptr (ev_Pod (ObjectNew e))) (\<lambda>newPod.
        bindM (deref_ptr (ev_Pod (ObjectOld e))) (\<lambda>oldPod.
          ret (init_state cs_Running newPod \<noteq> init_state cs_Running oldPod))))"

text \<open>The six predicates on the activity of a service have one body.\<close>

definition active_change ::
  "(event_object \<Rightarrow> bool option option) \<Rightarrow> update_event \<Rightarrow> ('s, go_error, bool) go" where
  "active_change sel e =
     bindM (deref_ptr (sel (ObjectNew e))) (\<lambda>new.
     bindM (deref_ptr (sel (ObjectOld e))) (\<lambda>old.
       let newActive = (case new of None \<Rightarrow> False | Some b \<Rightarrow> b);
           oldActive = (case old of None \<Rightarrow> False | Some b \<Rightarrow> b)
       in ret (\<not> oldActive \<and> newActive)))"

definition CassandraActiveChange :: "update_event \<Rightarrow> ('s, go_error, bool) go" where
  "CassandraActiveChange = active_change ev_Cassandra"
definition ConfigActiveChange :: "update_event \<Rightarrow> ('s, go_error, bool) go" where
  "ConfigActiveChange = active_change ev_Config"
definition VrouterActiveChange :: "update_event \<Rightarrow> ('s, go_error, bool) go" where
  "VrouterActiveChange = active_change ev_Vrouter"
definition ControlActiveChange :: "update_event \<Rightarrow> ('s, go_error, bool) go" where
  "ControlActiveChange = active_change ev_Control"
definition RabbitmqActiveChange :: "update_event \<Rightarrow> ('s, go_error, bool) go" where
  "RabbitmqActiveChange = active_change ev_Rabbitmq"
definition ZookeeperActiveChange :: "update_event \<Rightarrow> ('s, go_error, bool) go" where
  "ZookeeperActiveChange = active_change ev_Zookeeper"

section \<open>Common configuration\<close>

record toleration =
  tol_Key :: string
  tol_Operator :: string
  tol_Value :: string
  tol_Effect :: string

record manager_configuration =
  mc_NodeSelector :: string_map
  mc_HostNetwork :: "bool option"
  mc_ImagePullSecrets :: "string list"
  mc_Tolerations :: "toleration list"

record pod_configuration =
  pc_NodeSelector :: string_map
  pc_HostNetwork :: "bool option"
  pc_HostAliases :: "host_alias list"
  pc_ImagePullSecrets :: "string list"
  pc_Tolerations :: "toleration list"
  pc_Replicas :: "int option"

definition MergeCommonConfiguration ::
  "manager_configuration \<Rightarrow> pod_configuration \<Rightarrow> pod_configuration" where
  "MergeCommonConfiguration manager instance0 =
     (let i = instance0;
          i = (if map_entries (pc_NodeSelector i) = [] \<and> map_entries (mc_NodeSelector manager) \<noteq> []
               then i\<lparr>pc_NodeSelector := mc_NodeSelector manager\<rparr> else i);
          i = (if pc_HostNetwork i = None \<and> mc_HostNetwork manager \<noteq> None
               then i\<lparr>pc_HostNetwork := mc_HostNetwork manager\<rparr> else i);
          i = (if pc_ImagePullSecrets i = [] \<and> mc_ImagePullSecrets manager \<noteq> []
               then i\<lparr>pc_ImagePullSecrets := mc_ImagePullSecrets manager\<rparr> else i);
          i = (if pc_Tolerations i = [] \<and> mc_Tolerations manager \<noteq> []
               then i\<lparr>pc_Tolerations := mc_Tolerations manager\<rparr> else i)
      in i)"

record container =
  co_Name :: string
  co_Image :: string
  co_Command :: "string list option"

fun GetContainerFromList :: "string \<Rightarrow> container list \<Rightarrow> container option" where
  "GetContainerFromList containerName [] = None"
| "GetContainerFromList containerName (c # cs) =
     (if containerName = co_Name c then Some c else GetContainerFromList containerName cs)"

text \<open>\<open>append(s[:index], s[index+1:]...)\<close>; an index out of range is a panic.\<close>

definition RemoveIndex :: "'c list \<Rightarrow> int \<Rightarrow> ('s, go_error, 'c list) go" where
  "RemoveIndex s index =
     (if 0 \<le> index \<and> index < int (length s) then ret (take (nat index) s @ drop (nat index + 1) s)
      else panic ''slice bounds out of range'')"

section \<open>Addresses of the pods of an instance\<close>

text \<open>
  \<open>k8s.ExecToPodThroughAPI\<close> runs a command in a container of a pod and gives its output; it and
  \<open>net.ParseIP\<close> are fields of this record.  The commands are the shell lines of the source.
\<close>

record 's exec_lib =
  exec_pod :: "string list \<Rightarrow> string \<Rightarrow> string \<Rightarrow> string \<Rightarrow> ('s, go_error, string) go"
  ParseIP :: "string \<Rightarrow> bool"

definition GetPodsHostname ::
  "(k8s_node, 's) kind_client \<Rightarrow> pod \<Rightarrow> ('s, go_error, string) go" where
  "GetPodsHostname nodes pod0 =
     (if \<not> pod_HostNetwork pod0 then ret (pod_Hostname pod0)
      else bindM (kc_Get nodes ([], pod_NodeName pod0)) (\<lambda>n.
             case find (\<lambda>(ty, _). ty = ''Hostname'') (kn_Addresses n) of
               Some (_, a) \<Rightarrow> ret a
             | None \<Rightarrow> throw (errors_New (''couldn'' @ [CHR 0x27] @ ''t get pods hostname''))))"

text \<open>One annotation that is read with a command in the init container.\<close>

definition exec_annotation ::
  "'s exec_lib \<Rightarrow> pod \<Rightarrow> bool \<Rightarrow> string \<Rightarrow> string \<Rightarrow> string \<Rightarrow> (string, string) gomap
    \<Rightarrow> ('s, go_error, (string, string) gomap) go" where
  "exec_annotation ex pod0 wanted command key msg annotationMap =
     (if wanted
      then bindM (tryM (exec_pod ex [''/bin/sh'', ''-c'', command] ''init'' (om_Name (pod_meta pod0)) (om_Namespace (pod_meta pod0)))) (\<lambda>r.
             case r of
               Inl _ \<Rightarrow> throw (errors_New msg)
             | Inr out \<Rightarrow> ret (AList.update key (trim_char (CHR 0x0A) out) annotationMap))
      else ret annotationMap)"

text \<open>The shell lines, with their quotes and backslashes.\<close>

definition quote_char :: string where
  "quote_char = [CHR 0x27]"

definition backslash :: string where
  "backslash = [CHR 0x5C]"

definition interface_command :: "string \<Rightarrow> string" where
  "interface_command ip =
     ''ifconfig | sed -n '' @ quote_char @ ''/addr:'' @ ip @ ''/{g;h;p};h;x'' @ quote_char
       @ ''  |awk '' @ quote_char @ ''{print $1}'' @ quote_char"

definition gateway_command :: string where
  "gateway_command =
     ''ip route get 1.1.1.1 |grep -v cache |sed -e '' @ quote_char @ ''s/.* via '' @ backslash @ ''(.*''
       @ backslash @ '') dev.*/'' @ backslash @ ''1/'' @ quote_char"

definition mac_command :: "string \<Rightarrow> string" where
  "mac_command ip =
     ''ip address show | sed -n '' @ quote_char @ ''/inet '' @ ip @ backslash @ ''//{g;h;p};h;x''
       @ quote_char @ '' |awk '' @ quote_char @ ''{print $2}'' @ quote_char"

definition prefix_command :: "string \<Rightarrow> string" where
  "prefix_command ip =
     ''ip addr sh |sed -n '' @ quote_char @ ''s/.*'' @ ip @ backslash @ ''/'' @ backslash @ ''([^ ]*''
       @ backslash @ '').*/'' @ backslash @ ''1/p'' @ quote_char"

definition subnet_command :: "string \<Rightarrow> string" where
  "subnet_command cidr =
     ''ip r | grep '' @ cidr @ '' | awk -F'' @ quote_char @ '' '' @ quote_char @ '' '' @ quote_char
       @ ''{print $NF}'' @ quote_char"

definition data_subnet ::
  "'s exec_lib \<Rightarrow> pod \<Rightarrow> (string, string) gomap \<Rightarrow> ('s, go_error, (string, string) gomap) go" where
  "data_subnet ex pod0 annotationMap =
     (case map_of annotationMap ''dataSubnet'' of
        None \<Rightarrow> ret annotationMap
      | Some cidr \<Rightarrow>
          if cidr = [] then ret annotationMap
          else bindM (tryM (exec_pod ex [''/bin/sh'', ''-c'', subnet_command cidr] ''init''
                 (om_Name (pod_meta pod0)) (om_Namespace (pod_meta pod0)))) (\<lambda>r.
                 case r of
                   Inl _ \<Rightarrow> throw (errors_New ''failed getting ip address from data subnet'')
                 | Inr addr \<Rightarrow>
                     let ip = trim_char (CHR 0x0A) addr
                     in if ParseIP ex ip then ret (AList.update ''dataSubnetIP'' ip annotationMap)
                        else throw (errors_New ''no valid ip from data subnet'')))"

text \<open>
  The body for an init container that is running: collect the annotations, write them to the pod
  in the cluster and put that pod into the list.
\<close>

record init_wants =
  getHostname :: bool
  getInterface :: bool
  getMac :: bool
  getPrefix :: bool
  getGateway :: bool

definition annotate_pod ::
  "(k8s_node, 's) kind_client \<Rightarrow> (pod, 's) kind_client \<Rightarrow> 's exec_lib \<Rightarrow> init_wants \<Rightarrow> pod
    \<Rightarrow> ('s, go_error, pod) go" where
  "annotate_pod nodes pods ex w pod0 =
     (let annotationMap = map_entries (om_Annotations (pod_meta pod0)); ip = pod_PodIP pod0
      in bindM (if getHostname w
                then bindM (GetPodsHostname nodes pod0) (\<lambda>hostname.
                       ret (AList.update ''hostname'' hostname annotationMap))
                else ret annotationMap) (\<lambda>am.
         bindM (exec_annotation ex pod0 (getInterface w) (interface_command ip)
                  ''physicalInterface'' ''failed getting interface'' am) (\<lambda>am.
         bindM (exec_annotation ex pod0 (getGateway w) gateway_command
                  ''gateway'' ''failed getting gateway'' am) (\<lambda>am.
         bindM (exec_annotation ex pod0 (getMac w) (mac_command ip)
                  ''physicalInterfaceMac'' ''failed getting mac'' am) (\<lambda>am.
         bindM (exec_annotation ex pod0 (getPrefix w) (prefix_command ip)
                  ''prefixLength'' ''failed getting prefix'' am) (\<lambda>am.
         bindM (data_subnet ex pod0 am) (\<lambda>am.
         bindM (kc_Get pods (key_of (pod_meta pod0))) (\<lambda>foundPod.
           kc_Update pods (foundPod\<lparr>pod_meta := (pod_meta foundPod)\<lparr>om_Annotations := Some am\<rparr>\<rparr>)))))))))"

text \<open>
  The loop over the init container statuses of a pod.  \<open>None\<close>: the function returns an empty map
  without an error, because a container has not started; otherwise the pod for the list.  The
  loop variable \<open>pod\<close> is a copy, so later statuses start from the same pod again; its annotation
  map is shared with the copy, so what was collected stays in it.
\<close>

fun init_statuses ::
  "(k8s_node, 's) kind_client \<Rightarrow> (pod, 's) kind_client \<Rightarrow> 's exec_lib \<Rightarrow> init_wants
    \<Rightarrow> container_status list \<Rightarrow> pod \<Rightarrow> pod \<Rightarrow> ('s, go_error, pod option) go" where
  "init_statuses nodes pods ex w [] pod0 item = ret (Some item)"
| "init_statuses nodes pods ex w (c # cs) pod0 item =
     (if cs_Name c = ''init'' \<and> \<not> cs_Terminated c
      then if cs_Running c
           then bindM (annotate_pod nodes pods ex w pod0) (\<lambda>foundPod.
                  init_statuses nodes pods ex w cs
                    (if om_Annotations (pod_meta pod0) = None then pod0
                     else pod0\<lparr>pod_meta := (pod_meta pod0)\<lparr>om_Annotations :=
                            om_Annotations (pod_meta foundPod)\<rparr>\<rparr>) foundPod)
           else ret None
      else init_statuses nodes pods ex w cs pod0 item)"

text \<open>The loop over the pods; it gives the map of addresses and the updated list.\<close>

fun getPodInitStatus ::
  "(k8s_node, 's) kind_client \<Rightarrow> (pod, 's) kind_client \<Rightarrow> 's exec_lib \<Rightarrow> init_wants \<Rightarrow> bool
    \<Rightarrow> pod list \<Rightarrow> (string, string) gomap
    \<Rightarrow> ('s, go_error, (string, string) gomap \<times> pod list) go" where
  "getPodInitStatus nodes pods ex w waitForInit [] podNameIPMap = ret (podNameIPMap, [])"
| "getPodInitStatus nodes pods ex w waitForInit (pod0 # rest) podNameIPMap =
     (if \<not> waitForInit \<and> pod_Phase pod0 \<noteq> ''Running'' \<and> pod_Phase pod0 \<noteq> ''Pending''
      then ret ([], pod0 # rest)
      else if pod_PodIP pod0 = [] then ret ([], pod0 # rest)
      else bindM (if getHostname w \<or> getInterface w \<or> getMac w \<or> getPrefix w
                  then init_statuses nodes pods ex w
                         (case pod_InitContainerStatuses pod0 of None \<Rightarrow> [] | Some cs \<Rightarrow> cs) pod0 pod0
                  else ret (Some pod0)) (\<lambda>item.
             case item of
               None \<Rightarrow> ret ([], pod0 # rest)
             | Some pod1 \<Rightarrow>
                 bindM (getPodInitStatus nodes pods ex w waitForInit rest
                          (AList.update (om_Name (pod_meta pod0)) (pod_PodIP pod0) podNameIPMap)) (\<lambda>(m, ps).
                   ret (m, pod1 # ps))))"

definition int32_of :: "int \<Rightarrow> int" where
  "int32_of n = (n + 2 ^ 31) mod 2 ^ 32 - 2 ^ 31"

definition instance_labels :: "string \<Rightarrow> string \<Rightarrow> (string, string) gomap" where
  "instance_labels instanceType name =
     AList.update instanceType name [(''contrail_manager'', instanceType)]"

definition PodIPListAndIPMapFromInstance ::
  "(k8s_node, 's) kind_client \<Rightarrow> (pod, 's) kind_client \<Rightarrow> 's exec_lib \<Rightarrow> string \<Rightarrow> pod_configuration
    \<Rightarrow> namespaced_name \<Rightarrow> bool \<Rightarrow> init_wants
    \<Rightarrow> ('s, go_error, pod list \<times> (string, string) gomap) go" where
  "PodIPListAndIPMapFromInstance nodes pods ex instanceType commonConfiguration request waitForInit w =
     bindM (kc_List pods (fst request) (instance_labels instanceType (snd request))) (\<lambda>podList.
       if podList = [] then ret ([], [])
       else if waitForInit
       then bindM (deref_ptr (pc_Replicas commonConfiguration)) (\<lambda>replicas.
            bindM (if int32_of (int (length podList)) = replicas
                   then getPodInitStatus nodes pods ex w waitForInit podList []
                   else ret ([], podList)) (\<lambda>(podNameIPMap, podList).
              if int32_of (int (length podNameIPMap)) \<noteq> replicas then ret ([], [])
              else ret (podList, podNameIPMap)))
       else bindM (getPodInitStatus nodes pods ex w waitForInit podList []) (\<lambda>(podNameIPMap, podList).
              ret (podList, podNameIPMap)))"

section \<open>The predicates\<close>

lemma owner_loop_result:
  assumes "\<forall>ow \<in> set owners. or_Controller ow \<noteq> None"
  shows "owner_loop sl gk owners b s =
    (Ok (b \<or> (\<exists>ow \<in> set owners. or_Controller ow = Some True \<and>
       FromAPIVersionAndKind sl (or_APIVersion ow) (or_Kind ow) = gk)), s)"
  using assms
proof (induction owners arbitrary: b)
  case (Cons ow owners)
  then obtain c where "or_Controller ow = Some c" by auto
  with Cons show ?case by auto
qed simp

lemma owner_loop_panics:
  assumes "or_Controller ow = None" "ow \<in> set owners"
  shows "\<exists>m. owner_loop sl gk owners b s = (Panic m, s)"
  using assms
proof (induction owners arbitrary: b)
  case (Cons o2 owners)
  then show ?case
    by (cases "or_Controller o2") (auto simp: deref_ptr_def bindM_def)
qed simp

lemma containers_ready_iff: "containers_ready cs \<longleftrightarrow> (\<forall>c \<in> set cs. cs_Ready c)"
  by (induction cs) auto

lemma init_loop_iff: "init_loop p cs r \<longleftrightarrow> r \<and> (\<forall>c \<in> set cs. cs_Name c = ''init'' \<longrightarrow> p c)"
  by (induction cs arbitrary: r) auto

lemma init_state_iff:
  "init_state p po \<longleftrightarrow>
     (\<exists>cs. pod_InitContainerStatuses po = Some cs \<and> (\<forall>c \<in> set cs. cs_Name c = ''init'' \<longrightarrow> p c))"
  by (auto simp: init_state_def init_loop_iff split: option.splits)

lemma first_matching_label_cases:
  "first_matching_label appLabel ls found =
     (if \<exists>(k, v) \<in> set ls. (case map_of appLabel k of None \<Rightarrow> [] | Some x \<Rightarrow> x) = v then found else ret False)"
  by (induction appLabel ls found rule: first_matching_label.induct) auto

lemma active_change_rising:
  assumes "sel (ObjectNew e) = Some n" "sel (ObjectOld e) = Some p"
  shows "active_change sel e s = (Ok (n = Some True \<and> p \<noteq> Some True), s)"
  using assms by (auto simp: active_change_def Let_def split: option.splits)

section \<open>The common configuration\<close>

text \<open>A setting of the service wins; the setting of the manager is used only when it has none.\<close>

lemma Merge_fields:
  "pc_NodeSelector (MergeCommonConfiguration m i) =
     (if map_entries (pc_NodeSelector i) = [] \<and> map_entries (mc_NodeSelector m) \<noteq> []
      then mc_NodeSelector m else pc_NodeSelector i)"
  "pc_HostNetwork (MergeCommonConfiguration m i) =
     (if pc_HostNetwork i = None then mc_HostNetwork m else pc_HostNetwork i)"
  "pc_ImagePullSecrets (MergeCommonConfiguration m i) =
     (if pc_ImagePullSecrets i = [] then mc_ImagePullSecrets m else pc_ImagePullSecrets i)"
  "pc_Tolerations (MergeCommonConfiguration m i) =
     (if pc_Tolerations i = [] then mc_Tolerations m else pc_Tolerations i)"
  "pc_HostAliases (MergeCommonConfiguration m i) = pc_HostAliases i"
  "pc_Replicas (MergeCommonConfiguration m i) = pc_Replicas i"
  by (cases "pc_HostNetwork i"; cases "mc_HostNetwork m"; auto simp: MergeCommonConfiguration_def Let_def)+

lemma Merge_idem:
  "MergeCommonConfiguration m (MergeCommonConfiguration m i) = MergeCommonConfiguration m i"
  by (rule pod_configuration.equality) (auto simp: Merge_fields)

section \<open>The addresses\<close>

lemma getPodInitStatus_result:
  assumes "getPodInitStatus nodes pods ex w wait ps m s = (Ok (m', ps'), s')"
  shows "length ps' = length ps \<and> (m' = [] \<or>
    m' = fold (\<lambda>p. AList.update (om_Name (pod_meta p)) (pod_PodIP p)) ps m \<and> (\<forall>p \<in> set ps. pod_PodIP p \<noteq> []))"
  using assms
proof (induction ps arbitrary: m s ps' s')
  case (Cons p ps)
  show ?case
  proof (cases "\<not> wait \<and> pod_Phase p \<noteq> ''Running'' \<and> pod_Phase p \<noteq> ''Pending'' \<or> pod_PodIP p = []")
    case True
    with Cons.prems show ?thesis by (auto split: if_splits)
  next
    case False
    with Cons.prems obtain item t where item: "(if getHostname w \<or> getInterface w \<or> getMac w \<or> getPrefix w
          then init_statuses nodes pods ex w (case pod_InitContainerStatuses p of None \<Rightarrow> [] | Some cs \<Rightarrow> cs) p p
          else ret (Some p)) s = (Ok item, t)"
      and rest: "(case item of None \<Rightarrow> ret ([], p # ps) | Some pod1 \<Rightarrow>
           bindM (getPodInitStatus nodes pods ex w wait ps
             (AList.update (om_Name (pod_meta p)) (pod_PodIP p) m)) (\<lambda>(m, ps). ret (m, pod1 # ps))) t
         = (Ok (m', ps'), s')"
      by (auto simp: bindM_Ok_iff split: if_splits)
    show ?thesis
    proof (cases item)
      case None
      with rest show ?thesis by simp
    next
      case (Some p1)
      with rest obtain qs u where
        "getPodInitStatus nodes pods ex w wait ps (AList.update (om_Name (pod_meta p)) (pod_PodIP p) m) t
           = (Ok (m', qs), u)" "ps' = p1 # qs"
        by (auto simp: bindM_Ok_iff)
      with Cons.IH [OF this(1)] False show ?thesis by auto
    qed
  qed
qed simp

lemma map_of_fold_pods:
  "map_of (fold (\<lambda>p. AList.update (om_Name (pod_meta p)) (pod_PodIP p)) ps m) n =
     (case find (\<lambda>p. om_Name (pod_meta p) = n) (rev ps) of None \<Rightarrow> map_of m n | Some p \<Rightarrow> Some (pod_PodIP p))"
  by (induction ps rule: rev_induct) (auto simp: update_conv')

text \<open>The map that \<open>getPodInitStatus\<close> starts empty: it stays empty or has an address for every pod.\<close>

definition addresses_all :: "pod list \<Rightarrow> (string, string) gomap \<Rightarrow> bool" where
  "addresses_all listed m \<longleftrightarrow>
     (\<forall>p \<in> set listed. pod_PodIP p \<noteq> [] \<and> (\<exists>a. map_of m (om_Name (pod_meta p)) = Some a \<and> a \<noteq> []))"

lemma getPodInitStatus_addresses:
  assumes "getPodInitStatus nodes pods ex w wait listed [] t = (Ok (m, ps), s')"
  shows "length ps = length listed" "m = [] \<or> addresses_all listed m"
proof -
  show "length ps = length listed" using getPodInitStatus_result [OF assms] by simp
  show "m = [] \<or> addresses_all listed m"
  proof (cases "m = []")
    case False
    with getPodInitStatus_result [OF assms] have
      ips: "m = fold (\<lambda>p. AList.update (om_Name (pod_meta p)) (pod_PodIP p)) listed []"
      "\<forall>p \<in> set listed. pod_PodIP p \<noteq> []" by auto
    have "\<exists>a. map_of m (om_Name (pod_meta p)) = Some a \<and> a \<noteq> []" if p: "p \<in> set listed" for p
    proof -
      obtain q where q: "find (\<lambda>q. om_Name (pod_meta q) = om_Name (pod_meta p)) (rev listed) = Some q"
        using p by (cases "find (\<lambda>q. om_Name (pod_meta q) = om_Name (pod_meta p)) (rev listed)")
          (auto simp: find_rev_None)
      from find_SomeD [OF this] ips(2) have "pod_PodIP q \<noteq> []" by auto
      with q show ?thesis by (simp add: ips(1) map_of_fold_pods)
    qed
    with ips(2) show ?thesis by (simp add: addresses_all_def)
  qed simp
qed

lemma int32_of_0: "int32_of 0 = 0"
  by (simp add: int32_of_def)

text \<open>Both modes of \<open>PodIPListAndIPMapFromInstance\<close>, when it returns without an error.\<close>

lemma PodIPMap_cases:
  assumes run: "PodIPListAndIPMapFromInstance nodes pods ex ty cc req wait w s = (Ok (ps, m), s')"
  shows "\<exists>listed t. kc_List pods (fst req) (instance_labels ty (snd req)) s = (Ok listed, t) \<and>
     (m = [] \<or> addresses_all listed m) \<and>
     (if wait
      then ps = [] \<and> m = [] \<or>
           (\<exists>r. pc_Replicas cc = Some r \<and> int32_of (int (length m)) = r \<and> length ps = length listed \<and>
              (r \<noteq> 0 \<longrightarrow> int32_of (int (length listed)) = r \<and> m \<noteq> []))
      else length ps = length listed)"
proof -
  from run obtain listed t where l: "kc_List pods (fst req) (instance_labels ty (snd req)) s = (Ok listed, t)"
    and rest: "(if listed = [] then ret ([], [])
       else if wait
       then bindM (deref_ptr (pc_Replicas cc)) (\<lambda>replicas.
            bindM (if int32_of (int (length listed)) = replicas
                   then getPodInitStatus nodes pods ex w wait listed []
                   else ret ([], listed)) (\<lambda>(podNameIPMap, podList).
              if int32_of (int (length podNameIPMap)) \<noteq> replicas then ret ([], [])
              else ret (podList, podNameIPMap)))
       else bindM (getPodInitStatus nodes pods ex w wait listed []) (\<lambda>(podNameIPMap, podList).
              ret (podList, podNameIPMap))) t = (Ok (ps, m), s')"
    unfolding PodIPListAndIPMapFromInstance_def bindM_Ok_iff by blast
  show ?thesis
  proof (cases "listed = [] \<or> \<not> wait")
    case True
    show ?thesis
    proof (cases "listed = []")
      case True
      with rest have "ps = []" "m = []" by simp_all
      with l True show ?thesis by auto
    next
      case False
      with True rest have "\<not> wait" "getPodInitStatus nodes pods ex w wait listed [] t = (Ok (m, ps), s')"
        by (auto elim!: bindM_OkE)
      with l getPodInitStatus_addresses [OF this(2)] show ?thesis by auto
    qed
  next
    case False
    then have "bindM (deref_ptr (pc_Replicas cc)) (\<lambda>replicas.
            bindM (if int32_of (int (length listed)) = replicas
                   then getPodInitStatus nodes pods ex w wait listed []
                   else ret ([], listed)) (\<lambda>(podNameIPMap, podList).
              if int32_of (int (length podNameIPMap)) \<noteq> replicas then ret ([], [])
              else ret (podList, podNameIPMap))) t = (Ok (ps, m), s')"
      using rest by simp
    then obtain r pm pl u where r: "pc_Replicas cc = Some r"
      and g: "(if int32_of (int (length listed)) = r then getPodInitStatus nodes pods ex w wait listed []
               else ret ([], listed)) t = (Ok (pm, pl), u)"
      and e: "(if int32_of (int (length pm)) \<noteq> r then ret ([], []) else ret (pl, pm)) u =
         (Ok (ps, m) :: (go_error, pod list \<times> (string, string) gomap) outcome, s')"
      unfolding bindM_Ok_iff deref_ptr_Ok_iff by auto
    show ?thesis
    proof (cases "int32_of (int (length pm)) = r")
      case True
      with e have m: "pm = m" "pl = ps" by simp_all
      show ?thesis
      proof (cases "int32_of (int (length listed)) = r")
        case eq: True
        with g m have "getPodInitStatus nodes pods ex w wait listed [] t = (Ok (m, ps), u)" by simp
        from getPodInitStatus_addresses [OF this] l r True eq m show ?thesis by (auto simp: int32_of_0)
      next
        case neq: False
        with g m have "m = []" "ps = listed" by simp_all
        with l r True m show ?thesis by (auto simp: int32_of_0)
      qed
    next
      case neq: False
      with e l show ?thesis using False by auto
    qed
  qed
qed

end
