(* ===== verification/CrTypes.thy ===== *)
theory CrTypes
  imports Utils "HOL-Library.List_Lexorder" "HOL-Library.Char_ord"
begin

text \<open>
  The custom resources of the operator (\<open>pkg/apis/contrail/v1alpha1\<close>): the service
  configurations with their defaults (\<open>ConfigurationParameters\<close>, \<open>SetDefaultValues\<close>,
  \<open>FillWithDefaultValues\<close>), the activity checks \<open>IsActive\<close>, and the cluster configurations that
  one service reads from the resources of another (\<open>New...ClusterConfiguration\<close>).

  A resource is the record \<open>cr\<close> over the type of its service configuration.  Its status has the
  fields that other components read; \<open>Active\<close> is a pointer, and a status whose field is a plain
  \<open>bool\<close> is read through \<open>is_active\<close>.  The struct \<open>Ports\<close> of a status has string fields only: it
  is a map from the names of its fields, with the empty string for a missing one (\<open>IntPorts\<close> where
  the fields are integers).  \<open>ServiceStatus\<close> has for a host and a module its name and state.  Lists of strings are sorted with the byte order.
\<close>

section \<open>Resources\<close>

record cr_status =
  st_Active :: "bool option"
  st_Nodes :: string_map
  st_ClusterIP :: string
  st_Secret :: string
  st_Endpoint :: string
  st_Ports :: "(string, string) gomap"
  st_IntPorts :: "(string, int) gomap"
  st_Replicas :: int
  st_ReadyReplicas :: int
  st_ConfigChanged :: "bool option"
  st_ServiceStatus :: "(string, (string, string \<times> string) gomap) gomap"

record 'c cr =
  cr_meta :: object_meta
  cr_common :: pod_configuration
  cr_conf :: 'c
  cr_status :: cr_status

definition is_active :: "'c cr \<Rightarrow> bool" where
  "is_active r \<longleftrightarrow> st_Active (cr_status r) = Some True"

definition new_status :: cr_status where
  "new_status = \<lparr>st_Active = None, st_Nodes = None, st_ClusterIP = [], st_Secret = [], st_Endpoint = [],
     st_Ports = [], st_IntPorts = [], st_Replicas = 0, st_ReadyReplicas = 0, st_ConfigChanged = None,
     st_ServiceStatus = []\<rparr>"

definition new_common :: pod_configuration where
  "new_common = \<lparr>pc_NodeSelector = None, pc_HostNetwork = None, pc_HostAliases = [],
     pc_ImagePullSecrets = [], pc_Tolerations = [], pc_Replicas = None\<rparr>"

section \<open>Service configurations\<close>

record storage =
  sto_Size :: string
  sto_Path :: string

definition no_storage :: storage where
  "no_storage = \<lparr>sto_Size = [], sto_Path = []\<rparr>"

record cassandra_configuration =
  ca_Containers :: "container list"
  ca_ClusterName :: string
  ca_ListenAddress :: string
  ca_Port :: "int option"
  ca_CqlPort :: "int option"
  ca_SslStoragePort :: "int option"
  ca_StoragePort :: "int option"
  ca_JmxLocalPort :: "int option"
  ca_MaxHeapSize :: string
  ca_MinHeapSize :: string
  ca_StartRPC :: "bool option"
  ca_Storage :: storage

record control_configuration =
  ct_Containers :: "container list"
  ct_CassandraInstance :: string
  ct_BGPPort :: "int option"
  ct_ASNNumber :: "int option"
  ct_XMPPPort :: "int option"
  ct_DNSPort :: "int option"
  ct_DNSIntrospectPort :: "int option"
  ct_NodeManager :: "bool option"
  ct_RabbitmqUser :: string
  ct_RabbitmqPassword :: string
  ct_RabbitmqVhost :: string
  ct_DataSubnet :: string

record zookeeper_configuration =
  zk_Containers :: "container list"
  zk_ClientPort :: "int option"
  zk_ElectionPort :: "int option"
  zk_ServerPort :: "int option"
  zk_AdminEnableServer :: "bool option"
  zk_AdminPort :: "int option"
  zk_Storage :: storage

record rabbitmq_configuration =
  rb_Containers :: "container list"
  rb_Port :: "int option"
  rb_SSLPort :: "int option"
  rb_ErlangCookie :: string
  rb_Vhost :: string
  rb_User :: string
  rb_Password :: string
  rb_Secret :: string

record config_configuration =
  cf_Containers :: "container list"
  cf_APIPort :: "int option"
  cf_AnalyticsPort :: "int option"
  cf_CollectorPort :: "int option"
  cf_RedisPort :: "int option"
  cf_ApiIntrospectPort :: "int option"
  cf_SchemaIntrospectPort :: "int option"
  cf_DeviceManagerIntrospectPort :: "int option"
  cf_SvcMonitorIntrospectPort :: "int option"
  cf_AnalyticsApiIntrospectPort :: "int option"
  cf_CollectorIntrospectPort :: "int option"
  cf_CassandraInstance :: string
  cf_ZookeeperInstance :: string
  cf_NodeManager :: "bool option"
  cf_RabbitmqUser :: string
  cf_RabbitmqPassword :: string
  cf_RabbitmqVhost :: string
  cf_LogLevel :: string
  cf_KeystoneSecretName :: string
  cf_KeystoneInstance :: string
  cf_AuthMode :: string
  cf_AAAMode :: string
  cf_Storage :: storage
  cf_FabricMgmtIP :: string
  cf_AnalyticsDataTTL :: "int option"
  cf_AnalyticsConfigAuditTTL :: "int option"
  cf_AnalyticsStatisticsTTL :: "int option"
  cf_AnalyticsFlowTTL :: "int option"

record keystone_configuration =
  ks_MemcachedInstance :: string
  ks_ListenPort :: int
  ks_PostgresInstance :: string
  ks_Containers :: "container list"
  ks_KeystoneSecretName :: string
  ks_Region :: string
  ks_AuthProtocol :: string
  ks_UserDomainID :: string
  ks_ProjectDomainID :: string
  ks_UserDomainName :: string
  ks_ProjectDomainName :: string
  ks_PublicEndpoint :: string
  ks_ExternalAddress :: string
  ks_ExternalAddressRetrySec :: int

definition no_cassandra_configuration :: cassandra_configuration where
  "no_cassandra_configuration =
    \<lparr>ca_Containers = [], ca_ClusterName = [], ca_ListenAddress = [], ca_Port = None, ca_CqlPort =
     None, ca_SslStoragePort = None, ca_StoragePort = None, ca_JmxLocalPort = None, ca_MaxHeapSize =
     [], ca_MinHeapSize = [], ca_StartRPC = None, ca_Storage = no_storage\<rparr>"

definition no_control_configuration :: control_configuration where
  "no_control_configuration =
    \<lparr>ct_Containers = [], ct_CassandraInstance = [], ct_BGPPort = None, ct_ASNNumber = None,
     ct_XMPPPort = None, ct_DNSPort = None, ct_DNSIntrospectPort = None, ct_NodeManager = None,
     ct_RabbitmqUser = [], ct_RabbitmqPassword = [], ct_RabbitmqVhost = [], ct_DataSubnet = []\<rparr>"

definition no_zookeeper_configuration :: zookeeper_configuration where
  "no_zookeeper_configuration =
    \<lparr>zk_Containers = [], zk_ClientPort = None, zk_ElectionPort = None, zk_ServerPort = None,
     zk_AdminEnableServer = None, zk_AdminPort = None, zk_Storage = no_storage\<rparr>"

definition no_rabbitmq_configuration :: rabbitmq_configuration where
  "no_rabbitmq_configuration =
    \<lparr>rb_Containers = [], rb_Port = None, rb_SSLPort = None, rb_ErlangCookie = [], rb_Vhost = [],
     rb_User = [], rb_Password = [], rb_Secret = []\<rparr>"

definition no_config_configuration :: config_configuration where
  "no_config_configuration =
    \<lparr>cf_Containers = [], cf_APIPort = None, cf_AnalyticsPort = None, cf_CollectorPort = None,
     cf_RedisPort = None, cf_ApiIntrospectPort = None, cf_SchemaIntrospectPort = None,
     cf_DeviceManagerIntrospectPort = None, cf_SvcMonitorIntrospectPort = None,
     cf_AnalyticsApiIntrospectPort = None, cf_CollectorIntrospectPort = None, cf_CassandraInstance =
     [], cf_ZookeeperInstance = [], cf_NodeManager = None, cf_RabbitmqUser = [], cf_RabbitmqPassword
     = [], cf_RabbitmqVhost = [], cf_LogLevel = [], cf_KeystoneSecretName = [], cf_KeystoneInstance
     = [], cf_AuthMode = [], cf_AAAMode = [], cf_Storage = no_storage, cf_FabricMgmtIP = [],
     cf_AnalyticsDataTTL = None, cf_AnalyticsConfigAuditTTL = None, cf_AnalyticsStatisticsTTL =
     None, cf_AnalyticsFlowTTL = None\<rparr>"

definition no_keystone_configuration :: keystone_configuration where
  "no_keystone_configuration =
    \<lparr>ks_MemcachedInstance = [], ks_ListenPort = 0, ks_PostgresInstance = [], ks_Containers = [],
     ks_KeystoneSecretName = [], ks_Region = [], ks_AuthProtocol = [], ks_UserDomainID = [],
     ks_ProjectDomainID = [], ks_UserDomainName = [], ks_ProjectDomainName = [], ks_PublicEndpoint =
     [], ks_ExternalAddress = [], ks_ExternalAddressRetrySec = 0\<rparr>"

section \<open>Defaults\<close>

text \<open>A pointer, or a value, that is filled in when it is missing.\<close>

definition ptr_or :: "'a option \<Rightarrow> 'a \<Rightarrow> 'a option" where
  "ptr_or p d = Some (case p of None \<Rightarrow> d | Some v \<Rightarrow> v)"

definition str_or :: "string \<Rightarrow> string \<Rightarrow> string" where
  "str_or s d = (if s = [] then d else s)"

definition int_or :: "int \<Rightarrow> int \<Rightarrow> int" where
  "int_or n d = (if n = 0 then d else n)"

definition CassandraPort :: int where "CassandraPort = 9160"
definition CassandraCqlPort :: int where "CassandraCqlPort = 9042"
definition CassandraJmxLocalPort :: int where "CassandraJmxLocalPort = 7200"
definition CassandraStoragePort :: int where "CassandraStoragePort = 7000"
definition CassandraSslStoragePort :: int where "CassandraSslStoragePort = 7001"
definition BgpPort :: int where "BgpPort = 179"
definition BgpAsn :: int where "BgpAsn = 64512"
definition XmppServerPort :: int where "XmppServerPort = 5269"
definition DnsServerPort :: int where "DnsServerPort = 53"
definition DnsIntrospectPort :: int where "DnsIntrospectPort = 8092"
definition ZookeeperPort :: int where "ZookeeperPort = 2181"
definition ZookeeperElectionPort :: int where "ZookeeperElectionPort = 2888"
definition ZookeeperServerPort :: int where "ZookeeperServerPort = 3888"
definition ZookeeperAdminPort :: int where "ZookeeperAdminPort = 2182"
definition RabbitmqNodePort :: int where "RabbitmqNodePort = 5673"
definition RabbitmqNodePortSSL :: int where "RabbitmqNodePortSSL = 15673"
definition ConfigApiPort :: int where "ConfigApiPort = 8082"
definition AnalyticsApiPort :: int where "AnalyticsApiPort = 8081"
definition CollectorPort :: int where "CollectorPort = 8086"
definition RedisServerPort :: int where "RedisServerPort = 6379"
definition ConfigApiIntrospectPort :: int where "ConfigApiIntrospectPort = 8084"
definition ConfigSchemaIntrospectPort :: int where "ConfigSchemaIntrospectPort = 8087"
definition ConfigDeviceManagerIntrospectPort :: int where "ConfigDeviceManagerIntrospectPort = 8096"
definition ConfigSvcMonitorIntrospectPort :: int where "ConfigSvcMonitorIntrospectPort = 8088"
definition AnalyticsApiIntrospectPort :: int where "AnalyticsApiIntrospectPort = 8090"
definition CollectorIntrospectPort :: int where "CollectorIntrospectPort = 8089"
definition AnalyticsDataTTL :: int where "AnalyticsDataTTL = 48"
definition AnalyticsConfigAuditTTL :: int where "AnalyticsConfigAuditTTL = 2160"
definition AnalyticsStatisticsTTL :: int where "AnalyticsStatisticsTTL = 4"
definition AnalyticsFlowTTL :: int where "AnalyticsFlowTTL = 2"
definition KeystoneAuthPublicPort :: int where "KeystoneAuthPublicPort = 5000"
definition KeystoneExtRetrySec :: int where "KeystoneExtRetrySec = 60"
definition LogLevel :: string where "LogLevel = ''SYS_NOTICE''"
definition RabbitmqErlangCookie :: string where "RabbitmqErlangCookie = ''47EFF3BB-4786-46E0-A5BB-58455B3C2CB4''"
definition RabbitmqVhost :: string where "RabbitmqVhost = ''/''"
definition RabbitmqUser :: string where "RabbitmqUser = ''guest''"
definition RabbitmqPassword :: string where "RabbitmqPassword = ''guest''"
definition KeystoneAuthRegionName :: string where "KeystoneAuthRegionName = ''RegionOne''"
definition KeystoneAuthProto :: string where "KeystoneAuthProto = ''https''"
definition KeystoneAuthUserDomainName :: string where "KeystoneAuthUserDomainName = ''Default''"
definition KeystoneAuthUserDomainID :: string where "KeystoneAuthUserDomainID = ''default''"
definition KeystoneAuthProjectDomainName :: string where "KeystoneAuthProjectDomainName = ''Default''"
definition KeystoneAuthProjectDomainID :: string where "KeystoneAuthProjectDomainID = ''default''"
definition ZookeeperAdminEnableServer :: bool where "ZookeeperAdminEnableServer = True"

definition AuthenticationModeNoAuth :: string where "AuthenticationModeNoAuth = ''noauth''"
definition AuthenticationModeKeystone :: string where "AuthenticationModeKeystone = ''keystone''"
definition AAAModeNoAuth :: string where "AAAModeNoAuth = ''no-auth''"
definition AAAModeRBAC :: string where "AAAModeRBAC = ''rbac''"

text \<open>
  \<open>ConfigurationParameters\<close> builds a new configuration; fields it does not mention keep the zero
  value of the new struct.
\<close>

definition Cassandra_ConfigurationParameters ::
  "cassandra_configuration cr \<Rightarrow> cassandra_configuration" where
  "Cassandra_ConfigurationParameters c =
     (let sc = cr_conf c;
          cc = no_cassandra_configuration\<lparr>
            ca_Storage := \<lparr>sto_Size = str_or (sto_Size (ca_Storage sc)) ''5Gi'',
                            sto_Path = str_or (sto_Path (ca_Storage sc)) ''/mnt/cassandra''\<rparr>,
            ca_Port := ptr_or (ca_Port sc) CassandraPort,
            ca_CqlPort := ptr_or (ca_CqlPort sc) CassandraCqlPort,
            ca_JmxLocalPort := ptr_or (ca_JmxLocalPort sc) CassandraJmxLocalPort,
            ca_StoragePort := ptr_or (ca_StoragePort sc) CassandraStoragePort,
            ca_SslStoragePort := ptr_or (ca_SslStoragePort sc) CassandraSslStoragePort\<rparr>;
          cc = (if ca_ClusterName cc = [] then cc\<lparr>ca_ClusterName := ''ContrailConfigDB''\<rparr> else cc);
          cc = (if ca_ListenAddress cc = [] then cc\<lparr>ca_ListenAddress := ''auto''\<rparr> else cc)
      in cc)"

definition Control_ConfigurationParameters ::
  "control_configuration cr \<Rightarrow> control_configuration" where
  "Control_ConfigurationParameters c =
     (let sc = cr_conf c
      in no_control_configuration\<lparr>
           ct_NodeManager := ptr_or (ct_NodeManager sc) True,
           ct_BGPPort := ptr_or (ct_BGPPort sc) BgpPort,
           ct_ASNNumber := ptr_or (ct_ASNNumber sc) BgpAsn,
           ct_XMPPPort := ptr_or (ct_XMPPPort sc) XmppServerPort,
           ct_DNSPort := ptr_or (ct_DNSPort sc) DnsServerPort,
           ct_DNSIntrospectPort := ptr_or (ct_DNSIntrospectPort sc) DnsIntrospectPort\<rparr>)"

definition Zookeeper_ConfigurationParameters ::
  "zookeeper_configuration cr \<Rightarrow> zookeeper_configuration" where
  "Zookeeper_ConfigurationParameters c =
     (let sc = cr_conf c
      in no_zookeeper_configuration\<lparr>
           zk_Storage := \<lparr>sto_Size = str_or (sto_Size (zk_Storage sc)) ''10Gi'',
                           sto_Path = str_or (sto_Path (zk_Storage sc)) ''/mnt/zookeeper''\<rparr>,
           zk_ClientPort := ptr_or (zk_ClientPort sc) ZookeeperPort,
           zk_ElectionPort := ptr_or (zk_ElectionPort sc) ZookeeperElectionPort,
           zk_ServerPort := ptr_or (zk_ServerPort sc) ZookeeperServerPort,
           zk_AdminEnableServer := ptr_or (zk_AdminEnableServer sc) ZookeeperAdminEnableServer,
           zk_AdminPort := ptr_or (zk_AdminPort sc) ZookeeperAdminPort\<rparr>)"

definition Rabbitmq_ConfigurationParameters ::
  "rabbitmq_configuration cr \<Rightarrow> rabbitmq_configuration" where
  "Rabbitmq_ConfigurationParameters c =
     (let sc = cr_conf c
      in no_rabbitmq_configuration\<lparr>
           rb_Port := ptr_or (rb_Port sc) RabbitmqNodePort,
           rb_SSLPort := ptr_or (rb_SSLPort sc) RabbitmqNodePortSSL,
           rb_ErlangCookie := str_or (rb_ErlangCookie sc) RabbitmqErlangCookie,
           rb_Vhost := str_or (rb_Vhost sc) RabbitmqVhost,
           rb_User := str_or (rb_User sc) RabbitmqUser,
           rb_Password := str_or (rb_Password sc) RabbitmqPassword,
           rb_Secret := str_or (rb_Secret sc) (om_Name (cr_meta c) @ ''-secret'')\<rparr>)"

definition Config_ConfigurationParameters ::
  "config_configuration cr \<Rightarrow> config_configuration" where
  "Config_ConfigurationParameters c =
     (let sc = cr_conf c; authMode = str_or (cf_AuthMode sc) AuthenticationModeNoAuth
      in no_config_configuration\<lparr>
           cf_LogLevel := str_or (cf_LogLevel sc) LogLevel,
           cf_APIPort := ptr_or (cf_APIPort sc) ConfigApiPort,
           cf_AnalyticsPort := ptr_or (cf_AnalyticsPort sc) AnalyticsApiPort,
           cf_CollectorPort := ptr_or (cf_CollectorPort sc) CollectorPort,
           cf_RedisPort := ptr_or (cf_RedisPort sc) RedisServerPort,
           cf_ApiIntrospectPort := ptr_or (cf_ApiIntrospectPort sc) ConfigApiIntrospectPort,
           cf_SchemaIntrospectPort := ptr_or (cf_SchemaIntrospectPort sc) ConfigSchemaIntrospectPort,
           cf_DeviceManagerIntrospectPort :=
             ptr_or (cf_DeviceManagerIntrospectPort sc) ConfigDeviceManagerIntrospectPort,
           cf_SvcMonitorIntrospectPort :=
             ptr_or (cf_SvcMonitorIntrospectPort sc) ConfigSvcMonitorIntrospectPort,
           cf_AnalyticsApiIntrospectPort :=
             ptr_or (cf_AnalyticsApiIntrospectPort sc) AnalyticsApiIntrospectPort,
           cf_CollectorIntrospectPort :=
             ptr_or (cf_CollectorIntrospectPort sc) CollectorIntrospectPort,
           cf_NodeManager := ptr_or (cf_NodeManager sc) True,
           cf_RabbitmqUser := str_or (cf_RabbitmqUser sc) RabbitmqUser,
           cf_RabbitmqPassword := str_or (cf_RabbitmqPassword sc) RabbitmqPassword,
           cf_RabbitmqVhost := str_or (cf_RabbitmqVhost sc) RabbitmqVhost,
           cf_AuthMode := authMode,
           cf_AAAMode := (if cf_AAAMode sc = []
                          then (if authMode = AuthenticationModeKeystone then AAAModeRBAC else AAAModeNoAuth)
                          else cf_AAAMode sc),
           cf_AnalyticsDataTTL := ptr_or (cf_AnalyticsDataTTL sc) AnalyticsDataTTL,
           cf_AnalyticsConfigAuditTTL := ptr_or (cf_AnalyticsConfigAuditTTL sc) AnalyticsConfigAuditTTL,
           cf_AnalyticsStatisticsTTL := ptr_or (cf_AnalyticsStatisticsTTL sc) AnalyticsStatisticsTTL,
           cf_AnalyticsFlowTTL := ptr_or (cf_AnalyticsFlowTTL sc) AnalyticsFlowTTL\<rparr>)"

definition Keystone_ConfigurationParameters ::
  "keystone_configuration cr \<Rightarrow> keystone_configuration" where
  "Keystone_ConfigurationParameters k =
     (let sc = cr_conf k
      in no_keystone_configuration\<lparr>
           ks_ListenPort := int_or (ks_ListenPort sc) KeystoneAuthPublicPort,
           ks_Region := str_or (ks_Region sc) KeystoneAuthRegionName,
           ks_AuthProtocol := str_or (ks_AuthProtocol sc) KeystoneAuthProto,
           ks_UserDomainName := str_or (ks_UserDomainName sc) KeystoneAuthUserDomainName,
           ks_UserDomainID := str_or (ks_UserDomainID sc) KeystoneAuthUserDomainID,
           ks_ProjectDomainName := str_or (ks_ProjectDomainName sc) KeystoneAuthProjectDomainName,
           ks_ProjectDomainID := str_or (ks_ProjectDomainID sc) KeystoneAuthProjectDomainID,
           ks_ExternalAddressRetrySec := int_or (ks_ExternalAddressRetrySec sc) KeystoneExtRetrySec\<rparr>)"

definition Keystone_SetDefaultValues :: "keystone_configuration \<Rightarrow> keystone_configuration" where
  "Keystone_SetDefaultValues sc =
     sc\<lparr>ks_ListenPort := int_or (ks_ListenPort sc) KeystoneAuthPublicPort,
        ks_Region := str_or (ks_Region sc) KeystoneAuthRegionName,
        ks_AuthProtocol := str_or (ks_AuthProtocol sc) KeystoneAuthProto,
        ks_UserDomainName := str_or (ks_UserDomainName sc) KeystoneAuthUserDomainName,
        ks_UserDomainID := str_or (ks_UserDomainID sc) KeystoneAuthUserDomainID,
        ks_ProjectDomainName := str_or (ks_ProjectDomainName sc) KeystoneAuthProjectDomainName,
        ks_ProjectDomainID := str_or (ks_ProjectDomainID sc) KeystoneAuthProjectDomainID,
        ks_ExternalAddressRetrySec := int_or (ks_ExternalAddressRetrySec sc) KeystoneExtRetrySec\<rparr>"

end
