(* ===== verification/ClusterConf.thy ===== *)
theory ClusterConf
  imports CrTypes "HOL-Library.Multiset"
begin

text \<open>
  What one service reads of another (\<open>base_types.go\<close> and the \<open>IsActive\<close> methods of the resource
  types): whether its resource is active, and where its nodes can be reached.  \<open>Status.Nodes\<close> is a
  Go map, so the addresses come in any order and are then sorted.
\<close>

section \<open>Cluster configurations\<close>

record config_cluster =
  cc_APIServerPort :: int
  cc_APIServerIPList :: "string list"
  cc_AnalyticsServerPort :: int
  cc_AnalyticsServerIPList :: "string list"
  cc_CollectorPort :: int
  cc_CollectorServerIPList :: "string list"
  cc_RedisPort :: int
  cc_AuthMode :: string

record control_cluster =
  tc_XMPPPort :: int
  tc_BGPPort :: int
  tc_DNSPort :: int
  tc_DNSIntrospectPort :: int
  tc_ControlServerIPList :: "string list"

record zookeeper_cluster =
  zc_ClientPort :: int
  zc_ServerPort :: int
  zc_ElectionPort :: int
  zc_ServerIPList :: "string list"

record rabbitmq_cluster =
  rc_Port :: int
  rc_SSLPort :: int
  rc_ServerIPList :: "string list"
  rc_Secret :: string

record cassandra_cluster =
  sc_Port :: int
  sc_CQLPort :: int
  sc_JMXPort :: int
  sc_ServerIPList :: "string list"
  sc_Endpoint :: string

record keystone_cluster =
  kc_Endpoint :: string
  kc_Port :: int
  kc_AuthProtocol :: string
  kc_UserDomainName :: string

definition Config_FillWithDefaultValues :: "config_cluster \<Rightarrow> config_cluster" where
  "Config_FillWithDefaultValues c =
     c\<lparr>cc_APIServerPort := int_or (cc_APIServerPort c) ConfigApiPort,
       cc_AnalyticsServerPort := int_or (cc_AnalyticsServerPort c) AnalyticsApiPort,
       cc_CollectorPort := int_or (cc_CollectorPort c) CollectorPort,
       cc_RedisPort := int_or (cc_RedisPort c) RedisServerPort,
       cc_AuthMode := str_or (cc_AuthMode c) AuthenticationModeNoAuth\<rparr>"

definition Control_FillWithDefaultValues :: "control_cluster \<Rightarrow> control_cluster" where
  "Control_FillWithDefaultValues c =
     c\<lparr>tc_XMPPPort := int_or (tc_XMPPPort c) XmppServerPort,
       tc_BGPPort := int_or (tc_BGPPort c) BgpPort,
       tc_DNSPort := int_or (tc_DNSPort c) DnsServerPort,
       tc_DNSIntrospectPort := int_or (tc_DNSIntrospectPort c) DnsIntrospectPort\<rparr>"

definition Zookeeper_FillWithDefaultValues :: "zookeeper_cluster \<Rightarrow> zookeeper_cluster" where
  "Zookeeper_FillWithDefaultValues c =
     c\<lparr>zc_ClientPort := int_or (zc_ClientPort c) ZookeeperPort,
       zc_ElectionPort := int_or (zc_ElectionPort c) ZookeeperElectionPort,
       zc_ServerPort := int_or (zc_ServerPort c) ZookeeperServerPort\<rparr>"

definition Rabbitmq_FillWithDefaultValues :: "rabbitmq_cluster \<Rightarrow> rabbitmq_cluster" where
  "Rabbitmq_FillWithDefaultValues c =
     c\<lparr>rc_Port := int_or (rc_Port c) RabbitmqNodePort,
       rc_SSLPort := int_or (rc_SSLPort c) RabbitmqNodePortSSL\<rparr>"

definition Cassandra_FillWithDefaultValues :: "cassandra_cluster \<Rightarrow> cassandra_cluster" where
  "Cassandra_FillWithDefaultValues c =
     c\<lparr>sc_CQLPort := int_or (sc_CQLPort c) CassandraCqlPort,
       sc_JMXPort := int_or (sc_JMXPort c) CassandraJmxLocalPort,
       sc_Port := int_or (sc_Port c) CassandraPort\<rparr>"

definition Keystone_FillWithDefaultValues :: "keystone_cluster \<Rightarrow> keystone_cluster" where
  "Keystone_FillWithDefaultValues c =
     c\<lparr>kc_Port := int_or (kc_Port c) KeystoneAuthPublicPort,
       kc_AuthProtocol := (if kc_AuthProtocol c \<noteq> ''http'' \<and> kc_AuthProtocol c \<noteq> ''https''
                           then KeystoneAuthProto else kc_AuthProtocol c),
       kc_UserDomainName := str_or (kc_UserDomainName c) KeystoneAuthUserDomainName\<rparr>"

section \<open>Activity\<close>

text \<open>Resources found by name: any error counts as not active.\<close>

definition IsActive_by_name ::
  "('c cr, 's) kind_client \<Rightarrow> string \<Rightarrow> string \<Rightarrow> ('s, go_error, bool) go" where
  "IsActive_by_name kc name namespace =
     bindM (tryM (kc_Get kc (namespace, name))) (\<lambda>r.
       ret (case r of Inl _ \<Rightarrow> False | Inr c \<Rightarrow> is_active c))"

text \<open>Resources found by the label of their cluster: the first one of the list counts.\<close>

definition IsActive_by_label ::
  "('c cr, 's) kind_client \<Rightarrow> string \<Rightarrow> string \<Rightarrow> ('s, go_error, bool) go" where
  "IsActive_by_label kc name namespace =
     bindM (tryM (kc_List kc namespace [(''contrail_cluster'', name)])) (\<lambda>r.
       ret (case r of Inr (c # _) \<Rightarrow> is_active c | _ \<Rightarrow> False))"

definition Cassandra_IsActive ::
  "(cassandra_configuration cr, 's) kind_client \<Rightarrow> string \<Rightarrow> string \<Rightarrow> ('s, go_error, bool) go" where
  "Cassandra_IsActive = IsActive_by_name"
definition Zookeeper_IsActive ::
  "(zookeeper_configuration cr, 's) kind_client \<Rightarrow> string \<Rightarrow> string \<Rightarrow> ('s, go_error, bool) go" where
  "Zookeeper_IsActive = IsActive_by_name"
definition Control_IsActive ::
  "(control_configuration cr, 's) kind_client \<Rightarrow> string \<Rightarrow> string \<Rightarrow> ('s, go_error, bool) go" where
  "Control_IsActive = IsActive_by_name"
definition Keystone_IsActive ::
  "(keystone_configuration cr, 's) kind_client \<Rightarrow> string \<Rightarrow> string \<Rightarrow> ('s, go_error, bool) go" where
  "Keystone_IsActive = IsActive_by_name"
definition Rabbitmq_IsActive ::
  "(rabbitmq_configuration cr, 's) kind_client \<Rightarrow> string \<Rightarrow> string \<Rightarrow> ('s, go_error, bool) go" where
  "Rabbitmq_IsActive = IsActive_by_label"
definition Config_IsActive ::
  "(config_configuration cr, 's) kind_client \<Rightarrow> string \<Rightarrow> string \<Rightarrow> ('s, go_error, bool) go" where
  "Config_IsActive = IsActive_by_label"

section \<open>Reading the cluster configurations\<close>

definition node_ips :: "range_ord \<Rightarrow> 'c cr \<Rightarrow> string list" where
  "node_ips ord c = map snd (range_of ord (map_entries (st_Nodes (cr_status c))))"

definition NewCassandraClusterConfiguration ::
  "range_ord \<Rightarrow> (cassandra_configuration cr, 's) kind_client \<Rightarrow> string \<Rightarrow> string
    \<Rightarrow> ('s, go_error, cassandra_cluster) go" where
  "NewCassandraClusterConfiguration ord kc name namespace =
     bindM (kc_Get kc (namespace, name)) (\<lambda>c.
       let nodes = sort (node_ips ord c); conf = Cassandra_ConfigurationParameters c
       in bindM (deref_ptr (ca_Port conf)) (\<lambda>port.
          bindM (deref_ptr (ca_CqlPort conf)) (\<lambda>cqlPort.
          bindM (deref_ptr (ca_JmxLocalPort conf)) (\<lambda>jmxPort.
            ret \<lparr>sc_Port = port, sc_CQLPort = cqlPort, sc_JMXPort = jmxPort, sc_ServerIPList = nodes,
                 sc_Endpoint = st_ClusterIP (cr_status c) @ '':'' @ Itoa port\<rparr>))))"

text \<open>
  The Control nodes are looked up by name, by role, or by both; a role that no resource has gives
  the empty configuration.  \<open>acc\<close> is what the lookup by name left.
\<close>

definition no_control_cluster :: control_cluster where
  "no_control_cluster = \<lparr>tc_XMPPPort = 0, tc_BGPPort = 0, tc_DNSPort = 0, tc_DNSIntrospectPort = 0,
     tc_ControlServerIPList = []\<rparr>"

definition finish_control ::
  "string list \<Rightarrow> control_configuration \<Rightarrow> ('s, go_error, control_cluster) go" where
  "finish_control nodes conf =
     bindM (deref_ptr (ct_XMPPPort conf)) (\<lambda>xmpp.
     bindM (deref_ptr (ct_BGPPort conf)) (\<lambda>bgp.
     bindM (deref_ptr (ct_DNSPort conf)) (\<lambda>dns.
     bindM (deref_ptr (ct_DNSIntrospectPort conf)) (\<lambda>dnsi.
       ret \<lparr>tc_XMPPPort = xmpp, tc_BGPPort = bgp, tc_DNSPort = dns, tc_DNSIntrospectPort = dnsi,
            tc_ControlServerIPList = sort nodes\<rparr>))))"

definition NewControlClusterConfiguration ::
  "range_ord \<Rightarrow> (control_configuration cr, 's) kind_client \<Rightarrow> string \<Rightarrow> string \<Rightarrow> string
    \<Rightarrow> ('s, go_error, control_cluster) go" where
  "NewControlClusterConfiguration ord kc name role namespace =
     bindM (if name \<noteq> []
            then bindM (kc_Get kc (namespace, name)) (\<lambda>c.
                   ret (node_ips ord c, Control_ConfigurationParameters c))
            else ret ([], no_control_configuration)) (\<lambda>(nodes, conf).
       if role \<noteq> []
       then bindM (kc_List kc namespace [(''control_role'', role)]) (\<lambda>cs.
              case cs of
                [] \<Rightarrow> ret no_control_cluster
              | c # _ \<Rightarrow> finish_control (nodes @ node_ips ord c) (Control_ConfigurationParameters c))
       else finish_control nodes conf)"

definition NewZookeeperClusterConfiguration ::
  "range_ord \<Rightarrow> (zookeeper_configuration cr, 's) kind_client \<Rightarrow> string \<Rightarrow> string
    \<Rightarrow> ('s, go_error, zookeeper_cluster) go" where
  "NewZookeeperClusterConfiguration ord kc name namespace =
     bindM (kc_Get kc (namespace, name)) (\<lambda>c.
     bindM (deref_ptr (zk_ClientPort (Zookeeper_ConfigurationParameters c))) (\<lambda>port.
       ret \<lparr>zc_ClientPort = port, zc_ServerPort = 0, zc_ElectionPort = 0,
            zc_ServerIPList = sort (node_ips ord c)\<rparr>))"

definition NewRabbitmqClusterConfiguration ::
  "range_ord \<Rightarrow> (rabbitmq_configuration cr, 's) kind_client \<Rightarrow> string \<Rightarrow> string
    \<Rightarrow> ('s, go_error, rabbitmq_cluster) go" where
  "NewRabbitmqClusterConfiguration ord kc name namespace =
     bindM (kc_List kc namespace [(''contrail_cluster'', name)]) (\<lambda>cs.
       let (nodes, conf, secret) =
             (case cs of
                [] \<Rightarrow> ([], no_rabbitmq_configuration, [])
              | c # _ \<Rightarrow> (node_ips ord c, Rabbitmq_ConfigurationParameters c, st_Secret (cr_status c)))
       in bindM (deref_ptr (rb_Port conf)) (\<lambda>port.
          bindM (deref_ptr (rb_SSLPort conf)) (\<lambda>sslPort.
            ret \<lparr>rc_Port = port, rc_SSLPort = sslPort, rc_ServerIPList = sort nodes,
                 rc_Secret = secret\<rparr>)))"

definition NewConfigClusterConfiguration ::
  "range_ord \<Rightarrow> (config_configuration cr, 's) kind_client \<Rightarrow> string \<Rightarrow> string
    \<Rightarrow> ('s, go_error, config_cluster) go" where
  "NewConfigClusterConfiguration ord kc name namespace =
     bindM (kc_List kc namespace [(''contrail_cluster'', name)]) (\<lambda>cs.
     bindM (case cs of
              [] \<Rightarrow> ret ([], [], 0, 0, 0, 0)
            | c # _ \<Rightarrow>
                let conf = Config_ConfigurationParameters c
                in bindM (deref_ptr (cf_APIPort conf)) (\<lambda>apiPort.
                   bindM (deref_ptr (cf_AnalyticsPort conf)) (\<lambda>analyticsPort.
                   bindM (deref_ptr (cf_CollectorPort conf)) (\<lambda>collectorPort.
                   bindM (deref_ptr (cf_RedisPort conf)) (\<lambda>redisPort.
                     ret (node_ips ord c, cf_AuthMode conf, apiPort, analyticsPort, collectorPort,
                          redisPort)))))) (\<lambda>(nodes, authMode, api, analytics, collector, redis).
       let nodes = sort nodes
       in ret \<lparr>cc_APIServerPort = api, cc_APIServerIPList = nodes, cc_AnalyticsServerPort = analytics,
               cc_AnalyticsServerIPList = nodes, cc_CollectorPort = collector,
               cc_CollectorServerIPList = nodes, cc_RedisPort = redis, cc_AuthMode = authMode\<rparr>))"

definition NewKeystoneClusterConfiguration ::
  "(keystone_configuration cr, 's) kind_client \<Rightarrow> string \<Rightarrow> string
    \<Rightarrow> ('s, go_error, keystone_cluster) go" where
  "NewKeystoneClusterConfiguration kc name namespace =
     (if name = [] then ret \<lparr>kc_Endpoint = [], kc_Port = 0, kc_AuthProtocol = [], kc_UserDomainName = []\<rparr>
      else bindM (kc_Get kc (namespace, name)) (\<lambda>k.
             let conf = Keystone_ConfigurationParameters k
             in ret \<lparr>kc_Endpoint = st_Endpoint (cr_status k), kc_Port = ks_ListenPort conf,
                     kc_AuthProtocol = ks_AuthProtocol conf,
                     kc_UserDomainName = ks_UserDomainName conf\<rparr>))"

section \<open>Facts\<close>

lemma mset_range_of:
  assumes "range_perm ord"
  shows "mset (range_of ord m) = mset m"
proof -
  have "mset (ord (length m)) = mset [0..<length m]"
    using assms by (intro set_eq_iff_mset_eq_distinct [THEN iffD1]) (auto simp: range_perm_def)
  then have "mset (map ((!) m) (ord (length m))) = mset (map ((!) m) [0..<length m])"
    by (metis mset_map)
  then show ?thesis by (simp add: range_of_def map_nth)
qed

lemma sort_node_ips:
  assumes "range_perm ord"
  shows "sort (node_ips ord c) = sort (map snd (map_entries (st_Nodes (cr_status c))))"
proof (rule properties_for_sort)
  show "mset (sort (map snd (map_entries (st_Nodes (cr_status c))))) = mset (node_ips ord c)"
    using mset_range_of [OF assms, of "map_entries (st_Nodes (cr_status c))"]
    by (simp add: node_ips_def)
qed simp

lemma ptr_or_Some [simp]: "ptr_or p d = Some (case p of None \<Rightarrow> d | Some v \<Rightarrow> v)"
  by (simp add: ptr_or_def)

lemma int_or_fixed [simp]: "d \<noteq> 0 \<Longrightarrow> int_or n d \<noteq> 0" "int_or (int_or n d) d = int_or n d"
  by (simp_all add: int_or_def)

lemma str_or_fixed [simp]: "d \<noteq> [] \<Longrightarrow> str_or n d \<noteq> []" "str_or (str_or n d) d = str_or n d"
  by (simp_all add: str_or_def)

text \<open>A client whose reads leave the cluster as it is.\<close>

definition read_only :: "('o, 's) kind_client \<Rightarrow> bool" where
  "read_only kc \<longleftrightarrow> (\<forall>k s. snd (kc_Get kc k s) = s) \<and> (\<forall>ns ls s. snd (kc_List kc ns ls s) = s)"

lemma read_only_Get: "read_only kc \<Longrightarrow> kc_Get kc k s = (r, t) \<Longrightarrow> t = s"
  by (metis read_only_def snd_conv)

lemma read_only_List: "read_only kc \<Longrightarrow> kc_List kc ns ls s = (r, t) \<Longrightarrow> t = s"
  by (metis read_only_def snd_conv)

text \<open>\<open>errs_or_ok\<close>: the call neither panics nor ends the process.\<close>

definition errs_or_ok :: "('e, 'a) outcome \<Rightarrow> bool" where
  "errs_or_ok r \<longleftrightarrow> (case r of Ok _ \<Rightarrow> True | Err _ \<Rightarrow> True | _ \<Rightarrow> False)"

lemma errs_or_ok_simps [simp]:
  "errs_or_ok (Ok x)" "errs_or_ok (Err e)" "\<not> errs_or_ok (Panic p)" "\<not> errs_or_ok (Fatal p)"
  by (simp_all add: errs_or_ok_def)

lemma errs_or_ok_bindM:
  assumes "errs_or_ok (fst (m s))"
    and "\<And>x t. m s = (Ok x, t) \<Longrightarrow> errs_or_ok (fst (f x t))"
  shows "errs_or_ok (fst (bindM m f s))"
  using assms by (cases "m s"; cases "fst (m s)") (auto simp: bindM_def)

text \<open>The lookups that can not panic.\<close>

lemma NewCassandra_no_panic:
  assumes "errs_or_ok (fst (kc_Get kc (ns, name) s))"
  shows "errs_or_ok (fst (NewCassandraClusterConfiguration ord kc name ns s))"
  unfolding NewCassandraClusterConfiguration_def
  by (rule errs_or_ok_bindM [where m = "kc_Get kc (ns, name)", OF assms])
     (simp add: Let_def Cassandra_ConfigurationParameters_def)

lemma NewZookeeper_no_panic:
  assumes "errs_or_ok (fst (kc_Get kc (ns, name) s))"
  shows "errs_or_ok (fst (NewZookeeperClusterConfiguration ord kc name ns s))"
  unfolding NewZookeeperClusterConfiguration_def
  by (rule errs_or_ok_bindM [where m = "kc_Get kc (ns, name)", OF assms])
     (simp add: Let_def Zookeeper_ConfigurationParameters_def)

lemma NewKeystone_no_panic:
  assumes "name \<noteq> [] \<Longrightarrow> errs_or_ok (fst (kc_Get kc (ns, name) s))"
  shows "errs_or_ok (fst (NewKeystoneClusterConfiguration kc name ns s))"
proof (cases "name = []")
  case False
  then have "NewKeystoneClusterConfiguration kc name ns s = bindM (kc_Get kc (ns, name)) (\<lambda>k.
      ret \<lparr>kc_Endpoint = st_Endpoint (cr_status k), kc_Port = ks_ListenPort (Keystone_ConfigurationParameters k),
         kc_AuthProtocol = ks_AuthProtocol (Keystone_ConfigurationParameters k),
         kc_UserDomainName = ks_UserDomainName (Keystone_ConfigurationParameters k)\<rparr>) s"
    by (simp add: NewKeystoneClusterConfiguration_def Let_def)
  with False assms show ?thesis by (simp add: errs_or_ok_bindM)
qed (simp add: NewKeystoneClusterConfiguration_def)

lemma NewConfig_no_panic:
  assumes "errs_or_ok (fst (kc_List kc ns [(''contrail_cluster'', name)] s))"
  shows "errs_or_ok (fst (NewConfigClusterConfiguration ord kc name ns s))"
  unfolding NewConfigClusterConfiguration_def
proof (rule errs_or_ok_bindM [where m = "kc_List kc ns [(''contrail_cluster'', name)]", OF assms])
  fix cs t
  show "errs_or_ok (fst (bindM (case cs of [] \<Rightarrow> ret ([], [], 0, 0, 0, 0)
            | c # _ \<Rightarrow>
                let conf = Config_ConfigurationParameters c
                in bindM (deref_ptr (cf_APIPort conf)) (\<lambda>apiPort.
                   bindM (deref_ptr (cf_AnalyticsPort conf)) (\<lambda>analyticsPort.
                   bindM (deref_ptr (cf_CollectorPort conf)) (\<lambda>collectorPort.
                   bindM (deref_ptr (cf_RedisPort conf)) (\<lambda>redisPort.
                     ret (node_ips ord c, cf_AuthMode conf, apiPort, analyticsPort, collectorPort,
                          redisPort)))))) (\<lambda>(nodes, authMode, api, analytics, collector, redis).
       let nodes = sort nodes
       in ret \<lparr>cc_APIServerPort = api, cc_APIServerIPList = nodes, cc_AnalyticsServerPort = analytics,
               cc_AnalyticsServerIPList = nodes, cc_CollectorPort = collector,
               cc_CollectorServerIPList = nodes, cc_RedisPort = redis, cc_AuthMode = authMode\<rparr>) t))"
    by (cases cs) (simp_all add: Let_def Config_ConfigurationParameters_def)
qed

lemma NewRabbitmq_no_panic:
  assumes "kc_List kc ns [(''contrail_cluster'', name)] s = (r, t)" "errs_or_ok r" "r \<noteq> Ok []"
  shows "errs_or_ok (fst (NewRabbitmqClusterConfiguration ord kc name ns s))"
  unfolding NewRabbitmqClusterConfiguration_def
proof (rule errs_or_ok_bindM [where m = "kc_List kc ns [(''contrail_cluster'', name)]"])
  show "errs_or_ok (fst (kc_List kc ns [(''contrail_cluster'', name)] s))" using assms by simp
next
  fix cs u
  assume "kc_List kc ns [(''contrail_cluster'', name)] s = (Ok cs, u)"
  with assms obtain c cs' where "cs = c # cs'" by (cases cs) auto
  then show "errs_or_ok (fst ((let (nodes, conf, secret) =
             (case cs of [] \<Rightarrow> ([], no_rabbitmq_configuration, [])
              | c # _ \<Rightarrow> (node_ips ord c, Rabbitmq_ConfigurationParameters c, st_Secret (cr_status c)))
       in bindM (deref_ptr (rb_Port conf)) (\<lambda>port.
          bindM (deref_ptr (rb_SSLPort conf)) (\<lambda>sslPort.
            ret \<lparr>rc_Port = port, rc_SSLPort = sslPort, rc_ServerIPList = sort nodes,
                 rc_Secret = secret\<rparr>))) u))"
    by (simp add: Rabbitmq_ConfigurationParameters_def Let_def)
qed

lemma IsActive_by_label_True:
  assumes "IsActive_by_label kc name ns s = (Ok True, t)"
  shows "\<exists>c cs. kc_List kc ns [(''contrail_cluster'', name)] s = (Ok (c # cs), t) \<and> is_active c"
  using assms
  by (cases "kc_List kc ns [(''contrail_cluster'', name)] s"; cases "fst (kc_List kc ns [(''contrail_cluster'', name)] s)")
     (auto simp: IsActive_by_label_def bindM_def tryM_def split: list.splits)

lemma IsActive_by_name_True:
  assumes "IsActive_by_name kc name ns s = (Ok True, t)"
  shows "\<exists>c. kc_Get kc (ns, name) s = (Ok c, t) \<and> is_active c"
  using assms
  by (cases "kc_Get kc (ns, name) s"; cases "fst (kc_Get kc (ns, name) s)")
     (auto simp: IsActive_by_name_def bindM_def tryM_def)

section \<open>The order of the nodes does not matter\<close>

lemma sort_append_node_ips:
  assumes "range_perm ord" "range_perm ord'"
  shows "sort (node_ips ord c @ node_ips ord d) = sort (node_ips ord' c @ node_ips ord' d)"
proof (rule properties_for_sort)
  show "mset (sort (node_ips ord' c @ node_ips ord' d)) = mset (node_ips ord c @ node_ips ord d)"
    using assms by (simp add: node_ips_def mset_range_of)
qed simp

lemma New_order_independent:
  assumes o: "range_perm ord" "range_perm ord'"
  shows "NewCassandraClusterConfiguration ord kca n ns = NewCassandraClusterConfiguration ord' kca n ns"
    and "NewZookeeperClusterConfiguration ord kzk n ns = NewZookeeperClusterConfiguration ord' kzk n ns"
    and "NewRabbitmqClusterConfiguration ord krb n ns = NewRabbitmqClusterConfiguration ord' krb n ns"
    and "NewConfigClusterConfiguration ord kcf n ns = NewConfigClusterConfiguration ord' kcf n ns"
    and "NewControlClusterConfiguration ord kct n role ns = NewControlClusterConfiguration ord' kct n role ns"
proof -
  note s = sort_node_ips [OF o(1)] sort_node_ips [OF o(2)]
  show "NewCassandraClusterConfiguration ord kca n ns = NewCassandraClusterConfiguration ord' kca n ns"
    by (simp add: NewCassandraClusterConfiguration_def s)
  show "NewZookeeperClusterConfiguration ord kzk n ns = NewZookeeperClusterConfiguration ord' kzk n ns"
    by (simp add: NewZookeeperClusterConfiguration_def s)
  show "NewRabbitmqClusterConfiguration ord krb n ns = NewRabbitmqClusterConfiguration ord' krb n ns"
    unfolding NewRabbitmqClusterConfiguration_def
    by (intro arg_cong [where f = "bindM _"] ext) (simp add: s split: list.splits)
  show "NewConfigClusterConfiguration ord kcf n ns = NewConfigClusterConfiguration ord' kcf n ns"
    unfolding NewConfigClusterConfiguration_def
    by (intro arg_cong [where f = "bindM _"] ext) (simp add: s Let_def bindM_assoc split: list.splits)
  show "NewControlClusterConfiguration ord kct n role ns = NewControlClusterConfiguration ord' kct n role ns"
    by (simp add: NewControlClusterConfiguration_def finish_control_def s sort_append_node_ips [OF o]
        bindM_assoc cong: list.case_cong)
qed

end
