(* ===== verification/CertTemplates.thy ===== *)
theory CertTemplates
  imports K8s
begin

text \<open>
  \<open>pkg/certificates/certificate_templates.go\<close>, \<open>pem.go\<close>, the templates of
  \<open>certificate_subject.go\<close> and the generation of the signing certificate (\<open>cacertificate.go\<close>).

  The cryptography of the Go library, its random reader and the clock are the fields of
  \<open>crypto_lib\<close>: \<open>'key\<close> is an RSA key, \<open>'ip\<close> a \<open>net.IP\<close>, \<open>'cert\<close> a parsed certificate.  Times are
  nanoseconds.
\<close>

section \<open>The library\<close>

record 'ip cert_template =
  ct_SerialNumber :: int
  ct_BasicConstraintsValid :: bool
  ct_IsCA :: bool
  ct_CommonName :: string
  ct_Country :: "string list"
  ct_Province :: "string list"
  ct_Locality :: "string list"
  ct_Organization :: "string list"
  ct_OrganizationalUnit :: "string list"
  ct_DNSNames :: "string list"
  ct_IPAddresses :: "'ip list"
  ct_NotBefore :: int
  ct_NotAfter :: int
  ct_KeyUsage :: "string list"
  ct_ExtKeyUsage :: "string list"

record ('key, 'ip, 'cert, 's) crypto_lib =
  rsa_GenerateKey :: "int \<Rightarrow> ('s, go_error, 'key) go"
  rand_Int :: "int \<Rightarrow> ('s, go_error, int) go"
  time_Now :: "('s, go_error, int) go"
  net_ParseIP :: "string \<Rightarrow> 'ip"
  MarshalPKCS1PrivateKey :: "'key \<Rightarrow> string"
  pem_Encode :: "string \<Rightarrow> string \<Rightarrow> string"
  pem_Decode :: "string \<Rightarrow> string option"
  x509_ParseCertificate :: "string \<Rightarrow> go_error + 'cert"
  x509_ParsePKCS1PrivateKey :: "string \<Rightarrow> go_error + 'key"
  x509_CreateCertificate :: "'ip cert_template \<Rightarrow> ('ip cert_template + 'cert) \<Rightarrow> 'key \<Rightarrow> 'key
    \<Rightarrow> ('s, go_error, string) go"

text \<open>\<open>fmt.Errorf("...: %w", err)\<close> around a call.\<close>

definition wrapping :: "string \<Rightarrow> ('s, go_error, 'a) go \<Rightarrow> ('s, go_error, 'a) go" where
  "wrapping msg m =
     bindM (tryM m) (\<lambda>r. case r of
       Inr x \<Rightarrow> ret x | Inl err \<Rightarrow> throw (errors_New (msg @ '': '' @ error_text err)))"

lemma wrapping_Ok_iff [go_simps]: "wrapping msg m s = (Ok x, s') \<longleftrightarrow> m s = (Ok x, s')"
  by (auto simp: wrapping_def bindM_def tryM_def split: prod.splits outcome.splits)

lemma wrapping_ret [simp]: "wrapping msg (ret x) = ret x"
  by (simp add: wrapping_def bindM_def tryM_def fun_eq_iff)

lemma preserves_wrapping [preserves_intros]: "preserves I m \<Longrightarrow> preserves I (wrapping msg m)"
  unfolding wrapping_def by (intro preserves_intros)

section \<open>Constants\<close>

definition caCommonName :: string where "caCommonName = ''contrail-signer''"
definition hour :: int where "hour = 3600 * 10 ^ 9"
definition caCertValidityPeriod :: int where "caCertValidityPeriod = 10 * 365 * 24 * hour"
definition certValidityPeriod :: int where "certValidityPeriod = 10 * 365 * 24 * hour"
definition caCertKeyLength :: int where "caCertKeyLength = 2048"
definition certKeyLength :: int where "certKeyLength = 2048"
definition certificatePemType :: string where "certificatePemType = ''CERTIFICATE''"
definition privateKeyPemType :: string where "privateKeyPemType = ''RSA PRIVATE KEY''"

section \<open>PEM\<close>

text \<open>A value that holds no PEM block gives the block \<open>nil\<close> without an error.\<close>

definition getAndDecodePem ::
  "('key, 'ip, 'cert, 's) crypto_lib \<Rightarrow> string_map \<Rightarrow> string \<Rightarrow> ('s, go_error, string option) go" where
  "getAndDecodePem cy data key =
     (case map_of (map_entries data) key of
        None \<Rightarrow> throw (errors_New ''pem block %s not found data map'')
      | Some pemData \<Rightarrow> ret (pem_Decode cy pemData))"

definition encodeInPemFormat ::
  "('key, 'ip, 'cert, 's) crypto_lib \<Rightarrow> string \<Rightarrow> string \<Rightarrow> ('s, go_error, string) go" where
  "encodeInPemFormat cy buff pemType = ret (pem_Encode cy pemType buff)"

section \<open>Templates\<close>

definition generateSerialNumber ::
  "('key, 'ip, 'cert, 's) crypto_lib \<Rightarrow> ('s, go_error, int) go" where
  "generateSerialNumber cy = rand_Int cy (2 ^ 128)"

definition generateCaCertificateTemplate ::
  "('key, 'ip, 'cert, 's) crypto_lib \<Rightarrow> ('s, go_error, 'ip cert_template \<times> 'key) go" where
  "generateCaCertificateTemplate cy =
     bindM (wrapping ''failed to generate private key'' (rsa_GenerateKey cy caCertKeyLength)) (\<lambda>caPrivKey.
     bindM (time_Now cy) (\<lambda>notBefore.
     bindM (wrapping ''failed to generate serial number'' (generateSerialNumber cy)) (\<lambda>serialNumber.
       ret (\<lparr>ct_SerialNumber = serialNumber, ct_BasicConstraintsValid = True, ct_IsCA = True,
             ct_CommonName = caCommonName, ct_Country = [''US''], ct_Province = [''CA''],
             ct_Locality = [''Sunnyvale''], ct_Organization = [''Juniper Networks''],
             ct_OrganizationalUnit = [''Contrail''], ct_DNSNames = [], ct_IPAddresses = [],
             ct_NotBefore = notBefore, ct_NotAfter = notBefore + caCertValidityPeriod,
             ct_KeyUsage = [''KeyEncipherment'', ''DigitalSignature'', ''CertSign''],
             ct_ExtKeyUsage = []\<rparr>, caPrivKey))))"

record cert_subject =
  subj_name :: string
  subj_hostname :: string
  subj_ip :: string
  subj_alternativeIPs :: "string list"

definition generateCertificateTemplate ::
  "('key, 'ip, 'cert, 's) crypto_lib \<Rightarrow> cert_subject \<Rightarrow> ('s, go_error, 'ip cert_template \<times> 'key) go" where
  "generateCertificateTemplate cy c =
     bindM (wrapping ''failed to generate private key'' (rsa_GenerateKey cy certKeyLength)) (\<lambda>certPrivKey.
     bindM (time_Now cy) (\<lambda>notBefore.
     bindM (wrapping ''fail to generate serial number'' (generateSerialNumber cy)) (\<lambda>serialNumber.
       ret (\<lparr>ct_SerialNumber = serialNumber, ct_BasicConstraintsValid = False, ct_IsCA = False,
             ct_CommonName = subj_ip c, ct_Country = [''US''], ct_Province = [''CA''],
             ct_Locality = [''Sunnyvale''], ct_Organization = [''Juniper Networks''],
             ct_OrganizationalUnit = [''Contrail''], ct_DNSNames = [subj_hostname c],
             ct_IPAddresses = net_ParseIP cy (subj_ip c) # map (net_ParseIP cy) (subj_alternativeIPs c),
             ct_NotBefore = notBefore, ct_NotAfter = notBefore + certValidityPeriod,
             ct_KeyUsage = [''KeyEncipherment'', ''DigitalSignature''],
             ct_ExtKeyUsage = [''ServerAuth'', ''ClientAuth'']\<rparr>, certPrivKey))))"

section \<open>The signing certificate\<close>

definition generateCaCertificate ::
  "('key, 'ip, 'cert, 's) crypto_lib \<Rightarrow> ('s, go_error, string \<times> string) go" where
  "generateCaCertificate cy =
     bindM (wrapping ''failed to create certificate template'' (generateCaCertificateTemplate cy))
       (\<lambda>(caCertTemplate, caPrivKey).
     bindM (wrapping ''failed to create certificate''
              (x509_CreateCertificate cy caCertTemplate (Inl caCertTemplate) caPrivKey caPrivKey)) (\<lambda>caCertBits.
     bindM (wrapping ''failed to encode certificate with pem format''
              (encodeInPemFormat cy caCertBits certificatePemType)) (\<lambda>caCertPem.
     bindM (wrapping ''failed to encode private key with pem format''
              (encodeInPemFormat cy (MarshalPKCS1PrivateKey cy caPrivKey) privateKeyPemType)) (\<lambda>caCertPrivKeyPem.
       ret (caCertPem, caCertPrivKeyPem)))))"

end
