(* ===== verification/Secrets.thy ===== *)
theory Secrets
  imports CertTemplates
begin

text \<open>
  \<open>pkg/k8s/secret.go\<close>, \<open>pkg/certificates/cacertificate.go\<close> and
  \<open>pkg/controller/manager/manager_keystone_secret.go\<close>: secrets that are created once and then
  kept.  The random password and the generation of the certificate are arguments: they need
  \<open>crypto/rand\<close>, \<open>crypto/x509\<close> and the clock.
\<close>

section \<open>Secrets\<close>

record k_secret =
  sec_meta :: object_meta
  sec_Data :: string_map
  sec_StringData :: string_map
  sec_Type :: string

definition owner_labels :: "string \<Rightarrow> string \<Rightarrow> (string, string) gomap" where
  "owner_labels ownerType name = AList.update ownerType name [(''contrail_manager'', ownerType)]"

definition createNewOrGetExistingSecret ::
  "k8s_lib \<Rightarrow> (k_secret, 's) kind_client \<Rightarrow> string \<Rightarrow> string \<Rightarrow> object_meta
    \<Rightarrow> ('s, go_error, k_secret) go" where
  "createNewOrGetExistingSecret lib kc name ownerType owner =
     bindM (tryM (kc_Get kc (om_Namespace owner, name))) (\<lambda>r.
       case r of
         Inr secret \<Rightarrow> ret secret
       | Inl err \<Rightarrow>
           if IsNotFound lib err
           then bindM (sum_result (SetControllerReference lib owner
                   (new_meta\<lparr>om_Name := name, om_Namespace := om_Namespace owner,
                      om_Labels := Some (owner_labels ownerType (om_Name owner))\<rparr>))) (\<lambda>m.
                  kc_Create kc \<lparr>sec_meta = m, sec_Data = Some [], sec_StringData = None, sec_Type = []\<rparr>)
           else throw err)"

text \<open>\<open>EnsureExists\<close> with a \<open>SecretFiller\<close>.\<close>

definition Secret_EnsureExists ::
  "k8s_lib \<Rightarrow> (k_secret, 's) kind_client \<Rightarrow> string \<Rightarrow> string \<Rightarrow> object_meta
    \<Rightarrow> (k_secret \<Rightarrow> ('s, go_error, k_secret) go) \<Rightarrow> ('s, go_error, unit) go" where
  "Secret_EnsureExists lib kc name ownerType owner FillSecret =
     bindM (createNewOrGetExistingSecret lib kc name ownerType owner) (\<lambda>secret.
     bindM (kc_CreateOrUpdate kc secret FillSecret) (\<lambda>_. ret ()))"

section \<open>The admin password\<close>

definition admin_FillSecret :: "string \<Rightarrow> k_secret \<Rightarrow> ('s, go_error, k_secret) go" where
  "admin_FillSecret pass sc =
     (if sec_Data sc \<noteq> None then ret sc
      else ret (sc\<lparr>sec_StringData := Some [(''password'', pass)]\<rparr>))"

definition ensureAdminPassSecretExist ::
  "k8s_lib \<Rightarrow> (k_secret, 's) kind_client \<Rightarrow> string \<Rightarrow> string \<Rightarrow> object_meta
    \<Rightarrow> ('s, go_error, unit) go" where
  "ensureAdminPassSecretExist lib kc pass secretName manager =
     Secret_EnsureExists lib kc secretName ''manager'' manager (admin_FillSecret pass)"

section \<open>The signing certificate\<close>

definition SignerCAConfigMapName :: string where
  "SignerCAConfigMapName = ''csr-signer-ca''"

definition SignerCAFilename :: string where
  "SignerCAFilename = ''ca-bundle.crt''"

definition caSecretName :: string where
  "caSecretName = ''contrail-ca-certificate''"

definition signerCAPrivateKeyFilename :: string where
  "signerCAPrivateKeyFilename = ''ca-priv-key.pem''"

definition caCertExistsInSecret :: "k_secret \<Rightarrow> bool" where
  "caCertExistsInSecret secret =
     (case sec_Data secret of
        None \<Rightarrow> False
      | Some d \<Rightarrow> map_of d SignerCAFilename \<noteq> None \<and> map_of d signerCAPrivateKeyFilename \<noteq> None)"

text \<open>\<open>generate\<close> is \<open>generateCaCertificate\<close> with its library: certificate and private key.\<close>

definition ca_FillSecret ::
  "('s, go_error, string \<times> string) go \<Rightarrow> k_secret \<Rightarrow> ('s, go_error, k_secret) go" where
  "ca_FillSecret generate secret =
     (if caCertExistsInSecret secret then ret secret
      else bindM (wrapping ''failed to generate ca certificate'' generate) (\<lambda>(caCert, caCertPrivKey).
             ret (secret\<lparr>sec_Data := Some [(SignerCAFilename, caCert),
                                           (signerCAPrivateKeyFilename, caCertPrivKey)]\<rparr>)))"

definition CACertificate_EnsureExists ::
  "k8s_lib \<Rightarrow> (k_secret, 's) kind_client \<Rightarrow> ('s, go_error, string \<times> string) go \<Rightarrow> string \<Rightarrow> object_meta
    \<Rightarrow> ('s, go_error, unit) go" where
  "CACertificate_EnsureExists lib kc generate ownerType owner =
     Secret_EnsureExists lib kc caSecretName ownerType owner (ca_FillSecret generate)"

definition GetCaCert ::
  "(k_secret, 's) kind_client \<Rightarrow> object_meta \<Rightarrow> ('s, go_error, string) go" where
  "GetCaCert kc owner =
     bindM (kc_Get kc (om_Namespace owner, caSecretName)) (\<lambda>secret.
       ret (case map_of (map_entries (sec_Data secret)) SignerCAFilename of None \<Rightarrow> [] | Some c \<Rightarrow> c))"

section \<open>A certificate that is there is kept\<close>

lemma ca_FillSecret_exists:
  assumes "ca_FillSecret generate secret s = (Ok secret', s')"
  shows "caCertExistsInSecret secret' \<and> (caCertExistsInSecret secret \<longrightarrow> secret' = secret)"
  using assms
  by (auto simp: ca_FillSecret_def go_simps caCertExistsInSecret_def SignerCAFilename_def
      signerCAPrivateKeyFilename_def split: if_splits sum.splits prod.splits)

text \<open>
  \<open>EnsureExists\<close> on a secret that is there: the filler gets that secret, and what it returns is
  written under the same name.
\<close>

lemma Secret_EnsureExists_existing:
  assumes srv: "kind_server lib kc sec_meta objects"
    and run: "Secret_EnsureExists lib kc name ty owner fill s = (Ok u, s')"
    and old: "objects s (om_Namespace owner, name) = Some secret"
    and key: "key_of (sec_meta secret) = (om_Namespace owner, name)"
  shows "\<exists>secret' w. fill secret s = (Ok secret', w) \<and>
     objects s' = (objects w)((om_Namespace owner, name) \<mapsto> secret')"
proof -
  from run obtain sec t sec' where c: "createNewOrGetExistingSecret lib kc name ty owner s = (Ok sec, t)"
    and f: "kc_CreateOrUpdate kc sec fill t = (Ok sec', s')"
    by (auto simp: Secret_EnsureExists_def go_simps)
  have get: "kc_Get kc (om_Namespace owner, name) s = (Ok sec, t)"
  proof (cases "kc_Get kc (om_Namespace owner, name) s")
    case (Pair r w)
    then show ?thesis
      using c kind_server.Get_Err [OF srv] old
      by (cases r) (auto simp: createNewOrGetExistingSecret_def bindM_def tryM_def split: if_splits)
  qed
  with kind_server.Get_Ok [OF srv this] old have "sec = secret" "t = s" by auto
  with kind_server.CreateOrUpdate_Ok [OF srv f] key old show ?thesis by auto
qed

text \<open>
  On a client that keeps the contract, a call that returns no error leaves a secret with a
  certificate, and it is the one that was there before if there was one.
\<close>

lemma CACertificate_EnsureExists_keeps:
  assumes srv: "kind_server lib kc sec_meta objects"
    and run: "CACertificate_EnsureExists lib kc gen ty owner s = (Ok u, s')"
    and old: "objects s (om_Namespace owner, caSecretName) = Some secret"
    and key: "key_of (sec_meta secret) = (om_Namespace owner, caSecretName)"
  shows "\<exists>secret'. objects s' (om_Namespace owner, caSecretName) = Some secret' \<and>
     caCertExistsInSecret secret' \<and> (caCertExistsInSecret secret \<longrightarrow> secret' = secret)"
proof -
  from Secret_EnsureExists_existing [OF srv run [unfolded CACertificate_EnsureExists_def] old key]
  obtain sec' w where f: "ca_FillSecret gen secret s = (Ok sec', w)"
    and o: "objects s' = (objects w)((om_Namespace owner, caSecretName) \<mapsto> sec')" by auto
  from ca_FillSecret_exists [OF f] o show ?thesis by auto
qed

end
