(* ===== verification/ManagerTypes.thy ===== *)
theory ManagerTypes
  imports ClusterConf Secrets
begin

text \<open>
  \<open>manager_types.go\<close> and the service configurations of the resources that the manager creates:
  the Manager resource with its services and its status.  A service of the manager's spec is its
  metadata and its spec (\<open>service\<close>); for ProvisionManager, Kubemanager and Vrouter the type of the
  service differs from the type of the resource that is made of it.
\<close>

section \<open>The other service configurations\<close>

record webui_configuration =
  wu_Containers :: "container list"
  wu_CassandraInstance :: string
  wu_ServiceAccount :: string
  wu_ClusterRole :: string
  wu_ClusterRoleBinding :: string
  wu_KeystoneSecretName :: string
  wu_KeystoneInstance :: string

record global_vrouter_configuration =
  gc_EcmpHashingIncludeFields :: ecmp_hashing_include_fields
  gc_EncapsulationPriorities :: string
  gc_VxlanNetworkIdentifierMode :: string

record provisionmanager_configuration =
  pm_Containers :: "container list"
  pm_KeystoneSecretName :: string
  pm_KeystoneInstance :: string
  pm_GlobalVrouterConfiguration :: global_vrouter_configuration

record provisionmanager_service_configuration =
  ps_ProvisionManagerConfiguration :: provisionmanager_configuration
  ps_ConfigNodesConfiguration :: "config_cluster option"

record kubemanager_configuration =
  km_Containers :: "container list"
  km_UseKubeadmConfig :: "bool option"
  km_ServiceAccount :: string
  km_ClusterRole :: string
  km_ClusterRoleBinding :: string
  km_CloudOrchestrator :: string
  km_KubernetesAPIServer :: string
  km_KubernetesAPIPort :: "int option"
  km_KubernetesAPISSLPort :: "int option"
  km_PodSubnets :: string
  km_ServiceSubnets :: string
  km_KubernetesClusterName :: string
  km_IPFabricSubnets :: string
  km_IPFabricForwarding :: "bool option"
  km_IPFabricSnat :: "bool option"
  km_KubernetesTokenFile :: string
  km_HostNetworkService :: "bool option"
  km_RabbitmqUser :: string
  km_RabbitmqPassword :: string
  km_RabbitmqVhost :: string
  km_AuthMode :: string

record kubemanager_service_configuration =
  kn_KubemanagerConfiguration :: kubemanager_configuration
  kn_ConfigNodesConfiguration :: "config_cluster option"
  kn_RabbbitmqNodesConfiguration :: "rabbitmq_cluster option"
  kn_CassandraNodesConfiguration :: "cassandra_cluster option"
  kn_ZookeeperNodesConfiguration :: "zookeeper_cluster option"
  kn_KeystoneNodesConfiguration :: "keystone_cluster option"

record kubemanager_manager_configuration =
  kmm_CassandraInstance :: string
  kmm_ZookeeperInstance :: string
  kmm_KeystoneInstance :: string
  kmm_KubemanagerConfiguration :: kubemanager_configuration

record vrouter_configuration =
  vc_Containers :: "container list"
  vc_Gateway :: string
  vc_PhysicalInterface :: string
  vc_MetaDataSecret :: string
  vc_NodeManager :: "bool option"
  vc_Distribution :: "string option"
  vc_ServiceAccount :: string
  vc_ClusterRole :: string
  vc_ClusterRoleBinding :: string
  vc_VrouterEncryption :: bool
  vc_ContrailStatusImage :: string
  vc_EnvVariablesConfig :: string_map

record vrouter_service_configuration =
  vs_VrouterConfiguration :: vrouter_configuration
  vs_ControlNodesConfiguration :: "control_cluster option"
  vs_ConfigNodesConfiguration :: "config_cluster option"

record vrouter_manager_configuration =
  vm_ControlInstance :: string
  vm_VrouterConfiguration :: vrouter_configuration

record postgres_configuration =
  pg_ListenPort :: int
  pg_RootPassSecretName :: string
  pg_ReplicationPassSecretName :: string
  pg_Containers :: "container list"
  pg_Storage :: storage

record command_configuration =
  cd_ClusterName :: string
  cd_PostgresInstance :: string
  cd_SwiftInstance :: string
  cd_KeystoneInstance :: string
  cd_ConfigInstance :: string
  cd_WebUIInstance :: string
  cd_KeystoneSecretName :: string
  cd_ContrailVersion :: string
  cd_Containers :: "container list"
  cd_Endpoints :: "(string \<times> string \<times> string) list"

record swift_storage_configuration =
  ss_AccountBindPort :: int
  ss_ContainerBindPort :: int
  ss_ObjectBindPort :: int
  ss_SwiftConfSecretName :: string
  ss_RingConfigMapName :: string
  ss_Device :: string
  ss_Containers :: "container list"
  ss_Storage :: storage

record swift_proxy_configuration =
  sp_MemcachedInstance :: string
  sp_ListenPort :: int
  sp_KeystoneInstance :: string
  sp_KeystoneSecretName :: string
  sp_CredentialsSecretName :: string
  sp_SwiftConfSecretName :: string
  sp_RingConfigMapName :: string
  sp_Containers :: "container list"
  sp_ServiceType :: string
  sp_ServiceAnnotations :: string_map
  sp_SwiftServiceName :: string

record swift_configuration =
  sw_Containers :: "container list"
  sw_RingsStorage :: storage
  sw_SwiftStorageConfiguration :: swift_storage_configuration
  sw_SwiftProxyConfiguration :: swift_proxy_configuration
  sw_CredentialsSecretName :: string

record memcached_configuration =
  md_Containers :: "container list"
  md_ListenPort :: int
  md_ConnectionLimit :: int
  md_MaxMemory :: int

record monitor_configuration =
  mn_MemcachedInstance :: string
  mn_PostgresInstance :: string
  mn_CassandraInstance :: string
  mn_KeystoneInstance :: string
  mn_ConfigInstance :: string
  mn_ZookeeperInstance :: string
  mn_RabbitmqInstance :: string
  mn_ProvisionmanagerInstance :: string
  mn_CommandInstance :: string
  mn_ControlInstance :: string
  mn_WebuiInstance :: string

record contrailcni_configuration =
  cn_Containers :: "container list"
  cn_ControlInstance :: string
  cn_CniMetaPlugin :: string
  cn_VrouterIP :: string
  cn_VrouterPort :: "int option"
  cn_PollTimeout :: "int option"
  cn_PollRetries :: "int option"
  cn_LogLevel :: "int option"

text \<open>The zero values.\<close>

definition no_ecmp_hashing_include_fields :: ecmp_hashing_include_fields where
  "no_ecmp_hashing_include_fields = \<lparr>HashingConfigured = False, SourceIp = False, DestinationIp = False,
     IpProtocol = False, SourcePort = False, DestinationPort = False\<rparr>"

definition no_webui_configuration :: webui_configuration where
  "no_webui_configuration =
    \<lparr>wu_Containers = [], wu_CassandraInstance = [], wu_ServiceAccount = [], wu_ClusterRole = [],
     wu_ClusterRoleBinding = [], wu_KeystoneSecretName = [], wu_KeystoneInstance = []\<rparr>"

definition no_global_vrouter_configuration :: global_vrouter_configuration where
  "no_global_vrouter_configuration =
    \<lparr>gc_EcmpHashingIncludeFields = no_ecmp_hashing_include_fields, gc_EncapsulationPriorities = [],
     gc_VxlanNetworkIdentifierMode = []\<rparr>"

definition no_provisionmanager_configuration :: provisionmanager_configuration where
  "no_provisionmanager_configuration =
    \<lparr>pm_Containers = [], pm_KeystoneSecretName = [], pm_KeystoneInstance = [],
     pm_GlobalVrouterConfiguration = no_global_vrouter_configuration\<rparr>"

definition no_provisionmanager_service_configuration :: provisionmanager_service_configuration where
  "no_provisionmanager_service_configuration =
    \<lparr>ps_ProvisionManagerConfiguration = no_provisionmanager_configuration,
     ps_ConfigNodesConfiguration = None\<rparr>"

definition no_kubemanager_configuration :: kubemanager_configuration where
  "no_kubemanager_configuration =
    \<lparr>km_Containers = [], km_UseKubeadmConfig = None, km_ServiceAccount = [], km_ClusterRole = [],
     km_ClusterRoleBinding = [], km_CloudOrchestrator = [], km_KubernetesAPIServer = [],
     km_KubernetesAPIPort = None, km_KubernetesAPISSLPort = None, km_PodSubnets = [],
     km_ServiceSubnets = [], km_KubernetesClusterName = [], km_IPFabricSubnets = [],
     km_IPFabricForwarding = None, km_IPFabricSnat = None, km_KubernetesTokenFile = [],
     km_HostNetworkService = None, km_RabbitmqUser = [], km_RabbitmqPassword = [], km_RabbitmqVhost
     = [], km_AuthMode = []\<rparr>"

definition no_kubemanager_service_configuration :: kubemanager_service_configuration where
  "no_kubemanager_service_configuration =
    \<lparr>kn_KubemanagerConfiguration = no_kubemanager_configuration, kn_ConfigNodesConfiguration = None,
     kn_RabbbitmqNodesConfiguration = None, kn_CassandraNodesConfiguration = None,
     kn_ZookeeperNodesConfiguration = None, kn_KeystoneNodesConfiguration = None\<rparr>"

definition no_kubemanager_manager_configuration :: kubemanager_manager_configuration where
  "no_kubemanager_manager_configuration =
    \<lparr>kmm_CassandraInstance = [], kmm_ZookeeperInstance = [], kmm_KeystoneInstance = [],
     kmm_KubemanagerConfiguration = no_kubemanager_configuration\<rparr>"

definition no_vrouter_configuration :: vrouter_configuration where
  "no_vrouter_configuration =
    \<lparr>vc_Containers = [], vc_Gateway = [], vc_PhysicalInterface = [], vc_MetaDataSecret = [],
     vc_NodeManager = None, vc_Distribution = None, vc_ServiceAccount = [], vc_ClusterRole = [],
     vc_ClusterRoleBinding = [], vc_VrouterEncryption = False, vc_ContrailStatusImage = [],
     vc_EnvVariablesConfig = None\<rparr>"

definition no_vrouter_service_configuration :: vrouter_service_configuration where
  "no_vrouter_service_configuration =
    \<lparr>vs_VrouterConfiguration = no_vrouter_configuration, vs_ControlNodesConfiguration = None,
     vs_ConfigNodesConfiguration = None\<rparr>"

definition no_vrouter_manager_configuration :: vrouter_manager_configuration where
  "no_vrouter_manager_configuration =
    \<lparr>vm_ControlInstance = [], vm_VrouterConfiguration = no_vrouter_configuration\<rparr>"

definition no_postgres_configuration :: postgres_configuration where
  "no_postgres_configuration =
    \<lparr>pg_ListenPort = 0, pg_RootPassSecretName = [], pg_ReplicationPassSecretName = [], pg_Containers
     = [], pg_Storage = no_storage\<rparr>"

definition no_command_configuration :: command_configuration where
  "no_command_configuration =
    \<lparr>cd_ClusterName = [], cd_PostgresInstance = [], cd_SwiftInstance = [], cd_KeystoneInstance = [],
     cd_ConfigInstance = [], cd_WebUIInstance = [], cd_KeystoneSecretName = [], cd_ContrailVersion =
     [], cd_Containers = [], cd_Endpoints = []\<rparr>"

definition no_swift_storage_configuration :: swift_storage_configuration where
  "no_swift_storage_configuration =
    \<lparr>ss_AccountBindPort = 0, ss_ContainerBindPort = 0, ss_ObjectBindPort = 0, ss_SwiftConfSecretName
     = [], ss_RingConfigMapName = [], ss_Device = [], ss_Containers = [], ss_Storage = no_storage\<rparr>"

definition no_swift_proxy_configuration :: swift_proxy_configuration where
  "no_swift_proxy_configuration =
    \<lparr>sp_MemcachedInstance = [], sp_ListenPort = 0, sp_KeystoneInstance = [], sp_KeystoneSecretName =
     [], sp_CredentialsSecretName = [], sp_SwiftConfSecretName = [], sp_RingConfigMapName = [],
     sp_Containers = [], sp_ServiceType = [], sp_ServiceAnnotations = None, sp_SwiftServiceName = []\<rparr>"

definition no_swift_configuration :: swift_configuration where
  "no_swift_configuration =
    \<lparr>sw_Containers = [], sw_RingsStorage = no_storage, sw_SwiftStorageConfiguration =
     no_swift_storage_configuration, sw_SwiftProxyConfiguration = no_swift_proxy_configuration,
     sw_CredentialsSecretName = []\<rparr>"

definition no_memcached_configuration :: memcached_configuration where
  "no_memcached_configuration =
    \<lparr>md_Containers = [], md_ListenPort = 0, md_ConnectionLimit = 0, md_MaxMemory = 0\<rparr>"

definition no_monitor_configuration :: monitor_configuration where
  "no_monitor_configuration =
    \<lparr>mn_MemcachedInstance = [], mn_PostgresInstance = [], mn_CassandraInstance = [],
     mn_KeystoneInstance = [], mn_ConfigInstance = [], mn_ZookeeperInstance = [],
     mn_RabbitmqInstance = [], mn_ProvisionmanagerInstance = [], mn_CommandInstance = [],
     mn_ControlInstance = [], mn_WebuiInstance = []\<rparr>"

definition no_contrailcni_configuration :: contrailcni_configuration where
  "no_contrailcni_configuration =
    \<lparr>cn_Containers = [], cn_ControlInstance = [], cn_CniMetaPlugin = [], cn_VrouterIP = [],
     cn_VrouterPort = None, cn_PollTimeout = None, cn_PollRetries = None, cn_LogLevel = None\<rparr>"

definition Swift_SetDefaultValues :: "swift_configuration \<Rightarrow> swift_configuration" where
  "Swift_SetDefaultValues c =
     c\<lparr>sw_SwiftProxyConfiguration := (sw_SwiftProxyConfiguration c)
         \<lparr>sp_SwiftServiceName := str_or (sp_SwiftServiceName (sw_SwiftProxyConfiguration c)) ''swift''\<rparr>\<rparr>"

section \<open>The Manager resource\<close>

text \<open>
  \<open>v1alpha1.ObjectMeta\<close> and the conversion to the metadata of Kubernetes.  The common
  configuration of a ContrailCNI (\<open>CNIPodConfiguration\<close>) is the manager's record.
\<close>

record service_meta =
  sm_Name :: string
  sm_Namespace :: string
  sm_Labels :: string_map

definition ToMeta :: "service_meta \<Rightarrow> object_meta" where
  "ToMeta o1 = new_meta\<lparr>om_Name := sm_Name o1, om_Namespace := sm_Namespace o1, om_Labels := sm_Labels o1\<rparr>"

record 'c service =
  sv_meta :: service_meta
  sv_common :: pod_configuration
  sv_conf :: 'c

record cni_service =
  cni_meta :: service_meta
  cni_common :: manager_configuration
  cni_conf :: contrailcni_configuration

record monitor_service =
  mon_meta :: service_meta
  mon_conf :: monitor_configuration

record services =
  Config :: "config_configuration service option"
  Controls :: "control_configuration service list"
  Kubemanagers :: "kubemanager_manager_configuration service list"
  Webui :: "webui_configuration service option"
  Vrouters :: "vrouter_manager_configuration service list"
  Cassandras :: "cassandra_configuration service list"
  Zookeepers :: "zookeeper_configuration service list"
  Rabbitmq :: "rabbitmq_configuration service option"
  ProvisionManager :: "provisionmanager_configuration service option"
  Command :: "command_configuration service option"
  Postgres :: "postgres_configuration service option"
  Keystone :: "keystone_configuration service option"
  Swift :: "swift_configuration service option"
  Memcached :: "memcached_configuration service option"
  Contrailmonitor :: "monitor_service option"
  ContrailCNIs :: "cni_service list"

record service_status =
  ss_Name :: "string option"
  ss_Active :: "bool option"

text \<open>\<open>ServiceStatus.ready\<close>, called on a pointer that may be \<open>nil\<close>.\<close>

definition ready :: "service_status option \<Rightarrow> bool" where
  "ready ss =
     (case ss of
        None \<Rightarrow> False
      | Some st \<Rightarrow> (case ss_Active st of None \<Rightarrow> False | Some b \<Rightarrow> b))"

record manager_status =
  ms_Config :: "service_status option"
  ms_Controls :: "service_status list"
  ms_Kubemanagers :: "service_status list"
  ms_Webui :: "service_status option"
  ms_Vrouters :: "service_status list"
  ms_Cassandras :: "service_status list"
  ms_Zookeepers :: "service_status list"
  ms_Rabbitmq :: "service_status option"
  ms_ProvisionManager :: "service_status option"
  ms_Keystone :: "service_status option"
  ms_Postgres :: "service_status option"
  ms_Swift :: "service_status option"
  ms_Command :: "service_status option"
  ms_Memcached :: "service_status option"
  ms_Contrailmonitor :: "service_status option"
  ms_ContrailCNIs :: "service_status list"
  ms_Conditions :: "(string \<times> string) list"

record manager =
  mg_meta :: object_meta
  mg_common :: manager_configuration
  mg_services :: services
  mg_KeystoneSecretName :: string
  mg_status :: manager_status

section \<open>Is the cluster ready?\<close>

text \<open>
  The nested loops: the first status entry of a listed service that is not ready makes the
  function return false; a status entry without a name is a panic once it is compared.
\<close>

fun status_loop :: "string \<Rightarrow> service_status list \<Rightarrow> ('s, go_error, bool) go" where
  "status_loop name [] = ret True"
| "status_loop name (st # sts) =
     bindM (deref_ptr (ss_Name st)) (\<lambda>n.
       if name = n \<and> \<not> ready (Some st) then ret False else status_loop name sts)"

fun services_loop :: "string list \<Rightarrow> service_status list \<Rightarrow> ('s, go_error, bool) go" where
  "services_loop [] sts = ret True"
| "services_loop (name # names) sts =
     bindM (status_loop name sts) (\<lambda>ok. if ok then services_loop names sts else ret False)"

definition service_names :: "'c service list \<Rightarrow> string list" where
  "service_names svs = map (\<lambda>sv. sm_Name (sv_meta sv)) svs"

definition andM :: "('s, go_error, bool) go \<Rightarrow> ('s, go_error, bool) go \<Rightarrow> ('s, go_error, bool) go" where
  "andM m n = bindM m (\<lambda>b. if b then n else ret False)"

text \<open>A single service: if it is wanted, its status has to be ready.\<close>

definition single_ready :: "'c option \<Rightarrow> service_status option \<Rightarrow> bool" where
  "single_ready wanted st \<longleftrightarrow> \<not> (wanted \<noteq> None \<and> \<not> ready st)"

definition IsClusterReady :: "manager \<Rightarrow> ('s, go_error, bool) go" where
  "IsClusterReady m =
     (let sp = mg_services m; st = mg_status m
      in andM (services_loop (service_names (Cassandras sp)) (ms_Cassandras st))
        (andM (services_loop (service_names (Zookeepers sp)) (ms_Zookeepers st))
        (andM (services_loop (service_names (Controls sp)) (ms_Controls st))
        (andM (services_loop (service_names (Vrouters sp)) (ms_Vrouters st))
        (andM (services_loop (map (\<lambda>c. sm_Name (cni_meta c)) (ContrailCNIs sp)) (ms_ContrailCNIs st))
        (andM (services_loop (service_names (Kubemanagers sp)) (ms_Kubemanagers st))
          (ret (single_ready (Webui sp) (ms_Webui st) \<and>
                single_ready (ProvisionManager sp) (ms_ProvisionManager st) \<and>
                single_ready (Config sp) (ms_Config st) \<and>
                single_ready (Rabbitmq sp) (ms_Rabbitmq st) \<and>
                single_ready (Postgres sp) (ms_Postgres st) \<and>
                single_ready (Command sp) (ms_Command st) \<and>
                single_ready (Keystone sp) (ms_Keystone st) \<and>
                single_ready (Swift sp) (ms_Swift st) \<and>
                single_ready (Memcached sp) (ms_Memcached st) \<and>
                single_ready (Contrailmonitor sp) (ms_Contrailmonitor st)))))))))"

section \<open>What readiness means\<close>

text \<open>The reference: every status entry that names a listed service is ready.\<close>

definition list_ready :: "string list \<Rightarrow> service_status list \<Rightarrow> bool" where
  "list_ready names sts \<longleftrightarrow> (\<forall>st \<in> set sts. ss_Name st \<in> Some ` set names \<longrightarrow> ready (Some st))"

definition named :: "service_status list \<Rightarrow> bool" where
  "named sts \<longleftrightarrow> (\<forall>st \<in> set sts. ss_Name st \<noteq> None)"

lemma status_loop_result:
  assumes "named sts"
  shows "status_loop name sts s = (Ok (\<forall>st \<in> set sts. ss_Name st = Some name \<longrightarrow> ready (Some st)), s)"
  using assms
proof (induction sts)
  case (Cons st sts)
  from Cons.prems obtain n where n: "ss_Name st = Some n" by (auto simp: named_def)
  from Cons.prems have "named sts" by (simp add: named_def)
  with Cons.IH n show ?case by (cases "ready (Some st)") auto
qed simp

lemma services_loop_result:
  assumes "named sts"
  shows "services_loop names sts s = (Ok (list_ready names sts), s)"
proof (induction names)
  case Nil
  show ?case by (simp add: list_ready_def)
next
  case (Cons n names)
  have "list_ready (n # names) sts \<longleftrightarrow>
      (\<forall>st \<in> set sts. ss_Name st = Some n \<longrightarrow> ready (Some st)) \<and> list_ready names sts"
    by (auto simp: list_ready_def)
  with Cons show ?case by (simp add: status_loop_result [OF assms])
qed

lemma andM_result:
  assumes "m s = (Ok b, s)" "n s = (Ok c, s)"
  shows "andM m n s = (Ok (b \<and> c), s)"
  using assms by (simp add: andM_def)

end
