(* ===== verification/Manager.thy ===== *)
theory Manager
  imports ManagerTypes
begin

text \<open>
  \<open>pkg/controller/manager/manager_controller.go\<close>: one reconciliation of a Manager resource.  Each
  \<open>process...\<close> function deletes the resources that the status lists and the spec does not, then
  creates or updates the resources of the spec and gives the manager with its new status.  When one
  of them fails, the error leaves \<open>Reconcile\<close> and the manager in memory is dropped; so they return
  the new manager only in the good case.

  The function handed to \<open>CreateOrUpdate\<close> is \<open>..._mutate\<close>: it turns the resource into the wanted
  one, or fails with the error of \<open>SetControllerReference\<close>.
\<close>

section \<open>Clients\<close>

record cni_cr =
  cni_cr_meta :: object_meta
  cni_cr_common :: manager_configuration
  cni_cr_conf :: contrailcni_configuration
  cni_cr_Active :: bool

record monitor_cr =
  mon_cr_meta :: object_meta
  mon_cr_conf :: monitor_configuration
  mon_cr_Active :: bool

record 's clients =
  cl_cassandra :: "(cassandra_configuration cr, 's) kind_client"
  cl_zookeeper :: "(zookeeper_configuration cr, 's) kind_client"
  cl_webui :: "(webui_configuration cr, 's) kind_client"
  cl_provisionmanager :: "(provisionmanager_service_configuration cr, 's) kind_client"
  cl_config :: "(config_configuration cr, 's) kind_client"
  cl_kubemanager :: "(kubemanager_service_configuration cr, 's) kind_client"
  cl_control :: "(control_configuration cr, 's) kind_client"
  cl_rabbitmq :: "(rabbitmq_configuration cr, 's) kind_client"
  cl_vrouter :: "(vrouter_service_configuration cr, 's) kind_client"
  cl_cni :: "(cni_cr, 's) kind_client"
  cl_postgres :: "(postgres_configuration cr, 's) kind_client"
  cl_command :: "(command_configuration cr, 's) kind_client"
  cl_keystone :: "(keystone_configuration cr, 's) kind_client"
  cl_swift :: "(swift_configuration cr, 's) kind_client"
  cl_memcached :: "(memcached_configuration cr, 's) kind_client"
  cl_monitor :: "(monitor_cr, 's) kind_client"
  cl_manager :: "(manager, 's) kind_client"
  cl_secret :: "(k_secret, 's) kind_client"
  cl_configmap :: "(config_map, 's) kind_client"
  cl_node :: "(k8s_node, 's) kind_client"

section \<open>Steps that the functions share\<close>

definition old_meta :: "manager \<Rightarrow> string \<Rightarrow> object_meta" where
  "old_meta m name =
     new_meta\<lparr>om_Namespace := om_Namespace (mg_meta m), om_Name := name,
       om_Labels := Some [(''contrail_cluster'', om_Name (mg_meta m))]\<rparr>"

text \<open>The loop over the status entries: delete what is no longer in the spec.\<close>

definition delete_stale ::
  "k8s_lib \<Rightarrow> ('o, 's) kind_client \<Rightarrow> manager \<Rightarrow> service_status list \<Rightarrow> string list
    \<Rightarrow> ('s, go_error, unit) go" where
  "delete_stale lib kc m existing intended =
     forM existing (\<lambda>st.
       bindM (deref_ptr (ss_Name st)) (\<lambda>name.
         if name \<in> set intended then ret ()
         else ignoring (IsNotFound lib) () (kc_Delete kc (old_meta m name))))"

text \<open>A single service that is not in the spec: delete its resource if the status has one.\<close>

definition delete_single ::
  "k8s_lib \<Rightarrow> ('o, 's) kind_client \<Rightarrow> manager \<Rightarrow> service_status option \<Rightarrow> ('s, go_error, unit) go" where
  "delete_single lib kc m existing =
     (case existing of
        None \<Rightarrow> ret ()
      | Some st \<Rightarrow>
          bindM (deref_ptr (ss_Name st)) (\<lambda>name.
            ignoring (IsNotFound lib) () (kc_Delete kc (old_meta m name))))"

definition service_object_meta :: "manager \<Rightarrow> service_meta \<Rightarrow> object_meta" where
  "service_object_meta m sm = (ToMeta sm)\<lparr>om_Namespace := om_Namespace (mg_meta m)\<rparr>"

definition new_cr :: "manager \<Rightarrow> service_meta \<Rightarrow> 'c \<Rightarrow> 'c cr" where
  "new_cr m sm zero =
     \<lparr>cr_meta = service_object_meta m sm, cr_common = new_common, cr_conf = zero, cr_status = new_status\<rparr>"

definition set_owner :: "k8s_lib \<Rightarrow> manager \<Rightarrow> 'c cr \<Rightarrow> go_error + 'c cr" where
  "set_owner lib m r =
     (case SetControllerReference lib (mg_meta m) (cr_meta r) of
        Inl e \<Rightarrow> Inl e
      | Inr meta \<Rightarrow> Inr (r\<lparr>cr_meta := meta\<rparr>))"

definition default_replicas :: "int \<Rightarrow> pod_configuration \<Rightarrow> pod_configuration" where
  "default_replicas replicas pc =
     (if pc_Replicas pc = None then pc\<lparr>pc_Replicas := Some replicas\<rparr> else pc)"

definition default_aliases :: "host_alias list \<Rightarrow> pod_configuration \<Rightarrow> pod_configuration" where
  "default_aliases hostAliases pc =
     (if pc_HostAliases pc = [] then pc\<lparr>pc_HostAliases := hostAliases\<rparr> else pc)"

definition merged :: "manager \<Rightarrow> int \<Rightarrow> pod_configuration \<Rightarrow> pod_configuration" where
  "merged m replicas pc = default_replicas replicas (MergeCommonConfiguration (mg_common m) pc)"

definition cr_service_status :: "'c cr \<Rightarrow> service_status" where
  "cr_service_status r = \<lparr>ss_Name = Some (om_Name (cr_meta r)), ss_Active = st_Active (cr_status r)\<rparr>"

text \<open>The status of a kind whose \<open>Active\<close> is a plain \<open>bool\<close>.\<close>

definition cr_bool_status :: "'c cr \<Rightarrow> service_status" where
  "cr_bool_status r = \<lparr>ss_Name = Some (om_Name (cr_meta r)), ss_Active = Some (is_active r)\<rparr>"

text \<open>The loop that creates or updates the resources of a list of services.\<close>

definition upsert_services ::
  "('o, 's) kind_client \<Rightarrow> ('v \<Rightarrow> 'o) \<Rightarrow> ('v \<Rightarrow> 'o \<Rightarrow> go_error + 'o) \<Rightarrow> ('o \<Rightarrow> service_status) \<Rightarrow> 'v list
    \<Rightarrow> ('s, go_error, service_status list) go" where
  "upsert_services kc new mutate status svs =
     mapM (\<lambda>sv. bindM (kc_CreateOrUpdate kc (new sv) (\<lambda>r. sum_result (mutate sv r)))
            (\<lambda>r. ret (status r))) svs"

section \<open>Lists of services\<close>

definition zookeeper_mutate ::
  "k8s_lib \<Rightarrow> manager \<Rightarrow> int \<Rightarrow> zookeeper_configuration service \<Rightarrow> zookeeper_configuration cr
    \<Rightarrow> go_error + zookeeper_configuration cr" where
  "zookeeper_mutate lib m replicas sv r =
     set_owner lib m (r\<lparr>cr_conf := sv_conf sv, cr_common := merged m replicas (sv_common sv)\<rparr>)"

definition processZookeepers ::
  "k8s_lib \<Rightarrow> 's clients \<Rightarrow> manager \<Rightarrow> int \<Rightarrow> ('s, go_error, manager) go" where
  "processZookeepers lib cls m replicas =
     bindM (delete_stale lib (cl_zookeeper cls) m (ms_Zookeepers (mg_status m))
              (service_names (Zookeepers (mg_services m)))) (\<lambda>_.
     bindM (upsert_services (cl_zookeeper cls) (\<lambda>sv. new_cr m (sv_meta sv) no_zookeeper_configuration)
              (zookeeper_mutate lib m replicas) cr_service_status (Zookeepers (mg_services m))) (\<lambda>sts.
       ret (m\<lparr>mg_status := (mg_status m)\<lparr>ms_Zookeepers := sts\<rparr>\<rparr>)))"

definition cassandra_mutate ::
  "k8s_lib \<Rightarrow> manager \<Rightarrow> int \<Rightarrow> host_alias list \<Rightarrow> cassandra_configuration service
    \<Rightarrow> cassandra_configuration cr \<Rightarrow> go_error + cassandra_configuration cr" where
  "cassandra_mutate lib m replicas hostAliases sv r =
     set_owner lib m
       (r\<lparr>cr_conf := (sv_conf sv)\<lparr>ca_ClusterName :=
             str_or (ca_ClusterName (sv_conf sv)) (om_Name (mg_meta m))\<rparr>,
          cr_common := default_aliases hostAliases (merged m replicas (sv_common sv))\<rparr>)"

definition processCassandras ::
  "k8s_lib \<Rightarrow> 's clients \<Rightarrow> manager \<Rightarrow> int \<Rightarrow> host_alias list \<Rightarrow> ('s, go_error, manager) go" where
  "processCassandras lib cls m replicas hostAliases =
     bindM (delete_stale lib (cl_cassandra cls) m (ms_Cassandras (mg_status m))
              (service_names (Cassandras (mg_services m)))) (\<lambda>_.
     bindM (upsert_services (cl_cassandra cls) (\<lambda>sv. new_cr m (sv_meta sv) no_cassandra_configuration)
              (cassandra_mutate lib m replicas hostAliases) cr_service_status
              (Cassandras (mg_services m))) (\<lambda>sts.
       ret (m\<lparr>mg_status := (mg_status m)\<lparr>ms_Cassandras := sts\<rparr>\<rparr>)))"

definition control_mutate ::
  "k8s_lib \<Rightarrow> manager \<Rightarrow> int \<Rightarrow> control_configuration service \<Rightarrow> control_configuration cr
    \<Rightarrow> go_error + control_configuration cr" where
  "control_mutate lib m replicas sv r =
     set_owner lib m (r\<lparr>cr_conf := sv_conf sv, cr_common := merged m replicas (sv_common sv)\<rparr>)"

definition processControls ::
  "k8s_lib \<Rightarrow> 's clients \<Rightarrow> manager \<Rightarrow> int \<Rightarrow> ('s, go_error, manager) go" where
  "processControls lib cls m replicas =
     bindM (delete_stale lib (cl_control cls) m (ms_Controls (mg_status m))
              (service_names (Controls (mg_services m)))) (\<lambda>_.
     bindM (upsert_services (cl_control cls) (\<lambda>sv. new_cr m (sv_meta sv) no_control_configuration)
              (control_mutate lib m replicas) cr_service_status (Controls (mg_services m))) (\<lambda>sts.
       ret (m\<lparr>mg_status := (mg_status m)\<lparr>ms_Controls := sts\<rparr>\<rparr>)))"

definition modifyContrailCNI :: "cni_cr \<Rightarrow> cni_service \<Rightarrow> manager \<Rightarrow> cni_cr" where
  "modifyContrailCNI r sv m =
     (let c = cni_common sv; mc = mg_common m;
          c = (if map_entries (mc_NodeSelector c) = [] \<and> map_entries (mc_NodeSelector mc) \<noteq> []
               then c\<lparr>mc_NodeSelector := mc_NodeSelector mc\<rparr> else c);
          c = (if mc_HostNetwork c = None \<and> mc_HostNetwork mc \<noteq> None
               then c\<lparr>mc_HostNetwork := mc_HostNetwork mc\<rparr> else c);
          c = (if mc_ImagePullSecrets c = [] \<and> mc_ImagePullSecrets mc \<noteq> []
               then c\<lparr>mc_ImagePullSecrets := mc_ImagePullSecrets mc\<rparr> else c);
          c = (if mc_Tolerations c = [] \<and> mc_Tolerations mc \<noteq> []
               then c\<lparr>mc_Tolerations := mc_Tolerations mc\<rparr> else c)
      in r\<lparr>cni_cr_common := c, cni_cr_conf := cni_conf sv\<rparr>)"

definition cni_mutate :: "k8s_lib \<Rightarrow> manager \<Rightarrow> cni_service \<Rightarrow> cni_cr \<Rightarrow> go_error + cni_cr" where
  "cni_mutate lib m sv r =
     (case SetControllerReference lib (mg_meta m) (cni_cr_meta r) of
        Inl e \<Rightarrow> Inl e
      | Inr meta \<Rightarrow> Inr ((modifyContrailCNI r sv m)\<lparr>cni_cr_meta := meta\<rparr>))"

definition new_cni :: "manager \<Rightarrow> cni_service \<Rightarrow> cni_cr" where
  "new_cni m sv =
     \<lparr>cni_cr_meta = service_object_meta m (cni_meta sv),
      cni_cr_common = \<lparr>mc_NodeSelector = None, mc_HostNetwork = None, mc_ImagePullSecrets = [], mc_Tolerations = []\<rparr>,
      cni_cr_conf = no_contrailcni_configuration, cni_cr_Active = False\<rparr>"

definition processContrailCNIs ::
  "k8s_lib \<Rightarrow> 's clients \<Rightarrow> manager \<Rightarrow> ('s, go_error, manager) go" where
  "processContrailCNIs lib cls m =
     bindM (delete_stale lib (cl_cni cls) m (ms_ContrailCNIs (mg_status m))
              (map (\<lambda>c. sm_Name (cni_meta c)) (ContrailCNIs (mg_services m)))) (\<lambda>_.
     bindM (upsert_services (cl_cni cls) (new_cni m) (cni_mutate lib m)
              (\<lambda>r. \<lparr>ss_Name = Some (om_Name (cni_cr_meta r)), ss_Active = Some (cni_cr_Active r)\<rparr>)
              (ContrailCNIs (mg_services m))) (\<lambda>sts.
       ret (m\<lparr>mg_status := (mg_status m)\<lparr>ms_ContrailCNIs := sts\<rparr>\<rparr>)))"

section \<open>Services with dependencies\<close>

definition kubemanagerDependenciesReady ::
  "'s clients \<Rightarrow> string \<Rightarrow> string \<Rightarrow> string \<Rightarrow> object_meta \<Rightarrow> ('s, go_error, bool) go" where
  "kubemanagerDependenciesReady cls cassandraName zookeeperName keystoneName mm =
     bindM (Cassandra_IsActive (cl_cassandra cls) cassandraName (om_Namespace mm)) (\<lambda>cassandraActive.
     bindM (Zookeeper_IsActive (cl_zookeeper cls) zookeeperName (om_Namespace mm)) (\<lambda>zookeeperActive.
     bindM (Rabbitmq_IsActive (cl_rabbitmq cls) (om_Name mm) (om_Namespace mm)) (\<lambda>rabbitmqActive.
     bindM (Config_IsActive (cl_config cls) (om_Name mm) (om_Namespace mm)) (\<lambda>configActive.
     bindM (if keystoneName = [] then ret True
            else Keystone_IsActive (cl_keystone cls) keystoneName (om_Namespace mm)) (\<lambda>keystoneActive.
       ret (cassandraActive \<and> zookeeperActive \<and> rabbitmqActive \<and> configActive \<and> keystoneActive))))))"

definition fillKubemanagerConfiguration ::
  "range_ord \<Rightarrow> 's clients \<Rightarrow> kubemanager_service_configuration cr \<Rightarrow> string \<Rightarrow> string \<Rightarrow> string
    \<Rightarrow> object_meta \<Rightarrow> ('s, go_error, kubemanager_service_configuration cr) go" where
  "fillKubemanagerConfiguration ord cls km cassandraName zookeeperName keystoneName mm =
     bindM (NewCassandraClusterConfiguration ord (cl_cassandra cls) cassandraName (om_Namespace mm)) (\<lambda>cassandra.
     bindM (NewZookeeperClusterConfiguration ord (cl_zookeeper cls) zookeeperName (om_Namespace mm)) (\<lambda>zookeeper.
     bindM (NewRabbitmqClusterConfiguration ord (cl_rabbitmq cls) (om_Name mm) (om_Namespace mm)) (\<lambda>rabbitmq.
     bindM (NewConfigClusterConfiguration ord (cl_config cls) (om_Name mm) (om_Namespace mm)) (\<lambda>config.
     bindM (NewKeystoneClusterConfiguration (cl_keystone cls) keystoneName (om_Namespace mm)) (\<lambda>keystone.
       ret (km\<lparr>cr_conf := (cr_conf km)
              \<lparr>kn_CassandraNodesConfiguration := Some cassandra,
               kn_ZookeeperNodesConfiguration := Some zookeeper,
               kn_RabbbitmqNodesConfiguration := Some rabbitmq,
               kn_ConfigNodesConfiguration := Some config,
               kn_KeystoneNodesConfiguration := Some keystone\<rparr>\<rparr>))))))"

definition kubemanager_mutate ::
  "k8s_lib \<Rightarrow> range_ord \<Rightarrow> 's clients \<Rightarrow> manager \<Rightarrow> int \<Rightarrow> kubemanager_manager_configuration service
    \<Rightarrow> kubemanager_service_configuration cr \<Rightarrow> ('s, go_error, kubemanager_service_configuration cr) go" where
  "kubemanager_mutate lib ord cls m replicas sv r =
     (let sc = sv_conf sv;
          conf = (kmm_KubemanagerConfiguration sc)\<lparr>km_AuthMode :=
             (if kmm_KeystoneInstance sc \<noteq> [] then AuthenticationModeKeystone
              else AuthenticationModeNoAuth)\<rparr>
      in bindM (fillKubemanagerConfiguration ord cls
             (r\<lparr>cr_conf := (cr_conf r)\<lparr>kn_KubemanagerConfiguration := conf\<rparr>\<rparr>)
             (kmm_CassandraInstance sc) (kmm_ZookeeperInstance sc) (kmm_KeystoneInstance sc)
             (mg_meta m)) (\<lambda>r.
           sum_result (set_owner lib m (r\<lparr>cr_common := merged m replicas (sv_common sv)\<rparr>))))"

definition processKubemanagers ::
  "k8s_lib \<Rightarrow> range_ord \<Rightarrow> 's clients \<Rightarrow> manager \<Rightarrow> int \<Rightarrow> ('s, go_error, manager) go" where
  "processKubemanagers lib ord cls m replicas =
     bindM (delete_stale lib (cl_kubemanager cls) m (ms_Kubemanagers (mg_status m))
              (service_names (Kubemanagers (mg_services m)))) (\<lambda>_.
     bindM (mapM (\<lambda>sv.
              bindM (kubemanagerDependenciesReady cls (kmm_CassandraInstance (sv_conf sv))
                       (kmm_ZookeeperInstance (sv_conf sv)) (kmm_KeystoneInstance (sv_conf sv))
                       (mg_meta m)) (\<lambda>dependenciesReady.
                if \<not> dependenciesReady then ret []
                else bindM (kc_CreateOrUpdate (cl_kubemanager cls)
                         (new_cr m (sv_meta sv) no_kubemanager_service_configuration)
                         (kubemanager_mutate lib ord cls m replicas sv)) (\<lambda>r.
                       ret [cr_service_status r]))) (Kubemanagers (mg_services m))) (\<lambda>sts.
       ret (m\<lparr>mg_status := (mg_status m)\<lparr>ms_Kubemanagers := concat sts\<rparr>\<rparr>)))"

definition vrouterDependenciesReady ::
  "'s clients \<Rightarrow> string \<Rightarrow> object_meta \<Rightarrow> ('s, go_error, bool) go" where
  "vrouterDependenciesReady cls controlName mm =
     bindM (Config_IsActive (cl_config cls) (om_Name mm) (om_Namespace mm)) (\<lambda>configActive.
     bindM (Control_IsActive (cl_control cls) controlName (om_Namespace mm)) (\<lambda>controlActive.
       ret (configActive \<and> controlActive)))"

definition fillVrouterConfiguration ::
  "range_ord \<Rightarrow> 's clients \<Rightarrow> vrouter_service_configuration cr \<Rightarrow> string \<Rightarrow> object_meta
    \<Rightarrow> ('s, go_error, vrouter_service_configuration cr) go" where
  "fillVrouterConfiguration ord cls vrouter controlName mm =
     bindM (NewControlClusterConfiguration ord (cl_control cls) controlName [] (om_Namespace mm)) (\<lambda>control.
     bindM (NewConfigClusterConfiguration ord (cl_config cls) (om_Name mm) (om_Namespace mm)) (\<lambda>config.
       ret (vrouter\<lparr>cr_conf := (cr_conf vrouter)
              \<lparr>vs_ControlNodesConfiguration := Some control, vs_ConfigNodesConfiguration := Some config\<rparr>\<rparr>)))"

definition vrouter_mutate ::
  "k8s_lib \<Rightarrow> range_ord \<Rightarrow> 's clients \<Rightarrow> manager \<Rightarrow> int \<Rightarrow> vrouter_manager_configuration service
    \<Rightarrow> vrouter_service_configuration cr \<Rightarrow> ('s, go_error, vrouter_service_configuration cr) go" where
  "vrouter_mutate lib ord cls m replicas sv r =
     bindM (fillVrouterConfiguration ord cls
              (r\<lparr>cr_conf := (cr_conf r)\<lparr>vs_VrouterConfiguration := vm_VrouterConfiguration (sv_conf sv)\<rparr>,
                 cr_common := MergeCommonConfiguration (mg_common m) (sv_common sv)\<rparr>)
              (vm_ControlInstance (sv_conf sv)) (mg_meta m)) (\<lambda>r.
       sum_result (set_owner lib m (r\<lparr>cr_common := default_replicas replicas (cr_common r)\<rparr>)))"

definition processVRouters ::
  "k8s_lib \<Rightarrow> range_ord \<Rightarrow> 's clients \<Rightarrow> manager \<Rightarrow> int \<Rightarrow> ('s, go_error, manager) go" where
  "processVRouters lib ord cls m replicas =
     bindM (delete_stale lib (cl_vrouter cls) m (ms_Vrouters (mg_status m))
              (service_names (Vrouters (mg_services m)))) (\<lambda>_.
     bindM (mapM (\<lambda>sv.
              bindM (vrouterDependenciesReady cls (vm_ControlInstance (sv_conf sv)) (mg_meta m)) (\<lambda>dependenciesReady.
                if \<not> dependenciesReady then ret []
                else bindM (kc_CreateOrUpdate (cl_vrouter cls)
                         (new_cr m (sv_meta sv) no_vrouter_service_configuration)
                         (vrouter_mutate lib ord cls m replicas sv)) (\<lambda>r.
                       ret [cr_service_status r]))) (Vrouters (mg_services m))) (\<lambda>sts.
       ret (m\<lparr>mg_status := (mg_status m)\<lparr>ms_Vrouters := concat sts\<rparr>\<rparr>)))"

definition provisionManagerDependenciesReady ::
  "'s clients \<Rightarrow> object_meta \<Rightarrow> ('s, go_error, bool) go" where
  "provisionManagerDependenciesReady cls mm =
     Config_IsActive (cl_config cls) (om_Name mm) (om_Namespace mm)"

definition fillProvisionManagerConfiguration ::
  "range_ord \<Rightarrow> 's clients \<Rightarrow> provisionmanager_service_configuration cr \<Rightarrow> object_meta
    \<Rightarrow> ('s, go_error, provisionmanager_service_configuration cr) go" where
  "fillProvisionManagerConfiguration ord cls pm mm =
     bindM (NewConfigClusterConfiguration ord (cl_config cls) (om_Name mm) (om_Namespace mm)) (\<lambda>config.
       ret (pm\<lparr>cr_conf := (cr_conf pm)\<lparr>ps_ConfigNodesConfiguration := Some config\<rparr>\<rparr>))"

definition provisionmanager_mutate ::
  "k8s_lib \<Rightarrow> range_ord \<Rightarrow> 's clients \<Rightarrow> manager \<Rightarrow> int \<Rightarrow> provisionmanager_configuration service
    \<Rightarrow> provisionmanager_service_configuration cr
    \<Rightarrow> ('s, go_error, provisionmanager_service_configuration cr) go" where
  "provisionmanager_mutate lib ord cls m replicas sv r =
     bindM (fillProvisionManagerConfiguration ord cls
              (r\<lparr>cr_conf := (cr_conf r)\<lparr>ps_ProvisionManagerConfiguration := sv_conf sv\<rparr>,
                 cr_common := MergeCommonConfiguration (mg_common m) (sv_common sv)\<rparr>)
              (mg_meta m)) (\<lambda>r.
       sum_result (set_owner lib m (r\<lparr>cr_common := default_replicas replicas (cr_common r)\<rparr>)))"

definition processProvisionManager ::
  "k8s_lib \<Rightarrow> range_ord \<Rightarrow> 's clients \<Rightarrow> manager \<Rightarrow> int \<Rightarrow> ('s, go_error, manager) go" where
  "processProvisionManager lib ord cls m replicas =
     (case ProvisionManager (mg_services m) of
        None \<Rightarrow>
          bindM (delete_single lib (cl_provisionmanager cls) m (ms_ProvisionManager (mg_status m))) (\<lambda>_.
            ret (m\<lparr>mg_status := (mg_status m)\<lparr>ms_ProvisionManager := None\<rparr>\<rparr>))
      | Some sv0 \<Rightarrow>
          bindM (provisionManagerDependenciesReady cls (mg_meta m)) (\<lambda>dependenciesReady.
            if dependenciesReady
            then let sv = sv0\<lparr>sv_conf := (sv_conf sv0)\<lparr>pm_KeystoneSecretName := mg_KeystoneSecretName m\<rparr>\<rparr>;
                     m1 = m\<lparr>mg_services := (mg_services m)\<lparr>ProvisionManager := Some sv\<rparr>\<rparr>
                 in bindM (kc_CreateOrUpdate (cl_provisionmanager cls)
                         (new_cr m (sv_meta sv) no_provisionmanager_service_configuration)
                         (provisionmanager_mutate lib ord cls m1 replicas sv)) (\<lambda>r.
                       ret (m1\<lparr>mg_status := (mg_status m1)
                              \<lparr>ms_ProvisionManager := Some (cr_service_status r)\<rparr>\<rparr>))
            else ret (m\<lparr>mg_status := (mg_status m)\<lparr>ms_ProvisionManager := None\<rparr>\<rparr>)))"

end
