(* ===== verification/ManagerReconcile.thy ===== *)
theory ManagerReconcile
  imports Manager
begin

text \<open>
  The rest of \<open>manager_controller.go\<close>: the services of which a manager has at most one, the node
  count, \<open>Reconcile\<close> itself, and \<open>node_change_handler.go\<close>.
\<close>

section \<open>Single services\<close>

definition webui_mutate ::
  "k8s_lib \<Rightarrow> manager \<Rightarrow> int \<Rightarrow> webui_configuration service \<Rightarrow> webui_configuration cr
    \<Rightarrow> go_error + webui_configuration cr" where
  "webui_mutate lib m replicas sv r =
     set_owner lib m (r\<lparr>cr_conf := sv_conf sv,
       cr_common := merged m replicas (sv_common sv)\<rparr>)"

definition processWebui ::
  "k8s_lib \<Rightarrow> 's clients \<Rightarrow> manager \<Rightarrow> int \<Rightarrow> ('s, go_error, manager) go" where
  "processWebui lib cls m replicas =
     (case Webui (mg_services m) of
        None \<Rightarrow>
          bindM (delete_single lib (cl_webui cls) m (ms_Webui (mg_status m))) (\<lambda>_.
            ret (m\<lparr>mg_status := (mg_status m)\<lparr>ms_Webui := None\<rparr>\<rparr>))
      | Some sv0 \<Rightarrow>
          let sv = sv0\<lparr>sv_conf := (sv_conf sv0)\<lparr>wu_KeystoneSecretName := mg_KeystoneSecretName m\<rparr>\<rparr>;
              m1 = m\<lparr>mg_services := (mg_services m)\<lparr>Webui := Some sv\<rparr>\<rparr>
          in bindM (kc_CreateOrUpdate (cl_webui cls) (new_cr m (sv_meta sv) no_webui_configuration)
               (\<lambda>r. sum_result (webui_mutate lib m1 replicas sv r))) (\<lambda>r.
               ret (m1\<lparr>mg_status := (mg_status m1)\<lparr>ms_Webui := Some (cr_bool_status r)\<rparr>\<rparr>)))"

definition config_mutate ::
  "k8s_lib \<Rightarrow> manager \<Rightarrow> int \<Rightarrow> host_alias list \<Rightarrow> config_configuration service \<Rightarrow> config_configuration cr
    \<Rightarrow> go_error + config_configuration cr" where
  "config_mutate lib m replicas hostAliases sv r =
     set_owner lib m (r\<lparr>cr_conf := sv_conf sv,
       cr_common := default_aliases hostAliases (merged m replicas (sv_common sv))\<rparr>)"

definition processConfig ::
  "k8s_lib \<Rightarrow> 's clients \<Rightarrow> manager \<Rightarrow> int \<Rightarrow> host_alias list \<Rightarrow> ('s, go_error, manager) go" where
  "processConfig lib cls m replicas hostAliases =
     (case Config (mg_services m) of
        None \<Rightarrow>
          bindM (delete_single lib (cl_config cls) m (ms_Config (mg_status m))) (\<lambda>_.
            ret (m\<lparr>mg_status := (mg_status m)\<lparr>ms_Config := None\<rparr>\<rparr>))
      | Some sv0 \<Rightarrow>
          let sv = sv0\<lparr>sv_conf := (sv_conf sv0)\<lparr>cf_KeystoneSecretName := mg_KeystoneSecretName m\<rparr>\<rparr>;
              m1 = m\<lparr>mg_services := (mg_services m)\<lparr>Config := Some sv\<rparr>\<rparr>
          in bindM (kc_CreateOrUpdate (cl_config cls) (new_cr m (sv_meta sv) no_config_configuration)
               (\<lambda>r. sum_result (config_mutate lib m1 replicas hostAliases sv r))) (\<lambda>r.
               ret (m1\<lparr>mg_status := (mg_status m1)\<lparr>ms_Config := Some (cr_service_status r)\<rparr>\<rparr>)))"

definition rabbitmq_mutate ::
  "k8s_lib \<Rightarrow> manager \<Rightarrow> int \<Rightarrow> rabbitmq_configuration service \<Rightarrow> rabbitmq_configuration cr
    \<Rightarrow> go_error + rabbitmq_configuration cr" where
  "rabbitmq_mutate lib m replicas sv r =
     set_owner lib m (r\<lparr>cr_conf := sv_conf sv,
       cr_common := merged m replicas (sv_common sv)\<rparr>)"

definition processRabbitMQ ::
  "k8s_lib \<Rightarrow> 's clients \<Rightarrow> manager \<Rightarrow> int \<Rightarrow> ('s, go_error, manager) go" where
  "processRabbitMQ lib cls m replicas =
     (case Rabbitmq (mg_services m) of
        None \<Rightarrow>
          bindM (delete_single lib (cl_rabbitmq cls) m (ms_Rabbitmq (mg_status m))) (\<lambda>_.
            ret (m\<lparr>mg_status := (mg_status m)\<lparr>ms_Rabbitmq := None\<rparr>\<rparr>))
      | Some sv \<Rightarrow>
          bindM (kc_CreateOrUpdate (cl_rabbitmq cls) (new_cr m (sv_meta sv) no_rabbitmq_configuration)
               (\<lambda>r. sum_result (rabbitmq_mutate lib m replicas sv r))) (\<lambda>r.
               ret (m\<lparr>mg_status := (mg_status m)\<lparr>ms_Rabbitmq := Some (cr_service_status r)\<rparr>\<rparr>)))"

definition command_mutate ::
  "k8s_lib \<Rightarrow> manager \<Rightarrow> int \<Rightarrow> command_configuration service \<Rightarrow> command_configuration cr
    \<Rightarrow> go_error + command_configuration cr" where
  "command_mutate lib m replicas sv r =
     set_owner lib m (r\<lparr>cr_conf := (sv_conf sv)\<lparr>cd_ClusterName := str_or (cd_ClusterName (sv_conf sv)) (om_Name (mg_meta m))\<rparr>,
       cr_common := merged m replicas (sv_common sv)\<rparr>)"

definition processCommand ::
  "k8s_lib \<Rightarrow> 's clients \<Rightarrow> manager \<Rightarrow> int \<Rightarrow> ('s, go_error, manager) go" where
  "processCommand lib cls m replicas =
     (case Command (mg_services m) of
        None \<Rightarrow>
          bindM (delete_single lib (cl_command cls) m (ms_Command (mg_status m))) (\<lambda>_.
            ret (m\<lparr>mg_status := (mg_status m)\<lparr>ms_Command := None\<rparr>\<rparr>))
      | Some sv0 \<Rightarrow>
          let sv = sv0\<lparr>sv_conf := (sv_conf sv0)\<lparr>cd_KeystoneSecretName := mg_KeystoneSecretName m\<rparr>\<rparr>;
              m1 = m\<lparr>mg_services := (mg_services m)\<lparr>Command := Some sv\<rparr>\<rparr>
          in bindM (kc_CreateOrUpdate (cl_command cls) (new_cr m (sv_meta sv) no_command_configuration)
               (\<lambda>r. sum_result (command_mutate lib m1 replicas sv r))) (\<lambda>r.
               ret (m1\<lparr>mg_status := (mg_status m1)\<lparr>ms_Command := Some (cr_bool_status r)\<rparr>\<rparr>)))"

definition keystone_mutate ::
  "k8s_lib \<Rightarrow> manager \<Rightarrow> int \<Rightarrow> keystone_configuration service \<Rightarrow> keystone_configuration cr
    \<Rightarrow> go_error + keystone_configuration cr" where
  "keystone_mutate lib m replicas sv r =
     set_owner lib m (r\<lparr>cr_conf := Keystone_SetDefaultValues (sv_conf sv),
       cr_common := merged m replicas (sv_common sv)\<rparr>)"

definition processKeystone ::
  "k8s_lib \<Rightarrow> 's clients \<Rightarrow> manager \<Rightarrow> int \<Rightarrow> ('s, go_error, manager) go" where
  "processKeystone lib cls m replicas =
     (case Keystone (mg_services m) of
        None \<Rightarrow>
          bindM (delete_single lib (cl_keystone cls) m (ms_Keystone (mg_status m))) (\<lambda>_.
            ret (m\<lparr>mg_status := (mg_status m)\<lparr>ms_Keystone := None\<rparr>\<rparr>))
      | Some sv0 \<Rightarrow>
          let sv = sv0\<lparr>sv_conf := (sv_conf sv0)\<lparr>ks_KeystoneSecretName := mg_KeystoneSecretName m\<rparr>\<rparr>;
              m1 = m\<lparr>mg_services := (mg_services m)\<lparr>Keystone := Some sv\<rparr>\<rparr>
          in bindM (kc_CreateOrUpdate (cl_keystone cls) (new_cr m (sv_meta sv) no_keystone_configuration)
               (\<lambda>r. sum_result (keystone_mutate lib m1 replicas sv r))) (\<lambda>r.
               ret (m1\<lparr>mg_status := (mg_status m1)\<lparr>ms_Keystone := Some (cr_bool_status r)\<rparr>\<rparr>)))"

definition postgres_mutate ::
  "k8s_lib \<Rightarrow> manager \<Rightarrow> int \<Rightarrow> postgres_configuration service \<Rightarrow> postgres_configuration cr
    \<Rightarrow> go_error + postgres_configuration cr" where
  "postgres_mutate lib m replicas sv r =
     set_owner lib m (r\<lparr>cr_conf := (sv_conf sv)\<lparr>pg_ListenPort := int_or (pg_ListenPort (sv_conf sv)) 5432\<rparr>,
       cr_common := merged m replicas (sv_common sv)\<rparr>)"

definition processPostgres ::
  "k8s_lib \<Rightarrow> 's clients \<Rightarrow> manager \<Rightarrow> int \<Rightarrow> ('s, go_error, manager) go" where
  "processPostgres lib cls m replicas =
     (case Postgres (mg_services m) of
        None \<Rightarrow>
          bindM (delete_single lib (cl_postgres cls) m (ms_Postgres (mg_status m))) (\<lambda>_.
            ret (m\<lparr>mg_status := (mg_status m)\<lparr>ms_Postgres := None\<rparr>\<rparr>))
      | Some sv0 \<Rightarrow>
          let sv = sv0\<lparr>sv_conf := (sv_conf sv0)\<lparr>pg_RootPassSecretName := mg_KeystoneSecretName m\<rparr>\<rparr>;
              m1 = m\<lparr>mg_services := (mg_services m)\<lparr>Postgres := Some sv\<rparr>\<rparr>
          in bindM (kc_CreateOrUpdate (cl_postgres cls) (new_cr m (sv_meta sv) no_postgres_configuration)
               (\<lambda>r. sum_result (postgres_mutate lib m1 replicas sv r))) (\<lambda>r.
               ret (m1\<lparr>mg_status := (mg_status m1)\<lparr>ms_Postgres := Some (cr_bool_status r)\<rparr>\<rparr>)))"

definition swift_mutate ::
  "k8s_lib \<Rightarrow> manager \<Rightarrow> int \<Rightarrow> swift_configuration service \<Rightarrow> swift_configuration cr
    \<Rightarrow> go_error + swift_configuration cr" where
  "swift_mutate lib m replicas sv r =
     set_owner lib m (r\<lparr>cr_conf := Swift_SetDefaultValues (sv_conf sv),
       cr_common := merged m replicas (sv_common sv)\<rparr>)"

definition processSwift ::
  "k8s_lib \<Rightarrow> 's clients \<Rightarrow> manager \<Rightarrow> int \<Rightarrow> ('s, go_error, manager) go" where
  "processSwift lib cls m replicas =
     (case Swift (mg_services m) of
        None \<Rightarrow>
          bindM (delete_single lib (cl_swift cls) m (ms_Swift (mg_status m))) (\<lambda>_.
            ret (m\<lparr>mg_status := (mg_status m)\<lparr>ms_Swift := None\<rparr>\<rparr>))
      | Some sv0 \<Rightarrow>
          let sv = sv0\<lparr>sv_conf := (sv_conf sv0)\<lparr>sw_SwiftProxyConfiguration := (sw_SwiftProxyConfiguration (sv_conf sv0))
                   \<lparr>sp_KeystoneSecretName := mg_KeystoneSecretName m\<rparr>\<rparr>\<rparr>;
              m1 = m\<lparr>mg_services := (mg_services m)\<lparr>Swift := Some sv\<rparr>\<rparr>
          in bindM (kc_CreateOrUpdate (cl_swift cls) (new_cr m (sv_meta sv) no_swift_configuration)
               (\<lambda>r. sum_result (swift_mutate lib m1 replicas sv r))) (\<lambda>r.
               ret (m1\<lparr>mg_status := (mg_status m1)\<lparr>ms_Swift := Some (cr_bool_status r)\<rparr>\<rparr>)))"

definition memcached_mutate ::
  "k8s_lib \<Rightarrow> manager \<Rightarrow> int \<Rightarrow> memcached_configuration service \<Rightarrow> memcached_configuration cr
    \<Rightarrow> go_error + memcached_configuration cr" where
  "memcached_mutate lib m replicas sv r =
     set_owner lib m (r\<lparr>cr_conf := sv_conf sv,
       cr_common := merged m replicas (sv_common sv)\<rparr>)"

definition processMemcached ::
  "k8s_lib \<Rightarrow> 's clients \<Rightarrow> manager \<Rightarrow> int \<Rightarrow> ('s, go_error, manager) go" where
  "processMemcached lib cls m replicas =
     (case Memcached (mg_services m) of
        None \<Rightarrow>
          bindM (delete_single lib (cl_memcached cls) m (ms_Memcached (mg_status m))) (\<lambda>_.
            ret (m\<lparr>mg_status := (mg_status m)\<lparr>ms_Memcached := None\<rparr>\<rparr>))
      | Some sv \<Rightarrow>
          bindM (kc_CreateOrUpdate (cl_memcached cls) (new_cr m (sv_meta sv) no_memcached_configuration)
               (\<lambda>r. sum_result (memcached_mutate lib m replicas sv r))) (\<lambda>r.
               ret (m\<lparr>mg_status := (mg_status m)\<lparr>ms_Memcached := Some (cr_bool_status r)\<rparr>\<rparr>)))"

text \<open>The monitor is never deleted, and its status has no name.\<close>

definition monitor_mutate :: "k8s_lib \<Rightarrow> manager \<Rightarrow> monitor_service \<Rightarrow> monitor_cr \<Rightarrow> go_error + monitor_cr" where
  "monitor_mutate lib m sv r =
     (case SetControllerReference lib (mg_meta m) (mon_cr_meta r) of
        Inl e \<Rightarrow> Inl e
      | Inr meta \<Rightarrow> Inr (r\<lparr>mon_cr_conf := mon_conf sv, mon_cr_meta := meta\<rparr>))"

definition processContrailmonitor ::
  "k8s_lib \<Rightarrow> 's clients \<Rightarrow> manager \<Rightarrow> ('s, go_error, manager) go" where
  "processContrailmonitor lib cls m =
     (case Contrailmonitor (mg_services m) of
        None \<Rightarrow> ret m
      | Some sv \<Rightarrow>
          bindM (kc_CreateOrUpdate (cl_monitor cls)
               \<lparr>mon_cr_meta = service_object_meta m (mon_meta sv), mon_cr_conf = no_monitor_configuration,
                mon_cr_Active = False\<rparr>
               (\<lambda>r. sum_result (monitor_mutate lib m sv r))) (\<lambda>r.
            ret (m\<lparr>mg_status := (mg_status m)
                    \<lparr>ms_Contrailmonitor := Some \<lparr>ss_Name = None, ss_Active = Some (mon_cr_Active r)\<rparr>\<rparr>\<rparr>)))"

definition processCSRSignerCaConfigMap ::
  "k8s_lib \<Rightarrow> 's clients \<Rightarrow> ('s, go_error, string \<times> string) go \<Rightarrow> manager \<Rightarrow> ('s, go_error, unit) go" where
  "processCSRSignerCaConfigMap lib cls generate m =
     bindM (CACertificate_EnsureExists lib (cl_secret cls) generate ''manager'' (mg_meta m)) (\<lambda>_.
     bindM (kc_CreateOrUpdate (cl_configmap cls)
              \<lparr>cm_meta = new_meta\<lparr>om_Name := SignerCAConfigMapName, om_Namespace := om_Namespace (mg_meta m)\<rparr>,
               cm_Data = None\<rparr>
              (\<lambda>cm. bindM (GetCaCert (cl_secret cls) (mg_meta m)) (\<lambda>csrSignerCAValue.
                 bindM (sum_result (SetControllerReference lib (mg_meta m) (cm_meta cm))) (\<lambda>meta.
                   ret (cm\<lparr>cm_Data := Some [(SignerCAFilename, csrSignerCAValue)], cm_meta := meta\<rparr>))))) (\<lambda>_.
       ret ()))"

section \<open>Nodes\<close>

definition getNodes ::
  "'s clients \<Rightarrow> (string, string) gomap \<Rightarrow> ('s, go_error, k8s_node list) go" where
  "getNodes cls selector = kc_List (cl_node cls) [] selector"

definition getReplicas :: "k8s_node list \<Rightarrow> int" where
  "getReplicas nodes =
     (let nodesNumber = int (length nodes)
      in if nodesNumber mod 2 = 0 \<and> nodesNumber \<noteq> 0 then int32_of (nodesNumber - 1)
         else int32_of nodesNumber)"

text \<open>The loop over the addresses of a node: later addresses of a type win.\<close>

fun node_addresses :: "(string \<times> string) list \<Rightarrow> string \<Rightarrow> string \<Rightarrow> string \<times> string" where
  "node_addresses [] ip hostname = (ip, hostname)"
| "node_addresses ((ty, a) # as) ip hostname =
     node_addresses as (if ty = ''InternalIP'' then a else ip) (if ty = ''Hostname'' then a else hostname)"

fun getNodesHostAliases :: "k8s_node list \<Rightarrow> host_alias list" where
  "getNodesHostAliases [] = []"
| "getNodesHostAliases (n # ns) =
     (let (ip, hostname) = node_addresses (kn_Addresses n) [] []
      in if ip = [] \<or> hostname = [] then getNodesHostAliases ns
         else \<lparr>ha_IP = ip, ha_Hostnames = [hostname]\<rparr> # getNodesHostAliases ns)"

section \<open>Reconcile\<close>

definition setConditions :: "manager \<Rightarrow> ('s, go_error, manager) go" where
  "setConditions m =
     bindM (IsClusterReady m) (\<lambda>clusterReady.
       ret (m\<lparr>mg_status := (mg_status m)
              \<lparr>ms_Conditions := [(''Ready'', if clusterReady then ''True'' else ''False'')]\<rparr>\<rparr>))"

definition provision_config_data :: "(string, string) gomap" where
  "provision_config_data = [(''apiserver.yaml'', []), (''confignodes.yaml'', []),
     (''controlnodes.yaml'', []), (''analyticsnodes.yaml'', []), (''vrouternodes.yaml'', [])]"

text \<open>The config map of the provisioner is prepared and given an owner, but not created.\<close>

definition prepare_provision_config ::
  "k8s_lib \<Rightarrow> 's clients \<Rightarrow> manager \<Rightarrow> string \<Rightarrow> ('s, go_error, unit) go" where
  "prepare_provision_config lib cls m namespace =
     bindM (tryM (kc_Get (cl_configmap cls) (namespace, ''provision-config''))) (\<lambda>r.
       case r of
         Inr _ \<Rightarrow> ret ()
       | Inl err \<Rightarrow>
           if IsNotFound lib err
           then let cm = \<lparr>cm_meta = new_meta\<lparr>om_Name := ''provision-config'', om_Namespace := namespace\<rparr>,
                          cm_Data = Some provision_config_data\<rparr>
                in bindM (sum_result (SetControllerReference lib (mg_meta m) (cm_meta cm))) (\<lambda>_. ret ())
           else ret ())"

text \<open>The services in the order of the source.\<close>

definition process_services ::
  "k8s_lib \<Rightarrow> range_ord \<Rightarrow> 's clients \<Rightarrow> int \<Rightarrow> host_alias list \<Rightarrow> manager \<Rightarrow> ('s, go_error, manager) go" where
  "process_services lib ord cls replicas hostAliases m =
     bindM (processCassandras lib cls m replicas hostAliases) (\<lambda>m.
     bindM (processZookeepers lib cls m replicas) (\<lambda>m.
     bindM (processWebui lib cls m replicas) (\<lambda>m.
     bindM (processProvisionManager lib ord cls m replicas) (\<lambda>m.
     bindM (processConfig lib cls m replicas hostAliases) (\<lambda>m.
     bindM (processKubemanagers lib ord cls m replicas) (\<lambda>m.
     bindM (processControls lib cls m replicas) (\<lambda>m.
     bindM (processRabbitMQ lib cls m replicas) (\<lambda>m.
     bindM (processVRouters lib ord cls m replicas) (\<lambda>m.
     bindM (processContrailCNIs lib cls m) (\<lambda>m.
     bindM (processPostgres lib cls m replicas) (\<lambda>m.
     bindM (processCommand lib cls m replicas) (\<lambda>m.
     bindM (processKeystone lib cls m replicas) (\<lambda>m.
     bindM (processSwift lib cls m replicas) (\<lambda>m.
     bindM (processMemcached lib cls m replicas) (\<lambda>m.
       processContrailmonitor lib cls m)))))))))))))))"

text \<open>\<open>pass\<close> and \<open>generate\<close> are the random password and the generation of the certificate.\<close>

definition Reconcile ::
  "k8s_lib \<Rightarrow> range_ord \<Rightarrow> 's clients \<Rightarrow> string \<Rightarrow> ('s, go_error, string \<times> string) go \<Rightarrow> namespaced_name
    \<Rightarrow> ('s, go_error, unit) go" where
  "Reconcile lib ord cls pass generate request =
     bindM (tryM (kc_Get (cl_manager cls) request)) (\<lambda>r.
       case r of
         Inl err \<Rightarrow> if IsNotFound lib err then ret () else throw err
       | Inr m \<Rightarrow>
           if om_Deleted (mg_meta m) then ret ()
           else
             bindM (prepare_provision_config lib cls m (fst request)) (\<lambda>_.
             bindM (processCSRSignerCaConfigMap lib cls generate m) (\<lambda>_.
               let m = (if mg_KeystoneSecretName m = []
                        then m\<lparr>mg_KeystoneSecretName := om_Name (mg_meta m) @ ''-admin-password''\<rparr> else m)
               in bindM (ensureAdminPassSecretExist lib (cl_secret cls) pass (mg_KeystoneSecretName m) (mg_meta m)) (\<lambda>_.
                  bindM (kc_Update (cl_manager cls) m) (\<lambda>m.
                  bindM (getNodes cls (map_entries (mc_NodeSelector (mg_common m)))) (\<lambda>nodes.
                    let replicas = getReplicas nodes
                    in if replicas = 0 then ret ()
                       else bindM (process_services lib ord cls replicas (getNodesHostAliases nodes) m) (\<lambda>m.
                            bindM (setConditions m) (\<lambda>m.
                              kc_StatusUpdate (cl_manager cls) m))))))))"

section \<open>Node events\<close>

text \<open>
  Every event on a node, of whatever type, queues a request for each manager; when the managers
  can not be listed the event is dropped.
\<close>

definition nodeChangeHandler ::
  "'s clients \<Rightarrow> namespaced_name list \<Rightarrow> ('s, go_error, namespaced_name list) go" where
  "nodeChangeHandler cls queue =
     bindM (tryM (kc_List (cl_manager cls) [] [])) (\<lambda>r.
       ret (case r of Inl _ \<Rightarrow> queue | Inr ms \<Rightarrow> queue @ map (\<lambda>m. key_of (mg_meta m)) ms))"

end
