(* ===== verification/ManagerLaws.thy ===== *)
theory ManagerLaws
  imports ManagerReconcile
begin

text \<open>
  What the functions of the manager leave in the cluster.  The effect of the deletion loop and of
  the creation loop is proved once, from the contract \<open>kind_server\<close> of a client; the facts on the
  single services, on the dependencies and on the node count follow.  The last section is a
  cluster in memory that keeps the contract.
\<close>

section \<open>The loops over a list of services\<close>

text \<open>The keys of the resources that the status lists and the spec does not.\<close>

definition stale_keys :: "manager \<Rightarrow> service_status list \<Rightarrow> string list \<Rightarrow> namespaced_name set" where
  "stale_keys m existing intended =
     (\<lambda>n. (om_Namespace (mg_meta m), n)) ` {n. n \<notin> set intended \<and> Some n \<in> ss_Name ` set existing}"

lemma key_old_meta [simp]: "key_of (old_meta m n) = (om_Namespace (mg_meta m), n)"
  by (simp add: old_meta_def key_of_def)

lemma key_new_cr [simp]:
  "key_of (cr_meta (new_cr m sm z)) = (om_Namespace (mg_meta m), sm_Name sm)"
  by (simp add: new_cr_def service_object_meta_def ToMeta_def key_of_def)

context kind_server
begin

lemma delete_stale_effect:
  assumes "delete_stale lib kc m existing intended s = (Ok u, s')"
  shows "objects s' = (\<lambda>k. if k \<in> stale_keys m existing intended then None else objects s k)"
  using assms
proof (induction existing arbitrary: s)
  case Nil
  then show ?case by (simp add: delete_stale_def stale_keys_def)
next
  case (Cons st existing)
  from Cons.prems obtain n t where n: "ss_Name st = Some n"
    and step: "(if n \<in> set intended then ret ()
         else ignoring (IsNotFound lib) () (kc_Delete kc (old_meta m n))) s = (Ok (), t)"
    and rest: "delete_stale lib kc m existing intended t = (Ok u, s')"
    by (auto simp: delete_stale_def go_simps)
  have t: "objects t = (if n \<in> set intended then objects s
      else (objects s)((om_Namespace (mg_meta m), n) := None))"
    using step Delete_ignoring [of "old_meta m n" s "()" t] by (auto split: if_splits)
  show ?case
    unfolding Cons.IH [OF rest] t by (auto simp: stale_keys_def n fun_eq_iff)
qed

lemma upsert_services_effect:
  assumes "upsert_services kc new mutate status svs s = (Ok sts, s')"
    and "distinct (map (\<lambda>sv. key_of (meta (new sv))) svs)"
  shows "\<exists>rs. sts = map status rs \<and>
     list_all2 (\<lambda>sv r. mutate sv (case objects s (key_of (meta (new sv))) of None \<Rightarrow> new sv | Some z \<Rightarrow> z) = Inr r
        \<and> objects s' (key_of (meta (new sv))) = Some r) svs rs \<and>
     (\<forall>k. k \<notin> (\<lambda>sv. key_of (meta (new sv))) ` set svs \<longrightarrow> objects s' k = objects s k)"
  using assms
proof (induction svs arbitrary: s sts)
  case Nil
  then show ?case by (simp add: upsert_services_def)
next
  case (Cons sv svs)
  let ?k = "\<lambda>sv. key_of (meta (new sv))"
  from Cons.prems(1) obtain r t sts' where c: "kc_CreateOrUpdate kc (new sv) (\<lambda>r. sum_result (mutate sv r)) s = (Ok r, t)"
    and rest: "upsert_services kc new mutate status svs t = (Ok sts', s')" and sts: "sts = status r # sts'"
    by (auto simp: upsert_services_def go_simps)
  from CreateOrUpdate_Ok [OF c] have r: "mutate sv (case objects s (?k sv) of None \<Rightarrow> new sv | Some z \<Rightarrow> z) = Inr r"
    "objects t = (objects s)(?k sv \<mapsto> r)"
    by (auto simp: sum_result_Ok_iff)
  from Cons.IH [OF rest] Cons.prems(2) obtain rs where rs: "sts' = map status rs"
    "list_all2 (\<lambda>sv r. mutate sv (case objects t (?k sv) of None \<Rightarrow> new sv | Some z \<Rightarrow> z) = Inr r
        \<and> objects s' (?k sv) = Some r) svs rs"
    "\<forall>k. k \<notin> ?k ` set svs \<longrightarrow> objects s' k = objects t k"
    by auto
  have other: "objects t (?k x) = objects s (?k x)" if "x \<in> set svs" for x
    using that Cons.prems(2) by (force simp: r(2) image_iff)
  have "list_all2 (\<lambda>sv r. mutate sv (case objects s (?k sv) of None \<Rightarrow> new sv | Some z \<Rightarrow> z) = Inr r
        \<and> objects s' (?k sv) = Some r) svs rs"
    by (rule list.rel_mono_strong [OF rs(2)]) (use other in auto)
  moreover have "objects s' (?k sv) = Some r" using rs(3) [rule_format, of "?k sv"] r(2) Cons.prems(2) by simp
  moreover have "\<forall>k. k \<notin> ?k ` set (sv # svs) \<longrightarrow> objects s' k = objects s k"
    using rs(3) r(2) by simp
  ultimately show ?case using rs(1) r(1) sts by (intro exI [of _ "r # rs"] conjI) (assumption | simp)+
qed

end

text \<open>What a list of services has become: each has its resource, nothing stale is left.\<close>

definition services_reconciled ::
  "('v \<Rightarrow> namespaced_name) \<Rightarrow> ('v \<Rightarrow> 'o option \<Rightarrow> 'o \<Rightarrow> bool) \<Rightarrow> ('o \<Rightarrow> service_status) \<Rightarrow> namespaced_name set
    \<Rightarrow> 'v list \<Rightarrow> (namespaced_name \<rightharpoonup> 'o) \<Rightarrow> (namespaced_name \<rightharpoonup> 'o) \<Rightarrow> service_status list \<Rightarrow> bool" where
  "services_reconciled key made status stale svs old now sts \<longleftrightarrow>
     (\<exists>rs. sts = map status rs \<and> list_all2 (\<lambda>sv r. now (key sv) = Some r \<and> made sv (old (key sv)) r) svs rs) \<and>
     (\<forall>k \<in> stale. now k = None) \<and>
     (\<forall>k. k \<notin> stale \<and> k \<notin> key ` set svs \<longrightarrow> now k = old k)"

lemma services_reconciled_mono:
  assumes "services_reconciled key made status stale svs old now sts"
    and "\<And>sv r. sv \<in> set svs \<Longrightarrow> made sv (old (key sv)) r \<Longrightarrow> made' sv (old (key sv)) r"
    and "\<And>sv. key' sv = key sv"
  shows "services_reconciled key' made' status stale svs old now sts"
proof -
  have k: "key' = key" using assms(3) by blast
  from assms(1) obtain rs where "sts = map status rs"
    and "list_all2 (\<lambda>sv r. now (key sv) = Some r \<and> made sv (old (key sv)) r) svs rs"
    by (auto simp: services_reconciled_def)
  moreover from this(2) have "list_all2 (\<lambda>sv r. now (key sv) = Some r \<and> made' sv (old (key sv)) r) svs rs"
    by (rule list.rel_mono_strong) (use assms(2) in auto)
  ultimately show ?thesis using assms(1) unfolding services_reconciled_def k by blast
qed

context kind_server
begin

lemma process_list_effect:
  assumes del: "delete_stale lib kc m existing intended s = (Ok u, t)"
    and ups: "upsert_services kc new mutate status svs t = (Ok sts, s')"
    and keys: "map (\<lambda>sv. key_of (meta (new sv))) svs = map (\<lambda>n. (om_Namespace (mg_meta m), n)) intended"
    and dist: "distinct intended"
  shows "services_reconciled (\<lambda>sv. key_of (meta (new sv)))
     (\<lambda>sv old r. mutate sv (case old of None \<Rightarrow> new sv | Some z \<Rightarrow> z) = Inr r) status
     (stale_keys m existing intended) svs (objects s) (objects s') sts"
proof -
  let ?k = "\<lambda>sv. key_of (meta (new sv))"
  have d: "distinct (map ?k svs)"
    unfolding keys using dist by (simp add: distinct_map inj_on_def)
  have ks: "?k ` set svs = (\<lambda>n. (om_Namespace (mg_meta m), n)) ` set intended"
    using keys by (metis list.set_map)
  have t: "objects t = (\<lambda>k. if k \<in> stale_keys m existing intended then None else objects s k)"
    by (rule delete_stale_effect [OF del])
  have disj: "k \<notin> stale_keys m existing intended" if "k \<in> ?k ` set svs" for k
    using that unfolding ks by (auto simp: stale_keys_def)
  from upsert_services_effect [OF ups d] obtain rs where rs: "sts = map status rs"
    "list_all2 (\<lambda>sv r. mutate sv (case objects t (?k sv) of None \<Rightarrow> new sv | Some z \<Rightarrow> z) = Inr r
        \<and> objects s' (?k sv) = Some r) svs rs"
    "\<forall>k. k \<notin> ?k ` set svs \<longrightarrow> objects s' k = objects t k" by blast
  have "list_all2 (\<lambda>sv r. objects s' (?k sv) = Some r \<and>
      mutate sv (case objects s (?k sv) of None \<Rightarrow> new sv | Some z \<Rightarrow> z) = Inr r) svs rs"
    by (rule list.rel_mono_strong [OF rs(2)]) (use disj in \<open>auto simp: t\<close>)
  moreover have "\<forall>k \<in> stale_keys m existing intended. objects s' k = None"
    using rs(3) disj t by metis
  moreover have "\<forall>k. k \<notin> stale_keys m existing intended \<and> k \<notin> ?k ` set svs \<longrightarrow> objects s' k = objects s k"
    using rs(3) t by simp
  ultimately show ?thesis using rs(1) unfolding services_reconciled_def by blast
qed

text \<open>A single service.\<close>

lemma delete_single_effect:
  assumes "delete_single lib kc m existing s = (Ok u, s')"
  shows "objects s' = (case existing of None \<Rightarrow> objects s
     | Some st \<Rightarrow> (case ss_Name st of None \<Rightarrow> objects s
        | Some n \<Rightarrow> (objects s)((om_Namespace (mg_meta m), n) := None)))"
proof (cases existing)
  case None
  with assms show ?thesis by (simp add: delete_single_def)
next
  case (Some st)
  with assms obtain n where n: "ss_Name st = Some n"
    and "ignoring (IsNotFound lib) () (kc_Delete kc (old_meta m n)) s = (Ok u, s')"
    by (auto simp: delete_single_def bindM_Ok_iff deref_ptr_Ok_iff)
  with Some Delete_ignoring [of "old_meta m n" s u s'] show ?thesis by simp
qed

end

lemma set_owner_fields:
  assumes "set_owner lib m r = Inr r'"
  shows "cr_conf r' = cr_conf r" "cr_common r' = cr_common r" "cr_status r' = cr_status r"
  using assms by (auto simp: set_owner_def split: sum.splits)

lemma set_owner_Inr:
  "set_owner lib m r = Inr r' \<Longrightarrow> cr_conf r' = cr_conf r \<and> cr_common r' = cr_common r \<and> cr_status r' = cr_status r"
  using set_owner_fields by blast

lemma new_cr_status [simp]: "cr_status (new_cr m sm z) = new_status"
  by (simp add: new_cr_def)

section \<open>The common configuration of a resource\<close>

lemma merged_replicas:
  "pc_Replicas (merged m replicas pc) = (case pc_Replicas pc of None \<Rightarrow> Some replicas | Some r \<Rightarrow> Some r)"
  by (simp add: merged_def default_replicas_def Merge_fields split: option.splits)

section \<open>Dependencies\<close>

lemma kubemanager_ready_facts:
  assumes run: "kubemanagerDependenciesReady cls ca zk ks mm s = (Ok True, s')"
    and ro: "read_only (cl_cassandra cls)" "read_only (cl_zookeeper cls)" "read_only (cl_rabbitmq cls)"
      "read_only (cl_config cls)" "read_only (cl_keystone cls)"
  shows "s' = s"
    and "\<exists>c. kc_Get (cl_cassandra cls) (om_Namespace mm, ca) s = (Ok c, s)"
    and "\<exists>c. kc_Get (cl_zookeeper cls) (om_Namespace mm, zk) s = (Ok c, s)"
    and "\<exists>c cs. kc_List (cl_rabbitmq cls) (om_Namespace mm) [(''contrail_cluster'', om_Name mm)] s = (Ok (c # cs), s)"
    and "\<exists>c cs. kc_List (cl_config cls) (om_Namespace mm) [(''contrail_cluster'', om_Name mm)] s = (Ok (c # cs), s)"
    and "ks \<noteq> [] \<Longrightarrow> \<exists>c. kc_Get (cl_keystone cls) (om_Namespace mm, ks) s = (Ok c, s)"
proof -
  from run [unfolded kubemanagerDependenciesReady_def Cassandra_IsActive_def Zookeeper_IsActive_def
      Rabbitmq_IsActive_def Config_IsActive_def Keystone_IsActive_def] obtain s1 s2 s3 s4 where
    1: "IsActive_by_name (cl_cassandra cls) ca (om_Namespace mm) s = (Ok True, s1)" and
    2: "IsActive_by_name (cl_zookeeper cls) zk (om_Namespace mm) s1 = (Ok True, s2)" and
    3: "IsActive_by_label (cl_rabbitmq cls) (om_Name mm) (om_Namespace mm) s2 = (Ok True, s3)" and
    4: "IsActive_by_label (cl_config cls) (om_Name mm) (om_Namespace mm) s3 = (Ok True, s4)" and
    5: "(if ks = [] then ret True else IsActive_by_name (cl_keystone cls) ks (om_Namespace mm)) s4 = (Ok True, s')"
    by (auto simp: go_simps)
  note E = IsActive_by_name_True [OF 1] IsActive_by_name_True [OF 2]
    IsActive_by_label_True [OF 3] IsActive_by_label_True [OF 4]
  have e: "s1 = s" "s2 = s1" "s3 = s2" "s4 = s3"
    using E read_only_Get [OF ro(1)] read_only_Get [OF ro(2)] read_only_List [OF ro(3)] read_only_List [OF ro(4)]
    by blast+
  have k: "ks \<noteq> [] \<Longrightarrow> \<exists>c. kc_Get (cl_keystone cls) (om_Namespace mm, ks) s4 = (Ok c, s')"
    using 5 IsActive_by_name_True [of "cl_keystone cls" ks "om_Namespace mm" s4 s'] by auto
  have e5: "s' = s4"
    using 5 k read_only_Get [OF ro(5)] by (cases "ks = []") (simp, blast)
  show "s' = s" using e e5 by simp
  show "\<exists>c. kc_Get (cl_cassandra cls) (om_Namespace mm, ca) s = (Ok c, s)" using E(1) e by auto
  show "\<exists>c. kc_Get (cl_zookeeper cls) (om_Namespace mm, zk) s = (Ok c, s)" using E(2) e by auto
  show "\<exists>c cs. kc_List (cl_rabbitmq cls) (om_Namespace mm) [(''contrail_cluster'', om_Name mm)] s = (Ok (c # cs), s)"
    using E(3) e by auto
  show "\<exists>c cs. kc_List (cl_config cls) (om_Namespace mm) [(''contrail_cluster'', om_Name mm)] s = (Ok (c # cs), s)"
    using E(4) e by auto
  show "ks \<noteq> [] \<Longrightarrow> \<exists>c. kc_Get (cl_keystone cls) (om_Namespace mm, ks) s = (Ok c, s)" using k e e5 by auto
qed

lemma New_Ok:
  "kc_Get kca (ns, n) s = (Ok ca, s) \<Longrightarrow> \<exists>x. NewCassandraClusterConfiguration ord kca n ns s = (Ok x, s)"
  "kc_Get kzk (ns, n) s = (Ok zk, s) \<Longrightarrow> \<exists>x. NewZookeeperClusterConfiguration ord kzk n ns s = (Ok x, s)"
  "kc_List krb ns [(''contrail_cluster'', n)] s = (Ok (rb # rbs), s) \<Longrightarrow>
     \<exists>x. NewRabbitmqClusterConfiguration ord krb n ns s = (Ok x, s)"
  "kc_List kcf ns [(''contrail_cluster'', n)] s = (Ok (cf # cfs), s) \<Longrightarrow>
     \<exists>x. NewConfigClusterConfiguration ord kcf n ns s = (Ok x, s)"
  "n \<noteq> [] \<longrightarrow> kc_Get kks (ns, n) s = (Ok ks, s) \<Longrightarrow>
     \<exists>x. NewKeystoneClusterConfiguration kks n ns s = (Ok x, s)"
  by (simp_all add: NewCassandraClusterConfiguration_def Cassandra_ConfigurationParameters_def
      NewZookeeperClusterConfiguration_def Zookeeper_ConfigurationParameters_def
      NewRabbitmqClusterConfiguration_def Rabbitmq_ConfigurationParameters_def
      NewConfigClusterConfiguration_def Config_ConfigurationParameters_def
      NewKeystoneClusterConfiguration_def Let_def)

lemma fillKubemanager_Ok:
  assumes "kubemanagerDependenciesReady cls ca zk ks mm s = (Ok True, s')"
    and "read_only (cl_cassandra cls)" "read_only (cl_zookeeper cls)" "read_only (cl_rabbitmq cls)"
      "read_only (cl_config cls)" "read_only (cl_keystone cls)"
  shows "\<exists>km'. fillKubemanagerConfiguration ord cls km ca zk ks mm s = (Ok km', s)"
proof -
  note f = kubemanager_ready_facts [OF assms]
  from f(2) New_Ok(1) [where ord = ord] obtain a where a: "NewCassandraClusterConfiguration ord (cl_cassandra cls) ca (om_Namespace mm) s = (Ok a, s)" by metis
  from f(3) New_Ok(2) [where ord = ord] obtain b where b: "NewZookeeperClusterConfiguration ord (cl_zookeeper cls) zk (om_Namespace mm) s = (Ok b, s)" by metis
  from f(4) New_Ok(3) [where ord = ord] obtain c where c: "NewRabbitmqClusterConfiguration ord (cl_rabbitmq cls) (om_Name mm) (om_Namespace mm) s = (Ok c, s)" by metis
  from f(5) New_Ok(4) [where ord = ord] obtain d where d: "NewConfigClusterConfiguration ord (cl_config cls) (om_Name mm) (om_Namespace mm) s = (Ok d, s)" by metis
  have "\<exists>k. ks \<noteq> [] \<longrightarrow> kc_Get (cl_keystone cls) (om_Namespace mm, ks) s = (Ok k, s)"
    using f(6) by (cases "ks = []") auto
  with New_Ok(5) obtain e where e: "NewKeystoneClusterConfiguration (cl_keystone cls) ks (om_Namespace mm) s = (Ok e, s)" by metis
  show ?thesis using a b c d e by (simp add: fillKubemanagerConfiguration_def)
qed

section \<open>Readiness\<close>

definition cluster_ready :: "manager \<Rightarrow> bool" where
  "cluster_ready m \<longleftrightarrow>
     (let sp = mg_services m; st = mg_status m
      in list_ready (service_names (Cassandras sp)) (ms_Cassandras st) \<and>
         list_ready (service_names (Zookeepers sp)) (ms_Zookeepers st) \<and>
         list_ready (service_names (Controls sp)) (ms_Controls st) \<and>
         list_ready (service_names (Vrouters sp)) (ms_Vrouters st) \<and>
         list_ready (map (\<lambda>c. sm_Name (cni_meta c)) (ContrailCNIs sp)) (ms_ContrailCNIs st) \<and>
         list_ready (service_names (Kubemanagers sp)) (ms_Kubemanagers st) \<and>
         (Webui sp \<noteq> None \<longrightarrow> ready (ms_Webui st)) \<and>
         (ProvisionManager sp \<noteq> None \<longrightarrow> ready (ms_ProvisionManager st)) \<and>
         (Config sp \<noteq> None \<longrightarrow> ready (ms_Config st)) \<and>
         (Rabbitmq sp \<noteq> None \<longrightarrow> ready (ms_Rabbitmq st)) \<and>
         (Postgres sp \<noteq> None \<longrightarrow> ready (ms_Postgres st)) \<and>
         (Command sp \<noteq> None \<longrightarrow> ready (ms_Command st)) \<and>
         (Keystone sp \<noteq> None \<longrightarrow> ready (ms_Keystone st)) \<and>
         (Swift sp \<noteq> None \<longrightarrow> ready (ms_Swift st)) \<and>
         (Memcached sp \<noteq> None \<longrightarrow> ready (ms_Memcached st)) \<and>
         (Contrailmonitor sp \<noteq> None \<longrightarrow> ready (ms_Contrailmonitor st)))"

text \<open>
  The services of the spec that are lists, with their status lists, and the single ones.  A list is
  \<open>listed\<close> if each of its services has a status entry, and \<open>active\<close> if it is listed and the entries
  of its services are active.
\<close>

definition spec_lists :: "manager \<Rightarrow> (string list \<times> service_status list) list" where
  "spec_lists m = (let sp = mg_services m; st = mg_status m in
     [(service_names (Cassandras sp), ms_Cassandras st), (service_names (Zookeepers sp), ms_Zookeepers st),
      (service_names (Controls sp), ms_Controls st), (service_names (Vrouters sp), ms_Vrouters st),
      (map (\<lambda>c. sm_Name (cni_meta c)) (ContrailCNIs sp), ms_ContrailCNIs st),
      (service_names (Kubemanagers sp), ms_Kubemanagers st)])"

definition spec_singles :: "manager \<Rightarrow> (bool \<times> service_status option) list" where
  "spec_singles m = (let sp = mg_services m; st = mg_status m in
     [(Webui sp \<noteq> None, ms_Webui st), (ProvisionManager sp \<noteq> None, ms_ProvisionManager st),
      (Config sp \<noteq> None, ms_Config st), (Rabbitmq sp \<noteq> None, ms_Rabbitmq st),
      (Postgres sp \<noteq> None, ms_Postgres st), (Command sp \<noteq> None, ms_Command st),
      (Keystone sp \<noteq> None, ms_Keystone st), (Swift sp \<noteq> None, ms_Swift st),
      (Memcached sp \<noteq> None, ms_Memcached st), (Contrailmonitor sp \<noteq> None, ms_Contrailmonitor st)])"

definition services_listed :: "manager \<Rightarrow> bool" where
  "services_listed m \<longleftrightarrow> (\<forall>(names, sts) \<in> set (spec_lists m). \<forall>n \<in> set names. \<exists>st \<in> set sts. ss_Name st = Some n)"

definition services_active :: "manager \<Rightarrow> bool" where
  "services_active m \<longleftrightarrow>
     (\<forall>(names, sts) \<in> set (spec_lists m). \<forall>n \<in> set names.
        (\<exists>st \<in> set sts. ss_Name st = Some n) \<and> (\<forall>st \<in> set sts. ss_Name st = Some n \<longrightarrow> ss_Active st = Some True)) \<and>
     (\<forall>(wanted, st) \<in> set (spec_singles m). wanted \<longrightarrow> (\<exists>x. st = Some x \<and> ss_Active x = Some True))"

lemma ready_iff: "ready st \<longleftrightarrow> (\<exists>x. st = Some x \<and> ss_Active x = Some True)"
  by (auto simp: ready_def split: option.splits)

lemma cluster_ready_parts:
  "cluster_ready m \<longleftrightarrow> (\<forall>(names, sts) \<in> set (spec_lists m). list_ready names sts) \<and>
     (\<forall>(wanted, st) \<in> set (spec_singles m). wanted \<longrightarrow> ready st)"
  by (simp add: cluster_ready_def spec_lists_def spec_singles_def Let_def conj_ac)

lemma services_active_iff: "services_active m \<longleftrightarrow> cluster_ready m \<and> services_listed m"
  unfolding services_active_def cluster_ready_parts services_listed_def list_ready_def ready_iff by fast

definition status_named :: "manager_status \<Rightarrow> bool" where
  "status_named st \<longleftrightarrow>
     named (ms_Cassandras st) \<and> named (ms_Zookeepers st) \<and> named (ms_Controls st) \<and>
     named (ms_Vrouters st) \<and> named (ms_ContrailCNIs st) \<and> named (ms_Kubemanagers st)"

lemma single_ready_iff: "single_ready wanted st \<longleftrightarrow> (wanted \<noteq> None \<longrightarrow> ready st)"
  by (auto simp: single_ready_def)

lemma IsClusterReady_result:
  assumes "status_named (mg_status m)"
  shows "IsClusterReady m s = (Ok (cluster_ready m), s)"
proof -
  have n: "named (ms_Cassandras (mg_status m))" "named (ms_Zookeepers (mg_status m))"
    "named (ms_Controls (mg_status m))" "named (ms_Vrouters (mg_status m))"
    "named (ms_ContrailCNIs (mg_status m))" "named (ms_Kubemanagers (mg_status m))"
    using assms by (simp_all add: status_named_def)
  show ?thesis
    unfolding IsClusterReady_def cluster_ready_def Let_def
    by (simp add: andM_result services_loop_result n single_ready_iff)
qed

section \<open>The nodes\<close>

lemma int32_small: "0 \<le> n \<Longrightarrow> n < 2 ^ 31 \<Longrightarrow> int32_of n = n"
  by (simp add: int32_of_def)

lemma node_addresses_result:
  "node_addresses as ip hostname =
     (case find (\<lambda>(ty, _). ty = ''InternalIP'') (rev as) of None \<Rightarrow> ip | Some (_, a) \<Rightarrow> a,
      case find (\<lambda>(ty, _). ty = ''Hostname'') (rev as) of None \<Rightarrow> hostname | Some (_, a) \<Rightarrow> a)"
proof (induction as arbitrary: ip hostname)
  case (Cons a as)
  obtain ty x where "a = (ty, x)" by (cases a)
  with Cons show ?case by (auto simp: find_append split: option.splits)
qed simp

section \<open>A cluster in memory\<close>

text \<open>The objects of one type are a map; \<open>List\<close> is over the keys that \<open>known\<close> has.\<close>

type_synonym 'o mem_objects = "namespaced_name \<rightharpoonup> 'o"

definition mem_NotFound :: go_error where
  "mem_NotFound = errors_New ''not found''"

definition mem_lib :: k8s_lib where
  "mem_lib =
     \<lparr>IsNotFound = (\<lambda>e. e = mem_NotFound), IsAlreadyExists = (\<lambda>e. e = errors_New ''already exists''),
      SetControllerReference = (\<lambda>owner m. Inr (m\<lparr>om_OwnerReferences := [\<lparr>or_APIVersion = ''v1alpha1'',
        or_Kind = ''Manager'', or_Name = om_Name owner,
        or_UID = om_UID owner, or_Controller = Some True, or_BlockOwnerDeletion = Some True\<rparr>]\<rparr>))\<rparr>"

definition mem_client ::
  "('s \<Rightarrow> 'o mem_objects) \<Rightarrow> ('o mem_objects \<Rightarrow> 's \<Rightarrow> 's) \<Rightarrow> namespaced_name list \<Rightarrow> ('o \<Rightarrow> object_meta)
    \<Rightarrow> ('o, 's) kind_client" where
  "mem_client get put known meta =
     \<lparr>kc_Get = (\<lambda>k s. (case get s k of None \<Rightarrow> Err mem_NotFound | Some x \<Rightarrow> Ok x, s)),
      kc_List = (\<lambda>ns ls s. (Ok (List.map_filter (\<lambda>k. get s k) (filter (\<lambda>k. fst k = ns) known)), s)),
      kc_Create = (\<lambda>x s. (Ok x, put ((get s)(key_of (meta x) \<mapsto> x)) s)),
      kc_Update = (\<lambda>x s. (Ok x, put ((get s)(key_of (meta x) \<mapsto> x)) s)),
      kc_Delete = (\<lambda>m s. if get s (key_of m) = None then (Err mem_NotFound, s)
                         else (Ok (), put ((get s)(key_of m := None)) s)),
      kc_DeleteWith = (\<lambda>p m s. if get s (key_of m) = None then (Err mem_NotFound, s)
                             else (Ok (), put ((get s)(key_of m := None)) s)),
      kc_StatusUpdate = (\<lambda>x s. (Ok (), put ((get s)(key_of (meta x) \<mapsto> x)) s)),
      kc_CreateOrUpdate = (\<lambda>x f s.
        case f (case get s (key_of (meta x)) of None \<Rightarrow> x | Some z \<Rightarrow> z) s of
          (Ok y, t) \<Rightarrow> (Ok y, put ((get t)(key_of (meta x) \<mapsto> y)) t)
        | r \<Rightarrow> r)\<rparr>"

lemma mem_client_server:
  assumes "\<And>v s. get (put v s) = v"
  shows "kind_server mem_lib (mem_client get put known meta) meta get"
proof (unfold_locales, goal_cases)
  case (5 x f s y s')
  then show ?case
    by (cases "f (case get s (key_of (meta x)) of None \<Rightarrow> x | Some z \<Rightarrow> z) s";
        cases "fst (f (case get s (key_of (meta x)) of None \<Rightarrow> x | Some z \<Rightarrow> z) s)")
       (auto simp: mem_client_def assms)
qed (auto simp: mem_client_def mem_lib_def mem_NotFound_def assms split: option.splits if_splits)

interpretation memk: kind_server mem_lib "mem_client (\<lambda>s. s) (\<lambda>v s. v) known meta" meta "\<lambda>s. s" for known meta
  by (rule mem_client_server) simp

lemma mem_client_store:
  assumes "\<And>v s. get (put v s) = v"
  shows "store_server mem_lib (mem_client get put known meta) meta get"
  by (intro store_server.intro mem_client_server store_server_axioms.intro)
     (auto simp: mem_client_def assms)

interpretation mems: store_server mem_lib "mem_client (\<lambda>s. s) (\<lambda>v s. v) known meta" meta "\<lambda>s. s" for known meta
  by (rule mem_client_store) simp

end
