(* ===== verification/ManagerStatus.thy ===== *)
theory ManagerStatus
  imports ManagerLaws
begin

text \<open>
  What one reconciliation leaves in the status of the manager: each function changes the entry of
  its own service only, and the entries of the lists have names.  So the readiness test that
  \<open>setConditions\<close> runs at the end can not panic and decides \<open>cluster_ready\<close>.
\<close>

section \<open>Status entries have names\<close>

lemma named_Cons [simp]: "named (st # sts) \<longleftrightarrow> ss_Name st \<noteq> None \<and> named sts"
  by (simp add: named_def)

lemma named_Nil [simp]: "named []"
  by (simp add: named_def)

lemma named_append [simp]: "named (xs @ ys) \<longleftrightarrow> named xs \<and> named ys"
  by (auto simp: named_def)

lemma named_upsert:
  assumes "upsert_services kc new mutate status svs s = (Ok sts, s')" and "\<And>r. ss_Name (status r) \<noteq> None"
  shows "named sts"
  using assms
proof (induction svs arbitrary: s sts)
  case (Cons sv svs)
  then show ?case by (auto simp: upsert_services_def go_simps)
qed (simp add: upsert_services_def)

lemma cr_status_name [simp]: "ss_Name (cr_service_status r) = Some (om_Name (cr_meta r))"
  "ss_Name (cr_bool_status r) = Some (om_Name (cr_meta r))"
  by (simp_all add: cr_service_status_def cr_bool_status_def)

text \<open>The loop over services that wait for others.\<close>

lemma named_gated:
  assumes "mapM (\<lambda>sv. bindM (deps sv) (\<lambda>ready. if \<not> ready then ret []
      else bindM (upsert sv) (\<lambda>r. ret [cr_service_status r]))) svs s = (Ok xss, s')"
  shows "named (concat xss)"
  using assms
proof (induction svs arbitrary: s xss)
  case (Cons sv svs)
  then show ?case by (auto simp: go_simps split: if_splits)
qed simp

section \<open>Each function changes its own entry\<close>

lemma list_status:
  "processCassandras lib cls m replicas al s = (Ok m', s') \<Longrightarrow>
     \<exists>x. named x \<and> mg_status m' = (mg_status m)\<lparr>ms_Cassandras := x\<rparr>"
  "processZookeepers lib cls m replicas s = (Ok m', s') \<Longrightarrow>
     \<exists>x. named x \<and> mg_status m' = (mg_status m)\<lparr>ms_Zookeepers := x\<rparr>"
  "processControls lib cls m replicas s = (Ok m', s') \<Longrightarrow>
     \<exists>x. named x \<and> mg_status m' = (mg_status m)\<lparr>ms_Controls := x\<rparr>"
  "processContrailCNIs lib cls m s = (Ok m', s') \<Longrightarrow>
     \<exists>x. named x \<and> mg_status m' = (mg_status m)\<lparr>ms_ContrailCNIs := x\<rparr>"
  by (auto simp: processCassandras_def processZookeepers_def processControls_def processContrailCNIs_def go_simps
      dest!: named_upsert)

lemma gated_status:
  "processKubemanagers lib ord cls m replicas s = (Ok m', s') \<Longrightarrow>
     \<exists>x. named x \<and> mg_status m' = (mg_status m)\<lparr>ms_Kubemanagers := x\<rparr>"
  "processVRouters lib ord cls m replicas s = (Ok m', s') \<Longrightarrow>
     \<exists>x. named x \<and> mg_status m' = (mg_status m)\<lparr>ms_Vrouters := x\<rparr>"
  by (auto simp: processKubemanagers_def processVRouters_def bindM_Ok_iff
      dest!: named_gated)

lemma single_status:
  "processWebui lib cls m replicas s = (Ok m', s') \<Longrightarrow> \<exists>x. mg_status m' = (mg_status m)\<lparr>ms_Webui := x\<rparr>"
  "processConfig lib cls m replicas al s = (Ok m', s') \<Longrightarrow> \<exists>x. mg_status m' = (mg_status m)\<lparr>ms_Config := x\<rparr>"
  "processRabbitMQ lib cls m replicas s = (Ok m', s') \<Longrightarrow> \<exists>x. mg_status m' = (mg_status m)\<lparr>ms_Rabbitmq := x\<rparr>"
  "processCommand lib cls m replicas s = (Ok m', s') \<Longrightarrow> \<exists>x. mg_status m' = (mg_status m)\<lparr>ms_Command := x\<rparr>"
  "processKeystone lib cls m replicas s = (Ok m', s') \<Longrightarrow> \<exists>x. mg_status m' = (mg_status m)\<lparr>ms_Keystone := x\<rparr>"
  "processPostgres lib cls m replicas s = (Ok m', s') \<Longrightarrow> \<exists>x. mg_status m' = (mg_status m)\<lparr>ms_Postgres := x\<rparr>"
  "processSwift lib cls m replicas s = (Ok m', s') \<Longrightarrow> \<exists>x. mg_status m' = (mg_status m)\<lparr>ms_Swift := x\<rparr>"
  "processMemcached lib cls m replicas s = (Ok m', s') \<Longrightarrow> \<exists>x. mg_status m' = (mg_status m)\<lparr>ms_Memcached := x\<rparr>"
  by (auto simp: processWebui_def processConfig_def processRabbitMQ_def processCommand_def processKeystone_def
      processPostgres_def processSwift_def processMemcached_def Let_def go_simps split: option.splits)

lemma provision_monitor_status:
  "processProvisionManager lib ord cls m replicas s = (Ok m', s') \<Longrightarrow>
     \<exists>x. mg_status m' = (mg_status m)\<lparr>ms_ProvisionManager := x\<rparr>"
  "processContrailmonitor lib cls m s = (Ok m', s') \<Longrightarrow>
     mg_status m' = mg_status m \<or> (\<exists>x. mg_status m' = (mg_status m)\<lparr>ms_Contrailmonitor := x\<rparr>)"
  by (auto simp: processProvisionManager_def processContrailmonitor_def Let_def go_simps
      split: option.splits if_splits)

lemmas process_status = list_status gated_status single_status provision_monitor_status

lemma process_services_named:
  assumes "process_services lib ord cls replicas aliases m s = (Ok m', s')"
  shows "status_named (mg_status m')"
  using assms unfolding process_services_def bindM_Ok_iff
  apply (elim exE conjE)
  apply (drule process_status)+
  by (auto simp: status_named_def)

lemma cluster_ready_conditions [simp]:
  "cluster_ready (m\<lparr>mg_status := (mg_status m)\<lparr>ms_Conditions := c\<rparr>\<rparr>) = cluster_ready m"
  by (simp add: cluster_ready_def Let_def)

lemma setConditions_result:
  assumes "status_named (mg_status m)"
  shows "\<exists>m'. setConditions m s = (Ok m', s) \<and> status_named (mg_status m') \<and>
     ms_Conditions (mg_status m') = [(''Ready'', if cluster_ready m' then ''True'' else ''False'')]"
  using assms by (simp add: setConditions_def bindM_def IsClusterReady_result [OF assms] ret_def) (simp add: status_named_def)

end
