(* ===== verification/BaseTypes.thy ===== *)
theory BaseTypes
  imports ManagerTypes
begin

text \<open>
  The functions of \<open>base_types.go\<close> that the controllers of the services share: config maps and
  secrets, the stateful set of a service and its updates, the activity of an instance, the
  subjects of the certificates of its pods, and the account of a service.
\<close>

section \<open>Workloads\<close>

text \<open>
  The source of a volume: a host path has its type (empty when not given), a volume of the downward
  API its files with the fields they show; a number is the mode of the files, if it is given.
\<close>

datatype volume_source =
    ConfigMapVolume string "int option"
  | SecretVolume string
  | HostPathVolume string string
  | EmptyDirVolume
  | DownwardAPIVolume "(string \<times> string) list" "int option"

record volume =
  vol_Name :: string
  vol_Source :: volume_source

record volume_mount =
  vm_Name :: string
  vm_MountPath :: string
  vm_ReadOnly :: bool
  vm_SubPath :: string

definition new_mount :: "string \<Rightarrow> string \<Rightarrow> volume_mount" where
  "new_mount name path = \<lparr>vm_Name = name, vm_MountPath = path, vm_ReadOnly = False, vm_SubPath = []\<rparr>"

text \<open>A value of the environment: a text, a field of the pod, or a key of a secret.\<close>

datatype env_source = EnvValue string | EnvFieldRef string | EnvSecretKeyRef string string

text \<open>What a probe does: run a command, ask \<open>scheme://host:port/path\<close>, or connect to a port.\<close>

datatype probe_action =
    ExecAction "string list"
  | HTTPGetAction string string int string
  | TCPSocketAction string int

record probe =
  pb_Action :: probe_action
  pb_InitialDelaySeconds :: int
  pb_TimeoutSeconds :: int
  pb_PeriodSeconds :: int
  pb_SuccessThreshold :: int
  pb_FailureThreshold :: int

definition new_probe :: "probe_action \<Rightarrow> probe" where
  "new_probe action = \<lparr>pb_Action = action, pb_InitialDelaySeconds = 0, pb_TimeoutSeconds = 0,
     pb_PeriodSeconds = 0, pb_SuccessThreshold = 0, pb_FailureThreshold = 0\<rparr>"

record security_context =
  sx_Privileged :: "bool option"
  sx_RunAsUser :: "int option"
  sx_RunAsGroup :: "int option"
  sx_FSGroup :: "int option"
  sx_ProcMount :: string
  sx_Capabilities :: "string list"

definition new_security_context :: security_context where
  "new_security_context = \<lparr>sx_Privileged = None, sx_RunAsUser = None, sx_RunAsGroup = None,
     sx_FSGroup = None, sx_ProcMount = [], sx_Capabilities = []\<rparr>"

text \<open>
  A container of a pod; \<open>EnvFrom\<close> are the names of config maps, \<open>Ports\<close> have a name and a number,
  \<open>PreStop\<close> is the command of that hook, and \<open>Requests\<close> has quantities as texts.
\<close>

record pod_container =
  pco_Name :: string
  pco_Image :: string
  pco_Command :: "string list"
  pco_Args :: "string list"
  pco_WorkingDir :: string
  pco_Env :: "(string \<times> env_source) list"
  pco_EnvFrom :: "string list"
  pco_VolumeMounts :: "volume_mount list"
  pco_ImagePullPolicy :: string
  pco_Ports :: "(string \<times> int) list"
  pco_ReadinessProbe :: "probe option"
  pco_LivenessProbe :: "probe option"
  pco_PreStop :: "string list"
  pco_SecurityContext :: "security_context option"
  pco_Requests :: "(string, string) gomap"
  pco_TerminationMessagePath :: string
  pco_TerminationMessagePolicy :: string

definition new_pod_container :: pod_container where
  "new_pod_container =
     \<lparr>pco_Name = [], pco_Image = [], pco_Command = [], pco_Args = [], pco_WorkingDir = [], pco_Env = [],
      pco_EnvFrom = [], pco_VolumeMounts = [], pco_ImagePullPolicy = [], pco_Ports = [],
      pco_ReadinessProbe = None, pco_LivenessProbe = None, pco_PreStop = [], pco_SecurityContext = None,
      pco_Requests = [], pco_TerminationMessagePath = [], pco_TerminationMessagePolicy = []\<rparr>"

text \<open>A term of the anti-affinity: the label that has to differ, its values and the topology.\<close>

record affinity_term =
  at_Key :: string
  at_Operator :: string
  at_Values :: "string list"
  at_TopologyKey :: string

record pod_spec =
  pspec_Tolerations :: "toleration list"
  pspec_NodeSelector :: string_map
  pspec_HostNetwork :: bool
  pspec_HostAliases :: "host_alias list"
  pspec_ImagePullSecrets :: "string list"
  pspec_Volumes :: "volume list"
  pspec_InitContainers :: "pod_container list"
  pspec_Containers :: "pod_container list"
  pspec_Affinity :: "affinity_term list"
  pspec_ServiceAccountName :: string
  pspec_RestartPolicy :: string
  pspec_DNSPolicy :: string
  pspec_TerminationGracePeriodSeconds :: "int option"
  pspec_ShareProcessNamespace :: "bool option"
  pspec_HostPID :: bool
  pspec_SchedulerName :: string
  pspec_SecurityContext :: "security_context option"

definition new_pod_spec :: pod_spec where
  "new_pod_spec =
     \<lparr>pspec_Tolerations = [], pspec_NodeSelector = None, pspec_HostNetwork = False, pspec_HostAliases = [],
      pspec_ImagePullSecrets = [], pspec_Volumes = [], pspec_InitContainers = [], pspec_Containers = [],
      pspec_Affinity = [], pspec_ServiceAccountName = [], pspec_RestartPolicy = [], pspec_DNSPolicy = [],
      pspec_TerminationGracePeriodSeconds = None, pspec_ShareProcessNamespace = None, pspec_HostPID = False,
      pspec_SchedulerName = [], pspec_SecurityContext = None\<rparr>"

record pod_template =
  pt_Annotations :: string_map
  pt_Labels :: string_map
  pt_Spec :: pod_spec

text \<open>The selector is a pointer: writing its labels through \<open>nil\<close> is a panic.\<close>

text \<open>A \<open>resource.Quantity\<close> is a fixed-point number; here it is counted in the smallest unit it has.\<close>

type_synonym quantity = int

record pvc =
  pvc_meta :: object_meta
  pvc_AccessModes :: "string list"
  pvc_Selector :: "(string, string) gomap"
  pvc_StorageClassName :: string
  pvc_Requests :: "(string, quantity) gomap"

record stateful_set =
  sts_meta :: object_meta
  sts_Replicas :: "int option"
  sts_PodManagementPolicy :: string
  sts_Selector :: "string_map option"
  sts_Template :: pod_template
  sts_ServiceName :: string
  sts_VolumeClaimTemplates :: "pvc list"
  sts_ReadyReplicas :: int
  sts_CurrentRevision :: string
  sts_UpdateRevision :: string

record deployment =
  dep_meta :: object_meta
  dep_Replicas :: "int option"
  dep_Selector :: "string_map option"
  dep_Template :: pod_template
  dep_MaxUnavailable :: "int option"
  dep_MaxSurge :: "int option"
  dep_ReadyReplicas :: int

section \<open>Common configuration of a workload\<close>

definition GetReplicas :: "pod_configuration \<Rightarrow> int" where
  "GetReplicas cc = (case pc_Replicas cc of None \<Rightarrow> 1 | Some r \<Rightarrow> r)"

text \<open>The pod spec, with the fields the two functions below set in the same way.\<close>

definition apply_common :: "pod_configuration \<Rightarrow> pod_spec \<Rightarrow> pod_spec" where
  "apply_common cc sp =
     (let sp = (if pc_Tolerations cc \<noteq> [] then sp\<lparr>pspec_Tolerations := pc_Tolerations cc\<rparr> else sp);
          sp = (if map_entries (pc_NodeSelector cc) \<noteq> []
                then sp\<lparr>pspec_NodeSelector := pc_NodeSelector cc\<rparr> else sp);
          sp = sp\<lparr>pspec_HostNetwork := (case pc_HostNetwork cc of None \<Rightarrow> False | Some b \<Rightarrow> b)\<rparr>;
          sp = (if pc_HostAliases cc \<noteq> [] then sp\<lparr>pspec_HostAliases := pc_HostAliases cc\<rparr> else sp);
          sp = (if pc_ImagePullSecrets cc \<noteq> []
                then sp\<lparr>pspec_ImagePullSecrets := pc_ImagePullSecrets cc\<rparr> else sp)
      in sp)"

definition SetDeploymentCommonConfiguration :: "deployment \<Rightarrow> pod_configuration \<Rightarrow> deployment" where
  "SetDeploymentCommonConfiguration d cc =
     d\<lparr>dep_Replicas := pc_Replicas cc,
       dep_Template := (dep_Template d)\<lparr>pt_Spec := apply_common cc (pt_Spec (dep_Template d))\<rparr>\<rparr>"

definition SetSTSCommonConfiguration :: "stateful_set \<Rightarrow> pod_configuration \<Rightarrow> stateful_set" where
  "SetSTSCommonConfiguration sts cc =
     sts\<lparr>sts_Replicas := pc_Replicas cc,
         sts_Template := (sts_Template sts)\<lparr>pt_Spec := apply_common cc (pt_Spec (sts_Template sts))\<rparr>\<rparr>"

text \<open>\<open>request\<close> is the namespaced name; \<open>owner\<close> the metadata of the resource.\<close>

definition sts_name :: "namespaced_name \<Rightarrow> string \<Rightarrow> string" where
  "sts_name request instanceType = snd request @ ''-'' @ instanceType @ ''-statefulset''"

definition PrepareSTS ::
  "k8s_lib \<Rightarrow> stateful_set \<Rightarrow> pod_configuration \<Rightarrow> string \<Rightarrow> namespaced_name \<Rightarrow> object_meta \<Rightarrow> bool
    \<Rightarrow> ('s, go_error, stateful_set) go" where
  "PrepareSTS lib sts0 cc instanceType request owner waitForInit =
     (let sts = SetSTSCommonConfiguration sts0 cc;
          sts = sts\<lparr>sts_PodManagementPolicy := (if waitForInit then ''Parallel'' else ''OrderedReady'')\<rparr>;
          labels = Some (instance_labels instanceType (snd request));
          sts = sts\<lparr>sts_meta := (sts_meta sts)\<lparr>om_Name := sts_name request instanceType,
                      om_Namespace := fst request, om_Labels := labels\<rparr>\<rparr>
      in bindM (deref_ptr (sts_Selector sts)) (\<lambda>_.
           let sts = sts\<lparr>sts_Selector := Some labels,
                         sts_Template := (sts_Template sts)\<lparr>pt_Labels := labels\<rparr>\<rparr>
           in bindM (sum_result (SetControllerReference lib owner (sts_meta sts))) (\<lambda>meta.
                ret (sts\<lparr>sts_meta := meta\<rparr>))))"

section \<open>Volumes\<close>

definition add_volumes ::
  "(string \<Rightarrow> volume_source) \<Rightarrow> range_ord \<Rightarrow> (string, string) gomap \<Rightarrow> pod_template \<Rightarrow> pod_template" where
  "add_volumes src ord volumeMap t =
     t\<lparr>pt_Spec := (pt_Spec t)\<lparr>pspec_Volumes := pspec_Volumes (pt_Spec t) @
         map (\<lambda>(source, volumeName). \<lparr>vol_Name = volumeName, vol_Source = src source\<rparr>)
           (range_of ord volumeMap)\<rparr>\<rparr>"

definition AddVolumesToIntendedSTS ::
  "range_ord \<Rightarrow> stateful_set \<Rightarrow> (string, string) gomap \<Rightarrow> stateful_set" where
  "AddVolumesToIntendedSTS ord sts volumeConfigMapMap =
     sts\<lparr>sts_Template := add_volumes (\<lambda>n. ConfigMapVolume n None) ord volumeConfigMapMap (sts_Template sts)\<rparr>"

definition AddSecretVolumesToIntendedSTS ::
  "range_ord \<Rightarrow> stateful_set \<Rightarrow> (string, string) gomap \<Rightarrow> stateful_set" where
  "AddSecretVolumesToIntendedSTS ord sts volumeSecretMap =
     sts\<lparr>sts_Template := add_volumes SecretVolume ord volumeSecretMap (sts_Template sts)\<rparr>"

text \<open>The template of the daemon set.\<close>

definition AddSecretVolumesToIntendedDS ::
  "range_ord \<Rightarrow> pod_template \<Rightarrow> (string, string) gomap \<Rightarrow> pod_template" where
  "AddSecretVolumesToIntendedDS ord ds volumeSecretMap = add_volumes SecretVolume ord volumeSecretMap ds"

section \<open>Config maps and secrets\<close>

text \<open>An error other than \<open>NotFound\<close> is dropped: the caller gets the empty object.\<close>

definition CreateConfigMap ::
  "k8s_lib \<Rightarrow> (config_map, 's) kind_client \<Rightarrow> string \<Rightarrow> namespaced_name \<Rightarrow> string \<Rightarrow> object_meta
    \<Rightarrow> ('s, go_error, config_map) go" where
  "CreateConfigMap lib kc configMapName request instanceType owner =
     bindM (tryM (kc_Get kc (fst request, configMapName))) (\<lambda>r.
       case r of
         Inr cm \<Rightarrow> ret cm
       | Inl err \<Rightarrow>
           if IsNotFound lib err
           then bindM (sum_result (SetControllerReference lib owner
                  (new_meta\<lparr>om_Name := configMapName, om_Namespace := fst request,
                     om_Labels := Some (instance_labels instanceType (snd request))\<rparr>))) (\<lambda>meta.
                  let cm = \<lparr>cm_meta = meta, cm_Data = Some []\<rparr>
                  in ignoring (IsAlreadyExists lib) cm (kc_Create kc cm))
           else ret \<lparr>cm_meta = new_meta, cm_Data = None\<rparr>)"

definition CreateSecret ::
  "k8s_lib \<Rightarrow> (k_secret, 's) kind_client \<Rightarrow> string \<Rightarrow> namespaced_name \<Rightarrow> string \<Rightarrow> object_meta
    \<Rightarrow> ('s, go_error, k_secret) go" where
  "CreateSecret lib kc secretName request instanceType owner =
     bindM (tryM (kc_Get kc (fst request, secretName))) (\<lambda>r.
       case r of
         Inr sec \<Rightarrow> ret sec
       | Inl err \<Rightarrow>
           if IsNotFound lib err
           then bindM (sum_result (SetControllerReference lib owner
                  (new_meta\<lparr>om_Name := secretName, om_Namespace := fst request,
                     om_Labels := Some (instance_labels instanceType (snd request))\<rparr>))) (\<lambda>meta.
                  let sec = \<lparr>sec_meta = meta, sec_Data = Some [], sec_StringData = None, sec_Type = []\<rparr>
                  in ignoring (IsAlreadyExists lib) sec (kc_Create kc sec))
           else ret \<lparr>sec_meta = new_meta, sec_Data = None, sec_StringData = None, sec_Type = []\<rparr>)"

definition CurrentConfigMapExists ::
  "(config_map, 's) kind_client \<Rightarrow> string \<Rightarrow> namespaced_name \<Rightarrow> ('s, go_error, config_map \<times> bool) go" where
  "CurrentConfigMapExists kc configMapName request =
     bindM (tryM (kc_Get kc (fst request, configMapName))) (\<lambda>r.
       ret (case r of
              Inr cm \<Rightarrow> (cm, map_entries (cm_Data cm) \<noteq> [])
            | Inl _ \<Rightarrow> (\<lparr>cm_meta = new_meta, cm_Data = None\<rparr>, False)))"

section \<open>The stateful set of a service\<close>

text \<open>Assigning to a label of a map that is \<open>nil\<close> is a panic.\<close>

definition set_label :: "string \<Rightarrow> string \<Rightarrow> string_map \<Rightarrow> ('s, go_error, string_map) go" where
  "set_label key value labels =
     (case labels of
        None \<Rightarrow> panic ''assignment to entry in nil map''
      | Some es \<Rightarrow> ret (Some (AList.update key value es)))"

definition set_version :: "string \<Rightarrow> stateful_set \<Rightarrow> ('s, go_error, stateful_set) go" where
  "set_version v sts =
     bindM (set_label ''version'' v (pt_Labels (sts_Template sts))) (\<lambda>labels.
       ret (sts\<lparr>sts_Template := (sts_Template sts)\<lparr>pt_Labels := labels\<rparr>\<rparr>))"

definition version_label :: "stateful_set \<Rightarrow> string" where
  "version_label sts =
     (case map_of (map_entries (pt_Labels (sts_Template sts))) ''version'' of None \<Rightarrow> [] | Some v \<Rightarrow> v)"

definition CreateSTS ::
  "k8s_lib \<Rightarrow> (stateful_set, 's) kind_client \<Rightarrow> stateful_set \<Rightarrow> string \<Rightarrow> namespaced_name
    \<Rightarrow> ('s, go_error, stateful_set) go" where
  "CreateSTS lib kc sts instanceType request =
     bindM (tryM (kc_Get kc (fst request, sts_name request instanceType))) (\<lambda>r.
       case r of
         Inr _ \<Rightarrow> ret sts
       | Inl err \<Rightarrow>
           if IsNotFound lib err then bindM (set_version ''1'' sts) (kc_Create kc) else ret sts)"

definition images_changed :: "pod_container list \<Rightarrow> pod_container list \<Rightarrow> bool" where
  "images_changed intended current \<longleftrightarrow>
     list_ex (\<lambda>i. list_ex (\<lambda>c. pco_Name i = pco_Name c \<and> pco_Image i \<noteq> pco_Image c) current) intended"

definition UpdateSTS ::
  "k8s_lib \<Rightarrow> (stateful_set, 's) kind_client \<Rightarrow> stateful_set \<Rightarrow> string \<Rightarrow> namespaced_name \<Rightarrow> string
    \<Rightarrow> ('s, go_error, unit) go" where
  "UpdateSTS lib kc sts instanceType request strategy =
     bindM (tryM (kc_Get kc (fst request, sts_name request instanceType))) (\<lambda>r.
       case r of
         Inl err \<Rightarrow> if IsNotFound lib err then ret () else throw err
       | Inr current \<Rightarrow>
           bindM (deref_ptr (sts_Replicas sts)) (\<lambda>intendedReplicas.
           bindM (deref_ptr (sts_Replicas current)) (\<lambda>currentReplicas.
             if images_changed (pspec_Containers (pt_Spec (sts_Template sts)))
                  (pspec_Containers (pt_Spec (sts_Template current)))
                \<or> intendedReplicas \<noteq> currentReplicas
             then bindM (set_version
                    (if strategy = ''deleteFirst''
                     then Itoa (int64_of (Atoi_value (version_label current) + 1))
                     else version_label current) sts) (\<lambda>sts.
                  bindM (kc_Update kc sts) (\<lambda>_. ret ()))
             else ret ())))"

text \<open>
  \<open>SetInstanceActive\<close> of a resource: \<open>set_active\<close> is the write through the pointer
  \<open>activeStatus\<close> into the resource \<open>object\<close>, which is the resource itself.
\<close>

definition SetInstanceActive ::
  "(stateful_set, 's) kind_client \<Rightarrow> ('o, 's) kind_client \<Rightarrow> (bool \<Rightarrow> 'o \<Rightarrow> 'o) \<Rightarrow> stateful_set
    \<Rightarrow> namespaced_name \<Rightarrow> 'o \<Rightarrow> ('s, go_error, 'o) go" where
  "SetInstanceActive kc kco set_active sts request object1 =
     bindM (kc_Get kc (fst request, om_Name (sts_meta sts))) (\<lambda>sts.
     bindM (deref_ptr (sts_Replicas sts)) (\<lambda>replicas.
       let object1 = set_active (sts_ReadyReplicas sts = replicas) object1
       in bindM (kc_StatusUpdate kco object1) (\<lambda>_. ret object1)))"

section \<open>Pods\<close>

definition SetPodsToReady ::
  "(pod, 's) kind_client \<Rightarrow> pod list \<Rightarrow> ('s, go_error, unit) go" where
  "SetPodsToReady kc podList =
     forM podList (\<lambda>p.
       bindM (kc_Get kc (key_of (pod_meta p))) (\<lambda>podObject.
       bindM (set_label ''status'' ''ready'' (om_Labels (pod_meta podObject))) (\<lambda>labels.
       bindM (kc_Update kc (podObject\<lparr>pod_meta := (pod_meta podObject)\<lparr>om_Labels := labels\<rparr>\<rparr>)) (\<lambda>_.
         ret ()))))"

record alternative_ips =
  Retriever :: "(pod \<Rightarrow> string list) option"
  ServiceIP :: string

definition PodsCertSubjects ::
  "pod list \<Rightarrow> bool option \<Rightarrow> alternative_ips \<Rightarrow> cert_subject list" where
  "PodsCertSubjects podList hostNetwork podAltIPs =
     (let useNodeName = (case hostNetwork of None \<Rightarrow> True | Some b \<Rightarrow> b)
      in map (\<lambda>p. \<lparr>subj_name = om_Name (pod_meta p),
                   subj_hostname = (if useNodeName then pod_NodeName p else pod_Hostname p),
                   subj_ip = pod_PodIP p,
                   subj_alternativeIPs =
                     (if ServiceIP podAltIPs \<noteq> [] then [ServiceIP podAltIPs] else [])
                     @ (case Retriever podAltIPs of None \<Rightarrow> [] | Some f \<Rightarrow> f p)\<rparr>)
           (filter (\<lambda>p. pod_Phase p \<noteq> ''Failed'') podList))"

section \<open>Accounts\<close>

record cluster_role =
  crole_meta :: object_meta
  crole_Rules :: "(string list \<times> string list \<times> string list) list"

text \<open>A binding: the subject (kind, name, namespace) and the role (group, kind, name).\<close>

record cluster_role_binding =
  crb_meta :: object_meta
  crb_Subjects :: "(string \<times> string \<times> string) list"
  crb_RoleRef :: "string \<times> string \<times> string"

definition create_if_missing ::
  "k8s_lib \<Rightarrow> ('o, 's) kind_client \<Rightarrow> namespaced_name \<Rightarrow> ('s, go_error, unit) go \<Rightarrow> ('s, go_error, unit) go" where
  "create_if_missing lib kc key create =
     bindM (tryM (kc_Get kc key)) (\<lambda>r.
       case r of Inr _ \<Rightarrow> ret () | Inl err \<Rightarrow> if IsNotFound lib err then create else ret ())"

definition CreateAccount ::
  "k8s_lib \<Rightarrow> (object_meta, 's) kind_client \<Rightarrow> (cluster_role, 's) kind_client
    \<Rightarrow> (cluster_role_binding, 's) kind_client \<Rightarrow> string \<Rightarrow> string \<Rightarrow> object_meta \<Rightarrow> ('s, go_error, unit) go" where
  "CreateAccount lib accounts roles bindings accountName namespace owner =
     (let serviceAccountName = ''serviceaccount-'' @ accountName;
          clusterRoleName = ''clusterrole-'' @ accountName;
          clusterRoleBindingName = ''clusterrolebinding-'' @ accountName
      in bindM (create_if_missing lib accounts (namespace, serviceAccountName)
            (bindM (sum_result (SetControllerReference lib owner
                      (new_meta\<lparr>om_Name := serviceAccountName, om_Namespace := namespace\<rparr>))) (\<lambda>sa.
             bindM (ignoring (IsAlreadyExists lib) sa (kc_Create accounts sa)) (\<lambda>_. ret ())))) (\<lambda>_.
         bindM (create_if_missing lib roles ([], clusterRoleName)
            (bindM (kc_Create roles \<lparr>crole_meta = new_meta\<lparr>om_Name := clusterRoleName\<rparr>,
                      crole_Rules = [([''*''], [''*''], [''*''])]\<rparr>) (\<lambda>_. ret ()))) (\<lambda>_.
           create_if_missing lib bindings ([], clusterRoleBindingName)
            (bindM (kc_Create bindings \<lparr>crb_meta = new_meta\<lparr>om_Name := clusterRoleBindingName\<rparr>,
                      crb_Subjects = [(''ServiceAccount'', serviceAccountName, namespace)],
                      crb_RoleRef = (''rbac.authorization.k8s.io'', ''ClusterRole'', clusterRoleName)\<rparr>) (\<lambda>_. ret ())))))"

section \<open>The configuration of the status monitor\<close>

record monitor_config =
  mo_APIServerList :: "string list"
  mo_CA :: "string option"
  mo_Cert :: "string option"
  mo_Key :: "string option"
  mo_Insecure :: bool
  mo_NodeType :: string
  mo_Interval :: int
  mo_Hostname :: string
  mo_InCluster :: "bool option"
  mo_KubeConfigPath :: string
  mo_NodeName :: string
  mo_Namespace :: string
  mo_PodName :: string

text \<open>\<open>marshal\<close> is \<open>yaml.Marshal\<close>.\<close>

definition StatusMonitorConfig ::
  "(monitor_config \<Rightarrow> go_error + string) \<Rightarrow> string \<Rightarrow> string list \<Rightarrow> string \<Rightarrow> string \<Rightarrow> string \<Rightarrow> string \<Rightarrow> string
    \<Rightarrow> ('s, go_error, string) go" where
  "StatusMonitorConfig marshal hostname configNodeList podIP nodeType nodeName namespace podName =
     sum_result (marshal
       \<lparr>mo_APIServerList = configNodeList,
        mo_CA = Some (''/etc/ssl/certs/kubernetes/'' @ SignerCAFilename),
        mo_Cert = Some (''/etc/certificates/server-'' @ podIP @ ''.crt''),
        mo_Key = Some (''/etc/certificates/server-key-'' @ podIP @ ''.pem''), mo_Insecure = True,
        mo_NodeType = nodeType, mo_Interval = 10, mo_Hostname = hostname, mo_InCluster = Some True,
        mo_KubeConfigPath = [], mo_NodeName = nodeName, mo_Namespace = namespace, mo_PodName = podName\<rparr>)"

section \<open>Facts\<close>

lemma PrepareSTS_result:
  assumes "PrepareSTS lib sts cc ty req owner wait s = (Ok sts', s')"
  shows "s' = s \<and> sts_Selector sts' = Some (pt_Labels (sts_Template sts')) \<and>
     sts_Replicas sts' = pc_Replicas cc \<and> pt_Labels (sts_Template sts') = Some (instance_labels ty (snd req)) \<and>
     SetControllerReference lib owner ((sts_meta sts)\<lparr>om_Name := sts_name req ty, om_Namespace := fst req,
        om_Labels := Some (instance_labels ty (snd req))\<rparr>) = Inr (sts_meta sts')"
  using assms
  by (auto simp: PrepareSTS_def Let_def go_simps SetSTSCommonConfiguration_def)

lemma images_changed_iff:
  "images_changed intended current \<longleftrightarrow>
     (\<exists>i \<in> set intended. \<exists>c \<in> set current. pco_Name i = pco_Name c \<and> pco_Image i \<noteq> pco_Image c)"
  by (simp add: images_changed_def list_ex_iff)

lemma set_version_result:
  assumes "pt_Labels (sts_Template sts) = Some ls"
  shows "\<exists>sts'. set_version v sts s = (Ok sts', s) \<and> version_label sts' = v \<and>
     sts_Replicas sts' = sts_Replicas sts \<and> sts_meta sts' = sts_meta sts \<and>
     pt_Spec (sts_Template sts') = pt_Spec (sts_Template sts)"
  using assms by (simp add: set_version_def set_label_def version_label_def map_entries_def update_conv')

text \<open>
  An update is written exactly when an image or the number of replicas differs, and then its
  version label is the one the strategy asks for.
\<close>

lemma UpdateSTS_cases:
  assumes get: "kc_Get kc (fst req, sts_name req ty) s = (Ok current, s)"
    and r: "sts_Replicas sts = Some ri" "sts_Replicas current = Some rc"
    and l: "pt_Labels (sts_Template sts) = Some ls"
  shows "if images_changed (pspec_Containers (pt_Spec (sts_Template sts)))
              (pspec_Containers (pt_Spec (sts_Template current))) \<or> ri \<noteq> rc
    then \<exists>sts'. UpdateSTS lib kc sts ty req strategy s = bindM (kc_Update kc sts') (\<lambda>_. ret ()) s \<and>
        sts_Replicas sts' = Some ri \<and> pt_Spec (sts_Template sts') = pt_Spec (sts_Template sts) \<and>
        version_label sts' = (if strategy = ''deleteFirst''
          then Itoa (int64_of (Atoi_value (version_label current) + 1)) else version_label current)
    else UpdateSTS lib kc sts ty req strategy s = (Ok (), s)"
proof -
  define V where "V = (if strategy = ''deleteFirst''
     then Itoa (int64_of (Atoi_value (version_label current) + 1)) else version_label current)"
  define chg where "chg \<longleftrightarrow> images_changed (pspec_Containers (pt_Spec (sts_Template sts)))
     (pspec_Containers (pt_Spec (sts_Template current))) \<or> ri \<noteq> rc"
  have t: "tryM (kc_Get kc (fst req, sts_name req ty)) s = (Ok (Inr current), s)"
    by (simp add: get)
  have eq: "UpdateSTS lib kc sts ty req strategy s =
     (if chg then bindM (set_version V sts) (\<lambda>sts. bindM (kc_Update kc sts) (\<lambda>_. ret ())) else ret ()) s"
    by (simp only: UpdateSTS_def V_def chg_def bindM_def [of "tryM (kc_Get kc (fst req, sts_name req ty))"] t prod.case outcome.case
        sum.case r deref_ptr_Some bindM_ret)
  obtain sts' where s': "set_version V sts s = (Ok sts', s)" "version_label sts' = V"
    "sts_Replicas sts' = Some ri" "pt_Spec (sts_Template sts') = pt_Spec (sts_Template sts)"
    using set_version_result [OF l, of V s] r(1) by auto
  show ?thesis
    unfolding eq V_def [symmetric] chg_def [symmetric]
  proof (cases chg)
    case True
    then show "if chg then \<exists>sts'. (if chg then bindM (set_version V sts) (\<lambda>sts. bindM (kc_Update kc sts) (\<lambda>_. ret ()))
        else ret ()) s = bindM (kc_Update kc sts') (\<lambda>_. ret ()) s \<and> sts_Replicas sts' = Some ri \<and>
        pt_Spec (sts_Template sts') = pt_Spec (sts_Template sts) \<and> version_label sts' = V
      else (if chg then bindM (set_version V sts) (\<lambda>sts. bindM (kc_Update kc sts) (\<lambda>_. ret ())) else ret ()) s = (Ok (), s)"
      using s' by (auto simp: bindM_def [of "set_version V sts"])
  qed simp
qed

end
