(* ===== verification/OperatorProps.thy ===== *)
theory OperatorProps
  imports ManagerStatus BaseTypes
begin

text \<open>
  The properties of the operator: the manager, what it leaves in the cluster and in its status,
  and the functions that the controllers share.  The witnesses use the client in memory of
  \<open>ManagerLaws\<close>.
\<close>

section \<open>The manager and its services\<close>

text \<open>
  C13: \<open>IsClusterReady\<close> returns, reads only, and does not panic when the status entries have names.
  It is true if and only if the single services of the spec have an active status and every status
  entry that carries the name of a service of the six lists is active.  A service of a list that has
  no status entry is passed over, so that the answer means that the services of the spec are active
  only if each listed service has an entry; if they are all active the answer is true in any case.
\<close>

theorem IsClusterReady_decides:
  assumes "status_named (mg_status m)"
  shows "\<exists>b. IsClusterReady m s = (Ok b, s) \<and>
     (b \<longleftrightarrow> (\<forall>(names, sts) \<in> set (spec_lists m). \<forall>st \<in> set sts.
               ss_Name st \<in> Some ` set names \<longrightarrow> ss_Active st = Some True) \<and>
            (\<forall>(wanted, st) \<in> set (spec_singles m). wanted \<longrightarrow> (\<exists>x. st = Some x \<and> ss_Active x = Some True))) \<and>
     (services_listed m \<longrightarrow> (b \<longleftrightarrow> services_active m)) \<and> (services_active m \<longrightarrow> b)"
  using IsClusterReady_result [OF assms, of s]
  by (simp add: services_active_iff cluster_ready_parts list_ready_def ready_iff)

definition ex_meta :: "string \<Rightarrow> object_meta" where
  "ex_meta n = new_meta\<lparr>om_Name := n, om_Namespace := ''ns''\<rparr>"

definition ex_no_services :: services where
  "ex_no_services = \<lparr>Config = None, Controls = [], Kubemanagers = [], Webui = None, Vrouters = [], Cassandras = [],
     Zookeepers = [], Rabbitmq = None, ProvisionManager = None, Command = None, Postgres = None, Keystone = None,
     Swift = None, Memcached = None, Contrailmonitor = None, ContrailCNIs = []\<rparr>"

definition ex_no_status :: manager_status where
  "ex_no_status = \<lparr>ms_Config = None, ms_Controls = [], ms_Kubemanagers = [], ms_Webui = None, ms_Vrouters = [],
     ms_Cassandras = [], ms_Zookeepers = [], ms_Rabbitmq = None, ms_ProvisionManager = None, ms_Keystone = None,
     ms_Postgres = None, ms_Swift = None, ms_Command = None, ms_Memcached = None, ms_Contrailmonitor = None,
     ms_ContrailCNIs = [], ms_Conditions = []\<rparr>"

definition ex_zk :: "string \<Rightarrow> zookeeper_configuration service" where
  "ex_zk n = \<lparr>sv_meta = \<lparr>sm_Name = n, sm_Namespace = [], sm_Labels = None\<rparr>, sv_common = new_common,
     sv_conf = no_zookeeper_configuration\<rparr>"

definition ex_manager :: manager where
  "ex_manager = \<lparr>mg_meta = ex_meta ''cluster1'',
     mg_common = \<lparr>mc_NodeSelector = None, mc_HostNetwork = Some True, mc_ImagePullSecrets = [], mc_Tolerations = []\<rparr>,
     mg_services = ex_no_services\<lparr>Zookeepers := [ex_zk ''zk2'']\<rparr>, mg_KeystoneSecretName = [],
     mg_status = ex_no_status\<lparr>ms_Zookeepers := [\<lparr>ss_Name = Some ''zk1'', ss_Active = Some True\<rparr>]\<rparr>\<rparr>"

text \<open>
  \<open>zk2\<close> of the spec has no entry: the answer is true although it is not active.  With an entry that
  is not active the answer is false, and true once it is active.
\<close>

definition ex_reported :: "bool \<Rightarrow> manager" where
  "ex_reported active = ex_manager\<lparr>mg_status :=
     ex_no_status\<lparr>ms_Zookeepers := [\<lparr>ss_Name = Some ''zk2'', ss_Active = Some active\<rparr>]\<rparr>\<rparr>"

theorem IsClusterReady_decides_witness:
  "IsClusterReady ex_manager (0::nat) = (Ok True, 0) \<and> \<not> services_active ex_manager \<and>
   IsClusterReady (ex_reported False) (0::nat) = (Ok False, 0) \<and>
   IsClusterReady (ex_reported True) (0::nat) = (Ok True, 0) \<and> services_active (ex_reported True)"
proof -
  note defs = ex_manager_def ex_reported_def ex_no_status_def ex_no_services_def service_names_def ex_zk_def
    spec_lists_def spec_singles_def
  have named: "status_named (mg_status ex_manager)" "\<And>b. status_named (mg_status (ex_reported b))"
    by (simp_all add: status_named_def ex_manager_def ex_reported_def ex_no_status_def named_def)
  have "\<not> services_active ex_manager" "services_active (ex_reported True)"
    by (simp_all add: services_active_def defs)
  with IsClusterReady_decides [OF named(1), of "0::nat"] IsClusterReady_decides [OF named(2), of False "0::nat"]
    IsClusterReady_decides [OF named(2), of True "0::nat"]
  show ?thesis by (auto simp: defs)
qed

text \<open>
  C14: when a reconciliation that reaches the services succeeds, the last thing it does is to write
  a status whose list entries have names and whose \<open>Ready\<close> condition says whether the cluster,
  with this status, is ready.  It reaches them when the manager is there, is not being deleted and
  its selector finds nodes.
\<close>

theorem Reconcile_sets_ready:
  assumes run: "Reconcile lib ord cls pass gen req s = (Ok (), s')"
    and get: "kc_Get (cl_manager cls) req s = (Ok m, s0)" and alive: "\<not> om_Deleted (mg_meta m)"
    and nodes: "\<And>sel t ns t'. kc_List (cl_node cls) [] sel t = (Ok ns, t') \<Longrightarrow> getReplicas ns \<noteq> 0"
  shows "\<exists>m' t. kc_StatusUpdate (cl_manager cls) m' t = (Ok (), s') \<and> status_named (mg_status m') \<and>
     ms_Conditions (mg_status m') = [(''Ready'', if cluster_ready m' then ''True'' else ''False'')]"
proof -
  from run get alive obtain m1 ns t t' m2 t'' m3 u where
    n: "getNodes cls (map_entries (mc_NodeSelector (mg_common m1))) t = (Ok ns, t')"
    and rest: "(if getReplicas ns = 0 then ret () else
        bindM (process_services lib ord cls (getReplicas ns) (getNodesHostAliases ns) m1) (\<lambda>m.
          bindM (setConditions m) (\<lambda>m. kc_StatusUpdate (cl_manager cls) m))) t' = (Ok (), s')"
    by (auto simp: Reconcile_def Let_def bindM_Ok_iff tryM_Ok_iff split: sum.split_asm)
  from n nodes have "getReplicas ns \<noteq> 0" by (simp add: getNodes_def)
  with rest obtain m2 m3 u u' where
    p: "process_services lib ord cls (getReplicas ns) (getNodesHostAliases ns) m1 t' = (Ok m2, u)"
    and c: "setConditions m2 u = (Ok m3, u')" and st: "kc_StatusUpdate (cl_manager cls) m3 u' = (Ok (), s')"
    by (auto simp: bindM_Ok_iff)
  from setConditions_result [OF process_services_named [OF p], of u] c have "status_named (mg_status m3)"
    "ms_Conditions (mg_status m3) = [(''Ready'', if cluster_ready m3 then ''True'' else ''False'')]" by auto
  with st show ?thesis by blast
qed

text \<open>A cluster of managers, Zookeepers, secrets and config maps, with one node.\<close>

record ex_cluster =
  xs_managers :: "manager mem_objects"
  xs_zookeepers :: "zookeeper_configuration cr mem_objects"
  xs_secrets :: "k_secret mem_objects"
  xs_configmaps :: "config_map mem_objects"

definition ex_no_client :: "('o, 's) kind_client" where
  "ex_no_client = \<lparr>kc_Get = (\<lambda>_. throw mem_NotFound), kc_List = (\<lambda>_ _. ret []), kc_Create = ret, kc_Update = ret,
     kc_Delete = (\<lambda>_. throw mem_NotFound), kc_DeleteWith = (\<lambda>_ _. throw mem_NotFound), kc_StatusUpdate = (\<lambda>_. ret ()), kc_CreateOrUpdate = (\<lambda>x f. f x)\<rparr>"

definition ex_no_clients :: "'s clients" where
  "ex_no_clients = \<lparr>cl_cassandra = ex_no_client, cl_zookeeper = ex_no_client, cl_webui = ex_no_client,
     cl_provisionmanager = ex_no_client, cl_config = ex_no_client, cl_kubemanager = ex_no_client,
     cl_control = ex_no_client, cl_rabbitmq = ex_no_client, cl_vrouter = ex_no_client, cl_cni = ex_no_client,
     cl_postgres = ex_no_client, cl_command = ex_no_client, cl_keystone = ex_no_client, cl_swift = ex_no_client,
     cl_memcached = ex_no_client, cl_monitor = ex_no_client, cl_manager = ex_no_client,
     cl_secret = ex_no_client, cl_configmap = ex_no_client, cl_node = ex_no_client\<rparr>"

definition ex_node :: k8s_node where
  "ex_node = \<lparr>kn_meta = ex_meta ''node1'', kn_Addresses = [(''InternalIP'', ''10.0.0.1''), (''Hostname'', ''node1'')]\<rparr>"

definition ex_zookeepers :: "(zookeeper_configuration cr, ex_cluster) kind_client" where
  "ex_zookeepers = mem_client xs_zookeepers (\<lambda>v s. s\<lparr>xs_zookeepers := v\<rparr>) [] cr_meta"

definition ex_clients :: "ex_cluster clients" where
  "ex_clients = ex_no_clients\<lparr>cl_zookeeper := ex_zookeepers,
     cl_manager := mem_client xs_managers (\<lambda>v s. s\<lparr>xs_managers := v\<rparr>) [(''ns'', ''cluster1'')] mg_meta,
     cl_secret := mem_client xs_secrets (\<lambda>v s. s\<lparr>xs_secrets := v\<rparr>) [] sec_meta,
     cl_configmap := mem_client xs_configmaps (\<lambda>v s. s\<lparr>xs_configmaps := v\<rparr>) [] cm_meta,
     cl_node := ex_no_client\<lparr>kc_List := (\<lambda>_ _. ret [ex_node])\<rparr>\<rparr>"

definition ex_zk1 :: "zookeeper_configuration cr" where
  "ex_zk1 = \<lparr>cr_meta = ex_meta ''zk1'', cr_common = new_common, cr_conf = no_zookeeper_configuration,
     cr_status = new_status\<lparr>st_Active := Some True\<rparr>\<rparr>"

definition ex_cluster1 :: ex_cluster where
  "ex_cluster1 = \<lparr>xs_managers = [(''ns'', ''cluster1'') \<mapsto> ex_manager], xs_zookeepers = [(''ns'', ''zk1'') \<mapsto> ex_zk1],
     xs_secrets = Map.empty, xs_configmaps = Map.empty\<rparr>"

lemmas ex_clients_simps = ex_clients_def ex_no_clients_def ex_no_client_def ex_zookeepers_def mem_client_def mem_lib_def

lemmas ex_manager_simps = ex_manager_def ex_no_services_def ex_no_status_def ex_zk_def ex_meta_def

lemma ex_process_services:
  assumes "mg_services m = ex_no_services\<lparr>Zookeepers := [ex_zk ''zk2'']\<rparr>"
    and "mg_status m = ex_no_status\<lparr>ms_Zookeepers := [\<lparr>ss_Name = Some ''zk1'', ss_Active = Some True\<rparr>]\<rparr>"
    and "xs_zookeepers s = [(''ns'', ''zk1'') \<mapsto> ex_zk1]" and "mg_meta m = ex_meta ''cluster1''"
  shows "\<exists>m' s'. process_services mem_lib in_order ex_clients n al m s = (Ok m', s')"
  using assms
  by (simp add: process_services_def processCassandras_def processZookeepers_def processWebui_def
      processProvisionManager_def processConfig_def processKubemanagers_def processControls_def processRabbitMQ_def
      processVRouters_def processContrailCNIs_def processPostgres_def processCommand_def processKeystone_def
      processSwift_def processMemcached_def processContrailmonitor_def ex_no_services_def ex_no_status_def
      delete_stale_def delete_single_def upsert_services_def service_names_def ex_zk_def ex_clients_simps
      zookeeper_mutate_def set_owner_def ignoring_def bindM_def tryM_def ret_def throw_def ex_meta_def new_meta_def)

lemma ex_manager_fields:
  "mg_meta ex_manager = ex_meta ''cluster1''" "mg_KeystoneSecretName ex_manager = []"
  "mc_NodeSelector (mg_common ex_manager) = None"
  by (simp_all add: ex_manager_def)

lemma ex_Reconcile:
  "\<exists>s'. Reconcile mem_lib in_order ex_clients ''pw'' (ret (''cert'', ''key'')) (''ns'', ''cluster1'') ex_cluster1 = (Ok (), s')"
proof -
  define P where "P = process_services mem_lib in_order ex_clients"
  define fin where "fin = (\<lambda>m. bindM (setConditions m) (\<lambda>m. kc_StatusUpdate (cl_manager ex_clients) m))"
  let ?m = "ex_manager\<lparr>mg_KeystoneSecretName := ''cluster1-admin-password''\<rparr>"
  let ?P = "P 1 (getNodesHostAliases [ex_node]) ?m"
  have "\<exists>m' t w. ?P s = (Ok m', t) \<and> fin m' t = (Ok (), w)" if s: "xs_zookeepers s = [(''ns'', ''zk1'') \<mapsto> ex_zk1]" for s
  proof -
    have "\<exists>m' t. ?P s = (Ok m', t)"
      unfolding P_def by (rule ex_process_services) (simp_all add: ex_manager_def s)
    then obtain m' t where p: "?P s = (Ok m', t)" by blast
    from setConditions_result [OF process_services_named [OF p [unfolded P_def]], of t]
    obtain m2 where "setConditions m' t = (Ok m2, t)" by blast
    with p show ?thesis by (simp add: fin_def bindM_def ex_clients_def mem_client_def)
  qed
  then have "\<forall>s. \<exists>r. xs_zookeepers s = [(''ns'', ''zk1'') \<mapsto> ex_zk1] \<longrightarrow>
      ?P s = (Ok (fst r), fst (snd r)) \<and> fin (fst r) (fst (snd r)) = (Ok (), snd (snd r))" by force
  from choice [OF this] obtain F where
    R: "\<And>s. xs_zookeepers s = [(''ns'', ''zk1'') \<mapsto> ex_zk1] \<Longrightarrow> ?P s = (Ok (fst (F s)), fst (snd (F s)))"
    "\<And>s. xs_zookeepers s = [(''ns'', ''zk1'') \<mapsto> ex_zk1] \<Longrightarrow> fin (fst (F s)) (fst (snd (F s))) = (Ok (), snd (snd (F s)))"
    by auto
  have one: "getReplicas [ex_node] = 1" by (simp add: getReplicas_def int32_of_def)
  show ?thesis
    unfolding Reconcile_def P_def [symmetric] fin_def [symmetric]
    by (simp add: Let_def prepare_provision_config_def processCSRSignerCaConfigMap_def
        CACertificate_EnsureExists_def Secret_EnsureExists_def createNewOrGetExistingSecret_def
        ensureAdminPassSecretExist_def admin_FillSecret_def ca_FillSecret_def caCertExistsInSecret_def GetCaCert_def
        getNodes_def one R ex_clients_simps ex_cluster1_def ex_manager_fields ex_meta_def new_meta_def key_of_def
        map_entries_def caSecretName_def
        bindM_def tryM_def ret_def throw_def sum_result_def del: getNodesHostAliases.simps)
qed

theorem Reconcile_sets_ready_witness:
  "\<exists>s' m' t. Reconcile mem_lib in_order ex_clients ''pw'' (ret (''cert'', ''key'')) (''ns'', ''cluster1'') ex_cluster1
       = (Ok (), s') \<and> kc_StatusUpdate (cl_manager ex_clients) m' t = (Ok (), s') \<and>
     ms_Conditions (mg_status m') = [(''Ready'', if cluster_ready m' then ''True'' else ''False'')]"
proof -
  obtain s' where r: "Reconcile mem_lib in_order ex_clients ''pw'' (ret (''cert'', ''key'')) (''ns'', ''cluster1'') ex_cluster1
     = (Ok (), s')" using ex_Reconcile by blast
  have "\<exists>m' t. kc_StatusUpdate (cl_manager ex_clients) m' t = (Ok (), s') \<and> status_named (mg_status m') \<and>
     ms_Conditions (mg_status m') = [(''Ready'', if cluster_ready m' then ''True'' else ''False'')]"
  proof (rule Reconcile_sets_ready [OF r])
    show "kc_Get (cl_manager ex_clients) (''ns'', ''cluster1'') ex_cluster1 = (Ok ex_manager, ex_cluster1)"
      by (simp add: ex_clients_simps ex_cluster1_def)
    show "getReplicas ns \<noteq> 0" if "kc_List (cl_node ex_clients) [] sel t = (Ok ns, t')" for sel t ns t'
      using that by (auto simp: ex_clients_def ret_def getReplicas_def int32_of_def)
  qed (simp add: ex_manager_fields ex_meta_def new_meta_def)
  with r show ?thesis by blast
qed

text \<open>
  C15: after a successful \<open>processZookeepers\<close>, the resources of the kind are: for each service of
  the spec, a resource with its configuration and the merged common configuration, whose status is
  kept; none for the entries of the old status that the spec no longer has; and every other
  resource as it was.  The new status lists the resources of the spec in order.
\<close>

theorem processZookeepers_reconciles:
  assumes srv: "kind_server lib (cl_zookeeper cls) cr_meta objects"
    and run: "processZookeepers lib cls m replicas s = (Ok m', s')"
    and dist: "distinct (service_names (Zookeepers (mg_services m)))"
  shows "services_reconciled (\<lambda>sv. (om_Namespace (mg_meta m), sm_Name (sv_meta sv)))
     (\<lambda>sv old r. cr_conf r = sv_conf sv \<and> cr_common r = merged m replicas (sv_common sv) \<and>
        cr_status r = (case old of None \<Rightarrow> new_status | Some z \<Rightarrow> cr_status z)) cr_service_status
     (stale_keys m (ms_Zookeepers (mg_status m)) (service_names (Zookeepers (mg_services m))))
     (Zookeepers (mg_services m)) (objects s) (objects s') (ms_Zookeepers (mg_status m'))"
proof -
  from run obtain t sts where
    d: "delete_stale lib (cl_zookeeper cls) m (ms_Zookeepers (mg_status m)) (service_names (Zookeepers (mg_services m))) s = (Ok (), t)"
    and u: "upsert_services (cl_zookeeper cls) (\<lambda>sv. new_cr m (sv_meta sv) no_zookeeper_configuration)
        (zookeeper_mutate lib m replicas) cr_service_status (Zookeepers (mg_services m)) t = (Ok sts, s')"
    and m': "ms_Zookeepers (mg_status m') = sts"
    by (auto simp: processZookeepers_def bindM_Ok_iff)
  from kind_server.process_list_effect [OF srv d u _ dist] show ?thesis
    unfolding m' by (rule services_reconciled_mono)
      (auto simp: service_names_def zookeeper_mutate_def dest!: set_owner_Inr split: option.splits)
qed

theorem processZookeepers_reconciles_witness:
  "\<exists>m' s'. processZookeepers mem_lib ex_clients ex_manager 1 ex_cluster1 = (Ok m', s') \<and>
     xs_zookeepers s' (''ns'', ''zk1'') = None \<and> xs_zookeepers s' (''ns'', ''zk2'') \<noteq> None"
proof -
  have "\<exists>m' s'. processZookeepers mem_lib ex_clients ex_manager 1 ex_cluster1 = (Ok m', s')"
    by (simp add: processZookeepers_def delete_stale_def upsert_services_def service_names_def ex_manager_simps
        ex_clients_simps zookeeper_mutate_def set_owner_def ignoring_def bindM_def tryM_def ret_def throw_def new_meta_def)
  then obtain m' s' where r: "processZookeepers mem_lib ex_clients ex_manager 1 ex_cluster1 = (Ok m', s')" by blast
  have srv: "kind_server mem_lib (cl_zookeeper ex_clients) cr_meta xs_zookeepers"
    unfolding ex_clients_def ex_zookeepers_def by (simp add: mem_client_server)
  have "services_reconciled (\<lambda>sv. (om_Namespace (mg_meta ex_manager), sm_Name (sv_meta sv)))
     (\<lambda>sv old r. cr_conf r = sv_conf sv \<and> cr_common r = merged ex_manager 1 (sv_common sv) \<and>
        cr_status r = (case old of None \<Rightarrow> new_status | Some z \<Rightarrow> cr_status z)) cr_service_status
     (stale_keys ex_manager (ms_Zookeepers (mg_status ex_manager)) (service_names (Zookeepers (mg_services ex_manager))))
     (Zookeepers (mg_services ex_manager)) (xs_zookeepers ex_cluster1) (xs_zookeepers s') (ms_Zookeepers (mg_status m'))"
    by (rule processZookeepers_reconciles [OF srv r]) (simp add: ex_manager_simps service_names_def)
  moreover have "(''ns'', ''zk1'') \<in> stale_keys ex_manager (ms_Zookeepers (mg_status ex_manager))
      (service_names (Zookeepers (mg_services ex_manager)))"
    by (simp add: stale_keys_def ex_manager_simps service_names_def new_meta_def)
  ultimately show ?thesis using r
    by (auto simp: services_reconciled_def ex_manager_simps list_all2_Cons1)
qed

text \<open>
  the same for \<open>processCassandras\<close>, whose resources also get the host aliases of the nodes
  unless the service has its own, and the name of the manager as their cluster name unless the
  service has one.
\<close>

theorem processCassandras_reconciles:
  assumes srv: "kind_server lib (cl_cassandra cls) cr_meta objects"
    and run: "processCassandras lib cls m replicas aliases s = (Ok m', s')"
    and dist: "distinct (service_names (Cassandras (mg_services m)))"
  shows "services_reconciled (\<lambda>sv. (om_Namespace (mg_meta m), sm_Name (sv_meta sv)))
     (\<lambda>sv old r.
        cr_conf r = (sv_conf sv)\<lparr>ca_ClusterName := (if ca_ClusterName (sv_conf sv) = [] then om_Name (mg_meta m)
                                                    else ca_ClusterName (sv_conf sv))\<rparr> \<and>
        cr_common r = default_aliases aliases (merged m replicas (sv_common sv)) \<and>
        cr_status r = (case old of None \<Rightarrow> new_status | Some z \<Rightarrow> cr_status z)) cr_service_status
     (stale_keys m (ms_Cassandras (mg_status m)) (service_names (Cassandras (mg_services m))))
     (Cassandras (mg_services m)) (objects s) (objects s') (ms_Cassandras (mg_status m'))"
proof -
  from run obtain t sts where
    d: "delete_stale lib (cl_cassandra cls) m (ms_Cassandras (mg_status m)) (service_names (Cassandras (mg_services m))) s = (Ok (), t)"
    and u: "upsert_services (cl_cassandra cls) (\<lambda>sv. new_cr m (sv_meta sv) no_cassandra_configuration)
        (cassandra_mutate lib m replicas aliases) cr_service_status (Cassandras (mg_services m)) t = (Ok sts, s')"
    and m': "ms_Cassandras (mg_status m') = sts"
    by (auto simp: processCassandras_def bindM_Ok_iff)
  from kind_server.process_list_effect [OF srv d u _ dist] show ?thesis
    unfolding m' by (rule services_reconciled_mono)
      (auto simp: service_names_def cassandra_mutate_def str_or_def dest!: set_owner_Inr split: option.splits)
qed

definition ex_cassandra_clients :: "cassandra_configuration cr mem_objects clients" where
  "ex_cassandra_clients = ex_no_clients\<lparr>cl_cassandra := mem_client (\<lambda>s. s) (\<lambda>v s. v) [] cr_meta\<rparr>"

definition ex_cassandra_manager :: manager where
  "ex_cassandra_manager = ex_manager\<lparr>mg_services := ex_no_services\<lparr>Cassandras :=
     [\<lparr>sv_meta = \<lparr>sm_Name = ''ca'', sm_Namespace = [], sm_Labels = None\<rparr>, sv_common = new_common,
       sv_conf = no_cassandra_configuration\<rparr>]\<rparr>\<rparr>"

theorem processCassandras_reconciles_witness:
  "\<exists>m' s' r. processCassandras mem_lib ex_cassandra_clients ex_cassandra_manager 3 [] Map.empty = (Ok m', s') \<and>
     s' (''ns'', ''ca'') = Some r \<and> ca_ClusterName (cr_conf r) = ''cluster1''"
proof -
  have "\<exists>m' s'. processCassandras mem_lib ex_cassandra_clients ex_cassandra_manager 3 [] Map.empty = (Ok m', s')"
    by (simp add: processCassandras_def delete_stale_def upsert_services_def service_names_def ex_cassandra_manager_def
        ex_manager_simps ex_cassandra_clients_def mem_client_def mem_lib_def cassandra_mutate_def set_owner_def
        bindM_def tryM_def ret_def throw_def new_meta_def)
  then obtain m' s' where
    r: "processCassandras mem_lib ex_cassandra_clients ex_cassandra_manager 3 [] Map.empty = (Ok m', s')" by blast
  have srv: "kind_server mem_lib (cl_cassandra ex_cassandra_clients) cr_meta (\<lambda>s. s)"
    unfolding ex_cassandra_clients_def by (simp add: memk.kind_server_axioms)
  have "distinct (service_names (Cassandras (mg_services ex_cassandra_manager)))"
    by (simp add: ex_cassandra_manager_def service_names_def)
  from processCassandras_reconciles [OF srv r this] r show ?thesis
    by (auto simp: services_reconciled_def ex_cassandra_manager_def ex_manager_simps list_all2_Cons1
        no_cassandra_configuration_def)
qed

text \<open>
  C16: \<open>processConfig\<close>, for a service of which there is at most one.  A config in the spec has its
  resource afterwards, with the Keystone secret of the manager in its configuration; the status
  carries its name.  Without one in the spec, the resource that the status names is gone and the
  status is empty.  Nothing else changes.
\<close>

theorem processConfig_reconciles:
  assumes srv: "kind_server lib (cl_config cls) cr_meta objects"
    and run: "processConfig lib cls m replicas aliases s = (Ok m', s')"
  shows "case Config (mg_services m) of
      None \<Rightarrow> ms_Config (mg_status m') = None \<and>
        objects s' = (case ms_Config (mg_status m) of None \<Rightarrow> objects s
          | Some st \<Rightarrow> (case ss_Name st of None \<Rightarrow> objects s
              | Some n \<Rightarrow> (objects s)((om_Namespace (mg_meta m), n) := None)))
    | Some sv \<Rightarrow> \<exists>r. objects s' = (objects s)((om_Namespace (mg_meta m), sm_Name (sv_meta sv)) \<mapsto> r) \<and>
        cr_conf r = (sv_conf sv)\<lparr>cf_KeystoneSecretName := mg_KeystoneSecretName m\<rparr> \<and>
        cr_common r = default_aliases aliases (merged m replicas (sv_common sv)) \<and>
        ms_Config (mg_status m') = Some (cr_service_status r)"
proof (cases "Config (mg_services m)")
  case None
  with run obtain u where "delete_single lib (cl_config cls) m (ms_Config (mg_status m)) s = (Ok u, s')"
    "ms_Config (mg_status m') = None"
    by (auto simp: processConfig_def bindM_Ok_iff)
  with kind_server.delete_single_effect [OF srv this(1)] None show ?thesis by simp
next
  case (Some sv0)
  let ?sv = "sv0\<lparr>sv_conf := (sv_conf sv0)\<lparr>cf_KeystoneSecretName := mg_KeystoneSecretName m\<rparr>\<rparr>"
  let ?m1 = "m\<lparr>mg_services := (mg_services m)\<lparr>Config := Some ?sv\<rparr>\<rparr>"
  from run Some obtain r where
    c: "kc_CreateOrUpdate (cl_config cls) (new_cr m (sv_meta ?sv) no_config_configuration)
          (\<lambda>r. sum_result (config_mutate lib ?m1 replicas aliases ?sv r)) s = (Ok r, s')"
    and st: "ms_Config (mg_status m') = Some (cr_service_status r)"
    by (auto simp: processConfig_def Let_def bindM_Ok_iff)
  from kind_server.CreateOrUpdate_Ok [OF srv c] st Some show ?thesis
    by (auto simp: sum_result_Ok_iff config_mutate_def merged_def dest!: set_owner_Inr)
qed

theorem processConfig_reconciles_witness:
  "\<exists>m' s'. processConfig mem_lib (ex_no_clients\<lparr>cl_config := mem_client (\<lambda>s. s) (\<lambda>v s. v) [] cr_meta\<rparr>)
      (ex_manager\<lparr>mg_status := ex_no_status\<lparr>ms_Config := Some \<lparr>ss_Name = Some ''c'', ss_Active = None\<rparr>\<rparr>\<rparr>) 1 []
      [(''ns'', ''c'') \<mapsto> new_cr ex_manager (sv_meta (ex_zk ''c'')) no_config_configuration] = (Ok m', s') \<and>
    s' (''ns'', ''c'') = None \<and> ms_Config (mg_status m') = None"
proof -
  let ?cls = "ex_no_clients\<lparr>cl_config := mem_client (\<lambda>s. s) (\<lambda>v s. v) [] cr_meta\<rparr>"
  let ?m = "ex_manager\<lparr>mg_status := ex_no_status\<lparr>ms_Config := Some \<lparr>ss_Name = Some ''c'', ss_Active = None\<rparr>\<rparr>\<rparr>"
  let ?s = "[(''ns'', ''c'') \<mapsto> new_cr ex_manager (sv_meta (ex_zk ''c'')) no_config_configuration]"
  have none: "Config (mg_services ex_manager) = None" "om_Namespace (mg_meta ex_manager) = ''ns''"
    by (simp_all add: ex_manager_simps new_meta_def)
  have "\<exists>m' s'. processConfig mem_lib ?cls ?m 1 [] ?s = (Ok m', s')"
    by (simp add: processConfig_def none delete_single_def ignoring_def mem_client_def bindM_def tryM_def ret_def)
  then obtain m' s' where r: "processConfig mem_lib ?cls ?m 1 [] ?s = (Ok m', s')" by blast
  have "kind_server mem_lib (cl_config ?cls) cr_meta (\<lambda>s. s)" by (simp add: memk.kind_server_axioms)
  from processConfig_reconciles [OF this r] r none show ?thesis by auto
qed

text \<open>
  C17: a Kubemanager is only filled in after its dependencies answered as active, and then filling
  it in can not fail, whatever the order of the node maps: each lookup it makes succeeds.
\<close>

theorem kubemanager_gate:
  assumes "kubemanagerDependenciesReady cls ca zk ks mm s = (Ok True, s')"
    and "read_only (cl_cassandra cls)" "read_only (cl_zookeeper cls)" "read_only (cl_rabbitmq cls)"
      "read_only (cl_config cls)" "read_only (cl_keystone cls)"
  shows "\<exists>km'. fillKubemanagerConfiguration ord cls km ca zk ks mm s = (Ok km', s)"
  using assms by (rule fillKubemanager_Ok)

definition ex_active :: "'c \<Rightarrow> ('c cr, 's) kind_client" where
  "ex_active c = ex_no_client
     \<lparr>kc_Get := (\<lambda>_. ret \<lparr>cr_meta = ex_meta ''x'', cr_common = new_common, cr_conf = c,
        cr_status = new_status\<lparr>st_Active := Some True\<rparr>\<rparr>),
      kc_List := (\<lambda>_ _. ret [\<lparr>cr_meta = ex_meta ''x'', cr_common = new_common, cr_conf = c,
        cr_status = new_status\<lparr>st_Active := Some True\<rparr>\<rparr>])\<rparr>"

definition ex_active_clients :: "unit clients" where
  "ex_active_clients = ex_no_clients\<lparr>cl_cassandra := ex_active no_cassandra_configuration,
     cl_zookeeper := ex_active no_zookeeper_configuration, cl_rabbitmq := ex_active no_rabbitmq_configuration,
     cl_config := ex_active no_config_configuration, cl_keystone := ex_active no_keystone_configuration\<rparr>"

theorem kubemanager_gate_witness:
  "\<exists>km'. fillKubemanagerConfiguration in_reverse ex_active_clients
     (new_cr ex_manager (sv_meta (ex_zk ''km'')) no_kubemanager_service_configuration) ''ca'' ''zk'' ''ks'' (ex_meta ''m'') ()
     = (Ok km', ())"
  by (rule kubemanager_gate [where s' = "()"])
     (simp_all add: ex_active_clients_def ex_active_def read_only_def kubemanagerDependenciesReady_def
       Cassandra_IsActive_def Zookeeper_IsActive_def Rabbitmq_IsActive_def Config_IsActive_def Keystone_IsActive_def
       IsActive_by_name_def IsActive_by_label_def is_active_def ret_def bindM_def tryM_def)

text \<open>
  C18: the number of replicas is the largest odd number that is not above the number of nodes, and
  0 only when there are none.
\<close>

theorem getReplicas_odd:
  assumes "length nodes < 2 ^ 31"
  shows "getReplicas nodes \<le> int (length nodes) \<and> int (length nodes) \<le> getReplicas nodes + 1 \<and>
     (nodes \<noteq> [] \<longrightarrow> odd (getReplicas nodes)) \<and> (getReplicas nodes = 0 \<longleftrightarrow> nodes = [])"
proof -
  have n: "int32_of (int (length nodes)) = int (length nodes)"
    using assms by (intro int32_small) auto
  have n1: "nodes \<noteq> [] \<Longrightarrow> int32_of (int (length nodes) - 1) = int (length nodes) - 1"
    using assms by (intro int32_small) (auto simp: Suc_le_eq)
  show ?thesis
  proof (cases "nodes = []")
    case True
    then show ?thesis by (simp add: getReplicas_def int32_of_def)
  next
    case False
    then have "0 < length nodes" by simp
    with False n n1 show ?thesis
      by (auto simp: getReplicas_def Let_def)
  qed
qed

theorem getReplicas_odd_witness: "getReplicas [ex_node, ex_node, ex_node, ex_node] \<le> 4 \<and> odd (getReplicas [ex_node, ex_node, ex_node, ex_node])"
  using getReplicas_odd [of "[ex_node, ex_node, ex_node, ex_node]"] by simp

text \<open>
  a node gets a host alias exactly when it has both an internal address and a host name, made
  of the last ones in its list.
\<close>

theorem host_aliases_complete:
  "getNodesHostAliases nodes =
     List.map_filter (\<lambda>n. case (find (\<lambda>(ty, _). ty = ''InternalIP'') (rev (kn_Addresses n)),
                                find (\<lambda>(ty, _). ty = ''Hostname'') (rev (kn_Addresses n))) of
        (Some (_, ip), Some (_, h)) \<Rightarrow> if ip = [] \<or> h = [] then None else Some \<lparr>ha_IP = ip, ha_Hostnames = [h]\<rparr>
      | _ \<Rightarrow> None) nodes"
  by (induction nodes) (auto simp: node_addresses_result map_filter_simps split: option.splits)

section \<open>Configurations\<close>

text \<open>
  a setting of the service wins over the setting of the manager, which is only used where the
  service has none; host aliases and replicas are never taken from the manager; merging twice is
  merging once.
\<close>

theorem MergeCommon_service_wins:
  "(map_entries (pc_NodeSelector i) \<noteq> [] \<longrightarrow> pc_NodeSelector (MergeCommonConfiguration m i) = pc_NodeSelector i) \<and>
   (map_entries (pc_NodeSelector i) = [] \<and> map_entries (mc_NodeSelector m) \<noteq> [] \<longrightarrow>
      pc_NodeSelector (MergeCommonConfiguration m i) = mc_NodeSelector m) \<and>
   pc_HostNetwork (MergeCommonConfiguration m i) =
     (if pc_HostNetwork i = None then mc_HostNetwork m else pc_HostNetwork i) \<and>
   pc_ImagePullSecrets (MergeCommonConfiguration m i) =
     (if pc_ImagePullSecrets i = [] then mc_ImagePullSecrets m else pc_ImagePullSecrets i) \<and>
   pc_Tolerations (MergeCommonConfiguration m i) =
     (if pc_Tolerations i = [] then mc_Tolerations m else pc_Tolerations i) \<and>
   pc_HostAliases (MergeCommonConfiguration m i) = pc_HostAliases i \<and>
   pc_Replicas (MergeCommonConfiguration m i) = pc_Replicas i \<and>
   MergeCommonConfiguration m (MergeCommonConfiguration m i) = MergeCommonConfiguration m i"
  by (simp add: Merge_fields Merge_idem)

theorem MergeCommon_service_wins_witness:
  "pc_HostNetwork (MergeCommonConfiguration (mg_common ex_manager) (new_common\<lparr>pc_HostNetwork := Some False\<rparr>)) = Some False \<and>
   pc_HostNetwork (MergeCommonConfiguration (mg_common ex_manager) new_common) = Some True"
  using MergeCommon_service_wins [of "new_common\<lparr>pc_HostNetwork := Some False\<rparr>" "mg_common ex_manager"]
    MergeCommon_service_wins [of new_common "mg_common ex_manager"]
  by (simp add: ex_manager_def new_common_def)

text \<open>
  C19: the addresses in the cluster configuration of Cassandra, Zookeeper, RabbitMQ, Config and
  Control do not depend on the order in which Go visits the map of nodes.
\<close>

theorem cluster_configuration_deterministic:
  assumes "range_perm ord" "range_perm ord'"
  shows "NewCassandraClusterConfiguration ord kca n ns = NewCassandraClusterConfiguration ord' kca n ns \<and>
     NewZookeeperClusterConfiguration ord kzk n ns = NewZookeeperClusterConfiguration ord' kzk n ns \<and>
     NewRabbitmqClusterConfiguration ord krb n ns = NewRabbitmqClusterConfiguration ord' krb n ns \<and>
     NewConfigClusterConfiguration ord kcf n ns = NewConfigClusterConfiguration ord' kcf n ns \<and>
     NewControlClusterConfiguration ord kct n role ns = NewControlClusterConfiguration ord' kct n role ns"
  using New_order_independent [OF assms] by blast

theorem cluster_configuration_deterministic_witness:
  "NewControlClusterConfiguration in_order (ex_active no_control_configuration) ''c'' ''r'' ''ns'' () =
   NewControlClusterConfiguration in_reverse (ex_active no_control_configuration) ''c'' ''r'' ''ns'' ()"
  by (rule fun_cong [OF cluster_configuration_deterministic
      [OF range_perm_in_order range_perm_in_reverse, THEN conjunct2, THEN conjunct2, THEN conjunct2, THEN conjunct2]])

text \<open>
  the lookup of the RabbitMQ nodes panics when the cluster has no RabbitMQ resource: the port
  is read through a \<open>nil\<close> pointer of the empty configuration.
\<close>

theorem NewRabbitmq_panics:
  assumes "kc_List kc ns [(''contrail_cluster'', name)] s = (Ok [], t)"
  shows "NewRabbitmqClusterConfiguration ord kc name ns s = (Panic ''nil pointer dereference'', t)"
  using assms
  by (simp add: NewRabbitmqClusterConfiguration_def bindM_def no_rabbitmq_configuration_def deref_ptr_def panic_def)

theorem NewRabbitmq_panics_witness:
  "NewRabbitmqClusterConfiguration in_order ex_no_client ''c'' ''ns'' () = (Panic ''nil pointer dereference'', ())"
  by (rule NewRabbitmq_panics) (simp add: ex_no_client_def ret_def)

text \<open>
  the parameters of a Cassandra never have the cluster name or the listen address of its spec:
  they are always the defaults.
\<close>

theorem Cassandra_name_ignored:
  "ca_ClusterName (Cassandra_ConfigurationParameters c) = ''ContrailConfigDB'' \<and>
   ca_ListenAddress (Cassandra_ConfigurationParameters c) = ''auto''"
  by (simp add: Cassandra_ConfigurationParameters_def Let_def no_cassandra_configuration_def)

text \<open>
  filling a cluster configuration with the default values leaves no port 0 and no empty mode,
  keeps every value that was set, and doing it twice changes nothing.
\<close>

theorem FillWithDefaultValues_complete:
  "cc_APIServerPort (Config_FillWithDefaultValues c) = (if cc_APIServerPort c = 0 then 8082 else cc_APIServerPort c) \<and>
   cc_AnalyticsServerPort (Config_FillWithDefaultValues c) \<noteq> 0 \<and> cc_CollectorPort (Config_FillWithDefaultValues c) \<noteq> 0 \<and>
   cc_RedisPort (Config_FillWithDefaultValues c) \<noteq> 0 \<and> cc_AuthMode (Config_FillWithDefaultValues c) \<noteq> [] \<and>
   Config_FillWithDefaultValues (Config_FillWithDefaultValues c) = Config_FillWithDefaultValues c \<and>
   Control_FillWithDefaultValues (Control_FillWithDefaultValues t) = Control_FillWithDefaultValues t \<and>
   Zookeeper_FillWithDefaultValues (Zookeeper_FillWithDefaultValues z) = Zookeeper_FillWithDefaultValues z \<and>
   Rabbitmq_FillWithDefaultValues (Rabbitmq_FillWithDefaultValues r) = Rabbitmq_FillWithDefaultValues r \<and>
   Cassandra_FillWithDefaultValues (Cassandra_FillWithDefaultValues a) = Cassandra_FillWithDefaultValues a \<and>
   Keystone_FillWithDefaultValues (Keystone_FillWithDefaultValues k) = Keystone_FillWithDefaultValues k \<and>
   kc_AuthProtocol (Keystone_FillWithDefaultValues k) \<in> {''http'', ''https''}"
  by (auto simp: Config_FillWithDefaultValues_def Control_FillWithDefaultValues_def Zookeeper_FillWithDefaultValues_def
      Rabbitmq_FillWithDefaultValues_def Cassandra_FillWithDefaultValues_def Keystone_FillWithDefaultValues_def
      int_or_def str_or_def ConfigApiPort_def AnalyticsApiPort_def CollectorPort_def RedisServerPort_def
      AuthenticationModeNoAuth_def KeystoneAuthProto_def)

section \<open>Events\<close>

text \<open>
  an update of a stateful set leads to a reconciliation exactly when its count of ready
  replicas changes and an owner reference of the wanted kind is its controller; an update of a pod,
  when the readiness of its containers as a whole changes and the same holds.
\<close>

theorem status_change_predicates:
  assumes "\<forall>ow \<in> set (om_OwnerReferences (wl_meta n)) \<union> set (om_OwnerReferences (pod_meta p)). or_Controller ow \<noteq> None"
  shows "STSStatusChange sl gk \<lparr>ObjectOld = StatefulSetObj o1, ObjectNew = StatefulSetObj n, MetaOld_Labels = ls\<rparr> s =
      (Ok (wl_Ready o1 \<noteq> wl_Ready n \<and> (\<exists>ow \<in> set (om_OwnerReferences (wl_meta n)). or_Controller ow = Some True \<and>
         FromAPIVersionAndKind sl (or_APIVersion ow) (or_Kind ow) = gk)), s) \<and>
    PodStatusChange sl gk \<lparr>ObjectOld = PodObj q, ObjectNew = PodObj p, MetaOld_Labels = ls\<rparr> s =
      (Ok (((\<forall>c \<in> set (pod_ContainerStatuses q). cs_Ready c) \<noteq> (\<forall>c \<in> set (pod_ContainerStatuses p). cs_Ready c)) \<and>
         (\<exists>ow \<in> set (om_OwnerReferences (pod_meta p)). or_Controller ow = Some True \<and>
           FromAPIVersionAndKind sl (or_APIVersion ow) (or_Kind ow) = gk)), s)"
proof -
  have a: "owner_loop sl gk (om_OwnerReferences (wl_meta n)) False s =
      (Ok (\<exists>ow \<in> set (om_OwnerReferences (wl_meta n)). or_Controller ow = Some True \<and>
         FromAPIVersionAndKind sl (or_APIVersion ow) (or_Kind ow) = gk), s)"
    by (subst owner_loop_result) (use assms in auto)
  have b: "owner_loop sl gk (om_OwnerReferences (pod_meta p)) False s =
      (Ok (\<exists>ow \<in> set (om_OwnerReferences (pod_meta p)). or_Controller ow = Some True \<and>
         FromAPIVersionAndKind sl (or_APIVersion ow) (or_Kind ow) = gk), s)"
    by (subst owner_loop_result) (use assms in auto)
  show ?thesis
    by (simp add: STSStatusChange_def workload_change_def PodStatusChange_def bindM_def a b ret_def containers_ready_iff)
qed

definition ex_schema :: "string schema_lib" where
  "ex_schema = \<lparr>FromAPIVersionAndKind = (\<lambda>v k. k), ParseGroupKind = (\<lambda>s. s)\<rparr>"

definition ex_sts_meta :: object_meta where
  "ex_sts_meta = (ex_meta ''sts'')\<lparr>om_OwnerReferences :=
     [\<lparr>or_APIVersion = ''v1alpha1'', or_Kind = ''Zookeeper'', or_Name = ''zk'', or_UID = ''u'',
       or_Controller = Some True, or_BlockOwnerDeletion = Some True\<rparr>]\<rparr>"

definition ex_pod :: pod where
  "ex_pod = \<lparr>pod_meta = ex_meta ''p'', pod_HostNetwork = False, pod_Hostname = ''h'', pod_NodeName = ''n'',
     pod_Phase = ''Running'', pod_PodIP = ''1.1.1.1'', pod_ContainerStatuses = [], pod_InitContainerStatuses = None,
     pod_Conditions = []\<rparr>"

theorem status_change_predicates_witness:
  "STSStatusChange ex_schema ''Zookeeper''
     \<lparr>ObjectOld = StatefulSetObj \<lparr>wl_meta = ex_sts_meta, wl_Ready = 1\<rparr>,
      ObjectNew = StatefulSetObj \<lparr>wl_meta = ex_sts_meta, wl_Ready = 2\<rparr>, MetaOld_Labels = None\<rparr> () = (Ok True, ())"
  using status_change_predicates [of "\<lparr>wl_meta = ex_sts_meta, wl_Ready = 2\<rparr>" ex_pod ex_schema "''Zookeeper''"
      "\<lparr>wl_meta = ex_sts_meta, wl_Ready = 1\<rparr>" None "()" ex_pod]
  by (simp add: ex_sts_meta_def ex_pod_def ex_meta_def new_meta_def ex_schema_def)

text \<open>
  a change of the activity of a service is reported exactly on its rising edge, for each of
  the six kinds; a missing status counts as not active.
\<close>

theorem active_change_edge:
  "CassandraActiveChange \<lparr>ObjectOld = CassandraObj a, ObjectNew = CassandraObj b, MetaOld_Labels = ls\<rparr> s =
     (Ok (b = Some True \<and> a \<noteq> Some True), s) \<and>
   ConfigActiveChange \<lparr>ObjectOld = ConfigObj a, ObjectNew = ConfigObj b, MetaOld_Labels = ls\<rparr> s =
     (Ok (b = Some True \<and> a \<noteq> Some True), s) \<and>
   VrouterActiveChange \<lparr>ObjectOld = VrouterObj a, ObjectNew = VrouterObj b, MetaOld_Labels = ls\<rparr> s =
     (Ok (b = Some True \<and> a \<noteq> Some True), s) \<and>
   ControlActiveChange \<lparr>ObjectOld = ControlObj a, ObjectNew = ControlObj b, MetaOld_Labels = ls\<rparr> s =
     (Ok (b = Some True \<and> a \<noteq> Some True), s) \<and>
   RabbitmqActiveChange \<lparr>ObjectOld = RabbitmqObj a, ObjectNew = RabbitmqObj b, MetaOld_Labels = ls\<rparr> s =
     (Ok (b = Some True \<and> a \<noteq> Some True), s) \<and>
   ZookeeperActiveChange \<lparr>ObjectOld = ZookeeperObj a, ObjectNew = ZookeeperObj b, MetaOld_Labels = ls\<rparr> s =
     (Ok (b = Some True \<and> a \<noteq> Some True), s)"
  by (simp add: CassandraActiveChange_def ConfigActiveChange_def VrouterActiveChange_def ControlActiveChange_def
      RabbitmqActiveChange_def ZookeeperActiveChange_def active_change_rising)

section \<open>Pods and workloads\<close>

text \<open>
  C20: what \<open>PodIPListAndIPMapFromInstance\<close> returns when there is no error.  In both modes the map
  is empty or has an address for every pod the cluster lists for the instance.  When it waits for
  the init containers, it returns no pods and no addresses at all, or the listed pods with as many
  addresses as the configured replicas, and then, if the replicas are not zero, exactly that many
  pods are listed.  When it does not wait, it returns the listed pods, however many of the replicas
  there are, also with an empty map.
\<close>

theorem PodIPMap_all_replicas:
  assumes "PodIPListAndIPMapFromInstance nodes pods ex ty cc req wait w s = (Ok (ps, m), s')"
  shows "\<exists>listed t. kc_List pods (fst req) (instance_labels ty (snd req)) s = (Ok listed, t) \<and>
     (m = [] \<or> (\<forall>p \<in> set listed. pod_PodIP p \<noteq> [] \<and> (\<exists>a. map_of m (om_Name (pod_meta p)) = Some a \<and> a \<noteq> []))) \<and>
     (if wait
      then ps = [] \<and> m = [] \<or>
           (\<exists>r. pc_Replicas cc = Some r \<and> int32_of (int (length m)) = r \<and> length ps = length listed \<and>
              (r \<noteq> 0 \<longrightarrow> int32_of (int (length listed)) = r \<and> m \<noteq> []))
      else length ps = length listed)"
  using PodIPMap_cases [OF assms] unfolding addresses_all_def .

definition ex_no_wants :: init_wants where
  "ex_no_wants = \<lparr>getHostname = False, getInterface = False, getMac = False, getPrefix = False, getGateway = False\<rparr>"

text \<open>One pod of two replicas: with the wait nothing is returned, without it the one pod is.\<close>

definition ex_one_pod :: "(pod, unit) kind_client" where
  "ex_one_pod = ex_no_client\<lparr>kc_List := (\<lambda>_ _. ret [ex_pod])\<rparr>"

definition ex_pods_of :: "int \<Rightarrow> bool \<Rightarrow> (unit, go_error, pod list \<times> (string, string) gomap) go" where
  "ex_pods_of r wait = PodIPListAndIPMapFromInstance ex_no_client ex_one_pod
     \<lparr>exec_pod = (\<lambda>_ _ _ _. throw mem_NotFound), ParseIP = (\<lambda>_. False)\<rparr> ''zookeeper''
     (new_common\<lparr>pc_Replicas := Some r\<rparr>) (''ns'', ''zk'') wait ex_no_wants"

theorem PodIPMap_all_replicas_witness:
  "ex_pods_of 1 True () = (Ok ([ex_pod], [(''p'', ''1.1.1.1'')]), ()) \<and>
   ex_pods_of 2 True () = (Ok ([], []), ()) \<and>
   ex_pods_of 2 False () = (Ok ([ex_pod], [(''p'', ''1.1.1.1'')]), ()) \<and>
   (\<exists>listed t. kc_List ex_one_pod ''ns'' (instance_labels ''zookeeper'' ''zk'') () = (Ok listed, t) \<and>
     int32_of (int (length listed)) = 1 \<and>
     (\<forall>p \<in> set listed. \<exists>a. map_of [(''p'', ''1.1.1.1'')] (om_Name (pod_meta p)) = Some a \<and> a \<noteq> []))"
proof -
  have run: "ex_pods_of 1 True () = (Ok ([ex_pod], [(''p'', ''1.1.1.1'')]), ())" "ex_pods_of 2 True () = (Ok ([], []), ())"
    "ex_pods_of 2 False () = (Ok ([ex_pod], [(''p'', ''1.1.1.1'')]), ())"
    by (simp_all add: ex_pods_of_def ex_one_pod_def PodIPListAndIPMapFromInstance_def new_common_def ex_no_wants_def
        ex_pod_def ex_meta_def new_meta_def int32_of_def)
  from PodIPMap_all_replicas [OF run(1) [unfolded ex_pods_of_def]] obtain listed t where
    "kc_List ex_one_pod ''ns'' (instance_labels ''zookeeper'' ''zk'') () = (Ok listed, t)"
    and "int32_of (int (length listed)) = 1"
    and "\<forall>p \<in> set listed. \<exists>a. map_of [(''p'', ''1.1.1.1'')] (om_Name (pod_meta p)) = Some a \<and> a \<noteq> []"
    by (fastforce simp del: map_of.simps)
  with run show ?thesis by blast
qed

text \<open>
  C21: \<open>UpdateSTS\<close> writes the stateful set exactly when the image of a container or the number of
  replicas differs from the one in the cluster.  What it writes has the wanted pods and replicas,
  and a version label that is one higher for the strategy \<open>deleteFirst\<close> and kept otherwise.
\<close>

theorem UpdateSTS_on_change:
  assumes get: "kc_Get kc (fst req, sts_name req ty) s = (Ok current, s)"
    and r: "sts_Replicas sts = Some ri" "sts_Replicas current = Some rc"
    and l: "pt_Labels (sts_Template sts) = Some ls"
  shows "if (\<exists>i \<in> set (pspec_Containers (pt_Spec (sts_Template sts))).
             \<exists>c \<in> set (pspec_Containers (pt_Spec (sts_Template current))). pco_Name i = pco_Name c \<and> pco_Image i \<noteq> pco_Image c)
            \<or> ri \<noteq> rc
    then \<exists>sts'. UpdateSTS lib kc sts ty req strategy s = bindM (kc_Update kc sts') (\<lambda>_. ret ()) s \<and>
        sts_Replicas sts' = Some ri \<and> pt_Spec (sts_Template sts') = pt_Spec (sts_Template sts) \<and>
        version_label sts' = (if strategy = ''deleteFirst''
          then Itoa (int64_of (Atoi_value (version_label current) + 1)) else version_label current)
    else UpdateSTS lib kc sts ty req strategy s = (Ok (), s)"
  using UpdateSTS_cases [OF assms] unfolding images_changed_iff .

definition ex_template :: "string \<Rightarrow> pod_template" where
  "ex_template img = \<lparr>pt_Annotations = None, pt_Labels = Some [(''version'', ''1'')],
     pt_Spec = new_pod_spec\<lparr>pspec_Containers := [new_pod_container\<lparr>pco_Name := ''zookeeper'', pco_Image := img\<rparr>]\<rparr>\<rparr>"

definition ex_sts :: "string \<Rightarrow> stateful_set" where
  "ex_sts img = \<lparr>sts_meta = ex_sts_meta, sts_Replicas = Some 1, sts_PodManagementPolicy = ''Parallel'',
     sts_Selector = None, sts_Template = ex_template img, sts_ServiceName = ''zk'',
     sts_VolumeClaimTemplates = [], sts_ReadyReplicas = 1, sts_CurrentRevision = [], sts_UpdateRevision = []\<rparr>"

theorem UpdateSTS_on_change_witness:
  "\<exists>sts'. UpdateSTS mem_lib (ex_no_client\<lparr>kc_Get := (\<lambda>_. ret (ex_sts ''old''))\<rparr>) (ex_sts ''new'') ''zookeeper'' (''ns'', ''zk'')
       ''rolling'' () = bindM (kc_Update (ex_no_client :: (stateful_set, unit) kind_client) sts') (\<lambda>_. ret ()) () \<and>
     version_label sts' = ''1''"
proof -
  let ?kc = "ex_no_client\<lparr>kc_Get := (\<lambda>_. ret (ex_sts ''old''))\<rparr> :: (stateful_set, unit) kind_client"
  have "kc_Get ?kc (fst (''ns'', ''zk''), sts_name (''ns'', ''zk'') ''zookeeper'') () = (Ok (ex_sts ''old''), ())"
    by (simp add: ret_def)
  from UpdateSTS_on_change [OF this, of "ex_sts ''new''" 1 1 "[(''version'', ''1'')]" mem_lib "''rolling''"]
  show ?thesis
    by (auto simp: ex_sts_def ex_template_def new_pod_spec_def new_pod_container_def version_label_def map_entries_def)
qed

text \<open>
  C22: a certificate authority that is in the cluster is never replaced: after \<open>EnsureExists\<close> the
  secret has a certificate and a key, and it is the old secret if that had them.
\<close>

theorem CACertificate_kept:
  assumes srv: "kind_server lib kc sec_meta objects"
    and run: "CACertificate_EnsureExists lib kc gen ty owner s = (Ok u, s')"
    and old: "objects s (om_Namespace owner, caSecretName) = Some secret"
    and key: "key_of (sec_meta secret) = (om_Namespace owner, caSecretName)"
  shows "\<exists>secret'. objects s' (om_Namespace owner, caSecretName) = Some secret' \<and>
     caCertExistsInSecret secret' \<and> (caCertExistsInSecret secret \<longrightarrow> secret' = secret)"
  using CACertificate_EnsureExists_keeps [OF assms] .

definition ex_ca :: k_secret where
  "ex_ca = \<lparr>sec_meta = ex_meta caSecretName,
     sec_Data = Some [(SignerCAFilename, ''cert''), (signerCAPrivateKeyFilename, ''key'')], sec_StringData = None, sec_Type = []\<rparr>"

theorem CACertificate_kept_witness:
  "\<exists>s'. CACertificate_EnsureExists mem_lib (mem_client (\<lambda>s. s) (\<lambda>v s. v) [] sec_meta) (ret (''new'', ''new'')) ''manager''
       (ex_meta ''cluster1'') [(''ns'', caSecretName) \<mapsto> ex_ca] = (Ok (), s') \<and>
     s' (''ns'', caSecretName) = Some ex_ca"
proof -
  let ?kc = "mem_client (\<lambda>s. s) (\<lambda>v s. v) [] sec_meta"
  let ?s = "[(''ns'', caSecretName) \<mapsto> ex_ca]"
  have ca: "caCertExistsInSecret ex_ca" "key_of (sec_meta ex_ca) = (''ns'', caSecretName)"
    by (simp_all add: caCertExistsInSecret_def ex_ca_def SignerCAFilename_def signerCAPrivateKeyFilename_def
        key_of_def ex_meta_def new_meta_def)
  have "\<exists>s'. CACertificate_EnsureExists mem_lib ?kc (ret (''new'', ''new'')) ''manager'' (ex_meta ''cluster1'') ?s = (Ok (), s')"
    by (simp add: CACertificate_EnsureExists_def Secret_EnsureExists_def createNewOrGetExistingSecret_def mem_client_def
        bindM_def tryM_def ret_def ca_FillSecret_def ca ex_meta_def new_meta_def)
  then obtain s' where
    r: "CACertificate_EnsureExists mem_lib ?kc (ret (''new'', ''new'')) ''manager'' (ex_meta ''cluster1'') ?s = (Ok (), s')" by blast
  have ns: "om_Namespace (ex_meta ''cluster1'') = ''ns''" by (simp add: ex_meta_def new_meta_def)
  from CACertificate_kept [OF memk.kind_server_axioms r, of ex_ca] r ca show ?thesis by (simp add: ns)
qed

end
