(* ===== verification/Enqueue.thy ===== *)
theory Enqueue
  imports K8s
begin

text \<open>
  \<open>pkg/controller/enqueue\<close>: the event handlers that turn an event on an object into requests for
  the controllers.  The state of the world is the work queue, of the type \<open>'q\<close>; its method \<open>Add\<close>
  belongs to client-go and is the parameter \<open>add\<close> of every handler.  An event carries the metadata
  of the object, or \<open>nil\<close> (\<open>None\<close>).

  The functions of apimachinery on group kinds, the scheme (\<open>ObjectKinds\<close>) and the mapper
  (\<open>RESTMapping\<close>, of which the code reads the name of the scope) are the fields of
  \<open>apimachinery\<close>; \<open>'ot\<close> is \<open>runtime.Object\<close>.  The locale \<open>event_handler\<close> is the contract of
  \<open>handler.EventHandler\<close> that the three handlers share: with which requests each event calls
  \<open>Add\<close>, and in which order.
\<close>

section \<open>Requests and the library\<close>

record group_kind =
  gk_Group :: string
  gk_Kind :: string

record 'ot apimachinery =
  am_FromAPIVersionAndKind :: "string \<Rightarrow> string \<Rightarrow> group_kind"
  am_GroupKind_String :: "group_kind \<Rightarrow> string"
  am_ParseGroupVersion :: "string \<Rightarrow> go_error + string \<times> string"
  am_ObjectKinds :: "'ot \<Rightarrow> go_error + group_kind list"
  am_RESTMapping :: "group_kind \<Rightarrow> string \<Rightarrow> go_error + string"

text \<open>\<open>workqueue.RateLimitingInterface.Add\<close> as the handlers see it: it changes the queue and returns nothing.\<close>

type_synonym 'q queue_add = "namespaced_name \<Rightarrow> 'q \<Rightarrow> 'q"

abbreviation call_Add :: "'q queue_add \<Rightarrow> namespaced_name \<Rightarrow> ('q, go_error, unit) go" where
  "call_Add add req \<equiv> \<lambda>q. (Ok (), add req q)"

definition object_request :: "'ot apimachinery \<Rightarrow> group_kind \<Rightarrow> object_meta \<Rightarrow> namespaced_name" where
  "object_request am newGroupKind m =
     (om_Namespace m, am_GroupKind_String am newGroupKind @ ''/'' @ om_Name m)"

section \<open>RequestForObjectByOwner\<close>

record by_owner =
  bo_NewGroupKind :: group_kind
  bo_OwnerGroupKind :: group_kind

text \<open>The kind is read from the name of the owner, as in the source.\<close>

fun getOwner ::
  "'ot apimachinery \<Rightarrow> by_owner \<Rightarrow> owner_reference list \<Rightarrow> ('s, go_error, bool) go" where
  "getOwner am e [] = ret False"
| "getOwner am e (owner # owners) =
     bindM (deref_ptr (or_Controller owner)) (\<lambda>controller.
       if controller \<and>
          bo_OwnerGroupKind e = am_FromAPIVersionAndKind am (or_APIVersion owner) (or_Name owner)
       then ret True
       else getOwner am e owners)"

text \<open>The test and the request that the four methods repeat for the metadata they are given.\<close>

definition add_if_owned ::
  "'q queue_add \<Rightarrow> 'ot apimachinery \<Rightarrow> by_owner \<Rightarrow> object_meta \<Rightarrow> ('q, go_error, unit) go" where
  "add_if_owned add am e m =
     bindM (getOwner am e (om_OwnerReferences m)) (\<lambda>b.
       if b then call_Add add (object_request am (bo_NewGroupKind e) m) else ret ())"

definition ByOwner_Create ::
  "'q queue_add \<Rightarrow> 'ot apimachinery \<Rightarrow> by_owner \<Rightarrow> object_meta option \<Rightarrow> ('q, go_error, unit) go" where
  "ByOwner_Create add am e evt =
     (case evt of None \<Rightarrow> ret () | Some m \<Rightarrow> add_if_owned add am e m)"

definition ByOwner_Update ::
  "'q queue_add \<Rightarrow> 'ot apimachinery \<Rightarrow> by_owner \<Rightarrow> object_meta option \<Rightarrow> object_meta option
    \<Rightarrow> ('q, go_error, unit) go" where
  "ByOwner_Update add am e metaOld metaNew =
     bindM (case metaOld of None \<Rightarrow> ret () | Some m \<Rightarrow> add_if_owned add am e m) (\<lambda>_.
       case metaNew of None \<Rightarrow> ret () | Some m \<Rightarrow> add_if_owned add am e m)"

definition ByOwner_Delete ::
  "'q queue_add \<Rightarrow> 'ot apimachinery \<Rightarrow> by_owner \<Rightarrow> object_meta option \<Rightarrow> ('q, go_error, unit) go" where
  "ByOwner_Delete add am e evt =
     (case evt of None \<Rightarrow> ret () | Some m \<Rightarrow> add_if_owned add am e m)"

definition ByOwner_Generic ::
  "'q queue_add \<Rightarrow> 'ot apimachinery \<Rightarrow> by_owner \<Rightarrow> object_meta option \<Rightarrow> ('q, go_error, unit) go" where
  "ByOwner_Generic add am e evt =
     (case evt of None \<Rightarrow> ret () | Some m \<Rightarrow> add_if_owned add am e m)"

section \<open>RequestForObjectGroupKind\<close>

definition GroupKind_Create ::
  "'q queue_add \<Rightarrow> 'ot apimachinery \<Rightarrow> group_kind \<Rightarrow> object_meta option \<Rightarrow> ('q, go_error, unit) go" where
  "GroupKind_Create add am newGroupKind evt =
     (case evt of None \<Rightarrow> ret () | Some m \<Rightarrow> call_Add add (object_request am newGroupKind m))"

definition GroupKind_Update ::
  "'q queue_add \<Rightarrow> 'ot apimachinery \<Rightarrow> group_kind \<Rightarrow> object_meta option \<Rightarrow> object_meta option
    \<Rightarrow> ('q, go_error, unit) go" where
  "GroupKind_Update add am newGroupKind metaOld metaNew =
     bindM (case metaOld of None \<Rightarrow> ret () | Some m \<Rightarrow> call_Add add (object_request am newGroupKind m)) (\<lambda>_.
       case metaNew of None \<Rightarrow> ret () | Some m \<Rightarrow> call_Add add (object_request am newGroupKind m))"

definition GroupKind_Delete ::
  "'q queue_add \<Rightarrow> 'ot apimachinery \<Rightarrow> group_kind \<Rightarrow> object_meta option \<Rightarrow> ('q, go_error, unit) go" where
  "GroupKind_Delete add am newGroupKind evt =
     (case evt of None \<Rightarrow> ret () | Some m \<Rightarrow> call_Add add (object_request am newGroupKind m))"

definition GroupKind_Generic ::
  "'q queue_add \<Rightarrow> 'ot apimachinery \<Rightarrow> group_kind \<Rightarrow> object_meta option \<Rightarrow> ('q, go_error, unit) go" where
  "GroupKind_Generic add am newGroupKind evt =
     (case evt of None \<Rightarrow> ret () | Some m \<Rightarrow> call_Add add (object_request am newGroupKind m))"

section \<open>RequestForOwnerGroupKind\<close>

text \<open>The field \<open>mapper\<close> is set by \<open>InjectMapper\<close>; calling it while it is \<open>nil\<close> is a panic.\<close>

record 'ot for_owner =
  fo_OwnerType :: 'ot
  fo_IsController :: bool
  fo_NewGroupKind :: group_kind
  fo_groupKind :: group_kind
  fo_mapper :: "(group_kind \<Rightarrow> string \<Rightarrow> go_error + string) option"

text \<open>\<open>metav1.GetControllerOf\<close>: the first reference whose controller flag is set and true.\<close>

definition GetControllerOf :: "object_meta \<Rightarrow> owner_reference option" where
  "GetControllerOf m = find (\<lambda>ref. or_Controller ref = Some True) (om_OwnerReferences m)"

definition getOwnersReferences :: "'ot for_owner \<Rightarrow> object_meta option \<Rightarrow> owner_reference list" where
  "getOwnersReferences e obj =
     (case obj of
        None \<Rightarrow> []
      | Some m \<Rightarrow>
          if \<not> fo_IsController e then om_OwnerReferences m
          else (case GetControllerOf m of Some ref \<Rightarrow> [ref] | None \<Rightarrow> []))"

text \<open>The loop of \<open>getOwnerReconcileRequest\<close>; at an error the function returns \<open>nil\<close>.\<close>

fun owner_requests ::
  "'ot apimachinery \<Rightarrow> 'ot for_owner \<Rightarrow> string \<Rightarrow> owner_reference list \<Rightarrow> namespaced_name list
    \<Rightarrow> ('s, go_error, namespaced_name list) go" where
  "owner_requests am e namespace [] result = ret result"
| "owner_requests am e namespace (ref # refs) result =
     (case am_ParseGroupVersion am (or_APIVersion ref) of
        Inl _ \<Rightarrow> ret []
      | Inr (grp, version) \<Rightarrow>
          if or_Kind ref = gk_Kind (fo_groupKind e) \<and> grp = gk_Group (fo_groupKind e)
          then bindM (deref_ptr (fo_mapper e)) (\<lambda>mapper.
                 case mapper (fo_groupKind e) version of
                   Inl _ \<Rightarrow> ret []
                 | Inr scope \<Rightarrow>
                     owner_requests am e namespace refs
                       (result @ [(if scope \<noteq> ''root'' then namespace else [],
                          am_GroupKind_String am (fo_NewGroupKind e) @ ''/'' @ or_Name ref)]))
          else owner_requests am e namespace refs result)"

definition getOwnerReconcileRequest ::
  "'ot apimachinery \<Rightarrow> 'ot for_owner \<Rightarrow> object_meta option \<Rightarrow> ('s, go_error, namespaced_name list) go" where
  "getOwnerReconcileRequest am e obj =
     owner_requests am e (case obj of None \<Rightarrow> [] | Some m \<Rightarrow> om_Namespace m)
       (getOwnersReferences e obj) []"

definition Owner_Create ::
  "'q queue_add \<Rightarrow> 'ot apimachinery \<Rightarrow> 'ot for_owner \<Rightarrow> object_meta option \<Rightarrow> ('q, go_error, unit) go" where
  "Owner_Create add am e evt = bindM (getOwnerReconcileRequest am e evt) (\<lambda>reqs. forM reqs (call_Add add))"

definition Owner_Update ::
  "'q queue_add \<Rightarrow> 'ot apimachinery \<Rightarrow> 'ot for_owner \<Rightarrow> object_meta option \<Rightarrow> object_meta option
    \<Rightarrow> ('q, go_error, unit) go" where
  "Owner_Update add am e metaOld metaNew =
     bindM (bindM (getOwnerReconcileRequest am e metaOld) (\<lambda>reqs. forM reqs (call_Add add))) (\<lambda>_.
     bindM (getOwnerReconcileRequest am e metaNew) (\<lambda>reqs. forM reqs (call_Add add)))"

definition Owner_Delete ::
  "'q queue_add \<Rightarrow> 'ot apimachinery \<Rightarrow> 'ot for_owner \<Rightarrow> object_meta option \<Rightarrow> ('q, go_error, unit) go" where
  "Owner_Delete add am e evt = bindM (getOwnerReconcileRequest am e evt) (\<lambda>reqs. forM reqs (call_Add add))"

definition Owner_Generic ::
  "'q queue_add \<Rightarrow> 'ot apimachinery \<Rightarrow> 'ot for_owner \<Rightarrow> object_meta option \<Rightarrow> ('q, go_error, unit) go" where
  "Owner_Generic add am e evt = bindM (getOwnerReconcileRequest am e evt) (\<lambda>reqs. forM reqs (call_Add add))"

text \<open>\<open>ty\<close> and \<open>show_kinds\<close> print the type and the kinds in the message (\<open>%T\<close>, \<open>%s\<close>).\<close>

definition parseOwnerTypeGroupKind ::
  "('ot \<Rightarrow> string) \<Rightarrow> (group_kind list \<Rightarrow> string) \<Rightarrow> 'ot apimachinery \<Rightarrow> 'ot for_owner
    \<Rightarrow> ('s, go_error, 'ot for_owner) go" where
  "parseOwnerTypeGroupKind ty show_kinds am e =
     bindM (sum_result (am_ObjectKinds am (fo_OwnerType e))) (\<lambda>kinds.
       case kinds of
         [k] \<Rightarrow> ret (e\<lparr>fo_groupKind := \<lparr>gk_Group = gk_Group k, gk_Kind = gk_Kind k\<rparr>\<rparr>)
       | _ \<Rightarrow> throw (errors_New (''Expected exactly 1 kind for OwnerType '' @ ty (fo_OwnerType e)
                @ '', but found '' @ show_kinds kinds @ '' kinds'')))"

definition InjectScheme ::
  "('ot \<Rightarrow> string) \<Rightarrow> (group_kind list \<Rightarrow> string) \<Rightarrow> 'ot apimachinery \<Rightarrow> 'ot for_owner
    \<Rightarrow> ('s, go_error, 'ot for_owner) go" where
  "InjectScheme ty show_kinds am e = parseOwnerTypeGroupKind ty show_kinds am e"

definition InjectMapper ::
  "'ot apimachinery \<Rightarrow> 'ot for_owner \<Rightarrow> ('s, go_error, 'ot for_owner) go" where
  "InjectMapper am e = ret (e\<lparr>fo_mapper := Some (am_RESTMapping am)\<rparr>)"

section \<open>The contract of an event handler\<close>

text \<open>
  \<open>reqs m\<close> are the requests for the metadata of one object; \<open>None\<close> means that reading it panics.
  Each of the three handlers adds these requests for every metadata of the event, the old one
  before the new one.
\<close>

record 'q handler_methods =
  eh_Create :: "object_meta option \<Rightarrow> ('q, go_error, unit) go"
  eh_Update :: "object_meta option \<Rightarrow> object_meta option \<Rightarrow> ('q, go_error, unit) go"
  eh_Delete :: "object_meta option \<Rightarrow> ('q, go_error, unit) go"
  eh_Generic :: "object_meta option \<Rightarrow> ('q, go_error, unit) go"

datatype k8s_event =
    CreateEvent "object_meta option"
  | UpdateEvent "object_meta option" "object_meta option"
  | DeleteEvent "object_meta option"
  | GenericEvent "object_meta option"

fun deliver :: "'q handler_methods \<Rightarrow> k8s_event \<Rightarrow> ('q, go_error, unit) go" where
  "deliver h (CreateEvent m) = eh_Create h m"
| "deliver h (UpdateEvent old new) = eh_Update h old new"
| "deliver h (DeleteEvent m) = eh_Delete h m"
| "deliver h (GenericEvent m) = eh_Generic h m"

fun event_metas :: "k8s_event \<Rightarrow> object_meta option list" where
  "event_metas (UpdateEvent old new) = [old, new]"
| "event_metas (CreateEvent m) = [m]"
| "event_metas (DeleteEvent m) = [m]"
| "event_metas (GenericEvent m) = [m]"

locale event_handler =
  fixes add :: "'q queue_add"
    and h :: "'q handler_methods"
    and reqs :: "object_meta option \<Rightarrow> namespaced_name list option"
  assumes create: "reqs m = Some rs \<Longrightarrow> eh_Create h m q = (Ok (), fold add rs q)"
    and create_panic: "reqs m = None \<Longrightarrow> \<exists>p. eh_Create h m q = (Panic p, q)"
    and update: "eh_Update h old new = bindM (eh_Create h old) (\<lambda>_. eh_Create h new)"
    and delete: "eh_Delete h m = eh_Create h m"
    and generic: "eh_Generic h m = eh_Create h m"
begin

definition event_requests :: "k8s_event \<Rightarrow> namespaced_name list" where
  "event_requests ev = concat (map (\<lambda>m. case reqs m of None \<Rightarrow> [] | Some rs \<Rightarrow> rs) (event_metas ev))"

lemma deliver_requests:
  assumes "\<forall>m \<in> set (event_metas ev). reqs m \<noteq> None"
  shows "deliver h ev q = (Ok (), fold add (event_requests ev) q)"
  using assms by (cases ev) (auto simp: event_requests_def create update delete generic)

lemma deliver_all:
  assumes "\<forall>ev \<in> set evs. \<forall>m \<in> set (event_metas ev). reqs m \<noteq> None"
  shows "forM evs (deliver h) q = (Ok (), fold add (concat (map event_requests evs)) q)"
  using assms by (induction evs arbitrary: q) (simp_all add: deliver_requests)

lemma deliver_adds: "\<exists>rs. snd (deliver h ev q) = fold add rs q"
proof -
  have creates: "\<exists>rs. snd (eh_Create h m p) = fold add rs p" for m p
  proof (cases "reqs m")
    case None
    with create_panic [of m p] show ?thesis by (auto intro: exI [of _ "[]"])
  next
    case (Some rs)
    then show ?thesis by (auto simp: create)
  qed
  moreover have "\<exists>rs. snd (eh_Update h old new p) = fold add rs p" for old new p
  proof (cases "reqs old")
    case None
    with create_panic [of old p] show ?thesis by (auto simp: update intro: exI [of _ "[]"])
  next
    case (Some rs)
    from creates [of new "fold add rs p"] obtain rs' where
      "snd (eh_Create h new (fold add rs p)) = fold add (rs @ rs') p" by auto
    with Some show ?thesis by (auto simp: update create intro!: exI [of _ "rs @ rs'"])
  qed
  ultimately show ?thesis by (cases ev) (simp_all add: delete generic)
qed

end

text \<open>
  client-go documents that an item added several times before it is processed is processed once, and
  that the items are processed in the order in which they were added.  For a queue whose waiting items
  follow this, calling \<open>Add\<close> for a list of requests leaves each of them waiting, once.
\<close>

definition adds_once :: "'q queue_add \<Rightarrow> ('q \<Rightarrow> namespaced_name list) \<Rightarrow> bool" where
  "adds_once add waiting \<longleftrightarrow>
     (\<forall>r q. waiting (add r q) = (if r \<in> set (waiting q) then waiting q else waiting q @ [r]))"

lemma fold_adds_once:
  assumes "adds_once add waiting"
  shows "set (waiting (fold add rs q)) = set (waiting q) \<union> set rs"
    and "distinct (waiting q) \<Longrightarrow> distinct (waiting (fold add rs q))"
proof (induction rs arbitrary: q)
  case (Cons r rs)
  from assms have r: "waiting (add r q) = (if r \<in> set (waiting q) then waiting q else waiting q @ [r])" for q
    unfolding adds_once_def by blast
  {
    case 1
    have "set (waiting (add r q)) = insert r (set (waiting q))"
      by (cases "r \<in> set (waiting q)") (auto simp: r)
    with Cons(1) [of "add r q"] show ?case by simp
  next
    case 2
    from 2 have "distinct (waiting (add r q))" by (cases "r \<in> set (waiting q)") (auto simp: r)
    with Cons(2) [of "add r q"] show ?case by simp
  }
qed simp_all

section \<open>The three handlers keep the contract\<close>

definition RequestForObjectByOwner ::
  "'q queue_add \<Rightarrow> 'ot apimachinery \<Rightarrow> by_owner \<Rightarrow> 'q handler_methods" where
  "RequestForObjectByOwner add am e =
     \<lparr>eh_Create = ByOwner_Create add am e, eh_Update = ByOwner_Update add am e,
      eh_Delete = ByOwner_Delete add am e, eh_Generic = ByOwner_Generic add am e\<rparr>"

definition RequestForObjectGroupKind ::
  "'q queue_add \<Rightarrow> 'ot apimachinery \<Rightarrow> group_kind \<Rightarrow> 'q handler_methods" where
  "RequestForObjectGroupKind add am gk =
     \<lparr>eh_Create = GroupKind_Create add am gk, eh_Update = GroupKind_Update add am gk,
      eh_Delete = GroupKind_Delete add am gk, eh_Generic = GroupKind_Generic add am gk\<rparr>"

definition RequestForOwnerGroupKind ::
  "'q queue_add \<Rightarrow> 'ot apimachinery \<Rightarrow> 'ot for_owner \<Rightarrow> 'q handler_methods" where
  "RequestForOwnerGroupKind add am e =
     \<lparr>eh_Create = Owner_Create add am e, eh_Update = Owner_Update add am e,
      eh_Delete = Owner_Delete add am e, eh_Generic = Owner_Generic add am e\<rparr>"

text \<open>
  What \<open>getOwner\<close> decides: it reads the references up to the first that matches, and panics at a
  reference without the controller flag.
\<close>

definition owner_match :: "'ot apimachinery \<Rightarrow> by_owner \<Rightarrow> owner_reference \<Rightarrow> bool" where
  "owner_match am e owner \<longleftrightarrow> or_Controller owner = Some True \<and>
     bo_OwnerGroupKind e = am_FromAPIVersionAndKind am (or_APIVersion owner) (or_Name owner)"

definition owned :: "'ot apimachinery \<Rightarrow> by_owner \<Rightarrow> owner_reference list \<Rightarrow> bool option" where
  "owned am e refs =
     (case find (\<lambda>r. owner_match am e r \<or> or_Controller r = None) refs of
        None \<Rightarrow> Some False
      | Some r \<Rightarrow> if or_Controller r = None then None else Some True)"

lemma getOwner_owned:
  "getOwner am e refs s = (case owned am e refs of
     None \<Rightarrow> (Panic ''nil pointer dereference'', s) | Some b \<Rightarrow> (Ok b, s))"
proof (induction refs)
  case (Cons r rs)
  then show ?case
    by (cases "or_Controller r") (auto simp: owned_def owner_match_def deref_ptr_def)
qed (simp add: owned_def)

lemma add_if_owned_run:
  "add_if_owned add am e m q = (case owned am e (om_OwnerReferences m) of
     None \<Rightarrow> (Panic ''nil pointer dereference'', q)
   | Some b \<Rightarrow> (Ok (), fold add (if b then [object_request am (bo_NewGroupKind e) m] else []) q))"
  by (simp add: add_if_owned_def bindM_def getOwner_owned split: option.split)

definition by_owner_reqs :: "'ot apimachinery \<Rightarrow> by_owner \<Rightarrow> object_meta option \<Rightarrow> namespaced_name list option" where
  "by_owner_reqs am e evt = (case evt of None \<Rightarrow> Some [] | Some m \<Rightarrow>
     map_option (\<lambda>b. if b then [object_request am (bo_NewGroupKind e) m] else [])
       (owned am e (om_OwnerReferences m)))"

interpretation bo: event_handler add "RequestForObjectByOwner add am e" "by_owner_reqs am e" for add am e
  by unfold_locales
    (auto simp: RequestForObjectByOwner_def by_owner_reqs_def ByOwner_Create_def ByOwner_Update_def
      ByOwner_Delete_def ByOwner_Generic_def add_if_owned_run split: option.splits)

definition group_kind_reqs :: "'ot apimachinery \<Rightarrow> group_kind \<Rightarrow> object_meta option \<Rightarrow> namespaced_name list option" where
  "group_kind_reqs am gk evt = Some (case evt of None \<Rightarrow> [] | Some m \<Rightarrow> [object_request am gk m])"

interpretation gk: event_handler add "RequestForObjectGroupKind add am k" "group_kind_reqs am k" for add am k
  by unfold_locales
    (auto simp: RequestForObjectGroupKind_def group_kind_reqs_def GroupKind_Create_def GroupKind_Update_def
      GroupKind_Delete_def GroupKind_Generic_def split: option.splits)

text \<open>
  \<open>RequestForOwnerGroupKind\<close>: the references of the right group and kind, in their order, with the
  namespace of the object unless the owner is a cluster resource; nothing at all when some
  reference is \<open>blocked\<close>, that is when its version does not parse or has no mapping.
\<close>

definition ref_matches :: "'ot apimachinery \<Rightarrow> 'ot for_owner \<Rightarrow> owner_reference \<Rightarrow> bool" where
  "ref_matches am e ref \<longleftrightarrow> or_Kind ref = gk_Kind (fo_groupKind e) \<and>
     (case am_ParseGroupVersion am (or_APIVersion ref) of
        Inl _ \<Rightarrow> False | Inr (g, _) \<Rightarrow> g = gk_Group (fo_groupKind e))"

definition ref_scope ::
  "'ot apimachinery \<Rightarrow> 'ot for_owner \<Rightarrow> (group_kind \<Rightarrow> string \<Rightarrow> go_error + string) \<Rightarrow> owner_reference
    \<Rightarrow> string option" where
  "ref_scope am e mapper ref =
     (case am_ParseGroupVersion am (or_APIVersion ref) of
        Inl _ \<Rightarrow> None
      | Inr (_, v) \<Rightarrow> (case mapper (fo_groupKind e) v of Inl _ \<Rightarrow> None | Inr sc \<Rightarrow> Some sc))"

definition blocked ::
  "'ot apimachinery \<Rightarrow> 'ot for_owner \<Rightarrow> (group_kind \<Rightarrow> string \<Rightarrow> go_error + string) \<Rightarrow> owner_reference
    \<Rightarrow> bool" where
  "blocked am e mapper ref \<longleftrightarrow> (\<exists>err. am_ParseGroupVersion am (or_APIVersion ref) = Inl err) \<or>
     (ref_matches am e ref \<and> ref_scope am e mapper ref = None)"

definition ref_request ::
  "'ot apimachinery \<Rightarrow> 'ot for_owner \<Rightarrow> (group_kind \<Rightarrow> string \<Rightarrow> go_error + string) \<Rightarrow> string
    \<Rightarrow> owner_reference \<Rightarrow> namespaced_name" where
  "ref_request am e mapper namespace ref =
     (if ref_scope am e mapper ref \<noteq> Some ''root'' then namespace else [],
      am_GroupKind_String am (fo_NewGroupKind e) @ ''/'' @ or_Name ref)"

lemma owner_requests_spec:
  assumes "fo_mapper e = Some mapper"
  shows "owner_requests am e namespace refs result s =
     (Ok (if \<exists>ref \<in> set refs. blocked am e mapper ref then []
          else result @ map (ref_request am e mapper namespace) (filter (ref_matches am e) refs)), s)"
proof (induction refs arbitrary: result)
  case (Cons ref refs)
  show ?case
  proof (cases "am_ParseGroupVersion am (or_APIVersion ref)")
    case (Inl err)
    then show ?thesis by (auto simp: blocked_def)
  next
    case (Inr gv)
    with Cons assms show ?thesis
      by (cases gv; cases "mapper (fo_groupKind e) (snd gv)")
        (auto simp: blocked_def ref_matches_def ref_scope_def ref_request_def split: if_splits)
  qed
qed simp

definition owner_reqs ::
  "'ot apimachinery \<Rightarrow> 'ot for_owner \<Rightarrow> (group_kind \<Rightarrow> string \<Rightarrow> go_error + string) \<Rightarrow> object_meta option
    \<Rightarrow> namespaced_name list" where
  "owner_reqs am e mapper evt =
     (let refs = getOwnersReferences e evt
      in if \<exists>ref \<in> set refs. blocked am e mapper ref then []
         else map (ref_request am e mapper (case evt of None \<Rightarrow> [] | Some m \<Rightarrow> om_Namespace m))
                (filter (ref_matches am e) refs))"

lemma forM_call_Add: "forM rs (\<lambda>r. call_Add add (f r)) q = (Ok (), fold add (map f rs) q)"
  by (induction rs arbitrary: q) (simp_all add: bindM_def)

lemma Owner_Create_run:
  "fo_mapper e = Some mapper \<Longrightarrow> Owner_Create add am e evt q = (Ok (), fold add (owner_reqs am e mapper evt) q)"
  by (simp add: Owner_Create_def getOwnerReconcileRequest_def bindM_def owner_requests_spec
      owner_reqs_def forM_call_Add [where f = "\<lambda>r. r", simplified])

lemma Owner_methods:
  "Owner_Update add am e old new = bindM (Owner_Create add am e old) (\<lambda>_. Owner_Create add am e new)"
  "Owner_Delete add am e evt = Owner_Create add am e evt"
  "Owner_Generic add am e evt = Owner_Create add am e evt"
  by (simp_all add: Owner_Update_def Owner_Delete_def Owner_Generic_def Owner_Create_def)

text \<open>The handler as \<open>InjectMapper\<close> leaves it.\<close>

interpretation fo: event_handler add "RequestForOwnerGroupKind add am (e\<lparr>fo_mapper := Some mapper\<rparr>)"
  "\<lambda>evt. Some (owner_reqs am (e\<lparr>fo_mapper := Some mapper\<rparr>) mapper evt)" for add am e mapper
  by unfold_locales
    (simp_all add: RequestForOwnerGroupKind_def Owner_methods Owner_Create_run)

end
