(* ===== verification/K8sObjects.thy ===== *)
theory K8sObjects
  imports Secrets Enqueue
begin

text \<open>
  The other helpers of \<open>pkg/k8s\<close> (\<open>config_map.go\<close>, \<open>service.go\<close>, \<open>owner.go\<close>),
  \<open>pkg/label\<close>, \<open>pkg/localvolume\<close> and \<open>pkg/job\<close>: objects that a controller makes sure to exist.
  Every function that writes takes the client of its type of object; the lemmas hold for a client
  that keeps the contract \<open>kind_server\<close>.
\<close>

section \<open>Labels\<close>

definition label_New :: "string \<Rightarrow> string \<Rightarrow> (string, string) gomap" where
  "label_New instanceType instanceName =
     AList.update instanceType instanceName [(''contrail_manager'', instanceType)]"

definition AsString :: "string \<Rightarrow> string \<Rightarrow> string" where
  "AsString instanceType instanceName = instanceType @ '': '' @ instanceName"

definition NewLabelSelector :: "string \<Rightarrow> string \<Rightarrow> (string, string) gomap" where
  "NewLabelSelector instanceType instanceName =
     AList.update instanceType instanceName [(''contrail_manager'', instanceType)]"

section \<open>Config maps\<close>

definition createNewOrGetExistingConfigMap ::
  "k8s_lib \<Rightarrow> (config_map, 's) kind_client \<Rightarrow> string \<Rightarrow> string \<Rightarrow> object_meta
    \<Rightarrow> ('s, go_error, config_map) go" where
  "createNewOrGetExistingConfigMap lib kc name ownerType owner =
     bindM (tryM (kc_Get kc (om_Namespace owner, name))) (\<lambda>r.
       case r of
         Inr configMap \<Rightarrow> ret configMap
       | Inl err \<Rightarrow>
           if IsNotFound lib err
           then bindM (sum_result (SetControllerReference lib owner
                   (new_meta\<lparr>om_Name := name, om_Namespace := om_Namespace owner,
                      om_Labels := Some (owner_labels ownerType (om_Name owner))\<rparr>))) (\<lambda>m.
                  kc_Create kc \<lparr>cm_meta = m, cm_Data = Some []\<rparr>)
           else throw err)"

text \<open>\<open>EnsureExists\<close> empties the data before the filler writes it.\<close>

definition ConfigMap_EnsureExists ::
  "k8s_lib \<Rightarrow> (config_map, 's) kind_client \<Rightarrow> string \<Rightarrow> string \<Rightarrow> object_meta
    \<Rightarrow> (config_map \<Rightarrow> config_map) \<Rightarrow> ('s, go_error, unit) go" where
  "ConfigMap_EnsureExists lib kc name ownerType owner FillConfigMap =
     bindM (createNewOrGetExistingConfigMap lib kc name ownerType owner) (\<lambda>cm.
     bindM (kc_CreateOrUpdate kc cm (\<lambda>cm. ret (FillConfigMap (cm\<lparr>cm_Data := Some []\<rparr>)))) (\<lambda>_. ret ()))"

section \<open>Services\<close>

record service_port =
  sp_Name :: string
  sp_Port :: int
  sp_Protocol :: string
  sp_NodePort :: int

record k8s_service =
  svc_meta :: object_meta
  svc_Ports :: "service_port list"
  svc_Selector :: string_map
  svc_Type :: string
  svc_ClusterIP :: string
  svc_Ingress :: "string list"

text \<open>The struct \<open>Service\<close>; its scheme and client are arguments of \<open>EnsureExists\<close>.\<close>

record service_conf =
  sc_name :: string
  sc_servType :: string
  sc_ports :: "(int, string) gomap"
  sc_ownerType :: string
  sc_labels :: string_map
  sc_annotations :: string_map
  sc_owner :: object_meta
  sc_svc :: k8s_service

definition new_service :: k8s_service where
  "new_service = \<lparr>svc_meta = new_meta, svc_Ports = [], svc_Selector = None, svc_Type = [],
     svc_ClusterIP = [], svc_Ingress = []\<rparr>"

text \<open>The loop that remembers the node port of every configured port of the present service.\<close>

definition portToNodePortMap ::
  "range_ord \<Rightarrow> (int, string) gomap \<Rightarrow> service_port list \<Rightarrow> (int, int) gomap" where
  "portToNodePortMap ord ports current =
     fold (\<lambda>p m. fold (\<lambda>(port, _) m. if sp_Port p = port then AList.update port (sp_NodePort p) m else m)
                   (range_of ord ports) m) current []"

definition servicePortList ::
  "range_ord \<Rightarrow> (int, string) gomap \<Rightarrow> (int, int) gomap \<Rightarrow> service_port list" where
  "servicePortList ord ports nodePorts =
     map (\<lambda>(port, name).
            let svcPort = \<lparr>sp_Name = [], sp_Port = port, sp_Protocol = ''TCP'',
                   sp_NodePort = (case map_of nodePorts port of None \<Rightarrow> 0 | Some n \<Rightarrow> n)\<rparr>
            in if name \<noteq> [] then svcPort\<lparr>sp_Name := name\<rparr> else svcPort)
       (range_of ord ports)"

definition service_labels :: "service_conf \<Rightarrow> string_map" where
  "service_labels s =
     (if map_entries (sc_labels s) = [] then Some (label_New (sc_ownerType s) (om_Name (sc_owner s)))
      else sc_labels s)"

text \<open>The function that \<open>EnsureExists\<close> hands to \<open>CreateOrUpdate\<close>; it has two loops over the ports.\<close>

definition service_mutate ::
  "k8s_lib \<Rightarrow> range_ord \<Rightarrow> range_ord \<Rightarrow> service_conf \<Rightarrow> k8s_service \<Rightarrow> ('s, go_error, k8s_service) go" where
  "service_mutate lib ord1 ord2 s svc =
     (let svc = svc\<lparr>svc_Ports := servicePortList ord2 (sc_ports s)
                       (portToNodePortMap ord1 (sc_ports s) (svc_Ports svc)),
                    svc_Selector := service_labels s, svc_Type := sc_servType s\<rparr>
      in bindM (sum_result (SetControllerReference lib (sc_owner s) (svc_meta svc))) (\<lambda>m.
           ret (svc\<lparr>svc_meta := m\<rparr>)))"

text \<open>The result is the struct with the object that is in the cluster afterwards.\<close>

definition Service_EnsureExists ::
  "k8s_lib \<Rightarrow> (k8s_service, 's) kind_client \<Rightarrow> range_ord \<Rightarrow> range_ord \<Rightarrow> service_conf
    \<Rightarrow> ('s, go_error, service_conf) go" where
  "Service_EnsureExists lib kc ord1 ord2 s =
     bindM (kc_CreateOrUpdate kc
              (new_service\<lparr>svc_meta := new_meta\<lparr>om_Name := sc_name s,
                 om_Namespace := om_Namespace (sc_owner s), om_Labels := service_labels s,
                 om_Annotations := sc_annotations s\<rparr>\<rparr>)
              (service_mutate lib ord1 ord2 s)) (\<lambda>svc.
       ret (s\<lparr>sc_svc := svc\<rparr>))"

definition ServiceType :: "service_conf \<Rightarrow> string" where
  "ServiceType s = sc_servType s"

definition ClusterIP :: "service_conf \<Rightarrow> string" where
  "ClusterIP s = svc_ClusterIP (sc_svc s)"

definition ExternalIP :: "service_conf \<Rightarrow> string" where
  "ExternalIP s = (case svc_Ingress (sc_svc s) of [] \<Rightarrow> [] | ip # _ \<Rightarrow> ip)"

definition NodePort :: "service_conf \<Rightarrow> string \<Rightarrow> int" where
  "NodePort s name =
     (case find (\<lambda>p. sp_Name p = name) (svc_Ports (sc_svc s)) of
        None \<Rightarrow> 0 | Some p \<Rightarrow> sp_NodePort p)"

definition WithLabels :: "service_conf \<Rightarrow> string_map \<Rightarrow> service_conf" where
  "WithLabels s labels = s\<lparr>sc_labels := labels\<rparr>"

definition WithAnnotations :: "service_conf \<Rightarrow> string_map \<Rightarrow> service_conf" where
  "WithAnnotations s annotations = s\<lparr>sc_annotations := annotations\<rparr>"

definition Kubernetes_Service ::
  "string \<Rightarrow> string \<Rightarrow> (int, string) gomap \<Rightarrow> string \<Rightarrow> object_meta \<Rightarrow> service_conf" where
  "Kubernetes_Service name servType ports ownerType owner =
     \<lparr>sc_name = name, sc_servType = servType, sc_ports = ports, sc_ownerType = ownerType,
      sc_labels = None, sc_annotations = None, sc_owner = owner, sc_svc = new_service\<rparr>"

section \<open>Owners\<close>

text \<open>\<open>apiutil.GVKForObject\<close> is the argument \<open>gvk\<close>: group-version text and kind, or an error.\<close>

definition owner_ref :: "string \<times> string \<Rightarrow> object_meta \<Rightarrow> owner_reference" where
  "owner_ref gvk owner =
     \<lparr>or_APIVersion = fst gvk, or_Kind = snd gvk, or_Name = om_Name owner, or_UID = om_UID owner,
      or_Controller = Some False, or_BlockOwnerDeletion = Some False\<rparr>"

definition referSameObject :: "'ot apimachinery \<Rightarrow> owner_reference \<Rightarrow> owner_reference \<Rightarrow> bool" where
  "referSameObject am a b =
     (case am_ParseGroupVersion am (or_APIVersion a) of
        Inl _ \<Rightarrow> False
      | Inr aGV \<Rightarrow>
          case am_ParseGroupVersion am (or_APIVersion b) of
            Inl _ \<Rightarrow> False
          | Inr bGV \<Rightarrow> aGV = bGV \<and> or_Kind a = or_Kind b \<and> or_Name a = or_Name b)"

text \<open>The loop: the first reference to the owner is replaced, else the new one is appended.\<close>

fun replace_ref ::
  "'ot apimachinery \<Rightarrow> owner_reference \<Rightarrow> owner_reference list \<Rightarrow> owner_reference list" where
  "replace_ref am ref [] = [ref]"
| "replace_ref am ref (r # rs) =
     (if referSameObject am ref r then ref # rs else r # replace_ref am ref rs)"

definition EnsureOwns ::
  "'ot apimachinery \<Rightarrow> (go_error + string \<times> string) \<Rightarrow> (object_meta, 's) kind_client \<Rightarrow> object_meta
    \<Rightarrow> object_meta \<Rightarrow> ('s, go_error, object_meta) go" where
  "EnsureOwns am gvk kc owner dependent =
     bindM (sum_result gvk) (\<lambda>gvk.
       kc_Update kc (dependent\<lparr>om_OwnerReferences :=
         replace_ref am (owner_ref gvk owner) (om_OwnerReferences dependent)\<rparr>))"

section \<open>Local volumes\<close>

text \<open>A \<open>resource.Quantity\<close> of apimachinery is a value of \<open>'q\<close>, with its zero test a parameter.\<close>

record 'q local_volume =
  lv_name :: string
  lv_labels :: string_map
  lv_nodeSelectors :: string_map
  lv_path :: string
  lv_storage :: 'q

record 'q persistent_volume =
  pv_meta :: object_meta
  pv_Capacity :: "(string, 'q) gomap"
  pv_VolumeMode :: string
  pv_AccessModes :: "string list"
  pv_ReclaimPolicy :: string
  pv_StorageClassName :: string
  pv_NodeAffinity :: "(string \<times> string \<times> string list) list"
  pv_LocalPath :: string

definition localvolume_New ::
  "('q \<Rightarrow> bool) \<Rightarrow> string \<Rightarrow> string \<Rightarrow> 'q \<Rightarrow> string_map \<Rightarrow> string_map \<Rightarrow> go_error + 'q local_volume" where
  "localvolume_New IsZero name path storage labels nodeSelectors =
     (if name = [] then Inl (errors_New ''local volume name cannot be empty'')
      else if map_entries labels = [] then Inl (errors_New ''labels are required'')
      else if map_entries nodeSelectors = [] then Inl (errors_New ''node selectors are required'')
      else if IsZero storage then Inl (errors_New ''storage cannot be zero'')
      else if path = [] then Inl (errors_New ''storage path on the host is required'')
      else Inr \<lparr>lv_name = name, lv_labels = labels, lv_nodeSelectors = nodeSelectors,
                lv_path = path, lv_storage = storage\<rparr>)"

definition local_pv :: "range_ord \<Rightarrow> 'q local_volume \<Rightarrow> 'q persistent_volume" where
  "local_pv ord v =
     \<lparr>pv_meta = new_meta\<lparr>om_Name := lv_name v, om_Labels := lv_labels v\<rparr>,
      pv_Capacity = [(''storage'', lv_storage v)], pv_VolumeMode = ''Filesystem'',
      pv_AccessModes = [''ReadWriteOnce''],
      pv_ReclaimPolicy = [], pv_StorageClassName = ''local-storage'',
      pv_NodeAffinity =
        map (\<lambda>(k, v). (k, ''In'', [v])) (range_of ord (map_entries (lv_nodeSelectors v))),
      pv_LocalPath = lv_path v\<rparr>"

definition volume_EnsureExists ::
  "('q persistent_volume, 's) kind_client \<Rightarrow> range_ord \<Rightarrow> 'q local_volume \<Rightarrow> ('s, go_error, unit) go" where
  "volume_EnsureExists kc ord v = bindM (kc_CreateOrUpdate kc (local_pv ord v) ret) (\<lambda>_. ret ())"

section \<open>Jobs\<close>

text \<open>The conditions of a job: type and status.\<close>

record k8s_job =
  job_Conditions :: "(string \<times> string) list"
  job_BackoffLimit :: "int option"
  job_Failed :: int

definition JobPending :: "k8s_job \<Rightarrow> bool" where
  "JobPending j \<longleftrightarrow>
     (if job_Conditions j = [] then True
      else \<not> list_ex (\<lambda>(ty, status). status = ''True'' \<and> (ty = ''Complete'' \<or> ty = ''Failed'')) (job_Conditions j))"

definition JobCompleted :: "k8s_job \<Rightarrow> bool" where
  "JobCompleted j \<longleftrightarrow>
     (if job_Conditions j = [] then False
      else list_ex (\<lambda>(ty, status). status = ''True'' \<and> ty = ''Complete'') (job_Conditions j))"

definition JobFailed :: "k8s_job \<Rightarrow> bool" where
  "JobFailed j \<longleftrightarrow>
     (if list_ex (\<lambda>(ty, status). status = ''True'' \<and> ty = ''Failed'') (job_Conditions j) then True
      else (case job_BackoffLimit j of None \<Rightarrow> False | Some l \<Rightarrow> l \<le> job_Failed j))"

section \<open>What the helpers leave in the cluster\<close>

text \<open>The node ports that survive an update: the last one that the service has for the port.\<close>

lemma inner_ports:
  "map_of (fold (\<lambda>(port, _) m. if sp_Port p = port then AList.update port (sp_NodePort p) m else m) ps m) k =
     (if sp_Port p = k \<and> k \<in> fst ` set ps then Some (sp_NodePort p) else map_of m k)"
  by (induction ps arbitrary: m) (auto simp: update_conv')

lemma map_of_portToNodePortMap:
  assumes "range_perm ord" "port \<in> fst ` set ports"
  shows "map_of (portToNodePortMap ord ports current) port =
     map_option sp_NodePort (find (\<lambda>p. sp_Port p = port) (rev current))"
proof -
  have "map_of (fold (\<lambda>p m. fold (\<lambda>(port, _) m. if sp_Port p = port
            then AList.update port (sp_NodePort p) m else m) (range_of ord ports) m) current m) port =
      (case find (\<lambda>p. sp_Port p = port) (rev current) of
         None \<Rightarrow> map_of m port | Some p \<Rightarrow> Some (sp_NodePort p))" for m
    using assms
    by (induction current arbitrary: m) (auto simp: inner_ports find_append split: option.splits)
  from this [of "[]"] show ?thesis
    by (simp add: portToNodePortMap_def split: option.splits)
qed

lemma set_servicePortList:
  assumes "range_perm ord"
  shows "p \<in> set (servicePortList ord ports nodePorts) \<longleftrightarrow>
     (sp_Port p, sp_Name p) \<in> set ports \<and> sp_Protocol p = ''TCP'' \<and>
     sp_NodePort p = (case map_of nodePorts (sp_Port p) of None \<Rightarrow> 0 | Some n \<Rightarrow> n)"
proof
  assume "p \<in> set (servicePortList ord ports nodePorts)"
  with assms show "(sp_Port p, sp_Name p) \<in> set ports \<and> sp_Protocol p = ''TCP'' \<and>
     sp_NodePort p = (case map_of nodePorts (sp_Port p) of None \<Rightarrow> 0 | Some n \<Rightarrow> n)"
    by (auto simp: servicePortList_def Let_def split: if_splits)
next
  assume a: "(sp_Port p, sp_Name p) \<in> set ports \<and> sp_Protocol p = ''TCP'' \<and>
     sp_NodePort p = (case map_of nodePorts (sp_Port p) of None \<Rightarrow> 0 | Some n \<Rightarrow> n)"
  then show "p \<in> set (servicePortList ord ports nodePorts)"
    using assms
    by (cases p) (force simp: servicePortList_def Let_def intro!: image_eqI [where x = "(sp_Port p, sp_Name p)"])
qed

lemma Service_EnsureExists_result:
  assumes srv: "kind_server lib kc svc_meta objects"
    and run: "Service_EnsureExists lib kc ord1 ord2 sv s = (Ok sv', s')"
  shows "\<exists>t svc0 svc. (svc0 = (case objects s (om_Namespace (sc_owner sv), sc_name sv) of
      None \<Rightarrow> new_service\<lparr>svc_meta := new_meta\<lparr>om_Name := sc_name sv,
                 om_Namespace := om_Namespace (sc_owner sv), om_Labels := service_labels sv,
                 om_Annotations := sc_annotations sv\<rparr>\<rparr> | Some z \<Rightarrow> z)) \<and>
    service_mutate lib ord1 ord2 sv svc0 s = (Ok svc, t) \<and> sv' = sv\<lparr>sc_svc := svc\<rparr> \<and>
    objects s' (om_Namespace (sc_owner sv), sc_name sv) = Some svc"
proof -
  from run obtain svc where cu: "kc_CreateOrUpdate kc
              (new_service\<lparr>svc_meta := new_meta\<lparr>om_Name := sc_name sv,
                 om_Namespace := om_Namespace (sc_owner sv), om_Labels := service_labels sv,
                 om_Annotations := sc_annotations sv\<rparr>\<rparr>)
              (service_mutate lib ord1 ord2 sv) s = (Ok svc, s')" and sv': "sv' = sv\<lparr>sc_svc := svc\<rparr>"
    by (auto simp: Service_EnsureExists_def go_simps)
  from kind_server.CreateOrUpdate_Ok [OF srv cu] sv' show ?thesis
    by (auto simp: key_of_def)
qed

lemma service_mutate_Ok:
  assumes "service_mutate lib ord1 ord2 sv svc0 s = (Ok svc, t)"
  shows "svc_Ports svc = servicePortList ord2 (sc_ports sv)
           (portToNodePortMap ord1 (sc_ports sv) (svc_Ports svc0)) \<and>
         svc_Selector svc = service_labels sv \<and> svc_Type svc = sc_servType sv \<and>
         svc_ClusterIP svc = svc_ClusterIP svc0 \<and> svc_Ingress svc = svc_Ingress svc0 \<and> t = s"
  using assms by (auto simp: service_mutate_def go_simps Let_def)

lemma owner_labels_label_New: "owner_labels ty name = label_New ty name"
  by (simp add: owner_labels_def label_New_def)

text \<open>Owner references: the new one is there, the others stay, and a second call changes nothing.\<close>

lemma replace_ref_mem: "ref \<in> set (replace_ref am ref rs)"
  by (induction rs) auto

lemma replace_ref_others:
  "r \<in> set rs \<Longrightarrow> \<not> referSameObject am ref r \<Longrightarrow> r \<in> set (replace_ref am ref rs)"
  by (induction rs) auto

lemma replace_ref_sub: "r \<in> set (replace_ref am ref rs) \<Longrightarrow> r = ref \<or> r \<in> set rs"
  by (induction rs) (auto split: if_splits)

lemma referSameObject_refl:
  "am_ParseGroupVersion am (or_APIVersion ref) = Inr gv \<Longrightarrow> referSameObject am ref ref"
  by (simp add: referSameObject_def)

lemma replace_ref_idem:
  assumes "am_ParseGroupVersion am (or_APIVersion ref) = Inr gv"
  shows "replace_ref am ref (replace_ref am ref rs) = replace_ref am ref rs"
  by (induction rs) (simp_all add: referSameObject_refl [OF assms])

lemma JobPending_iff:
  "JobPending j \<longleftrightarrow> \<not> JobCompleted j \<and>
     \<not> list_ex (\<lambda>(ty, status). status = ''True'' \<and> ty = ''Failed'') (job_Conditions j)"
  by (auto simp: JobPending_def JobCompleted_def list_ex_iff)

lemma volume_kept:
  assumes srv: "kind_server lib kc pv_meta objects"
    and run: "volume_EnsureExists kc ord v s = (Ok u, s')"
  shows "objects s' ([], lv_name v) = Some (case objects s ([], lv_name v) of
     None \<Rightarrow> local_pv ord v | Some pv \<Rightarrow> pv)"
proof -
  from run obtain y where "kc_CreateOrUpdate kc (local_pv ord v) ret s = (Ok y, s')"
    by (auto simp: volume_EnsureExists_def go_simps)
  from kind_server.CreateOrUpdate_Ok [OF srv this] show ?thesis
    by (auto simp: key_of_def local_pv_def new_meta_def split: option.splits)
qed

end
