(* ===== verification/Certificates.thy ===== *)
theory Certificates
  imports Secrets
begin

text \<open>
  \<open>pkg/certificates/certificate.go\<close> and \<open>signer_ca.go\<close>: the certificates of the pods of a
  service, signed with the certificate of the cluster and kept in one secret.  A pod that has a
  certificate keeps it; a pod without an address makes the call fail after the others have got
  theirs.
\<close>

section \<open>Signing\<close>

definition getCaCertSecret ::
  "(k_secret, 's) kind_client \<Rightarrow> object_meta \<Rightarrow> ('s, go_error, k_secret) go" where
  "getCaCertSecret kc owner = kc_Get kc (om_Namespace owner, caSecretName)"

text \<open>The bytes of a PEM block are read through a pointer that may be \<open>nil\<close>.\<close>

definition SignCertificate ::
  "('key, 'ip, 'cert, 's) crypto_lib \<Rightarrow> (k_secret, 's) kind_client \<Rightarrow> object_meta \<Rightarrow> 'ip cert_template
    \<Rightarrow> 'key \<Rightarrow> ('s, go_error, string) go" where
  "SignCertificate cy kc owner certTemplate privateKey =
     bindM (wrapping (''failed to get secret '' @ caSecretName @ '' with ca cert'') (getCaCertSecret kc owner)) (\<lambda>secret.
     bindM (wrapping ''failed to decode ca cert pem'' (getAndDecodePem cy (sec_Data secret) SignerCAFilename)) (\<lambda>block.
     bindM (deref_ptr block) (\<lambda>caCertBytes.
     bindM (wrapping ''failed to parse ca cert'' (sum_result (x509_ParseCertificate cy caCertBytes))) (\<lambda>caCert.
     bindM (wrapping ''failed to decode ca cert priv key pem''
              (getAndDecodePem cy (sec_Data secret) signerCAPrivateKeyFilename)) (\<lambda>block.
     bindM (deref_ptr block) (\<lambda>caKeyBytes.
     bindM (wrapping ''failed to parse ca cert'' (sum_result (x509_ParsePKCS1PrivateKey cy caKeyBytes))) (\<lambda>caCertPrivKey.
     bindM (wrapping ''failed to sign certificate''
              (x509_CreateCertificate cy certTemplate (Inr caCert) privateKey caCertPrivKey)) (\<lambda>certBytes.
     bindM (wrapping ''failed to encode certificate with pem format''
              (encodeInPemFormat cy certBytes certificatePemType)) (\<lambda>certPem.
       ret certPem)))))))))"

section \<open>The certificates of the pods\<close>

definition serverPrivateKeyFileName :: "string \<Rightarrow> string" where
  "serverPrivateKeyFileName ip = ''server-key-'' @ ip @ ''.pem''"

definition serverCertificateFileName :: "string \<Rightarrow> string" where
  "serverCertificateFileName ip = ''server-'' @ ip @ ''.crt''"

definition statusFileName :: "string \<Rightarrow> string" where
  "statusFileName ip = ''status-'' @ ip"

definition certInSecret :: "k_secret \<Rightarrow> string \<Rightarrow> bool" where
  "certInSecret secret podIP \<longleftrightarrow>
     map_of (map_entries (sec_Data secret)) (serverPrivateKeyFileName podIP) \<noteq> None \<and>
     map_of (map_entries (sec_Data secret)) (serverCertificateFileName podIP) \<noteq> None"

text \<open>\<open>sign\<close> is \<open>SignCertificate\<close> of the signer; the data of the secret is not \<open>nil\<close> here.\<close>

definition createCertificateForPod ::
  "('key, 'ip, 'cert, 's) crypto_lib \<Rightarrow> ('ip cert_template \<Rightarrow> 'key \<Rightarrow> ('s, go_error, string) go)
    \<Rightarrow> cert_subject \<Rightarrow> k_secret \<Rightarrow> ('s, go_error, k_secret) go" where
  "createCertificateForPod cy sign subject secret =
     (if certInSecret secret (subj_ip subject) then ret secret
      else bindM (wrapping (''failed to generate certificate template for '' @ subj_hostname subject @ '', ''
                              @ subj_name subject) (generateCertificateTemplate cy subject))
             (\<lambda>(certificateTemplate, privateKey).
           bindM (wrapping (''failed to sign certificate for '' @ subj_hostname subject @ '', ''
                              @ subj_name subject) (sign certificateTemplate privateKey)) (\<lambda>certBytes.
           bindM (encodeInPemFormat cy (MarshalPKCS1PrivateKey cy privateKey) privateKeyPemType) (\<lambda>certPrivKeyPem.
             ret (secret\<lparr>sec_Data := Some
               (AList.update (statusFileName (subj_ip subject)) ''Approved''
                 (AList.update (serverCertificateFileName (subj_ip subject)) certBytes
                   (AList.update (serverPrivateKeyFileName (subj_ip subject)) certPrivKeyPem
                     (map_entries (sec_Data secret)))))\<rparr>)))))"

fun fill_loop ::
  "('key, 'ip, 'cert, 's) crypto_lib \<Rightarrow> ('ip cert_template \<Rightarrow> 'key \<Rightarrow> ('s, go_error, string) go)
    \<Rightarrow> cert_subject list \<Rightarrow> k_secret \<Rightarrow> ('s, go_error, k_secret) go" where
  "fill_loop cy sign [] secret = ret secret"
| "fill_loop cy sign (subject # subjects) secret =
     (if subj_ip subject = [] then fill_loop cy sign subjects secret
      else bindM (createCertificateForPod cy sign subject secret) (\<lambda>secret.
             fill_loop cy sign subjects secret))"

definition FillSecret ::
  "('key, 'ip, 'cert, 's) crypto_lib \<Rightarrow> ('ip cert_template \<Rightarrow> 'key \<Rightarrow> ('s, go_error, string) go)
    \<Rightarrow> cert_subject list \<Rightarrow> k_secret \<Rightarrow> ('s, go_error, k_secret) go" where
  "FillSecret cy sign subjects secret =
     (let secret = (if sec_Data secret = None then secret\<lparr>sec_Data := Some []\<rparr> else secret)
      in bindM (fill_loop cy sign subjects secret) (\<lambda>secret.
           case find (\<lambda>subject. subj_ip subject = []) subjects of
             Some subject \<Rightarrow> throw (errors_New (subj_name subject @ '' subject IP still no available''))
           | None \<Rightarrow> ret secret))"

definition EnsureExistsAndIsSigned ::
  "k8s_lib \<Rightarrow> ('key, 'ip, 'cert, 's) crypto_lib \<Rightarrow> (k_secret, 's) kind_client \<Rightarrow> object_meta
    \<Rightarrow> cert_subject list \<Rightarrow> string \<Rightarrow> ('s, go_error, unit) go" where
  "EnsureExistsAndIsSigned lib cy kc owner subjects ownerType =
     Secret_EnsureExists lib kc (om_Name owner @ ''-secret-certificates'') ownerType owner
       (FillSecret cy (SignCertificate cy kc owner) subjects)"

section \<open>What the secret holds\<close>

text \<open>The names of the files of one pod differ from those of another.\<close>

lemma file_names_inj [simp]:
  "serverPrivateKeyFileName a = serverPrivateKeyFileName b \<longleftrightarrow> a = b"
  "serverCertificateFileName a = serverCertificateFileName b \<longleftrightarrow> a = b"
  by (simp_all add: serverPrivateKeyFileName_def serverCertificateFileName_def)

lemma last_char_neq: "xs \<noteq> [] \<Longrightarrow> ys \<noteq> [] \<Longrightarrow> last xs \<noteq> last ys \<Longrightarrow> xs \<noteq> ys"
  by auto

lemma file_names_kinds [simp]:
  "serverPrivateKeyFileName a \<noteq> serverCertificateFileName b"
  "serverCertificateFileName b \<noteq> serverPrivateKeyFileName a"
  by (rule last_char_neq; simp add: serverPrivateKeyFileName_def serverCertificateFileName_def)+

lemma status_names [simp]:
  "statusFileName a \<noteq> serverPrivateKeyFileName b" "statusFileName a \<noteq> serverCertificateFileName b"
  "serverPrivateKeyFileName b \<noteq> statusFileName a" "serverCertificateFileName b \<noteq> statusFileName a"
  by (simp_all add: statusFileName_def serverPrivateKeyFileName_def serverCertificateFileName_def)

text \<open>\<open>cert_entry\<close>: the files of an address in the data of a secret.\<close>

definition cert_entry :: "k_secret \<Rightarrow> string \<Rightarrow> string option \<times> string option" where
  "cert_entry secret ip =
     (map_of (map_entries (sec_Data secret)) (serverPrivateKeyFileName ip),
      map_of (map_entries (sec_Data secret)) (serverCertificateFileName ip))"

definition keeps_certs :: "k_secret \<Rightarrow> k_secret \<Rightarrow> bool" where
  "keeps_certs secret secret' \<longleftrightarrow>
     (\<forall>ip. certInSecret secret ip \<longrightarrow> cert_entry secret' ip = cert_entry secret ip)"

lemma certInSecret_entry: "certInSecret secret ip \<longleftrightarrow> fst (cert_entry secret ip) \<noteq> None \<and> snd (cert_entry secret ip) \<noteq> None"
  by (simp add: certInSecret_def cert_entry_def)

lemma keeps_certs_refl [simp]: "keeps_certs s s"
  by (simp add: keeps_certs_def)

lemma keeps_certs_in: "keeps_certs s t \<Longrightarrow> certInSecret s ip \<Longrightarrow> certInSecret t ip"
  by (simp add: keeps_certs_def certInSecret_entry)

lemma keeps_certs_trans: "keeps_certs s t \<Longrightarrow> keeps_certs t u \<Longrightarrow> keeps_certs s u"
  using keeps_certs_in by (metis keeps_certs_def)

lemma createCertificateForPod_Ok:
  assumes "createCertificateForPod cy sign subject secret s = (Ok secret', s')"
  shows "certInSecret secret' (subj_ip subject) \<and> keeps_certs secret secret' \<and>
     (\<forall>ip. ip \<noteq> subj_ip subject \<longrightarrow> cert_entry secret' ip = cert_entry secret ip)"
  using assms
  by (auto simp: createCertificateForPod_def go_simps certInSecret_def keeps_certs_def cert_entry_def
      encodeInPemFormat_def map_entries_def update_conv' split: if_splits)

lemma fill_loop_Ok:
  assumes "fill_loop cy sign subjects secret s = (Ok secret', s')"
  shows "keeps_certs secret secret' \<and>
     (\<forall>subject \<in> set subjects. subj_ip subject \<noteq> [] \<longrightarrow> certInSecret secret' (subj_ip subject)) \<and>
     (\<forall>ip. ip \<notin> subj_ip ` set subjects \<longrightarrow> cert_entry secret' ip = cert_entry secret ip)"
  using assms
proof (induction subjects arbitrary: secret s)
  case (Cons subject subjects)
  show ?case
  proof (cases "subj_ip subject = []")
    case True
    with Cons.prems Cons.IH [of secret s] show ?thesis by auto
  next
    case False
    with Cons.prems obtain sec t where c: "createCertificateForPod cy sign subject secret s = (Ok sec, t)"
      and l: "fill_loop cy sign subjects sec t = (Ok secret', s')"
      by (auto simp: go_simps)
    from createCertificateForPod_Ok [OF c] Cons.IH [OF l] show ?thesis
      using keeps_certs_in keeps_certs_trans by auto
  qed
qed simp

lemma FillSecret_Ok:
  assumes "FillSecret cy sign subjects secret s = (Ok secret', s')"
  shows "(\<forall>subject \<in> set subjects. subj_ip subject \<noteq> [] \<and> certInSecret secret' (subj_ip subject)) \<and>
     keeps_certs secret secret' \<and>
     (\<forall>ip. ip \<notin> subj_ip ` set subjects \<longrightarrow> cert_entry secret' ip = cert_entry secret ip)"
proof -
  let ?sec = "if sec_Data secret = None then secret\<lparr>sec_Data := Some []\<rparr> else secret"
  have e: "cert_entry ?sec ip = cert_entry secret ip" for ip
    by (simp add: cert_entry_def map_entries_def)
  from assms have l: "fill_loop cy sign subjects ?sec s = (Ok secret', s')"
    and n: "find (\<lambda>subject. subj_ip subject = []) subjects = None"
    by (auto simp: FillSecret_def Let_def go_simps split: option.splits)
  from fill_loop_Ok [OF l] n show ?thesis
    by (auto simp: find_None_iff keeps_certs_def certInSecret_entry e)
qed

text \<open>A subject without an address makes the call fail.\<close>

lemma FillSecret_missing_ip:
  assumes "subject \<in> set subjects" "subj_ip subject = []"
  shows "\<not> succeeds (FillSecret cy sign subjects secret s)"
proof -
  have "FillSecret cy sign subjects secret s \<noteq> (Ok secret', s')" for secret' s'
    using FillSecret_Ok [of cy sign subjects secret s secret' s'] assms by blast
  then show ?thesis
    by (cases "FillSecret cy sign subjects secret s") (auto simp: succeeds_def split: outcome.splits)
qed

text \<open>When every pod has its certificate, nothing is generated and nothing is written.\<close>

lemma FillSecret_complete:
  assumes "\<forall>subject \<in> set subjects. subj_ip subject \<noteq> [] \<and> certInSecret secret (subj_ip subject)"
    and "sec_Data secret \<noteq> None"
  shows "FillSecret cy sign subjects secret s = (Ok secret, s)"
proof -
  have "fill_loop cy sign subjects secret s = (Ok secret, s)"
    using assms(1) by (induction subjects) (simp_all add: createCertificateForPod_def)
  moreover have "find (\<lambda>subject. subj_ip subject = []) subjects = None"
    using assms(1) by (auto simp: find_None_iff)
  ultimately show ?thesis using assms(2) by (auto simp: FillSecret_def Let_def)
qed

end
