(* ===== verification/RandString.thy ===== *)
theory RandString
  imports Retry
begin

text \<open>
  \<open>pkg/randomstring/randomstring.go\<close>: passwords of random letters.  The source of randomness is
  the function \<open>src\<close>: \<open>src k\<close> is the number that the \<open>k\<close>-th call of \<open>src.Int63()\<close> returns.  The
  loop draws until all letters are set; nothing in the code bounds the number of draws, so it is a
  partial function, and that it returns is a theorem on the source.
\<close>

definition letterBytes :: string where
  "letterBytes = ''abcdefghijklmnopqrstuvwxyzABCDEFGHIJKLMNOPQRSTUVWXYZ''"

definition letterIdxBits :: nat where "letterIdxBits = 6"
definition letterIdxMask :: nat where "letterIdxMask = 2 ^ letterIdxBits - 1"
definition letterIdxMax :: nat where "letterIdxMax = 63 div letterIdxBits"

text \<open>
  The loop: \<open>i\<close> is one more than the index of the source, \<open>k\<close> the number of draws so far.  For the
  numbers of 63 bits that \<open>Int63\<close> returns, \<open>&\<close> with the mask is the remainder and \<open>>>\<close> the quotient.
\<close>

partial_function (option) rand_loop ::
  "(nat \<Rightarrow> nat) \<Rightarrow> nat \<Rightarrow> nat \<Rightarrow> nat \<Rightarrow> nat \<Rightarrow> string \<Rightarrow> (string \<times> nat) option" where
  "rand_loop src i cache0 remain0 k0 b =
     (if i = 0 then Some (b, k0)
      else let (cache, remain, k) = (if remain0 = 0 then (src k0, letterIdxMax, k0 + 1)
                                     else (cache0, remain0, k0));
               idx = cache mod (letterIdxMask + 1)
           in if idx < length letterBytes
              then rand_loop src (i - 1) (cache div 2 ^ letterIdxBits) (remain - 1) k
                     (b[i - 1 := letterBytes ! idx])
              else rand_loop src i (cache div 2 ^ letterIdxBits) (remain - 1) k b)"

text \<open>The state is the number of draws; a negative size makes \<open>make\<close> panic.\<close>

definition Generate :: "(nat \<Rightarrow> nat) \<Rightarrow> int \<Rightarrow> (nat, 'e, string) goD" where
  "Generate src Size k =
     (if Size < 0 then Some (Panic ''makeslice: len out of range'', k)
      else map_option (\<lambda>(b, k). (Ok b, k))
             (rand_loop src (nat Size) (src k) letterIdxMax (k + 1) (replicate (nat Size) (CHR 0x00))))"

section \<open>Only letters, and of the right length\<close>

lemma letter_constants:
  "letterIdxMax = 10" "letterIdxMask = 63" "letterIdxBits = 6" "length letterBytes = 52"
  by (simp_all add: letterIdxMax_def letterIdxMask_def letterIdxBits_def letterBytes_def)

definition letters_from :: "nat \<Rightarrow> string \<Rightarrow> bool" where
  "letters_from i b \<longleftrightarrow> (\<forall>j. i \<le> j \<and> j < length b \<longrightarrow> b ! j \<in> set letterBytes)"

lemma letters_from_step:
  assumes "letters_from i b" "idx < length letterBytes"
  shows "letters_from (i - 1) (b[i - 1 := letterBytes ! idx])"
proof -
  have "b[i - 1 := letterBytes ! idx] ! j \<in> set letterBytes"
    if "i - 1 \<le> j" "j < length b" for j
    using that assms by (cases "j = i - 1") (auto simp: letters_from_def nth_list_update)
  then show ?thesis by (simp add: letters_from_def)
qed

lemma rand_loop_letters:
  assumes "rand_loop src i cache remain k b = Some (b', k')" "letters_from i b"
  shows "length b' = length b \<and> letters_from 0 b'"
proof -
  have "letters_from i b \<longrightarrow> length (fst r) = length b \<and> letters_from 0 (fst r)"
    if "rand_loop src i cache remain k b = Some r" for r
    using that
  proof (rule rand_loop.raw_induct [rotated])
    fix f src i cache0 remain0 k0 b r
    assume IH: "\<And>src i cache remain k b r. f src i cache remain k b = Some r \<Longrightarrow>
        letters_from i b \<longrightarrow> length (fst r) = length b \<and> letters_from 0 (fst r)"
      and run: "(if i = 0 then Some (b, k0)
         else let (cache, remain, k) = (if remain0 = 0 then (src k0, letterIdxMax, k0 + 1)
                                        else (cache0, remain0, k0));
                  idx = cache mod (letterIdxMask + 1)
              in if idx < length letterBytes
                 then f src (i - 1) (cache div 2 ^ letterIdxBits) (remain - 1) k
                        (b[i - 1 := letterBytes ! idx])
                 else f src i (cache div 2 ^ letterIdxBits) (remain - 1) k b) = Some r"
    show "letters_from i b \<longrightarrow> length (fst r) = length b \<and> letters_from 0 (fst r)"
    proof
      assume l: "letters_from i b"
      obtain cache remain k where c: "(if remain0 = 0 then (src k0, letterIdxMax, k0 + 1)
          else (cache0, remain0, k0)) = (cache, remain, k)"
        by (metis prod_cases3)
      show "length (fst r) = length b \<and> letters_from 0 (fst r)"
      proof (cases "i = 0")
        case False
        show ?thesis
        proof (cases "cache mod (letterIdxMask + 1) < length letterBytes")
          case True
          with run c False have "f src (i - 1) (cache div 2 ^ letterIdxBits) (remain - 1) k
              (b[i - 1 := letterBytes ! (cache mod (letterIdxMask + 1))]) = Some r"
            by (simp add: Let_def)
          from IH [OF this] letters_from_step [OF l True] show ?thesis by simp
        next
          case out: False
          with run c False have "f src i (cache div 2 ^ letterIdxBits) (remain - 1) k b = Some r"
            by (simp add: Let_def)
          from IH [OF this] l show ?thesis by simp
        qed
      qed (use run l in auto)
    qed
  qed
  from this [of "(b', k')"] assms show ?thesis by simp
qed

section \<open>The loop returns\<close>

text \<open>
  A number is useful when one of its ten groups of six bits is the index of a letter.  If the
  source keeps giving useful numbers, each letter is found after finitely many draws.
\<close>

definition useful :: "nat \<Rightarrow> bool" where
  "useful w \<longleftrightarrow> (\<exists>g < 10. w div 64 ^ g mod 64 < 52)"

definition fair :: "(nat \<Rightarrow> nat) \<Rightarrow> bool" where
  "fair src \<longleftrightarrow> (\<forall>n. \<exists>m \<ge> n. useful (src m))"

text \<open>The loop does not care how it got here: \<open>returns i\<close> says that it ends from every state.\<close>

definition rand_returns :: "(nat \<Rightarrow> nat) \<Rightarrow> nat \<Rightarrow> bool" where
  "rand_returns src i \<longleftrightarrow> (\<forall>cache remain k b. rand_loop src i cache remain k b \<noteq> None)"

lemma rand_loop_step:
  assumes "i \<noteq> 0" "remain \<noteq> 0"
  shows "rand_loop src i cache remain k b =
     (if cache mod 64 < 52
      then rand_loop src (i - 1) (cache div 64) (remain - 1) k (b[i - 1 := letterBytes ! (cache mod 64)])
      else rand_loop src i (cache div 64) (remain - 1) k b)"
  using assms by (subst rand_loop.simps) (simp add: letter_constants Let_def)

lemma rand_loop_draw:
  assumes "i \<noteq> 0"
  shows "rand_loop src i cache 0 k b = rand_loop src i (src k) letterIdxMax (k + 1) b"
  using assms
  by (subst rand_loop.simps) (simp add: rand_loop_step letter_constants)

text \<open>Within one number: either a letter is found or the number is used up.\<close>

lemma rand_loop_within:
  assumes "rand_returns src i" and "rand_loop src (Suc i) cache remain k b = None"
  shows "(\<forall>g < remain. 52 \<le> cache div 64 ^ g mod 64) \<and> (\<exists>c. rand_loop src (Suc i) c 0 k b = None)"
  using assms(2)
proof (induction remain arbitrary: cache)
  case (Suc r)
  show ?case
  proof (cases "cache mod 64 < 52")
    case True
    with Suc.prems assms(1) show ?thesis
      by (simp add: rand_loop_step rand_returns_def del: not_None_eq)
  next
    case False
    with Suc.prems have "rand_loop src (Suc i) (cache div 64) r k b = None"
      by (simp add: rand_loop_step)
    from Suc.IH [OF this] have g: "\<forall>g < r. 52 \<le> cache div 64 div 64 ^ g mod 64"
      and c: "\<exists>c. rand_loop src (Suc i) c 0 k b = None" by auto
    have "52 \<le> cache div 64 ^ g mod 64" if "g < Suc r" for g
      using that False g by (cases g) (auto simp: div_mult2_eq)
    with c show ?thesis by blast
  qed
qed auto

lemma rand_loop_used_up:
  assumes "rand_returns src i" and "rand_loop src (Suc i) cache 0 k b = None" and "k \<le> m"
  shows "\<not> useful (src m)"
proof -
  have "\<exists>c. rand_loop src (Suc i) c 0 m b = None"
    using \<open>k \<le> m\<close>
  proof (induction m rule: dec_induct)
    case (step n)
    then obtain c where "rand_loop src (Suc i) c 0 n b = None" by blast
    then have "rand_loop src (Suc i) (src n) letterIdxMax (Suc n) b = None"
      by (simp add: rand_loop_draw)
    from rand_loop_within [OF assms(1) this] show ?case by blast
  qed (use assms(2) in blast)
  then obtain c where "rand_loop src (Suc i) (src m) letterIdxMax (Suc m) b = None"
    by (auto simp: rand_loop_draw)
  from rand_loop_within [OF assms(1) this] show ?thesis
    by (fastforce simp: useful_def letter_constants)
qed

lemma rand_returns_all:
  assumes "fair src"
  shows "rand_returns src i"
proof (induction i)
  case 0
  show ?case by (simp add: rand_returns_def rand_loop.simps)
next
  case (Suc i)
  have "rand_loop src (Suc i) cache remain k b \<noteq> None" for cache remain k b
  proof
    assume "rand_loop src (Suc i) cache remain k b = None"
    from rand_loop_within [OF Suc this] obtain c where "rand_loop src (Suc i) c 0 k b = None" by blast
    from rand_loop_used_up [OF Suc this] assms show False by (auto simp: fair_def)
  qed
  then show ?case by (simp add: rand_returns_def)
qed

lemma Generate_result:
  assumes "fair src" "0 \<le> Size"
  shows "\<exists>b k'. Generate src Size k = Some (Ok b, k') \<and> length b = nat Size \<and> set b \<subseteq> set letterBytes"
proof -
  let ?b = "replicate (nat Size) (CHR 0x00)"
  from rand_returns_all [OF assms(1), of "nat Size"] obtain b k'
    where r: "rand_loop src (nat Size) (src k) letterIdxMax (k + 1) ?b = Some (b, k')"
    unfolding rand_returns_def by (metis option.exhaust surj_pair)
  have "letters_from (nat Size) ?b" by (auto simp: letters_from_def)
  from rand_loop_letters [OF r this] have "length b = nat Size" "letters_from 0 b" by simp_all
  then have "set b \<subseteq> set letterBytes" by (auto simp: letters_from_def in_set_conv_nth)
  with r assms(2) \<open>length b = nat Size\<close> show ?thesis by (auto simp: Generate_def)
qed

end
