(* ===== verification/Workloads.thy ===== *)
theory Workloads
  imports BaseTypes K8sObjects Certificates RandString
begin

text \<open>
  What the controllers of the services have in common.  The code of the Zookeeper and of the
  Cassandra controller repeats these blocks word for word: the anti-affinity of the pods, the
  volume claims, the storage class, the local volumes and the owner of the claims; the handler that
  asks for a reconciliation of every resource of a type in a namespace is in all controllers.

  \<open>svc_clients\<close> has the client of each type of object that a controller touches.  A
  reconciliation returns whether it asks to be queued again.
\<close>

section \<open>Objects and clients\<close>

record storage_class =
  scl_meta :: object_meta
  scl_Provisioner :: string
  scl_VolumeBindingMode :: string

record pod_disruption_budget =
  pdb_meta :: object_meta
  pdb_MaxUnavailable :: "int option"
  pdb_Selector :: string_map

record 's svc_clients =
  sv_configmap :: "(config_map, 's) kind_client"
  sv_secret :: "(k_secret, 's) kind_client"
  sv_sts :: "(stateful_set, 's) kind_client"
  sv_pod :: "(pod, 's) kind_client"
  sv_node :: "(k8s_node, 's) kind_client"
  sv_service :: "(k8s_service, 's) kind_client"
  sv_pv :: "(quantity persistent_volume, 's) kind_client"
  sv_pvc :: "(pvc, 's) kind_client"
  sv_storageclass :: "(storage_class, 's) kind_client"
  sv_pdb :: "(pod_disruption_budget, 's) kind_client"
  sv_serviceaccount :: "(object_meta, 's) kind_client"
  sv_clusterrole :: "(cluster_role, 's) kind_client"
  sv_clusterrolebinding :: "(cluster_role_binding, 's) kind_client"

text \<open>A text that is given line by line.\<close>

definition text_lines :: "string list \<Rightarrow> string" where
  "text_lines ls = concat (map (\<lambda>l. l @ [CHR 0x0A]) ls)"

text \<open>\<open>sort.SliceStable\<close> by the name of the pods.\<close>

definition sort_by_name :: "pod list \<Rightarrow> pod list" where
  "sort_by_name pods = sort_key (\<lambda>p. om_Name (pod_meta p)) pods"

section \<open>Requests for all resources of a namespace\<close>

text \<open>
  \<open>list_apps\<close> is the answer of \<open>List\<close> for a namespace.  Metadata that is \<open>nil\<close> is dereferenced.
\<close>

definition enqueue_namespace ::
  "'q queue_add \<Rightarrow> (string \<Rightarrow> go_error + object_meta list) \<Rightarrow> object_meta option
    \<Rightarrow> ('q, go_error, unit) go" where
  "enqueue_namespace add list_apps meta =
     bindM (deref_ptr meta) (\<lambda>m.
       case list_apps (om_Namespace m) of
         Inl _ \<Rightarrow> ret ()
       | Inr apps \<Rightarrow> forM apps (\<lambda>app. call_Add add (om_Namespace m, om_Name app)))"

definition resourceHandler ::
  "'q queue_add \<Rightarrow> (string \<Rightarrow> go_error + object_meta list) \<Rightarrow> 'q handler_methods" where
  "resourceHandler add list_apps =
     \<lparr>eh_Create = enqueue_namespace add list_apps,
      eh_Update = (\<lambda>_ metaNew. enqueue_namespace add list_apps metaNew),
      eh_Delete = enqueue_namespace add list_apps,
      eh_Generic = enqueue_namespace add list_apps\<rparr>"

section \<open>Pods on different hosts\<close>

definition anti_affinity :: "string \<Rightarrow> string \<Rightarrow> affinity_term list" where
  "anti_affinity instanceType name =
     [\<lparr>at_Key = instanceType, at_Operator = ''In'', at_Values = [name],
       at_TopologyKey = ''kubernetes.io/hostname''\<rparr>]"

definition update_spec :: "(pod_spec \<Rightarrow> pod_spec) \<Rightarrow> stateful_set \<Rightarrow> stateful_set" where
  "update_spec f sts = sts\<lparr>sts_Template := (sts_Template sts)\<lparr>pt_Spec := f (pt_Spec (sts_Template sts))\<rparr>\<rparr>"

definition add_volume :: "volume \<Rightarrow> pod_spec \<Rightarrow> pod_spec" where
  "add_volume v sp = sp\<lparr>pspec_Volumes := pspec_Volumes sp @ [v]\<rparr>"

text \<open>Assignments to fields of a container of the stateful set, by its index.\<close>

definition add_mount :: "string \<Rightarrow> string \<Rightarrow> pod_container \<Rightarrow> pod_container" where
  "add_mount name path c =
     c\<lparr>pco_VolumeMounts := pco_VolumeMounts c @ [new_mount name path]\<rparr>"

definition command_or_default :: "string list \<Rightarrow> container \<Rightarrow> pod_container \<Rightarrow> pod_container" where
  "command_or_default command instanceContainer c =
     c\<lparr>pco_Command := (case co_Command instanceContainer of None \<Rightarrow> command | Some own \<Rightarrow> own)\<rparr>"

text \<open>The commands and images of the init containers, from the configuration of the service.\<close>

definition configure_init ::
  "container list \<Rightarrow> pod_container \<Rightarrow> ('s, go_error, pod_container) go" where
  "configure_init containers c =
     bindM (deref_ptr (GetContainerFromList (pco_Name c) containers)) (\<lambda>instanceContainer.
       let c = c\<lparr>pco_Image := co_Image instanceContainer\<rparr>
       in ret (case co_Command instanceContainer of None \<Rightarrow> c | Some own \<Rightarrow> c\<lparr>pco_Command := own\<rparr>))"

section \<open>Local storage\<close>

definition claim_template :: "string \<Rightarrow> namespaced_name \<Rightarrow> quantity \<Rightarrow> pvc" where
  "claim_template instanceType request diskSize =
     \<lparr>pvc_meta = new_meta\<lparr>om_Name := ''pvc'', om_Namespace := fst request,
        om_Labels := Some (label_New instanceType (snd request))\<rparr>,
      pvc_AccessModes = [''ReadWriteOnce''], pvc_Selector = label_New instanceType (snd request),
      pvc_StorageClassName = ''local-storage'', pvc_Requests = [(''storage'', diskSize)]\<rparr>"

definition local_storage_class :: storage_class where
  "local_storage_class =
     \<lparr>scl_meta = new_meta\<lparr>om_Name := ''local-storage''\<rparr>, scl_Provisioner = ''kubernetes.io/no-provisioner'',
      scl_VolumeBindingMode = ''WaitForFirstConsumer''\<rparr>"

text \<open>
  An error that the first test lets pass is still in \<open>err\<close> when it is tested again after the
  node selector has been built, and is returned there.
\<close>

definition ensure_storage_class ::
  "k8s_lib \<Rightarrow> (storage_class, 's) kind_client \<Rightarrow> ('s, go_error, unit) go" where
  "ensure_storage_class lib kc =
     bindM (tryM (kc_Get kc ([], ''local-storage''))) (\<lambda>r.
     bindM (case r of
              Inr _ \<Rightarrow> ret None
            | Inl err \<Rightarrow>
                if IsNotFound lib err
                then bindM (tryM (kc_Create kc local_storage_class)) (\<lambda>r.
                       case r of
                         Inr _ \<Rightarrow> ret None
                       | Inl err \<Rightarrow> if \<not> IsAlreadyExists lib err then throw err else ret (Some err))
                else ret (Some err)) (\<lambda>err.
       case err of Some err \<Rightarrow> throw err | None \<Rightarrow> ret ()))"

definition service_pv ::
  "range_ord \<Rightarrow> string \<Rightarrow> string \<Rightarrow> string_map \<Rightarrow> quantity \<Rightarrow> string \<Rightarrow> string \<Rightarrow> int
    \<Rightarrow> quantity persistent_volume" where
  "service_pv ord instanceType requestName nodeSelector diskSize path name i =
     \<lparr>pv_meta = new_meta\<lparr>om_Name := name @ ''-pv-'' @ Itoa i,
        om_Labels := Some (label_New instanceType requestName)\<rparr>,
      pv_Capacity = [(''storage'', diskSize)], pv_VolumeMode = ''Filesystem'',
      pv_AccessModes = [''ReadWriteOnce''], pv_ReclaimPolicy = ''Delete'',
      pv_StorageClassName = ''local-storage'',
      pv_NodeAffinity = map (\<lambda>(k, v). (k, ''In'', [v])) (range_of ord (map_entries nodeSelector)),
      pv_LocalPath = path\<rparr>"

text \<open>One round of the loop: the volume is created when the client does not find it.\<close>

definition ensure_pv ::
  "k8s_lib \<Rightarrow> (quantity persistent_volume, 's) kind_client \<Rightarrow> string \<Rightarrow> quantity persistent_volume
    \<Rightarrow> ('s, go_error, unit) go" where
  "ensure_pv lib kc namespace pv =
     bindM (tryM (kc_Get kc (namespace, om_Name (pv_meta pv)))) (\<lambda>r.
       case r of
         Inr _ \<Rightarrow> ret ()
       | Inl err \<Rightarrow>
           if IsNotFound lib err
           then bindM (tryM (kc_Create kc pv)) (\<lambda>r.
                  case r of
                    Inr _ \<Rightarrow> ret ()
                  | Inl err \<Rightarrow> if \<not> IsAlreadyExists lib err then throw err else ret ())
           else ret ())"

definition ensure_pvs ::
  "k8s_lib \<Rightarrow> (quantity persistent_volume, 's) kind_client \<Rightarrow> range_ord \<Rightarrow> string \<Rightarrow> namespaced_name
    \<Rightarrow> pod_configuration \<Rightarrow> quantity \<Rightarrow> string \<Rightarrow> string \<Rightarrow> ('s, go_error, unit) go" where
  "ensure_pvs lib kc ord instanceType request common diskSize path name =
     bindM (deref_ptr (pc_Replicas common)) (\<lambda>replicasInt.
       forM (map int [0..<nat replicasInt]) (\<lambda>i.
         ensure_pv lib kc (fst request)
           (service_pv ord instanceType (snd request) (pc_NodeSelector common) diskSize path name i)))"

definition own_claims ::
  "k8s_lib \<Rightarrow> (pvc, 's) kind_client \<Rightarrow> string \<Rightarrow> namespaced_name \<Rightarrow> object_meta
    \<Rightarrow> ('s, go_error, unit) go" where
  "own_claims lib kc instanceType request owner =
     bindM (kc_List kc (fst request) (label_New instanceType (snd request))) (\<lambda>claims.
       forM claims (\<lambda>c.
         bindM (sum_result (SetControllerReference lib owner (pvc_meta c))) (\<lambda>m.
         bindM (kc_Update kc (c\<lparr>pvc_meta := m\<rparr>)) (\<lambda>_. ret ()))))"

section \<open>The status of the resource\<close>

text \<open>The resource as the first \<open>Get\<close> leaves it: an error other than \<open>NotFound\<close> is dropped.\<close>

definition get_instance ::
  "k8s_lib \<Rightarrow> ('o, 's) kind_client \<Rightarrow> 'o \<Rightarrow> namespaced_name \<Rightarrow> ('s, go_error, 'o option) go" where
  "get_instance lib kc zero request =
     bindM (tryM (kc_Get kc request)) (\<lambda>r.
       case r of
         Inr x \<Rightarrow> ret (Some x)
       | Inl err \<Rightarrow> if IsNotFound lib err then ret None else ret (Some zero))"

definition set_cr_active :: "bool \<Rightarrow> 'c cr \<Rightarrow> 'c cr" where
  "set_cr_active b c = c\<lparr>cr_status := (cr_status c)\<lparr>st_Active := Some b\<rparr>\<rparr>"

definition set_cr_nodes ::
  "(string, string) gomap \<Rightarrow> (string, string) gomap \<Rightarrow> 'c cr \<Rightarrow> 'c cr" where
  "set_cr_nodes podNameIPMap ports c =
     c\<lparr>cr_status := (cr_status c)\<lparr>st_Nodes := Some podNameIPMap, st_Ports := ports\<rparr>\<rparr>"

text \<open>\<open>IsUpgrading\<close> of a resource, by the name of its type.\<close>

definition IsUpgrading ::
  "('o, 's) kind_client \<Rightarrow> (stateful_set, 's) kind_client \<Rightarrow> string \<Rightarrow> string \<Rightarrow> string
    \<Rightarrow> ('s, go_error, bool) go" where
  "IsUpgrading kc stss instanceType name namespace =
     bindM (tryM (kc_Get kc (namespace, name))) (\<lambda>r.
       case r of
         Inl _ \<Rightarrow> ret False
       | Inr _ \<Rightarrow>
           bindM (tryM (kc_Get stss (namespace, name @ ''-'' @ instanceType @ ''-statefulset''))) (\<lambda>r.
             case r of
               Inl _ \<Rightarrow> ret False
             | Inr sts \<Rightarrow> ret (sts_CurrentRevision sts \<noteq> sts_UpdateRevision sts)))"

section \<open>Facts on the shared steps\<close>

lemma enqueue_namespace_run:
  "list_apps (om_Namespace m) = Inr apps \<Longrightarrow>
   enqueue_namespace add list_apps (Some m) q =
     (Ok (), fold add (map (\<lambda>app. (om_Namespace m, om_Name app)) apps) q)"
  unfolding enqueue_namespace_def by simp (rule forM_call_Add)

text \<open>
  The storage class: on success the class is there, and a class that another controller created
  between the two calls makes the reconciliation fail although the code means to tolerate it.
\<close>

lemma ensure_storage_class_raced:
  assumes "kc_Get kc ([], ''local-storage'') s = (Err nf, s1)" "IsNotFound lib nf"
    and "kc_Create kc local_storage_class s1 = (Err e, s2)"
  shows "ensure_storage_class lib kc s = (Err e, s2)"
  using assms by (simp add: ensure_storage_class_def bindM_def tryM_def)

lemma service_pv_key: "key_of (pv_meta (service_pv ord ty rn sel q path name i)) = ([], name @ ''-pv-'' @ Itoa i)"
  by (simp add: service_pv_def key_of_def new_meta_def)

end
