(* ===== verification/Zookeeper.thy ===== *)
theory Zookeeper
  imports Workloads
begin

text \<open>
  \<open>pkg/controller/zookeeper\<close>, the methods of \<open>zookeeper_types.go\<close> and
  \<open>pkg/configuration/zookeeper_config.go\<close>: one reconciliation of a Zookeeper resource.  The stateful
  set that the controller starts from is the YAML text of \<open>sts.go\<close>, written as a record with the
  fields of the model.  \<open>resource.ParseQuantity\<close> is a parameter.
\<close>

section \<open>The stateful set\<close>

definition zk_init_container :: pod_container where
  "zk_init_container =
     new_pod_container\<lparr>pco_Name := ''init'',
      pco_Image := ''busybox'',
      pco_Command := [''sh'', ''-c'', ''until grep ready /tmp/podinfo/pod_labels > /dev/null 2>&1; do sleep 1; done''],
      pco_VolumeMounts := [new_mount ''status'' ''/tmp/podinfo''],
      pco_ImagePullPolicy := ''IfNotPresent'',
      pco_SecurityContext := Some (new_security_context\<lparr>sx_Privileged := Some False,
          sx_ProcMount := ''Default''\<rparr>),
      pco_TerminationMessagePath := ''/dev/termination-log'',
      pco_TerminationMessagePolicy := ''File''\<rparr>"

definition zk_conf_init_container :: pod_container where
  "zk_conf_init_container =
     new_pod_container\<lparr>pco_Name := ''conf-init'',
      pco_Image := ''busybox'',
      pco_Command := [''sh'', ''-c'', ''cp /zookeeper-conf/* /mnt/zookeeper/ && cp /mnt/zookeeper/zoo.cfg.$POD_IP /mnt/zookeeper/zoo.cfg && sleep 120''],
      pco_Env := [(''POD_IP'', EnvFieldRef ''status.podIP'')],
      pco_ImagePullPolicy := ''IfNotPresent'',
      pco_SecurityContext := Some (new_security_context\<lparr>sx_Privileged := Some False,
          sx_ProcMount := ''Default''\<rparr>),
      pco_TerminationMessagePath := ''/dev/termination-log'',
      pco_TerminationMessagePolicy := ''File''\<rparr>"

definition zk_container :: pod_container where
  "zk_container =
     new_pod_container\<lparr>pco_Name := ''zookeeper'',
      pco_Image := ''docker.io/michaelhenkel/contrail-external-zookeeper:5.2.0-dev1'',
      pco_Env := [(''POD_IP'', EnvFieldRef ''status.podIP''),
                  (''POD_NAME'', EnvFieldRef ''metadata.name'')],
      pco_VolumeMounts := [new_mount ''conf'' ''/tmp/conf'',
                           new_mount ''zookeeper-data'' ''/var/lib/zookeeper'',
                           new_mount ''zookeeper-logs'' ''/var/log/zookeeper''],
      pco_ImagePullPolicy := ''IfNotPresent'',
      pco_ReadinessProbe := Some ((new_probe (ExecAction [''/bin/bash'', ''-c'', ''OK=$(echo ruok | nc ${POD_IP} 2181); if [[ ${OK} == '' @ [CHR 0x22] @ ''imok'' @ [CHR 0x22] @ '' ]]; then exit 0; else exit 1;fi'']))\<lparr>pb_InitialDelaySeconds := 15,
          pb_TimeoutSeconds := 5\<rparr>),
      pco_LivenessProbe := Some ((new_probe (ExecAction [''/bin/bash'', ''-c'', ''OK=$(echo ruok | nc ${POD_IP} 2181); if [[ ${OK} == '' @ [CHR 0x22] @ ''imok'' @ [CHR 0x22] @ '' ]]; then exit 0; else exit 1;fi'']))\<lparr>pb_InitialDelaySeconds := 30,
          pb_TimeoutSeconds := 5,
          pb_FailureThreshold := 3\<rparr>),
      pco_Requests := [(''memory'', ''1Gi'')]\<rparr>"

definition exists_toleration :: "string \<Rightarrow> toleration" where
  "exists_toleration effect =
     \<lparr>tol_Key = [], tol_Operator = ''Exists'', tol_Value = [], tol_Effect = effect\<rparr>"

definition zookeeper_GetSTS :: stateful_set where
  "zookeeper_GetSTS =
     \<lparr>sts_meta = new_meta\<lparr>om_Name := ''zookeeper''\<rparr>, sts_Replicas = Some 1,
      sts_PodManagementPolicy = [], sts_Selector = Some (Some [(''app'', ''zookeeper'')]),
      sts_Template =
        \<lparr>pt_Annotations = None, pt_Labels = Some [(''app'', ''zookeeper''), (''zookeeper_cr'', ''zookeeper''), (''contrail_manager'', ''zookeeper'')],
         pt_Spec = new_pod_spec\<lparr>pspec_NodeSelector := Some [(''node-role.kubernetes.io/master'', [])],
                    pspec_Tolerations := [exists_toleration ''NoSchedule'', exists_toleration ''NoExecute''],
                    pspec_HostNetwork := True,
                    pspec_InitContainers := [zk_init_container,
                                              zk_conf_init_container],
                    pspec_Containers := [zk_container],
                    pspec_Volumes := [\<lparr>vol_Name = ''zookeeper-data'', vol_Source = HostPathVolume ''/var/lib/contrail/zookeeper'' []\<rparr>,
                                       \<lparr>vol_Name = ''zookeeper-logs'', vol_Source = HostPathVolume ''/var/log/contrail/zookeeper'' []\<rparr>,
                                       \<lparr>vol_Name = ''status'', vol_Source = DownwardAPIVolume [(''pod_labels'', ''metadata.labels'')] (Some 420)\<rparr>,
                                       \<lparr>vol_Name = ''conf'', vol_Source = DownwardAPIVolume [(''zoo.cfg'', ''metadata.labels'')] (Some 420)\<rparr>]\<rparr>\<rparr>,
      sts_ServiceName = ''zookeeper'', sts_VolumeClaimTemplates = [], sts_ReadyReplicas = 0,
      sts_CurrentRevision = [], sts_UpdateRevision = []\<rparr>"

definition configurationInitCommand :: string where
  "configurationInitCommand = text_lines
       [''#!/bin/sh'',
        ''if ! [[ -f /mnt/zookeeper/zoo.cfg && -f /mnt/zookeeper/zoo.cfg.dynamic ]]; then'',
        [CHR 0x09] @ ''cp /zookeeper-conf/log4j.properties /mnt/zookeeper/'',
        [CHR 0x09] @ ''cp /zookeeper-conf/configuration.xsl /mnt/zookeeper/'',
        [CHR 0x09] @ ''cp /zookeeper-conf/zoo.cfg /mnt/zookeeper/'',
        [CHR 0x09] @ ''cp /zookeeper-conf/zoo.cfg.dynamic.$POD_IP /mnt/zookeeper/zoo.cfg.dynamic'',
        [CHR 0x09] @ ''cp /zookeeper-conf/myid.$POD_IP /mnt/zookeeper/myid'',
        ''fi'']"

section \<open>Configuration files\<close>

text \<open>The template \<open>ZookeeperStaticConfig\<close> with its two fields.\<close>

definition ZookeeperStaticConfig :: "string \<Rightarrow> string \<Rightarrow> string" where
  "ZookeeperStaticConfig AdminEnableServer AdminServerPort =
     text_lines
       [''dataDir=/var/lib/zookeeper'',
        ''tickTime=2000'',
        ''initLimit=5'',
        ''syncLimit=2'',
        ''maxClientCnxns=60'',
        ''maxSessionTimeout=120000'',
        ''admin.enableServer='' @ AdminEnableServer,
        ''admin.serverPort='' @ AdminServerPort,
        ''standaloneEnabled=false'',
        ''4lw.commands.whitelist=stat,ruok,conf,isro'',
        ''reconfigEnabled=true'',
        ''skipACL=yes'',
        ''dynamicConfigFile=/var/lib/zookeeper/zoo.cfg.dynamic'']"

definition ZookeeperLogConfig :: string where
  "ZookeeperLogConfig =
     text_lines
       [''zookeeper.root.logger=INFO, CONSOLE'',
        ''zookeeper.console.threshold=INFO'',
        ''zookeeper.log.dir=.'',
        ''zookeeper.log.file=zookeeper.log'',
        ''zookeeper.log.threshold=INFO'',
        ''zookeeper.log.maxfilesize=256MB'',
        ''zookeeper.log.maxbackupindex=20'',
        ''zookeeper.tracelog.dir=${zookeeper.log.dir}'',
        ''zookeeper.tracelog.file=zookeeper_trace.log'',
        ''log4j.rootLogger=${zookeeper.root.logger}'',
        ''log4j.appender.CONSOLE=org.apache.log4j.ConsoleAppender'',
        ''log4j.appender.CONSOLE.Threshold=${zookeeper.console.threshold}'',
        ''log4j.appender.CONSOLE.layout=org.apache.log4j.PatternLayout'',
        ''log4j.appender.CONSOLE.layout.ConversionPattern=%d{ISO8601} [myid:%X{myid}] - %-5p [%t:%C{1}@%L] - %m%n'',
        ''log4j.appender.ROLLINGFILE=org.apache.log4j.RollingFileAppender'',
        ''log4j.appender.ROLLINGFILE.Threshold=${zookeeper.log.threshold}'',
        ''log4j.appender.ROLLINGFILE.File=${zookeeper.log.dir}/${zookeeper.log.file}'',
        ''log4j.appender.ROLLINGFILE.MaxFileSize=${zookeeper.log.maxfilesize}'',
        ''log4j.appender.ROLLINGFILE.MaxBackupIndex=${zookeeper.log.maxbackupindex}'',
        ''log4j.appender.ROLLINGFILE.layout=org.apache.log4j.PatternLayout'',
        ''log4j.appender.ROLLINGFILE.layout.ConversionPattern=%d{ISO8601} [myid:%X{myid}] - %-5p [%t:%C{1}@%L] - %m%n'',
        ''log4j.appender.TRACEFILE=org.apache.log4j.FileAppender'',
        ''log4j.appender.TRACEFILE.Threshold=TRACE'',
        ''log4j.appender.TRACEFILE.File=${zookeeper.tracelog.dir}/${zookeeper.tracelog.file}'',
        ''log4j.appender.TRACEFILE.layout=org.apache.log4j.PatternLayout'',
        ''log4j.appender.TRACEFILE.layout.ConversionPattern=%d{ISO8601} [myid:%X{myid}] - %-5p [%t:%C{1}@%L][%x] - %m%n'']"

definition ZookeeperXslConfig :: string where
  "ZookeeperXslConfig =
     text_lines
       [''<?xml version='' @ [CHR 0x22] @ ''1.0'' @ [CHR 0x22] @ ''?>'',
        ''<xsl:stylesheet xmlns:xsl='' @ [CHR 0x22] @ ''http://www.w3.org/1999/XSL/Transform'' @ [CHR 0x22] @ '' version='' @ [CHR 0x22] @ ''1.0'' @ [CHR 0x22] @ ''>'',
        ''<xsl:output method='' @ [CHR 0x22] @ ''html'' @ [CHR 0x22] @ ''/>'',
        ''<xsl:template match='' @ [CHR 0x22] @ ''configuration'' @ [CHR 0x22] @ ''>'',
        ''<html>'',
        ''<body>'',
        ''<table border='' @ [CHR 0x22] @ ''1'' @ [CHR 0x22] @ ''>'',
        ''<tr>'',
        ''<td>name</td>'',
        ''<td>value</td>'',
        ''<td>description</td>'',
        ''</tr>'',
        ''<xsl:for-each select='' @ [CHR 0x22] @ ''property'' @ [CHR 0x22] @ ''>'',
        ''<tr>'',
        ''<td><a name='' @ [CHR 0x22] @ ''{name}'' @ [CHR 0x22] @ ''><xsl:value-of select='' @ [CHR 0x22] @ ''name'' @ [CHR 0x22] @ ''/></a></td>'',
        ''<td><xsl:value-of select='' @ [CHR 0x22] @ ''value'' @ [CHR 0x22] @ ''/></td>'',
        ''<td><xsl:value-of select='' @ [CHR 0x22] @ ''description'' @ [CHR 0x22] @ ''/></td>'',
        ''</tr>'',
        ''</xsl:for-each>'',
        ''</table>'',
        ''</body>'',
        ''</html>'',
        ''</xsl:template>'',
        ''</xsl:stylesheet>'']"

text \<open>\<open>name[len(name)-1:]\<close>: the last character; an empty name is a panic.\<close>

definition last_char :: "string \<Rightarrow> ('s, go_error, string) go" where
  "last_char name =
     (if name = [] then panic ''slice bounds out of range [-1:]'' else ret [last name])"

definition Atoi_or_throw :: "string \<Rightarrow> ('s, go_error, int) go" where
  "Atoi_or_throw s =
     (case Atoi s of
        Some i \<Rightarrow> ret i
      | None \<Rightarrow> throw (errors_New (''strconv.Atoi: parsing '' @ [CHR 0x22] @ s @ [CHR 0x22] @ '': invalid syntax'')))"

definition server_def :: "int \<Rightarrow> string \<Rightarrow> string \<Rightarrow> string \<Rightarrow> string \<Rightarrow> string" where
  "server_def ident ip electionPort serverPort clientPort =
     ''server.'' @ Itoa ident @ ''='' @ ip @ '':'' @ electionPort @ '':'' @ serverPort @ '':participant;''
       @ ip @ '':'' @ clientPort @ [CHR 0x0A]"

fun dynamic_loop ::
  "string \<Rightarrow> string \<Rightarrow> string \<Rightarrow> pod list \<Rightarrow> string \<Rightarrow> (string, string) gomap
    \<Rightarrow> ('s, go_error, (string, string) gomap) go" where
  "dynamic_loop electionPort serverPort clientPort [] firstServerDef dynamicConf = ret dynamicConf"
| "dynamic_loop electionPort serverPort clientPort (p # pods) firstServerDef dynamicConf =
     bindM (last_char (om_Name (pod_meta p))) (\<lambda>myidString.
     bindM (Atoi_or_throw myidString) (\<lambda>myidInt.
       let serverDef = firstServerDef
             @ server_def (int64_of (myidInt + 1)) (pod_PodIP p) electionPort serverPort clientPort
       in dynamic_loop electionPort serverPort clientPort pods
            (if myidInt = 0 then serverDef else firstServerDef)
            (AList.update (''zoo.cfg.dynamic.'' @ pod_PodIP p) serverDef
              (AList.update (''myid.'' @ pod_PodIP p) (Itoa (int64_of (myidInt + 1))) dynamicConf))))"

definition DynamicZookeeperConfig ::
  "pod list \<Rightarrow> string \<Rightarrow> string \<Rightarrow> string \<Rightarrow> ('s, go_error, (string, string) gomap) go" where
  "DynamicZookeeperConfig pods electionPort serverPort clientPort =
     dynamic_loop electionPort serverPort clientPort pods [] []"

section \<open>Methods of the resource\<close>

type_synonym zookeeper = "zookeeper_configuration cr"

text \<open>The configuration that \<open>ConfigurationParameters\<close> returns has no \<open>nil\<close> pointers.\<close>

definition port_text :: "int option \<Rightarrow> ('s, go_error, string) go" where
  "port_text p = bindM (deref_ptr p) (\<lambda>p. ret (Itoa p))"

definition FormatBool :: "bool \<Rightarrow> string" where
  "FormatBool b = (if b then ''true'' else ''false'')"

definition Zookeeper_InstanceConfiguration ::
  "(config_map, 's) kind_client \<Rightarrow> zookeeper \<Rightarrow> namespaced_name \<Rightarrow> string \<Rightarrow> pod list
    \<Rightarrow> ('s, go_error, unit) go" where
  "Zookeeper_InstanceConfiguration kc c request confCMName podList =
     (let zookeeperConfig = Zookeeper_ConfigurationParameters c;
          pods = sort_by_name podList
      in bindM (port_text (zk_ElectionPort zookeeperConfig)) (\<lambda>electionPort.
         bindM (port_text (zk_ServerPort zookeeperConfig)) (\<lambda>serverPort.
         bindM (port_text (zk_ClientPort zookeeperConfig)) (\<lambda>clientPort.
         bindM (DynamicZookeeperConfig pods electionPort serverPort clientPort) (\<lambda>confCMData.
         bindM (deref_ptr (zk_AdminEnableServer zookeeperConfig)) (\<lambda>adminEnableServer.
         bindM (port_text (zk_AdminPort zookeeperConfig)) (\<lambda>adminPort.
           let confCMData = AList.update ''log4j.properties'' ZookeeperLogConfig confCMData;
               confCMData = AList.update ''configuration.xsl'' ZookeeperXslConfig confCMData;
               confCMData = AList.update ''zoo.cfg''
                 (ZookeeperStaticConfig (FormatBool adminEnableServer) adminPort) confCMData
           in bindM (kc_CreateOrUpdate kc
                       \<lparr>cm_meta = new_meta\<lparr>om_Name := confCMName, om_Namespace := fst request\<rparr>, cm_Data = None\<rparr>
                       (\<lambda>cm. ret (cm\<lparr>cm_Data := Some confCMData\<rparr>))) (\<lambda>_. ret ()))))))))"

definition Zookeeper_IsUpgrading ::
  "(zookeeper, 's) kind_client \<Rightarrow> (stateful_set, 's) kind_client \<Rightarrow> string \<Rightarrow> string
    \<Rightarrow> ('s, go_error, bool) go" where
  "Zookeeper_IsUpgrading kc stss name namespace = IsUpgrading kc stss ''zookeeper'' name namespace"

definition Zookeeper_ManageNodeStatus ::
  "(zookeeper, 's) kind_client \<Rightarrow> zookeeper \<Rightarrow> (string, string) gomap \<Rightarrow> ('s, go_error, zookeeper) go" where
  "Zookeeper_ManageNodeStatus kc c podNameIPMap =
     bindM (port_text (zk_ClientPort (Zookeeper_ConfigurationParameters c))) (\<lambda>clientPort.
       let c = set_cr_nodes podNameIPMap [(''clientPort'', clientPort)] c
       in bindM (kc_StatusUpdate kc c) (\<lambda>_. ret c))"

section \<open>The controller\<close>

definition zookeeper_resourceHandler ::
  "'q queue_add \<Rightarrow> (string \<Rightarrow> go_error + object_meta list) \<Rightarrow> 'q handler_methods" where
  "zookeeper_resourceHandler = resourceHandler"

text \<open>The loops over the containers and the init containers.\<close>

definition zookeeper_configure_container ::
  "container list \<Rightarrow> pod_container \<Rightarrow> ('s, go_error, pod_container) go" where
  "zookeeper_configure_container containers c =
     (if pco_Name c = ''zookeeper''
      then bindM (deref_ptr (GetContainerFromList (pco_Name c) containers)) (\<lambda>instanceContainer.
             let c = command_or_default
                       [''bash'', ''-c'', ''zkServer.sh --config /var/lib/zookeeper start-foreground''] instanceContainer c
             in ret (c\<lparr>pco_VolumeMounts := [new_mount ''pvc'' ''/var/lib/zookeeper''],
                       pco_Image := co_Image instanceContainer\<rparr>))
      else ret c)"

definition zookeeper_configure_init ::
  "string \<Rightarrow> string \<Rightarrow> string \<Rightarrow> container list \<Rightarrow> pod_container \<Rightarrow> ('s, go_error, pod_container) go" where
  "zookeeper_configure_init initVolumeName path configMapName containers c =
     bindM (configure_init containers c) (\<lambda>c.
       let c = (if pco_Name c = ''init'' then add_mount initVolumeName path c else c)
       in ret (if pco_Name c = ''conf-init''
               then (add_mount configMapName ''/zookeeper-conf'' (add_mount initVolumeName ''/mnt/zookeeper'' c))
                      \<lparr>pco_Command := [''sh'', ''-c'', configurationInitCommand]\<rparr>
               else c))"

definition ensurePodDisruptionBudgetExists ::
  "k8s_lib \<Rightarrow> (pod_disruption_budget, 's) kind_client \<Rightarrow> zookeeper \<Rightarrow> ('s, go_error, unit) go" where
  "ensurePodDisruptionBudgetExists lib kc zk =
     bindM (kc_CreateOrUpdate kc
              \<lparr>pdb_meta = new_meta\<lparr>om_Name := om_Name (cr_meta zk) @ ''-zookeeper'',
                 om_Namespace := om_Namespace (cr_meta zk)\<rparr>, pdb_MaxUnavailable = None, pdb_Selector = None\<rparr>
              (\<lambda>pdb.
                 let pdb = pdb\<lparr>pdb_meta := (pdb_meta pdb)
                             \<lparr>om_Labels := Some (label_New ''zookeeper'' (om_Name (cr_meta zk)))\<rparr>,
                           pdb_MaxUnavailable := Some 1,
                           pdb_Selector := Some (label_New ''zookeeper'' (om_Name (cr_meta zk)))\<rparr>
                 in bindM (sum_result (SetControllerReference lib (cr_meta zk) (pdb_meta pdb))) (\<lambda>m.
                      ret (pdb\<lparr>pdb_meta := m\<rparr>)))) (\<lambda>_. ret ())"

text \<open>The stateful set that the reconciliation intends, after \<open>PrepareSTS\<close>.\<close>

definition zookeeper_intended_sts ::
  "range_ord \<Rightarrow> namespaced_name \<Rightarrow> zookeeper \<Rightarrow> string \<Rightarrow> quantity \<Rightarrow> stateful_set
    \<Rightarrow> ('s, go_error, stateful_set) go" where
  "zookeeper_intended_sts ord request zk configMapName diskSize sts0 =
     (let conf = Zookeeper_ConfigurationParameters zk;
          containers = zk_Containers (cr_conf zk);
          initVolumeName = snd request @ ''-zookeeper-init'';
          path = sto_Path (zk_Storage conf);
          sts = AddVolumesToIntendedSTS ord sts0 [(configMapName, configMapName)];
          sts = sts\<lparr>sts_VolumeClaimTemplates := [claim_template ''zookeeper'' request diskSize]\<rparr>
      in bindM (mapM (zookeeper_configure_container containers) (pspec_Containers (pt_Spec (sts_Template sts)))) (\<lambda>cs.
         let sts = update_spec (\<lambda>sp. add_volume \<lparr>vol_Name = initVolumeName,
                       vol_Source = HostPathVolume path ''DirectoryOrCreate''\<rparr> (sp\<lparr>pspec_Containers := cs\<rparr>)) sts;
             sts = sts\<lparr>sts_PodManagementPolicy := ''OrderedReady''\<rparr>;
             sts = update_spec (\<lambda>sp. sp\<lparr>pspec_Affinity := anti_affinity ''zookeeper'' (snd request)\<rparr>) sts
         in bindM (mapM (zookeeper_configure_init initVolumeName path configMapName containers)
                     (pspec_InitContainers (pt_Spec (sts_Template sts)))) (\<lambda>ics.
              ret (update_spec (\<lambda>sp. sp\<lparr>pspec_InitContainers := ics\<rparr>) sts))))"

text \<open>A pod that is not ready loses its entry in the map of addresses.\<close>

definition drop_not_ready :: "pod list \<Rightarrow> (string, string) gomap \<Rightarrow> (string, string) gomap" where
  "drop_not_ready pods podIPMap =
     fold (\<lambda>p m. fold (\<lambda>(ty, status) m. if ty = ''Ready'' \<and> status = ''False''
                                        then AList.delete (om_Name (pod_meta p)) m else m)
                   (pod_Conditions p) m) pods podIPMap"

text \<open>The first pod whose address is not the one in the status.\<close>

definition new_member :: "string_map \<Rightarrow> pod list \<Rightarrow> pod option" where
  "new_member nodes pods =
     find (\<lambda>p. map_of (map_entries nodes) (om_Name (pod_meta p)) \<noteq> Some (pod_PodIP p)) pods"

text \<open>Adding it to the running ensemble; the client port in the command is fixed to 2181.\<close>

definition add_member ::
  "'s exec_lib \<Rightarrow> zookeeper_configuration \<Rightarrow> pod \<Rightarrow> ('s, go_error, unit) go" where
  "add_member ex conf found =
     bindM (last_char (om_Name (pod_meta found))) (\<lambda>myidString.
     bindM (Atoi_or_throw myidString) (\<lambda>myidInt.
     bindM (port_text (zk_ElectionPort conf)) (\<lambda>electionPort.
     bindM (port_text (zk_ServerPort conf)) (\<lambda>serverPort.
       let serverDef = ''server.'' @ Itoa (int64_of (myidInt + 1)) @ ''='' @ pod_PodIP found @ '':''
             @ electionPort @ '':'' @ serverPort @ '';'' @ pod_PodIP found @ '':2181'';
           runScript = ''zkCli.sh -server '' @ pod_PodIP found @ '' reconfig -add '' @ [CHR 0x22] @ serverDef @ [CHR 0x22]
       in bindM (exec_pod ex [''bash'', ''-c'', runScript, serverDef] ''zookeeper''
                   (om_Name (pod_meta found)) (om_Namespace (pod_meta found))) (\<lambda>_. ret ())))))"

text \<open>
  The block for a non-empty list of pods.  \<open>None\<close>: \<open>SetPodsToReady\<close> failed and the request is
  queued again; otherwise the resource with its new status.
\<close>

definition zookeeper_pods ::
  "k8s_lib \<Rightarrow> 's svc_clients \<Rightarrow> (zookeeper, 's) kind_client \<Rightarrow> 's exec_lib \<Rightarrow> namespaced_name \<Rightarrow> string
    \<Rightarrow> zookeeper \<Rightarrow> pod list \<Rightarrow> (string, string) gomap \<Rightarrow> ('s, go_error, zookeeper option) go" where
  "zookeeper_pods lib cls kc ex request configMapName zk podList podIPMap =
     bindM (Zookeeper_InstanceConfiguration (sv_configmap cls) zk request configMapName podList) (\<lambda>_.
     bindM (tryM (SetPodsToReady (sv_pod cls) podList)) (\<lambda>r.
       case r of
         Inl _ \<Rightarrow> ret None
       | Inr _ \<Rightarrow>
           let podIPMap = drop_not_ready podList podIPMap;
               pods = sort_by_name podList
           in bindM (case new_member (st_Nodes (cr_status zk)) pods of
                       Some found \<Rightarrow>
                         if 1 < length pods then add_member ex (Zookeeper_ConfigurationParameters zk) found
                         else ret ()
                     | None \<Rightarrow> ret ()) (\<lambda>_.
              bindM (Zookeeper_ManageNodeStatus kc zk podIPMap) (\<lambda>zk.
              bindM (own_claims lib (sv_pvc cls) ''zookeeper'' request (cr_meta zk)) (\<lambda>_.
                ret (Some zk))))))"

definition no_wants :: init_wants where
  "no_wants = \<lparr>getHostname = False, getInterface = False, getMac = False, getPrefix = False, getGateway = False\<rparr>"

definition zero_zookeeper :: zookeeper where
  "zero_zookeeper = \<lparr>cr_meta = new_meta, cr_common = new_common,
     cr_conf = \<lparr>zk_Containers = [], zk_ClientPort = None, zk_ElectionPort = None, zk_ServerPort = None,
       zk_AdminEnableServer = None, zk_AdminPort = None, zk_Storage = no_storage\<rparr>, cr_status = new_status\<rparr>"

definition active_or_false :: "'c cr \<Rightarrow> 'c cr" where
  "active_or_false c = (if st_Active (cr_status c) = None then set_cr_active False c else c)"

text \<open>The end of the reconciliation, from the pods on.\<close>

definition zookeeper_finish ::
  "k8s_lib \<Rightarrow> 's svc_clients \<Rightarrow> (zookeeper, 's) kind_client \<Rightarrow> namespaced_name \<Rightarrow> stateful_set \<Rightarrow> zookeeper
    \<Rightarrow> ('s, go_error, bool) go" where
  "zookeeper_finish lib cls kc request sts zk =
     bindM (ensurePodDisruptionBudgetExists lib (sv_pdb cls) zk) (\<lambda>_.
     bindM (SetInstanceActive (sv_sts cls) kc set_cr_active sts request (active_or_false zk)) (\<lambda>_.
       ret False))"

definition Zookeeper_Reconcile ::
  "k8s_lib \<Rightarrow> range_ord \<Rightarrow> (string \<Rightarrow> go_error + quantity) \<Rightarrow> 's exec_lib \<Rightarrow> 's svc_clients
    \<Rightarrow> (zookeeper, 's) kind_client \<Rightarrow> namespaced_name \<Rightarrow> ('s, go_error, bool) go" where
  "Zookeeper_Reconcile lib ord ParseQuantity ex cls kc request =
     bindM (get_instance lib kc zero_zookeeper request) (\<lambda>r.
       case r of
         None \<Rightarrow> ret False
       | Some zk \<Rightarrow>
           if om_Deleted (cr_meta zk) then ret False
           else
             let configMapName = om_Name (cr_meta zk) @ ''-zookeeper-conf'';
                 conf = Zookeeper_ConfigurationParameters zk
             in bindM (CreateConfigMap lib (sv_configmap cls) configMapName request ''zookeeper'' (cr_meta zk)) (\<lambda>_.
                bindM (PrepareSTS lib zookeeper_GetSTS (cr_common zk) ''zookeeper'' request (cr_meta zk) False) (\<lambda>sts.
                bindM (sum_result (ParseQuantity (sto_Size (zk_Storage conf)))) (\<lambda>diskSize.
                bindM (zookeeper_intended_sts ord request zk configMapName diskSize sts) (\<lambda>sts.
                bindM (ensure_storage_class lib (sv_storageclass cls)) (\<lambda>_.
                bindM (ensure_pvs lib (sv_pv cls) ord ''zookeeper'' request (cr_common zk) diskSize
                         (sto_Path (zk_Storage conf)) (om_Name (cr_meta zk))) (\<lambda>_.
                bindM (CreateSTS lib (sv_sts cls) sts ''zookeeper'' request) (\<lambda>sts.
                bindM (UpdateSTS lib (sv_sts cls) sts ''zookeeper'' request ''rolling'') (\<lambda>_.
                bindM (PodIPListAndIPMapFromInstance (sv_node cls) (sv_pod cls) ex ''zookeeper'' (cr_common zk)
                         request False no_wants) (\<lambda>(podIPList, podIPMap).
                  if podIPList \<noteq> []
                  then bindM (zookeeper_pods lib cls kc ex request configMapName zk podIPList podIPMap) (\<lambda>r.
                         case r of
                           None \<Rightarrow> ret True
                         | Some zk \<Rightarrow> zookeeper_finish lib cls kc request sts zk)
                  else zookeeper_finish lib cls kc request sts zk))))))))))"

end
