(* ===== verification/Cassandra.thy ===== *)
theory Cassandra
  imports Zookeeper
begin

text \<open>
  \<open>pkg/controller/cassandra\<close>, the methods of \<open>cassandra_types.go\<close> and
  \<open>pkg/configuration/cassandra_config.go\<close>: one reconciliation of a Cassandra resource.
  \<open>random n\<close> is \<open>RandomString(n)\<close> with its source of random numbers (theory \<open>RandString\<close>).
\<close>

section \<open>The stateful set\<close>

definition cassandra_init_container :: "string \<Rightarrow> pod_container" where
  "cassandra_init_container name =
     new_pod_container\<lparr>pco_Name := name,
      pco_Image := ''busybox'',
      pco_Command := [''sh'', ''-c'', ''until grep ready /tmp/podinfo/pod_labels > /dev/null 2>&1; do sleep 1; done''],
      pco_Env := [(''POD_IP'', EnvFieldRef ''status.podIP'')],
      pco_VolumeMounts := [new_mount ''status'' ''/tmp/podinfo''],
      pco_ImagePullPolicy := ''IfNotPresent'',
      pco_SecurityContext := Some (new_security_context\<lparr>sx_Privileged := Some False,
          sx_ProcMount := ''Default''\<rparr>),
      pco_TerminationMessagePath := ''/dev/termination-log'',
      pco_TerminationMessagePolicy := ''File''\<rparr>"

definition cassandra_claim :: "string \<Rightarrow> pvc" where
  "cassandra_claim name =
     \<lparr>pvc_meta = new_meta\<lparr>om_Name := name\<rparr>, pvc_AccessModes = [''ReadWriteOnce''], pvc_Selector = [],
      pvc_StorageClassName = [], pvc_Requests = [(''storage'', 5 * 10 ^ 18)]\<rparr>"

definition cassandra_GetSTS :: stateful_set where
  "cassandra_GetSTS =
     \<lparr>sts_meta = new_meta\<lparr>om_Name := ''cassandra''\<rparr>, sts_Replicas = Some 1,
      sts_PodManagementPolicy = [], sts_Selector = Some (Some [(''app'', ''cassandra'')]),
      sts_Template =
        \<lparr>pt_Annotations = None, pt_Labels = Some [(''app'', ''cassandra''), (''cassandra_cr'', ''cassandra''), (''contrail_manager'', ''cassandra'')],
         pt_Spec = new_pod_spec\<lparr>pspec_TerminationGracePeriodSeconds := Some 1800,
                    pspec_Containers := [new_pod_container\<lparr>pco_Name := ''cassandra'',
                                           pco_Image := ''hub.juniper.net/contrail-nightly/contrail-external-cassandra:5.2.0-0.740'',
                                           pco_Env := [(''POD_IP'', EnvFieldRef ''status.podIP'')],
                                           pco_ImagePullPolicy := ''IfNotPresent'',
                                           pco_ReadinessProbe := Some ((new_probe (ExecAction [''/bin/bash'', ''-c'', ''if [[ $(nodetool status | grep ${POD_IP} |awk '' @ [CHR 0x27] @ ''{print $1}'' @ [CHR 0x27] @ '') != '' @ [CHR 0x27] @ ''UN'' @ [CHR 0x27] @ '' ]]; then exit -1; fi;'']))\<lparr>pb_InitialDelaySeconds := 15,
                                               pb_TimeoutSeconds := 15\<rparr>),
                                           pco_PreStop := [''/bin/sh'', ''-c'', ''nodetool drain''],
                                           pco_SecurityContext := Some (new_security_context\<lparr>sx_Capabilities := [''IPC_LOCK''],
                                               sx_Privileged := Some False,
                                               sx_ProcMount := ''Default''\<rparr>),
                                           pco_TerminationMessagePath := ''/dev/termination-log'',
                                           pco_TerminationMessagePolicy := ''File''\<rparr>],
                    pspec_DNSPolicy := ''ClusterFirst'',
                    pspec_HostNetwork := True,
                    pspec_InitContainers := [cassandra_init_container ''init'',
                                              cassandra_init_container ''init2''],
                    pspec_NodeSelector := Some [(''node-role.kubernetes.io/master'', [])],
                    pspec_RestartPolicy := ''Always'',
                    pspec_SchedulerName := ''default-scheduler'',
                    pspec_Tolerations := [exists_toleration ''NoSchedule'', exists_toleration ''NoExecute''],
                    pspec_Volumes := [\<lparr>vol_Name = ''status'', vol_Source = DownwardAPIVolume [(''pod_labels'', ''metadata.labels''), (''pod_labelsx'', ''metadata.labels'')] (Some 420)\<rparr>]\<rparr>\<rparr>,
      sts_ServiceName = ''cassandra'', sts_VolumeClaimTemplates = [cassandra_claim ''cassandra-data'', cassandra_claim ''cassandra-logs''], sts_ReadyReplicas = 0,
      sts_CurrentRevision = [], sts_UpdateRevision = []\<rparr>"

section \<open>Configuration files\<close>

text \<open>The data of the template \<open>CassandraConfig\<close> and the template.\<close>

record cassandra_template =
  ctp_ClusterName :: string
  ctp_Seeds :: string
  ctp_StoragePort :: string
  ctp_SslStoragePort :: string
  ctp_ListenAddress :: string
  ctp_BroadcastAddress :: string
  ctp_CQLPort :: string
  ctp_StartRPC :: string
  ctp_RPCPort :: string
  ctp_RPCAddress :: string
  ctp_RPCBroadcastAddress :: string
  ctp_KeystorePassword :: string
  ctp_TruststorePassword :: string

definition CassandraConfig :: "cassandra_template \<Rightarrow> string" where
  "CassandraConfig d =
     text_lines
       [''cluster_name: '' @ ctp_ClusterName d,
        ''num_tokens: 32'',
        ''hinted_handoff_enabled: true'',
        ''max_hint_window_in_ms: 10800000 # 3 hours'',
        ''hinted_handoff_throttle_in_kb: 1024'',
        ''max_hints_delivery_threads: 2'',
        ''hints_directory: /var/lib/cassandra/hints'',
        ''hints_flush_period_in_ms: 10000'',
        ''max_hints_file_size_in_mb: 128'',
        ''batchlog_replay_throttle_in_kb: 1024'',
        ''authenticator: AllowAllAuthenticator'',
        ''authorizer: AllowAllAuthorizer'',
        ''role_manager: CassandraRoleManager'',
        ''roles_validity_in_ms: 2000'',
        ''permissions_validity_in_ms: 2000'',
        ''credentials_validity_in_ms: 2000'',
        ''partitioner: org.apache.cassandra.dht.Murmur3Partitioner'',
        ''data_file_directories:'',
        ''- /var/lib/cassandra/data'',
        ''commitlog_directory: /var/lib/cassandra/commitlog'',
        ''disk_failure_policy: stop'',
        ''commit_failure_policy: stop'',
        ''key_cache_size_in_mb:'',
        ''key_cache_save_period: 14400'',
        ''row_cache_size_in_mb: 0'',
        ''row_cache_save_period: 0'',
        ''counter_cache_size_in_mb:'',
        ''counter_cache_save_period: 7200'',
        ''saved_caches_directory: /var/lib/cassandra/saved_caches'',
        ''commitlog_sync: periodic'',
        ''commitlog_sync_period_in_ms: 10000'',
        ''commitlog_segment_size_in_mb: 32'',
        ''seed_provider:'',
        ''- class_name: org.apache.cassandra.locator.SimpleSeedProvider'',
        ''  parameters:'',
        ''  - seeds: '' @ ctp_Seeds d,
        ''concurrent_reads: 32'',
        ''concurrent_writes: 32'',
        ''concurrent_counter_writes: 32'',
        ''concurrent_materialized_view_writes: 32'',
        ''disk_optimization_strategy: ssd'',
        ''memtable_allocation_type: heap_buffers'',
        ''index_summary_capacity_in_mb:'',
        ''index_summary_resize_interval_in_minutes: 60'',
        ''trickle_fsync: false'',
        ''trickle_fsync_interval_in_kb: 10240'',
        ''storage_port: '' @ ctp_StoragePort d,
        ''ssl_storage_port: '' @ ctp_SslStoragePort d,
        ''listen_address: '' @ ctp_ListenAddress d,
        ''broadcast_address: '' @ ctp_BroadcastAddress d,
        ''start_native_transport: true'',
        ''native_transport_port: '' @ ctp_CQLPort d,
        ''start_rpc: '' @ ctp_StartRPC d,
        ''rpc_address: '' @ ctp_RPCAddress d,
        ''rpc_port: '' @ ctp_RPCPort d,
        ''broadcast_rpc_address: '' @ ctp_RPCBroadcastAddress d,
        ''rpc_keepalive: true'',
        ''rpc_server_type: sync'',
        ''thrift_framed_transport_size_in_mb: 15'',
        ''incremental_backups: false'',
        ''snapshot_before_compaction: false'',
        ''auto_snapshot: true'',
        ''tombstone_warn_threshold: 1000'',
        ''tombstone_failure_threshold: 100000'',
        ''column_index_size_in_kb: 64'',
        ''batch_size_warn_threshold_in_kb: 5'',
        ''batch_size_fail_threshold_in_kb: 50'',
        ''compaction_throughput_mb_per_sec: 16'',
        ''compaction_large_partition_warning_threshold_mb: 100'',
        ''sstable_preemptive_open_interval_in_mb: 50'',
        ''read_request_timeout_in_ms: 5000'',
        ''range_request_timeout_in_ms: 10000'',
        ''write_request_timeout_in_ms: 2000'',
        ''counter_write_request_timeout_in_ms: 5000'',
        ''cas_contention_timeout_in_ms: 1000'',
        ''truncate_request_timeout_in_ms: 60000'',
        ''request_timeout_in_ms: 10000'',
        ''cross_node_timeout: false'',
        ''endpoint_snitch: SimpleSnitch'',
        ''dynamic_snitch_update_interval_in_ms: 100'',
        ''dynamic_snitch_reset_interval_in_ms: 600000'',
        ''dynamic_snitch_badness_threshold: 0.1'',
        ''request_scheduler: org.apache.cassandra.scheduler.NoScheduler'',
        ''server_encryption_options:'',
        ''  internode_encryption: all'',
        ''  keystore: /etc/keystore/server-keystore.jks'',
        ''  keystore_password: '' @ ctp_KeystorePassword d,
        ''  truststore: /etc/keystore/server-truststore.jks'',
        ''  truststore_password: '' @ ctp_TruststorePassword d,
        ''  require_client_auth: true'',
        ''  store_type: JKS'',
        ''client_encryption_options:'',
        ''  enabled: true'',
        ''  optional: false'',
        ''  keystore: /etc/keystore/server-keystore.jks'',
        ''  keystore_password: '' @ ctp_KeystorePassword d,
        ''internode_compression: all'',
        ''inter_dc_tcp_nodelay: false'',
        ''tracetype_query_ttl: 86400'',
        ''tracetype_repair_ttl: 604800'',
        ''gc_warn_threshold_in_ms: 1000'',
        ''enable_user_defined_functions: false'',
        ''enable_scripted_user_defined_functions: false'',
        ''windows_timer_interval: 1'',
        ''transparent_data_encryption_options:'',
        ''  enabled: false'',
        ''  chunk_length_kb: 64'',
        ''  cipher: AES/CBC/PKCS5Padding'',
        ''  key_alias: testing:1'',
        ''  key_provider:'',
        ''  - class_name: org.apache.cassandra.security.JKSKeyProvider'',
        ''    parameters:'',
        ''    - keystore: conf/.keystore'',
        ''      keystore_password: cassandra'',
        ''      store_type: JCEKS'',
        ''      key_password: cassandra'',
        ''auto_bootstrap: true'']"

definition SignerCAMountPath :: string where "SignerCAMountPath = ''/etc/ssl/certs/kubernetes''"

definition SignerCAFilepath :: string where
  "SignerCAFilepath = SignerCAMountPath @ ''/'' @ SignerCAFilename"

definition cassandraInit2Command :: "string \<Rightarrow> string \<Rightarrow> string \<Rightarrow> string" where
  "cassandraInit2Command keystorePassword truststorePassword caFilePath =
     ''keytool -keystore /etc/keystore/server-truststore.jks -keypass ''
       @ keystorePassword
       @ '' -storepass ''
       @ truststorePassword
       @ '' -list -alias CARoot -noprompt;if [ $? -ne 0 ]; then keytool -keystore /etc/keystore/server-truststore.jks -keypass ''
       @ keystorePassword
       @ '' -storepass ''
       @ truststorePassword
       @ '' -noprompt -alias CARoot -import -file ''
       @ caFilePath
       @ ''; fi && openssl pkcs12 -export -in /etc/certificates/server-${POD_IP}.crt -inkey /etc/certificates/server-key-${POD_IP}.pem -chain -CAfile ''
       @ caFilePath
       @ '' -password pass:''
       @ truststorePassword
       @ '' -name $(hostname -f) -out TmpFile && keytool -importkeystore -deststorepass ''
       @ keystorePassword
       @ '' -destkeypass ''
       @ keystorePassword
       @ '' -destkeystore /etc/keystore/server-keystore.jks -deststoretype pkcs12 -srcstorepass ''
       @ truststorePassword
       @ '' -srckeystore TmpFile -srcstoretype PKCS12 -alias $(hostname -f) -noprompt;''"

section \<open>Methods of the resource\<close>

type_synonym cassandra = "cassandra_configuration cr"

text \<open>The address of a pod when one of its conditions says that it is ready.\<close>

definition pod_ready :: "pod \<Rightarrow> bool" where
  "pod_ready p \<longleftrightarrow> list_ex (\<lambda>(ty, status). ty = ''Ready'' \<and> status = ''True'') (pod_Conditions p)"

definition seeds :: "pod list \<Rightarrow> string list" where
  "seeds podList =
     (let pods = sort_by_name podList;
          ready_ips = map pod_PodIP (filter pod_ready pods)
      in if ready_ips \<noteq> [] then take ((length ready_ips - 1) div 2 + 1) ready_ips
         else if pods \<noteq> [] then [pod_PodIP (hd pods)]
         else [])"

definition secret_value :: "k_secret \<Rightarrow> string \<Rightarrow> string" where
  "secret_value sec key = (case map_of (map_entries (sec_Data sec)) key of None \<Rightarrow> [] | Some v \<Rightarrow> v)"

definition cassandra_template_of ::
  "cassandra_configuration \<Rightarrow> k_secret \<Rightarrow> string \<Rightarrow> string \<Rightarrow> ('s, go_error, cassandra_template) go" where
  "cassandra_template_of conf sec seedsListString podIP =
     bindM (port_text (ca_StoragePort conf)) (\<lambda>storagePort.
     bindM (port_text (ca_SslStoragePort conf)) (\<lambda>sslStoragePort.
     bindM (port_text (ca_CqlPort conf)) (\<lambda>cqlPort.
     bindM (port_text (ca_Port conf)) (\<lambda>port.
       ret \<lparr>ctp_ClusterName = ca_ClusterName conf, ctp_Seeds = seedsListString,
            ctp_StoragePort = storagePort, ctp_SslStoragePort = sslStoragePort,
            ctp_ListenAddress = podIP, ctp_BroadcastAddress = podIP, ctp_CQLPort = cqlPort,
            ctp_StartRPC = ''true'', ctp_RPCPort = port, ctp_RPCAddress = podIP,
            ctp_RPCBroadcastAddress = podIP, ctp_KeystorePassword = secret_value sec ''keystorePassword'',
            ctp_TruststorePassword = secret_value sec ''truststorePassword''\<rparr>))))"

fun cassandra_config_loop ::
  "(config_map, 's) kind_client \<Rightarrow> cassandra_configuration \<Rightarrow> k_secret \<Rightarrow> string \<Rightarrow> pod list \<Rightarrow> config_map
    \<Rightarrow> ('s, go_error, unit) go" where
  "cassandra_config_loop kc conf sec seedsListString [] cm = ret ()"
| "cassandra_config_loop kc conf sec seedsListString (p # pods) cm =
     bindM (cassandra_template_of conf sec seedsListString (pod_PodIP p)) (\<lambda>d.
     bindM (kc_Update kc (cm\<lparr>cm_Data :=
              Some (AList.update (pod_PodIP p @ ''.yaml'') (CassandraConfig d) (map_entries (cm_Data cm)))\<rparr>)) (\<lambda>cm.
       cassandra_config_loop kc conf sec seedsListString pods cm))"

definition Cassandra_InstanceConfiguration ::
  "(config_map, 's) kind_client \<Rightarrow> (k_secret, 's) kind_client \<Rightarrow> cassandra \<Rightarrow> namespaced_name \<Rightarrow> pod list
    \<Rightarrow> ('s, go_error, unit) go" where
  "Cassandra_InstanceConfiguration kc kcs c request podList =
     bindM (kc_Get kc (fst request, snd request @ ''-cassandra-configmap'')) (\<lambda>cm.
     bindM (kc_Get kcs (fst request, snd request @ ''-secret'')) (\<lambda>sec.
       cassandra_config_loop kc (Cassandra_ConfigurationParameters c) sec
         (join_with '','' (seeds podList)) podList cm))"

definition Cassandra_PodsCertSubjects :: "cassandra \<Rightarrow> pod list \<Rightarrow> string \<Rightarrow> cert_subject list" where
  "Cassandra_PodsCertSubjects c podList serviceIP =
     PodsCertSubjects podList (pc_HostNetwork (cr_common c)) \<lparr>Retriever = None, ServiceIP = serviceIP\<rparr>"

text \<open>Go's division of integers truncates; half of an \<open>int32\<close> plus one wraps around at its limit.\<close>

definition half :: "int \<Rightarrow> int" where
  "half n = (if n < 0 then - ((- n) div 2) else n div 2)"

definition acceptableReadyReplicaCnt :: "int \<Rightarrow> int" where
  "acceptableReadyReplicaCnt replicas = int32_of (half replicas + 1)"

definition Cassandra_SetInstanceActive ::
  "(stateful_set, 's) kind_client \<Rightarrow> (cassandra, 's) kind_client \<Rightarrow> stateful_set \<Rightarrow> namespaced_name
    \<Rightarrow> cassandra \<Rightarrow> ('s, go_error, cassandra) go" where
  "Cassandra_SetInstanceActive stss kc sts request c =
     bindM (kc_Get stss (fst request, om_Name (sts_meta sts))) (\<lambda>sts.
     bindM (deref_ptr (sts_Replicas sts)) (\<lambda>replicas.
       let c = set_cr_active (acceptableReadyReplicaCnt replicas \<le> sts_ReadyReplicas sts) c
       in bindM (kc_StatusUpdate kc c) (\<lambda>_. ret c)))"

definition Cassandra_ManageNodeStatus ::
  "(cassandra, 's) kind_client \<Rightarrow> cassandra \<Rightarrow> (string, string) gomap \<Rightarrow> ('s, go_error, cassandra) go" where
  "Cassandra_ManageNodeStatus kc c podNameIPMap =
     (let conf = Cassandra_ConfigurationParameters c
      in bindM (port_text (ca_Port conf)) (\<lambda>port.
         bindM (port_text (ca_CqlPort conf)) (\<lambda>cqlPort.
         bindM (port_text (ca_JmxLocalPort conf)) (\<lambda>jmxPort.
           let c = set_cr_nodes podNameIPMap [(''port'', port), (''cqlPort'', cqlPort), (''jmxPort'', jmxPort)] c
           in bindM (kc_StatusUpdate kc c) (\<lambda>_. ret c)))))"

definition Cassandra_IsUpgrading ::
  "(cassandra, 's) kind_client \<Rightarrow> (stateful_set, 's) kind_client \<Rightarrow> string \<Rightarrow> string
    \<Rightarrow> ('s, go_error, bool) go" where
  "Cassandra_IsUpgrading kc stss name namespace = IsUpgrading kc stss ''cassandra'' name namespace"

section \<open>The controller\<close>

definition cassandra_resourceHandler ::
  "'q queue_add \<Rightarrow> (string \<Rightarrow> go_error + object_meta list) \<Rightarrow> 'q handler_methods" where
  "cassandra_resourceHandler = resourceHandler"

definition jvm_opts :: "cassandra_configuration \<Rightarrow> string" where
  "jvm_opts conf =
     (let jvmOpts = (if ca_MinHeapSize conf \<noteq> [] then ''-Xms'' @ ca_MinHeapSize conf else [])
      in if ca_MaxHeapSize conf \<noteq> [] then jvmOpts @ '' -Xmx'' @ ca_MaxHeapSize conf else jvmOpts)"

definition cassandra_configure_container ::
  "string \<Rightarrow> cassandra_configuration \<Rightarrow> pod_container \<Rightarrow> ('s, go_error, pod_container) go" where
  "cassandra_configure_container name conf c =
     (if pco_Name c = ''cassandra''
      then bindM (deref_ptr (GetContainerFromList (pco_Name c) (ca_Containers conf))) (\<lambda>instanceContainer.
             let c = command_or_default
                       [''bash'', ''-c'', ''/docker-entrypoint.sh cassandra -f -Dcassandra.config=file:///mydata/${POD_IP}.yaml'']
                       instanceContainer c;
                 c = c\<lparr>pco_Image := co_Image instanceContainer,
                       pco_VolumeMounts :=
                         [new_mount (name @ ''-cassandra-volume'') ''/mydata'',
                          new_mount ''pvc'' ''/var/lib/cassandra'',
                          new_mount (name @ ''-secret-certificates'') ''/etc/certificates'',
                          new_mount (name @ ''-keystore'') ''/etc/keystore'',
                          new_mount (name @ ''-csr-signer-ca'') SignerCAMountPath]\<rparr>
             in ret (if jvm_opts conf \<noteq> []
                     then c\<lparr>pco_Env := pco_Env c @ [(''JVM_OPTS'', EnvValue (jvm_opts conf))]\<rparr> else c))
      else ret c)"

definition cassandra_configure_init ::
  "string \<Rightarrow> string \<Rightarrow> string \<Rightarrow> string \<Rightarrow> container list \<Rightarrow> pod_container \<Rightarrow> ('s, go_error, pod_container) go" where
  "cassandra_configure_init name path keystorePassword truststorePassword containers c =
     (if pco_Name c = ''init''
      then bindM (deref_ptr (GetContainerFromList (pco_Name c) containers)) (\<lambda>instanceContainer.
             let c = command_or_default
                       [''sh'', ''-c'', ''until grep ready /tmp/podinfo/pod_labels > /dev/null 2>&1; do sleep 1; done'']
                       instanceContainer c
             in ret (add_mount (name @ ''-cassandra-init'') path (c\<lparr>pco_Image := co_Image instanceContainer\<rparr>)))
      else if pco_Name c = ''init2''
      then bindM (deref_ptr (GetContainerFromList (pco_Name c) containers)) (\<lambda>instanceContainer.
             let c = command_or_default
                       [''bash'', ''-c'', cassandraInit2Command keystorePassword truststorePassword SignerCAFilepath]
                       instanceContainer c;
                 c = c\<lparr>pco_Image := co_Image instanceContainer\<rparr>
             in ret (add_mount (name @ ''-csr-signer-ca'') SignerCAMountPath
                      (add_mount (name @ ''-secret-certificates'') ''/etc/certificates''
                        (add_mount (name @ ''-keystore'') ''/etc/keystore'' c))))
      else ret c)"

text \<open>The passwords of the keystores: both are drawn anew when one of them is missing.\<close>

definition keystore_secret ::
  "(int \<Rightarrow> ('s, go_error, string) go) \<Rightarrow> k_secret \<Rightarrow> ('s, go_error, k_secret) go" where
  "keystore_secret random sec =
     (if map_of (map_entries (sec_Data sec)) ''keystorePassword'' = None \<or>
         map_of (map_entries (sec_Data sec)) ''truststorePassword'' = None
      then bindM (random 10) (\<lambda>keystorePassword.
           bindM (random 10) (\<lambda>truststorePassword.
             ret (sec\<lparr>sec_Data := Some [(''keystorePassword'', keystorePassword),
                                         (''truststorePassword'', truststorePassword)]\<rparr>)))
      else ret sec)"

definition cassandra_ensureCertificatesExist ::
  "k8s_lib \<Rightarrow> ('key, 'ip, 'cert, 's) crypto_lib \<Rightarrow> (k_secret, 's) kind_client \<Rightarrow> cassandra \<Rightarrow> pod list \<Rightarrow> string
    \<Rightarrow> ('s, go_error, unit) go" where
  "cassandra_ensureCertificatesExist lib cy kc c pods serviceIP =
     EnsureExistsAndIsSigned lib cy kc (cr_meta c) (Cassandra_PodsCertSubjects c pods serviceIP) ''cassandra''"

text \<open>The stateful set, in the order of the source; the secret is written in between.\<close>

definition cassandra_intended_sts ::
  "k8s_lib \<Rightarrow> (k_secret, 's) kind_client \<Rightarrow> range_ord \<Rightarrow> (string \<Rightarrow> go_error + quantity)
    \<Rightarrow> (int \<Rightarrow> ('s, go_error, string) go) \<Rightarrow> namespaced_name \<Rightarrow> cassandra \<Rightarrow> config_map \<Rightarrow> k_secret \<Rightarrow> stateful_set
    \<Rightarrow> ('s, go_error, quantity \<times> stateful_set) go" where
  "cassandra_intended_sts lib kc ord ParseQuantity random request c configMap secretCertificates sts0 =
     (let name = snd request;
          conf = Cassandra_ConfigurationParameters c;
          path = sto_Path (ca_Storage conf);
          sts = AddVolumesToIntendedSTS ord sts0
                  (AList.update SignerCAConfigMapName (name @ ''-csr-signer-ca'')
                    [(om_Name (cm_meta configMap), name @ ''-cassandra-volume'')]);
          sts = AddSecretVolumesToIntendedSTS ord sts
                  [(om_Name (sec_meta secretCertificates), name @ ''-secret-certificates'')]
      in bindM (sum_result (ParseQuantity (sto_Size (ca_Storage conf)))) (\<lambda>diskSize.
         let sts = sts\<lparr>sts_VolumeClaimTemplates := [claim_template ''cassandra'' request diskSize]\<rparr>;
             sts = update_spec (add_volume \<lparr>vol_Name = name @ ''-keystore'', vol_Source = EmptyDirVolume\<rparr>) sts
         in bindM (mapM (cassandra_configure_container name (cr_conf c))
                     (pspec_Containers (pt_Spec (sts_Template sts)))) (\<lambda>cs.
            let sts = update_spec (\<lambda>sp. sp\<lparr>pspec_Containers := cs\<rparr>) sts
            in bindM (CreateSecret lib kc (name @ ''-secret'') request ''cassandra'' (cr_meta c)) (\<lambda>sec.
               bindM (keystore_secret random sec) (\<lambda>sec.
               bindM (kc_Update kc sec) (\<lambda>sec.
               let sts = update_spec (\<lambda>sp. (add_volume \<lparr>vol_Name = name @ ''-cassandra-init'',
                             vol_Source = HostPathVolume path ''DirectoryOrCreate''\<rparr> sp)
                             \<lparr>pspec_Affinity := anti_affinity ''cassandra'' name\<rparr>) sts
               in bindM (mapM (cassandra_configure_init name path (secret_value sec ''keystorePassword'')
                                 (secret_value sec ''truststorePassword'') (ca_Containers (cr_conf c)))
                           (pspec_InitContainers (pt_Spec (sts_Template sts)))) (\<lambda>ics.
                    ret (diskSize, update_spec (\<lambda>sp. sp\<lparr>pspec_InitContainers := ics\<rparr>) sts))))))))"

definition cassandra_pods ::
  "k8s_lib \<Rightarrow> ('key, 'ip, 'cert, 's) crypto_lib \<Rightarrow> 's svc_clients \<Rightarrow> (cassandra, 's) kind_client \<Rightarrow> namespaced_name
    \<Rightarrow> string \<Rightarrow> cassandra \<Rightarrow> pod list \<Rightarrow> (string, string) gomap \<Rightarrow> ('s, go_error, cassandra) go" where
  "cassandra_pods lib cy cls kc request clusterIP c podList podIPMap =
     bindM (Cassandra_InstanceConfiguration (sv_configmap cls) (sv_secret cls) c request podList) (\<lambda>_.
     bindM (cassandra_ensureCertificatesExist lib cy (sv_secret cls) c podList clusterIP) (\<lambda>_.
     bindM (SetPodsToReady (sv_pod cls) podList) (\<lambda>_.
     bindM (Cassandra_ManageNodeStatus kc c podIPMap) (\<lambda>c.
     bindM (own_claims lib (sv_pvc cls) ''cassandra'' request (cr_meta c)) (\<lambda>_.
       ret c)))))"

definition zero_cassandra :: cassandra where
  "zero_cassandra = \<lparr>cr_meta = new_meta, cr_common = new_common,
     cr_conf = \<lparr>ca_Containers = [], ca_ClusterName = [], ca_ListenAddress = [], ca_Port = None, ca_CqlPort = None,
       ca_SslStoragePort = None, ca_StoragePort = None, ca_JmxLocalPort = None, ca_MaxHeapSize = [],
       ca_MinHeapSize = [], ca_StartRPC = None, ca_Storage = no_storage\<rparr>, cr_status = new_status\<rparr>"

text \<open>\<open>ord1\<close> and \<open>ord2\<close> are the orders in which the ports of the service are visited.\<close>

definition Cassandra_Reconcile ::
  "k8s_lib \<Rightarrow> range_ord \<Rightarrow> range_ord \<Rightarrow> range_ord \<Rightarrow> (string \<Rightarrow> go_error + quantity)
    \<Rightarrow> (int \<Rightarrow> ('s, go_error, string) go) \<Rightarrow> ('key, 'ip, 'cert, 's) crypto_lib \<Rightarrow> 's exec_lib \<Rightarrow> 's svc_clients
    \<Rightarrow> (cassandra, 's) kind_client \<Rightarrow> namespaced_name \<Rightarrow> ('s, go_error, bool) go" where
  "Cassandra_Reconcile lib ord ord1 ord2 ParseQuantity random cy ex cls kc request =
     bindM (get_instance lib kc zero_cassandra request) (\<lambda>r.
       case r of
         None \<Rightarrow> ret False
       | Some c \<Rightarrow>
           if om_Deleted (cr_meta c) then ret False
           else
             let name = snd request
             in bindM (CreateConfigMap lib (sv_configmap cls) (name @ ''-cassandra-configmap'') request ''cassandra'' (cr_meta c)) (\<lambda>configMap.
                bindM (CreateSecret lib (sv_secret cls) (name @ ''-secret-certificates'') request ''cassandra'' (cr_meta c)) (\<lambda>secretCertificates.
                bindM (deref_ptr (ca_Port (Cassandra_ConfigurationParameters c))) (\<lambda>port.
                bindM (Service_EnsureExists lib (sv_service cls) ord1 ord2
                         (Kubernetes_Service (name @ ''-cassandra'') ''ClusterIP'' [(int32_of port, [])] ''cassandra'' (cr_meta c))) (\<lambda>svc.
                  if ClusterIP svc = [] then ret False
                  else
                    let c = c\<lparr>cr_status := (cr_status c)\<lparr>st_ClusterIP := ClusterIP svc\<rparr>\<rparr>
                    in bindM (PrepareSTS lib cassandra_GetSTS (cr_common c) ''cassandra'' request (cr_meta c) False) (\<lambda>sts.
                       bindM (cassandra_intended_sts lib (sv_secret cls) ord ParseQuantity random request c
                                configMap secretCertificates sts) (\<lambda>(diskSize, sts).
                       bindM (ensure_storage_class lib (sv_storageclass cls)) (\<lambda>_.
                       bindM (ensure_pvs lib (sv_pv cls) ord ''cassandra'' request (cr_common c) diskSize
                                (sto_Path (ca_Storage (Cassandra_ConfigurationParameters c))) (om_Name (cr_meta c))) (\<lambda>_.
                       bindM (CreateSTS lib (sv_sts cls) sts ''cassandra'' request) (\<lambda>sts.
                       bindM (UpdateSTS lib (sv_sts cls) sts ''cassandra'' request ''rolling'') (\<lambda>_.
                       bindM (PodIPListAndIPMapFromInstance (sv_node cls) (sv_pod cls) ex ''cassandra'' (cr_common c)
                                request False (no_wants\<lparr>getHostname := True\<rparr>)) (\<lambda>(podIPList, podIPMap).
                       bindM (if podIPList \<noteq> []
                              then cassandra_pods lib cy cls kc request (ClusterIP svc) c podIPList podIPMap
                              else ret c) (\<lambda>c.
                       bindM (Cassandra_SetInstanceActive (sv_sts cls) kc sts request (active_or_false c)) (\<lambda>_.
                         ret False))))))))))))))"

end
