(* ===== verification/Base64.thy ===== *)
theory Base64
  imports GoStd
begin

text \<open>
  \<open>encoding/base64\<close> of the standard library, as far as the keys of the repository need it: the
  encoding \<open>StdEncoding\<close> with padding and the length of its result, and the decoding as its inverse.
\<close>

definition base64_alphabet :: string where
  "base64_alphabet = ''ABCDEFGHIJKLMNOPQRSTUVWXYZabcdefghijklmnopqrstuvwxyz0123456789+/''"

definition base64_digit :: "nat \<Rightarrow> char" where
  "base64_digit n = base64_alphabet ! n"

definition byte :: "char \<Rightarrow> nat" where
  "byte c = of_char c"

text \<open>Three bytes are four digits; one or two bytes at the end are padded.\<close>

fun base64_encode :: "string \<Rightarrow> string" where
  "base64_encode [] = []"
| "base64_encode [a] = [base64_digit (byte a div 4), base64_digit (byte a mod 4 * 16), CHR ''='', CHR ''='']"
| "base64_encode [a, b] =
     [base64_digit (byte a div 4), base64_digit (byte a mod 4 * 16 + byte b div 16),
      base64_digit (byte b mod 16 * 4), CHR ''='']"
| "base64_encode (a # b # c # s) =
     [base64_digit (byte a div 4), base64_digit (byte a mod 4 * 16 + byte b div 16),
      base64_digit (byte b mod 16 * 4 + byte c div 64), base64_digit (byte c mod 64)] @ base64_encode s"

definition EncodedLen :: "nat \<Rightarrow> nat" where
  "EncodedLen n = (n + 2) div 3 * 4"

lemma EncodedLen_add_3: "EncodedLen (Suc (Suc (Suc n))) = Suc (Suc (Suc (Suc (EncodedLen n))))"
proof -
  have "(Suc (Suc (Suc n)) + 2) div 3 = Suc ((n + 2) div 3)" by simp
  then show ?thesis by (simp add: EncodedLen_def)
qed

lemma length_base64_encode: "length (base64_encode s) = EncodedLen (length s)"
proof (induction s rule: base64_encode.induct)
  case (4 a b c s)
  then show ?case by (simp add: EncodedLen_add_3)
qed (simp_all add: EncodedLen_def)

section \<open>Decoding\<close>

fun index_of :: "char \<Rightarrow> string \<Rightarrow> nat" where
  "index_of c [] = 0"
| "index_of c (x # xs) = (if c = x then 0 else index_of c xs + 1)"

definition base64_value :: "char \<Rightarrow> nat" where
  "base64_value c = index_of c base64_alphabet"

fun base64_decode :: "string \<Rightarrow> string" where
  "base64_decode (p # q # r # t # s) =
     (let u = base64_value p * 4 + base64_value q div 16;
          v = base64_value q mod 16 * 16 + base64_value r div 4;
          w = base64_value r mod 4 * 64 + base64_value t
      in if r = CHR ''='' then [char_of u]
         else if t = CHR ''='' then [char_of u, char_of v]
         else char_of u # char_of v # char_of w # base64_decode s)"
| "base64_decode s = []"

lemma length_base64_alphabet [simp]: "length base64_alphabet = 64"
  by (simp add: base64_alphabet_def)

lemma distinct_base64_alphabet: "distinct base64_alphabet"
  by (simp add: base64_alphabet_def)

lemma index_of_nth: "distinct xs \<Longrightarrow> i < length xs \<Longrightarrow> index_of (xs ! i) xs = i"
proof (induction xs arbitrary: i)
  case (Cons x xs)
  then show ?case by (cases i) auto
qed simp

lemma base64_value_digit [simp]: "n < 64 \<Longrightarrow> base64_value (base64_digit n) = n"
  by (simp add: base64_value_def base64_digit_def index_of_nth distinct_base64_alphabet)

lemma base64_digit_no_padding [simp]: "n < 64 \<Longrightarrow> base64_digit n \<noteq> CHR ''=''"
proof -
  assume "n < 64"
  then have "base64_digit n \<in> set base64_alphabet" by (simp add: base64_digit_def)
  moreover have "CHR ''='' \<notin> set base64_alphabet" by (simp add: base64_alphabet_def)
  ultimately show ?thesis by metis
qed

lemma byte_less [simp]: "byte c < 256"
  by (simp add: byte_def)

lemma char_of_byte [simp]: "char_of (byte c) = c"
  by (simp add: byte_def)

lemma high_low_less:
  fixes x y :: nat
  assumes "y < 256"
  shows "x mod 4 * 16 + y div 16 < 64" "x mod 16 * 4 + y div 64 < 64"
proof -
  have "x mod 4 < 4" "x mod 16 < 16" by simp_all
  moreover have "y div 16 < 16" "y div 64 < 4" using assms by (simp_all add: div_less_iff_less_mult)
  ultimately show "x mod 4 * 16 + y div 16 < 64" "x mod 16 * 4 + y div 64 < 64" by linarith+
qed

lemma byte_digits [simp]:
  "byte a div 4 < 64" "byte a mod 4 * 16 + byte b div 16 < 64" "byte b mod 16 * 4 + byte c div 64 < 64"
  by (simp_all add: high_low_less div_less_iff_less_mult)

theorem base64_roundtrip: "base64_decode (base64_encode s) = s"
proof (induction s rule: base64_encode.induct)
  case (2 a)
  then show ?case by (simp add: Let_def)
next
  case (3 a b)
  have "byte b div 16 < 16" by (simp add: div_less_iff_less_mult)
  then show ?case by (simp add: Let_def)
next
  case (4 a b c s)
  have "byte b div 16 < 16" "byte c div 64 < 4" by (simp_all add: div_less_iff_less_mult)
  with 4 show ?case by (simp add: Let_def add.assoc [symmetric])
qed simp

end
