(* ===== verification/Rabbitmq.thy ===== *)
theory Rabbitmq
  imports Cassandra Base64
begin

text \<open>
  \<open>pkg/controller/rabbitmq\<close>, the methods of \<open>rabbitmq_types.go\<close> and
  \<open>pkg/configuration/rabbitmq_config.go\<close>: one reconciliation of a Rabbitmq resource.
  \<open>generate n\<close> is \<open>RandString{n}.Generate()\<close>; the random salt and SHA-256 of the standard
  library are the fields of \<open>hash_lib\<close>.
\<close>

section \<open>The stateful set\<close>

definition rabbitmq_GetSTS :: stateful_set where
  "rabbitmq_GetSTS =
     \<lparr>sts_meta = new_meta\<lparr>om_Name := ''rabbitmq'', om_Namespace := ''default''\<rparr>, sts_Replicas = Some 1,
      sts_PodManagementPolicy = [], sts_Selector = Some (Some [(''app'', ''rabbitmq'')]),
      sts_Template =
        \<lparr>pt_Annotations = None, pt_Labels = Some [(''app'', ''rabbitmq''), (''contrail_manager'', ''rabbitmq'')],
         pt_Spec = new_pod_spec\<lparr>pspec_Volumes := [\<lparr>vol_Name = ''rabbitmq-data'', vol_Source = HostPathVolume ''/var/lib/contrail/rabbitmq'' []\<rparr>,
                                       \<lparr>vol_Name = ''rabbitmq-logs'', vol_Source = HostPathVolume ''/var/log/contrail/rabbitmq'' []\<rparr>,
                                       \<lparr>vol_Name = ''status'', vol_Source = DownwardAPIVolume [(''pod_labels'', ''metadata.labels''), (''pod_labelsx'', ''metadata.labels'')] (Some 420)\<rparr>],
                    pspec_InitContainers := [new_pod_container\<lparr>pco_Name := ''init'',
                                               pco_Image := ''busybox'',
                                               pco_Command := [''sh'', ''-c'', ''until grep ready /tmp/podinfo/pod_labels > /dev/null 2>&1; do sleep 1; done''],
                                               pco_Env := [(''POD_IP'', EnvFieldRef ''status.podIP'')],
                                               pco_VolumeMounts := [new_mount ''status'' ''/tmp/podinfo''],
                                               pco_ImagePullPolicy := ''IfNotPresent'',
                                               pco_TerminationMessagePath := ''/dev/termination-log'',
                                               pco_TerminationMessagePolicy := ''File''\<rparr>],
                    pspec_Containers := [new_pod_container\<lparr>pco_Name := ''rabbitmq'',
                                           pco_Image := ''docker.io/michaelhenkel/contrail-external-rabbitmq:5.2.0-dev1'',
                                           pco_Env := [(''POD_IP'', EnvFieldRef ''status.podIP''),
                                                       (''POD_NAME'', EnvFieldRef ''metadata.name'')],
                                           pco_VolumeMounts := [new_mount ''rabbitmq-data'' ''/var/lib/rabbitmq'',
                                                                new_mount ''rabbitmq-logs'' ''/var/log/rabbitmq''],
                                           pco_ReadinessProbe := Some ((new_probe (ExecAction [''/bin/bash'', ''-c'', ''export RABBITMQ_NODENAME=rabbit@$POD_IP; cluster_status=$(rabbitmqctl cluster_status);nodes=$(echo $cluster_status | sed -e '' @ [CHR 0x27] @ ''s/.*disc,'' @ [CHR 0x5C] @ ''['' @ [CHR 0x5C] @ ''(.*'' @ [CHR 0x5C] @ '')]}]}, {.*/'' @ [CHR 0x5C] @ ''1/'' @ [CHR 0x27] @ '' | grep -oP '' @ [CHR 0x22] @ ''(?<=rabbit@).*?(?='' @ [CHR 0x27] @ '')'' @ [CHR 0x22] @ ''); for node in $(cat /etc/rabbitmq/rabbitmq.nodes); do echo ${nodes} |grep ${node}; if [[ $? -ne 0 ]]; then exit -1; fi; done'']))\<lparr>pb_InitialDelaySeconds := 15,
                                               pb_TimeoutSeconds := 5\<rparr>)\<rparr>],
                    pspec_RestartPolicy := ''Always'',
                    pspec_DNSPolicy := ''ClusterFirst'',
                    pspec_HostNetwork := True,
                    pspec_Tolerations := [exists_toleration ''NoSchedule'', exists_toleration ''NoExecute''],
                    pspec_NodeSelector := Some [(''node-role.kubernetes.io/master'', [])]\<rparr>\<rparr>,
      sts_ServiceName = ''rabbitmq'', sts_VolumeClaimTemplates = [], sts_ReadyReplicas = 0,
      sts_CurrentRevision = [], sts_UpdateRevision = []\<rparr>"

section \<open>Configuration files\<close>

definition RabbitmqConfig :: string where
  "RabbitmqConfig =
     text_lines
       [''#!/bin/bash'',
        ''echo $RABBITMQ_ERLANG_COOKIE > /var/lib/rabbitmq/.erlang.cookie'',
        ''chmod 0600 /var/lib/rabbitmq/.erlang.cookie'',
        ''export RABBITMQ_NODENAME=rabbit@${POD_IP}'',
        ''if [[ $(grep $POD_IP /etc/rabbitmq/0) ]] ; then'',
        ''  rabbitmq-server'',
        ''else'',
        ''  rabbitmqctl --node rabbit@${POD_IP} forget_cluster_node rabbit@${POD_IP}'',
        ''  rabbitmqctl --node rabbit@$(cat /etc/rabbitmq/0) ping'',
        ''  while [[ $? -ne 0 ]]; do'',
        [CHR 0x09] @ ''rabbitmqctl --node rabbit@$(cat /etc/rabbitmq/0) ping'',
        ''  done'',
        ''  rabbitmq-server -detached'',
        ''  rabbitmqctl --node rabbit@$(cat /etc/rabbitmq/0) node_health_check'',
        ''  while [[ $? -ne 0 ]]; do'',
        [CHR 0x09] @ ''rabbitmqctl --node rabbit@$(cat /etc/rabbitmq/0) node_health_check'',
        ''  done'',
        ''  rabbitmqctl stop_app'',
        ''  sleep 2'',
        ''  rabbitmqctl join_cluster rabbit@$(cat /etc/rabbitmq/0)'',
        ''  rabbitmqctl shutdown'',
        ''  rabbitmq-server'',
        ''fi'']"

definition RabbitmqDefinition :: "string \<Rightarrow> string \<Rightarrow> string \<Rightarrow> string" where
  "RabbitmqDefinition user password vhost =
     text_lines
       [''{'',
        ''  '' @ [CHR 0x22] @ ''users'' @ [CHR 0x22] @ '': ['',
        ''    {'',
        ''      '' @ [CHR 0x22] @ ''name'' @ [CHR 0x22] @ '': '' @ [CHR 0x22] @ user @ [CHR 0x22] @ '','',
        ''      '' @ [CHR 0x22] @ ''password_hash'' @ [CHR 0x22] @ '': '' @ [CHR 0x22] @ password @ [CHR 0x22] @ '','',
        ''      '' @ [CHR 0x22] @ ''tags'' @ [CHR 0x22] @ '': '' @ [CHR 0x22] @ ''administrator'' @ [CHR 0x22],
        ''    }'',
        ''  ],'',
        ''  '' @ [CHR 0x22] @ ''vhosts'' @ [CHR 0x22] @ '': ['',
        ''    {'',
        ''      '' @ [CHR 0x22] @ ''name'' @ [CHR 0x22] @ '': '' @ [CHR 0x22] @ vhost @ [CHR 0x22],
        ''    }'',
        ''  ],'',
        ''  '' @ [CHR 0x22] @ ''permissions'' @ [CHR 0x22] @ '': ['',
        ''    {'',
        ''      '' @ [CHR 0x22] @ ''user'' @ [CHR 0x22] @ '': '' @ [CHR 0x22] @ user @ [CHR 0x22] @ '','',
        ''      '' @ [CHR 0x22] @ ''vhost'' @ [CHR 0x22] @ '': '' @ [CHR 0x22] @ vhost @ [CHR 0x22] @ '','',
        ''      '' @ [CHR 0x22] @ ''configure'' @ [CHR 0x22] @ '': '' @ [CHR 0x22] @ ''.*'' @ [CHR 0x22] @ '','',
        ''      '' @ [CHR 0x22] @ ''write'' @ [CHR 0x22] @ '': '' @ [CHR 0x22] @ ''.*'' @ [CHR 0x22] @ '','',
        ''      '' @ [CHR 0x22] @ ''read'' @ [CHR 0x22] @ '': '' @ [CHR 0x22] @ ''.*'' @ [CHR 0x22],
        ''    }'',
        ''  ],'',
        ''}'']"

text \<open>The configuration of one node; \<open>peers\<close> are the addresses of all nodes.\<close>

definition rabbitmq_conf :: "int \<Rightarrow> int \<Rightarrow> string list \<Rightarrow> string \<Rightarrow> string" where
  "rabbitmq_conf port sslPort peers ip =
     text_lines
       [''listeners.tcp.default = '' @ Itoa port,
        ''listeners.ssl.default = '' @ Itoa sslPort,
        ''loopback_users = none'',
        ''management.tcp.port = 15671'',
        ''management.load_definitions = /etc/rabbitmq/definitions.json'',
        ''ssl_options.cacertfile = '' @ SignerCAFilepath,
        ''ssl_options.keyfile = /etc/certificates/server-key-'' @ ip @ ''.pem'',
        ''ssl_options.certfile = /etc/certificates/server-'' @ ip @ ''.crt'',
        ''ssl_options.verify = verify_peer'',
        ''ssl_options.fail_if_no_peer_cert = true'',
        ''cluster_partition_handling = autoheal'']
     @ (if 1 < length peers
        then text_lines (''cluster_formation.peer_discovery_backend = classic_config'' #
               map (\<lambda>(i, peer). ''cluster_formation.classic_config.nodes.'' @ Itoa (int i + 1) @ '' = rabbit@'' @ peer)
                 (zip [0..<length peers] peers))
        else [])"

section \<open>Methods of the resource\<close>

type_synonym rabbitmq = "rabbitmq_configuration cr"

record 's hash_lib =
  rand_Read4 :: "('s, go_error, string) go"
  sha256 :: "string \<Rightarrow> string"

definition password_hash :: "'s hash_lib \<Rightarrow> string \<Rightarrow> string \<Rightarrow> string" where
  "password_hash hl salt password = base64_encode (salt @ sha256 hl (salt @ password))"

text \<open>The entries of the nodes, in the order of their addresses.\<close>

definition rabbitmq_node_data :: "int \<Rightarrow> int \<Rightarrow> pod list \<Rightarrow> (string, string) gomap" where
  "rabbitmq_node_data port sslPort pods =
     fold (\<lambda>p. AList.update (''rabbitmq-'' @ pod_PodIP p @ ''.conf'')
                 (rabbitmq_conf port sslPort (map pod_PodIP pods) (pod_PodIP p))) pods []"

definition rabbitmq_env_data :: "string \<Rightarrow> (string, string) gomap \<Rightarrow> (string, string) gomap" where
  "rabbitmq_env_data cookie d =
     fold (\<lambda>(k, v). AList.update k v)
       [(''RABBITMQ_ERLANG_COOKIE'', cookie), (''RABBITMQ_USE_LONGNAME'', ''true''),
        (''RABBITMQ_CONFIG_FILE'', ''/etc/rabbitmq/rabbitmq-${POD_IP}.conf''),
        (''RABBITMQ_PID_FILE'', ''/var/run/rabbitmq.pid''),
        (''RABBITMQ_CONF_ENV_FILE'', ''/var/lib/rabbitmq/rabbitmq.env''),
        (''RABBITMQ_ENABLED_PLUGINS_FILE'', ''/etc/rabbitmq/plugins.conf'')] d"

text \<open>The loop that stores each address under the last character of the name of its pod.\<close>

fun rabbitmq_ordinals ::
  "pod list \<Rightarrow> (string, string) gomap \<Rightarrow> string \<Rightarrow> ('s, go_error, (string, string) gomap \<times> string) go" where
  "rabbitmq_ordinals [] d rabbitmqNodes = ret (d, rabbitmqNodes)"
| "rabbitmq_ordinals (p # pods) d rabbitmqNodes =
     bindM (last_char (om_Name (pod_meta p))) (\<lambda>myidString.
       rabbitmq_ordinals pods (AList.update myidString (pod_PodIP p) d)
         (rabbitmqNodes @ pod_PodIP p @ [CHR 0x0A]))"

text \<open>The result is the list of the pods, which the function sorts in place by address.\<close>

definition Rabbitmq_InstanceConfiguration ::
  "'s hash_lib \<Rightarrow> (config_map, 's) kind_client \<Rightarrow> (k_secret, 's) kind_client \<Rightarrow> rabbitmq \<Rightarrow> namespaced_name
    \<Rightarrow> pod list \<Rightarrow> ('s, go_error, pod list) go" where
  "Rabbitmq_InstanceConfiguration hl kc kcs c request podList =
     bindM (kc_Get kc (fst request, snd request @ ''-rabbitmq-configmap'')) (\<lambda>cm.
     bindM (kc_Get kc (fst request, snd request @ ''-rabbitmq-configmap-runner'')) (\<lambda>runner.
       let pods = sort_key pod_PodIP podList;
           conf = Rabbitmq_ConfigurationParameters c
       in bindM (deref_ptr (rb_Port conf)) (\<lambda>port.
          bindM (deref_ptr (rb_SSLPort conf)) (\<lambda>sslPort.
          bindM (rabbitmq_ordinals pods
                   (rabbitmq_env_data (rb_ErlangCookie conf) (rabbitmq_node_data port sslPort pods)) []) (\<lambda>(d, rabbitmqNodes).
          let d = AList.update ''rabbitmq.nodes'' rabbitmqNodes d;
              d = AList.update ''plugins.conf''
                    ''[rabbitmq_management,rabbitmq_management_agent,rabbitmq_peer_discovery_k8s].'' d;
              secretName = (if rb_Secret conf \<noteq> [] then rb_Secret conf else snd request @ ''-secret'')
          in bindM (kc_Get kcs (fst request, secretName)) (\<lambda>sec.
             bindM (rand_Read4 hl) (\<lambda>salt.
             let d = AList.update ''definitions.json''
                       (RabbitmqDefinition (secret_value sec ''user'')
                         (password_hash hl salt (secret_value sec ''password'')) (secret_value sec ''vhost'')) d
             in bindM (kc_Update kc (cm\<lparr>cm_Data := Some d\<rparr>)) (\<lambda>_.
                bindM (kc_Update kc (runner\<lparr>cm_Data := Some [(''run.sh'', RabbitmqConfig)]\<rparr>)) (\<lambda>_.
                  ret pods)))))))))"

definition Rabbitmq_IsUpgrading ::
  "(rabbitmq, 's) kind_client \<Rightarrow> (stateful_set, 's) kind_client \<Rightarrow> string \<Rightarrow> string
    \<Rightarrow> ('s, go_error, bool) go" where
  "Rabbitmq_IsUpgrading kc stss name namespace = IsUpgrading kc stss ''rabbitmq'' name namespace"

definition Rabbitmq_PodsCertSubjects :: "rabbitmq \<Rightarrow> pod list \<Rightarrow> cert_subject list" where
  "Rabbitmq_PodsCertSubjects c podList =
     PodsCertSubjects podList (pc_HostNetwork (cr_common c)) \<lparr>Retriever = None, ServiceIP = []\<rparr>"

definition Rabbitmq_ManageNodeStatus ::
  "(rabbitmq, 's) kind_client \<Rightarrow> rabbitmq \<Rightarrow> (string, string) gomap \<Rightarrow> ('s, go_error, rabbitmq) go" where
  "Rabbitmq_ManageNodeStatus kc c podNameIPMap =
     (let conf = Rabbitmq_ConfigurationParameters c
      in bindM (port_text (rb_Port conf)) (\<lambda>port.
         bindM (port_text (rb_SSLPort conf)) (\<lambda>sslPort.
           let c = set_cr_nodes podNameIPMap [(''port'', port), (''sslPort'', sslPort)] c;
               c = c\<lparr>cr_status := (cr_status c)\<lparr>st_Secret := rb_Secret conf\<rparr>\<rparr>
           in bindM (kc_StatusUpdate kc c) (\<lambda>_. ret c))))"

section \<open>The controller\<close>

definition rabbitmq_resourceHandler ::
  "'q queue_add \<Rightarrow> (string \<Rightarrow> go_error + object_meta list) \<Rightarrow> 'q handler_methods" where
  "rabbitmq_resourceHandler = resourceHandler"

definition rabbitmq_configure_container ::
  "string \<Rightarrow> container list \<Rightarrow> pod_container \<Rightarrow> ('s, go_error, pod_container) go" where
  "rabbitmq_configure_container name containers c =
     (if pco_Name c = ''rabbitmq''
      then bindM (deref_ptr (GetContainerFromList (pco_Name c) containers)) (\<lambda>instanceContainer.
             let c = command_or_default [''bash'', ''/runner/run.sh''] instanceContainer c
             in ret (c\<lparr>pco_EnvFrom := [name @ ''-rabbitmq-configmap''],
                       pco_VolumeMounts :=
                         [new_mount (name @ ''-rabbitmq-volume'') ''/etc/rabbitmq'',
                          new_mount (name @ ''-rabbitmq-runner'') ''/runner/'',
                          new_mount (name @ ''-secret-certificates'') ''/etc/certificates'',
                          new_mount (name @ ''-csr-signer-ca'') SignerCAMountPath],
                       pco_Image := co_Image instanceContainer\<rparr>))
      else ret c)"

definition rabbitmq_intended_sts ::
  "range_ord \<Rightarrow> namespaced_name \<Rightarrow> rabbitmq \<Rightarrow> config_map \<Rightarrow> config_map \<Rightarrow> k_secret \<Rightarrow> stateful_set
    \<Rightarrow> ('s, go_error, stateful_set) go" where
  "rabbitmq_intended_sts ord request c configMap configMap2 secretCertificates sts0 =
     (let name = snd request;
          sts = AddVolumesToIntendedSTS ord sts0
                  (AList.update SignerCAConfigMapName (name @ ''-csr-signer-ca'')
                    (AList.update (om_Name (cm_meta configMap2)) (name @ ''-rabbitmq-runner'')
                      [(om_Name (cm_meta configMap), name @ ''-rabbitmq-volume'')]));
          sts = AddSecretVolumesToIntendedSTS ord sts
                  [(om_Name (sec_meta secretCertificates), name @ ''-secret-certificates'')];
          sts = update_spec (\<lambda>sp. sp\<lparr>pspec_Affinity := anti_affinity ''rabbitmq'' name\<rparr>) sts
      in bindM (mapM (rabbitmq_configure_container name (rb_Containers (cr_conf c)))
                  (pspec_Containers (pt_Spec (sts_Template sts)))) (\<lambda>cs.
         bindM (mapM (configure_init (rb_Containers (cr_conf c)))
                  (pspec_InitContainers (pt_Spec (sts_Template sts)))) (\<lambda>ics.
           ret (update_spec (\<lambda>sp. sp\<lparr>pspec_Containers := cs, pspec_InitContainers := ics\<rparr>) sts))))"

text \<open>A value of the specification, or a random one.\<close>

definition given_or_random ::
  "(int \<Rightarrow> ('s, go_error, string) go) \<Rightarrow> int \<Rightarrow> string \<Rightarrow> ('s, go_error, string) go" where
  "given_or_random generate n v = (if v \<noteq> [] then ret v else generate n)"

definition set_if_missing ::
  "string \<Rightarrow> string \<Rightarrow> (string, string) gomap \<Rightarrow> (string, string) gomap" where
  "set_if_missing k v d = (if map_of d k = None then AList.update k v d else d)"

definition rabbitmq_credentials ::
  "(int \<Rightarrow> ('s, go_error, string) go) \<Rightarrow> rabbitmq_configuration \<Rightarrow> k_secret \<Rightarrow> ('s, go_error, k_secret) go" where
  "rabbitmq_credentials generate conf sec =
     bindM (given_or_random generate 32 (rb_Password conf)) (\<lambda>password.
     bindM (given_or_random generate 8 (rb_User conf)) (\<lambda>user.
     bindM (given_or_random generate 6 (rb_Vhost conf)) (\<lambda>vhost.
       ret (sec\<lparr>sec_Data := Some
              (set_if_missing ''vhost'' vhost
                (set_if_missing ''user'' user
                  (set_if_missing ''password'' password (map_entries (sec_Data sec)))))\<rparr>))))"

definition rabbitmq_ensureCertificatesExist ::
  "k8s_lib \<Rightarrow> ('key, 'ip, 'cert, 's) crypto_lib \<Rightarrow> (k_secret, 's) kind_client \<Rightarrow> rabbitmq \<Rightarrow> pod list
    \<Rightarrow> ('s, go_error, unit) go" where
  "rabbitmq_ensureCertificatesExist lib cy kc c pods =
     EnsureExistsAndIsSigned lib cy kc (cr_meta c) (Rabbitmq_PodsCertSubjects c pods) ''rabbitmq''"

definition rabbitmq_pods ::
  "k8s_lib \<Rightarrow> 's hash_lib \<Rightarrow> ('key, 'ip, 'cert, 's) crypto_lib \<Rightarrow> 's svc_clients \<Rightarrow> (rabbitmq, 's) kind_client
    \<Rightarrow> namespaced_name \<Rightarrow> rabbitmq \<Rightarrow> pod list \<Rightarrow> (string, string) gomap \<Rightarrow> ('s, go_error, rabbitmq) go" where
  "rabbitmq_pods lib hl cy cls kc request c podList podIPMap =
     bindM (Rabbitmq_InstanceConfiguration hl (sv_configmap cls) (sv_secret cls) c request podList) (\<lambda>podList.
     bindM (rabbitmq_ensureCertificatesExist lib cy (sv_secret cls) c podList) (\<lambda>_.
     bindM (SetPodsToReady (sv_pod cls) podList) (\<lambda>_.
       Rabbitmq_ManageNodeStatus kc c podIPMap)))"

definition zero_rabbitmq :: rabbitmq where
  "zero_rabbitmq = \<lparr>cr_meta = new_meta, cr_common = new_common,
     cr_conf = \<lparr>rb_Containers = [], rb_Port = None, rb_SSLPort = None, rb_ErlangCookie = [], rb_Vhost = [],
       rb_User = [], rb_Password = [], rb_Secret = []\<rparr>, cr_status = new_status\<rparr>"

definition Rabbitmq_Reconcile ::
  "k8s_lib \<Rightarrow> range_ord \<Rightarrow> (int \<Rightarrow> ('s, go_error, string) go) \<Rightarrow> 's hash_lib \<Rightarrow> ('key, 'ip, 'cert, 's) crypto_lib
    \<Rightarrow> 's exec_lib \<Rightarrow> 's svc_clients \<Rightarrow> (rabbitmq, 's) kind_client \<Rightarrow> namespaced_name
    \<Rightarrow> ('s, go_error, bool) go" where
  "Rabbitmq_Reconcile lib ord generate hl cy ex cls kc request =
     bindM (get_instance lib kc zero_rabbitmq request) (\<lambda>r.
       case r of
         None \<Rightarrow> ret False
       | Some c \<Rightarrow>
           if om_Deleted (cr_meta c) then ret False
           else
             let name = snd request
             in bindM (CreateConfigMap lib (sv_configmap cls) (name @ ''-rabbitmq-configmap'') request ''rabbitmq'' (cr_meta c)) (\<lambda>configMap.
                bindM (CreateConfigMap lib (sv_configmap cls) (name @ ''-rabbitmq-configmap-runner'') request ''rabbitmq'' (cr_meta c)) (\<lambda>configMap2.
                bindM (CreateSecret lib (sv_secret cls) (name @ ''-secret'') request ''rabbitmq'' (cr_meta c)) (\<lambda>sec.
                bindM (CreateSecret lib (sv_secret cls) (name @ ''-secret-certificates'') request ''rabbitmq'' (cr_meta c)) (\<lambda>secretCertificates.
                bindM (PrepareSTS lib rabbitmq_GetSTS (cr_common c) ''rabbitmq'' request (cr_meta c) True) (\<lambda>sts.
                bindM (rabbitmq_intended_sts ord request c configMap configMap2 secretCertificates sts) (\<lambda>sts.
                bindM (rabbitmq_credentials generate (cr_conf c) sec) (\<lambda>sec.
                bindM (kc_Update (sv_secret cls) sec) (\<lambda>_.
                bindM (CreateSTS lib (sv_sts cls) sts ''rabbitmq'' request) (\<lambda>sts.
                bindM (UpdateSTS lib (sv_sts cls) sts ''rabbitmq'' request ''rolling'') (\<lambda>_.
                bindM (PodIPListAndIPMapFromInstance (sv_node cls) (sv_pod cls) ex ''rabbitmq'' (cr_common c)
                         request True no_wants) (\<lambda>(podIPList, podIPMap).
                bindM (if podIPList \<noteq> []
                       then rabbitmq_pods lib hl cy cls kc request c podIPList podIPMap
                       else ret c) (\<lambda>c.
                bindM (SetInstanceActive (sv_sts cls) kc set_cr_active sts request (active_or_false c)) (\<lambda>_.
                  ret False))))))))))))))"

end
