(* ===== verification/ServiceLaws.thy ===== *)
theory ServiceLaws
  imports Rabbitmq ClusterConf
begin

text \<open>
  Facts on the controllers of Zookeeper, Cassandra and Rabbitmq: the identifiers and configuration
  files of a Zookeeper ensemble, the seeds of a Cassandra ring, the credentials of Rabbitmq, and how
  a reconciliation ends: with the status that it writes.
\<close>

section \<open>Sorting pods by name\<close>

lemma sort_by_name_set [simp]: "set (sort_by_name ps) = set ps"
  by (simp add: sort_by_name_def)

lemma sort_by_name_length [simp]: "length (sort_by_name ps) = length ps"
  by (simp add: sort_by_name_def)

lemma sort_key_unique:
  assumes "mset xs = mset ys" "inj_on f (set xs)"
  shows "sort_key f xs = sort_key f ys"
proof (rule properties_for_sort_key)
  show "mset (sort_key f ys) = mset xs" using assms(1) by simp
  show "sorted (map f (sort_key f ys))" by simp
next
  fix k assume "k \<in> set (sort_key f ys)"
  then have "k \<in> set xs" using assms(1) by (metis mset_eq_setD set_sort)
  have "length (filter (\<lambda>x. f k = f x) zs) = count (mset zs) k" if "mset zs = mset xs" for zs
  proof -
    have s: "set zs = set xs" using that mset_eq_setD by blast
    have "filter (\<lambda>x. f k = f x) zs = filter (\<lambda>x. k = x) zs"
      using assms(2) \<open>k \<in> set xs\<close> s by (intro filter_cong) (auto dest: inj_onD)
    then show ?thesis by (simp add: count_mset count_list_eq_length_filter)
  qed
  moreover have "set (filter (\<lambda>x. f k = f x) zs) \<subseteq> {k}" if "set zs = set xs" for zs
    using assms(2) \<open>k \<in> set xs\<close> that by (auto dest: inj_onD)
  then have "filter (\<lambda>x. f k = f x) zs = replicate (length (filter (\<lambda>x. f k = f x) zs)) k"
    if "set zs = set xs" for zs
    using that by (metis (no_types, lifting) replicate_length_same singletonD subsetD)
  moreover have "set (sort_key f ys) = set xs" using assms(1) by (metis mset_eq_setD set_sort)
  moreover have "mset (sort_key f ys) = mset xs" using assms(1) by simp
  ultimately show "filter (\<lambda>x. f k = f x) (sort_key f ys) = filter (\<lambda>x. f k = f x) xs"
    by metis
qed

lemma sort_by_name_Nil [simp]: "sort_by_name ps = [] \<longleftrightarrow> ps = []"
  by (metis length_0_conv sort_by_name_length)

lemma length_filter_sort_by_name [simp]: "length (filter P (sort_by_name ps)) = length (filter P ps)"
  by (metis filter_sort length_sort sort_by_name_def)

section \<open>The seeds of a Cassandra ring\<close>

lemma seeds_order_independent:
  assumes "mset ps = mset qs" "inj_on (\<lambda>p. om_Name (pod_meta p)) (set ps)"
  shows "seeds ps = seeds qs"
  using sort_key_unique [OF assms] by (simp add: seeds_def sort_by_name_def)

lemma seeds_ready:
  assumes "\<exists>p \<in> set ps. pod_ready p"
  shows "seeds ps = take ((length (filter pod_ready ps) - 1) div 2 + 1)
     (map pod_PodIP (filter pod_ready (sort_by_name ps)))"
  using assms by (auto simp: seeds_def Let_def filter_empty_conv)

lemma seeds_subset: "set (seeds ps) \<subseteq> pod_PodIP ` set ps"
proof -
  have "hd (sort_by_name ps) \<in> set ps" if "sort_by_name ps \<noteq> []"
    using hd_in_set [OF that] by simp
  then show ?thesis
    by (auto simp: seeds_def Let_def dest!: in_set_takeD)
qed

lemma seeds_nonempty: "ps \<noteq> [] \<Longrightarrow> seeds ps \<noteq> []"
  by (simp add: seeds_def Let_def)

lemma length_seeds_ready:
  assumes "\<exists>p \<in> set ps. pod_ready p"
  shows "length (seeds ps) = (length (filter pod_ready ps) - 1) div 2 + 1"
proof -
  have "filter pod_ready ps \<noteq> []" using assms by (simp add: filter_empty_conv)
  then have "1 \<le> length (filter pod_ready ps)" by (simp add: Suc_le_eq)
  then have "(length (filter pod_ready ps) - 1) div 2 + 1 \<le> length (filter pod_ready ps)" by linarith
  then show ?thesis unfolding seeds_ready [OF assms] by simp
qed

section \<open>The identifiers of a Zookeeper ensemble\<close>

text \<open>The digit at the end of the name of a pod.\<close>

definition ordinal_digit :: "pod \<Rightarrow> nat" where
  "ordinal_digit p = digit_val (last (om_Name (pod_meta p)))"

definition numbered :: "pod \<Rightarrow> bool" where
  "numbered p \<longleftrightarrow> om_Name (pod_meta p) \<noteq> [] \<and> is_digit (last (om_Name (pod_meta p)))"

lemma Atoi_digit: "is_digit c \<Longrightarrow> Atoi [c] = Some (int (digit_val c))"
  using is_digit_sign [of c]
  by (auto simp: Atoi_def parse_int_def dec_to_nat_def int64_def digit_val_def is_digit_def)

lemma digit_val_less: "is_digit c \<Longrightarrow> digit_val c < 10"
  by (auto simp: is_digit_def digit_val_def)

lemma digit_val_inj: "is_digit c \<Longrightarrow> is_digit d \<Longrightarrow> digit_val c = digit_val d \<longleftrightarrow> c = d"
  by (auto simp: is_digit_def digit_val_def dest!: eq_diff_iff [THEN iffD1, rotated 2])

lemma ordinal_digit_less: "numbered p \<Longrightarrow> ordinal_digit p < 10"
  by (simp add: numbered_def ordinal_digit_def digit_val_less)

lemma int64_of_small: "n < 10 \<Longrightarrow> int64_of (int n + 1) = int n + 1"
  by (rule int64_of_id) (simp add: int64_def)

definition zk_server :: "string \<Rightarrow> string \<Rightarrow> string \<Rightarrow> pod \<Rightarrow> string" where
  "zk_server ep sp cp p = server_def (int (ordinal_digit p) + 1) (pod_PodIP p) ep sp cp"

text \<open>One round of the loop.\<close>

lemma dynamic_loop_step:
  assumes "numbered p"
  shows "dynamic_loop ep sp cp (p # ps) first conf =
     dynamic_loop ep sp cp ps (if ordinal_digit p = 0 then first @ zk_server ep sp cp p else first)
       (AList.update (''zoo.cfg.dynamic.'' @ pod_PodIP p) (first @ zk_server ep sp cp p)
         (AList.update (''myid.'' @ pod_PodIP p) (Itoa (int (ordinal_digit p) + 1)) conf))"
  using assms int64_of_small [OF ordinal_digit_less [OF assms]] int64_of_small [of 0]
  by (simp add: numbered_def last_char_def Atoi_or_throw_def Atoi_digit ordinal_digit_def zk_server_def Let_def)

text \<open>From the second pod on, with none of them numbered 0.\<close>

lemma dynamic_loop_rest:
  assumes "\<forall>p \<in> set ps. numbered p \<and> ordinal_digit p \<noteq> 0" "distinct (map pod_PodIP ps)"
  shows "\<exists>conf'. dynamic_loop ep sp cp ps first conf s = (Ok conf', s) \<and>
    (\<forall>p \<in> set ps. map_of conf' (''myid.'' @ pod_PodIP p) = Some (Itoa (int (ordinal_digit p) + 1)) \<and>
       map_of conf' (''zoo.cfg.dynamic.'' @ pod_PodIP p) = Some (first @ zk_server ep sp cp p)) \<and>
    (\<forall>ip. ip \<notin> pod_PodIP ` set ps \<longrightarrow>
       map_of conf' (''myid.'' @ ip) = map_of conf (''myid.'' @ ip) \<and>
       map_of conf' (''zoo.cfg.dynamic.'' @ ip) = map_of conf (''zoo.cfg.dynamic.'' @ ip))"
  using assms
proof (induction ps arbitrary: conf)
  case (Cons p ps)
  let ?conf = "AList.update (''zoo.cfg.dynamic.'' @ pod_PodIP p) (first @ zk_server ep sp cp p)
         (AList.update (''myid.'' @ pod_PodIP p) (Itoa (int (ordinal_digit p) + 1)) conf)"
  from Cons.prems Cons.IH [of ?conf] obtain conf' where
    run: "dynamic_loop ep sp cp ps first ?conf s = (Ok conf', s)"
    and own: "\<forall>p \<in> set ps. map_of conf' (''myid.'' @ pod_PodIP p) = Some (Itoa (int (ordinal_digit p) + 1)) \<and>
       map_of conf' (''zoo.cfg.dynamic.'' @ pod_PodIP p) = Some (first @ zk_server ep sp cp p)"
    and rest: "\<forall>ip. ip \<notin> pod_PodIP ` set ps \<longrightarrow>
       map_of conf' (''myid.'' @ ip) = map_of ?conf (''myid.'' @ ip) \<and>
       map_of conf' (''zoo.cfg.dynamic.'' @ ip) = map_of ?conf (''zoo.cfg.dynamic.'' @ ip)"
    by auto
  have "dynamic_loop ep sp cp (p # ps) first conf s = (Ok conf', s)"
    using Cons.prems(1) run by (simp add: dynamic_loop_step del: dynamic_loop.simps)
  moreover have "map_of conf' (''myid.'' @ pod_PodIP p) = Some (Itoa (int (ordinal_digit p) + 1)) \<and>
       map_of conf' (''zoo.cfg.dynamic.'' @ pod_PodIP p) = Some (first @ zk_server ep sp cp p)"
    using rest Cons.prems(2) by (auto simp: update_conv')
  ultimately show ?case using own rest by (auto simp: update_conv')
qed auto

lemma DynamicZookeeperConfig_spec:
  assumes "numbered p" "ordinal_digit p = 0"
    and "\<forall>q \<in> set ps. numbered q \<and> ordinal_digit q \<noteq> 0" "distinct (map pod_PodIP (p # ps))"
  shows "\<exists>conf. DynamicZookeeperConfig (p # ps) ep sp cp s = (Ok conf, s) \<and>
    (\<forall>q \<in> set (p # ps). map_of conf (''myid.'' @ pod_PodIP q) = Some (Itoa (int (ordinal_digit q) + 1))) \<and>
    map_of conf (''zoo.cfg.dynamic.'' @ pod_PodIP p) = Some (zk_server ep sp cp p) \<and>
    (\<forall>q \<in> set ps. map_of conf (''zoo.cfg.dynamic.'' @ pod_PodIP q) =
       Some (zk_server ep sp cp p @ zk_server ep sp cp q))"
proof -
  let ?conf = "AList.update (''zoo.cfg.dynamic.'' @ pod_PodIP p) (zk_server ep sp cp p)
         (AList.update (''myid.'' @ pod_PodIP p) (Itoa (int (ordinal_digit p) + 1)) [])"
  from dynamic_loop_rest [OF assms(3), of ep sp cp "zk_server ep sp cp p" ?conf s] assms(4) obtain conf
    where run: "dynamic_loop ep sp cp ps (zk_server ep sp cp p) ?conf s = (Ok conf, s)"
    and own: "\<forall>p' \<in> set ps. map_of conf (''myid.'' @ pod_PodIP p') = Some (Itoa (int (ordinal_digit p') + 1)) \<and>
       map_of conf (''zoo.cfg.dynamic.'' @ pod_PodIP p') = Some (zk_server ep sp cp p @ zk_server ep sp cp p')"
    and rest: "\<forall>ip. ip \<notin> pod_PodIP ` set ps \<longrightarrow>
       map_of conf (''myid.'' @ ip) = map_of ?conf (''myid.'' @ ip) \<and>
       map_of conf (''zoo.cfg.dynamic.'' @ ip) = map_of ?conf (''zoo.cfg.dynamic.'' @ ip)"
    by auto
  have "DynamicZookeeperConfig (p # ps) ep sp cp s = (Ok conf, s)"
    using assms(1,2) run by (simp add: DynamicZookeeperConfig_def dynamic_loop_step del: dynamic_loop.simps)
  moreover have "map_of conf (''myid.'' @ pod_PodIP p) = Some (Itoa (int (ordinal_digit p) + 1)) \<and>
       map_of conf (''zoo.cfg.dynamic.'' @ pod_PodIP p) = Some (zk_server ep sp cp p)"
    using rest assms(4) by (auto simp: update_conv')
  ultimately show ?thesis using own by auto
qed

text \<open>Pods whose names end in the same digit get the same identifier, as \<open>zk-0\<close> and \<open>zk-10\<close> do.\<close>

lemma same_identifier:
  assumes "numbered p" "numbered q"
  shows "Itoa (int (ordinal_digit p) + 1) = Itoa (int (ordinal_digit q) + 1) \<longleftrightarrow>
     last (om_Name (pod_meta p)) = last (om_Name (pod_meta q))"
proof -
  have "int64 (int (ordinal_digit p) + 1)" "int64 (int (ordinal_digit q) + 1)"
    using assms [THEN ordinal_digit_less] by (simp_all add: int64_def)
  then have "Itoa (int (ordinal_digit p) + 1) = Itoa (int (ordinal_digit q) + 1) \<longleftrightarrow> ordinal_digit p = ordinal_digit q"
    using Itoa_inj by fastforce
  with assms show ?thesis by (simp add: numbered_def ordinal_digit_def digit_val_inj)
qed

section \<open>How a reconciliation ends\<close>

text \<open>
  What the library promises: an owner reference does not change the name of an object, and a
  created object keeps its name.  \<open>names_kept\<close> collects the two for the stateful sets.
\<close>

definition names_kept :: "k8s_lib \<Rightarrow> (stateful_set, 's) kind_client \<Rightarrow> bool" where
  "names_kept lib kc \<longleftrightarrow>
     (\<forall>owner m m'. SetControllerReference lib owner m = Inr m' \<longrightarrow> om_Name m' = om_Name m) \<and>
     (\<forall>x s y s'. kc_Create kc x s = (Ok y, s') \<longrightarrow> om_Name (sts_meta y) = om_Name (sts_meta x))"

lemma PrepareSTS_name:
  assumes "names_kept lib kc" "PrepareSTS lib sts0 cc ty request owner w s = (Ok sts, s')"
  shows "om_Name (sts_meta sts) = sts_name request ty"
  using assms by (auto simp: PrepareSTS_def Let_def go_simps names_kept_def)

lemma set_version_meta: "set_version v sts s = (Ok sts', s') \<Longrightarrow> sts_meta sts' = sts_meta sts"
  by (auto simp: set_version_def go_simps)

lemma CreateSTS_name:
  assumes "names_kept lib kc" "CreateSTS lib kc sts ty request s = (Ok sts', s')"
  shows "om_Name (sts_meta sts') = om_Name (sts_meta sts)"
proof -
  from assms(2) obtain r t where "tryM (kc_Get kc (fst request, sts_name request ty)) s = (Ok r, t)"
    and r: "(case r of Inr _ \<Rightarrow> ret sts | Inl err \<Rightarrow>
        if IsNotFound lib err then bindM (set_version ''1'' sts) (kc_Create kc) else ret sts) t = (Ok sts', s')"
    unfolding CreateSTS_def by (auto elim!: bindM_OkE)
  then show ?thesis
    using assms(1) by (auto simp: names_kept_def set_version_meta elim!: bindM_OkE split: sum.splits if_splits) (metis set_version_meta)
qed

lemma update_spec_meta [simp]: "sts_meta (update_spec f sts) = sts_meta sts"
  by (simp add: update_spec_def)

lemma add_volumes_meta [simp]:
  "sts_meta (AddVolumesToIntendedSTS ord sts m) = sts_meta sts"
  "sts_meta (AddSecretVolumesToIntendedSTS ord sts m) = sts_meta sts"
  by (simp_all add: AddVolumesToIntendedSTS_def AddSecretVolumesToIntendedSTS_def)

lemma cassandra_intended_meta:
  assumes "cassandra_intended_sts lib kc ord pq random request c cm sec sts0 s = (Ok (q, sts), s')"
  shows "sts_meta sts = sts_meta sts0"
  using assms by (auto simp: cassandra_intended_sts_def Let_def elim!: bindM_OkE)

lemma zookeeper_intended_meta:
  assumes "zookeeper_intended_sts ord request zk cm q sts0 s = (Ok sts, s')"
  shows "sts_meta sts = sts_meta sts0"
  using assms by (auto simp: zookeeper_intended_sts_def Let_def elim!: bindM_OkE)

lemma rabbitmq_intended_meta:
  assumes "rabbitmq_intended_sts ord request c cm cm2 sec sts0 s = (Ok sts, s')"
  shows "sts_meta sts = sts_meta sts0"
  using assms by (auto simp: rabbitmq_intended_sts_def Let_def elim!: bindM_OkE)

text \<open>The stateful set that the last step reads, and the status that it writes.\<close>

definition ends_with_status ::
  "(stateful_set, 's) kind_client \<Rightarrow> ('c cr, 's) kind_client \<Rightarrow> namespaced_name
    \<Rightarrow> (int \<Rightarrow> int \<Rightarrow> bool) \<Rightarrow> 's \<Rightarrow> bool" where
  "ends_with_status stss kc stskey act s' \<longleftrightarrow>
     (\<exists>sts replicas c t u. kc_Get stss stskey t = (Ok sts, u) \<and> sts_Replicas sts = Some replicas \<and>
        st_Active (cr_status c) = Some (act replicas (sts_ReadyReplicas sts)) \<and>
        kc_StatusUpdate kc c u = (Ok (), s'))"

lemma ends_with_statusI:
  assumes "kc_Get stss stskey t = (Ok sts, u)" "sts_Replicas sts = Some replicas"
    and "kc_StatusUpdate kc (set_cr_active (act replicas (sts_ReadyReplicas sts)) c) u = (Ok x, s')"
  shows "ends_with_status stss kc stskey act s'"
  unfolding ends_with_status_def
proof (intro exI conjI)
  show "st_Active (cr_status (set_cr_active (act replicas (sts_ReadyReplicas sts)) c)) =
      Some (act replicas (sts_ReadyReplicas sts))"
    by (simp add: set_cr_active_def)
qed (use assms in simp_all)

lemma Cassandra_SetInstanceActive_ends:
  assumes "Cassandra_SetInstanceActive stss kc sts request c s = (Ok c', s')"
  shows "ends_with_status stss kc (fst request, om_Name (sts_meta sts))
     (\<lambda>replicas up. acceptableReadyReplicaCnt replicas \<le> up) s'"
  using assms
  by (auto simp: Cassandra_SetInstanceActive_def Let_def deref_ptr_Ok_iff elim!: bindM_OkE intro: ends_with_statusI)

lemma SetInstanceActive_ends:
  assumes "SetInstanceActive stss kc set_cr_active sts request c s = (Ok c', s')"
  shows "ends_with_status stss kc (fst request, om_Name (sts_meta sts)) (\<lambda>replicas up. up = replicas) s'"
  using assms
  by (auto simp: SetInstanceActive_def Let_def deref_ptr_Ok_iff elim!: bindM_OkE intro: ends_with_statusI)

lemma get_instance_live:
  "kc_Get kc request s = (Ok c, t) \<Longrightarrow> get_instance lib kc zero request s = (Ok (Some c), t)"
  by (simp add: get_instance_def)

text \<open>The quorum: more than half of the replicas.\<close>

lemma acceptable_quorum:
  assumes "0 \<le> replicas" "replicas < 2 ^ 31"
  shows "acceptableReadyReplicaCnt replicas \<le> up \<longleftrightarrow> replicas < 2 * up"
  using assms by (auto simp: acceptableReadyReplicaCnt_def half_def int32_of_def)

lemma Cassandra_Reconcile_ends:
  assumes names: "names_kept lib (sv_sts cls)"
    and get: "kc_Get kc request s = (Ok c, s0)" and alive: "\<not> om_Deleted (cr_meta c)"
    and run: "Cassandra_Reconcile lib ord ord1 ord2 pq random cy ex cls kc request s = (Ok b, s')"
  shows "\<not> b \<and> ((\<exists>svc sv t. Service_EnsureExists lib (sv_service cls) ord1 ord2 sv t = (Ok svc, s') \<and> ClusterIP svc = [])
     \<or> ends_with_status (sv_sts cls) kc (fst request, sts_name request ''cassandra'')
         (\<lambda>replicas up. acceptableReadyReplicaCnt replicas \<le> up) s')"
proof -
  from run alive show ?thesis
    unfolding Cassandra_Reconcile_def Let_def
    by (auto simp: get_instance_live [OF get] elim!: bindM_OkE split: if_splits prod.splits
        dest!: PrepareSTS_name [OF names] cassandra_intended_meta CreateSTS_name [OF names]
          Cassandra_SetInstanceActive_ends) blast
qed

lemma Zookeeper_Reconcile_ends:
  assumes names: "names_kept lib (sv_sts cls)"
    and get: "kc_Get kc request s = (Ok c, s0)" and alive: "\<not> om_Deleted (cr_meta c)"
    and run: "Zookeeper_Reconcile lib ord pq ex cls kc request s = (Ok b, s')"
  shows "if b then \<exists>pods t e. SetPodsToReady (sv_pod cls) pods t = (Err e, s')
     else ends_with_status (sv_sts cls) kc (fst request, sts_name request ''zookeeper'') (\<lambda>replicas up. up = replicas) s'"
proof -
  have fin: "\<not> b' \<and> ends_with_status (sv_sts cls) kc (fst request, om_Name (sts_meta sts)) (\<lambda>replicas up. up = replicas) s'"
    if "zookeeper_finish lib cls kc request sts zk t = (Ok b', s')" for sts zk t b'
    using that by (auto simp: zookeeper_finish_def elim!: bindM_OkE dest!: SetInstanceActive_ends)
  have rq: "\<exists>pods t e. SetPodsToReady (sv_pod cls) pods t = (Err e, s')"
    if "zookeeper_pods lib cls kc ex request cm zk ps m t = (Ok None, s')" for cm zk ps m t
    using that by (auto simp: zookeeper_pods_def Let_def tryM_Ok_iff elim!: bindM_OkE split: sum.splits) blast
  from run alive show ?thesis
    unfolding Zookeeper_Reconcile_def Let_def
    by (auto simp: get_instance_live [OF get] elim!: bindM_OkE split: if_splits prod.splits option.splits
        dest!: PrepareSTS_name [OF names] zookeeper_intended_meta CreateSTS_name [OF names] fin rq)
qed

lemma Rabbitmq_Reconcile_ends:
  assumes names: "names_kept lib (sv_sts cls)"
    and get: "kc_Get kc request s = (Ok c, s0)" and alive: "\<not> om_Deleted (cr_meta c)"
    and run: "Rabbitmq_Reconcile lib ord generate hl cy ex cls kc request s = (Ok b, s')"
  shows "\<not> b \<and> ends_with_status (sv_sts cls) kc (fst request, sts_name request ''rabbitmq'') (\<lambda>replicas up. up = replicas) s'"
proof -
  from run alive show ?thesis
    unfolding Rabbitmq_Reconcile_def Let_def
    by (auto simp: get_instance_live [OF get] elim!: bindM_OkE split: if_splits prod.splits
        dest!: PrepareSTS_name [OF names] rabbitmq_intended_meta CreateSTS_name [OF names] SetInstanceActive_ends)
qed

section \<open>The credentials of Rabbitmq\<close>

lemma map_of_set_if_missing:
  "map_of (set_if_missing k v d) k' = (if k' = k \<and> map_of d k = None then Some v else map_of d k')"
  by (auto simp: set_if_missing_def update_conv')

lemma rabbitmq_credentials_Ok:
  assumes "rabbitmq_credentials generate conf sec s = (Ok sec', s')"
  shows "(\<forall>k v. map_of (map_entries (sec_Data sec)) k = Some v \<longrightarrow> map_of (map_entries (sec_Data sec')) k = Some v) \<and>
     (\<forall>k \<in> {''password'', ''user'', ''vhost''}. map_of (map_entries (sec_Data sec')) k \<noteq> None) \<and>
     (rb_Password conf \<noteq> [] \<longrightarrow> map_of (map_entries (sec_Data sec)) ''password'' = None \<longrightarrow>
        map_of (map_entries (sec_Data sec')) ''password'' = Some (rb_Password conf))"
proof -
  from assms obtain p u v where
    d: "map_entries (sec_Data sec') = set_if_missing ''vhost'' v (set_if_missing ''user'' u
          (set_if_missing ''password'' p (map_entries (sec_Data sec))))"
    and p: "rb_Password conf \<noteq> [] \<longrightarrow> p = rb_Password conf"
    by (force simp: rabbitmq_credentials_def given_or_random_def map_entries_def elim!: bindM_OkE)
  show ?thesis
    unfolding d map_of_set_if_missing using p by simp
qed

end
