(* ===== verification/ClusterInfo.thy ===== *)
theory ClusterInfo
  imports K8s
begin

text \<open>
  \<open>pkg/k8s/cluster_info.go\<close> and \<open>pkg/openshift/cluster_info.go\<close>: where the API server of the
  cluster is and which subnets it uses.  \<open>yaml.Unmarshal\<close>, the typed and the dynamic client and
  \<open>unstructured.NestedString\<close> are parameters; \<open>net.SplitHostPort\<close> of the standard library is
  defined here.
\<close>

section \<open>net.SplitHostPort\<close>

definition AddrError :: "string \<Rightarrow> string \<Rightarrow> go_error" where
  "AddrError addr why =
     errors_New (if addr \<noteq> [] then ''address '' @ addr @ '': '' @ why else why)"

text \<open>The index of the first and of the last occurrence of a character.\<close>

fun first_index :: "char \<Rightarrow> string \<Rightarrow> nat option" where
  "first_index c [] = None"
| "first_index c (x # xs) = (if x = c then Some 0 else map_option Suc (first_index c xs))"

fun last_index :: "char \<Rightarrow> string \<Rightarrow> nat option" where
  "last_index c [] = None"
| "last_index c (x # xs) =
     (case last_index c xs of Some i \<Rightarrow> Some (Suc i) | None \<Rightarrow> if x = c then Some 0 else None)"

text \<open>The last two tests: brackets where none may be.\<close>

definition check_brackets ::
  "string \<Rightarrow> nat \<Rightarrow> nat \<Rightarrow> nat \<Rightarrow> string \<Rightarrow> go_error + string \<times> string" where
  "check_brackets hostport i j k host =
     (if CHR ''['' \<in> set (drop j hostport) then Inl (AddrError hostport (''unexpected '' @ [CHR 0x27] @ ''['' @ [CHR 0x27] @ '' in address''))
      else if CHR '']'' \<in> set (drop k hostport) then Inl (AddrError hostport (''unexpected '' @ [CHR 0x27] @ '']'' @ [CHR 0x27] @ '' in address''))
      else Inr (host, drop (i + 1) hostport))"

definition SplitHostPort :: "string \<Rightarrow> go_error + string \<times> string" where
  "SplitHostPort hostport =
     (case last_index (CHR '':'') hostport of
        None \<Rightarrow> Inl (AddrError hostport ''missing port in address'')
      | Some i \<Rightarrow>
          if hostport ! 0 = CHR ''[''
          then (case first_index (CHR '']'') hostport of
                  None \<Rightarrow> Inl (AddrError hostport (''missing '' @ [CHR 0x27] @ '']'' @ [CHR 0x27] @ '' in address''))
                | Some e \<Rightarrow>
                    if e + 1 = length hostport then Inl (AddrError hostport ''missing port in address'')
                    else if e + 1 = i then check_brackets hostport i 1 (e + 1) (drop 1 (take e hostport))
                    else if hostport ! (e + 1) = CHR '':''
                         then Inl (AddrError hostport ''too many colons in address'')
                         else Inl (AddrError hostport ''missing port in address''))
          else if CHR '':'' \<in> set (take i hostport)
               then Inl (AddrError hostport ''too many colons in address'')
               else check_brackets hostport i 0 0 (take i hostport))"

text \<open>The error of \<open>strconv.Atoi\<close>, for a text without characters that \<open>strconv.Quote\<close> escapes.\<close>

definition Atoi_error :: "string \<Rightarrow> go_error" where
  "Atoi_error s =
     errors_New (''strconv.Atoi: parsing '' @ [CHR 0x22] @ s @ [CHR 0x22] @ '': ''
       @ (if parse_int s = None then ''invalid syntax'' else ''value out of range''))"

section \<open>Kubernetes\<close>

record kubeadm_config =
  kac_ControlPlaneEndpoint :: string
  kac_ClusterName :: string
  kac_PodNetwork :: string
  kac_ServiceSubnet :: string

text \<open>The lines that the five functions share: read the config map and decode its entry.\<close>

definition kubeadm_ClusterConfiguration ::
  "(config_map, 's) kind_client \<Rightarrow> (string \<Rightarrow> go_error + kubeadm_config) \<Rightarrow> ('s, go_error, kubeadm_config) go" where
  "kubeadm_ClusterConfiguration kc Unmarshal =
     bindM (kc_Get kc (''kube-system'', ''kubeadm-config'')) (\<lambda>kcm.
       sum_result (Unmarshal (case map_of (map_entries (cm_Data kcm)) ''ClusterConfiguration'' of
         None \<Rightarrow> [] | Some c \<Rightarrow> c)))"

definition KubernetesAPISSLPort ::
  "(config_map, 's) kind_client \<Rightarrow> (string \<Rightarrow> go_error + kubeadm_config) \<Rightarrow> ('s, go_error, int) go" where
  "KubernetesAPISSLPort kc Unmarshal =
     bindM (kubeadm_ClusterConfiguration kc Unmarshal) (\<lambda>c.
     bindM (sum_result (SplitHostPort (kac_ControlPlaneEndpoint c))) (\<lambda>(_, port).
       case Atoi port of
         Some p \<Rightarrow> ret p
       | None \<Rightarrow> throw (Atoi_error port)))"

definition KubernetesAPIServer ::
  "(config_map, 's) kind_client \<Rightarrow> (string \<Rightarrow> go_error + kubeadm_config) \<Rightarrow> ('s, go_error, string) go" where
  "KubernetesAPIServer kc Unmarshal =
     bindM (kubeadm_ClusterConfiguration kc Unmarshal) (\<lambda>c.
     bindM (sum_result (SplitHostPort (kac_ControlPlaneEndpoint c))) (\<lambda>(host, _). ret host))"

definition KubernetesClusterName ::
  "(config_map, 's) kind_client \<Rightarrow> (string \<Rightarrow> go_error + kubeadm_config) \<Rightarrow> ('s, go_error, string) go" where
  "KubernetesClusterName kc Unmarshal =
     bindM (kubeadm_ClusterConfiguration kc Unmarshal) (\<lambda>c. ret (kac_ClusterName c))"

definition PodSubnets ::
  "(config_map, 's) kind_client \<Rightarrow> (string \<Rightarrow> go_error + kubeadm_config) \<Rightarrow> ('s, go_error, string) go" where
  "PodSubnets kc Unmarshal =
     bindM (kubeadm_ClusterConfiguration kc Unmarshal) (\<lambda>c. ret (kac_PodNetwork c))"

definition ServiceSubnets ::
  "(config_map, 's) kind_client \<Rightarrow> (string \<Rightarrow> go_error + kubeadm_config) \<Rightarrow> ('s, go_error, string) go" where
  "ServiceSubnets kc Unmarshal =
     bindM (kubeadm_ClusterConfiguration kc Unmarshal) (\<lambda>c. ret (kac_ServiceSubnet c))"

definition k8s_CNIBinariesDirectory :: string where
  "k8s_CNIBinariesDirectory = ''/opt/cni/bin''"

definition k8s_DeploymentType :: string where
  "k8s_DeploymentType = ''k8s''"

section \<open>OpenShift\<close>

record install_config =
  ic_Name :: string
  ic_ClusterNetwork :: "string list"
  ic_ServiceNetwork :: "string list"

text \<open>The ports (name and number) of the subsets of an \<open>Endpoints\<close> object.\<close>

record endpoints =
  ep_meta :: object_meta
  ep_Subsets :: "(string \<times> int) list list"

definition getInstallConfig ::
  "(config_map, 's) kind_client \<Rightarrow> (string \<Rightarrow> go_error + install_config) \<Rightarrow> ('s, go_error, install_config) go" where
  "getInstallConfig kc Unmarshal =
     bindM (kc_Get kc (''kube-system'', ''cluster-config-v1'')) (\<lambda>ccm.
       sum_result (Unmarshal (case map_of (map_entries (cm_Data ccm)) ''install-config'' of
         None \<Rightarrow> [] | Some c \<Rightarrow> c)))"

definition openshift_KubernetesAPISSLPort :: "(endpoints, 's) kind_client \<Rightarrow> ('s, go_error, int) go" where
  "openshift_KubernetesAPISSLPort kc =
     bindM (kc_Get kc (''default'', ''kubernetes'')) (\<lambda>kubernetesEndpoint.
       case ep_Subsets kubernetesEndpoint of
         [] \<Rightarrow> throw (errors_New ''No subsets found'')
       | subset0 # _ \<Rightarrow>
           (case find (\<lambda>(name, _). name = ''https'') subset0 of
              Some (_, port) \<Rightarrow> ret port
            | None \<Rightarrow> throw (errors_New ''No https port found'')))"

text \<open>\<open>dns\<close> reads the resource \<open>dnses/cluster\<close>, \<open>NestedString\<close> the field \<open>spec.baseDomain\<close> of it.\<close>

definition openshift_KubernetesAPIServer ::
  "('s, go_error, 'u) go \<Rightarrow> ('u \<Rightarrow> string list \<Rightarrow> go_error + string) \<Rightarrow> ('s, go_error, string) go" where
  "openshift_KubernetesAPIServer dns NestedString =
     bindM dns (\<lambda>u.
     bindM (sum_result (NestedString u [''spec'', ''baseDomain''])) (\<lambda>apiServer.
       ret (''api.'' @ apiServer)))"

definition openshift_KubernetesClusterName ::
  "(config_map, 's) kind_client \<Rightarrow> (string \<Rightarrow> go_error + install_config) \<Rightarrow> ('s, go_error, string) go" where
  "openshift_KubernetesClusterName kc Unmarshal =
     bindM (getInstallConfig kc Unmarshal) (\<lambda>c. ret (ic_Name c))"

text \<open>Reading the first element of an empty slice is a panic.\<close>

definition first_or_panic :: "string list \<Rightarrow> ('s, go_error, string) go" where
  "first_or_panic xs = (case xs of [] \<Rightarrow> panic ''index out of range'' | x # _ \<Rightarrow> ret x)"

definition openshift_PodSubnets ::
  "(config_map, 's) kind_client \<Rightarrow> (string \<Rightarrow> go_error + install_config) \<Rightarrow> ('s, go_error, string) go" where
  "openshift_PodSubnets kc Unmarshal =
     bindM (getInstallConfig kc Unmarshal) (\<lambda>c. first_or_panic (ic_ClusterNetwork c))"

definition openshift_ServiceSubnets ::
  "(config_map, 's) kind_client \<Rightarrow> (string \<Rightarrow> go_error + install_config) \<Rightarrow> ('s, go_error, string) go" where
  "openshift_ServiceSubnets kc Unmarshal =
     bindM (getInstallConfig kc Unmarshal) (\<lambda>c. first_or_panic (ic_ServiceNetwork c))"

definition openshift_CNIBinariesDirectory :: string where
  "openshift_CNIBinariesDirectory = ''/var/lib/cni/bin''"

definition openshift_DeploymentType :: string where
  "openshift_DeploymentType = ''openshift''"

section \<open>Addresses\<close>

lemma last_index_None [simp]: "c \<notin> set xs \<Longrightarrow> last_index c xs = None"
  by (induction xs) auto

lemma last_index_append:
  "c \<notin> set ys \<Longrightarrow> last_index c (xs @ c # ys) = Some (length xs)"
  by (induction xs) auto

lemma first_index_append:
  "c \<notin> set xs \<Longrightarrow> first_index c (xs @ c # ys) = Some (length xs)"
  by (induction xs) auto

text \<open>A host name or IPv4 address and a port.\<close>

lemma SplitHostPort_host:
  assumes "set host \<inter> {CHR '':'', CHR ''['', CHR '']''} = {}"
    and "set port \<inter> {CHR '':'', CHR ''['', CHR '']''} = {}"
  shows "SplitHostPort (host @ '':'' @ port) = Inr (host, port)"
proof -
  have "last_index (CHR '':'') (host @ '':'' @ port) = Some (length host)"
    using assms by (auto intro: last_index_append)
  moreover have "(host @ '':'' @ port) ! 0 \<noteq> CHR ''[''"
    using assms by (cases host) auto
  ultimately show ?thesis
    using assms by (auto simp: SplitHostPort_def check_brackets_def)
qed

text \<open>An IPv6 address in brackets and a port.\<close>

lemma SplitHostPort_brackets:
  assumes "set host \<inter> {CHR ''['', CHR '']''} = {}"
    and "set port \<inter> {CHR '':'', CHR ''['', CHR '']''} = {}"
  shows "SplitHostPort (''['' @ host @ '']:'' @ port) = Inr (host, port)"
proof -
  have "last_index (CHR '':'') ((''['' @ host @ '']'') @ CHR '':'' # port) = Some (length host + 2)"
    using assms last_index_append [of "CHR '':''" port "''['' @ host @ '']''"] by auto
  moreover have "first_index (CHR '']'') ((''['' @ host) @ CHR '']'' # (CHR '':'' # port)) = Some (length host + 1)"
    using assms first_index_append [of "CHR '']''" "''['' @ host" "CHR '':'' # port"] by auto
  ultimately show ?thesis
    using assms by (auto simp: SplitHostPort_def check_brackets_def)
qed

end
