(* ===== verification/ServiceProps.thy ===== *)
theory ServiceProps
  imports ServiceLaws ClusterInfo OperatorProps
begin

text \<open>
  The properties of the event handlers, of the objects that the controllers keep in the cluster and
  of the controllers of Zookeeper, Cassandra and Rabbitmq.
\<close>

text \<open>
  C25: the handler \<open>RequestForOwnerGroupKind\<close>, once it has its mapper, calls \<open>Add\<close> of the work
  queue, whatever this does, for every event and every metadata of it (for an update the old before
  the new) exactly with the requests for the owners of the right group and kind, in the order of the
  references; they carry the namespace of the object unless the owner is a cluster resource.  An
  object with a reference whose version does not parse or has no mapping gives none.  If moreover the
  queue takes a request that is already waiting only once, as client-go documents, then after the
  events exactly these requests and those that were waiting before are waiting, each once.
\<close>

theorem owner_events:
  "let e' = e\<lparr>fo_mapper := Some mapper\<rparr>;
       rs = concat (map (\<lambda>ev. concat (map (\<lambda>evt.
          let refs = getOwnersReferences e' evt
          in if \<exists>ref \<in> set refs. blocked am e' mapper ref then []
             else map (ref_request am e' mapper (case evt of None \<Rightarrow> [] | Some m \<Rightarrow> om_Namespace m))
                    (filter (ref_matches am e') refs)) (event_metas ev))) evs)
   in forM evs (deliver (RequestForOwnerGroupKind add am e')) q = (Ok (), fold add rs q) \<and>
     (adds_once add waiting \<longrightarrow> set (waiting (fold add rs q)) = set (waiting q) \<union> set rs \<and>
        (distinct (waiting q) \<longrightarrow> distinct (waiting (fold add rs q))))"
proof -
  have "forM evs (deliver (RequestForOwnerGroupKind add am (e\<lparr>fo_mapper := Some mapper\<rparr>))) q =
     (Ok (), fold add (concat (map (\<lambda>ev. concat (map
        (owner_reqs am (e\<lparr>fo_mapper := Some mapper\<rparr>) mapper) (event_metas ev))) evs)) q)"
    by (subst fo.deliver_all) (simp_all add: fo.event_requests_def [abs_def])
  then show ?thesis
    by (simp add: owner_reqs_def [abs_def] Let_def fold_adds_once)
qed

text \<open>
  The events of \<open>enqueue_request_for_owner_group_kind_test.go\<close>: one pod is created, updated, deleted
  and reported; on a queue that takes a waiting request once, one request waits.
\<close>

definition ex_owner_am :: "unit apimachinery" where
  "ex_owner_am = \<lparr>am_FromAPIVersionAndKind = \<lambda>v k. \<lparr>gk_Group = v, gk_Kind = k\<rparr>,
     am_GroupKind_String = (\<lambda>k. gk_Kind k @ ''.'' @ gk_Group k),
     am_ParseGroupVersion = (\<lambda>v. Inr (takeWhile (\<lambda>c. c \<noteq> CHR ''/'') v, tl (dropWhile (\<lambda>c. c \<noteq> CHR ''/'') v))),
     am_ObjectKinds = (\<lambda>_. Inr []), am_RESTMapping = (\<lambda>_ _. Inr ''owner-scope'')\<rparr>"

definition ex_owner_handler :: "unit for_owner" where
  "ex_owner_handler = \<lparr>fo_OwnerType = (), fo_IsController = False,
     fo_NewGroupKind = \<lparr>gk_Group = ''owner-group'', gk_Kind = ''owner-kind''\<rparr>,
     fo_groupKind = \<lparr>gk_Group = ''owner-group'', gk_Kind = ''owner-kind''\<rparr>,
     fo_mapper = Some (\<lambda>_ _. Inr ''owner-scope'')\<rparr>"

definition ex_owned_pod :: object_meta where
  "ex_owned_pod = new_meta\<lparr>om_OwnerReferences := [\<lparr>or_APIVersion = ''owner-group/owner-version'',
     or_Kind = ''owner-kind'', or_Name = ''owner-name'', or_UID = ''owner-uid'',
     or_Controller = Some True, or_BlockOwnerDeletion = Some False\<rparr>]\<rparr>"

definition ex_owner_events :: "k8s_event list" where
  "ex_owner_events = [CreateEvent (Some ex_owned_pod), UpdateEvent (Some ex_owned_pod) (Some ex_owned_pod),
     DeleteEvent (Some ex_owned_pod), GenericEvent (Some ex_owned_pod)]"

definition ex_add_once :: "namespaced_name list queue_add" where
  "ex_add_once r q = (if r \<in> set q then q else q @ [r])"

theorem owner_events_witness:
  "adds_once ex_add_once (\<lambda>q. q) \<and>
   (\<exists>q. forM ex_owner_events (deliver (RequestForOwnerGroupKind ex_add_once ex_owner_am
            (ex_owner_handler\<lparr>fo_mapper := Some (am_RESTMapping ex_owner_am)\<rparr>))) [] = (Ok (), q) \<and>
      set q = {([], ''owner-kind.owner-group/owner-name'')} \<and> distinct q)"
proof -
  have once: "adds_once ex_add_once (\<lambda>q. q)"
    by (simp add: adds_once_def ex_add_once_def)
  define run where "run = forM ex_owner_events (deliver (RequestForOwnerGroupKind ex_add_once ex_owner_am
    (ex_owner_handler\<lparr>fo_mapper := Some (am_RESTMapping ex_owner_am)\<rparr>))) []"
  from owner_events [where e = ex_owner_handler and mapper = "am_RESTMapping ex_owner_am" and am = ex_owner_am
      and evs = ex_owner_events and add = ex_add_once and q = "[]" and waiting = "\<lambda>q. q"] once
  show ?thesis
    unfolding run_def [symmetric] Let_def
    by (simp add: ex_owner_events_def ex_owned_pod_def ex_owner_am_def ex_owner_handler_def new_meta_def
        getOwnersReferences_def blocked_def ref_matches_def ref_scope_def ref_request_def)
qed

text \<open>
  C28: a service that is updated keeps the node port of every port it already had and its cluster
  address; it gets exactly the configured ports, each with its name and the protocol TCP, and a new
  port has node port 0, which lets the cluster choose.
\<close>

theorem Service_keeps_node_ports:
  assumes srv: "kind_server lib kc svc_meta objects"
    and ord: "range_perm ord1" "range_perm ord2"
    and run: "Service_EnsureExists lib kc ord1 ord2 sv s = (Ok sv', s')"
    and old: "objects s (om_Namespace (sc_owner sv), sc_name sv) = Some svc0"
  shows "\<exists>svc. objects s' (om_Namespace (sc_owner sv), sc_name sv) = Some svc \<and> sc_svc sv' = svc \<and>
     svc_ClusterIP svc = svc_ClusterIP svc0 \<and> svc_Type svc = sc_servType sv \<and>
     (\<forall>p. p \<in> set (svc_Ports svc) \<longleftrightarrow>
        (sp_Port p, sp_Name p) \<in> set (sc_ports sv) \<and> sp_Protocol p = ''TCP'' \<and>
        sp_NodePort p = (case find (\<lambda>q. sp_Port q = sp_Port p) (rev (svc_Ports svc0)) of
                           None \<Rightarrow> 0 | Some q \<Rightarrow> sp_NodePort q))"
proof -
  from Service_EnsureExists_result [OF srv run] old obtain svc t where
    m: "service_mutate lib ord1 ord2 sv svc0 s = (Ok svc, t)" and "sv' = sv\<lparr>sc_svc := svc\<rparr>"
    and "objects s' (om_Namespace (sc_owner sv), sc_name sv) = Some svc"
    by auto
  moreover have "p \<in> set (svc_Ports svc) \<longleftrightarrow>
        (sp_Port p, sp_Name p) \<in> set (sc_ports sv) \<and> sp_Protocol p = ''TCP'' \<and>
        sp_NodePort p = (case find (\<lambda>q. sp_Port q = sp_Port p) (rev (svc_Ports svc0)) of
                           None \<Rightarrow> 0 | Some q \<Rightarrow> sp_NodePort q)" for p
  proof (cases "(sp_Port p, sp_Name p) \<in> set (sc_ports sv)")
    case True
    then have "sp_Port p \<in> fst ` set (sc_ports sv)" by force
    from map_of_portToNodePortMap [OF ord(1) this] service_mutate_Ok [OF m] show ?thesis
      by (auto simp: set_servicePortList [OF ord(2)] split: option.splits)
  qed (use service_mutate_Ok [OF m] in \<open>auto simp: set_servicePortList [OF ord(2)]\<close>)
  ultimately show ?thesis using service_mutate_Ok [OF m] by auto
qed

definition ex_service :: k8s_service where
  "ex_service = new_service\<lparr>svc_meta := ex_meta ''web'', svc_ClusterIP := ''10.0.0.9'',
     svc_Ports := [\<lparr>sp_Name = [], sp_Port = 80, sp_Protocol = ''TCP'', sp_NodePort = 31000\<rparr>]\<rparr>"

theorem Service_keeps_node_ports_witness:
  "\<exists>s' svc. Service_EnsureExists mem_lib (mem_client (\<lambda>s. s) (\<lambda>v s. v) [] svc_meta) in_order in_order
       (Kubernetes_Service ''web'' ''NodePort'' [(80, ''http''), (443, ''https'')] ''webui'' (ex_meta ''w''))
       [(''ns'', ''web'') \<mapsto> ex_service] = (Ok svc, s') \<and> ClusterIP svc = ''10.0.0.9'' \<and>
     \<lparr>sp_Name = ''http'', sp_Port = 80, sp_Protocol = ''TCP'', sp_NodePort = 31000\<rparr> \<in> set (svc_Ports (sc_svc svc)) \<and>
     \<lparr>sp_Name = ''https'', sp_Port = 443, sp_Protocol = ''TCP'', sp_NodePort = 0\<rparr> \<in> set (svc_Ports (sc_svc svc))"
proof -
  let ?kc = "mem_client (\<lambda>s. s) (\<lambda>v s. v) [] svc_meta"
  let ?sv = "Kubernetes_Service ''web'' ''NodePort'' [(80, ''http''), (443, ''https'')] ''webui'' (ex_meta ''w'')"
  let ?s = "[(''ns'', ''web'') \<mapsto> ex_service]"
  have key: "om_Namespace (sc_owner ?sv) = ''ns''" "sc_name ?sv = ''web''"
    "sc_ports ?sv = [(80, ''http''), (443, ''https'')]"
    by (simp_all add: Kubernetes_Service_def ex_meta_def new_meta_def)
  obtain svc s' where run: "Service_EnsureExists mem_lib ?kc in_order in_order ?sv ?s = (Ok svc, s')"
    by (auto simp: Service_EnsureExists_def mem_client_def mem_lib_def service_mutate_def Let_def bindM_def ret_def)
  from Service_keeps_node_ports [OF memk.kind_server_axioms range_perm_in_order range_perm_in_order run, of ex_service] run
  show ?thesis
    by (auto simp: key ClusterIP_def ex_service_def)
qed

text \<open>
  C24: when the certificates of the pods of a service are ensured without an error, every pod has
  an address and its key and certificate are in the secret, and no key or certificate that the
  secret had has changed.
\<close>

theorem certificates_kept:
  assumes srv: "kind_server lib kc sec_meta objects"
    and run: "EnsureExistsAndIsSigned lib cy kc owner subjects ty s = (Ok u, s')"
    and old: "objects s (om_Namespace owner, om_Name owner @ ''-secret-certificates'') = Some secret"
    and key: "key_of (sec_meta secret) = (om_Namespace owner, om_Name owner @ ''-secret-certificates'')"
  shows "\<exists>secret'. objects s' (om_Namespace owner, om_Name owner @ ''-secret-certificates'') = Some secret' \<and>
     (\<forall>subject \<in> set subjects. subj_ip subject \<noteq> [] \<and> certInSecret secret' (subj_ip subject)) \<and>
     (\<forall>ip. certInSecret secret ip \<longrightarrow> cert_entry secret' ip = cert_entry secret ip)"
proof -
  from Secret_EnsureExists_existing [where objects = objects and s = s and s' = s', OF srv run [unfolded EnsureExistsAndIsSigned_def] old key] obtain sec w
    where f: "FillSecret cy (SignCertificate cy kc owner) subjects secret s = (Ok sec, w)"
    and o: "objects s' = (objects w)((om_Namespace owner, om_Name owner @ ''-secret-certificates'') \<mapsto> sec)"
    by blast
  have "objects s' (om_Namespace owner, om_Name owner @ ''-secret-certificates'') = Some sec"
    unfolding o by (rule fun_upd_same)
  with FillSecret_Ok [OF f] show ?thesis unfolding keeps_certs_def by blast
qed

definition ex_cert_name :: string where
  "ex_cert_name = ''web'' @ ''-secret-certificates''"

definition ex_certs :: k_secret where
  "ex_certs = \<lparr>sec_meta = ex_meta ex_cert_name,
     sec_Data = Some [(serverPrivateKeyFileName ''1.1.1.1'', ''key''), (serverCertificateFileName ''1.1.1.1'', ''cert'')],
     sec_StringData = None, sec_Type = []\<rparr>"

definition ex_subject :: cert_subject where
  "ex_subject = \<lparr>subj_name = ''web'', subj_hostname = ''host'', subj_ip = ''1.1.1.1'', subj_alternativeIPs = []\<rparr>"

definition ex_crypto :: "(string, string, string, 's) crypto_lib" where
  "ex_crypto = \<lparr>rsa_GenerateKey = (\<lambda>_. ret ''rsa''), rand_Int = (\<lambda>_. ret 7), time_Now = ret 0, net_ParseIP = (\<lambda>ip. ip),
     MarshalPKCS1PrivateKey = (\<lambda>k. k), pem_Encode = (\<lambda>ty b. ty @ b), pem_Decode = Some, x509_ParseCertificate = Inr,
     x509_ParsePKCS1PrivateKey = Inr, x509_CreateCertificate = (\<lambda>_ _ _ k. ret k)\<rparr>"

theorem certificates_kept_witness:
  "\<exists>s' secret'. EnsureExistsAndIsSigned mem_lib ex_crypto (mem_client (\<lambda>s. s) (\<lambda>v s. v) [] sec_meta) (ex_meta ''web'')
       [ex_subject] ''webui'' [(''ns'', ex_cert_name) \<mapsto> ex_certs] = (Ok (), s') \<and>
     s' (''ns'', ex_cert_name) = Some secret' \<and> cert_entry secret' ''1.1.1.1'' = (Some ''key'', Some ''cert'')"
proof -
  let ?kc = "mem_client (\<lambda>s. s) (\<lambda>v s. v) [] sec_meta"
  let ?s = "[(''ns'', ex_cert_name) \<mapsto> ex_certs]"
  have m: "om_Namespace (ex_meta n) = ''ns''" "om_Name (ex_meta n) = n" for n
    by (simp_all add: ex_meta_def new_meta_def)
  have e: "cert_entry ex_certs ''1.1.1.1'' = (Some ''key'', Some ''cert'')" "sec_meta ex_certs = ex_meta ex_cert_name"
    by (simp_all add: cert_entry_def ex_certs_def map_entries_def)
  then have c: "certInSecret ex_certs ''1.1.1.1''" by (simp add: certInSecret_entry)
  have f: "FillSecret ex_crypto sign [ex_subject] ex_certs s = (Ok ex_certs, s)" for sign and s :: "k_secret mem_objects"
    by (rule FillSecret_complete) (simp_all add: ex_subject_def c, simp add: ex_certs_def)
  have "\<exists>s'. EnsureExistsAndIsSigned mem_lib ex_crypto ?kc (ex_meta ''web'') [ex_subject] ''webui'' ?s = (Ok (), s')"
    unfolding EnsureExistsAndIsSigned_def m ex_cert_name_def [symmetric]
    by (simp add: Secret_EnsureExists_def createNewOrGetExistingSecret_def mem_client_def bindM_def tryM_def ret_def
        f e m key_of_def)
  then obtain s' where run: "EnsureExistsAndIsSigned mem_lib ex_crypto ?kc (ex_meta ''web'') [ex_subject] ''webui'' ?s = (Ok (), s')"
    by blast
  from certificates_kept [where objects = "\<lambda>s. s" and s = ?s and s' = s' and secret = ex_certs, OF memk.kind_server_axioms run,
      unfolded m ex_cert_name_def [symmetric]] c e run show ?thesis
    by (auto simp: key_of_def m)
qed

text \<open>
  C30: with a source that does not stop giving useful numbers, the generation of a random string
  returns, and the string has the wanted length and letters only.
\<close>

theorem Generate_letters:
  assumes "fair src" "0 \<le> Size"
  shows "\<exists>b k'. Generate src Size k = Some (Ok b, k') \<and> length b = nat Size \<and> set b \<subseteq> set letterBytes"
  by (rule Generate_result [OF assms])

theorem Generate_letters_witness:
  "\<exists>b k'. Generate (\<lambda>_. 0) 10 0 = Some (Ok b, k' :: nat) \<and> length b = 10 \<and> set b \<subseteq> set letterBytes"
proof -
  have "useful 0" unfolding useful_def by (rule exI [of _ 0]) simp
  then have "fair (\<lambda>_. 0)" by (auto simp: fair_def)
  from Generate_letters [OF this, of 10 0] show ?thesis by simp
qed

text \<open>
  C27: the configuration of a Zookeeper ensemble whose first pod is numbered 0 and whose others are
  numbered 1 to 9: each pod finds its identifier, its number plus one, under its address; the first
  one starts alone and every other one starts with the first and itself.
\<close>

theorem zookeeper_dynamic_config:
  assumes "numbered p" "ordinal_digit p = 0"
    and "\<forall>q \<in> set ps. numbered q \<and> ordinal_digit q \<noteq> 0" "distinct (map pod_PodIP (p # ps))"
  shows "\<exists>conf. DynamicZookeeperConfig (p # ps) ep sp cp s = (Ok conf, s) \<and>
    (\<forall>q \<in> set (p # ps). map_of conf (''myid.'' @ pod_PodIP q) = Some (Itoa (int (ordinal_digit q) + 1))) \<and>
    map_of conf (''zoo.cfg.dynamic.'' @ pod_PodIP p) = Some (zk_server ep sp cp p) \<and>
    (\<forall>q \<in> set ps. map_of conf (''zoo.cfg.dynamic.'' @ pod_PodIP q) =
       Some (zk_server ep sp cp p @ zk_server ep sp cp q))"
  by (rule DynamicZookeeperConfig_spec [OF assms])

definition ex_zk_pod :: "string \<Rightarrow> string \<Rightarrow> pod" where
  "ex_zk_pod name ip = ex_pod\<lparr>pod_meta := ex_meta name, pod_PodIP := ip\<rparr>"

theorem zookeeper_dynamic_config_witness:
  "\<exists>conf. DynamicZookeeperConfig [ex_zk_pod ''zk-0'' ''10.0.0.1'', ex_zk_pod ''zk-1'' ''10.0.0.2''] ''1'' ''2'' ''3'' () = (Ok conf, ()) \<and>
     map_of conf ''myid.10.0.0.2'' = Some ''2''"
proof -
  let ?p = "ex_zk_pod ''zk-0'' ''10.0.0.1''" and ?q = "ex_zk_pod ''zk-1'' ''10.0.0.2''"
  have p: "numbered ?p" "ordinal_digit ?p = 0" "numbered ?q" "ordinal_digit ?q = 1"
    "pod_PodIP ?p = ''10.0.0.1''" "pod_PodIP ?q = ''10.0.0.2''"
    by (simp_all add: numbered_def ordinal_digit_def ex_zk_pod_def ex_meta_def new_meta_def is_digit_def digit_val_def)
  have "Itoa 2 = ''2''" by code_simp
  with zookeeper_dynamic_config [of ?p "[?q]" "''1''" "''2''" "''3''" "()"] p show ?thesis by auto
qed

text \<open>
  C26: the seeds of a Cassandra ring do not depend on the order in which the cluster lists the pods;
  they are addresses of pods, there is at least one when there is a pod, and when pods are ready they
  are the first half of these by name, rounded up.
\<close>

theorem cassandra_seeds:
  assumes "mset ps = mset qs" "inj_on (\<lambda>p. om_Name (pod_meta p)) (set ps)" "ps \<noteq> []"
  shows "seeds ps = seeds qs \<and> seeds ps \<noteq> [] \<and> set (seeds ps) \<subseteq> pod_PodIP ` set ps \<and>
    ((\<exists>p \<in> set ps. pod_ready p) \<longrightarrow>
       seeds ps = take ((length (filter pod_ready ps) + 1) div 2) (map pod_PodIP (filter pod_ready (sort_by_name ps))) \<and>
       length (seeds ps) = (length (filter pod_ready ps) + 1) div 2)"
proof -
  have "(length (filter pod_ready ps) - 1) div 2 + 1 = (length (filter pod_ready ps) + 1) div 2"
    if "\<exists>p \<in> set ps. pod_ready p"
  proof -
    have "0 < length (filter pod_ready ps)" using that by (simp add: filter_empty_conv)
    then show ?thesis by linarith
  qed
  then show ?thesis
    using seeds_order_independent [OF assms(1,2)] seeds_nonempty [OF assms(3)] seeds_subset [of ps]
      seeds_ready [of ps] length_seeds_ready [of ps] by metis
qed

theorem cassandra_seeds_witness:
  "seeds [ex_zk_pod ''ca-1'' ''10.0.0.2'', ex_zk_pod ''ca-0'' ''10.0.0.1''] =
   seeds [ex_zk_pod ''ca-0'' ''10.0.0.1'', ex_zk_pod ''ca-1'' ''10.0.0.2''] \<and>
   set (seeds [ex_zk_pod ''ca-1'' ''10.0.0.2'', ex_zk_pod ''ca-0'' ''10.0.0.1'']) \<subseteq> {''10.0.0.1'', ''10.0.0.2''}"
proof -
  define p q where "p = ex_zk_pod ''ca-1'' ''10.0.0.2''" and "q = ex_zk_pod ''ca-0'' ''10.0.0.1''"
  have n: "om_Name (pod_meta p) = ''ca-1''" "om_Name (pod_meta q) = ''ca-0''"
    "pod_PodIP p = ''10.0.0.2''" "pod_PodIP q = ''10.0.0.1''"
    by (simp_all add: p_def q_def ex_zk_pod_def ex_meta_def new_meta_def)
  have "mset [p, q] = mset [q, p]" "inj_on (\<lambda>p. om_Name (pod_meta p)) (set [p, q])" "[p, q] \<noteq> []"
    by (auto simp: n inj_on_def)
  note c = cassandra_seeds [OF this]
  have "seeds [p, q] = seeds [q, p]" by (rule c [THEN conjunct1])
  moreover have "set (seeds [p, q]) \<subseteq> pod_PodIP ` set [p, q]"
    by (rule c [THEN conjunct2, THEN conjunct2, THEN conjunct1])
  ultimately show ?thesis unfolding p_def [symmetric] q_def [symmetric] by (auto simp: n)
qed

text \<open>
  C23: a reconciliation of a Cassandra resource that returns no error either stops because its
  service has no address yet, or ends by writing the status of the resource, which then says active
  exactly when more than half of the replicas of its stateful set are ready.
\<close>

theorem Cassandra_Reconcile_status:
  assumes names: "names_kept lib (sv_sts cls)"
    and get: "kc_Get kc request s = (Ok c, s0)" and alive: "\<not> om_Deleted (cr_meta c)"
    and range: "\<forall>k t sts u. kc_Get (sv_sts cls) k t = (Ok sts, u) \<longrightarrow>
       (case sts_Replicas sts of None \<Rightarrow> True | Some r \<Rightarrow> 0 \<le> r \<and> r < 2 ^ 31)"
    and run: "Cassandra_Reconcile lib ord ord1 ord2 pq random cy ex cls kc request s = (Ok b, s')"
  shows "(\<exists>svc sv t. Service_EnsureExists lib (sv_service cls) ord1 ord2 sv t = (Ok svc, s') \<and> ClusterIP svc = [])
     \<or> (\<exists>sts replicas c' t u. kc_Get (sv_sts cls) (fst request, sts_name request ''cassandra'') t = (Ok sts, u) \<and>
          sts_Replicas sts = Some replicas \<and>
          st_Active (cr_status c') = Some (replicas < 2 * sts_ReadyReplicas sts) \<and>
          kc_StatusUpdate kc c' u = (Ok (), s'))"
proof -
  from Cassandra_Reconcile_ends [OF names get alive run] consider
      (early) "\<exists>svc sv t. Service_EnsureExists lib (sv_service cls) ord1 ord2 sv t = (Ok svc, s') \<and> ClusterIP svc = []"
    | (late) "ends_with_status (sv_sts cls) kc (fst request, sts_name request ''cassandra'')
         (\<lambda>replicas up. acceptableReadyReplicaCnt replicas \<le> up) s'" by blast
  then show ?thesis
  proof cases
    case late
    then obtain sts replicas c' t u where g: "kc_Get (sv_sts cls) (fst request, sts_name request ''cassandra'') t = (Ok sts, u)"
      and r: "sts_Replicas sts = Some replicas"
      and a: "st_Active (cr_status c') = Some (acceptableReadyReplicaCnt replicas \<le> sts_ReadyReplicas sts)"
      and w: "kc_StatusUpdate kc c' u = (Ok (), s')"
      unfolding ends_with_status_def by blast
    from range g r have "0 \<le> replicas" "replicas < 2 ^ 31" by fastforce+
    from acceptable_quorum [OF this] g r a w show ?thesis by metis
  qed blast
qed

definition ex_cassandra :: cassandra where
  "ex_cassandra = zero_cassandra\<lparr>cr_meta := ex_meta ''ca'', cr_common := new_common\<lparr>pc_Replicas := Some 3\<rparr>,
     cr_conf := (cr_conf zero_cassandra)\<lparr>ca_Containers := map (\<lambda>n. \<lparr>co_Name = n, co_Image = ''img'', co_Command = None\<rparr>)
       [''init'', ''init2'', ''cassandra'']\<rparr>\<rparr>"

definition ex_ring :: stateful_set where
  "ex_ring = cassandra_GetSTS\<lparr>sts_Replicas := Some 3, sts_ReadyReplicas := 2\<rparr>"

definition ex_svc_clients :: "unit svc_clients" where
  "ex_svc_clients = \<lparr>sv_configmap = ex_no_client, sv_secret = ex_no_client,
     sv_sts = ex_no_client\<lparr>kc_Get := (\<lambda>_. ret ex_ring)\<rparr>, sv_pod = ex_no_client, sv_node = ex_no_client,
     sv_service = ex_no_client\<lparr>kc_CreateOrUpdate := (\<lambda>x f. f (x\<lparr>svc_ClusterIP := ''10.0.0.9''\<rparr>))\<rparr>,
     sv_pv = ex_no_client, sv_pvc = ex_no_client, sv_storageclass = ex_no_client, sv_pdb = ex_no_client,
     sv_serviceaccount = ex_no_client, sv_clusterrole = ex_no_client, sv_clusterrolebinding = ex_no_client\<rparr>"

definition ex_resources :: "(cassandra, unit) kind_client" where
  "ex_resources = ex_no_client\<lparr>kc_Get := (\<lambda>_. ret ex_cassandra)\<rparr>"

lemmas ex_svc_simps = ex_svc_clients_def ex_resources_def ex_no_client_def mem_lib_def ret_def throw_def bindM_def tryM_def ignoring_def

lemma ex_config_Ok:
  "\<exists>cm. CreateConfigMap mem_lib (sv_configmap ex_svc_clients) n req ty owner () = (Ok cm, ())"
  "\<exists>sec. CreateSecret mem_lib (sv_secret ex_svc_clients) n req ty owner () = (Ok sec, ())"
  by (simp_all add: CreateConfigMap_def CreateSecret_def Let_def ex_svc_simps)

lemma ex_PrepareSTS_Ok:
  "\<exists>sts. PrepareSTS mem_lib cassandra_GetSTS (cr_common ex_cassandra) ''cassandra'' req owner False () = (Ok sts, ()) \<and>
     sts_Replicas sts = Some 3 \<and> pt_Labels (sts_Template sts) \<noteq> None \<and>
     pspec_Containers (pt_Spec (sts_Template sts)) = pspec_Containers (pt_Spec (sts_Template cassandra_GetSTS)) \<and>
     pspec_InitContainers (pt_Spec (sts_Template sts)) = pspec_InitContainers (pt_Spec (sts_Template cassandra_GetSTS))"
  by (simp add: PrepareSTS_def Let_def SetSTSCommonConfiguration_def apply_common_def cassandra_GetSTS_def ex_cassandra_def new_common_def ex_svc_simps)

lemma ex_configure_Ok:
  "\<exists>cs. mapM (cassandra_configure_container n (cr_conf ex_cassandra))
     (pspec_Containers (pt_Spec (sts_Template cassandra_GetSTS))) () = (Ok cs, ())"
  "\<exists>cs. mapM (cassandra_configure_init n path p q (ca_Containers (cr_conf ex_cassandra)))
     (pspec_InitContainers (pt_Spec (sts_Template cassandra_GetSTS))) () = (Ok cs, ())"
  by (simp_all add: cassandra_configure_container_def cassandra_configure_init_def cassandra_GetSTS_def
      cassandra_init_container_def ex_cassandra_def Let_def bindM_def ret_def)

lemma ex_intended_Ok:
  assumes "sts_Replicas sts = Some 3" "pt_Labels (sts_Template sts) \<noteq> None"
    and "pspec_Containers (pt_Spec (sts_Template sts)) = pspec_Containers (pt_Spec (sts_Template cassandra_GetSTS))"
    and "pspec_InitContainers (pt_Spec (sts_Template sts)) = pspec_InitContainers (pt_Spec (sts_Template cassandra_GetSTS))"
  shows "\<exists>sts'. cassandra_intended_sts mem_lib (sv_secret ex_svc_clients) in_order (\<lambda>_. Inr 5) (\<lambda>_. ret ''pw'') req
       (ex_cassandra\<lparr>cr_status := st\<rparr>) cm sec sts () = (Ok (5, sts'), ()) \<and>
     sts_Replicas sts' = Some 3 \<and> pt_Labels (sts_Template sts') \<noteq> None"
proof -
  have "sv_secret ex_svc_clients = ex_no_client" by (simp add: ex_svc_clients_def)
  then obtain sec' where k: "CreateSecret mem_lib ex_no_client (snd req @ ''-secret'') req ''cassandra'' (cr_meta ex_cassandra) () = (Ok sec', ())"
    using ex_config_Ok(2) by metis
  obtain sec2 where sec2: "keystore_secret (\<lambda>_. ret ''pw'') sec' () = (Ok sec2, ())"
    by (cases "map_of (map_entries (sec_Data sec')) ''keystorePassword'' = None \<or> map_of (map_entries (sec_Data sec')) ''truststorePassword'' = None")
      (simp_all add: keystore_secret_def bindM_def ret_def)
  obtain cs where cs: "mapM (cassandra_configure_container (snd req) (cr_conf ex_cassandra))
      (pspec_Containers (pt_Spec (sts_Template cassandra_GetSTS))) () = (Ok cs, ())" using ex_configure_Ok(1) by metis
  obtain ics where ics: "mapM (cassandra_configure_init (snd req)
      (sto_Path (ca_Storage (Cassandra_ConfigurationParameters (ex_cassandra\<lparr>cr_status := st\<rparr>))))
      (secret_value sec2 ''keystorePassword'') (secret_value sec2 ''truststorePassword'') (ca_Containers (cr_conf ex_cassandra)))
      (pspec_InitContainers (pt_Spec (sts_Template cassandra_GetSTS))) () = (Ok ics, ())" using ex_configure_Ok(2) by metis
  have u: "kc_Update ex_no_client x () = (Ok x, ())" for x :: k_secret by (simp add: ex_no_client_def ret_def)
  show ?thesis
    using assms \<open>sv_secret ex_svc_clients = ex_no_client\<close>
    by (simp add: cassandra_intended_sts_def Let_def bindM_def update_spec_def add_volume_def AddVolumesToIntendedSTS_def
        AddSecretVolumesToIntendedSTS_def add_volumes_def k sec2 cs ics u)
qed

lemma ex_Cassandra_run:
  "Cassandra_Reconcile mem_lib in_order in_order in_order (\<lambda>_. Inr 5) (\<lambda>_. ret ''pw'') ex_crypto
     \<lparr>exec_pod = (\<lambda>_ _ _ _. ret []), ParseIP = (\<lambda>_. True)\<rparr> ex_svc_clients ex_resources req () = (Ok False, ())"
proof -
  have g: "get_instance mem_lib ex_resources zero_cassandra req () = (Ok (Some ex_cassandra), ())"
    by (simp add: get_instance_def ex_svc_simps)
  obtain cm where cm: "CreateConfigMap mem_lib (sv_configmap ex_svc_clients) (snd req @ ''-cassandra-configmap'') req ''cassandra''
      (cr_meta ex_cassandra) () = (Ok cm, ())" using ex_config_Ok(1) by metis
  obtain sec where sec: "CreateSecret mem_lib (sv_secret ex_svc_clients) (snd req @ ''-secret-certificates'') req ''cassandra''
      (cr_meta ex_cassandra) () = (Ok sec, ())" using ex_config_Ok(2) by metis
  have s: "\<exists>svc. Service_EnsureExists mem_lib (sv_service ex_svc_clients) in_order in_order sv () = (Ok svc, ()) \<and> ClusterIP svc = ''10.0.0.9''" for sv
    by (simp add: Service_EnsureExists_def service_mutate_def Let_def ClusterIP_def ex_svc_simps)
  obtain sts where sts: "PrepareSTS mem_lib cassandra_GetSTS (cr_common ex_cassandra) ''cassandra'' req (cr_meta ex_cassandra) False () = (Ok sts, ())"
    "sts_Replicas sts = Some 3" "pt_Labels (sts_Template sts) \<noteq> None"
    "pspec_Containers (pt_Spec (sts_Template sts)) = pspec_Containers (pt_Spec (sts_Template cassandra_GetSTS))"
    "pspec_InitContainers (pt_Spec (sts_Template sts)) = pspec_InitContainers (pt_Spec (sts_Template cassandra_GetSTS))"
    using ex_PrepareSTS_Ok by metis
  have sc: "ensure_storage_class mem_lib (sv_storageclass ex_svc_clients) () = (Ok (), ())"
    by (simp add: ensure_storage_class_def ex_svc_simps)
  have pvs: "ensure_pvs mem_lib (sv_pv ex_svc_clients) in_order ''cassandra'' req (cr_common ex_cassandra) q path n () = (Ok (), ())" for q path n
    by (simp add: ensure_pvs_def ensure_pv_def ex_cassandra_def new_common_def upt_rec ex_svc_simps)
  have c: "CreateSTS mem_lib (sv_sts ex_svc_clients) x ''cassandra'' req () = (Ok x, ())" for x
    by (simp add: CreateSTS_def ex_svc_simps)
  have u: "UpdateSTS mem_lib (sv_sts ex_svc_clients) x ''cassandra'' req ''rolling'' () = (Ok (), ())"
    if "sts_Replicas x = Some 3" "pt_Labels (sts_Template x) \<noteq> None" for x
    using that by (auto simp: UpdateSTS_def set_version_def set_label_def ex_ring_def ex_svc_simps)
  have p: "PodIPListAndIPMapFromInstance (sv_node ex_svc_clients) (sv_pod ex_svc_clients) ex ''cassandra'' cc req False w () = (Ok ([], []), ())"
    for ex cc w by (simp add: PodIPListAndIPMapFromInstance_def ex_svc_simps)
  have a: "\<exists>c'. Cassandra_SetInstanceActive (sv_sts ex_svc_clients) ex_resources x req c () = (Ok c', ())" for x c
    by (simp add: Cassandra_SetInstanceActive_def Let_def ex_ring_def ex_svc_simps)
  obtain port where port: "ca_Port (Cassandra_ConfigurationParameters ex_cassandra) = Some port"
    by (simp add: Cassandra_ConfigurationParameters_def Let_def)
  let ?sv = "Kubernetes_Service (snd req @ ''-cassandra'') ''ClusterIP'' [(int32_of port, [])] ''cassandra'' (cr_meta ex_cassandra)"
  from s [of ?sv] obtain svc where svc: "Service_EnsureExists mem_lib (sv_service ex_svc_clients) in_order in_order ?sv () = (Ok svc, ())"
    "ClusterIP svc = ''10.0.0.9''" by blast
  let ?c = "ex_cassandra\<lparr>cr_status := (cr_status ex_cassandra)\<lparr>st_ClusterIP := ClusterIP svc\<rparr>\<rparr>"
  from ex_intended_Ok [OF sts(2-), of req _ cm sec] obtain sts' where
    i: "cassandra_intended_sts mem_lib (sv_secret ex_svc_clients) in_order (\<lambda>_. Inr 5) (\<lambda>_. ret ''pw'') req ?c cm sec sts () = (Ok (5, sts'), ())"
    and sts': "sts_Replicas sts' = Some 3" "pt_Labels (sts_Template sts') \<noteq> None" by metis
  from a [of sts' "active_or_false ?c"] obtain c' where
    "Cassandra_SetInstanceActive (sv_sts ex_svc_clients) ex_resources sts' req (active_or_false ?c) () = (Ok c', ())" by blast
  moreover have "\<not> om_Deleted (cr_meta ex_cassandra)" by (simp add: ex_cassandra_def ex_meta_def new_meta_def)
  moreover have "ClusterIP svc \<noteq> []" using svc(2) by simp
  ultimately show ?thesis
    using g cm sec svc(1) sts(1) i sc pvs c u [OF sts'] p port
    by (simp add: Cassandra_Reconcile_def bindM_def Let_def)
qed

theorem Cassandra_Reconcile_status_witness:
  "Cassandra_Reconcile mem_lib in_order in_order in_order (\<lambda>_. Inr 5) (\<lambda>_. ret ''pw'') ex_crypto
     \<lparr>exec_pod = (\<lambda>_ _ _ _. ret []), ParseIP = (\<lambda>_. True)\<rparr> ex_svc_clients ex_resources (''ns'', ''ca'') () = (Ok False, ()) \<and>
   (\<exists>c'. st_Active (cr_status c') = Some True \<and> kc_StatusUpdate ex_resources c' () = (Ok (), ()))"
proof -
  have names: "names_kept mem_lib (sv_sts ex_svc_clients)"
    by (auto simp: names_kept_def ex_svc_simps)
  have get: "kc_Get ex_resources (''ns'', ''ca'') () = (Ok ex_cassandra, ())" "\<not> om_Deleted (cr_meta ex_cassandra)"
    by (simp_all add: ex_svc_simps ex_cassandra_def ex_meta_def new_meta_def)
  have ring: "kc_Get (sv_sts ex_svc_clients) k t = (Ok ex_ring, ())" for k t
    by (simp add: ex_svc_simps)
  have r: "sts_Replicas ex_ring = Some 3" "sts_ReadyReplicas ex_ring = 2" by (simp_all add: ex_ring_def)
  have address: "ClusterIP svc \<noteq> []" if "Service_EnsureExists mem_lib (sv_service ex_svc_clients) in_order in_order sv t = (Ok svc, ())" for sv svc t
    using that by (auto simp: Service_EnsureExists_def service_mutate_def Let_def ClusterIP_def ex_svc_simps)
  from Cassandra_Reconcile_status [OF names get _ ex_Cassandra_run] address show ?thesis
    using ex_Cassandra_run [of "(''ns'', ''ca'')"] by (fastforce simp: ring r)
qed

text \<open>
  C29: the credentials of Rabbitmq: what the secret has is kept, the three entries are there
  afterwards, and a password that the resource gives is used when there is none yet.
\<close>

theorem rabbitmq_credentials_kept:
  assumes "rabbitmq_credentials generate conf sec s = (Ok sec', s')"
  shows "map_of (map_entries (sec_Data sec)) \<subseteq>\<^sub>m map_of (map_entries (sec_Data sec')) \<and>
     {''password'', ''user'', ''vhost''} \<subseteq> dom (map_of (map_entries (sec_Data sec'))) \<and>
     (rb_Password conf \<noteq> [] \<longrightarrow> map_of (map_entries (sec_Data sec)) ''password'' = None \<longrightarrow>
        map_of (map_entries (sec_Data sec')) ''password'' = Some (rb_Password conf))"
  using rabbitmq_credentials_Ok [OF assms] by (auto simp: map_le_iff)

definition ex_rabbitmq_configuration :: rabbitmq_configuration where
  "ex_rabbitmq_configuration = \<lparr>rb_Containers = [], rb_Port = None, rb_SSLPort = None, rb_ErlangCookie = [], rb_Vhost = [],
     rb_User = [], rb_Password = ''given'', rb_Secret = []\<rparr>"

theorem rabbitmq_credentials_kept_witness:
  "\<exists>sec'. rabbitmq_credentials (\<lambda>_. ret ''random'') ex_rabbitmq_configuration ex_ca () = (Ok sec', ()) \<and>
     map_of (map_entries (sec_Data sec')) ''password'' = Some ''given'' \<and>
     map_of (map_entries (sec_Data sec')) SignerCAFilename = Some ''cert''"
proof -
  obtain sec' where run: "rabbitmq_credentials (\<lambda>_. ret ''random'') ex_rabbitmq_configuration ex_ca () = (Ok sec', ())"
    by (simp add: rabbitmq_credentials_def given_or_random_def ex_rabbitmq_configuration_def)
  have old: "map_of (map_entries (sec_Data ex_ca)) ''password'' = None"
    "map_of (map_entries (sec_Data ex_ca)) SignerCAFilename = Some ''cert''"
    by (simp_all add: ex_ca_def map_entries_def SignerCAFilename_def signerCAPrivateKeyFilename_def)
  have "rb_Password ex_rabbitmq_configuration = ''given''" by (simp add: ex_rabbitmq_configuration_def)
  with rabbitmq_credentials_kept [OF run] old(1)
  have "map_of (map_entries (sec_Data sec')) ''password'' = Some ''given''" by simp
  moreover have "SignerCAFilename \<in> dom (map_of (map_entries (sec_Data ex_ca)))" using old(2) by (rule domI)
  from rabbitmq_credentials_kept [OF run, THEN conjunct1, unfolded map_le_def, rule_format, OF this] old(2)
  have "map_of (map_entries (sec_Data sec')) SignerCAFilename = Some ''cert''" by simp
  ultimately show ?thesis using run by blast
qed

text \<open>
  \<open>EnsureOwns\<close> writes the dependent object with a reference to the owner; the references to
  other objects stay, no other reference is added, and doing it again writes the same object.
\<close>

theorem EnsureOwns_idempotent:
  assumes "am_ParseGroupVersion am (fst gvk) = Inr gv"
  shows "\<exists>dep'. EnsureOwns am (Inr gvk) kc owner dep = kc_Update kc dep' \<and>
     EnsureOwns am (Inr gvk) kc owner dep' = kc_Update kc dep' \<and>
     owner_ref gvk owner \<in> set (om_OwnerReferences dep') \<and>
     set (om_OwnerReferences dep') \<subseteq> insert (owner_ref gvk owner) (set (om_OwnerReferences dep)) \<and>
     (\<forall>r \<in> set (om_OwnerReferences dep). \<not> referSameObject am (owner_ref gvk owner) r \<longrightarrow> r \<in> set (om_OwnerReferences dep'))"
proof (intro exI conjI)
  let ?dep = "dep\<lparr>om_OwnerReferences := replace_ref am (owner_ref gvk owner) (om_OwnerReferences dep)\<rparr>"
  show "EnsureOwns am (Inr gvk) kc owner dep = kc_Update kc ?dep"
    by (simp add: EnsureOwns_def)
  show "EnsureOwns am (Inr gvk) kc owner ?dep = kc_Update kc ?dep"
    using assms by (simp add: EnsureOwns_def replace_ref_idem owner_ref_def)
  show "owner_ref gvk owner \<in> set (om_OwnerReferences ?dep)"
    by (simp add: replace_ref_mem)
  show "set (om_OwnerReferences ?dep) \<subseteq> insert (owner_ref gvk owner) (set (om_OwnerReferences dep))"
    using replace_ref_sub [of _ am "owner_ref gvk owner" "om_OwnerReferences dep"] by auto
  show "\<forall>r \<in> set (om_OwnerReferences dep). \<not> referSameObject am (owner_ref gvk owner) r \<longrightarrow> r \<in> set (om_OwnerReferences ?dep)"
    using replace_ref_others [of _ "om_OwnerReferences dep" am "owner_ref gvk owner"] by simp
qed

definition ex_apimachinery :: "unit apimachinery" where
  "ex_apimachinery = \<lparr>am_FromAPIVersionAndKind = (\<lambda>g k. \<lparr>gk_Group = g, gk_Kind = k\<rparr>), am_GroupKind_String = gk_Kind,
     am_ParseGroupVersion = (\<lambda>v. Inr ([], v)), am_ObjectKinds = (\<lambda>_. Inr []), am_RESTMapping = (\<lambda>_ _. Inr ''namespace'')\<rparr>"

theorem EnsureOwns_idempotent_witness:
  "\<exists>dep'. EnsureOwns ex_apimachinery (Inr (''v1alpha1'', ''Manager'')) (ex_no_client :: (object_meta, unit) kind_client)
       (ex_meta ''owner'') ex_sts_meta () = (Ok dep', ()) \<and> set (om_OwnerReferences ex_sts_meta) \<subseteq> set (om_OwnerReferences dep')"
proof -
  have "am_ParseGroupVersion ex_apimachinery (fst (''v1alpha1'', ''Manager'')) = Inr ([], ''v1alpha1'')"
    by (simp add: ex_apimachinery_def)
  from EnsureOwns_idempotent [OF this, of "ex_no_client :: (object_meta, unit) kind_client" "ex_meta ''owner''" ex_sts_meta]
  show ?thesis
    by (auto simp: ex_no_client_def ret_def ex_sts_meta_def owner_ref_def referSameObject_def ex_apimachinery_def)
qed

text \<open>
  C31: the address and the port of the API server come back from the endpoint that the cluster
  configuration has for them, for a host name or IPv4 address and for an IPv6 address in brackets.
\<close>

theorem kubernetes_endpoint:
  assumes cm: "kc_Get kc (''kube-system'', ''kubeadm-config'') s = (Ok cm, s)"
    and conf: "map_of (map_entries (cm_Data cm)) ''ClusterConfiguration'' = Some txt" "Unmarshal txt = Inr c"
    and ep: "kac_ControlPlaneEndpoint c = (if brackets then ''['' @ host @ '']:'' @ Itoa port else host @ '':'' @ Itoa port)"
    and host: "set host \<inter> {CHR ''['', CHR '']''} = {}" "\<not> brackets \<longrightarrow> CHR '':'' \<notin> set host"
    and port: "0 \<le> port" "port < 65536"
  shows "KubernetesAPIServer kc Unmarshal s = (Ok host, s) \<and> KubernetesAPISSLPort kc Unmarshal s = (Ok port, s)"
proof -
  have digits: "list_all is_digit (Itoa port)"
    using port nat_to_dec_digits [of "nat port"] by (simp add: Itoa_def)
  have "set (Itoa port) \<inter> {CHR '':'', CHR ''['', CHR '']''} = {}"
    using digits by (auto simp: list_all_iff is_digit_def)
  with SplitHostPort_host [of host "Itoa port"] SplitHostPort_brackets [of host "Itoa port"] ep host
  have "SplitHostPort (kac_ControlPlaneEndpoint c) = Inr (host, Itoa port)"
    by (cases brackets) auto
  moreover have "Atoi (Itoa port) = Some port"
    using port by (intro Atoi_Itoa) (simp add: int64_def)
  moreover have "kubeadm_ClusterConfiguration kc Unmarshal s = (Ok c, s)"
    using cm conf by (simp add: kubeadm_ClusterConfiguration_def)
  ultimately show ?thesis
    by (simp add: KubernetesAPIServer_def KubernetesAPISSLPort_def bindM_def)
qed

definition ex_kubeadm :: kubeadm_config where
  "ex_kubeadm = \<lparr>kac_ControlPlaneEndpoint = ''[fd00::1]:6443'', kac_ClusterName = ''kubernetes'', kac_PodNetwork = ''10.32.0.0/12'',
     kac_ServiceSubnet = ''10.96.0.0/12''\<rparr>"

definition ex_kubeadm_map :: config_map where
  "ex_kubeadm_map = \<lparr>cm_meta = new_meta, cm_Data = Some [(''ClusterConfiguration'', ''yaml'')]\<rparr>"

theorem kubernetes_endpoint_witness:
  "KubernetesAPIServer (ex_no_client\<lparr>kc_Get := (\<lambda>_. ret ex_kubeadm_map)\<rparr>) (\<lambda>_. Inr ex_kubeadm) () = (Ok ''fd00::1'', ()) \<and>
   KubernetesAPISSLPort (ex_no_client\<lparr>kc_Get := (\<lambda>_. ret ex_kubeadm_map)\<rparr>) (\<lambda>_. Inr ex_kubeadm) () = (Ok 6443, ())"
proof -
  have "Itoa 6443 = ''6443''" by (simp add: Itoa_def nat_to_dec.simps digit_char_def char_of_eq_iff)
  then have "kac_ControlPlaneEndpoint ex_kubeadm = (if True then ''['' @ ''fd00::1'' @ '']:'' @ Itoa 6443 else ''fd00::1'' @ '':'' @ Itoa 6443)"
    by (simp add: ex_kubeadm_def)
  moreover have "kc_Get (ex_no_client\<lparr>kc_Get := (\<lambda>_. ret ex_kubeadm_map)\<rparr>) (''kube-system'', ''kubeadm-config'') () = (Ok ex_kubeadm_map, ())"
    by (simp add: ret_def)
  moreover have "map_of (map_entries (cm_Data ex_kubeadm_map)) ''ClusterConfiguration'' = Some ''yaml''"
    by (simp add: ex_kubeadm_map_def map_entries_def)
  ultimately show ?thesis
    by (intro kubernetes_endpoint [where brackets = True]) simp_all
qed

end
