(* ===== verification/ServiceParts.thy ===== *)
theory ServiceParts
  imports Rabbitmq ClusterConf ClusterInfo
begin

text \<open>
  Blocks that the controllers of the Contrail services repeat: the helpers of the configuration
  templates (\<open>pkg/configuration/templates_helper_functions.go\<close>), the service account, token and
  cluster role of a service, the volumes and mounts of its containers, and the comparison of the
  configuration before and after a reconciliation.
\<close>

section \<open>Texts\<close>

definition JoinListWithSeparator :: "string list \<Rightarrow> string \<Rightarrow> string" where
  "JoinListWithSeparator items separator = join_with separator items"

definition JoinListWithSeparatorAndSingleQuotes :: "string list \<Rightarrow> string \<Rightarrow> string" where
  "JoinListWithSeparatorAndSingleQuotes items separator =
     (if items = [] then []
      else [CHR 0x27] @ JoinListWithSeparator items ([CHR 0x27] @ separator @ [CHR 0x27]) @ [CHR 0x27])"

definition EndpointList :: "string list \<Rightarrow> int \<Rightarrow> string list" where
  "EndpointList ips port = map (\<lambda>ip. ip @ '':'' @ Itoa port) ips"

text \<open>\<open>strconv.FormatBool\<close>, and the same of a pointer.\<close>

definition FormatBool :: "bool \<Rightarrow> string" where
  "FormatBool b = (if b then ''true'' else ''false'')"

definition bool_text :: "bool option \<Rightarrow> ('s, go_error, string) go" where
  "bool_text p = bindM (deref_ptr p) (\<lambda>b. ret (FormatBool b))"

text \<open>Reading a key of a map that may be \<open>nil\<close>.\<close>

definition entry_of :: "string_map \<Rightarrow> string \<Rightarrow> string" where
  "entry_of m k = (case map_of (map_entries m) k of None \<Rightarrow> [] | Some v \<Rightarrow> v)"

text \<open>\<open>sort.SliceStable\<close> of the pods by their addresses.\<close>

definition sort_by_ip :: "pod list \<Rightarrow> pod list" where
  "sort_by_ip pods = sort_key pod_PodIP pods"

text \<open>\<open>reflect.DeepEqual\<close> of two maps that may be \<open>nil\<close>.\<close>

definition same_data :: "string_map \<Rightarrow> string_map \<Rightarrow> bool" where
  "same_data a b \<longleftrightarrow>
     (case (a, b) of
        (None, None) \<Rightarrow> True
      | (Some x, Some y) \<Rightarrow> length x = length y \<and> list_all (\<lambda>(k, v). map_of y k = Some v) x
      | _ \<Rightarrow> False)"

section \<open>Accounts\<close>

definition ensure_service_account ::
  "k8s_lib \<Rightarrow> 's svc_clients \<Rightarrow> string \<Rightarrow> object_meta \<Rightarrow> ('s, go_error, unit) go" where
  "ensure_service_account lib cls serviceAccountName owner =
     create_if_missing lib (sv_serviceaccount cls) (om_Namespace owner, serviceAccountName)
       (bindM (sum_result (SetControllerReference lib owner
                 (new_meta\<lparr>om_Name := serviceAccountName, om_Namespace := om_Namespace owner\<rparr>))) (\<lambda>sa.
        bindM (ignoring (IsAlreadyExists lib) sa (kc_Create (sv_serviceaccount cls) sa)) (\<lambda>_. ret ())))"

definition ensure_token_secret ::
  "k8s_lib \<Rightarrow> 's svc_clients \<Rightarrow> string \<Rightarrow> string \<Rightarrow> object_meta \<Rightarrow> ('s, go_error, unit) go" where
  "ensure_token_secret lib cls secretName serviceAccountName owner =
     create_if_missing lib (sv_secret cls) (om_Namespace owner, secretName)
       (bindM (sum_result (SetControllerReference lib owner
                 (new_meta\<lparr>om_Name := secretName, om_Namespace := om_Namespace owner,
                    om_Annotations := Some [(''kubernetes.io/service-account.name'', serviceAccountName)]\<rparr>))) (\<lambda>m.
        bindM (kc_Create (sv_secret cls)
                 \<lparr>sec_meta = m, sec_Data = None, sec_StringData = None,
                  sec_Type = ''kubernetes.io/service-account-token''\<rparr>) (\<lambda>_. ret ())))"

definition ensure_cluster_role ::
  "k8s_lib \<Rightarrow> 's svc_clients \<Rightarrow> string \<Rightarrow> object_meta \<Rightarrow> ('s, go_error, unit) go" where
  "ensure_cluster_role lib cls clusterRoleName owner =
     create_if_missing lib (sv_clusterrole cls) ([], clusterRoleName)
       (bindM (kc_Create (sv_clusterrole cls)
                 \<lparr>crole_meta = new_meta\<lparr>om_Name := clusterRoleName, om_Namespace := om_Namespace owner\<rparr>,
                  crole_Rules = [([''*''], [''*''], [''*''])]\<rparr>) (\<lambda>_. ret ()))"

definition ensure_cluster_role_binding ::
  "k8s_lib \<Rightarrow> 's svc_clients \<Rightarrow> string \<Rightarrow> string \<Rightarrow> string \<Rightarrow> object_meta \<Rightarrow> ('s, go_error, unit) go" where
  "ensure_cluster_role_binding lib cls clusterRoleBindingName serviceAccountName clusterRoleName owner =
     create_if_missing lib (sv_clusterrolebinding cls) ([], clusterRoleBindingName)
       (bindM (kc_Create (sv_clusterrolebinding cls)
                 \<lparr>crb_meta = new_meta\<lparr>om_Name := clusterRoleBindingName, om_Namespace := om_Namespace owner\<rparr>,
                  crb_Subjects = [(''ServiceAccount'', serviceAccountName, om_Namespace owner)],
                  crb_RoleRef = (''rbac.authorization.k8s.io'', ''ClusterRole'', clusterRoleName)\<rparr>) (\<lambda>_. ret ()))"

text \<open>User, password and virtual host of Rabbitmq: from its secret, else from the parameters.\<close>

definition rabbitmq_login ::
  "(k_secret, 's) kind_client \<Rightarrow> string \<Rightarrow> string \<Rightarrow> ('s, go_error, string \<times> string \<times> string) go" where
  "rabbitmq_login kcs namespace secretName =
     (if secretName \<noteq> []
      then bindM (kc_Get kcs (namespace, secretName)) (\<lambda>sec.
             ret (secret_value sec ''user'', secret_value sec ''password'', secret_value sec ''vhost''))
      else ret ([], [], []))"

section \<open>Volumes and containers\<close>

definition service_volumes ::
  "range_ord \<Rightarrow> string \<Rightarrow> string \<Rightarrow> config_map \<Rightarrow> k_secret \<Rightarrow> stateful_set \<Rightarrow> stateful_set" where
  "service_volumes ord name instanceType configMap secretCertificates sts =
     AddSecretVolumesToIntendedSTS ord
       (AddVolumesToIntendedSTS ord sts
          (AList.update SignerCAConfigMapName (name @ ''-csr-signer-ca'')
             [(om_Name (cm_meta configMap), name @ ''-'' @ instanceType @ ''-volume'')]))
       [(om_Name (sec_meta secretCertificates), name @ ''-secret-certificates'')]"

text \<open>The mounts of the configuration, the certificates and the certificate authority.\<close>

definition add_service_mounts :: "string \<Rightarrow> string \<Rightarrow> pod_container \<Rightarrow> pod_container" where
  "add_service_mounts name instanceType c =
     add_mount (name @ ''-csr-signer-ca'') SignerCAMountPath
       (add_mount (name @ ''-secret-certificates'') ''/etc/certificates''
         (add_mount (name @ ''-'' @ instanceType @ ''-volume'') ''/etc/contrailconfigmaps'' c))"

text \<open>
  The block for one container: its command and image come from the configuration of the service,
  \<open>f\<close> is what the block does in between.  A container that is not configured is a \<open>nil\<close> pointer.
\<close>

definition service_container ::
  "container list \<Rightarrow> string list \<Rightarrow> (pod_container \<Rightarrow> pod_container) \<Rightarrow> pod_container
    \<Rightarrow> ('s, go_error, pod_container) go" where
  "service_container containers command f c =
     bindM (deref_ptr (GetContainerFromList (pco_Name c) containers)) (\<lambda>instanceContainer.
       ret ((f (command_or_default command instanceContainer c))\<lparr>pco_Image := co_Image instanceContainer\<rparr>))"

definition update_containers ::
  "(pod_container \<Rightarrow> ('s, go_error, pod_container) go) \<Rightarrow> stateful_set \<Rightarrow> ('s, go_error, stateful_set) go" where
  "update_containers f sts =
     bindM (mapM f (pspec_Containers (pt_Spec (sts_Template sts)))) (\<lambda>cs.
       ret (update_spec (\<lambda>sp. sp\<lparr>pspec_Containers := cs\<rparr>) sts))"

definition update_init_containers ::
  "(pod_container \<Rightarrow> ('s, go_error, pod_container) go) \<Rightarrow> stateful_set \<Rightarrow> ('s, go_error, stateful_set) go" where
  "update_init_containers f sts =
     bindM (mapM f (pspec_InitContainers (pt_Spec (sts_Template sts)))) (\<lambda>cs.
       ret (update_spec (\<lambda>sp. sp\<lparr>pspec_InitContainers := cs\<rparr>) sts))"

text \<open>
  The loop that removes the containers with a name: it ranges over the slice as it was, whose array
  \<open>utils.RemoveIndex\<close> changes in place; \<open>m\<close> is the length of the slice that is left.
\<close>

fun remove_container_loop ::
  "string \<Rightarrow> nat list \<Rightarrow> nat \<Rightarrow> pod_container list \<Rightarrow> ('s, go_error, pod_container list) go" where
  "remove_container_loop name [] m arr = ret (take m arr)"
| "remove_container_loop name (i # is) m arr =
     (if pco_Name (arr ! i) = name
      then bindM (RemoveIndex (take m arr) (int i)) (\<lambda>s.
             remove_container_loop name is (length s) (s @ drop (length s) arr))
      else remove_container_loop name is m arr)"

definition remove_containers :: "string \<Rightarrow> stateful_set \<Rightarrow> ('s, go_error, stateful_set) go" where
  "remove_containers name sts =
     (let cs = pspec_Containers (pt_Spec (sts_Template sts))
      in bindM (remove_container_loop name [0..<length cs] (length cs) cs) (\<lambda>cs.
           ret (update_spec (\<lambda>sp. sp\<lparr>pspec_Containers := cs\<rparr>) sts)))"

definition set_anti_affinity :: "string \<Rightarrow> string \<Rightarrow> stateful_set \<Rightarrow> stateful_set" where
  "set_anti_affinity instanceType name sts =
     update_spec (\<lambda>sp. sp\<lparr>pspec_Affinity := anti_affinity instanceType name\<rparr>) sts"

definition set_service_account :: "string \<Rightarrow> stateful_set \<Rightarrow> stateful_set" where
  "set_service_account name sts = update_spec (\<lambda>sp. sp\<lparr>pspec_ServiceAccountName := name\<rparr>) sts"

section \<open>The status of the resource\<close>

definition set_nodes :: "(string, string) gomap \<Rightarrow> 'c cr \<Rightarrow> 'c cr" where
  "set_nodes podNameIPMap c = c\<lparr>cr_status := (cr_status c)\<lparr>st_Nodes := Some podNameIPMap\<rparr>\<rparr>"

definition FromStatefulSet :: "stateful_set \<Rightarrow> cr_status \<Rightarrow> cr_status" where
  "FromStatefulSet d s =
     (let expectedReplicas = (case sts_Replicas d of None \<Rightarrow> 1 | Some r \<Rightarrow> r)
      in s\<lparr>st_Replicas := expectedReplicas, st_ReadyReplicas := sts_ReadyReplicas d,
           st_Active := Some (sts_ReadyReplicas d = expectedReplicas)\<rparr>)"

text \<open>The comparison at the end; an error of the second \<open>Get\<close> is dropped, the data is then \<open>nil\<close>.\<close>

definition update_config_changed ::
  "(config_map, 's) kind_client \<Rightarrow> namespaced_name \<Rightarrow> config_map \<times> bool \<Rightarrow> 'c cr \<Rightarrow> ('s, go_error, 'c cr) go" where
  "update_config_changed kc key current c =
     (if snd current
      then bindM (tryM (kc_Get kc key)) (\<lambda>r.
             let newData = (case r of Inr cm \<Rightarrow> cm_Data cm | Inl _ \<Rightarrow> None)
             in ret (c\<lparr>cr_status := (cr_status c)\<lparr>st_ConfigChanged :=
                         Some (\<not> same_data (cm_Data (fst current)) newData)\<rparr>\<rparr>))
      else ret c)"

section \<open>Facts\<close>

lemma same_data_iff:
  assumes "go_map x" "go_map y"
  shows "same_data (Some x) (Some y) \<longleftrightarrow> map_of x = map_of y"
proof
  assume s: "same_data (Some x) (Some y)"
  have le: "map_of y k = Some v" if "map_of x k = Some v" for k v
    using s map_of_SomeD [OF that] by (auto simp: same_data_def list_all_iff)
  then have sub: "dom (map_of x) \<subseteq> dom (map_of y)" by (auto simp: dom_def)
  have card: "card (dom (map_of y)) \<le> card (dom (map_of x))"
    using s assms by (simp add: same_data_def go_map_def dom_map_of_conv_image_fst distinct_card flip: set_map)
  from card_seteq [OF _ sub card] have "dom (map_of x) = dom (map_of y)" by (simp add: finite_dom_map_of)
  with le show "map_of x = map_of y" by (intro ext) (metis domIff not_None_eq)
next
  assume e: "map_of x = map_of y"
  then have "fst ` set x = fst ` set y" by (metis dom_map_of_conv_image_fst)
  then have "length x = length y"
    using assms by (metis distinct_card go_map_def length_map list.set_map)
  then show "same_data (Some x) (Some y)"
    using assms by (auto simp: same_data_def list_all_iff go_map_def e [symmetric])
qed

lemma EndpointList_Nil [simp]: "EndpointList [] port = []"
  by (simp add: EndpointList_def)

lemma length_EndpointList [simp]: "length (EndpointList ips port) = length ips"
  by (simp add: EndpointList_def)

lemma sort_by_ip_set [simp]: "set (sort_by_ip ps) = set ps"
  by (simp add: sort_by_ip_def)

lemma service_volumes_meta [simp]: "sts_meta (service_volumes ord name ty cm sec sts) = sts_meta sts"
  by (simp add: service_volumes_def AddVolumesToIntendedSTS_def AddSecretVolumesToIntendedSTS_def)

lemma set_spec_meta [simp]:
  "sts_meta (set_anti_affinity ty name sts) = sts_meta sts" "sts_meta (set_service_account n sts) = sts_meta sts"
  by (simp_all add: set_anti_affinity_def set_service_account_def update_spec_def)

lemma update_containers_meta:
  "update_containers f sts s = (Ok sts', s') \<Longrightarrow> sts_meta sts' = sts_meta sts"
  "update_init_containers f sts s = (Ok sts', s') \<Longrightarrow> sts_meta sts' = sts_meta sts"
  by (auto simp: update_containers_def update_init_containers_def go_simps update_spec_def)

lemma pspec_update_spec [simp]:
  "pt_Spec (sts_Template (update_spec f sts)) = f (pt_Spec (sts_Template sts))"
  by (simp add: update_spec_def)

text \<open>
  When the names of the containers are distinct, the loop that removes containers does what its
  callers expect.
\<close>

lemma remove_container_loop_skip:
  assumes "\<forall>i \<in> set is. pco_Name (arr ! i) \<noteq> name"
  shows "remove_container_loop name (is @ js) m arr = remove_container_loop name js m arr"
  using assms by (induction "is") auto

lemma remove_container_loop_none:
  assumes "\<forall>i \<in> set is. pco_Name (arr ! i) \<noteq> name"
  shows "remove_container_loop name is m arr = ret (take m arr)"
  using assms by (induction "is") auto

lemma remove_container_loop_filter:
  assumes "distinct (map pco_Name cs)"
  shows "remove_container_loop name [0..<length cs] (length cs) cs = ret (filter (\<lambda>c. pco_Name c \<noteq> name) cs)"
proof (cases "\<exists>c \<in> set cs. pco_Name c = name")
  case False
  then show ?thesis by (subst remove_container_loop_none) (auto simp: filter_id_conv)
next
  case True
  then obtain as c bs where cs: "cs = as @ c # bs" and c: "pco_Name c = name" by (auto dest: split_list)
  with assms have no: "\<forall>x \<in> set as \<union> set bs. pco_Name x \<noteq> name" by (auto simp: image_iff)
  have idx: "[0..<length cs] = [0..<length as] @ length as # [Suc (length as)..<length cs]"
    using upt_add_eq_append [of 0 "length as" "Suc (length bs)"] by (simp add: cs upt_rec)
  let ?arr = "(as @ bs) @ drop (length (as @ bs)) cs"
  have rest: "pco_Name (?arr ! j) \<noteq> name" if "j \<in> set [Suc (length as)..<length cs]" for j
  proof -
    have "?arr ! j \<in> set bs"
    proof (cases "j < length (as @ bs)")
      case True
      then have "?arr ! j = bs ! (j - length as)" "j - length as < length bs" using that by (auto simp: nth_append)
      then show ?thesis by simp
    next
      case False
      with that have j: "j = length (as @ bs)" by (simp add: cs)
      with that cs have "?arr ! j = (c # bs) ! length bs" "bs \<noteq> []" by (auto simp: nth_append)
      then show ?thesis by (metis last_conv_nth last_in_set length_Suc_conv nth_Cons' diff_Suc_1 length_0_conv)
    qed
    then show ?thesis using no by simp
  qed
  have "remove_container_loop name [0..<length cs] (length cs) cs =
      remove_container_loop name (length as # [Suc (length as)..<length cs]) (length cs) cs"
    unfolding idx by (rule remove_container_loop_skip) (use no in \<open>auto simp: cs nth_append\<close>)
  also have "\<dots> = remove_container_loop name [Suc (length as)..<length cs] (length (as @ bs)) ?arr"
    using c by (simp add: cs RemoveIndex_def nth_append)
  also have "\<dots> = ret (take (length (as @ bs)) ?arr)"
    by (rule remove_container_loop_none) (use rest in blast)
  also have "take (length (as @ bs)) ?arr = filter (\<lambda>c. pco_Name c \<noteq> name) cs"
    using no c by (simp add: cs filter_id_conv)
  finally show ?thesis .
qed

lemma remove_containers_filter:
  assumes "distinct (map pco_Name (pspec_Containers (pt_Spec (sts_Template sts))))"
  shows "remove_containers name sts =
     ret (update_spec (\<lambda>sp. sp\<lparr>pspec_Containers := filter (\<lambda>c. pco_Name c \<noteq> name) (pspec_Containers (pt_Spec (sts_Template sts)))\<rparr>) sts)"
  using assms by (simp add: remove_containers_def remove_container_loop_filter Let_def fun_eq_iff)

lemma service_volumes_Containers [simp]:
  "pspec_Containers (pt_Spec (sts_Template (service_volumes ord name ty cm sec sts))) = pspec_Containers (pt_Spec (sts_Template sts))"
  by (simp add: service_volumes_def AddVolumesToIntendedSTS_def AddSecretVolumesToIntendedSTS_def add_volumes_def Let_def)

lemma set_spec_Containers [simp]:
  "pspec_Containers (pt_Spec (sts_Template (set_anti_affinity ty name sts))) = pspec_Containers (pt_Spec (sts_Template sts))"
  "pspec_Containers (pt_Spec (sts_Template (set_service_account n sts))) = pspec_Containers (pt_Spec (sts_Template sts))"
  by (simp_all add: set_anti_affinity_def set_service_account_def)

lemma mapM_keeps:
  assumes "mapM f xs s = (Ok ys, s')" and "\<And>x y t t'. f x t = (Ok y, t') \<Longrightarrow> g y = g x"
  shows "map g ys = map g xs"
  using assms(1) by (induction xs arbitrary: s ys) (auto simp: go_simps dest!: assms(2))

lemma update_containers_names:
  assumes "update_containers f sts s = (Ok sts', s')" and "\<And>x y t t'. f x t = (Ok y, t') \<Longrightarrow> pco_Name y = pco_Name x"
  shows "map pco_Name (pspec_Containers (pt_Spec (sts_Template sts'))) = map pco_Name (pspec_Containers (pt_Spec (sts_Template sts)))"
  using assms(1) by (auto simp: update_containers_def go_simps dest!: mapM_keeps [where g = pco_Name, OF _ assms(2)])

lemma update_init_containers_Containers:
  assumes "update_init_containers f sts s = (Ok sts', s')"
  shows "pspec_Containers (pt_Spec (sts_Template sts')) = pspec_Containers (pt_Spec (sts_Template sts))"
  using assms by (auto simp: update_init_containers_def go_simps)

lemma container_names [simp]:
  "pco_Name (add_mount n path c) = pco_Name c" "pco_Name (add_service_mounts name ty c) = pco_Name c"
  "pco_Name (command_or_default cmd ic c) = pco_Name c"
  by (simp_all add: add_mount_def add_service_mounts_def command_or_default_def)

lemma service_container_name:
  assumes "service_container containers command f c s = (Ok c', s')" and "\<And>x. pco_Name (f x) = pco_Name x"
  shows "pco_Name c' = pco_Name c"
  using assms by (auto simp: service_container_def go_simps)

end
