(* ===== verification/ConfigFiles.thy ===== *)
theory ConfigFiles
  imports ServiceParts
begin

text \<open>
  The manifest of the Config service (\<open>pkg/controller/config/sts.go\<close>) and the templates of its
  configuration files (\<open>pkg/configuration/config_config.go\<close>).  A template is a function of the values it
  is filled with; the record has the fields of all the templates, of which each reads its own.
\<close>

section \<open>The stateful set\<close>

definition config_GetSTS :: stateful_set where
  "config_GetSTS =
     \<lparr>sts_meta = new_meta\<lparr>om_Name := ''config''\<rparr>, sts_Replicas = Some 1,
      sts_PodManagementPolicy = [], sts_Selector = Some (Some [(''app'', ''config'')]),
      sts_Template =
        \<lparr>pt_Annotations = None, pt_Labels = Some [(''app'', ''config''), (''contrail_manager'', ''config'')],
         pt_Spec = new_pod_spec\<lparr>pspec_InitContainers := [new_pod_container\<lparr>pco_Name := ''init'',
                                               pco_Image := ''busybox'',
                                               pco_Command := [''sh'', ''-c'', ''until grep ready /tmp/podinfo/pod_labels > /dev/null 2>&1; do sleep 1; done''],
                                               pco_VolumeMounts := [new_mount ''status'' ''/tmp/podinfo''],
                                               pco_ImagePullPolicy := ''IfNotPresent''\<rparr>,
                                              new_pod_container\<lparr>pco_Name := ''init2'',
                                               pco_Image := ''busybox'',
                                               pco_Command := [''sh'', ''-c'', ''until grep true /tmp/podinfo/peers_ready > /dev/null 2>&1; do sleep 1; done''],
                                               pco_VolumeMounts := [new_mount ''status'' ''/tmp/podinfo''],
                                               pco_ImagePullPolicy := ''IfNotPresent''\<rparr>],
                    pspec_Containers := [new_pod_container\<lparr>pco_Name := ''api'',
                                           pco_Image := ''docker.io/michaelhenkel/contrail-controller-config-api:5.2.0-dev1'',
                                           pco_Env := [(''POD_IP'', EnvFieldRef ''status.podIP'')],
                                           pco_VolumeMounts := [new_mount ''config-logs'' ''/var/log/contrail''],
                                           pco_ImagePullPolicy := ''IfNotPresent'',
                                           pco_ReadinessProbe := Some ((new_probe (HTTPGetAction ''HTTPS'' [] 8082 ''/'')))\<rparr>,
                                          new_pod_container\<lparr>pco_Name := ''devicemanager'',
                                           pco_Image := ''docker.io/michaelhenkel/contrail-controller-config-devicemgr:5.2.0-dev1'',
                                           pco_Env := [(''POD_IP'', EnvFieldRef ''status.podIP'')],
                                           pco_VolumeMounts := [new_mount ''config-device-manager-logs'' ''/var/log/contrail/config-device-manager''],
                                           pco_ImagePullPolicy := ''IfNotPresent''\<rparr>,
                                          new_pod_container\<lparr>pco_Name := ''dnsmasq'',
                                           pco_Image := ''docker.io/michaelhenkel/contrail-external-dnsmasq:5.2.0-dev1'',
                                           pco_Env := [(''POD_IP'', EnvFieldRef ''status.podIP''),
                                                       (''CONTROLLER_NODES'', EnvFieldRef ''status.podIP'')],
                                           pco_VolumeMounts := [new_mount ''config-logs'' ''/var/log/contrail''],
                                           pco_ImagePullPolicy := ''IfNotPresent''\<rparr>,
                                          new_pod_container\<lparr>pco_Name := ''schematransformer'',
                                           pco_Image := ''docker.io/michaelhenkel/contrail-controller-config-schema:5.2.0-dev1'',
                                           pco_Env := [(''POD_IP'', EnvFieldRef ''status.podIP'')],
                                           pco_VolumeMounts := [new_mount ''config-logs'' ''/var/log/contrail''],
                                           pco_ImagePullPolicy := ''IfNotPresent''\<rparr>,
                                          new_pod_container\<lparr>pco_Name := ''servicemonitor'',
                                           pco_Image := ''docker.io/michaelhenkel/contrail-controller-config-svcmonitor:5.2.0-dev1'',
                                           pco_Env := [(''POD_IP'', EnvFieldRef ''status.podIP'')],
                                           pco_VolumeMounts := [new_mount ''config-logs'' ''/var/log/contrail''],
                                           pco_ImagePullPolicy := ''IfNotPresent''\<rparr>,
                                          new_pod_container\<lparr>pco_Name := ''analyticsapi'',
                                           pco_Image := ''docker.io/michaelhenkel/contrail-analytics-api:5.2.0-dev1'',
                                           pco_Env := [(''POD_IP'', EnvFieldRef ''status.podIP''),
                                                       (''ANALYTICSDB_ENABLE'', EnvValue ''true''),
                                                       (''ANALYTICS_ALARM_ENABLE'', EnvValue ''true'')],
                                           pco_VolumeMounts := [new_mount ''config-logs'' ''/var/log/contrail''],
                                           pco_ImagePullPolicy := ''IfNotPresent''\<rparr>,
                                          new_pod_container\<lparr>pco_Name := ''queryengine'',
                                           pco_Image := ''docker.io/michaelhenkel/contrail-analytics-query-engine:5.2.0-dev1'',
                                           pco_Env := [(''POD_IP'', EnvFieldRef ''status.podIP'')],
                                           pco_VolumeMounts := [new_mount ''config-logs'' ''/var/log/contrail''],
                                           pco_ImagePullPolicy := ''IfNotPresent''\<rparr>,
                                          new_pod_container\<lparr>pco_Name := ''collector'',
                                           pco_Image := ''docker.io/michaelhenkel/contrail-analytics-collector:5.2.0-dev1'',
                                           pco_Env := [(''POD_IP'', EnvFieldRef ''status.podIP'')],
                                           pco_VolumeMounts := [new_mount ''config-logs'' ''/var/log/contrail''],
                                           pco_ImagePullPolicy := ''IfNotPresent''\<rparr>,
                                          new_pod_container\<lparr>pco_Name := ''redis'',
                                           pco_Image := ''docker.io/michaelhenkel/contrail-external-redis:5.2.0-dev1'',
                                           pco_Env := [(''POD_IP'', EnvFieldRef ''status.podIP'')],
                                           pco_VolumeMounts := [new_mount ''config-logs'' ''/var/log/contrail'',
                                                                new_mount ''config-data'' ''/var/lib/redis''],
                                           pco_ImagePullPolicy := ''IfNotPresent''\<rparr>,
                                          new_pod_container\<lparr>pco_Name := ''nodemanagerconfig'',
                                           pco_Image := ''docker.io/michaelhenkel/contrail-nodemgr:5.2.0-dev1'',
                                           pco_Env := [(''DOCKER_HOST'', EnvValue ''unix://mnt/docker.sock''),
                                                       (''NODE_TYPE'', EnvValue ''config''),
                                                       (''POD_IP'', EnvFieldRef ''status.podIP'')],
                                           pco_VolumeMounts := [new_mount ''config-logs'' ''/var/log/contrail'',
                                                                new_mount ''docker-unix-socket'' ''/mnt'',
                                                                new_mount ''crashes'' ''/var/crashes''],
                                           pco_ImagePullPolicy := ''IfNotPresent''\<rparr>,
                                          new_pod_container\<lparr>pco_Name := ''nodemanageranalytics'',
                                           pco_Image := ''docker.io/michaelhenkel/contrail-nodemgr:5.2.0-dev1'',
                                           pco_Env := [(''DOCKER_HOST'', EnvValue ''unix://mnt/docker.sock''),
                                                       (''NODE_TYPE'', EnvValue ''analytics''),
                                                       (''POD_IP'', EnvFieldRef ''status.podIP'')],
                                           pco_VolumeMounts := [new_mount ''config-logs'' ''/var/log/contrail'',
                                                                new_mount ''docker-unix-socket'' ''/mnt'',
                                                                new_mount ''crashes'' ''/var/crashes''],
                                           pco_ImagePullPolicy := ''IfNotPresent''\<rparr>,
                                          new_pod_container\<lparr>pco_Name := ''statusmonitor'',
                                           pco_Image := ''docker.io/kaweue/contrail-statusmonitor:debug'',
                                           pco_Env := [(''POD_IP'', EnvFieldRef ''status.podIP'')],
                                           pco_VolumeMounts := [new_mount ''config-logs'' ''/var/log/contrail''],
                                           pco_ImagePullPolicy := ''IfNotPresent''\<rparr>],
                    pspec_DNSPolicy := ''ClusterFirst'',
                    pspec_HostNetwork := True,
                    pspec_NodeSelector := Some [(''node-role.kubernetes.io/master'', [])],
                    pspec_Tolerations := [exists_toleration ''NoSchedule'', exists_toleration ''NoExecute''],
                    pspec_Volumes := [\<lparr>vol_Name = ''tftp'', vol_Source = EmptyDirVolume\<rparr>,
                                       \<lparr>vol_Name = ''dnsmasq'', vol_Source = EmptyDirVolume\<rparr>,
                                       \<lparr>vol_Name = ''config-logs'', vol_Source = HostPathVolume ''/var/log/contrail/config'' []\<rparr>,
                                       \<lparr>vol_Name = ''config-device-manager-logs'', vol_Source = HostPathVolume ''/var/log/contrail/config-device-manager'' []\<rparr>,
                                       \<lparr>vol_Name = ''crashes'', vol_Source = HostPathVolume ''/var/contrail/crashes'' []\<rparr>,
                                       \<lparr>vol_Name = ''config-data'', vol_Source = HostPathVolume ''/var/lib/contrail/config'' []\<rparr>,
                                       \<lparr>vol_Name = ''docker-unix-socket'', vol_Source = HostPathVolume ''/var/run'' []\<rparr>,
                                       \<lparr>vol_Name = ''host-usr-local-bin'', vol_Source = HostPathVolume ''/usr/local/bin'' []\<rparr>,
                                       \<lparr>vol_Name = ''status'', vol_Source = DownwardAPIVolume [(''pod_labels'', ''metadata.labels''), (''peers_ready'', ''metadata.labels''), (''pod_labelsx'', ''metadata.labels'')] (Some 420)\<rparr>]\<rparr>\<rparr>,
      sts_ServiceName = ''config'', sts_VolumeClaimTemplates = [], sts_ReadyReplicas = 0,
      sts_CurrentRevision = [], sts_UpdateRevision = []\<rparr>"

section \<open>Templates\<close>

record config_template =
  cft_HostIP :: string
  cft_Hostname :: string
  cft_ListenPort :: string
  cft_AuthMode :: string
  cft_AAAMode :: string
  cft_LogLevel :: string
  cft_CAFilePath :: string
  cft_KeystoneAddress :: string
  cft_KeystonePort :: int
  cft_KeystoneUserDomainName :: string
  cft_KeystoneProjectDomainName :: string
  cft_KeystoneRegion :: string
  cft_KeystoneAuthProtocol :: string
  cft_AdminUsername :: string
  cft_AdminPassword :: string
  cft_ApiServerList :: string
  cft_AnalyticsServerList :: string
  cft_CassandraServerList :: string
  cft_ZookeeperServerList :: string
  cft_RabbitmqServerList :: string
  cft_CollectorServerList :: string
  cft_RedisServerList :: string
  cft_RabbitmqUser :: string
  cft_RabbitmqPassword :: string
  cft_RabbitmqVhost :: string
  cft_FabricMgmtIP :: string
  cft_ApiIntrospectPort :: string
  cft_ApiAdminPort :: int
  cft_DeviceManagerIntrospectPort :: string
  cft_SchemaIntrospectPort :: string
  cft_SvcMonitorIntrospectPort :: string
  cft_AnalyticsApiIntrospectPort :: string
  cft_CollectorIntrospectPort :: string
  cft_AnalyticsDataTTL :: string
  cft_AnalyticsConfigAuditTTL :: string
  cft_AnalyticsStatisticsTTL :: string
  cft_AnalyticsFlowTTL :: string
  cft_CassandraPort :: string
  cft_CassandraJmxPort :: string

definition ConfigAPIVNC :: "config_template \<Rightarrow> string" where
  "ConfigAPIVNC d =
     text_lines
       [''[global]'',
        ''WEB_SERVER = '' @ cft_HostIP d,
        ''WEB_PORT = '' @ cft_ListenPort d @ '' ; connection to api-server directly'',
        ''BASE_URL = /'',
        ''use_ssl = True'',
        ''cafile = '' @ cft_CAFilePath d,
        ''; Authentication settings (optional)'',
        ''[auth]'',
        ''AUTHN_TYPE = '' @ cft_AuthMode d,
        ''AUTHN_PROTOCOL = '' @ cft_KeystoneAuthProtocol d,
        ''AUTHN_SERVER = '' @ cft_KeystoneAddress d,
        ''AUTHN_PORT = '' @ Itoa (cft_KeystonePort d),
        ''AUTHN_URL = /v3/auth/tokens'',
        ''AUTHN_DOMAIN = '' @ cft_KeystoneUserDomainName d,
        ''cafile = '' @ cft_CAFilePath d,
        '';AUTHN_TOKEN_URL = http://127.0.0.1:35357/v2.0/tokens'']"

definition ConfigAPIConfig :: "config_template \<Rightarrow> string" where
  "ConfigAPIConfig d =
     text_lines
       [''[DEFAULTS]'',
        ''listen_ip_addr=0.0.0.0'',
        ''listen_port='' @ cft_ListenPort d,
        ''admin_port='' @ Itoa (cft_ApiAdminPort d),
        ''http_server_port='' @ cft_ApiIntrospectPort d,
        ''http_server_ip=0.0.0.0'',
        ''log_file=/var/log/contrail/contrail-api.log'',
        ''log_level='' @ cft_LogLevel d,
        ''log_local=1'',
        ''list_optimization_enabled=True'',
        ''auth='' @ cft_AuthMode d,
        ''aaa_mode='' @ cft_AAAMode d,
        ''cloud_admin_role=admin'',
        ''global_read_only_role='',
        ''config_api_ssl_enable=True'',
        ''config_api_ssl_certfile=/etc/certificates/server-'' @ cft_HostIP d @ ''.crt'',
        ''config_api_ssl_keyfile=/etc/certificates/server-key-'' @ cft_HostIP d @ ''.pem'',
        ''config_api_ssl_ca_cert='' @ cft_CAFilePath d,
        ''cassandra_server_list='' @ cft_CassandraServerList d,
        ''cassandra_use_ssl=true'',
        ''cassandra_ca_certs='' @ cft_CAFilePath d,
        ''zk_server_ip='' @ cft_ZookeeperServerList d,
        ''rabbit_server='' @ cft_RabbitmqServerList d,
        ''rabbit_vhost='' @ cft_RabbitmqVhost d,
        ''rabbit_user='' @ cft_RabbitmqUser d,
        ''rabbit_password='' @ cft_RabbitmqPassword d,
        ''rabbit_use_ssl=True'',
        ''kombu_ssl_keyfile=/etc/certificates/server-key-'' @ cft_HostIP d @ ''.pem'',
        ''kombu_ssl_certfile=/etc/certificates/server-'' @ cft_HostIP d @ ''.crt'',
        ''kombu_ssl_ca_certs='' @ cft_CAFilePath d,
        ''kombu_ssl_version=tlsv1_2'',
        ''rabbit_health_check_interval=10'',
        ''collectors='' @ cft_CollectorServerList d,
        ''enable_latency_stats_log=False'',
        ''enable_api_stats_log=True'',
        [],
        ''[SANDESH]'',
        ''introspect_ssl_enable=True'',
        ''introspect_ssl_insecure=True'',
        ''sandesh_ssl_enable=True'',
        ''sandesh_keyfile=/etc/certificates/server-key-'' @ cft_HostIP d @ ''.pem'',
        ''sandesh_certfile=/etc/certificates/server-'' @ cft_HostIP d @ ''.crt''] @
     ''sandesh_ca_cert='' @ cft_CAFilePath d"

definition ConfigDeviceManagerConfig :: "config_template \<Rightarrow> string" where
  "ConfigDeviceManagerConfig d =
     text_lines
       [''[DEFAULTS]'',
        ''host_ip='' @ cft_FabricMgmtIP d,
        ''http_server_ip=0.0.0.0'',
        ''api_server_ip='' @ cft_ApiServerList d,
        ''api_server_port=8082'',
        ''http_server_port='' @ cft_DeviceManagerIntrospectPort d,
        ''api_server_use_ssl=True'',
        ''analytics_server_ip='' @ cft_AnalyticsServerList d,
        ''analytics_server_port=8081'',
        ''push_mode=1'',
        ''log_file=/var/log/contrail/config-device-manager/contrail-device-manager.log'',
        ''log_level='' @ cft_LogLevel d,
        ''log_local=1'',
        ''cassandra_server_list='' @ cft_CassandraServerList d,
        ''cassandra_use_ssl=true'',
        ''cassandra_ca_certs='' @ cft_CAFilePath d,
        ''zk_server_ip='' @ cft_ZookeeperServerList d,
        ''# configure directories for job manager'',
        ''# the same directories must be mounted to dnsmasq and DM container'',
        ''dnsmasq_conf_dir=/var/lib/dnsmasq'',
        ''tftp_dir=/var/lib/tftp'',
        ''dhcp_leases_file=/var/lib/dnsmasq/dnsmasq.leases'',
        ''dnsmasq_reload_by_signal=True'',
        ''rabbit_server='' @ cft_RabbitmqServerList d,
        ''rabbit_vhost='' @ cft_RabbitmqVhost d,
        ''rabbit_user='' @ cft_RabbitmqUser d,
        ''rabbit_password='' @ cft_RabbitmqPassword d,
        ''rabbit_use_ssl=True'',
        ''kombu_ssl_keyfile=/etc/certificates/server-key-'' @ cft_HostIP d @ ''.pem'',
        ''kombu_ssl_certfile=/etc/certificates/server-'' @ cft_HostIP d @ ''.crt'',
        ''kombu_ssl_ca_certs='' @ cft_CAFilePath d,
        ''kombu_ssl_version=tlsv1_2'',
        ''rabbit_health_check_interval=10'',
        ''collectors='' @ cft_CollectorServerList d,
        ''[SANDESH]'',
        ''introspect_ssl_enable=True'',
        ''introspect_ssl_insecure=True'',
        ''sandesh_ssl_enable=True'',
        ''sandesh_keyfile=/etc/certificates/server-key-'' @ cft_HostIP d @ ''.pem'',
        ''sandesh_certfile=/etc/certificates/server-'' @ cft_HostIP d @ ''.crt''] @
     ''sandesh_ca_cert='' @ cft_CAFilePath d"

definition ConfigKeystoneAuthConf :: "config_template \<Rightarrow> string" where
  "ConfigKeystoneAuthConf d =
     text_lines
       [''[KEYSTONE]'',
        ''admin_password = '' @ cft_AdminPassword d,
        ''admin_tenant_name = '' @ cft_AdminUsername d,
        ''admin_user = '' @ cft_AdminUsername d,
        ''auth_host = '' @ cft_KeystoneAddress d,
        ''auth_port = '' @ Itoa (cft_KeystonePort d),
        ''auth_protocol = '' @ cft_KeystoneAuthProtocol d,
        ''auth_url = '' @ cft_KeystoneAuthProtocol d @ ''://'' @ cft_KeystoneAddress d @ '':'' @ Itoa (cft_KeystonePort d) @ ''/v3'',
        ''auth_type = password'',
        ''cafile = '' @ cft_CAFilePath d,
        ''user_domain_name = '' @ cft_KeystoneUserDomainName d,
        ''project_domain_name = '' @ cft_KeystoneProjectDomainName d] @
     ''region_name = '' @ cft_KeystoneRegion d"

definition FabricAnsibleConf :: "config_template \<Rightarrow> string" where
  "FabricAnsibleConf d =
     text_lines
       [''[DEFAULTS]'',
        ''log_file = /var/log/contrail/config-device-manager/contrail-fabric-ansible.log'',
        ''log_level='' @ cft_LogLevel d,
        ''log_local=1'',
        ''collectors='' @ cft_CollectorServerList d,
        [],
        ''[SANDESH]'',
        ''introspect_ssl_enable=True'',
        ''introspect_ssl_insecure=True'',
        ''sandesh_ssl_enable=True'',
        ''sandesh_keyfile=/etc/certificates/server-key-'' @ cft_HostIP d @ ''.pem'',
        ''sandesh_certfile=/etc/certificates/server-'' @ cft_HostIP d @ ''.crt''] @
     ''sandesh_ca_cert='' @ cft_CAFilePath d"

definition ConfigDNSMasqConfig :: string where
  "ConfigDNSMasqConfig =
     text_lines
       [[],
        ''log-facility=/dev/stdout'',
        ''bogus-priv'',
        ''log-dhcp'',
        ''enable-tftp'',
        ''tftp-root=/etc/tftp'',
        ''dhcp-leasefile=/var/lib/dnsmasq/dnsmasq.leases'',
        ''conf-dir=/var/lib/dnsmasq/,*.conf'']"

definition ConfigSchematransformerConfig :: "config_template \<Rightarrow> string" where
  "ConfigSchematransformerConfig d =
     text_lines
       [''[DEFAULTS]'',
        ''host_ip='' @ cft_HostIP d,
        ''http_server_ip=0.0.0.0'',
        ''http_server_port='' @ cft_SchemaIntrospectPort d,
        ''api_server_ip='' @ cft_ApiServerList d,
        ''api_server_port=8082'',
        ''api_server_use_ssl=True'',
        ''log_file=/var/log/contrail/contrail-schema.log'',
        ''log_level='' @ cft_LogLevel d,
        ''log_local=1'',
        ''cassandra_server_list='' @ cft_CassandraServerList d,
        ''cassandra_use_ssl=true'',
        ''cassandra_ca_certs='' @ cft_CAFilePath d,
        ''zk_server_ip='' @ cft_ZookeeperServerList d,
        ''rabbit_server='' @ cft_RabbitmqServerList d,
        ''rabbit_vhost='' @ cft_RabbitmqVhost d,
        ''rabbit_user='' @ cft_RabbitmqUser d,
        ''rabbit_password='' @ cft_RabbitmqPassword d,
        ''rabbit_use_ssl=True'',
        ''kombu_ssl_keyfile=/etc/certificates/server-key-'' @ cft_HostIP d @ ''.pem'',
        ''kombu_ssl_certfile=/etc/certificates/server-'' @ cft_HostIP d @ ''.crt'',
        ''kombu_ssl_ca_certs='' @ cft_CAFilePath d,
        ''kombu_ssl_version=tlsv1_2'',
        ''rabbit_health_check_interval=10'',
        ''collectors='' @ cft_CollectorServerList d,
        ''[SANDESH]'',
        ''introspect_ssl_enable=True'',
        ''introspect_ssl_insecure=True'',
        ''sandesh_ssl_enable=True'',
        ''sandesh_keyfile=/etc/certificates/server-key-'' @ cft_HostIP d @ ''.pem'',
        ''sandesh_certfile=/etc/certificates/server-'' @ cft_HostIP d @ ''.crt'',
        ''sandesh_ca_cert='' @ cft_CAFilePath d,
        ''[SECURITY]'',
        ''use_certs=True'',
        ''ca_certs='' @ cft_CAFilePath d,
        ''certfile=/etc/certificates/server-'' @ cft_HostIP d @ ''.crt''] @
     ''keyfile=/etc/certificates/server-key-'' @ cft_HostIP d @ ''.pem''"

definition ConfigServicemonitorConfig :: "config_template \<Rightarrow> string" where
  "ConfigServicemonitorConfig d =
     text_lines
       [''[DEFAULTS]'',
        ''host_ip='' @ cft_HostIP d,
        ''http_server_ip=0.0.0.0'',
        ''http_server_port='' @ cft_SvcMonitorIntrospectPort d,
        ''api_server_ip='' @ cft_ApiServerList d,
        ''api_server_port=8082'',
        ''api_server_use_ssl=True'',
        ''log_file=/var/log/contrail/contrail-svc-monitor.log'',
        ''log_level='' @ cft_LogLevel d,
        ''log_local=1'',
        ''cassandra_server_list='' @ cft_CassandraServerList d,
        ''cassandra_use_ssl=true'',
        ''cassandra_ca_certs='' @ cft_CAFilePath d,
        ''zk_server_ip='' @ cft_ZookeeperServerList d,
        ''rabbit_server='' @ cft_RabbitmqServerList d,
        ''rabbit_vhost='' @ cft_RabbitmqVhost d,
        ''rabbit_user='' @ cft_RabbitmqUser d,
        ''rabbit_password='' @ cft_RabbitmqPassword d,
        ''rabbit_use_ssl=True'',
        ''kombu_ssl_keyfile=/etc/certificates/server-key-'' @ cft_HostIP d @ ''.pem'',
        ''kombu_ssl_certfile=/etc/certificates/server-'' @ cft_HostIP d @ ''.crt'',
        ''kombu_ssl_ca_certs='' @ cft_CAFilePath d,
        ''kombu_ssl_version=tlsv1_2'',
        ''rabbit_health_check_interval=10'',
        ''collectors='' @ cft_CollectorServerList d,
        ''analytics_api_ssl_enable = True'',
        ''analytics_api_insecure_enable = False'',
        ''analytics_api_ssl_certfile = /etc/certificates/server-'' @ cft_HostIP d @ ''.crt'',
        ''analytics_api_ssl_keyfile = /etc/certificates/server-key-'' @ cft_HostIP d @ ''.pem'',
        ''analytics_api_ssl_ca_cert = '' @ cft_CAFilePath d,
        ''[SECURITY]'',
        ''use_certs=True'',
        ''keyfile=/etc/certificates/server-key-'' @ cft_HostIP d @ ''.pem'',
        ''certfile=/etc/certificates/server-'' @ cft_HostIP d @ ''.crt'',
        ''ca_certs='' @ cft_CAFilePath d,
        ''[SCHEDULER]'',
        ''# Analytics server list used to get vrouter status and schedule service instance'',
        ''analytics_server_list='' @ cft_AnalyticsServerList d,
        ''aaa_mode='' @ cft_AAAMode d,
        ''[SANDESH]'',
        ''introspect_ssl_enable=True'',
        ''introspect_ssl_insecure=True'',
        ''sandesh_ssl_enable=True'',
        ''sandesh_keyfile=/etc/certificates/server-key-'' @ cft_HostIP d @ ''.pem'',
        ''sandesh_certfile=/etc/certificates/server-'' @ cft_HostIP d @ ''.crt''] @
     ''sandesh_ca_cert='' @ cft_CAFilePath d"

definition ConfigAnalyticsapiConfig :: "config_template \<Rightarrow> string" where
  "ConfigAnalyticsapiConfig d =
     text_lines
       [''[DEFAULTS]'',
        ''host_ip='' @ cft_HostIP d,
        ''http_server_port='' @ cft_AnalyticsApiIntrospectPort d,
        ''http_server_ip=0.0.0.0'',
        ''rest_api_port=8081'',
        ''rest_api_ip=0.0.0.0'',
        ''aaa_mode='' @ cft_AAAMode d,
        ''log_file=/var/log/contrail/contrail-analytics-api.log'',
        ''log_level=SYS_NOTICE'',
        ''log_local=1'',
        ''# Sandesh send rate limit can be used to throttle system logs transmitted per'',
        ''# second. System logs are dropped if the sending rate is exceeded'',
        ''#sandesh_send_rate_limit ='',
        ''collectors='' @ cft_CollectorServerList d,
        ''api_server='' @ cft_ApiServerList d,
        ''api_server_use_ssl=True'',
        ''zk_list='' @ cft_ZookeeperServerList d,
        ''analytics_api_ssl_enable = True'',
        ''analytics_api_insecure_enable = True'',
        ''analytics_api_ssl_certfile = /etc/certificates/server-'' @ cft_HostIP d @ ''.crt'',
        ''analytics_api_ssl_keyfile = /etc/certificates/server-key-'' @ cft_HostIP d @ ''.pem'',
        ''analytics_api_ssl_ca_cert = '' @ cft_CAFilePath d,
        ''[REDIS]'',
        ''redis_uve_list='' @ cft_RedisServerList d,
        ''redis_password='',
        ''[SANDESH]'',
        ''introspect_ssl_enable=True'',
        ''introspect_ssl_insecure=True'',
        ''sandesh_ssl_enable=True'',
        ''sandesh_keyfile=/etc/certificates/server-key-'' @ cft_HostIP d @ ''.pem'',
        ''sandesh_certfile=/etc/certificates/server-'' @ cft_HostIP d @ ''.crt''] @
     ''sandesh_ca_cert='' @ cft_CAFilePath d"

definition ConfigCollectorConfig :: "config_template \<Rightarrow> string" where
  "ConfigCollectorConfig d =
     text_lines
       [''[DEFAULT]'',
        ''analytics_data_ttl='' @ cft_AnalyticsDataTTL d,
        ''analytics_config_audit_ttl='' @ cft_AnalyticsConfigAuditTTL d,
        ''analytics_statistics_ttl='' @ cft_AnalyticsStatisticsTTL d,
        ''analytics_flow_ttl='' @ cft_AnalyticsFlowTTL d,
        ''partitions=30'',
        ''hostip='' @ cft_HostIP d,
        ''hostname='' @ cft_Hostname d,
        ''http_server_port='' @ cft_CollectorIntrospectPort d,
        ''http_server_ip=0.0.0.0'',
        ''syslog_port=514'',
        ''sflow_port=6343'',
        ''ipfix_port=4739'',
        ''# log_category='',
        ''log_file=/var/log/contrail/contrail-collector.log'',
        ''log_files_count=10'',
        ''log_file_size=1048576'',
        ''log_level='' @ cft_LogLevel d,
        ''log_local=1'',
        ''# sandesh_send_rate_limit='',
        ''cassandra_server_list='' @ cft_CassandraServerList d,
        ''zookeeper_server_list='' @ cft_ZookeeperServerList d,
        ''[CASSANDRA]'',
        ''cassandra_use_ssl=true'',
        ''cassandra_ca_certs='' @ cft_CAFilePath d,
        ''[COLLECTOR]'',
        ''port=8086'',
        ''server=0.0.0.0'',
        ''protobuf_port=3333'',
        ''[STRUCTURED_SYSLOG_COLLECTOR]'',
        ''# TCP & UDP port to listen on for receiving structured syslog messages'',
        ''port=3514'',
        ''# List of external syslog receivers to forward structured syslog messages in ip:port format separated by space'',
        ''# tcp_forward_destination=10.213.17.53:514'',
        ''[API_SERVER]'',
        ''# List of api-servers in ip:port format separated by space'',
        ''api_server_list='' @ cft_ApiServerList d,
        ''api_server_use_ssl=True'',
        ''[REDIS]'',
        ''port=6379'',
        ''server=127.0.0.1'',
        ''password='',
        ''[CONFIGDB]'',
        ''config_db_server_list='' @ cft_CassandraServerList d,
        ''config_db_use_ssl=true'',
        ''config_db_ca_certs='' @ cft_CAFilePath d,
        ''rabbitmq_server_list='' @ cft_RabbitmqServerList d,
        ''rabbitmq_vhost='' @ cft_RabbitmqVhost d,
        ''rabbitmq_user='' @ cft_RabbitmqUser d,
        ''rabbitmq_password='' @ cft_RabbitmqPassword d,
        ''rabbitmq_use_ssl=True'',
        ''rabbitmq_ssl_keyfile=/etc/certificates/server-key-'' @ cft_HostIP d @ ''.pem'',
        ''rabbitmq_ssl_certfile=/etc/certificates/server-'' @ cft_HostIP d @ ''.crt'',
        ''rabbitmq_ssl_ca_certs='' @ cft_CAFilePath d,
        ''rabbitmq_ssl_version=tlsv1_2'',
        ''[SANDESH]'',
        ''introspect_ssl_enable=True'',
        ''introspect_ssl_insecure=True'',
        ''sandesh_ssl_enable=True'',
        ''sandesh_keyfile=/etc/certificates/server-key-'' @ cft_HostIP d @ ''.pem'',
        ''sandesh_certfile=/etc/certificates/server-'' @ cft_HostIP d @ ''.crt''] @
     ''sandesh_ca_cert='' @ cft_CAFilePath d"

definition ConfigQueryEngineConfig :: "config_template \<Rightarrow> string" where
  "ConfigQueryEngineConfig d =
     text_lines
       [''[DEFAULT]'',
        ''analytics_data_ttl='' @ cft_AnalyticsDataTTL d,
        ''hostip='' @ cft_HostIP d,
        ''hostname='' @ cft_Hostname d,
        ''http_server_ip=0.0.0.0'',
        ''http_server_port=8091'',
        ''log_file=/var/log/contrail/contrail-query-engine.log'',
        ''log_level=SYS_DEBUG'',
        ''log_local=1'',
        ''max_slice=100'',
        ''max_tasks=16'',
        ''start_time=0'',
        ''# Sandesh send rate limit can be used to throttle system logs transmitted per'',
        ''# second. System logs are dropped if the sending rate is exceeded'',
        ''# sandesh_send_rate_limit='',
        ''cassandra_server_list='' @ cft_CassandraServerList d,
        ''collectors='' @ cft_CollectorServerList d,
        ''[CASSANDRA]'',
        ''cassandra_use_ssl=true'',
        ''cassandra_ca_certs='' @ cft_CAFilePath d,
        ''[REDIS]'',
        ''server_list='' @ cft_RedisServerList d,
        ''password='',
        ''redis_ssl_enable=False'',
        ''[SANDESH]'',
        ''introspect_ssl_enable=True'',
        ''introspect_ssl_insecure=True'',
        ''sandesh_ssl_enable=True'',
        ''sandesh_keyfile=/etc/certificates/server-key-'' @ cft_HostIP d @ ''.pem'',
        ''sandesh_certfile=/etc/certificates/server-'' @ cft_HostIP d @ ''.crt''] @
     ''sandesh_ca_cert='' @ cft_CAFilePath d"

text \<open>
  The templates of the two node managers read a field \<open>LogLevel\<close>.  A value without this field is
  an error of \<open>Execute\<close>, which by then has written the text before it; \<open>None\<close> is such a value.
\<close>

definition ConfigNodemanagerConfigConfig :: "string option \<Rightarrow> config_template \<Rightarrow> string" where
  "ConfigNodemanagerConfigConfig logLevel d =
     text_lines
       [''[DEFAULTS]'',
        ''http_server_ip=0.0.0.0'',
        ''log_file=/var/log/contrail/contrail-config-nodemgr.log''] @
     ''log_level='' @
     (case logLevel of
        None \<Rightarrow> []
      | Some l \<Rightarrow> l @ text_lines
                 [[],
                  ''log_local=1'',
                  ''hostip='' @ cft_HostIP d,
                  ''db_port='' @ cft_CassandraPort d,
                  ''db_jmx_port='' @ cft_CassandraJmxPort d,
                  ''db_use_ssl=true'',
                  ''[COLLECTOR]'',
                  ''server_list='' @ cft_CollectorServerList d,
                  ''[SANDESH]'',
                  ''introspect_ssl_enable=True'',
                  ''introspect_ssl_insecure=True'',
                  ''sandesh_ssl_enable=True'',
                  ''sandesh_keyfile=/etc/certificates/server-key-'' @ cft_HostIP d @ ''.pem'',
                  ''sandesh_certfile=/etc/certificates/server-'' @ cft_HostIP d @ ''.crt''] @
               ''sandesh_ca_cert='' @ cft_CAFilePath d)"

definition ConfigNodemanagerAnalyticsConfig :: "string option \<Rightarrow> config_template \<Rightarrow> string" where
  "ConfigNodemanagerAnalyticsConfig logLevel d =
     text_lines
       [''[DEFAULTS]'',
        ''http_server_ip=0.0.0.0'',
        ''log_file=/var/log/contrail/contrail-config-nodemgr.log''] @
     ''log_level='' @
     (case logLevel of
        None \<Rightarrow> []
      | Some l \<Rightarrow> l @ text_lines
                 [[],
                  ''log_local=1'',
                  ''hostip='' @ cft_HostIP d,
                  ''db_port='' @ cft_CassandraPort d,
                  ''db_jmx_port='' @ cft_CassandraJmxPort d,
                  ''db_use_ssl=true'',
                  ''[COLLECTOR]'',
                  ''server_list='' @ cft_CollectorServerList d,
                  ''[SANDESH]'',
                  ''introspect_ssl_enable=True'',
                  ''introspect_ssl_insecure=True'',
                  ''sandesh_ssl_enable=True'',
                  ''sandesh_keyfile=/etc/certificates/server-key-'' @ cft_HostIP d @ ''.pem'',
                  ''sandesh_certfile=/etc/certificates/server-'' @ cft_HostIP d @ ''.crt''] @
               ''sandesh_ca_cert='' @ cft_CAFilePath d)"

end
