(* ===== verification/ConfigService.thy ===== *)
theory ConfigService
  imports ConfigFiles
begin

text \<open>
  The methods of \<open>config_types.go\<close> and \<open>pkg/controller/config/config_controller.go\<close>: one
  reconciliation of a Config resource.  It waits for Cassandra, Zookeeper and Rabbitmq.
  \<open>ords i\<close> is the order in which \<open>range\<close> visits the map of introspection ports for the \<open>i\<close>-th pod.
\<close>

section \<open>Methods of the resource\<close>

type_synonym config = "config_configuration cr"

definition ConfigApiAdminPort :: int where "ConfigApiAdminPort = 8095"

record 's config_clients =
  cfc_cassandra :: "(cassandra_configuration cr, 's) kind_client"
  cfc_zookeeper :: "(zookeeper_configuration cr, 's) kind_client"
  cfc_rabbitmq :: "(rabbitmq_configuration cr, 's) kind_client"
  cfc_keystone :: "(keystone_configuration cr, 's) kind_client"

record config_auth =
  cfa_AdminUsername :: string
  cfa_AdminPassword :: string
  cfa_Address :: string
  cfa_Port :: int
  cfa_Region :: string
  cfa_AuthProtocol :: string
  cfa_UserDomainName :: string
  cfa_ProjectDomainName :: string

text \<open>\<open>%q\<close> of a name: no character of the name of a resource is escaped.\<close>

definition Config_AuthParameters ::
  "(k_secret, 's) kind_client \<Rightarrow> (keystone_configuration cr, 's) kind_client \<Rightarrow> config \<Rightarrow> ('s, go_error, config_auth) go" where
  "Config_AuthParameters kcs kck c =
     (let namespace = om_Namespace (cr_meta c)
      in bindM (kc_Get kcs (namespace, cf_KeystoneSecretName (cr_conf c))) (\<lambda>adminPasswordSecret.
         let w = \<lparr>cfa_AdminUsername = ''admin'', cfa_AdminPassword = secret_value adminPasswordSecret ''password'',
                  cfa_Address = [], cfa_Port = 0, cfa_Region = [], cfa_AuthProtocol = [], cfa_UserDomainName = [],
                  cfa_ProjectDomainName = []\<rparr>
         in if cf_AuthMode (cr_conf c) = AuthenticationModeKeystone
            then bindM (kc_Get kck (namespace, cf_KeystoneInstance (cr_conf c))) (\<lambda>keystone.
                   if st_Endpoint (cr_status keystone) = []
                   then throw (errors_New ([CHR 0x22] @ cf_KeystoneInstance (cr_conf c) @ [CHR 0x22] @ '' Status.Endpoint empty''))
                   else ret (w\<lparr>cfa_Port := ks_ListenPort (cr_conf keystone), cfa_Region := ks_Region (cr_conf keystone),
                               cfa_AuthProtocol := ks_AuthProtocol (cr_conf keystone),
                               cfa_UserDomainName := ks_UserDomainName (cr_conf keystone),
                               cfa_ProjectDomainName := ks_ProjectDomainName (cr_conf keystone),
                               cfa_Address := st_Endpoint (cr_status keystone)\<rparr>))
            else ret w))"

record config_nodes =
  cfn_cassandra :: cassandra_cluster
  cfn_zookeeper :: zookeeper_cluster
  cfn_rabbitmq :: rabbitmq_cluster
  cfn_login :: "string \<times> string \<times> string"

definition config_get_nodes ::
  "range_ord \<Rightarrow> (k_secret, 's) kind_client \<Rightarrow> 's config_clients \<Rightarrow> config \<Rightarrow> string \<Rightarrow> ('s, go_error, config_nodes) go" where
  "config_get_nodes ord kcs ocs c namespace =
     bindM (NewCassandraClusterConfiguration ord (cfc_cassandra ocs) (cf_CassandraInstance (cr_conf c)) namespace) (\<lambda>cassandra.
     bindM (NewZookeeperClusterConfiguration ord (cfc_zookeeper ocs) (cf_ZookeeperInstance (cr_conf c)) namespace) (\<lambda>zookeeper.
     bindM (NewRabbitmqClusterConfiguration ord (cfc_rabbitmq ocs)
              (entry_of (om_Labels (cr_meta c)) ''contrail_cluster'') namespace) (\<lambda>rabbitmq.
     bindM (rabbitmq_login kcs namespace (rc_Secret rabbitmq)) (\<lambda>login.
       ret \<lparr>cfn_cassandra = cassandra, cfn_zookeeper = zookeeper, cfn_rabbitmq = rabbitmq, cfn_login = login\<rparr>))))"

text \<open>\<open>strings.Join\<close> with the port in the separator, and the port again at the end.\<close>

definition port_list :: "string list \<Rightarrow> string \<Rightarrow> string" where
  "port_list ips port = join_with ('':'' @ port @ '' '') ips @ '':'' @ port"

text \<open>The lists of servers that differ between the files.\<close>

record config_lists =
  cfl_apiSpace :: string
  cfl_analyticsSpace :: string
  cfl_cassandraCQL :: string
  cfl_rabbitmqSpace :: string
  cfl_zookeeperSpace :: string

definition config_lists_of ::
  "config_nodes \<Rightarrow> config_configuration \<Rightarrow> string list \<Rightarrow> ('s, go_error, config_lists) go" where
  "config_lists_of n conf ips =
     bindM (port_text (cf_AnalyticsPort conf)) (\<lambda>analyticsPort.
     bindM (port_text (cf_APIPort conf)) (\<lambda>apiPort.
       ret \<lparr>cfl_apiSpace = port_list ips apiPort, cfl_analyticsSpace = port_list ips analyticsPort,
            cfl_cassandraCQL =
              JoinListWithSeparator (EndpointList (sc_ServerIPList (cfn_cassandra n)) (sc_CQLPort (cfn_cassandra n))) '' '',
            cfl_rabbitmqSpace =
              JoinListWithSeparator (EndpointList (rc_ServerIPList (cfn_rabbitmq n)) (rc_SSLPort (cfn_rabbitmq n))) '' '',
            cfl_zookeeperSpace =
              JoinListWithSeparator (EndpointList (zc_ServerIPList (cfn_zookeeper n)) (zc_ClientPort (cfn_zookeeper n))) '' ''\<rparr>))"

text \<open>The values of one pod.\<close>

definition config_template_of ::
  "config_nodes \<Rightarrow> config_configuration \<Rightarrow> string \<Rightarrow> config_auth \<Rightarrow> string list \<Rightarrow> string \<Rightarrow> string
    \<Rightarrow> ('s, go_error, config_template) go" where
  "config_template_of n conf fabricMgmtIP auth ips podIP hostname =
     bindM (port_text (cf_CollectorPort conf)) (\<lambda>collectorPort.
     bindM (port_text (cf_RedisPort conf)) (\<lambda>redisPort.
     bindM (port_text (cf_APIPort conf)) (\<lambda>apiPort.
     bindM (port_text (cf_ApiIntrospectPort conf)) (\<lambda>apiIntrospect.
     bindM (port_text (cf_DeviceManagerIntrospectPort conf)) (\<lambda>deviceManagerIntrospect.
     bindM (port_text (cf_SchemaIntrospectPort conf)) (\<lambda>schemaIntrospect.
     bindM (port_text (cf_SvcMonitorIntrospectPort conf)) (\<lambda>svcMonitorIntrospect.
     bindM (port_text (cf_AnalyticsApiIntrospectPort conf)) (\<lambda>analyticsApiIntrospect.
     bindM (port_text (cf_CollectorIntrospectPort conf)) (\<lambda>collectorIntrospect.
     bindM (port_text (cf_AnalyticsDataTTL conf)) (\<lambda>dataTTL.
     bindM (port_text (cf_AnalyticsConfigAuditTTL conf)) (\<lambda>configAuditTTL.
     bindM (port_text (cf_AnalyticsStatisticsTTL conf)) (\<lambda>statisticsTTL.
     bindM (port_text (cf_AnalyticsFlowTTL conf)) (\<lambda>flowTTL.
       ret \<lparr>cft_HostIP = podIP, cft_Hostname = hostname, cft_ListenPort = apiPort, cft_AuthMode = cf_AuthMode conf,
            cft_AAAMode = cf_AAAMode conf, cft_LogLevel = cf_LogLevel conf, cft_CAFilePath = SignerCAFilepath,
            cft_KeystoneAddress = cfa_Address auth, cft_KeystonePort = cfa_Port auth,
            cft_KeystoneUserDomainName = cfa_UserDomainName auth,
            cft_KeystoneProjectDomainName = cfa_ProjectDomainName auth, cft_KeystoneRegion = cfa_Region auth,
            cft_KeystoneAuthProtocol = cfa_AuthProtocol auth, cft_AdminUsername = cfa_AdminUsername auth,
            cft_AdminPassword = cfa_AdminPassword auth, cft_ApiServerList = join_with '','' ips,
            cft_AnalyticsServerList = join_with '','' ips,
            cft_CassandraServerList =
              JoinListWithSeparator (EndpointList (sc_ServerIPList (cfn_cassandra n)) (sc_Port (cfn_cassandra n))) '' '',
            cft_ZookeeperServerList =
              JoinListWithSeparator (EndpointList (zc_ServerIPList (cfn_zookeeper n)) (zc_ClientPort (cfn_zookeeper n))) '','',
            cft_RabbitmqServerList =
              JoinListWithSeparator (EndpointList (rc_ServerIPList (cfn_rabbitmq n)) (rc_SSLPort (cfn_rabbitmq n))) '','',
            cft_CollectorServerList = port_list ips collectorPort, cft_RedisServerList = port_list ips redisPort,
            cft_RabbitmqUser = str_or (fst (cfn_login n)) (cf_RabbitmqUser conf),
            cft_RabbitmqPassword = str_or (fst (snd (cfn_login n))) (cf_RabbitmqPassword conf),
            cft_RabbitmqVhost = str_or (snd (snd (cfn_login n))) (cf_RabbitmqVhost conf),
            cft_FabricMgmtIP = str_or fabricMgmtIP podIP, cft_ApiIntrospectPort = apiIntrospect,
            cft_ApiAdminPort = ConfigApiAdminPort, cft_DeviceManagerIntrospectPort = deviceManagerIntrospect,
            cft_SchemaIntrospectPort = schemaIntrospect, cft_SvcMonitorIntrospectPort = svcMonitorIntrospect,
            cft_AnalyticsApiIntrospectPort = analyticsApiIntrospect, cft_CollectorIntrospectPort = collectorIntrospect,
            cft_AnalyticsDataTTL = dataTTL, cft_AnalyticsConfigAuditTTL = configAuditTTL,
            cft_AnalyticsStatisticsTTL = statisticsTTL, cft_AnalyticsFlowTTL = flowTTL,
            cft_CassandraPort = Itoa (sc_CQLPort (cfn_cassandra n)),
            cft_CassandraJmxPort = Itoa (sc_JMXPort (cfn_cassandra n))\<rparr>)))))))))))))"

text \<open>
  The files of a pod in the order in which they are written.  The values for the node managers have
  no field \<open>LogLevel\<close>.
\<close>

definition config_pod_files ::
  "config_lists \<Rightarrow> config_template \<Rightarrow> string \<Rightarrow> string \<Rightarrow> (string \<times> string) list" where
  "config_pod_files l d podIP statusMonitorConfig =
     [(''monitorconfig.'' @ podIP @ ''.yaml'', statusMonitorConfig),
      (''api.'' @ podIP, ConfigAPIConfig d),
      (''vnc.'' @ podIP, ConfigAPIVNC d),
      (''devicemanager.'' @ podIP, ConfigDeviceManagerConfig d),
      (''contrail-fabric-ansible.conf.'' @ podIP, FabricAnsibleConf d),
      (''contrail-keystone-auth.conf'', ConfigKeystoneAuthConf d),
      (''dnsmasq.'' @ podIP, ConfigDNSMasqConfig),
      (''schematransformer.'' @ podIP, ConfigSchematransformerConfig d),
      (''servicemonitor.'' @ podIP, ConfigServicemonitorConfig (d\<lparr>cft_AnalyticsServerList := cfl_analyticsSpace l\<rparr>)),
      (''analyticsapi.'' @ podIP, ConfigAnalyticsapiConfig
         (d\<lparr>cft_ApiServerList := cfl_apiSpace l, cft_AnalyticsServerList := cfl_analyticsSpace l,
            cft_ZookeeperServerList := cfl_zookeeperSpace l\<rparr>)),
      (''collector.'' @ podIP, ConfigCollectorConfig
         (d\<lparr>cft_ApiServerList := cfl_apiSpace l, cft_CassandraServerList := cfl_cassandraCQL l,
            cft_RabbitmqServerList := cfl_rabbitmqSpace l\<rparr>)),
      (''queryengine.'' @ podIP, ConfigQueryEngineConfig (d\<lparr>cft_CassandraServerList := cfl_cassandraCQL l\<rparr>)),
      (''nodemanagerconfig.'' @ podIP, ConfigNodemanagerConfigConfig None d),
      (''nodemanageranalytics.'' @ podIP, ConfigNodemanagerAnalyticsConfig None d)]"

definition introspectPorts :: "config_configuration \<Rightarrow> ('s, go_error, (string, int) gomap) go" where
  "introspectPorts conf =
     bindM (deref_ptr (cf_ApiIntrospectPort conf)) (\<lambda>api.
     bindM (deref_ptr (cf_SchemaIntrospectPort conf)) (\<lambda>schema.
     bindM (deref_ptr (cf_DeviceManagerIntrospectPort conf)) (\<lambda>deviceManager.
     bindM (deref_ptr (cf_SvcMonitorIntrospectPort conf)) (\<lambda>svcMonitor.
     bindM (deref_ptr (cf_AnalyticsApiIntrospectPort conf)) (\<lambda>analyticsApi.
     bindM (deref_ptr (cf_CollectorIntrospectPort conf)) (\<lambda>collector.
       ret [(''contrail-api'', api), (''contrail-schema'', schema), (''contrail-device-manager'', deviceManager),
            (''contrail-svc-monitor'', svcMonitor), (''contrail-analytics-api'', analyticsApi),
            (''contrail-collector'', collector)]))))))"

definition introspect_nodes :: "range_ord \<Rightarrow> (string, int) gomap \<Rightarrow> string \<Rightarrow> string list" where
  "introspect_nodes ord ports podIP =
     map (\<lambda>(service, port). podIP @ '':'' @ Itoa port @ ''::'' @ service) (range_of ord ports)"

definition config_files ::
  "(monitor_config \<Rightarrow> go_error + string) \<Rightarrow> (nat \<Rightarrow> range_ord) \<Rightarrow> ('s, go_error, config_auth) go \<Rightarrow> namespaced_name
    \<Rightarrow> config_nodes \<Rightarrow> config_configuration \<Rightarrow> string \<Rightarrow> config_lists \<Rightarrow> pod list
    \<Rightarrow> ('s, go_error, (string, string) gomap) go" where
  "config_files marshal ords authParameters request n conf fabricMgmtIP l pods =
     foldM (\<lambda>(i, p) data.
       let hostname = entry_of (om_Annotations (pod_meta p)) ''hostname''
       in bindM authParameters (\<lambda>auth.
          bindM (introspectPorts conf) (\<lambda>ports.
          bindM (StatusMonitorConfig marshal hostname (introspect_nodes (ords i) ports (pod_PodIP p))
                   (pod_PodIP p) ''config'' (snd request) (fst request) (om_Name (pod_meta p))) (\<lambda>statusMonitorConfig.
          bindM (config_template_of n conf fabricMgmtIP auth (map pod_PodIP pods) (pod_PodIP p) hostname) (\<lambda>d.
            ret (fold (\<lambda>(k, v). AList.update k v) (config_pod_files l d (pod_PodIP p) statusMonitorConfig) data))))))
       (zip [0..<length pods] pods) []"

text \<open>
  Both the pods and their addresses are sorted, so the addresses are those of the sorted pods.  The
  result is the list of the pods in this order.
\<close>

definition Config_InstanceConfiguration ::
  "range_ord \<Rightarrow> (monitor_config \<Rightarrow> go_error + string) \<Rightarrow> (nat \<Rightarrow> range_ord) \<Rightarrow> 's svc_clients \<Rightarrow> 's config_clients
    \<Rightarrow> config \<Rightarrow> namespaced_name \<Rightarrow> pod list \<Rightarrow> ('s, go_error, pod list) go" where
  "Config_InstanceConfiguration ord marshal ords cls ocs c request podList =
     bindM (kc_Get (sv_configmap cls) (fst request, snd request @ ''-config-configmap'')) (\<lambda>cm.
     bindM (config_get_nodes ord (sv_secret cls) ocs c (fst request)) (\<lambda>n.
       let conf = Config_ConfigurationParameters c;
           pods = sort_by_ip podList
       in bindM (config_lists_of n conf (map pod_PodIP pods)) (\<lambda>l.
          bindM (config_files marshal ords (Config_AuthParameters (sv_secret cls) (cfc_keystone ocs) c) request n conf
                   (cf_FabricMgmtIP (cr_conf c)) l pods) (\<lambda>data.
          bindM (kc_Update (sv_configmap cls) (cm\<lparr>cm_Data := Some data\<rparr>)) (\<lambda>_. ret pods)))))"

definition Config_PodsCertSubjects :: "config \<Rightarrow> pod list \<Rightarrow> cert_subject list" where
  "Config_PodsCertSubjects c podList =
     PodsCertSubjects podList (pc_HostNetwork (cr_common c)) \<lparr>Retriever = None, ServiceIP = []\<rparr>"

text \<open>The quorum of the replicas; the division of Go rounds towards zero.\<close>

definition acceptable_replicas :: "int option \<Rightarrow> int" where
  "acceptable_replicas replicas =
     (case replicas of None \<Rightarrow> 1 | Some r \<Rightarrow> (if r < 0 then - (- r div 2) else r div 2) + 1)"

definition Config_SetInstanceActive ::
  "(stateful_set, 's) kind_client \<Rightarrow> (config, 's) kind_client \<Rightarrow> stateful_set \<Rightarrow> namespaced_name \<Rightarrow> config
    \<Rightarrow> ('s, go_error, config) go" where
  "Config_SetInstanceActive kc kco sts request c =
     bindM (kc_Get kc (fst request, om_Name (sts_meta sts))) (\<lambda>sts.
       let c = set_cr_active (sts_ReadyReplicas sts \<ge> acceptable_replicas (sts_Replicas sts)) c
       in bindM (kc_StatusUpdate kco c) (\<lambda>_. ret c))"

text \<open>
  A pod may start when all containers of the pods before it, in the order of their names, are ready.
\<close>

definition peers_ready :: "pod list \<Rightarrow> bool" where
  "peers_ready before = list_all (\<lambda>p. list_all cs_Ready (pod_ContainerStatuses p)) before"

definition allow_start :: "(pod, 's) kind_client \<Rightarrow> pod \<Rightarrow> ('s, go_error, unit) go" where
  "allow_start kc p =
     bindM (kc_Get kc (key_of (pod_meta p))) (\<lambda>podTOUpdate.
     bindM (set_label ''peers_ready'' ''true'' (om_Labels (pod_meta podTOUpdate))) (\<lambda>labels.
     bindM (kc_Update kc (podTOUpdate\<lparr>pod_meta := (pod_meta podTOUpdate)\<lparr>om_Labels := labels\<rparr>\<rparr>)) (\<lambda>_. ret ())))"

definition WaitForPeerPods :: "(pod, 's) kind_client \<Rightarrow> namespaced_name \<Rightarrow> ('s, go_error, unit) go" where
  "WaitForPeerPods kc request =
     bindM (kc_List kc (fst request) [(''config'', snd request)]) (\<lambda>pods.
       let pods = sort_key (\<lambda>p. om_Name (pod_meta p)) pods
       in forM [0..<length pods] (\<lambda>idx.
            if peers_ready (take idx pods) then allow_start kc (pods ! idx) else ret ()))"

definition Config_ManageNodeStatus ::
  "(config, 's) kind_client \<Rightarrow> config \<Rightarrow> (string, string) gomap \<Rightarrow> ('s, go_error, config) go" where
  "Config_ManageNodeStatus kc c podNameIPMap =
     (let conf = Config_ConfigurationParameters c
      in bindM (port_text (cf_APIPort conf)) (\<lambda>apiPort.
         bindM (port_text (cf_AnalyticsPort conf)) (\<lambda>analyticsPort.
         bindM (port_text (cf_CollectorPort conf)) (\<lambda>collectorPort.
         bindM (port_text (cf_RedisPort conf)) (\<lambda>redisPort.
           let c = set_cr_nodes podNameIPMap
                     [(''apiPort'', apiPort), (''analyticsPort'', analyticsPort), (''collectorPort'', collectorPort),
                      (''redisPort'', redisPort)] c
           in bindM (kc_StatusUpdate kc c) (\<lambda>_. ret c))))))"

definition SetEndpointInStatus :: "(config, 's) kind_client \<Rightarrow> config \<Rightarrow> string \<Rightarrow> ('s, go_error, config) go" where
  "SetEndpointInStatus kc c clusterIP =
     (let c = c\<lparr>cr_status := (cr_status c)\<lparr>st_Endpoint := clusterIP\<rparr>\<rparr>
      in bindM (kc_StatusUpdate kc c) (\<lambda>_. ret c))"

section \<open>The controller\<close>

definition config_resourceHandler ::
  "'q queue_add \<Rightarrow> (string \<Rightarrow> go_error + object_meta list) \<Rightarrow> 'q handler_methods" where
  "config_resourceHandler = resourceHandler"

definition config_configure_container ::
  "string \<Rightarrow> container list \<Rightarrow> string \<Rightarrow> bool \<Rightarrow> bool \<Rightarrow> pod_container \<Rightarrow> ('s, go_error, pod_container) go" where
  "config_configure_container name containers secretName configNodeMgr analyticsNodeMgr c =
     (if pco_Name c = ''api''
      then service_container containers
             [''bash'', ''-c'', ''/usr/bin/rm -f /etc/contrail/vnc_api_lib.ini; ln -s /etc/contrailconfigmaps/vnc.${POD_IP} /etc/contrail/vnc_api_lib.ini; /usr/bin/python /usr/bin/contrail-api --conf_file /etc/contrailconfigmaps/api.${POD_IP} --conf_file /etc/contrailconfigmaps/contrail-keystone-auth.conf --worker_id 0'']
             (add_service_mounts name ''config'') c
      else if pco_Name c = ''devicemanager''
      then service_container containers
             [''bash'', ''-c'', ''/usr/bin/rm -f /etc/contrail/vnc_api_lib.ini; ln -s /etc/contrailconfigmaps/vnc.${POD_IP} /etc/contrail/vnc_api_lib.ini;'' @ [CHR 0x0A] @ ''/usr/bin/rm -f /etc/contrail/contrail-keystone-auth.conf; ln -s /etc/contrailconfigmaps/contrail-keystone-auth.conf /etc/contrail/contrail-keystone-auth.conf;'' @ [CHR 0x0A] @ ''/usr/bin/rm -f /etc/contrail/contrail-fabric-ansible.conf; ln -s /etc/contrailconfigmaps/contrail-fabric-ansible.conf.${POD_IP} /etc/contrail/contrail-fabric-ansible.conf;'' @ [CHR 0x0A] @ ''/usr/bin/python /usr/bin/contrail-device-manager --conf_file /etc/contrailconfigmaps/devicemanager.${POD_IP} --conf_file /etc/contrail/contrail-keystone-auth.conf'' @ [CHR 0x0A]]
             (\<lambda>c. add_mount ''dnsmasq'' ''/var/lib/dnsmasq'' (add_mount ''tftp'' ''/var/lib/tftp''
                (add_service_mounts name ''config'' (c\<lparr>pco_SecurityContext := Some (new_security_context\<lparr>sx_Capabilities := [''SYS_PTRACE'']\<rparr>)\<rparr>)))) c
      else if pco_Name c = ''dnsmasq''
      then service_container containers
             [''bash'', ''-c'', ''/usr/bin/rm -f /etc/contrail/vnc_api_lib.ini;ln -s /etc/contrailconfigmaps/vnc.${POD_IP} /etc/contrail/vnc_api_lib.ini;dnsmasq -k -p0 --conf-file=/etc/contrailconfigmaps/dnsmasq.${POD_IP}'']
             (\<lambda>c. add_mount ''dnsmasq'' ''/var/lib/dnsmasq'' (add_mount ''tftp'' ''/etc/tftp''
                (add_service_mounts name ''config''
                  (c\<lparr>pco_SecurityContext := Some (new_security_context\<lparr>sx_Capabilities := [''NET_ADMIN'', ''NET_RAW'']\<rparr>),
                      pco_Env := pco_Env c @ [(''KEYSTONE_AUTH_ADMIN_PASSWORD'', EnvSecretKeyRef secretName ''password''),
                        (''KEYSTONE_AUTH_ADMIN_USER'', EnvValue ''admin''),
                        (''KEYSTONE_AUTH_ADMIN_TENANT'', EnvValue ''admin'')]\<rparr>)))) c
      else if pco_Name c = ''servicemonitor''
      then service_container containers
             [''bash'', ''-c'', ''/usr/bin/rm -f /etc/contrail/vnc_api_lib.ini; ln -s /etc/contrailconfigmaps/vnc.${POD_IP} /etc/contrail/vnc_api_lib.ini; /usr/bin/python /usr/bin/contrail-svc-monitor --conf_file /etc/contrailconfigmaps/servicemonitor.${POD_IP} --conf_file /etc/contrailconfigmaps/contrail-keystone-auth.conf'']
             (add_service_mounts name ''config'') c
      else if pco_Name c = ''schematransformer''
      then service_container containers
             [''bash'', ''-c'', ''/usr/bin/rm -f /etc/contrail/vnc_api_lib.ini; ln -s /etc/contrailconfigmaps/vnc.${POD_IP} /etc/contrail/vnc_api_lib.ini; /usr/bin/python /usr/bin/contrail-schema --conf_file /etc/contrailconfigmaps/schematransformer.${POD_IP}  --conf_file /etc/contrailconfigmaps/contrail-keystone-auth.conf'']
             (add_service_mounts name ''config'') c
      else if pco_Name c = ''analyticsapi''
      then service_container containers
             [''bash'', ''-c'', ''/usr/bin/rm -f /etc/contrail/vnc_api_lib.ini; ln -s /etc/contrailconfigmaps/vnc.${POD_IP} /etc/contrail/vnc_api_lib.ini; /usr/bin/python /usr/bin/contrail-analytics-api -c /etc/contrailconfigmaps/analyticsapi.${POD_IP} -c /etc/contrailconfigmaps/contrail-keystone-auth.conf'']
             (add_service_mounts name ''config'') c
      else if pco_Name c = ''queryengine''
      then bindM (deref_ptr (GetContainerFromList (pco_Name c) containers)) (\<lambda>instanceContainer.
             ret ((add_service_mounts name ''config''
                     (c\<lparr>pco_Command := [''bash'', ''-c'', ''/usr/bin/contrail-query-engine --conf_file /etc/contrailconfigmaps/queryengine.${POD_IP}'']\<rparr>))
                   \<lparr>pco_Image := co_Image instanceContainer\<rparr>))
      else if pco_Name c = ''collector''
      then service_container containers
             [''bash'', ''-c'', ''/usr/bin/contrail-collector --conf_file /etc/contrailconfigmaps/collector.${POD_IP}'']
             (add_service_mounts name ''config'') c
      else if pco_Name c = ''redis''
      then service_container containers
             [''bash'', ''-c'', ''redis-server --lua-time-limit 15000 --dbfilename '' @ [CHR 0x27, CHR 0x27] @ '' --bind 127.0.0.1 ${POD_IP} --port 6379'']
             (add_mount (name @ ''-config-volume'') ''/etc/contrailconfigmaps'') c
      else if pco_Name c = ''nodemanagerconfig''
      then (if configNodeMgr
            then service_container containers
             [''bash'', ''-c'', ''sed '' @ [CHR 0x22] @ ''s/hostip=.*/hostip=${POD_IP}/g'' @ [CHR 0x22] @ '' /etc/contrailconfigmaps/nodemanagerconfig.${POD_IP} > /etc/contrail/contrail-config-nodemgr.conf; /usr/bin/python /usr/bin/contrail-nodemgr --nodetype=contrail-config'']
             (add_mount (name @ ''-config-volume'') ''/etc/contrailconfigmaps'') c
            else ret c)
      else if pco_Name c = ''nodemanageranalytics''
      then (if analyticsNodeMgr
            then service_container containers
             [''bash'', ''-c'', ''sed '' @ [CHR 0x22] @ ''s/hostip=.*/hostip=${POD_IP}/g'' @ [CHR 0x22] @ '' /etc/contrailconfigmaps/nodemanageranalytics.${POD_IP} > /etc/contrail/contrail-analytics-nodemgr.conf;/usr/bin/python /usr/bin/contrail-nodemgr --nodetype=contrail-analytics'']
             (add_mount (name @ ''-config-volume'') ''/etc/contrailconfigmaps'') c
            else ret c)
      else if pco_Name c = ''statusmonitor''
      then service_container containers
             [''sh'', ''-c'', ''/app/statusmonitor/contrail-statusmonitor-image.binary -config /etc/contrailconfigmaps/monitorconfig.${POD_IP}.yaml'']
             (add_service_mounts name ''config'') c
      else ret c)"

definition remove_if :: "bool \<Rightarrow> string \<Rightarrow> stateful_set \<Rightarrow> ('s, go_error, stateful_set) go" where
  "remove_if b name sts = (if b then remove_containers name sts else ret sts)"

text \<open>
  The node managers are removed when they are switched off, and each of them when it is not
  configured.  \<open>account\<close> is the call that creates the account, in between.
\<close>

definition config_intended_sts ::
  "range_ord \<Rightarrow> ('s, go_error, unit) go \<Rightarrow> namespaced_name \<Rightarrow> config \<Rightarrow> config_map \<Rightarrow> k_secret \<Rightarrow> stateful_set
    \<Rightarrow> ('s, go_error, stateful_set) go" where
  "config_intended_sts ord account request c configMap secretCertificates sts0 =
     (let name = snd request;
          containers = cf_Containers (cr_conf c);
          configNodeMgr = (GetContainerFromList ''nodemanagerconfig'' containers \<noteq> None);
          analyticsNodeMgr = (GetContainerFromList ''nodemanageranalytics'' containers \<noteq> None);
          off = (cf_NodeManager (cr_conf c) = Some False)
      in bindM (remove_if off ''nodemanagerconfig'' (service_volumes ord name ''config'' configMap secretCertificates sts0)) (\<lambda>sts.
         bindM (remove_if off ''nodemanageranalytics'' sts) (\<lambda>sts.
         bindM account (\<lambda>_.
         let sts = set_anti_affinity ''config'' name (set_service_account ''serviceaccount-statusmonitor-config'' sts)
         in bindM (update_containers (config_configure_container name containers (cf_KeystoneSecretName (cr_conf c))
                     configNodeMgr analyticsNodeMgr) sts) (\<lambda>sts.
            bindM (remove_if (\<not> configNodeMgr) ''nodemanagerconfig'' sts) (\<lambda>sts.
            bindM (remove_if (\<not> analyticsNodeMgr) ''nodemanageranalytics'' sts) (\<lambda>sts.
              update_init_containers (configure_init containers) sts)))))))"

definition config_ensureCertificatesExist ::
  "k8s_lib \<Rightarrow> ('key, 'ip, 'cert, 's) crypto_lib \<Rightarrow> (k_secret, 's) kind_client \<Rightarrow> config \<Rightarrow> pod list
    \<Rightarrow> ('s, go_error, unit) go" where
  "config_ensureCertificatesExist lib cy kc c pods =
     EnsureExistsAndIsSigned lib cy kc (cr_meta c) (Config_PodsCertSubjects c pods) ''config''"

definition config_pods ::
  "k8s_lib \<Rightarrow> range_ord \<Rightarrow> (monitor_config \<Rightarrow> go_error + string) \<Rightarrow> (nat \<Rightarrow> range_ord) \<Rightarrow> ('key, 'ip, 'cert, 's) crypto_lib
    \<Rightarrow> 's svc_clients \<Rightarrow> 's config_clients \<Rightarrow> (config, 's) kind_client \<Rightarrow> namespaced_name \<Rightarrow> config \<Rightarrow> pod list
    \<Rightarrow> (string, string) gomap \<Rightarrow> ('s, go_error, config) go" where
  "config_pods lib ord marshal ords cy cls ocs kc request c podList podIPMap =
     bindM (Config_InstanceConfiguration ord marshal ords cls ocs c request podList) (\<lambda>podList.
     bindM (config_ensureCertificatesExist lib cy (sv_secret cls) c podList) (\<lambda>_.
     bindM (SetPodsToReady (sv_pod cls) podList) (\<lambda>_.
     bindM (WaitForPeerPods (sv_pod cls) request) (\<lambda>_.
       Config_ManageNodeStatus kc c podIPMap))))"

definition zero_config :: config where
  "zero_config = \<lparr>cr_meta = new_meta, cr_common = new_common, cr_conf = no_config_configuration, cr_status = new_status\<rparr>"

definition config_dependencies_active ::
  "'s config_clients \<Rightarrow> config \<Rightarrow> string \<Rightarrow> ('s, go_error, bool) go" where
  "config_dependencies_active ocs c namespace =
     bindM (Cassandra_IsActive (cfc_cassandra ocs) (cf_CassandraInstance (cr_conf c)) namespace) (\<lambda>cassandraActive.
     bindM (Zookeeper_IsActive (cfc_zookeeper ocs) (cf_ZookeeperInstance (cr_conf c)) namespace) (\<lambda>zookeeperActive.
     bindM (Rabbitmq_IsActive (cfc_rabbitmq ocs) (entry_of (om_Labels (cr_meta c)) ''contrail_cluster'') namespace) (\<lambda>rabbitmqActive.
       ret (cassandraActive \<and> rabbitmqActive \<and> zookeeperActive))))"

definition config_service_ports :: "(int, string) gomap" where
  "config_service_ports = [(int32_of ConfigApiPort, ''api''), (int32_of AnalyticsApiPort, ''analytics'')]"

text \<open>The result says whether the request is queued again: when the configuration has changed.\<close>

definition Config_Reconcile ::
  "k8s_lib \<Rightarrow> range_ord \<Rightarrow> range_ord \<Rightarrow> range_ord \<Rightarrow> (monitor_config \<Rightarrow> go_error + string) \<Rightarrow> (nat \<Rightarrow> range_ord)
    \<Rightarrow> ('key, 'ip, 'cert, 's) crypto_lib \<Rightarrow> 's exec_lib \<Rightarrow> 's svc_clients \<Rightarrow> 's config_clients
    \<Rightarrow> (config, 's) kind_client \<Rightarrow> namespaced_name \<Rightarrow> ('s, go_error, bool) go" where
  "Config_Reconcile lib ord ord1 ord2 marshal ords cy ex cls ocs kc request =
     bindM (get_instance lib kc zero_config request) (\<lambda>r.
       case r of
         None \<Rightarrow> ret False
       | Some c \<Rightarrow>
           if om_Deleted (cr_meta c) then ret False
           else
             let name = snd request; cmName = name @ ''-config-configmap''
             in bindM (config_dependencies_active ocs c (fst request)) (\<lambda>active.
                if \<not> active then ret False
                else
                bindM (Service_EnsureExists lib (sv_service cls) ord1 ord2
                         (Kubernetes_Service (name @ ''-config'') ''ClusterIP'' config_service_ports ''config'' (cr_meta c))) (\<lambda>svc.
                bindM (CurrentConfigMapExists (sv_configmap cls) cmName request) (\<lambda>current.
                bindM (CreateConfigMap lib (sv_configmap cls) cmName request ''config'' (cr_meta c)) (\<lambda>configMap.
                bindM (CreateSecret lib (sv_secret cls) (name @ ''-secret-certificates'') request ''config'' (cr_meta c)) (\<lambda>secretCertificates.
                bindM (PrepareSTS lib (update_spec (\<lambda>sp. sp\<lparr>pspec_ShareProcessNamespace := Some True\<rparr>) config_GetSTS)
                         (cr_common c) ''config'' request (cr_meta c) True) (\<lambda>sts.
                bindM (config_intended_sts ord
                         (CreateAccount lib (sv_serviceaccount cls) (sv_clusterrole cls) (sv_clusterrolebinding cls)
                           ''statusmonitor-config'' (fst request) (cr_meta c))
                         request c configMap secretCertificates sts) (\<lambda>sts.
                bindM (CreateSTS lib (sv_sts cls) sts ''config'' request) (\<lambda>sts.
                bindM (UpdateSTS lib (sv_sts cls) sts ''config'' request ''deleteFirst'') (\<lambda>_.
                bindM (PodIPListAndIPMapFromInstance (sv_node cls) (sv_pod cls) ex ''config'' (cr_common c)
                         request True (no_wants\<lparr>getHostname := True\<rparr>)) (\<lambda>(podIPList, podIPMap).
                bindM (if podIPMap \<noteq> []
                       then config_pods lib ord marshal ords cy cls ocs kc request c podIPList podIPMap
                       else ret c) (\<lambda>c.
                bindM (SetEndpointInStatus kc c (ClusterIP svc)) (\<lambda>c.
                bindM (update_config_changed (sv_configmap cls) (fst request, cmName) current c) (\<lambda>c.
                bindM (Config_SetInstanceActive (sv_sts cls) kc sts request (active_or_false c)) (\<lambda>c.
                  ret (st_ConfigChanged (cr_status c) = Some True))))))))))))))))"

end
