(* ===== verification/ContrailCni.thy ===== *)
theory ContrailCni
  imports ServiceParts Manager K8sObjects
begin

text \<open>
  \<open>pkg/controller/contrailcni\<close> and \<open>contrailcni_types.go\<close>: a job with one pod on each node that puts the
  CNI plugin and its configuration there.  The job is made again when the number of nodes or the
  resource has changed.
\<close>

section \<open>The configuration\<close>

record cni_conf =
  cnc_KubernetesClusterName :: string
  cnc_CniMetaPlugin :: string
  cnc_VrouterIP :: string
  cnc_VrouterPort :: int
  cnc_PollTimeout :: int
  cnc_PollRetries :: int
  cnc_LogLevel :: int

definition contrailCNIConfig :: "cni_conf \<Rightarrow> string" where
  "contrailCNIConfig d =
     text_lines
       [''{'',
        [CHR 0x09, CHR 0x22] @ ''cniVersion'' @ [CHR 0x22] @ '': '' @ [CHR 0x22] @ ''0.3.1'' @ [CHR 0x22] @ '','',
        [CHR 0x09, CHR 0x22] @ ''contrail'' @ [CHR 0x22] @ '' : {'',
        [CHR 0x09, CHR 0x09, CHR 0x22] @ ''cluster-name'' @ [CHR 0x22] @ ''  : '' @ [CHR 0x22] @ cnc_KubernetesClusterName d @ [CHR 0x22] @ '','',
        [CHR 0x09, CHR 0x09, CHR 0x22] @ ''meta-plugin'' @ [CHR 0x22] @ ''   : '' @ [CHR 0x22] @ cnc_CniMetaPlugin d @ [CHR 0x22] @ '','',
        [CHR 0x09, CHR 0x09, CHR 0x22] @ ''vrouter-ip'' @ [CHR 0x22] @ ''    : '' @ [CHR 0x22] @ cnc_VrouterIP d @ [CHR 0x22] @ '','',
        [CHR 0x09, CHR 0x09, CHR 0x22] @ ''vrouter-port'' @ [CHR 0x22] @ ''  : '' @ Itoa (cnc_VrouterPort d) @ '','',
        [CHR 0x09, CHR 0x09, CHR 0x22] @ ''config-dir'' @ [CHR 0x22] @ ''    : '' @ [CHR 0x22] @ ''/var/lib/contrail/ports/vm'' @ [CHR 0x22] @ '','',
        [CHR 0x09, CHR 0x09, CHR 0x22] @ ''poll-timeout'' @ [CHR 0x22] @ ''  : '' @ Itoa (cnc_PollTimeout d) @ '','',
        [CHR 0x09, CHR 0x09, CHR 0x22] @ ''poll-retries'' @ [CHR 0x22] @ ''  : '' @ Itoa (cnc_PollRetries d) @ '','',
        [CHR 0x09, CHR 0x09, CHR 0x22] @ ''log-file'' @ [CHR 0x22] @ ''      : '' @ [CHR 0x22] @ ''/var/log/contrail/cni/opencontrail.log'' @ [CHR 0x22] @ '','',
        [CHR 0x09, CHR 0x09, CHR 0x22] @ ''log-level'' @ [CHR 0x22] @ ''     : '' @ [CHR 0x22] @ Itoa (cnc_LogLevel d) @ [CHR 0x22],
        [CHR 0x09] @ ''},'',
        [CHR 0x09, CHR 0x22] @ ''name'' @ [CHR 0x22] @ '': '' @ [CHR 0x22] @ ''contrail-k8s-cni'' @ [CHR 0x22] @ '','',
        [CHR 0x09, CHR 0x22] @ ''type'' @ [CHR 0x22] @ '': '' @ [CHR 0x22] @ ''contrail-k8s-cni'' @ [CHR 0x22]] @
     ''  }''"

definition cni_FillConfigMap :: "cni_conf \<Rightarrow> config_map \<Rightarrow> config_map" where
  "cni_FillConfigMap d cm =
     cm\<lparr>cm_Data := Some (AList.update ''10-contrail.conf'' (contrailCNIConfig d) (map_entries (cm_Data cm)))\<rparr>"

definition DefaultCniMetaPlugin :: string where "DefaultCniMetaPlugin = ''multus''"
definition DefaultVrouterIP :: string where "DefaultVrouterIP = ''127.0.0.1''"
definition DefaultVrouterPort :: int where "DefaultVrouterPort = 9091"
definition DefaultPollTimeout :: int where "DefaultPollTimeout = 5"
definition DefaultPollRetries :: int where "DefaultPollRetries = 15"
definition DefaultLogLevel :: int where "DefaultLogLevel = 4"

definition configStringWithDefault :: "string \<Rightarrow> string \<Rightarrow> string" where
  "configStringWithDefault specValue defaultValue = (if specValue \<noteq> [] then specValue else defaultValue)"

definition configIntWithDefault :: "int option \<Rightarrow> int \<Rightarrow> int" where
  "configIntWithDefault specValue defaultValue = (case specValue of Some v \<Rightarrow> v | None \<Rightarrow> defaultValue)"

text \<open>What the interface \<open>CNIClusterInfo\<close> gives.\<close>

record 's cni_cluster_info =
  cci_KubernetesClusterName :: "('s, go_error, string) go"
  cci_CNIBinariesDirectory :: string
  cci_DeploymentType :: string

definition ensureContrailCNIConfigExists ::
  "k8s_lib \<Rightarrow> (config_map, 's) kind_client \<Rightarrow> 's cni_cluster_info \<Rightarrow> string \<Rightarrow> string \<Rightarrow> cni_cr \<Rightarrow> ('s, go_error, unit) go" where
  "ensureContrailCNIConfigExists lib kc cinfo configMapName ownerType c =
     bindM (cci_KubernetesClusterName cinfo) (\<lambda>clusterName.
       let sc = cni_cr_conf c
       in ConfigMap_EnsureExists lib kc configMapName ownerType (cni_cr_meta c) (cni_FillConfigMap
            \<lparr>cnc_KubernetesClusterName = clusterName,
             cnc_CniMetaPlugin = configStringWithDefault (cn_CniMetaPlugin sc) DefaultCniMetaPlugin,
             cnc_VrouterIP = configStringWithDefault (cn_VrouterIP sc) DefaultVrouterIP,
             cnc_VrouterPort = configIntWithDefault (cn_VrouterPort sc) DefaultVrouterPort,
             cnc_PollTimeout = configIntWithDefault (cn_PollTimeout sc) DefaultPollTimeout,
             cnc_PollRetries = configIntWithDefault (cn_PollRetries sc) DefaultPollRetries,
             cnc_LogLevel = configIntWithDefault (cn_LogLevel sc) DefaultLogLevel\<rparr>))"

section \<open>The job\<close>

record k8s_job =
  job_meta :: object_meta
  job_Parallelism :: "int option"
  job_Completions :: "int option"
  job_Selector :: string_map
  job_Template :: pod_template
  job_ManualSelector :: "bool option"
  job_TTLSecondsAfterFinished :: "int option"
  job_Succeeded :: int

record cni_dirs =
  BinariesDirectory :: string
  DeploymentType :: string

definition cni_container :: "cni_dirs \<Rightarrow> pod_container" where
  "cni_container cniDir =
     new_pod_container\<lparr>pco_Name := ''vroutercni'',
       pco_Image := ''hub.juniper.net/contrail-nightly/contrail-kubernetes-cni-init:master.latest'',
       pco_VolumeMounts := [new_mount ''var-lib-contrail'' ''/var/lib/contrail'',
                            new_mount ''cni-config-files'' ''/host/etc_cni'',
                            new_mount ''cni-bin'' ''/host/opt_cni_bin'',
                            new_mount ''var-log-contrail-cni'' ''/host/log_cni'',
                            new_mount ''vrouter-logs'' ''/var/log/contrail'',
                            new_mount ''configmap-volume'' ''/etc/contrailconfigmaps'',
                            new_mount ''etc-kubernetes-cni'' ''/etc/kubernetes/cni'',
                            new_mount ''multus-cni'' ''/var/run/multus''],
       pco_ImagePullPolicy := ''IfNotPresent'',
       pco_Command := [''sh'', ''-c'', ''mkdir -p /host/etc_cni/net.d && mkdir -p /var/lib/contrail/ports/vm && cp -f /usr/bin/contrail-k8s-cni /host/opt_cni_bin && chmod 0755 /host/opt_cni_bin/contrail-k8s-cni && cp -f /etc/contrailconfigmaps/10-contrail.conf /host/etc_cni/net.d/10-contrail.conf && tar -C /host/opt_cni_bin -xzf /opt/cni-v0.3.0.tgz'' @
         (if DeploymentType cniDir = ''openshift''
          then '' && mkdir -p /etc/kubernetes/cni/net.d && cp -f /etc/contrailconfigmaps/10-contrail.conf /etc/kubernetes/cni/net.d/10-contrail.conf && mkdir -p /var/run/multus/cni/net.d && cp -f /etc/contrailconfigmaps/10-contrail.conf /var/run/multus/cni/net.d/80-openshift-network.conf''
          else [])]\<rparr>"

definition GetJob :: "cni_dirs \<Rightarrow> string \<Rightarrow> string \<Rightarrow> int \<Rightarrow> k8s_job" where
  "GetJob cniDir requestName instanceType replicas =
     \<lparr>job_meta = new_meta\<lparr>om_Name := ''contrailcni'', om_Namespace := ''default''\<rparr>,
      job_Parallelism = Some replicas, job_Completions = Some replicas, job_Selector = Some [(''app'', ''contrailcni'')],
      job_Template = \<lparr>pt_Annotations = None, pt_Labels = None,
        pt_Spec = new_pod_spec\<lparr>pspec_Volumes :=
     [\<lparr>vol_Name = ''vrouter-logs'', vol_Source = HostPathVolume ''/var/log/contrail/vrouter'' []\<rparr>,
      \<lparr>vol_Name = ''var-log-contrail-cni'', vol_Source = HostPathVolume ''/var/log/contrail/cni'' []\<rparr>,
      \<lparr>vol_Name = ''cni-config-files'', vol_Source = HostPathVolume ''/etc/cni'' []\<rparr>,
      \<lparr>vol_Name = ''var-lib-contrail'', vol_Source = HostPathVolume ''/var/lib/contrail'' []\<rparr>,
      \<lparr>vol_Name = ''cni-bin'', vol_Source = HostPathVolume (BinariesDirectory cniDir) []\<rparr>,
      \<lparr>vol_Name = ''configmap-volume'', vol_Source = ConfigMapVolume (requestName @ ''-'' @ instanceType @ ''-configuration'') None\<rparr>,
      \<lparr>vol_Name = ''etc-kubernetes-cni'', vol_Source = HostPathVolume ''/etc/kubernetes/cni'' []\<rparr>,
      \<lparr>vol_Name = ''multus-cni'', vol_Source = HostPathVolume ''/var/run/multus'' []\<rparr>],
          pspec_Containers := [cni_container cniDir], pspec_RestartPolicy := ''OnFailure'', pspec_DNSPolicy := ''ClusterFirst'',
          pspec_HostNetwork := True,
          pspec_Tolerations := [exists_toleration ''NoSchedule'', exists_toleration ''NoExecute''],
          pspec_Affinity := anti_affinity instanceType requestName\<rparr>\<rparr>,
      job_ManualSelector = Some True, job_TTLSecondsAfterFinished = Some 3, job_Succeeded = 0\<rparr>"

definition SetJobCommonConfiguration :: "manager_configuration \<Rightarrow> k8s_job \<Rightarrow> k8s_job" where
  "SetJobCommonConfiguration cc job =
     (let sp = pt_Spec (job_Template job);
          sp = (if mc_Tolerations cc \<noteq> [] then sp\<lparr>pspec_Tolerations := mc_Tolerations cc\<rparr> else sp);
          sp = (if map_entries (mc_NodeSelector cc) \<noteq> [] then sp\<lparr>pspec_NodeSelector := mc_NodeSelector cc\<rparr> else sp);
          sp = sp\<lparr>pspec_HostNetwork := (case mc_HostNetwork cc of Some b \<Rightarrow> b | None \<Rightarrow> False)\<rparr>;
          sp = (if mc_ImagePullSecrets cc \<noteq> [] then sp\<lparr>pspec_ImagePullSecrets := mc_ImagePullSecrets cc\<rparr> else sp)
      in job\<lparr>job_Template := (job_Template job)\<lparr>pt_Spec := sp\<rparr>\<rparr>)"

definition PrepareJob :: "k8s_lib \<Rightarrow> k8s_job \<Rightarrow> cni_cr \<Rightarrow> namespaced_name \<Rightarrow> ('s, go_error, k8s_job) go" where
  "PrepareJob lib job c request =
     (let instanceType = ''contrailcni'';
          labels = [(''contrail_manager'', instanceType), (instanceType, snd request)];
          job = SetJobCommonConfiguration (cni_cr_common c) job;
          meta = (job_meta job)\<lparr>om_Name := snd request @ ''-'' @ instanceType @ ''-job'', om_Namespace := fst request,
                   om_Labels := Some (labels @ [(''controller_generation'', Itoa (om_Generation (cni_cr_meta c)))])\<rparr>;
          job = job\<lparr>job_Selector := Some labels, job_Template := (job_Template job)\<lparr>pt_Labels := Some labels\<rparr>\<rparr>
      in bindM (sum_result (SetControllerReference lib (cni_cr_meta c) meta)) (\<lambda>meta. ret (job\<lparr>job_meta := meta\<rparr>)))"

text \<open>A container that is not configured keeps its image.\<close>

definition cni_images :: "container list \<Rightarrow> k8s_job \<Rightarrow> k8s_job" where
  "cni_images containers job =
     (let sp = pt_Spec (job_Template job)
      in job\<lparr>job_Template := (job_Template job)\<lparr>pt_Spec := sp\<lparr>pspec_Containers :=
           map (\<lambda>c. case GetContainerFromList (pco_Name c) containers of
                       None \<Rightarrow> c | Some ic \<Rightarrow> c\<lparr>pco_Image := co_Image ic\<rparr>) (pspec_Containers sp)\<rparr>\<rparr>\<rparr>)"

section \<open>The controller\<close>

definition Cni_SetInstanceActive ::
  "(k8s_job, 's) kind_client \<Rightarrow> (cni_cr, 's) kind_client \<Rightarrow> cni_cr \<Rightarrow> k8s_job \<Rightarrow> namespaced_name \<Rightarrow> ('s, go_error, unit) go" where
  "Cni_SetInstanceActive kcj kc c job request =
     bindM (kc_Get kcj (fst request, om_Name (job_meta job))) (\<lambda>job.
     bindM (deref_ptr (job_Completions job)) (\<lambda>completions.
       kc_StatusUpdate kc (c\<lparr>cni_cr_Active := (job_Succeeded job = completions)\<rparr>)))"

text \<open>Every resource is reconciled when a node changes.\<close>

definition cni_node_requests :: "cni_cr list \<Rightarrow> namespaced_name list" where
  "cni_node_requests cniObjects = map (\<lambda>c. key_of (cni_cr_meta c)) cniObjects"

record 's cni_clients =
  cnl_cni :: "(cni_cr, 's) kind_client"
  cnl_control :: "(control_configuration cr, 's) kind_client"
  cnl_config :: "(config_configuration cr, 's) kind_client"
  cnl_job :: "(k8s_job, 's) kind_client"

definition cni_dependencies_active ::
  "'s cni_clients \<Rightarrow> cni_cr \<Rightarrow> string \<Rightarrow> ('s, go_error, bool) go" where
  "cni_dependencies_active ocs c namespace =
     (if cn_ControlInstance (cni_cr_conf c) \<noteq> []
      then bindM (Config_IsActive (cnl_config ocs) (entry_of (om_Labels (cni_cr_meta c)) ''contrail_cluster'') namespace) (\<lambda>configActive.
           bindM (Control_IsActive (cnl_control ocs) (cn_ControlInstance (cni_cr_conf c)) namespace) (\<lambda>controlActive.
             ret (configActive \<and> controlActive)))
      else ret True)"

text \<open>
  The nodes of the selector.  \<open>None\<close> is an error that says that there are none; another error is
  dropped, and the list is then empty.
\<close>

definition cni_nodes :: "k8s_lib \<Rightarrow> (k8s_node, 's) kind_client \<Rightarrow> cni_cr \<Rightarrow> ('s, go_error, k8s_node list option) go" where
  "cni_nodes lib kc c =
     bindM (tryM (kc_List kc [] (map_entries (mc_NodeSelector (cni_cr_common c))))) (\<lambda>r.
       ret (case r of Inr nodes \<Rightarrow> Some nodes | Inl err \<Rightarrow> if IsNotFound lib err then None else Some []))"

text \<open>
  The job in the cluster: one with other completions or of another generation is deleted, and the
  request is queued again after 5 nanoseconds; a missing one is created.
\<close>

definition cni_job ::
  "k8s_lib \<Rightarrow> 's cni_clients \<Rightarrow> namespaced_name \<Rightarrow> cni_cr \<Rightarrow> int \<Rightarrow> k8s_job \<Rightarrow> ('s, go_error, int option) go" where
  "cni_job lib ocs request c jobReplicas job =
     bindM (tryM (kc_Get (cnl_job ocs) (key_of (job_meta job)))) (\<lambda>r.
       case r of
         Inr clusterJob \<Rightarrow>
           bindM (deref_ptr (job_Completions clusterJob)) (\<lambda>completions.
             if completions \<noteq> jobReplicas \<or>
                entry_of (om_Labels (job_meta clusterJob)) ''controller_generation''
                  \<noteq> entry_of (om_Labels (job_meta job)) ''controller_generation''
             then bindM (tryM (kc_DeleteWith (cnl_job ocs) ''Background''
                           (new_meta\<lparr>om_Name := om_Name (job_meta job), om_Namespace := om_Namespace (job_meta job)\<rparr>))) (\<lambda>_.
                    ret (Some 5))
             else bindM (Cni_SetInstanceActive (cnl_job ocs) (cnl_cni ocs) c job request) (\<lambda>_. ret None))
       | Inl err \<Rightarrow>
           if IsNotFound lib err
           then bindM (kc_Create (cnl_job ocs) job) (\<lambda>job.
                bindM (Cni_SetInstanceActive (cnl_job ocs) (cnl_cni ocs) c job request) (\<lambda>_. ret None))
           else throw err)"

definition Cni_Reconcile ::
  "k8s_lib \<Rightarrow> 's svc_clients \<Rightarrow> 's cni_clients \<Rightarrow> 's cni_cluster_info \<Rightarrow> namespaced_name \<Rightarrow> ('s, go_error, int option) go" where
  "Cni_Reconcile lib cls ocs cinfo request =
     bindM (tryM (kc_Get (cnl_cni ocs) request)) (\<lambda>r.
       case r of
         Inl err \<Rightarrow> if IsNotFound lib err then ret None else throw err
       | Inr c \<Rightarrow>
           if om_Deleted (cni_cr_meta c) then ret None
           else
             let instanceType = ''contrailcni''
             in bindM (cni_dependencies_active ocs c (fst request)) (\<lambda>active.
                if \<not> active then ret None
                else
                bindM (ensureContrailCNIConfigExists lib (sv_configmap cls) cinfo
                         (snd request @ ''-'' @ instanceType @ ''-configuration'') instanceType c) (\<lambda>_.
                bindM (cni_nodes lib (sv_node cls) c) (\<lambda>nodes.
                  case nodes of
                    None \<Rightarrow> ret None
                  | Some nodes \<Rightarrow>
                      let jobReplicas = int32_of (int (length nodes));
                          job = cni_images (cn_Containers (cni_cr_conf c))
                                  (GetJob \<lparr>BinariesDirectory = cci_CNIBinariesDirectory cinfo, DeploymentType = cci_DeploymentType cinfo\<rparr>
                                     (snd request) instanceType jobReplicas)
                      in bindM (PrepareJob lib job c request) (\<lambda>job.
                           cni_job lib ocs request c jobReplicas job)))))"

end
