(* ===== verification/Control.thy ===== *)
theory Control
  imports ServiceParts
begin

text \<open>
  \<open>pkg/controller/control\<close>, the methods of \<open>control_types.go\<close> and \<open>pkg/configuration/control_config.go\<close>:
  one reconciliation of a Control resource.  It waits for Cassandra, Rabbitmq and Config, and writes
  the files of the five containers of a control node.  \<open>marshal\<close> is \<open>yaml.Marshal\<close>.
\<close>

section \<open>The stateful set\<close>

definition control_GetSTS :: stateful_set where
  "control_GetSTS =
     \<lparr>sts_meta = new_meta\<lparr>om_Name := ''control''\<rparr>, sts_Replicas = Some 1,
      sts_PodManagementPolicy = [], sts_Selector = Some (Some [(''app'', ''control'')]),
      sts_Template =
        \<lparr>pt_Annotations = None, pt_Labels = Some [(''app'', ''control''), (''contrail_manager'', ''control'')],
         pt_Spec = new_pod_spec\<lparr>pspec_SecurityContext := Some (new_security_context\<lparr>sx_FSGroup := Some 1999\<rparr>),
                    pspec_InitContainers := [new_pod_container\<lparr>pco_Name := ''init'',
                                               pco_Image := ''busybox'',
                                               pco_Command := [''sh'', ''-c'', ''until grep ready /tmp/podinfo/pod_labels > /dev/null 2>&1; do sleep 1; done''],
                                               pco_Env := [(''POD_IP'', EnvFieldRef ''status.podIP'')],
                                               pco_VolumeMounts := [new_mount ''status'' ''/tmp/podinfo''],
                                               pco_ImagePullPolicy := ''IfNotPresent''\<rparr>],
                    pspec_Containers := [new_pod_container\<lparr>pco_Name := ''control'',
                                           pco_Image := ''docker.io/michaelhenkel/contrail-controller-control-control:5.2.0-dev1'',
                                           pco_Env := [(''POD_IP'', EnvFieldRef ''status.podIP'')],
                                           pco_VolumeMounts := [new_mount ''control-logs'' ''/var/log/contrail''],
                                           pco_ImagePullPolicy := ''IfNotPresent''\<rparr>,
                                          new_pod_container\<lparr>pco_Name := ''statusmonitor'',
                                           pco_Image := ''docker.io/kaweue/contrail-statusmonitor:debug'',
                                           pco_Env := [(''POD_IP'', EnvFieldRef ''status.podIP'')],
                                           pco_VolumeMounts := [new_mount ''control-logs'' ''/var/log/contrail''],
                                           pco_ImagePullPolicy := ''IfNotPresent''\<rparr>,
                                          new_pod_container\<lparr>pco_Name := ''dns'',
                                           pco_Image := ''docker.io/michaelhenkel/contrail-controller-control-dns:5.2.0-dev1'',
                                           pco_Env := [(''POD_IP'', EnvFieldRef ''status.podIP'')],
                                           pco_VolumeMounts := [new_mount ''control-logs'' ''/var/log/contrail'',
                                                                new_mount ''etc-contrail'' ''/etc/contrail'',
                                                                new_mount ''etc-contrail-dns'' ''/etc/contrail/dns''],
                                           pco_ImagePullPolicy := ''IfNotPresent''\<rparr>,
                                          new_pod_container\<lparr>pco_Name := ''named'',
                                           pco_Image := ''docker.io/michaelhenkel/contrail-controller-control-named:5.2.0-dev1'',
                                           pco_Env := [(''POD_IP'', EnvFieldRef ''status.podIP'')],
                                           pco_VolumeMounts := [new_mount ''control-logs'' ''/var/log/contrail'',
                                                                new_mount ''etc-contrail'' ''/etc/contrail'',
                                                                new_mount ''etc-contrail-dns'' ''/etc/contrail/dns''],
                                           pco_ImagePullPolicy := ''IfNotPresent'',
                                           pco_SecurityContext := Some (new_security_context\<lparr>sx_Privileged := Some True,
                                               sx_RunAsGroup := Some 1999\<rparr>)\<rparr>,
                                          new_pod_container\<lparr>pco_Name := ''nodemanager'',
                                           pco_Image := ''docker.io/michaelhenkel/contrail-nodemgr:5.2.0-dev1'',
                                           pco_Env := [(''NODE_TYPE'', EnvValue ''control''),
                                                       (''DOCKER_HOST'', EnvValue ''unix://mnt/docker.sock''),
                                                       (''POD_IP'', EnvFieldRef ''status.podIP'')],
                                           pco_VolumeMounts := [new_mount ''control-logs'' ''/var/log/contrail'',
                                                                new_mount ''crashes'' ''/var/crashes'',
                                                                new_mount ''docker-unix-socket'' ''/mnt''],
                                           pco_ImagePullPolicy := ''IfNotPresent'',
                                           pco_PreStop := [''python /etc/contrailconfigmaps/deprovision.sh.${POD_IP}'']\<rparr>],
                    pspec_DNSPolicy := ''ClusterFirst'',
                    pspec_HostNetwork := True,
                    pspec_NodeSelector := Some [(''node-role.kubernetes.io/master'', [])],
                    pspec_RestartPolicy := ''Always'',
                    pspec_Tolerations := [exists_toleration ''NoSchedule'', exists_toleration ''NoExecute''],
                    pspec_Volumes := [\<lparr>vol_Name = ''control-logs'', vol_Source = HostPathVolume ''/var/log/contrail/control'' []\<rparr>,
                                       \<lparr>vol_Name = ''crashes'', vol_Source = HostPathVolume ''/var/contrail/crashes'' []\<rparr>,
                                       \<lparr>vol_Name = ''docker-unix-socket'', vol_Source = HostPathVolume ''/var/run'' []\<rparr>,
                                       \<lparr>vol_Name = ''host-usr-local-bin'', vol_Source = HostPathVolume ''/usr/local/bin'' []\<rparr>,
                                       \<lparr>vol_Name = ''etc-contrail'', vol_Source = EmptyDirVolume\<rparr>,
                                       \<lparr>vol_Name = ''etc-contrail-dns'', vol_Source = EmptyDirVolume\<rparr>,
                                       \<lparr>vol_Name = ''status'', vol_Source = DownwardAPIVolume [(''pod_labels'', ''metadata.labels''), (''pod_labelsx'', ''metadata.labels'')] (Some 420)\<rparr>]\<rparr>\<rparr>,
      sts_ServiceName = ''control'', sts_VolumeClaimTemplates = [], sts_ReadyReplicas = 0,
      sts_CurrentRevision = [], sts_UpdateRevision = []\<rparr>"

section \<open>Configuration files\<close>

text \<open>The templates of the services control and dns are filled from the same values.\<close>

record control_template =
  ctp_PodIP :: string
  ctp_Hostname :: string
  ctp_BGPPort :: string
  ctp_ASNNumber :: string
  ctp_APIServerList :: string
  ctp_APIServerPort :: string
  ctp_CassandraServerList :: string
  ctp_RabbitmqServerList :: string
  ctp_RabbitmqServerPort :: string
  ctp_CollectorServerList :: string
  ctp_RabbitmqUser :: string
  ctp_RabbitmqPassword :: string
  ctp_RabbitmqVhost :: string
  ctp_CAFilePath :: string

definition ControlControlConfig :: "control_template \<Rightarrow> string" where
  "ControlControlConfig d =
     text_lines
       [''[DEFAULT]'',
        ''# bgp_config_file=bgp_config.xml'',
        ''bgp_port=179'',
        ''collectors='' @ ctp_CollectorServerList d,
        ''# gr_helper_bgp_disable=0'',
        ''# gr_helper_xmpp_disable=0'',
        ''hostip=0.0.0.0'',
        ''hostname='' @ ctp_Hostname d,
        ''http_server_ip=0.0.0.0'',
        ''http_server_port=8083'',
        ''log_file=/var/log/contrail/contrail-control.log'',
        ''log_level=SYS_NOTICE'',
        ''log_local=1'',
        ''# log_files_count=10'',
        ''# log_file_size=10485760 # 10MB'',
        ''# log_category='',
        ''# log_disable=0'',
        ''xmpp_server_port=5269'',
        ''xmpp_auth_enable=True'',
        ''xmpp_server_cert=/etc/certificates/server-'' @ ctp_PodIP d @ ''.crt'',
        ''xmpp_server_key=/etc/certificates/server-key-'' @ ctp_PodIP d @ ''.pem'',
        ''xmpp_ca_cert='' @ ctp_CAFilePath d,
        [],
        ''# Sandesh send rate limit can be used to throttle system logs transmitted per'',
        ''# second. System logs are dropped if the sending rate is exceeded'',
        ''# sandesh_send_rate_limit='',
        ''[CONFIGDB]'',
        ''config_db_server_list='' @ ctp_CassandraServerList d,
        ''# config_db_username='',
        ''# config_db_password='',
        ''config_db_use_ssl=True'',
        ''config_db_ca_certs='' @ ctp_CAFilePath d,
        ''rabbitmq_server_list='' @ ctp_RabbitmqServerList d,
        ''rabbitmq_vhost='' @ ctp_RabbitmqVhost d,
        ''rabbitmq_user='' @ ctp_RabbitmqUser d,
        ''rabbitmq_password='' @ ctp_RabbitmqPassword d,
        ''rabbitmq_use_ssl=True'',
        ''rabbitmq_ssl_keyfile=/etc/certificates/server-key-'' @ ctp_PodIP d @ ''.pem'',
        ''rabbitmq_ssl_certfile=/etc/certificates/server-'' @ ctp_PodIP d @ ''.crt'',
        ''rabbitmq_ssl_ca_certs='' @ ctp_CAFilePath d,
        ''rabbitmq_ssl_version=tlsv1_2'',
        ''[SANDESH]'',
        ''introspect_ssl_enable=True'',
        ''introspect_ssl_insecure=True'',
        ''sandesh_ssl_enable=True'',
        ''sandesh_keyfile=/etc/certificates/server-key-'' @ ctp_PodIP d @ ''.pem'',
        ''sandesh_certfile=/etc/certificates/server-'' @ ctp_PodIP d @ ''.crt''] @
     ''sandesh_ca_cert='' @ ctp_CAFilePath d"

definition ControlNamedConfig :: string where
  "ControlNamedConfig =
     text_lines
       [''options {'',
        ''    directory '' @ [CHR 0x22] @ ''/etc/contrail/dns'' @ [CHR 0x22] @ '';'',
        ''    managed-keys-directory '' @ [CHR 0x22] @ ''/etc/contrail/dns'' @ [CHR 0x22] @ '';'',
        ''    empty-zones-enable no;'',
        ''    pid-file '' @ [CHR 0x22] @ ''/etc/contrail/dns/contrail-named.pid'' @ [CHR 0x22] @ '';'',
        ''    session-keyfile '' @ [CHR 0x22] @ ''/etc/contrail/dns/session.key'' @ [CHR 0x22] @ '';'',
        ''    listen-on port 53 { any; };'',
        ''    allow-query { any; };'',
        ''    allow-recursion { any; };'',
        ''    allow-query-cache { any; };'',
        ''    max-cache-size 32M;'',
        ''};'',
        ''key '' @ [CHR 0x22] @ ''rndc-key'' @ [CHR 0x22] @ '' {'',
        ''    algorithm hmac-md5;'',
        ''    secret '' @ [CHR 0x22] @ ''xvysmOR8lnUQRBcunkC6vg=='' @ [CHR 0x22] @ '';'',
        ''};'',
        ''controls {'',
        ''    inet 127.0.0.1 port 8094'',
        ''    allow { 127.0.0.1; }  keys { '' @ [CHR 0x22] @ ''rndc-key'' @ [CHR 0x22] @ ''; };'',
        ''};'',
        ''logging {'',
        ''    channel debug_log {'',
        ''        file '' @ [CHR 0x22] @ ''/var/log/contrail/contrail-named.log'' @ [CHR 0x22] @ '' versions 3 size 5m;'',
        ''        severity debug;'',
        ''        print-time yes;'',
        ''        print-severity yes;'',
        ''        print-category yes;'',
        ''    };'',
        ''    category default {'',
        ''        debug_log;'',
        ''    };'',
        ''    category queries {'',
        ''        debug_log;'',
        ''    };''] @
     ''};''"

definition ControlDNSConfig :: "control_template \<Rightarrow> string" where
  "ControlDNSConfig d =
     text_lines
       [''[DEFAULT]'',
        ''collectors='' @ ctp_CollectorServerList d,
        ''named_config_file = /etc/contrailconfigmaps/named.'' @ ctp_PodIP d,
        ''named_config_directory = /etc/contrail/dns'',
        ''named_log_file = /var/log/contrail/contrail-named.log'',
        ''rndc_config_file = contrail-rndc.conf'',
        ''named_max_cache_size=32M # max-cache-size (bytes) per view, can be in K or M'',
        ''named_max_retransmissions=12'',
        ''named_retransmission_interval=1000 # msec'',
        ''hostip=0.0.0.0'',
        ''hostname='' @ ctp_Hostname d,
        ''http_server_port=8092'',
        ''http_server_ip=0.0.0.0'',
        ''dns_server_port=53'',
        ''log_file=/var/log/contrail/contrail-dns.log'',
        ''log_level=SYS_NOTICE'',
        ''log_local=1'',
        ''# log_files_count=10'',
        ''# log_file_size=10485760 # 10MB'',
        ''# log_category='',
        ''# log_disable=0'',
        ''xmpp_dns_auth_enable=True'',
        ''xmpp_server_cert=/etc/certificates/server-'' @ ctp_PodIP d @ ''.crt'',
        ''xmpp_server_key=/etc/certificates/server-key-'' @ ctp_PodIP d @ ''.pem'',
        ''xmpp_ca_cert='' @ ctp_CAFilePath d,
        ''# Sandesh send rate limit can be used to throttle system logs transmitted per'',
        ''# second. System logs are dropped if the sending rate is exceeded'',
        ''# sandesh_send_rate_limit='',
        ''[CONFIGDB]'',
        ''config_db_server_list='' @ ctp_CassandraServerList d,
        ''# config_db_username='',
        ''# config_db_password='',
        ''config_db_use_ssl=True'',
        ''config_db_ca_certs='' @ ctp_CAFilePath d,
        ''rabbitmq_server_list='' @ ctp_RabbitmqServerList d,
        ''rabbitmq_vhost='' @ ctp_RabbitmqVhost d,
        ''rabbitmq_user='' @ ctp_RabbitmqUser d,
        ''rabbitmq_password='' @ ctp_RabbitmqPassword d,
        ''rabbitmq_use_ssl=True'',
        ''rabbitmq_ssl_keyfile=/etc/certificates/server-key-'' @ ctp_PodIP d @ ''.pem'',
        ''rabbitmq_ssl_certfile=/etc/certificates/server-'' @ ctp_PodIP d @ ''.crt'',
        ''rabbitmq_ssl_ca_certs='' @ ctp_CAFilePath d,
        ''rabbitmq_ssl_version=tlsv1_2'',
        ''[SANDESH]'',
        ''introspect_ssl_enable=True'',
        ''introspect_ssl_insecure=True'',
        ''sandesh_ssl_enable=True'',
        ''sandesh_keyfile=/etc/certificates/server-key-'' @ ctp_PodIP d @ ''.pem'',
        ''sandesh_certfile=/etc/certificates/server-'' @ ctp_PodIP d @ ''.crt''] @
     ''sandesh_ca_cert='' @ ctp_CAFilePath d"

record control_nodemanager =
  ctn_PodIP :: string
  ctn_CollectorServerList :: string
  ctn_CassandraPort :: string
  ctn_CassandraJmxPort :: string
  ctn_CAFilePath :: string

definition ControlNodemanagerConfig :: "control_nodemanager \<Rightarrow> string" where
  "ControlNodemanagerConfig d =
     text_lines
       [''[DEFAULTS]'',
        ''http_server_ip=0.0.0.0'',
        ''log_file=/var/log/contrail/contrail-control-nodemgr.log'',
        ''log_level=SYS_NOTICE'',
        ''log_local=1'',
        ''hostip=0.0.0.0'',
        ''db_port='' @ ctn_CassandraPort d,
        ''db_jmx_port='' @ ctn_CassandraJmxPort d,
        ''db_use_ssl=True'',
        ''[COLLECTOR]'',
        ''server_list='' @ ctn_CollectorServerList d,
        ''[SANDESH]'',
        ''introspect_ssl_enable=True'',
        ''introspect_ssl_insecure=True'',
        ''sandesh_ssl_enable=True'',
        ''sandesh_keyfile=/etc/certificates/server-key-'' @ ctn_PodIP d @ ''.pem'',
        ''sandesh_certfile=/etc/certificates/server-'' @ ctn_PodIP d @ ''.crt''] @
     ''sandesh_ca_cert='' @ ctn_CAFilePath d"

record control_provision =
  cpv_DataIP :: string
  cpv_APIServerList :: string
  cpv_ASNNumber :: string
  cpv_BGPPort :: string
  cpv_APIServerPort :: string
  cpv_Hostname :: string

definition ControlProvisionConfig :: "control_provision \<Rightarrow> string" where
  "ControlProvisionConfig d =
     text_lines
       [''#!/bin/bash'',
        ''servers=$(echo '' @ cpv_APIServerList d @ '' | tr '' @ [CHR 0x27] @ '','' @ [CHR 0x27] @ '' '' @ [CHR 0x27] @ '' '' @ [CHR 0x27] @ '')'',
        ''for server in $servers ; do'',
        ''  python /opt/contrail/utils/provision_control.py --oper $1 '' @ [CHR 0x5C],
        ''  --api_server_use_ssl true '' @ [CHR 0x5C],
        ''  --host_ip '' @ cpv_DataIP d @ '' '' @ [CHR 0x5C],
        ''  --router_asn '' @ cpv_ASNNumber d @ '' '' @ [CHR 0x5C],
        ''  --bgp_server_port '' @ cpv_BGPPort d @ '' '' @ [CHR 0x5C],
        ''  --api_server_ip $server '' @ [CHR 0x5C],
        ''  --api_server_port '' @ cpv_APIServerPort d @ '' '' @ [CHR 0x5C],
        ''  --host_name '' @ cpv_Hostname d,
        ''  if [[ $? -eq 0 ]]; then'',
        [CHR 0x09] @ ''break'',
        ''  fi'',
        ''done'']"

record control_deprovision =
  cdp_User :: string
  cdp_Password :: string
  cdp_Tenant :: string
  cdp_APIServerList :: string
  cdp_APIServerPort :: string
  cdp_Hostname :: string

definition ControlDeProvisionConfig :: "control_deprovision \<Rightarrow> string" where
  "ControlDeProvisionConfig d =
     text_lines
       [''#!/usr/bin/python'',
        ''from vnc_api import vnc_api'',
        ''import socket'',
        ''vncServerList = ['' @ cdp_APIServerList d @ '']'',
        ''vnc_client = vnc_api.VncApi('',
        ''            username = '' @ [CHR 0x27] @ cdp_User d @ [CHR 0x27] @ '','',
        ''            password = '' @ [CHR 0x27] @ cdp_Password d @ [CHR 0x27] @ '','',
        ''            tenant_name = '' @ [CHR 0x27] @ cdp_Tenant d @ [CHR 0x27] @ '','',
        ''            api_server_host= vncServerList[0],'',
        ''            api_server_port='' @ cdp_APIServerPort d @ '')'',
        ''vnc_client.bgp_router_delete(fq_name=['' @ [CHR 0x27] @ ''default-domain'' @ [CHR 0x27] @ '','' @ [CHR 0x27] @ ''default-project'' @ [CHR 0x27] @ '','' @ [CHR 0x27] @ ''ip-fabric'' @ [CHR 0x27] @ '','' @ [CHR 0x27] @ ''__default__'' @ [CHR 0x27] @ '', '' @ [CHR 0x27] @ cdp_Hostname d @ [CHR 0x27] @ '' ])'']"

section \<open>Methods of the resource\<close>

type_synonym control = "control_configuration cr"

definition ControlIntrospectPort :: int where "ControlIntrospectPort = 8083"
definition KeystoneAuthAdminTenant :: string where "KeystoneAuthAdminTenant = ''admin''"
definition KeystoneAuthAdminUser :: string where "KeystoneAuthAdminUser = ''admin''"
definition KeystoneAuthAdminPassword :: string where "KeystoneAuthAdminPassword = ''contrail123''"

text \<open>The address in the data network: an annotation of the pod, else the address of the pod.\<close>

definition retrieveDataIPs :: "pod \<Rightarrow> string list" where
  "retrieveDataIPs p =
     (case map_of (map_entries (om_Annotations (pod_meta p))) ''dataSubnetIP'' of None \<Rightarrow> [] | Some dataIP \<Rightarrow> [dataIP])"

definition getDataIP :: "pod \<Rightarrow> string" where
  "getDataIP p =
     (case map_of (map_entries (om_Annotations (pod_meta p))) ''dataSubnetIP'' of None \<Rightarrow> pod_PodIP p | Some dataIP \<Rightarrow> dataIP)"

text \<open>The clients of the resources that Control waits for, and what they say of their nodes.\<close>

record 's control_clients =
  ctc_cassandra :: "(cassandra_configuration cr, 's) kind_client"
  ctc_rabbitmq :: "(rabbitmq_configuration cr, 's) kind_client"
  ctc_config :: "(config_configuration cr, 's) kind_client"

record control_nodes =
  ctl_cassandra :: cassandra_cluster
  ctl_rabbitmq :: rabbitmq_cluster
  ctl_config :: config_cluster
  ctl_login :: "string \<times> string \<times> string"

definition control_get_nodes ::
  "range_ord \<Rightarrow> (k_secret, 's) kind_client \<Rightarrow> 's control_clients \<Rightarrow> control \<Rightarrow> string \<Rightarrow> ('s, go_error, control_nodes) go" where
  "control_get_nodes ord kcs ocs c namespace =
     (let contrail_cluster = entry_of (om_Labels (cr_meta c)) ''contrail_cluster''
      in bindM (NewCassandraClusterConfiguration ord (ctc_cassandra ocs) (ct_CassandraInstance (cr_conf c)) namespace) (\<lambda>cassandra.
         bindM (NewRabbitmqClusterConfiguration ord (ctc_rabbitmq ocs) contrail_cluster namespace) (\<lambda>rabbitmq.
         bindM (rabbitmq_login kcs namespace (rc_Secret rabbitmq)) (\<lambda>login.
         bindM (NewConfigClusterConfiguration ord (ctc_config ocs) contrail_cluster namespace) (\<lambda>config.
           ret \<lparr>ctl_cassandra = cassandra, ctl_rabbitmq = rabbitmq, ctl_config = config, ctl_login = login\<rparr>)))))"

definition control_template_of ::
  "control_nodes \<Rightarrow> control_configuration \<Rightarrow> string \<Rightarrow> string \<Rightarrow> ('s, go_error, control_template) go" where
  "control_template_of n conf podIP hostname =
     bindM (port_text (ct_BGPPort conf)) (\<lambda>bgpPort.
     bindM (port_text (ct_ASNNumber conf)) (\<lambda>asnNumber.
       ret \<lparr>ctp_PodIP = podIP, ctp_Hostname = hostname, ctp_BGPPort = bgpPort, ctp_ASNNumber = asnNumber,
            ctp_APIServerList = JoinListWithSeparator (cc_APIServerIPList (ctl_config n)) '' '',
            ctp_APIServerPort = Itoa (cc_APIServerPort (ctl_config n)),
            ctp_CassandraServerList =
              JoinListWithSeparator (EndpointList (sc_ServerIPList (ctl_cassandra n)) (sc_CQLPort (ctl_cassandra n))) '' '',
            ctp_RabbitmqServerList =
              JoinListWithSeparator (EndpointList (rc_ServerIPList (ctl_rabbitmq n)) (rc_SSLPort (ctl_rabbitmq n))) '' '',
            ctp_RabbitmqServerPort = Itoa (rc_SSLPort (ctl_rabbitmq n)),
            ctp_CollectorServerList =
              JoinListWithSeparator (EndpointList (cc_CollectorServerIPList (ctl_config n)) (cc_CollectorPort (ctl_config n))) '' '',
            ctp_RabbitmqUser = str_or (fst (ctl_login n)) (ct_RabbitmqUser conf),
            ctp_RabbitmqPassword = str_or (fst (snd (ctl_login n))) (ct_RabbitmqPassword conf),
            ctp_RabbitmqVhost = str_or (snd (snd (ctl_login n))) (ct_RabbitmqVhost conf),
            ctp_CAFilePath = SignerCAFilepath\<rparr>))"

definition control_nodemanager_of :: "control_nodes \<Rightarrow> control_template \<Rightarrow> control_nodemanager" where
  "control_nodemanager_of n d =
     \<lparr>ctn_PodIP = ctp_PodIP d, ctn_CollectorServerList = ctp_CollectorServerList d,
      ctn_CassandraPort = Itoa (sc_CQLPort (ctl_cassandra n)),
      ctn_CassandraJmxPort = Itoa (sc_JMXPort (ctl_cassandra n)), ctn_CAFilePath = SignerCAFilepath\<rparr>"

definition control_provision_of :: "control_nodes \<Rightarrow> control_template \<Rightarrow> string \<Rightarrow> control_provision" where
  "control_provision_of n d dataIP =
     \<lparr>cpv_DataIP = dataIP, cpv_APIServerList = JoinListWithSeparator (cc_APIServerIPList (ctl_config n)) '','',
      cpv_ASNNumber = ctp_ASNNumber d, cpv_BGPPort = ctp_BGPPort d,
      cpv_APIServerPort = Itoa (cc_APIServerPort (ctl_config n)), cpv_Hostname = ctp_Hostname d\<rparr>"

definition control_deprovision_of :: "control_nodes \<Rightarrow> control_template \<Rightarrow> control_deprovision" where
  "control_deprovision_of n d =
     \<lparr>cdp_User = KeystoneAuthAdminUser, cdp_Password = KeystoneAuthAdminPassword,
      cdp_Tenant = KeystoneAuthAdminTenant,
      cdp_APIServerList = JoinListWithSeparatorAndSingleQuotes (cc_APIServerIPList (ctl_config n)) '','',
      cdp_APIServerPort = Itoa (cc_APIServerPort (ctl_config n)), cdp_Hostname = ctp_Hostname d\<rparr>"

text \<open>The seven files of a pod, in the order in which they are written.\<close>

definition control_pod_files ::
  "control_nodes \<Rightarrow> control_template \<Rightarrow> pod \<Rightarrow> string \<Rightarrow> (string \<times> string) list" where
  "control_pod_files n d p statusMonitorConfig =
     (let podIP = pod_PodIP p
      in [(''monitorconfig.'' @ podIP @ ''.yaml'', statusMonitorConfig),
          (''control.'' @ podIP, ControlControlConfig d),
          (''named.'' @ podIP, ControlNamedConfig),
          (''dns.'' @ podIP, ControlDNSConfig d),
          (''nodemanager.'' @ podIP, ControlNodemanagerConfig (control_nodemanager_of n d)),
          (''provision.sh.'' @ podIP, ControlProvisionConfig (control_provision_of n d (getDataIP p))),
          (''deprovision.py.'' @ podIP, ControlDeProvisionConfig (control_deprovision_of n d))])"

definition control_files ::
  "(monitor_config \<Rightarrow> go_error + string) \<Rightarrow> namespaced_name \<Rightarrow> control_nodes \<Rightarrow> control_configuration \<Rightarrow> pod list
    \<Rightarrow> ('s, go_error, (string, string) gomap) go" where
  "control_files marshal request n conf pods =
     foldM (\<lambda>p data.
       let hostname = entry_of (om_Annotations (pod_meta p)) ''hostname''
       in bindM (StatusMonitorConfig marshal hostname
                   (EndpointList (cc_APIServerIPList (ctl_config n)) ControlIntrospectPort)
                   (pod_PodIP p) ''control'' (snd request) (fst request) (om_Name (pod_meta p))) (\<lambda>statusMonitorConfig.
          bindM (control_template_of n conf (pod_PodIP p) hostname) (\<lambda>d.
            ret (fold (\<lambda>(k, v). AList.update k v) (control_pod_files n d p statusMonitorConfig) data)))) pods []"

text \<open>The result is the list of the pods in the order of their addresses.\<close>

definition Control_InstanceConfiguration ::
  "range_ord \<Rightarrow> (monitor_config \<Rightarrow> go_error + string) \<Rightarrow> 's svc_clients \<Rightarrow> 's control_clients \<Rightarrow> control
    \<Rightarrow> namespaced_name \<Rightarrow> pod list \<Rightarrow> ('s, go_error, pod list) go" where
  "Control_InstanceConfiguration ord marshal cls ocs c request podList =
     bindM (kc_Get (sv_configmap cls) (fst request, snd request @ ''-control-configmap'')) (\<lambda>cm.
     bindM (control_get_nodes ord (sv_secret cls) ocs c (fst request)) (\<lambda>n.
       let pods = sort_by_ip podList
       in bindM (control_files marshal request n (Control_ConfigurationParameters c) pods) (\<lambda>data.
          bindM (kc_Update (sv_configmap cls) (cm\<lparr>cm_Data := Some data\<rparr>)) (\<lambda>_. ret pods))))"

definition Control_PodsCertSubjects :: "control \<Rightarrow> pod list \<Rightarrow> cert_subject list" where
  "Control_PodsCertSubjects c podList =
     PodsCertSubjects podList (pc_HostNetwork (cr_common c)) \<lparr>Retriever = Some retrieveDataIPs, ServiceIP = []\<rparr>"

definition Control_ManageNodeStatus ::
  "(control, 's) kind_client \<Rightarrow> control \<Rightarrow> (string, string) gomap \<Rightarrow> ('s, go_error, control) go" where
  "Control_ManageNodeStatus kc c podNameIPMap =
     (let conf = Control_ConfigurationParameters c
      in bindM (port_text (ct_BGPPort conf)) (\<lambda>bgp.
         bindM (port_text (ct_ASNNumber conf)) (\<lambda>asn.
         bindM (port_text (ct_XMPPPort conf)) (\<lambda>xmpp.
         bindM (port_text (ct_DNSPort conf)) (\<lambda>dns.
         bindM (port_text (ct_DNSIntrospectPort conf)) (\<lambda>introspect.
           let c = set_cr_nodes podNameIPMap
                     [(''bgpPort'', bgp), (''asnNumber'', asn), (''xmppPort'', xmpp), (''dnsPort'', dns),
                      (''dnsIntrospectPort'', introspect)] c
           in bindM (kc_StatusUpdate kc c) (\<lambda>_. ret c)))))))"

section \<open>The controller\<close>

definition control_resourceHandler ::
  "'q queue_add \<Rightarrow> (string \<Rightarrow> go_error + object_meta list) \<Rightarrow> 'q handler_methods" where
  "control_resourceHandler = resourceHandler"

text \<open>The annotation of the pods with the data network.\<close>

definition set_data_subnet :: "string \<Rightarrow> stateful_set \<Rightarrow> stateful_set" where
  "set_data_subnet dataSubnet sts =
     (if dataSubnet \<noteq> []
      then sts\<lparr>sts_Template := (sts_Template sts)\<lparr>pt_Annotations :=
             Some (AList.update ''dataSubnet'' dataSubnet (map_entries (pt_Annotations (sts_Template sts))))\<rparr>\<rparr>
      else sts)"

text \<open>The mounts of the containers that need no certificate.\<close>

definition add_plain_mounts :: "string \<Rightarrow> string \<Rightarrow> pod_container \<Rightarrow> pod_container" where
  "add_plain_mounts name instanceType c =
     add_mount (name @ ''-csr-signer-ca'') SignerCAMountPath
       (add_mount (name @ ''-'' @ instanceType @ ''-volume'') ''/etc/contrailconfigmaps'' c)"

definition control_configure_container ::
  "string \<Rightarrow> container list \<Rightarrow> bool \<Rightarrow> pod_container \<Rightarrow> ('s, go_error, pod_container) go" where
  "control_configure_container name containers nodemgr c =
     (if pco_Name c = ''control''
      then service_container containers
             [''bash'', ''-c'', ''/usr/bin/contrail-control --conf_file /etc/contrailconfigmaps/control.${POD_IP}''] (add_service_mounts name ''control'') c
      else if pco_Name c = ''statusmonitor''
      then service_container containers
             [''sh'', ''-c'', ''/app/statusmonitor/contrail-statusmonitor-image.binary -config /etc/contrailconfigmaps/monitorconfig.${POD_IP}.yaml''] (add_service_mounts name ''control'') c
      else if pco_Name c = ''named''
      then service_container containers
             [''bash'', ''-c'', ''touch /var/log/contrail/contrail-named.log; chgrp contrail /var/log/contrail/contrail-named.log; chmod g+w /var/log/contrail/contrail-named.log; /usr/bin/contrail-named -f -g -u contrail -c /etc/contrailconfigmaps/named.${POD_IP}'']
             (\<lambda>c. add_plain_mounts name ''control''
                (c\<lparr>pco_SecurityContext := Some (new_security_context\<lparr>sx_RunAsGroup := Some 1999, sx_Privileged := Some True\<rparr>)\<rparr>)) c
      else if pco_Name c = ''dns''
      then service_container containers
             [''bash'', ''-c'', ''/usr/bin/contrail-dns --conf_file /etc/contrailconfigmaps/dns.${POD_IP}''] (add_service_mounts name ''control'') c
      else if pco_Name c = ''nodemanager''
      then if nodemgr
           then service_container containers
                  [''bash'', ''-c'', ''bash /etc/contrailconfigmaps/provision.sh.${POD_IP} add; /usr/bin/python /usr/bin/contrail-nodemgr --nodetype=contrail-control''] (add_plain_mounts name ''control'') c
           else ret c
      else ret c)"

definition control_intended_sts ::
  "range_ord \<Rightarrow> namespaced_name \<Rightarrow> control \<Rightarrow> config_map \<Rightarrow> k_secret \<Rightarrow> stateful_set \<Rightarrow> ('s, go_error, stateful_set) go" where
  "control_intended_sts ord request c configMap secretCertificates sts0 =
     (let name = snd request;
          containers = ct_Containers (cr_conf c);
          nodemgr = (GetContainerFromList ''nodemanager'' containers \<noteq> None);
          sts = set_anti_affinity ''control'' name
                  (set_data_subnet (ct_DataSubnet (cr_conf c))
                    (set_service_account ''serviceaccount-statusmonitor-control''
                      (service_volumes ord name ''control'' configMap secretCertificates sts0)))
      in bindM (update_containers (control_configure_container name containers nodemgr) sts) (\<lambda>sts.
         bindM (if nodemgr then ret sts else remove_containers ''nodemanager'' sts) (\<lambda>sts.
           update_init_containers (configure_init containers) sts)))"

definition control_ensureCertificatesExist ::
  "k8s_lib \<Rightarrow> ('key, 'ip, 'cert, 's) crypto_lib \<Rightarrow> (k_secret, 's) kind_client \<Rightarrow> control \<Rightarrow> pod list
    \<Rightarrow> ('s, go_error, unit) go" where
  "control_ensureCertificatesExist lib cy kc c pods =
     EnsureExistsAndIsSigned lib cy kc (cr_meta c) (Control_PodsCertSubjects c pods) ''control''"

definition control_pods ::
  "k8s_lib \<Rightarrow> range_ord \<Rightarrow> (monitor_config \<Rightarrow> go_error + string) \<Rightarrow> ('key, 'ip, 'cert, 's) crypto_lib
    \<Rightarrow> 's svc_clients \<Rightarrow> 's control_clients \<Rightarrow> (control, 's) kind_client \<Rightarrow> namespaced_name \<Rightarrow> control \<Rightarrow> pod list
    \<Rightarrow> (string, string) gomap \<Rightarrow> ('s, go_error, control) go" where
  "control_pods lib ord marshal cy cls ocs kc request c podList podIPMap =
     bindM (Control_InstanceConfiguration ord marshal cls ocs c request podList) (\<lambda>podList.
     bindM (control_ensureCertificatesExist lib cy (sv_secret cls) c podList) (\<lambda>_.
     bindM (SetPodsToReady (sv_pod cls) podList) (\<lambda>_.
       Control_ManageNodeStatus kc c podIPMap)))"

definition zero_control :: control where
  "zero_control = \<lparr>cr_meta = new_meta, cr_common = new_common, cr_conf = no_control_configuration, cr_status = new_status\<rparr>"

text \<open>The services that Control waits for are all asked, whatever the answers are.\<close>

definition control_dependencies_active ::
  "'s control_clients \<Rightarrow> control \<Rightarrow> string \<Rightarrow> ('s, go_error, bool) go" where
  "control_dependencies_active ocs c namespace =
     (let contrail_cluster = entry_of (om_Labels (cr_meta c)) ''contrail_cluster''
      in bindM (Cassandra_IsActive (ctc_cassandra ocs) (ct_CassandraInstance (cr_conf c)) namespace) (\<lambda>cassandraActive.
         bindM (Rabbitmq_IsActive (ctc_rabbitmq ocs) contrail_cluster namespace) (\<lambda>rabbitmqActive.
         bindM (Config_IsActive (ctc_config ocs) contrail_cluster namespace) (\<lambda>configActive.
           ret (configActive \<and> cassandraActive \<and> rabbitmqActive)))))"

definition Control_Reconcile ::
  "k8s_lib \<Rightarrow> range_ord \<Rightarrow> (monitor_config \<Rightarrow> go_error + string) \<Rightarrow> ('key, 'ip, 'cert, 's) crypto_lib \<Rightarrow> 's exec_lib
    \<Rightarrow> 's svc_clients \<Rightarrow> 's control_clients \<Rightarrow> (control, 's) kind_client \<Rightarrow> namespaced_name
    \<Rightarrow> ('s, go_error, bool) go" where
  "Control_Reconcile lib ord marshal cy ex cls ocs kc request =
     bindM (get_instance lib kc zero_control request) (\<lambda>r.
       case r of
         None \<Rightarrow> ret False
       | Some c \<Rightarrow>
           if om_Deleted (cr_meta c) then ret False
           else
             let name = snd request
             in bindM (control_dependencies_active ocs c (fst request)) (\<lambda>active.
                if \<not> active then ret False
                else
                bindM (CreateConfigMap lib (sv_configmap cls) (name @ ''-control-configmap'') request ''control'' (cr_meta c)) (\<lambda>configMap.
                bindM (CreateSecret lib (sv_secret cls) (name @ ''-secret-certificates'') request ''control'' (cr_meta c)) (\<lambda>secretCertificates.
                bindM (PrepareSTS lib control_GetSTS (cr_common c) ''control'' request (cr_meta c) True) (\<lambda>sts.
                bindM (CreateAccount lib (sv_serviceaccount cls) (sv_clusterrole cls) (sv_clusterrolebinding cls)
                         ''statusmonitor-control'' (fst request) (cr_meta c)) (\<lambda>_.
                bindM (control_intended_sts ord request c configMap secretCertificates sts) (\<lambda>sts.
                bindM (CreateSTS lib (sv_sts cls) sts ''control'' request) (\<lambda>sts.
                bindM (UpdateSTS lib (sv_sts cls) sts ''control'' request ''rolling'') (\<lambda>_.
                bindM (PodIPListAndIPMapFromInstance (sv_node cls) (sv_pod cls) ex ''control'' (cr_common c)
                         request True (no_wants\<lparr>getHostname := True\<rparr>)) (\<lambda>(podIPList, podIPMap).
                bindM (if podIPMap \<noteq> []
                       then control_pods lib ord marshal cy cls ocs kc request c podIPList podIPMap
                       else ret c) (\<lambda>c.
                bindM (SetInstanceActive (sv_sts cls) kc set_cr_active sts request (active_or_false c)) (\<lambda>_.
                  ret False))))))))))))"

end
