(* ===== verification/Kubemanager.thy ===== *)
theory Kubemanager
  imports ServiceParts ManagerTypes
begin

text \<open>
  \<open>pkg/controller/kubemanager\<close>, the methods of \<open>kubemanager_types.go\<close> and
  \<open>pkg/configuration/kubemanager_config.go\<close>: one reconciliation of a Kubemanager resource.  What
  the service has to know of its cluster comes through the interface \<open>KubemanagerClusterInfo\<close>,
  the record \<open>cluster_info\<close>, which \<open>ClusterInfo\<close> implements for Kubernetes and for OpenShift.
  \<open>marshal\<close> is \<open>yaml.Marshal\<close>.
\<close>

section \<open>The stateful set\<close>

definition kubemanager_GetSTS :: stateful_set where
  "kubemanager_GetSTS =
     \<lparr>sts_meta = new_meta\<lparr>om_Name := [], om_Namespace := ''default''\<rparr>, sts_Replicas = Some 1,
      sts_PodManagementPolicy = [], sts_Selector = Some (Some [(''app'', ''kubemanager'')]),
      sts_Template =
        \<lparr>pt_Annotations = None, pt_Labels = Some [(''app'', ''kubemanager''), (''contrail_manager'', ''kubemanager'')],
         pt_Spec = new_pod_spec\<lparr>pspec_Volumes := [\<lparr>vol_Name = ''kubemanager-logs'', vol_Source = HostPathVolume ''/var/log/contrail/kubemanager'' []\<rparr>,
                                       \<lparr>vol_Name = ''host-usr-local-bin'', vol_Source = HostPathVolume ''/usr/local/bin'' []\<rparr>,
                                       \<lparr>vol_Name = ''status'', vol_Source = DownwardAPIVolume [(''pod_labels'', ''metadata.labels''), (''pod_labelsx'', ''metadata.labels'')] (Some 420)\<rparr>],
                    pspec_InitContainers := [new_pod_container\<lparr>pco_Name := ''init'',
                                               pco_Image := ''busybox'',
                                               pco_Command := [''sh'', ''-c'', ''until grep ready /tmp/podinfo/pod_labels > /dev/null 2>&1; do sleep 1; done''],
                                               pco_Env := [(''POD_IP'', EnvFieldRef ''status.podIP'')],
                                               pco_VolumeMounts := [new_mount ''status'' ''/tmp/podinfo''],
                                               pco_ImagePullPolicy := ''IfNotPresent''\<rparr>],
                    pspec_Containers := [new_pod_container\<lparr>pco_Name := ''kubemanager'',
                                           pco_Image := ''docker.io/michaelhenkel/contrail-kubernetes-kube-manager:5.2.0-dev1'',
                                           pco_Env := [(''POD_IP'', EnvFieldRef ''status.podIP'')],
                                           pco_VolumeMounts := [new_mount ''kubemanager-logs'' ''/var/log/contrail''],
                                           pco_ImagePullPolicy := ''IfNotPresent''\<rparr>,
                                          new_pod_container\<lparr>pco_Name := ''statusmonitor'',
                                           pco_Image := ''docker.io/kaweue/contrail-statusmonitor:debug'',
                                           pco_Env := [(''POD_IP'', EnvFieldRef ''status.podIP'')],
                                           pco_VolumeMounts := [new_mount ''kubemanager-logs'' ''/var/log/contrail''],
                                           pco_ImagePullPolicy := ''IfNotPresent''\<rparr>],
                    pspec_RestartPolicy := ''Always'',
                    pspec_DNSPolicy := ''ClusterFirst'',
                    pspec_HostNetwork := True,
                    pspec_Tolerations := [exists_toleration ''NoSchedule'', exists_toleration ''NoExecute''],
                    pspec_NodeSelector := Some [(''node-role.kubernetes.io/master'', [])],
                    pspec_ServiceAccountName := ''contrail-service-account-kubemanager''\<rparr>\<rparr>,
      sts_ServiceName = ''kubemanager'', sts_VolumeClaimTemplates = [], sts_ReadyReplicas = 0,
      sts_CurrentRevision = [], sts_UpdateRevision = []\<rparr>"

section \<open>Configuration files\<close>

record kubemanager_template =
  ktp_Token :: string
  ktp_ListenAddress :: string
  ktp_CloudOrchestrator :: string
  ktp_KubernetesAPIServer :: string
  ktp_KubernetesAPIPort :: string
  ktp_KubernetesAPISSLPort :: string
  ktp_KubernetesClusterName :: string
  ktp_PodSubnet :: string
  ktp_IPFabricSubnet :: string
  ktp_ServiceSubnet :: string
  ktp_IPFabricForwarding :: string
  ktp_IPFabricSnat :: string
  ktp_APIServerList :: string
  ktp_APIServerPort :: string
  ktp_CassandraServerList :: string
  ktp_ZookeeperServerList :: string
  ktp_RabbitmqServerList :: string
  ktp_RabbitmqServerPort :: string
  ktp_CollectorServerList :: string
  ktp_HostNetworkService :: string
  ktp_RabbitmqUser :: string
  ktp_RabbitmqPassword :: string
  ktp_RabbitmqVhost :: string
  ktp_CAFilePath :: string

definition KubemanagerConfig :: "kubemanager_template \<Rightarrow> string" where
  "KubemanagerConfig d =
     text_lines
       [''[DEFAULTS]'',
        ''host_ip='' @ ktp_ListenAddress d,
        ''orchestrator='' @ ktp_CloudOrchestrator d,
        ''token='' @ ktp_Token d,
        ''log_file=/var/log/contrail/contrail-kube-manager.log'',
        ''log_level=SYS_DEBUG'',
        ''log_local=1'',
        ''nested_mode=0'',
        ''http_server_ip=0.0.0.0'',
        ''[KUBERNETES]'',
        ''kubernetes_api_server='' @ ktp_KubernetesAPIServer d,
        ''kubernetes_api_port='' @ ktp_KubernetesAPIPort d,
        ''kubernetes_api_secure_port='' @ ktp_KubernetesAPISSLPort d,
        ''cluster_name='' @ ktp_KubernetesClusterName d,
        ''cluster_project={}'',
        ''cluster_network={}'',
        ''pod_subnets='' @ ktp_PodSubnet d,
        ''ip_fabric_subnets='' @ ktp_IPFabricSubnet d,
        ''service_subnets='' @ ktp_ServiceSubnet d,
        ''ip_fabric_forwarding='' @ ktp_IPFabricForwarding d,
        ''ip_fabric_snat='' @ ktp_IPFabricSnat d,
        ''host_network_service='' @ ktp_HostNetworkService d,
        ''[VNC]'',
        ''public_fip_pool={}'',
        ''vnc_endpoint_ip='' @ ktp_APIServerList d,
        ''vnc_endpoint_port='' @ ktp_APIServerPort d,
        ''rabbit_server='' @ ktp_RabbitmqServerList d,
        ''rabbit_port='' @ ktp_RabbitmqServerPort d,
        ''rabbit_vhost='' @ ktp_RabbitmqVhost d,
        ''rabbit_user='' @ ktp_RabbitmqUser d,
        ''rabbit_password='' @ ktp_RabbitmqPassword d,
        ''rabbit_use_ssl=True'',
        ''kombu_ssl_keyfile=/etc/certificates/server-key-'' @ ktp_ListenAddress d @ ''.pem'',
        ''kombu_ssl_certfile=/etc/certificates/server-'' @ ktp_ListenAddress d @ ''.crt'',
        ''kombu_ssl_ca_certs='' @ ktp_CAFilePath d,
        ''kombu_ssl_version=tlsv1_2'',
        ''rabbit_health_check_interval=10'',
        ''cassandra_server_list='' @ ktp_CassandraServerList d,
        ''cassandra_use_ssl=True'',
        ''cassandra_ca_certs='' @ ktp_CAFilePath d,
        ''collectors='' @ ktp_CollectorServerList d,
        ''zk_server_ip='' @ ktp_ZookeeperServerList d,
        ''[SANDESH]'',
        ''introspect_ssl_enable=True'',
        ''introspect_ssl_insecure=True'',
        ''sandesh_ssl_enable=True'',
        ''sandesh_keyfile=/etc/certificates/server-key-'' @ ktp_ListenAddress d @ ''.pem'',
        ''sandesh_certfile=/etc/certificates/server-'' @ ktp_ListenAddress d @ ''.crt''] @
     ''sandesh_ca_cert='' @ ktp_CAFilePath d"

record kubemanager_vnc =
  kvt_ListenAddress :: string
  kvt_ListenPort :: string
  kvt_CAFilePath :: string
  kvt_AuthMode :: string
  kvt_KeystoneAuthProtocol :: string
  kvt_KeystoneAddress :: string
  kvt_KeystonePort :: int
  kvt_KeystoneUserDomainName :: string

definition KubemanagerAPIVNC :: "kubemanager_vnc \<Rightarrow> string" where
  "KubemanagerAPIVNC d =
     text_lines
       [''[global]'',
        ''WEB_SERVER = '' @ kvt_ListenAddress d,
        ''WEB_PORT = '' @ kvt_ListenPort d @ '' ; connection to api-server directly'',
        ''BASE_URL = /'',
        ''use_ssl = True'',
        ''cafile = '' @ kvt_CAFilePath d,
        ''; Authentication settings (optional)'',
        ''[auth]'',
        ''AUTHN_TYPE = '' @ kvt_AuthMode d,
        ''AUTHN_PROTOCOL = '' @ kvt_KeystoneAuthProtocol d,
        ''AUTHN_SERVER = '' @ kvt_KeystoneAddress d,
        ''AUTHN_PORT = '' @ Itoa (kvt_KeystonePort d),
        ''AUTHN_DOMAIN = '' @ kvt_KeystoneUserDomainName d,
        ''cafile = '' @ kvt_CAFilePath d,
        ''AUTHN_URL = /v3/auth/tokens'']"

section \<open>Methods of the resource\<close>

type_synonym kubemanager = "kubemanager_service_configuration cr"

definition CloudOrchestrator :: string where "CloudOrchestrator = ''kubernetes''"
definition KubernetesApiServer :: string where "KubernetesApiServer = ''10.96.0.1''"
definition KubernetesApiPort :: int where "KubernetesApiPort = 8080"
definition KubernetesApiSSLPort :: int where "KubernetesApiSSLPort = 6443"
definition KubernetesClusterName_default :: string where "KubernetesClusterName_default = ''kubernetes''"
definition KubernetesPodSubnets :: string where "KubernetesPodSubnets = ''10.32.0.0/12''"
definition KubernetesIpFabricSubnets :: string where "KubernetesIpFabricSubnets = ''10.64.0.0/12''"
definition KubernetesServiceSubnets :: string where "KubernetesServiceSubnets = ''10.96.0.0/12''"
definition KubernetesIPFabricForwarding :: bool where "KubernetesIPFabricForwarding = False"
definition KubernetesIPFabricSnat :: bool where "KubernetesIPFabricSnat = True"
definition KubernetesHostNetworkService :: bool where "KubernetesHostNetworkService = False"
definition KubernetesUseKubeadm :: bool where "KubernetesUseKubeadm = False"

text \<open>
  \<open>ConfigurationParameters\<close> builds a fresh value; the fields that it does not mention, such as the
  user of Rabbitmq, stay empty.  It also sets the mode of authentication in the resource.
\<close>

definition Kubemanager_ConfigurationParameters ::
  "kubemanager \<Rightarrow> kubemanager \<times> kubemanager_configuration" where
  "Kubemanager_ConfigurationParameters c =
     (let conf = kn_KubemanagerConfiguration (cr_conf c);
          c = (if km_AuthMode conf = []
               then c\<lparr>cr_conf := (cr_conf c)\<lparr>kn_KubemanagerConfiguration :=
                       conf\<lparr>km_AuthMode := AuthenticationModeNoAuth\<rparr>\<rparr>\<rparr>
               else c)
      in (c, no_kubemanager_configuration\<lparr>
            km_CloudOrchestrator := str_or (km_CloudOrchestrator conf) CloudOrchestrator,
            km_KubernetesAPIServer := str_or (km_KubernetesAPIServer conf) KubernetesApiServer,
            km_KubernetesAPIPort := ptr_or (km_KubernetesAPIPort conf) KubernetesApiPort,
            km_KubernetesAPISSLPort := ptr_or (km_KubernetesAPISSLPort conf) KubernetesApiSSLPort,
            km_KubernetesClusterName := str_or (km_KubernetesClusterName conf) KubernetesClusterName_default,
            km_PodSubnets := str_or (km_PodSubnets conf) KubernetesPodSubnets,
            km_IPFabricSubnets := str_or (km_IPFabricSubnets conf) KubernetesIpFabricSubnets,
            km_ServiceSubnets := str_or (km_ServiceSubnets conf) KubernetesServiceSubnets,
            km_IPFabricForwarding := ptr_or (km_IPFabricForwarding conf) KubernetesIPFabricForwarding,
            km_HostNetworkService := ptr_or (km_HostNetworkService conf) KubernetesHostNetworkService,
            km_UseKubeadmConfig := ptr_or (km_UseKubeadmConfig conf) KubernetesUseKubeadm,
            km_IPFabricSnat := ptr_or (km_IPFabricSnat conf) KubernetesIPFabricSnat\<rparr>))"

record 's cluster_info =
  ci_KubernetesAPISSLPort :: "('s, go_error, int) go"
  ci_KubernetesAPIServer :: "('s, go_error, string) go"
  ci_KubernetesClusterName :: "('s, go_error, string) go"
  ci_PodSubnets :: "('s, go_error, string) go"
  ci_ServiceSubnets :: "('s, go_error, string) go"

text \<open>With \<open>UseKubeadmConfig\<close> the parameters of the cluster replace the configured ones.\<close>

definition use_cluster_info ::
  "'s cluster_info \<Rightarrow> kubemanager_configuration \<Rightarrow> ('s, go_error, kubemanager_configuration) go" where
  "use_cluster_info cinfo conf =
     bindM (deref_ptr (km_UseKubeadmConfig conf)) (\<lambda>useKubeadmConfig.
       if useKubeadmConfig
       then bindM (ci_KubernetesAPISSLPort cinfo) (\<lambda>apiSSLPort.
            bindM (ci_KubernetesAPIServer cinfo) (\<lambda>APIServer.
            bindM (ci_KubernetesClusterName cinfo) (\<lambda>clusterName.
            bindM (ci_PodSubnets cinfo) (\<lambda>podSubnets.
            bindM (ci_ServiceSubnets cinfo) (\<lambda>serviceSubnets.
              ret (conf\<lparr>km_KubernetesAPISSLPort := Some apiSSLPort, km_KubernetesAPIServer := APIServer,
                        km_KubernetesClusterName := clusterName, km_PodSubnets := podSubnets,
                        km_ServiceSubnets := serviceSubnets\<rparr>))))))
       else ret conf)"

text \<open>The nodes of the other services, with their default values written through the pointers.\<close>

record kubemanager_nodes =
  kno_cassandra :: cassandra_cluster
  kno_config :: config_cluster
  kno_rabbitmq :: rabbitmq_cluster
  kno_zookeeper :: zookeeper_cluster
  kno_keystone :: keystone_cluster

definition kubemanager_fill_nodes ::
  "kubemanager \<Rightarrow> ('s, go_error, kubemanager \<times> kubemanager_nodes) go" where
  "kubemanager_fill_nodes c =
     (let conf = cr_conf c
      in bindM (deref_ptr (kn_CassandraNodesConfiguration conf)) (\<lambda>cassandra.
         bindM (deref_ptr (kn_ConfigNodesConfiguration conf)) (\<lambda>config.
         bindM (deref_ptr (kn_RabbbitmqNodesConfiguration conf)) (\<lambda>rabbitmq.
         bindM (deref_ptr (kn_ZookeeperNodesConfiguration conf)) (\<lambda>zookeeper.
         bindM (deref_ptr (kn_KeystoneNodesConfiguration conf)) (\<lambda>keystone.
           let n = \<lparr>kno_cassandra = Cassandra_FillWithDefaultValues cassandra,
                    kno_config = Config_FillWithDefaultValues config,
                    kno_rabbitmq = Rabbitmq_FillWithDefaultValues rabbitmq,
                    kno_zookeeper = Zookeeper_FillWithDefaultValues zookeeper,
                    kno_keystone = Keystone_FillWithDefaultValues keystone\<rparr>
           in ret (c\<lparr>cr_conf := conf\<lparr>kn_CassandraNodesConfiguration := Some (kno_cassandra n),
                       kn_ConfigNodesConfiguration := Some (kno_config n),
                       kn_RabbbitmqNodesConfiguration := Some (kno_rabbitmq n),
                       kn_ZookeeperNodesConfiguration := Some (kno_zookeeper n),
                       kn_KeystoneNodesConfiguration := Some (kno_keystone n)\<rparr>\<rparr>, n)))))))"

definition kubemanager_template_of ::
  "kubemanager_nodes \<Rightarrow> kubemanager_configuration \<Rightarrow> string \<times> string \<times> string \<Rightarrow> string \<Rightarrow> string
    \<Rightarrow> ('s, go_error, kubemanager_template) go" where
  "kubemanager_template_of n conf login token podIP =
     bindM (port_text (km_KubernetesAPIPort conf)) (\<lambda>apiPort.
     bindM (port_text (km_KubernetesAPISSLPort conf)) (\<lambda>apiSSLPort.
     bindM (bool_text (km_IPFabricForwarding conf)) (\<lambda>forwarding.
     bindM (bool_text (km_IPFabricSnat conf)) (\<lambda>snat.
     bindM (bool_text (km_HostNetworkService conf)) (\<lambda>hostNetwork.
       ret \<lparr>ktp_Token = token, ktp_ListenAddress = podIP, ktp_CloudOrchestrator = km_CloudOrchestrator conf,
            ktp_KubernetesAPIServer = km_KubernetesAPIServer conf, ktp_KubernetesAPIPort = apiPort,
            ktp_KubernetesAPISSLPort = apiSSLPort, ktp_KubernetesClusterName = km_KubernetesClusterName conf,
            ktp_PodSubnet = km_PodSubnets conf, ktp_IPFabricSubnet = km_IPFabricSubnets conf,
            ktp_ServiceSubnet = km_ServiceSubnets conf, ktp_IPFabricForwarding = forwarding,
            ktp_IPFabricSnat = snat,
            ktp_APIServerList = JoinListWithSeparator (cc_APIServerIPList (kno_config n)) '','',
            ktp_APIServerPort = Itoa (cc_APIServerPort (kno_config n)),
            ktp_CassandraServerList =
              JoinListWithSeparator (EndpointList (sc_ServerIPList (kno_cassandra n)) (sc_Port (kno_cassandra n))) '' '',
            ktp_ZookeeperServerList =
              JoinListWithSeparator (EndpointList (zc_ServerIPList (kno_zookeeper n)) (zc_ClientPort (kno_zookeeper n))) '','',
            ktp_RabbitmqServerList = JoinListWithSeparator (rc_ServerIPList (kno_rabbitmq n)) '','',
            ktp_RabbitmqServerPort = Itoa (rc_SSLPort (kno_rabbitmq n)),
            ktp_CollectorServerList =
              JoinListWithSeparator (EndpointList (cc_CollectorServerIPList (kno_config n)) (cc_CollectorPort (kno_config n))) '' '',
            ktp_HostNetworkService = hostNetwork,
            ktp_RabbitmqUser = str_or (fst login) (km_RabbitmqUser conf),
            ktp_RabbitmqPassword = str_or (fst (snd login)) (km_RabbitmqPassword conf),
            ktp_RabbitmqVhost = str_or (snd (snd login)) (km_RabbitmqVhost conf),
            ktp_CAFilePath = SignerCAFilepath\<rparr>)))))"

definition kubemanager_vnc_of :: "kubemanager_nodes \<Rightarrow> string \<Rightarrow> string \<Rightarrow> kubemanager_vnc" where
  "kubemanager_vnc_of n authMode podIP =
     \<lparr>kvt_ListenAddress = podIP, kvt_ListenPort = Itoa (cc_APIServerPort (kno_config n)),
      kvt_CAFilePath = SignerCAFilepath, kvt_AuthMode = authMode,
      kvt_KeystoneAuthProtocol = kc_AuthProtocol (kno_keystone n), kvt_KeystoneAddress = kc_Endpoint (kno_keystone n),
      kvt_KeystonePort = kc_Port (kno_keystone n), kvt_KeystoneUserDomainName = kc_UserDomainName (kno_keystone n)\<rparr>"

text \<open>The loop over the pods; the token is read again for each of them.\<close>

fun kubemanager_files ::
  "(monitor_config \<Rightarrow> go_error + string) \<Rightarrow> (k_secret, 's) kind_client \<Rightarrow> namespaced_name \<Rightarrow> kubemanager_nodes
    \<Rightarrow> kubemanager_configuration \<Rightarrow> string \<times> string \<times> string \<Rightarrow> string \<Rightarrow> pod list \<Rightarrow> (string, string) gomap
    \<Rightarrow> ('s, go_error, (string, string) gomap) go" where
  "kubemanager_files marshal kcs request n conf login authMode [] data = ret data"
| "kubemanager_files marshal kcs request n conf login authMode (p # pods) data =
     bindM (StatusMonitorConfig marshal (entry_of (om_Annotations (pod_meta p)) ''hostname'')
              (EndpointList (cc_AnalyticsServerIPList (kno_config n)) (cc_AnalyticsServerPort (kno_config n)))
              (pod_PodIP p) ''kubemanager'' (snd request) (fst request) (om_Name (pod_meta p))) (\<lambda>statusMonitorConfig.
     bindM (kc_Get kcs (fst request, ''kubemanagersecret'')) (\<lambda>sec.
     bindM (kubemanager_template_of n conf login (secret_value sec ''token'') (pod_PodIP p)) (\<lambda>d.
       kubemanager_files marshal kcs request n conf login authMode pods
         (AList.update (''vnc.'' @ pod_PodIP p) (KubemanagerAPIVNC (kubemanager_vnc_of n authMode (pod_PodIP p)))
           (AList.update (''kubemanager.'' @ pod_PodIP p) (KubemanagerConfig d)
             (AList.update (''monitorconfig.'' @ pod_PodIP p @ ''.yaml'') statusMonitorConfig data))))))"

text \<open>
  The result is the resource with the values that were written through its pointers, and the pods
  in the order of their addresses, in which the controller goes on with them.
\<close>

definition Kubemanager_InstanceConfiguration ::
  "(monitor_config \<Rightarrow> go_error + string) \<Rightarrow> (config_map, 's) kind_client \<Rightarrow> (k_secret, 's) kind_client
    \<Rightarrow> 's cluster_info \<Rightarrow> kubemanager \<Rightarrow> namespaced_name \<Rightarrow> pod list \<Rightarrow> ('s, go_error, kubemanager \<times> pod list) go" where
  "Kubemanager_InstanceConfiguration marshal kc kcs cinfo c request podList =
     bindM (kc_Get kc (fst request, snd request @ ''-kubemanager-configmap'')) (\<lambda>cm.
     bindM (kubemanager_fill_nodes c) (\<lambda>(c, n).
     bindM (rabbitmq_login kcs (fst request) (rc_Secret (kno_rabbitmq n))) (\<lambda>login.
       let (c, conf) = Kubemanager_ConfigurationParameters c
       in bindM (use_cluster_info cinfo conf) (\<lambda>conf.
            let pods = sort_by_ip podList
            in bindM (kubemanager_files marshal kcs request n conf login
                        (km_AuthMode (kn_KubemanagerConfiguration (cr_conf c))) pods []) (\<lambda>data.
               bindM (kc_Update kc (cm\<lparr>cm_Data := Some data\<rparr>)) (\<lambda>_.
                 ret (c, pods)))))))"

definition Kubemanager_IsActive ::
  "(kubemanager, 's) kind_client \<Rightarrow> string \<Rightarrow> string \<Rightarrow> ('s, go_error, bool) go" where
  "Kubemanager_IsActive = IsActive_by_name"

definition Kubemanager_PodsCertSubjects :: "kubemanager \<Rightarrow> pod list \<Rightarrow> cert_subject list" where
  "Kubemanager_PodsCertSubjects c podList =
     PodsCertSubjects podList (pc_HostNetwork (cr_common c)) \<lparr>Retriever = None, ServiceIP = []\<rparr>"

definition Kubemanager_ManageNodeStatus ::
  "(kubemanager, 's) kind_client \<Rightarrow> kubemanager \<Rightarrow> (string, string) gomap \<Rightarrow> ('s, go_error, kubemanager) go" where
  "Kubemanager_ManageNodeStatus kc c podNameIPMap =
     (let c = set_nodes podNameIPMap c in bindM (kc_StatusUpdate kc c) (\<lambda>_. ret c))"

section \<open>The controller\<close>

definition kubemanager_resourceHandler ::
  "'q queue_add \<Rightarrow> (string \<Rightarrow> go_error + object_meta list) \<Rightarrow> 'q handler_methods" where
  "kubemanager_resourceHandler = resourceHandler"

definition kubemanager_configure_container ::
  "string \<Rightarrow> container list \<Rightarrow> pod_container \<Rightarrow> ('s, go_error, pod_container) go" where
  "kubemanager_configure_container name containers c =
     (if pco_Name c = ''kubemanager''
      then service_container containers
             [''bash'', ''-c'', ''/usr/bin/rm -f /etc/contrail/vnc_api_lib.ini; ln -s /etc/contrailconfigmaps/vnc.${POD_IP} /etc/contrail/vnc_api_lib.ini;/usr/bin/python /usr/bin/contrail-kube-manager -c /etc/contrailconfigmaps/kubemanager.${POD_IP}''] (add_service_mounts name ''kubemanager'') c
      else if pco_Name c = ''statusmonitor''
      then service_container containers
             [''sh'', ''-c'', ''/app/statusmonitor/contrail-statusmonitor-image.binary -config /etc/contrailconfigmaps/monitorconfig.${POD_IP}.yaml''] (add_service_mounts name ''kubemanager'') c
      else ret c)"

text \<open>
  The stateful set, in the order of the source; the account, the secret with its token, the role
  and the binding are created in between.
\<close>

definition kubemanager_intended_sts ::
  "k8s_lib \<Rightarrow> range_ord \<Rightarrow> 's svc_clients \<Rightarrow> namespaced_name \<Rightarrow> kubemanager \<Rightarrow> config_map \<Rightarrow> k_secret \<Rightarrow> stateful_set
    \<Rightarrow> ('s, go_error, stateful_set) go" where
  "kubemanager_intended_sts lib ord cls request c configMap secretCertificates sts0 =
     (let name = snd request;
          conf = kn_KubemanagerConfiguration (cr_conf c);
          sts = set_anti_affinity ''kubemanager'' name
                  (set_service_account ''serviceaccount-statusmonitor-kubemanager'' sts0);
          sts = service_volumes ord name ''kubemanager'' configMap secretCertificates sts;
          serviceAccountName = str_or (km_ServiceAccount conf) ''contrail-service-account'';
          clusterRoleName = str_or (km_ClusterRole conf) ''contrail-cluster-role'';
          clusterRoleBindingName = str_or (km_ClusterRoleBinding conf) ''contrail-cluster-role-binding''
      in bindM (ensure_service_account lib cls serviceAccountName (cr_meta c)) (\<lambda>_.
         bindM (ensure_token_secret lib cls ''kubemanagersecret'' serviceAccountName (cr_meta c)) (\<lambda>_.
         bindM (ensure_cluster_role lib cls clusterRoleName (cr_meta c)) (\<lambda>_.
         bindM (ensure_cluster_role_binding lib cls clusterRoleBindingName serviceAccountName clusterRoleName (cr_meta c)) (\<lambda>_.
         let sts = set_anti_affinity ''kubemanager'' name (set_service_account serviceAccountName sts)
         in bindM (update_containers (kubemanager_configure_container name (km_Containers conf)) sts) (\<lambda>sts.
              update_init_containers (configure_init (km_Containers conf)) sts))))))"

definition kubemanager_ensureCertificatesExist ::
  "k8s_lib \<Rightarrow> ('key, 'ip, 'cert, 's) crypto_lib \<Rightarrow> (k_secret, 's) kind_client \<Rightarrow> kubemanager \<Rightarrow> pod list
    \<Rightarrow> ('s, go_error, unit) go" where
  "kubemanager_ensureCertificatesExist lib cy kc c pods =
     EnsureExistsAndIsSigned lib cy kc (cr_meta c) (Kubemanager_PodsCertSubjects c pods) ''kubemanager''"

definition kubemanager_pods ::
  "k8s_lib \<Rightarrow> (monitor_config \<Rightarrow> go_error + string) \<Rightarrow> 's cluster_info \<Rightarrow> ('key, 'ip, 'cert, 's) crypto_lib
    \<Rightarrow> 's svc_clients \<Rightarrow> (kubemanager, 's) kind_client \<Rightarrow> namespaced_name \<Rightarrow> kubemanager \<Rightarrow> pod list
    \<Rightarrow> (string, string) gomap \<Rightarrow> ('s, go_error, kubemanager) go" where
  "kubemanager_pods lib marshal cinfo cy cls kc request c podList podIPMap =
     bindM (Kubemanager_InstanceConfiguration marshal (sv_configmap cls) (sv_secret cls) cinfo c request podList)
       (\<lambda>(c, podList).
     bindM (kubemanager_ensureCertificatesExist lib cy (sv_secret cls) c podList) (\<lambda>_.
     bindM (SetPodsToReady (sv_pod cls) podList) (\<lambda>_.
       Kubemanager_ManageNodeStatus kc c podIPMap)))"

definition zero_kubemanager :: kubemanager where
  "zero_kubemanager = \<lparr>cr_meta = new_meta, cr_common = new_common,
     cr_conf = no_kubemanager_service_configuration, cr_status = new_status\<rparr>"

text \<open>The result says whether the request is queued again: when the configuration has changed.\<close>

definition Kubemanager_Reconcile ::
  "k8s_lib \<Rightarrow> range_ord \<Rightarrow> (monitor_config \<Rightarrow> go_error + string) \<Rightarrow> 's cluster_info
    \<Rightarrow> ('key, 'ip, 'cert, 's) crypto_lib \<Rightarrow> 's exec_lib \<Rightarrow> 's svc_clients
    \<Rightarrow> (kubemanager, 's) kind_client \<Rightarrow> namespaced_name \<Rightarrow> ('s, go_error, bool) go" where
  "Kubemanager_Reconcile lib ord marshal cinfo cy ex cls kc request =
     bindM (get_instance lib kc zero_kubemanager request) (\<lambda>r.
       case r of
         None \<Rightarrow> ret False
       | Some c \<Rightarrow>
           if om_Deleted (cr_meta c) then ret False
           else
             let name = snd request; cmName = name @ ''-kubemanager-configmap''
             in bindM (CurrentConfigMapExists (sv_configmap cls) cmName request) (\<lambda>current.
                bindM (CreateConfigMap lib (sv_configmap cls) cmName request ''kubemanager'' (cr_meta c)) (\<lambda>configMap.
                bindM (CreateSecret lib (sv_secret cls) (name @ ''-secret-certificates'') request ''kubemanager'' (cr_meta c)) (\<lambda>secretCertificates.
                bindM (PrepareSTS lib kubemanager_GetSTS (cr_common c) ''kubemanager'' request (cr_meta c) True) (\<lambda>sts.
                bindM (CreateAccount lib (sv_serviceaccount cls) (sv_clusterrole cls) (sv_clusterrolebinding cls)
                         ''statusmonitor-kubemanager'' (fst request) (cr_meta c)) (\<lambda>_.
                bindM (kubemanager_intended_sts lib ord cls request c configMap secretCertificates sts) (\<lambda>sts.
                bindM (CreateSTS lib (sv_sts cls) sts ''kubemanager'' request) (\<lambda>sts.
                bindM (UpdateSTS lib (sv_sts cls) sts ''kubemanager'' request ''rolling'') (\<lambda>_.
                bindM (PodIPListAndIPMapFromInstance (sv_node cls) (sv_pod cls) ex ''kubemanager'' (cr_common c)
                         request True no_wants) (\<lambda>(podIPList, podIPMap).
                bindM (if podIPList \<noteq> []
                       then kubemanager_pods lib marshal cinfo cy cls kc request c podIPList podIPMap
                       else ret c) (\<lambda>c.
                bindM (update_config_changed (sv_configmap cls) (fst request, cmName) current c) (\<lambda>c.
                bindM (SetInstanceActive (sv_sts cls) kc set_cr_active sts request (active_or_false c)) (\<lambda>c.
                  ret (st_ConfigChanged (cr_status c) = Some True))))))))))))))"

end
