(* ===== verification/Webui.thy ===== *)
theory Webui
  imports ServiceParts ManagerTypes
begin

text \<open>
  \<open>pkg/controller/webui\<close>, the methods of \<open>webui_types.go\<close> and \<open>pkg/configuration/webui_config.go\<close>:
  one reconciliation of a Webui resource.  It waits for the service Config of its cluster and reads
  where Control, Cassandra, Config and Keystone are.
\<close>

section \<open>The stateful set\<close>

definition webui_GetSTS :: stateful_set where
  "webui_GetSTS =
     \<lparr>sts_meta = new_meta\<lparr>om_Name := ''webui''\<rparr>, sts_Replicas = Some 1,
      sts_PodManagementPolicy = [], sts_Selector = Some (Some [(''app'', ''webui'')]),
      sts_Template =
        \<lparr>pt_Annotations = None, pt_Labels = Some [(''app'', ''webui''), (''contrail_manager'', ''webui'')],
         pt_Spec = new_pod_spec\<lparr>pspec_InitContainers := [new_pod_container\<lparr>pco_Name := ''init'',
                                               pco_Image := ''busybox'',
                                               pco_Command := [''sh'', ''-c'', ''until grep ready /tmp/podinfo/pod_labels > /dev/null 2>&1; do sleep 1; done''],
                                               pco_VolumeMounts := [new_mount ''status'' ''/tmp/podinfo''],
                                               pco_ImagePullPolicy := ''IfNotPresent'',
                                               pco_SecurityContext := Some (new_security_context\<lparr>sx_Privileged := Some False,
                                                   sx_ProcMount := ''Default''\<rparr>),
                                               pco_TerminationMessagePath := ''/dev/termination-log'',
                                               pco_TerminationMessagePolicy := ''File''\<rparr>],
                    pspec_Containers := [new_pod_container\<lparr>pco_Name := ''webuiweb'',
                                           pco_Image := ''docker.io/michaelhenkel/contrail-controller-webui-web:5.2.0-dev1'',
                                           pco_Env := [(''WEBUI_SSL_KEY_FILE'', EnvValue ''/etc/contrail/webui_ssl/cs-key.pem''),
                                                       (''WEBUI_SSL_CERT_FILE'', EnvValue ''/etc/contrail/webui_ssl/cs-cert.pem''),
                                                       (''POD_IP'', EnvFieldRef ''status.podIP''),
                                                       (''ANALYTICSDB_ENABLE'', EnvValue ''true''),
                                                       (''ANALYTICS_SNMP_ENABLE'', EnvValue ''true'')],
                                           pco_VolumeMounts := [new_mount ''webui-logs'' ''/var/log/contrail''],
                                           pco_ImagePullPolicy := ''IfNotPresent''\<rparr>,
                                          new_pod_container\<lparr>pco_Name := ''webuijob'',
                                           pco_Image := ''docker.io/michaelhenkel/contrail-controller-webui-job:5.2.0-dev1'',
                                           pco_Env := [(''WEBUI_SSL_KEY_FILE'', EnvValue ''/etc/contrail/webui_ssl/cs-key.pem''),
                                                       (''WEBUI_SSL_CERT_FILE'', EnvValue ''/etc/contrail/webui_ssl/cs-cert.pem''),
                                                       (''POD_IP'', EnvFieldRef ''status.podIP'')],
                                           pco_VolumeMounts := [new_mount ''webui-logs'' ''/var/log/contrail''],
                                           pco_ImagePullPolicy := ''IfNotPresent''\<rparr>,
                                          new_pod_container\<lparr>pco_Name := ''redis'',
                                           pco_Image := ''docker.io/michaelhenkel/contrail-external-redis:5.2.0-dev1'',
                                           pco_Env := [(''POD_IP'', EnvFieldRef ''status.podIP'')],
                                           pco_VolumeMounts := [new_mount ''webui-logs'' ''/var/log/contrail'',
                                                                new_mount ''webui-data'' ''/var/lib/redis''],
                                           pco_ImagePullPolicy := ''IfNotPresent''\<rparr>],
                    pspec_DNSPolicy := ''ClusterFirst'',
                    pspec_HostNetwork := True,
                    pspec_NodeSelector := Some [(''node-role.kubernetes.io/master'', [])],
                    pspec_RestartPolicy := ''Always'',
                    pspec_Tolerations := [exists_toleration ''NoSchedule'', exists_toleration ''NoExecute''],
                    pspec_Volumes := [\<lparr>vol_Name = ''webui-data'', vol_Source = HostPathVolume ''/var/lib/contrail/webui'' []\<rparr>,
                                       \<lparr>vol_Name = ''webui-logs'', vol_Source = HostPathVolume ''/var/log/contrail/webui'' []\<rparr>,
                                       \<lparr>vol_Name = ''host-usr-local-bin'', vol_Source = HostPathVolume ''/usr/local/bin'' []\<rparr>,
                                       \<lparr>vol_Name = ''status'', vol_Source = DownwardAPIVolume [(''pod_labels'', ''metadata.labels''), (''pod_labelsx'', ''metadata.labels'')] (Some 420)\<rparr>]\<rparr>\<rparr>,
      sts_ServiceName = ''webui'', sts_VolumeClaimTemplates = [], sts_ReadyReplicas = 0,
      sts_CurrentRevision = [], sts_UpdateRevision = []\<rparr>"

section \<open>Configuration files\<close>

record webui_template =
  wtp_HostIP :: string
  wtp_Hostname :: string
  wtp_APIServerList :: string
  wtp_APIServerPort :: string
  wtp_AnalyticsServerList :: string
  wtp_AnalyticsServerPort :: string
  wtp_ControlNodeList :: string
  wtp_DnsNodePort :: string
  wtp_CassandraServerList :: string
  wtp_CassandraPort :: string
  wtp_RedisServerList :: string
  wtp_RedisServerPort :: string
  wtp_AdminUsername :: string
  wtp_AdminPassword :: string
  wtp_Manager :: string
  wtp_CAFilePath :: string
  wtp_KeystoneAddress :: string
  wtp_KeystonePort :: string
  wtp_KeystoneRegion :: string
  wtp_KeystoneAuthProtocol :: string
  wtp_KeystoneUserDomainName :: string

definition WebuiWebConfig :: "webui_template \<Rightarrow> string" where
  "WebuiWebConfig d =
     text_lines
       [''/*'',
        ''* Copyright (c) 2014 Juniper Networks, Inc. All rights reserved.'',
        ''*/'',
        ''var config = {};'',
        ''config.orchestration = {};'',
        ''config.orchestration.Manager = '' @ [CHR 0x22] @ wtp_Manager d @ [CHR 0x22] @ '';'',
        ''config.orchestrationModuleEndPointFromConfig = false;'',
        ''config.contrailEndPointFromConfig = true;'',
        ''config.regionsFromConfig = false;'',
        ''config.endpoints = {};'',
        ''config.endpoints.apiServiceType = '' @ [CHR 0x22] @ ''ApiServer'' @ [CHR 0x22] @ '';'',
        ''config.endpoints.opServiceType = '' @ [CHR 0x22] @ ''OpServer'' @ [CHR 0x22] @ '';''] @
     ''config.regions = {};'' @
     (if wtp_KeystoneRegion d \<noteq> []
      then text_lines
             [[]] @
           ''config.regions.'' @ wtp_KeystoneRegion d @ '' = '' @ [CHR 0x22] @ wtp_KeystoneAuthProtocol d @ ''://'' @ wtp_KeystoneAddress d @ '':'' @ wtp_KeystonePort d @ ''/v3'' @ [CHR 0x22] @ '';''
      else text_lines
             [[]] @
           ''config.regions.RegionOne = '' @ [CHR 0x22] @ wtp_KeystoneAuthProtocol d @ ''://'' @ wtp_KeystoneAddress d @ '':'' @ wtp_KeystonePort d @ ''/v3'' @ [CHR 0x22] @ '';'') @
     text_lines
       [[],
        ''config.serviceEndPointTakePublicURL = true;'',
        ''config.networkManager = {};'',
        ''config.networkManager.ip = '' @ [CHR 0x22] @ ''127.0.0.1'' @ [CHR 0x22] @ '';'',
        ''config.networkManager.port = '' @ [CHR 0x22] @ ''9696'' @ [CHR 0x22] @ '';'',
        ''config.networkManager.authProtocol = '' @ [CHR 0x22] @ ''http'' @ [CHR 0x22] @ '';'',
        ''config.networkManager.apiVersion = [];'',
        ''config.networkManager.strictSSL = false;'',
        ''config.networkManager.ca = '' @ [CHR 0x22, CHR 0x22] @ '';'',
        ''config.imageManager = {};'',
        ''config.imageManager.ip = '' @ [CHR 0x22] @ ''127.0.0.1'' @ [CHR 0x22] @ '';'',
        ''config.imageManager.port = '' @ [CHR 0x22] @ ''9292'' @ [CHR 0x22] @ '';'',
        ''config.imageManager.authProtocol = '' @ [CHR 0x22] @ ''http'' @ [CHR 0x22] @ '';'',
        ''config.imageManager.apiVersion = ['' @ [CHR 0x27] @ ''v1'' @ [CHR 0x27] @ '', '' @ [CHR 0x27] @ ''v2'' @ [CHR 0x27] @ ''];'',
        ''config.imageManager.strictSSL = false;'',
        ''config.imageManager.ca = '' @ [CHR 0x22, CHR 0x22] @ '';'',
        ''config.computeManager = {};'',
        ''config.computeManager.ip = '' @ [CHR 0x22] @ ''127.0.0.1'' @ [CHR 0x22] @ '';'',
        ''config.computeManager.port = '' @ [CHR 0x22] @ ''8774'' @ [CHR 0x22] @ '';'',
        ''config.computeManager.authProtocol = '' @ [CHR 0x22] @ ''http'' @ [CHR 0x22] @ '';'',
        ''config.computeManager.apiVersion = ['' @ [CHR 0x27] @ ''v1.1'' @ [CHR 0x27] @ '', '' @ [CHR 0x27] @ ''v2'' @ [CHR 0x27] @ ''];'',
        ''config.computeManager.strictSSL = false;'',
        ''config.computeManager.ca = '' @ [CHR 0x22, CHR 0x22] @ '';'',
        ''config.identityManager = {};'',
        ''config.identityManager.ip = '' @ [CHR 0x22] @ wtp_KeystoneAddress d @ [CHR 0x22] @ '';'',
        ''config.identityManager.port = '' @ [CHR 0x22] @ wtp_KeystonePort d @ [CHR 0x22] @ '';'',
        ''config.identityManager.authProtocol = '' @ [CHR 0x22] @ wtp_KeystoneAuthProtocol d @ [CHR 0x22] @ '';'',
        ''config.identityManager.apiVersion = ['' @ [CHR 0x27] @ ''v3'' @ [CHR 0x27] @ ''];'',
        ''config.identityManager.strictSSL = false;'',
        ''config.identityManager.defaultDomain = '' @ [CHR 0x22] @ wtp_KeystoneUserDomainName d @ [CHR 0x22] @ '';'',
        ''config.identityManager.ca = '' @ [CHR 0x22] @ wtp_CAFilePath d @ [CHR 0x22] @ '';'',
        ''config.storageManager = {};'',
        ''config.storageManager.ip = '' @ [CHR 0x22] @ ''127.0.0.1'' @ [CHR 0x22] @ '';'',
        ''config.storageManager.port = '' @ [CHR 0x22] @ ''8776'' @ [CHR 0x22] @ '';'',
        ''config.storageManager.authProtocol = '' @ [CHR 0x22] @ ''http'' @ [CHR 0x22] @ '';'',
        ''config.storageManager.apiVersion = ['' @ [CHR 0x27] @ ''v1'' @ [CHR 0x27] @ ''];'',
        ''config.storageManager.strictSSL = false;'',
        ''config.storageManager.ca = '' @ [CHR 0x22, CHR 0x22] @ '';'',
        ''config.cnfg = {};'',
        ''config.cnfg.server_ip = ['' @ wtp_APIServerList d @ ''];'',
        ''config.cnfg.server_port = '' @ [CHR 0x22] @ wtp_APIServerPort d @ [CHR 0x22] @ '';'',
        ''config.cnfg.authProtocol = '' @ [CHR 0x22] @ ''https'' @ [CHR 0x22] @ '';'',
        ''config.cnfg.strictSSL = false;'',
        ''config.cnfg.ca = '' @ [CHR 0x22] @ wtp_CAFilePath d @ [CHR 0x22] @ '';'',
        ''config.cnfg.statusURL = '' @ [CHR 0x27] @ ''/global-system-configs'' @ [CHR 0x27] @ '';'',
        ''config.analytics = {};'',
        ''config.analytics.server_ip = ['' @ wtp_AnalyticsServerList d @ ''];'',
        ''config.analytics.server_port = '' @ [CHR 0x22] @ wtp_AnalyticsServerPort d @ [CHR 0x22] @ '';'',
        ''config.analytics.authProtocol = '' @ [CHR 0x22] @ ''https'' @ [CHR 0x22] @ '';'',
        ''config.analytics.strictSSL = false;'',
        ''config.analytics.ca = '' @ [CHR 0x27] @ wtp_CAFilePath d @ [CHR 0x27] @ '';'',
        ''config.analytics.statusURL = '' @ [CHR 0x27] @ ''/analytics/uves/bgp-peers'' @ [CHR 0x27] @ '';'',
        ''config.dns = {};'',
        ''config.dns.server_ip = ['' @ wtp_ControlNodeList d @ ''];'',
        ''config.dns.server_port = '' @ [CHR 0x27] @ wtp_DnsNodePort d @ [CHR 0x27] @ '';'',
        ''config.dns.statusURL = '' @ [CHR 0x27] @ ''/Snh_PageReq?x=AllEntries%20VdnsServersReq'' @ [CHR 0x27] @ '';'',
        ''config.vcenter = {};'',
        ''config.vcenter.server_ip = '' @ [CHR 0x22] @ ''127.0.0.1'' @ [CHR 0x22] @ '';         //vCenter IP'',
        ''config.vcenter.server_port = '' @ [CHR 0x22] @ ''443'' @ [CHR 0x22] @ '';                                //Port'',
        ''config.vcenter.authProtocol = '' @ [CHR 0x22] @ ''https'' @ [CHR 0x22] @ '';   //http or https'',
        ''config.vcenter.datacenter = '' @ [CHR 0x22] @ ''vcenter'' @ [CHR 0x22] @ '';      //datacenter name'',
        ''config.vcenter.dvsswitch = '' @ [CHR 0x22] @ ''vswitch'' @ [CHR 0x22] @ '';         //dvsswitch name'',
        ''config.vcenter.strictSSL = false;                                  //Validate the certificate or ignore'',
        ''config.vcenter.ca = '' @ [CHR 0x27, CHR 0x27] @ '';                                            //specify the certificate key file'',
        ''config.vcenter.wsdl = '' @ [CHR 0x22] @ ''/usr/src/contrail/contrail-web-core/webroot/js/vim.wsdl'' @ [CHR 0x22] @ '';'',
        ''config.introspect = {};'',
        ''config.introspect.ssl = {};'',
        ''config.introspect.ssl.enabled = true;'',
        ''config.introspect.ssl.key = '' @ [CHR 0x27] @ ''/etc/certificates/server-key-'' @ wtp_HostIP d @ ''.pem'' @ [CHR 0x27] @ '';'',
        ''config.introspect.ssl.cert = '' @ [CHR 0x27] @ ''/etc/certificates/server-'' @ wtp_HostIP d @ ''.crt'' @ [CHR 0x27] @ '';'',
        ''config.introspect.ssl.ca = '' @ [CHR 0x27] @ wtp_CAFilePath d @ [CHR 0x27] @ '';'',
        ''config.introspect.ssl.strictSSL = false;'',
        ''config.jobServer = {};'',
        ''config.jobServer.server_ip = '' @ [CHR 0x27] @ ''127.0.0.1'' @ [CHR 0x27] @ '';'',
        ''config.jobServer.server_port = '' @ [CHR 0x27] @ ''3000'' @ [CHR 0x27] @ '';'',
        ''config.files = {};'',
        ''config.files.download_path = '' @ [CHR 0x27] @ ''/tmp'' @ [CHR 0x27] @ '';'',
        ''config.cassandra = {};'',
        ''config.cassandra.server_ips = ['' @ wtp_CassandraServerList d @ ''];'',
        ''config.cassandra.server_port = '' @ [CHR 0x27] @ wtp_CassandraPort d @ [CHR 0x27] @ '';'',
        ''config.cassandra.enable_edit = false;'',
        ''config.cassandra.use_ssl = true;'',
        ''config.cassandra.ca_certs = '' @ [CHR 0x27] @ wtp_CAFilePath d @ [CHR 0x27] @ '';'',
        ''config.kue = {};'',
        ''config.kue.ui_port = '' @ [CHR 0x27] @ ''3002'' @ [CHR 0x27],
        ''config.webui_addresses = {};'',
        ''config.insecure_access = false;'',
        ''config.http_port = '' @ [CHR 0x27] @ ''8180'' @ [CHR 0x27] @ '';'',
        ''config.https_port = '' @ [CHR 0x27] @ ''8143'' @ [CHR 0x27] @ '';'',
        ''config.require_auth = false;'',
        ''config.node_worker_count = 1;'',
        ''config.maxActiveJobs = 10;'',
        ''config.redisDBIndex = 3;'',
        ''config.CONTRAIL_SERVICE_RETRY_TIME = 300000; //5 minutes'',
        ''config.redis_server_port = '' @ [CHR 0x27] @ wtp_RedisServerPort d @ [CHR 0x27] @ '';'',
        ''config.redis_server_ip = '' @ [CHR 0x27] @ wtp_RedisServerList d @ [CHR 0x27] @ '';'',
        ''config.redis_dump_file = '' @ [CHR 0x27] @ ''/var/lib/redis/dump-webui.rdb'' @ [CHR 0x27] @ '';'',
        ''config.redis_password = '' @ [CHR 0x27, CHR 0x27] @ '';'',
        ''config.logo_file = '' @ [CHR 0x27] @ ''/opt/contrail/images/logo.png'' @ [CHR 0x27] @ '';'',
        ''config.favicon_file = '' @ [CHR 0x27] @ ''/opt/contrail/images/favicon.ico'' @ [CHR 0x27] @ '';'',
        ''config.featurePkg = {};'',
        ''config.featurePkg.webController = {};'',
        ''config.featurePkg.webController.path = '' @ [CHR 0x27] @ ''/usr/src/contrail/contrail-web-controller'' @ [CHR 0x27] @ '';'',
        ''config.featurePkg.webController.enable = true;'',
        ''config.qe = {};'',
        ''config.qe.enable_stat_queries = false;'',
        ''config.logs = {};'',
        ''config.logs.level = '' @ [CHR 0x27] @ ''debug'' @ [CHR 0x27] @ '';'',
        ''config.getDomainProjectsFromApiServer = false;'',
        ''config.network = {};'',
        ''config.network.L2_enable = false;'',
        ''config.getDomainsFromApiServer = false;'',
        ''config.jsonSchemaPath = '' @ [CHR 0x22] @ ''/usr/src/contrail/contrail-web-core/src/serverroot/configJsonSchemas'' @ [CHR 0x22] @ '';'',
        ''config.server_options = {};'',
        ''config.server_options.key_file = '' @ [CHR 0x27] @ ''/etc/certificates/server-key-'' @ wtp_HostIP d @ ''.pem'' @ [CHR 0x27] @ '';'',
        ''config.server_options.cert_file = '' @ [CHR 0x27] @ ''/etc/certificates/server-'' @ wtp_HostIP d @ ''.crt'' @ [CHR 0x27] @ '';'',
        ''config.server_options.ciphers = '' @ [CHR 0x27] @ ''ECDHE-ECDSA-AES256-GCM-SHA384:ECDHE-RSA-AES256-GCM-SHA384:ECDHE-ECDSA-CHACHA20-POLY1305:ECDHE-RSA-CHACHA20-POLY1305:ECDHE-ECDSA-AES128-GCM-SHA256:ECDHE-RSA-AES128-GCM-SHA256:ECDHE-ECDSA-AES256-SHA384:ECDHE-RSA-AES256-SHA384:ECDHE-ECDSA-AES128-SHA256:ECDHE-RSA-AES128-SHA256:AES256-SHA'' @ [CHR 0x27] @ '';'',
        ''module.exports = config;'',
        ''config.staticAuth = [];'',
        ''config.staticAuth[0] = {};'',
        ''config.staticAuth[0].username = '' @ [CHR 0x27] @ wtp_AdminUsername d @ [CHR 0x27] @ '';'',
        ''config.staticAuth[0].password = '' @ [CHR 0x27] @ wtp_AdminPassword d @ [CHR 0x27] @ '';'',
        ''config.staticAuth[0].roles = ['' @ [CHR 0x27] @ ''cloudAdmin'' @ [CHR 0x27] @ ''];'']"

record webui_auth =
  wau_AdminUsername :: string
  wau_AdminPassword :: string
  wau_KeystoneProjectDomainName :: string
  wau_KeystoneUserDomainName :: string

definition WebuiAuthConfig :: "webui_auth \<Rightarrow> string" where
  "WebuiAuthConfig d =
     text_lines
       [''/*'',
        ''* Copyright (c) 2014 Juniper Networks, Inc. All rights reserved.'',
        ''*/'',
        ''var auth = {};'',
        ''auth.admin_user = '' @ [CHR 0x27] @ wau_AdminUsername d @ [CHR 0x27] @ '';'',
        ''auth.admin_password = '' @ [CHR 0x27] @ wau_AdminPassword d @ [CHR 0x27] @ '';'',
        ''auth.admin_token = '' @ [CHR 0x27, CHR 0x27] @ '';'',
        ''auth.admin_tenant_name = '' @ [CHR 0x27] @ wau_AdminUsername d @ [CHR 0x27] @ '';'',
        ''auth.project_domain_name = '' @ [CHR 0x27] @ wau_KeystoneProjectDomainName d @ [CHR 0x27] @ '';'',
        ''auth.user_domain_name = '' @ [CHR 0x27] @ wau_KeystoneUserDomainName d @ [CHR 0x27] @ '';'',
        ''module.exports = auth;'']"

section \<open>Methods of the resource\<close>

type_synonym webui = "webui_configuration cr"

definition WebuiHttpListenPort :: int where "WebuiHttpListenPort = 8180"
definition WebuiHttpsListenPort :: int where "WebuiHttpsListenPort = 8143"
definition RedisServerPortWebui :: int where "RedisServerPortWebui = 6380"

text \<open>The clients of the resources of the other services.\<close>

record 's webui_clients =
  wc_control :: "(control_configuration cr, 's) kind_client"
  wc_cassandra :: "(cassandra_configuration cr, 's) kind_client"
  wc_config :: "(config_configuration cr, 's) kind_client"
  wc_keystone :: "(keystone_configuration cr, 's) kind_client"

record webui_cluster =
  wcc_AdminUsername :: string
  wcc_AdminPassword :: string

definition Webui_ConfigurationParameters ::
  "(k_secret, 's) kind_client \<Rightarrow> webui \<Rightarrow> ('s, go_error, webui_cluster) go" where
  "Webui_ConfigurationParameters kcs c =
     bindM (kc_Get kcs (om_Namespace (cr_meta c), wu_KeystoneSecretName (cr_conf c))) (\<lambda>adminPasswordSecret.
       ret \<lparr>wcc_AdminUsername = ''admin'', wcc_AdminPassword = secret_value adminPasswordSecret ''password''\<rparr>)"

record keystone_endpoint =
  ke_address :: string
  ke_port :: int
  ke_authProtocol :: string
  ke_region :: string
  ke_userDomainName :: string
  ke_projectDomainName :: string

definition no_keystone_endpoint :: keystone_endpoint where
  "no_keystone_endpoint = \<lparr>ke_address = [], ke_port = 0, ke_authProtocol = [], ke_region = [],
     ke_userDomainName = [], ke_projectDomainName = []\<rparr>"

text \<open>\<open>%q\<close> of a name: no character of the name of a resource is escaped.\<close>

definition getKeystoneEndpoint ::
  "(keystone_configuration cr, 's) kind_client \<Rightarrow> webui \<Rightarrow> ('s, go_error, keystone_endpoint) go" where
  "getKeystoneEndpoint kc c =
     bindM (kc_Get kc (om_Namespace (cr_meta c), wu_KeystoneInstance (cr_conf c))) (\<lambda>keystone.
       if st_Endpoint (cr_status keystone) = []
       then throw (errors_New ([CHR 0x22] @ wu_KeystoneInstance (cr_conf c) @ [CHR 0x22] @ '' Status.Endpoint empty''))
       else ret \<lparr>ke_address = st_Endpoint (cr_status keystone), ke_port = ks_ListenPort (cr_conf keystone),
                 ke_authProtocol = ks_AuthProtocol (cr_conf keystone), ke_region = ks_Region (cr_conf keystone),
                 ke_userDomainName = ks_UserDomainName (cr_conf keystone),
                 ke_projectDomainName = ks_ProjectDomainName (cr_conf keystone)\<rparr>)"

definition webui_template_of ::
  "control_cluster \<Rightarrow> cassandra_cluster \<Rightarrow> config_cluster \<Rightarrow> webui_cluster \<Rightarrow> string \<Rightarrow> keystone_endpoint \<Rightarrow> pod
    \<Rightarrow> webui_template" where
  "webui_template_of control cassandra config webUIConfig manager keystone p =
     \<lparr>wtp_HostIP = pod_PodIP p, wtp_Hostname = om_Name (pod_meta p),
      wtp_APIServerList = JoinListWithSeparatorAndSingleQuotes (cc_APIServerIPList config) '','',
      wtp_APIServerPort = Itoa (cc_APIServerPort config),
      wtp_AnalyticsServerList = JoinListWithSeparatorAndSingleQuotes (cc_AnalyticsServerIPList config) '','',
      wtp_AnalyticsServerPort = Itoa (cc_AnalyticsServerPort config),
      wtp_ControlNodeList = JoinListWithSeparatorAndSingleQuotes (tc_ControlServerIPList control) '','',
      wtp_DnsNodePort = Itoa (tc_DNSIntrospectPort control),
      wtp_CassandraServerList = JoinListWithSeparatorAndSingleQuotes (sc_ServerIPList cassandra) '','',
      wtp_CassandraPort = Itoa (sc_CQLPort cassandra), wtp_RedisServerList = ''127.0.0.1'',
      wtp_RedisServerPort = ''6380'', wtp_AdminUsername = wcc_AdminUsername webUIConfig,
      wtp_AdminPassword = wcc_AdminPassword webUIConfig, wtp_Manager = manager,
      wtp_CAFilePath = SignerCAFilepath, wtp_KeystoneAddress = ke_address keystone,
      wtp_KeystonePort = Itoa (ke_port keystone), wtp_KeystoneRegion = ke_region keystone,
      wtp_KeystoneAuthProtocol = ke_authProtocol keystone,
      wtp_KeystoneUserDomainName = ke_userDomainName keystone\<rparr>"

definition webui_files ::
  "(pod \<Rightarrow> webui_template) \<Rightarrow> webui_auth \<Rightarrow> pod list \<Rightarrow> (string, string) gomap" where
  "webui_files tmpl auth pods =
     fold (\<lambda>p data. AList.update ''contrail-webui-userauth.js'' (WebuiAuthConfig auth)
                       (AList.update (''config.global.js.'' @ pod_PodIP p) (WebuiWebConfig (tmpl p)) data)) pods []"

text \<open>The result is the list of the pods in the order of their addresses.\<close>

definition Webui_InstanceConfiguration ::
  "range_ord \<Rightarrow> 's svc_clients \<Rightarrow> 's webui_clients \<Rightarrow> webui \<Rightarrow> namespaced_name \<Rightarrow> pod list
    \<Rightarrow> ('s, go_error, pod list) go" where
  "Webui_InstanceConfiguration ord cls ocs c request podList =
     bindM (kc_Get (sv_configmap cls) (fst request, snd request @ ''-webui-configmap'')) (\<lambda>cm.
     bindM (NewControlClusterConfiguration ord (wc_control ocs) [] ''master'' (fst request)) (\<lambda>control.
     bindM (NewCassandraClusterConfiguration ord (wc_cassandra ocs) (wu_CassandraInstance (cr_conf c)) (fst request)) (\<lambda>cassandra.
     bindM (NewConfigClusterConfiguration ord (wc_config ocs) (entry_of (om_Labels (cr_meta c)) ''contrail_cluster'') (fst request)) (\<lambda>config.
     bindM (Webui_ConfigurationParameters (sv_secret cls) c) (\<lambda>webUIConfig.
     bindM (if cc_AuthMode config = AuthenticationModeKeystone
            then bindM (getKeystoneEndpoint (wc_keystone ocs) c) (\<lambda>k. ret (''openstack'', k))
            else ret (''none'', no_keystone_endpoint)) (\<lambda>(manager, keystone).
       let pods = sort_by_ip podList;
           data = webui_files (webui_template_of control cassandra config webUIConfig manager keystone)
                    \<lparr>wau_AdminUsername = wcc_AdminUsername webUIConfig, wau_AdminPassword = wcc_AdminPassword webUIConfig,
                     wau_KeystoneProjectDomainName = ke_projectDomainName keystone,
                     wau_KeystoneUserDomainName = ke_userDomainName keystone\<rparr> pods
       in bindM (kc_Update (sv_configmap cls) (cm\<lparr>cm_Data := Some data\<rparr>)) (\<lambda>_. ret pods)))))))"

definition Webui_PodsCertSubjects :: "webui \<Rightarrow> pod list \<Rightarrow> cert_subject list" where
  "Webui_PodsCertSubjects c podList =
     PodsCertSubjects podList (pc_HostNetwork (cr_common c)) \<lparr>Retriever = None, ServiceIP = []\<rparr>"

definition Webui_ManageNodeStatus ::
  "(webui, 's) kind_client \<Rightarrow> webui \<Rightarrow> (string, string) gomap \<Rightarrow> ('s, go_error, webui) go" where
  "Webui_ManageNodeStatus kc c podNameIPMap =
     (let c = set_nodes podNameIPMap c in bindM (kc_StatusUpdate kc c) (\<lambda>_. ret c))"

section \<open>The controller\<close>

definition webui_resourceHandler ::
  "'q queue_add \<Rightarrow> (string \<Rightarrow> go_error + object_meta list) \<Rightarrow> 'q handler_methods" where
  "webui_resourceHandler = resourceHandler"

definition webui_configure_container ::
  "string \<Rightarrow> container list \<Rightarrow> pod_container \<Rightarrow> ('s, go_error, pod_container) go" where
  "webui_configure_container name containers c =
     (if pco_Name c = ''webuiweb''
      then bindM (service_container containers
             [''bash'', ''-c'', ''/usr/bin/rm -f /etc/contrail/config.global.js; ln -s /etc/contrailconfigmaps/config.global.js.${POD_IP} /etc/contrail/config.global.js; /usr/bin/rm -f /etc/contrail/contrail-webui-userauth.js; ln -s /etc/contrailconfigmaps/contrail-webui-userauth.js /etc/contrail/contrail-webui-userauth.js; until ss -tulwn |grep LISTEN |grep 6380; do sleep 2; done;/usr/bin/node /usr/src/contrail/contrail-web-core/webServerStart.js --conf_file /etc/contrail/config.global.js'']
             (add_service_mounts name ''webui'') c) (\<lambda>c.
             ret (c\<lparr>pco_ReadinessProbe := Some (new_probe (HTTPGetAction ''HTTPS'' [] WebuiHttpsListenPort ''/''))\<rparr>))
      else if pco_Name c = ''webuijob''
      then service_container containers
             [''bash'', ''-c'', ''/usr/bin/rm -f /etc/contrail/config.global.js; ln -s /etc/contrailconfigmaps/config.global.js.${POD_IP} /etc/contrail/config.global.js; /usr/bin/rm -f /etc/contrail/contrail-webui-userauth.js; ln -s /etc/contrailconfigmaps/contrail-webui-userauth.js /etc/contrail/contrail-webui-userauth.js; until ss -tulwn |grep LISTEN |grep 6380; do sleep 2; done;/usr/bin/node /usr/src/contrail/contrail-web-core/jobServerStart.js --conf_file /etc/contrail/config.global.js'']
             (add_service_mounts name ''webui'') c
      else if pco_Name c = ''redis''
      then bindM (service_container containers
             [''bash'', ''-c'', ''redis-server --lua-time-limit 15000 --dbfilename '' @ [CHR 0x27, CHR 0x27] @ '' --bind 127.0.0.1 ${POD_IP} --port 6380'']
             (add_mount (name @ ''-webui-volume'') ''/etc/contrailconfigmaps'') c) (\<lambda>c.
             ret (c\<lparr>pco_ReadinessProbe := Some (new_probe (ExecAction
                    [''sh'', ''-c'', ''redis-cli -h ${POD_IP} -p 6380 ping'']))\<rparr>))
      else ret c)"

definition webui_intended_sts ::
  "k8s_lib \<Rightarrow> range_ord \<Rightarrow> 's svc_clients \<Rightarrow> namespaced_name \<Rightarrow> webui \<Rightarrow> config_map \<Rightarrow> k_secret \<Rightarrow> stateful_set
    \<Rightarrow> ('s, go_error, stateful_set) go" where
  "webui_intended_sts lib ord cls request c configMap secretCertificates sts0 =
     (let name = snd request;
          conf = cr_conf c;
          sts = service_volumes ord name ''webui'' configMap secretCertificates sts0;
          serviceAccountName = str_or (wu_ServiceAccount conf) ''contrail-webui-service-account'';
          clusterRoleName = str_or (wu_ClusterRole conf) ''contrail-webui-cluster-role'';
          clusterRoleBindingName = str_or (wu_ClusterRoleBinding conf) ''contrail-webui-cluster-role-binding''
      in bindM (ensure_service_account lib cls serviceAccountName (cr_meta c)) (\<lambda>_.
         bindM (ensure_cluster_role lib cls clusterRoleName (cr_meta c)) (\<lambda>_.
         bindM (ensure_cluster_role_binding lib cls clusterRoleBindingName serviceAccountName clusterRoleName (cr_meta c)) (\<lambda>_.
         bindM (update_containers (webui_configure_container name (wu_Containers conf))
                  (set_service_account serviceAccountName sts)) (\<lambda>sts.
           update_init_containers (configure_init (wu_Containers conf)) (set_anti_affinity ''webui'' name sts))))))"

definition webui_ensureCertificatesExist ::
  "k8s_lib \<Rightarrow> ('key, 'ip, 'cert, 's) crypto_lib \<Rightarrow> (k_secret, 's) kind_client \<Rightarrow> webui \<Rightarrow> pod list
    \<Rightarrow> ('s, go_error, unit) go" where
  "webui_ensureCertificatesExist lib cy kc c pods =
     EnsureExistsAndIsSigned lib cy kc (cr_meta c) (Webui_PodsCertSubjects c pods) ''webui''"

text \<open>
  \<open>strings.Title\<close>, for texts of ASCII characters: a letter at the start of a word, that is after a
  character which is no letter, digit or underscore, becomes an upper case letter.
\<close>

definition word_char :: "char \<Rightarrow> bool" where
  "word_char c \<longleftrightarrow> (let n = (of_char c :: nat)
     in 48 \<le> n \<and> n \<le> 57 \<or> 65 \<le> n \<and> n \<le> 90 \<or> 97 \<le> n \<and> n \<le> 122 \<or> n = 95)"

definition upper_char :: "char \<Rightarrow> char" where
  "upper_char c = (let n = (of_char c :: nat) in if 97 \<le> n \<and> n \<le> 122 then char_of (n - 32) else c)"

fun title_from :: "bool \<Rightarrow> string \<Rightarrow> string" where
  "title_from start [] = []"
| "title_from start (c # cs) = (if start then upper_char c else c) # title_from (\<not> word_char c) cs"

definition strings_Title :: "string \<Rightarrow> string" where
  "strings_Title s = title_from True s"

text \<open>The pods of all namespaces: the namespace of the list is empty.\<close>

definition listWebUIPods :: "(pod, 's) kind_client \<Rightarrow> string \<Rightarrow> ('s, go_error, pod list) go" where
  "listWebUIPods kc webUIName = kc_List kc [] [(''contrail_manager'', ''webui''), (''webui'', webUIName)]"

definition webui_pod_status :: "pod \<Rightarrow> (string, string \<times> string) gomap" where
  "webui_pod_status p =
     fold (\<lambda>s m. AList.update (strings_Title (cs_Name s))
                    (cs_Name s, if cs_Ready s then ''Functional'' else ''Non-Functional'') m)
       (pod_ContainerStatuses p) []"

definition updateServiceStatus ::
  "(pod, 's) kind_client \<Rightarrow> webui \<Rightarrow> ('s, go_error, webui) go" where
  "updateServiceStatus kc c =
     bindM (listWebUIPods kc (om_Name (cr_meta c))) (\<lambda>pods.
       ret (c\<lparr>cr_status := (cr_status c)\<lparr>st_ServiceStatus :=
              fold (\<lambda>p m. AList.update (pod_NodeName p) (webui_pod_status p) m) pods []\<rparr>\<rparr>))"

definition updatePorts :: "webui \<Rightarrow> webui" where
  "updatePorts c = c\<lparr>cr_status := (cr_status c)\<lparr>st_IntPorts :=
     [(''redisPort'', RedisServerPortWebui), (''webUIHttpPort'', WebuiHttpListenPort),
      (''webUIHttpsPort'', WebuiHttpsListenPort)]\<rparr>\<rparr>"

definition webui_updateStatus ::
  "'s svc_clients \<Rightarrow> (webui, 's) kind_client \<Rightarrow> webui \<Rightarrow> stateful_set \<Rightarrow> string \<Rightarrow> ('s, go_error, unit) go" where
  "webui_updateStatus cls kc c sts cip =
     bindM (kc_Get (sv_sts cls) (key_of (sts_meta sts))) (\<lambda>sts.
     bindM (updateServiceStatus (sv_pod cls) (updatePorts (c\<lparr>cr_status := FromStatefulSet sts (cr_status c)\<rparr>))) (\<lambda>c.
       kc_StatusUpdate kc (c\<lparr>cr_status := (cr_status c)\<lparr>st_Endpoint := cip\<rparr>\<rparr>)))"

definition webui_pods ::
  "k8s_lib \<Rightarrow> range_ord \<Rightarrow> ('key, 'ip, 'cert, 's) crypto_lib \<Rightarrow> 's svc_clients \<Rightarrow> 's webui_clients
    \<Rightarrow> (webui, 's) kind_client \<Rightarrow> namespaced_name \<Rightarrow> webui \<Rightarrow> pod list \<Rightarrow> (string, string) gomap
    \<Rightarrow> ('s, go_error, webui) go" where
  "webui_pods lib ord cy cls ocs kc request c podList podIPMap =
     bindM (Webui_InstanceConfiguration ord cls ocs c request podList) (\<lambda>podList.
     bindM (webui_ensureCertificatesExist lib cy (sv_secret cls) c podList) (\<lambda>_.
     bindM (SetPodsToReady (sv_pod cls) podList) (\<lambda>_.
       Webui_ManageNodeStatus kc c podIPMap)))"

definition zero_webui :: webui where
  "zero_webui = \<lparr>cr_meta = new_meta, cr_common = new_common, cr_conf = no_webui_configuration, cr_status = new_status\<rparr>"

definition Webui_Reconcile ::
  "k8s_lib \<Rightarrow> range_ord \<Rightarrow> range_ord \<Rightarrow> range_ord \<Rightarrow> ('key, 'ip, 'cert, 's) crypto_lib \<Rightarrow> 's exec_lib
    \<Rightarrow> 's svc_clients \<Rightarrow> 's webui_clients \<Rightarrow> (webui, 's) kind_client \<Rightarrow> namespaced_name \<Rightarrow> ('s, go_error, bool) go" where
  "Webui_Reconcile lib ord ord1 ord2 cy ex cls ocs kc request =
     bindM (get_instance lib kc zero_webui request) (\<lambda>r.
       case r of
         None \<Rightarrow> ret False
       | Some c \<Rightarrow>
           if om_Deleted (cr_meta c) then ret False
           else
             let name = snd request
             in bindM (Service_EnsureExists lib (sv_service cls) ord1 ord2
                         (Kubernetes_Service (name @ ''-webui'') ''ClusterIP'' [(int32_of WebuiHttpsListenPort, [])] ''webui'' (cr_meta c))) (\<lambda>svc.
                bindM (Config_IsActive (wc_config ocs) (entry_of (om_Labels (cr_meta c)) ''contrail_cluster'') (fst request)) (\<lambda>configActive.
                if \<not> configActive then ret False
                else
                bindM (CreateConfigMap lib (sv_configmap cls) (name @ ''-webui-configmap'') request ''webui'' (cr_meta c)) (\<lambda>configMap.
                bindM (CreateSecret lib (sv_secret cls) (name @ ''-secret-certificates'') request ''webui'' (cr_meta c)) (\<lambda>secretCertificates.
                bindM (PrepareSTS lib webui_GetSTS (cr_common c) ''webui'' request (cr_meta c) True) (\<lambda>sts.
                bindM (webui_intended_sts lib ord cls request c configMap secretCertificates sts) (\<lambda>sts.
                bindM (CreateSTS lib (sv_sts cls) sts ''webui'' request) (\<lambda>sts.
                bindM (UpdateSTS lib (sv_sts cls) sts ''webui'' request ''rolling'') (\<lambda>_.
                bindM (PodIPListAndIPMapFromInstance (sv_node cls) (sv_pod cls) ex ''webui'' (cr_common c)
                         request True no_wants) (\<lambda>(podIPList, podIPMap).
                bindM (if podIPList \<noteq> []
                       then webui_pods lib ord cy cls ocs kc request c podIPList podIPMap
                       else ret c) (\<lambda>c.
                bindM (webui_updateStatus cls kc c sts (ClusterIP svc)) (\<lambda>_.
                  ret False))))))))))))"

end
