(* ===== verification/Memcached.thy ===== *)
theory Memcached
  imports ServiceParts ManagerTypes K8sObjects
begin

text \<open>
  \<open>pkg/controller/memcached\<close> and \<open>memcached_types.go\<close>: a deployment of Memcached and its
  configuration.  Memcached listens on the local address only.
\<close>

type_synonym memcached = "memcached_configuration cr"

definition GetListenPort :: "memcached_configuration \<Rightarrow> int" where
  "GetListenPort m = int_or (md_ListenPort m) 11211"

definition GetConnectionLimit :: "memcached_configuration \<Rightarrow> int" where
  "GetConnectionLimit m = int_or (md_ConnectionLimit m) 5000"

definition GetMaxMemory :: "memcached_configuration \<Rightarrow> int" where
  "GetMaxMemory m = int_or (md_MaxMemory m) 256"

section \<open>The configuration\<close>

definition memcachedConfig :: "int \<Rightarrow> int \<Rightarrow> int \<Rightarrow> string" where
  "memcachedConfig listenPort connectionLimit maxMemory =
     text_lines
       [''{'',
        [CHR 0x09, CHR 0x22] @ ''command'' @ [CHR 0x22] @ '': '' @ [CHR 0x22] @ ''/usr/bin/memcached -vv -l 127.0.0.1 -p '' @
          Itoa listenPort @ '' -c '' @ Itoa connectionLimit @ '' -U 0 -m '' @ Itoa maxMemory @ [CHR 0x22] @ '','',
        [CHR 0x09, CHR 0x22] @ ''config_files'' @ [CHR 0x22] @ '': []''] @ ''}''"

definition memcached_FillConfigMap :: "memcached_configuration \<Rightarrow> config_map \<Rightarrow> config_map" where
  "memcached_FillConfigMap m cm =
     cm\<lparr>cm_Data := Some (AList.update ''config.json''
          (memcachedConfig (GetListenPort m) (GetConnectionLimit m) (GetMaxMemory m)) (map_entries (cm_Data cm)))\<rparr>"

definition memcached_ensureExists ::
  "k8s_lib \<Rightarrow> (config_map, 's) kind_client \<Rightarrow> string \<Rightarrow> memcached \<Rightarrow> ('s, go_error, unit) go" where
  "memcached_ensureExists lib kc configMapName m =
     ConfigMap_EnsureExists lib kc configMapName ''Memcached'' (cr_meta m) (memcached_FillConfigMap (cr_conf m))"

section \<open>The deployment\<close>

definition local_probe :: "int \<Rightarrow> int \<Rightarrow> int \<Rightarrow> probe" where
  "local_probe port initialDelay timeout =
     (new_probe (TCPSocketAction ''127.0.0.1'' port))\<lparr>pb_InitialDelaySeconds := initialDelay, pb_TimeoutSeconds := timeout\<rparr>"

definition memcachedContainer :: "memcached \<Rightarrow> ('s, go_error, pod_container) go" where
  "memcachedContainer m =
     bindM (deref_ptr (GetContainerFromList ''memcached'' (md_Containers (cr_conf m)))) (\<lambda>instanceContainer.
       let port = GetListenPort (cr_conf m)
       in ret (new_pod_container\<lparr>pco_Name := ''memcached'', pco_Image := co_Image instanceContainer,
            pco_ImagePullPolicy := ''IfNotPresent'',
            pco_ReadinessProbe := Some (local_probe port 5 1), pco_LivenessProbe := Some (local_probe port 30 5),
            pco_Env := [(''KOLLA_SERVICE_NAME'', EnvValue ''memcached''), (''KOLLA_CONFIG_STRATEGY'', EnvValue ''COPY_ALWAYS'')],
            pco_Ports := [(''memcached'', port)],
            pco_VolumeMounts := [(new_mount ''config-volume'' ''/var/lib/kolla/config_files/'')\<lparr>vm_ReadOnly := True\<rparr>]\<rparr>))"

definition updateMemcachedPodSpec :: "memcached \<Rightarrow> string \<Rightarrow> pod_spec \<Rightarrow> ('s, go_error, pod_spec) go" where
  "updateMemcachedPodSpec m configMapName podSpec =
     bindM (memcachedContainer m) (\<lambda>c.
       ret (podSpec\<lparr>pspec_Tolerations := [exists_toleration ''NoSchedule'', exists_toleration ''NoExecute''],
            pspec_Volumes := [\<lparr>vol_Name = ''config-volume'', vol_Source = ConfigMapVolume configMapName None\<rparr>],
            pspec_Containers := [c], pspec_Affinity := anti_affinity ''Memcached'' (om_Name (cr_meta m))\<rparr>))"

definition memcached_mutate ::
  "k8s_lib \<Rightarrow> namespaced_name \<Rightarrow> memcached \<Rightarrow> string \<Rightarrow> deployment \<Rightarrow> ('s, go_error, deployment) go" where
  "memcached_mutate lib request m configMapName d =
     (let labels = Some [(''Memcached'', snd request)];
          d = d\<lparr>dep_Template := (dep_Template d)\<lparr>pt_Labels := labels\<rparr>,
                dep_meta := (dep_meta d)\<lparr>om_Labels := labels\<rparr>, dep_Selector := Some labels\<rparr>
      in bindM (updateMemcachedPodSpec m configMapName (pt_Spec (dep_Template d))) (\<lambda>sp.
         let d = SetDeploymentCommonConfiguration (d\<lparr>dep_Template := (dep_Template d)\<lparr>pt_Spec := sp\<rparr>\<rparr>) (cr_common m)
         in bindM (sum_result (SetControllerReference lib (cr_meta m) (dep_meta d))) (\<lambda>meta.
              ret (d\<lparr>dep_meta := meta\<rparr>))))"

definition new_deployment :: deployment where
  "new_deployment =
     \<lparr>dep_meta = new_meta, dep_Replicas = None, dep_Selector = None,
      dep_Template = \<lparr>pt_Annotations = None, pt_Labels = None, pt_Spec = new_pod_spec\<rparr>,
      dep_MaxUnavailable = None, dep_MaxSurge = None, dep_ReadyReplicas = 0\<rparr>"

section \<open>The controller\<close>

definition FromDeployment :: "deployment \<Rightarrow> cr_status \<Rightarrow> cr_status" where
  "FromDeployment d s =
     (let expectedReplicas = (case dep_Replicas d of None \<Rightarrow> 1 | Some r \<Rightarrow> r)
      in s\<lparr>st_Replicas := expectedReplicas, st_ReadyReplicas := dep_ReadyReplicas d,
           st_Active := Some (dep_ReadyReplicas d = expectedReplicas)\<rparr>)"

definition memcached_updateStatus ::
  "(deployment, 's) kind_client \<Rightarrow> (memcached, 's) kind_client \<Rightarrow> memcached \<Rightarrow> deployment \<Rightarrow> ('s, go_error, unit) go" where
  "memcached_updateStatus kcd kc m d =
     bindM (kc_Get kcd (key_of (dep_meta d))) (\<lambda>d.
       let st = (cr_status m)\<lparr>st_Endpoint := ''127.0.0.1'' @ '':'' @ Itoa (GetListenPort (cr_conf m))\<rparr>
       in kc_StatusUpdate kc (m\<lparr>cr_status := FromDeployment d st\<rparr>))"

definition Memcached_Reconcile ::
  "k8s_lib \<Rightarrow> (config_map, 's) kind_client \<Rightarrow> (deployment, 's) kind_client \<Rightarrow> (memcached, 's) kind_client
    \<Rightarrow> namespaced_name \<Rightarrow> ('s, go_error, unit) go" where
  "Memcached_Reconcile lib kcm kcd kc request =
     bindM (tryM (kc_Get kc request)) (\<lambda>r.
       case r of
         Inl err \<Rightarrow> if IsNotFound lib err then ret () else throw err
       | Inr m \<Rightarrow>
           if om_Deleted (cr_meta m) then ret ()
           else
             let configMapName = om_Name (cr_meta m) @ ''-config''
             in bindM (memcached_ensureExists lib kcm configMapName m) (\<lambda>_.
                bindM (kc_CreateOrUpdate kcd
                         (new_deployment\<lparr>dep_meta := new_meta\<lparr>om_Namespace := fst request, om_Name := snd request @ ''-deployment''\<rparr>,
                            dep_MaxUnavailable := Some 1, dep_MaxSurge := Some 0\<rparr>)
                         (memcached_mutate lib request m configMapName)) (\<lambda>d.
                  memcached_updateStatus kcd kc m d)))"

end
