(* ===== verification/Fernet.thy ===== *)
theory Fernet
  imports Secrets Base64 ClusterInfo CrTypes "HOL-Library.Signed_Division"
begin

text \<open>
  \<open>pkg/controller/fernetkeymanager\<close>: the repository of the keys that sign the tokens of Keystone.  The
  secret has an entry for each key, named by its index: 0 is the staged key, the largest index the
  primary key, the others verify tokens that were signed before.  A reconciliation promotes the
  staged key, stages a new one and removes the oldest key when there are too many.

  \<open>rnd\<close> is \<open>rand.Read\<close> of 32 bytes.  All integers have 64 bits; the division rounds towards zero.
  The locale \<open>key_repository\<close> has the laws of the server and of \<open>rnd\<close>, \<open>fernet_server\<close> those of the
  resources beside it; in it a key is followed through several reconciliations.
\<close>

section \<open>The resource\<close>

record fernet_key_manager =
  fk_meta :: object_meta
  fk_TokenExpiration :: int
  fk_TokenAllowExpiredWindow :: int
  fk_RotationInterval :: int
  fk_SecretName :: string

section \<open>Keys\<close>

definition generateKey :: "('s, go_error, string) go \<Rightarrow> ('s, go_error, string) go" where
  "generateKey rnd = bindM rnd (\<lambda>key. ret (base64_encode key))"

definition fernet_FillSecret :: "('s, go_error, string) go \<Rightarrow> k_secret \<Rightarrow> ('s, go_error, k_secret) go" where
  "fernet_FillSecret rnd sc =
     (if sec_Data sc \<noteq> None then ret sc
      else bindM (generateKey rnd) (\<lambda>key. ret (sc\<lparr>sec_Data := Some [(''0'', key)]\<rparr>)))"

definition ensureKeysRepoSecretExists ::
  "k8s_lib \<Rightarrow> (k_secret, 's) kind_client \<Rightarrow> ('s, go_error, string) go \<Rightarrow> string \<Rightarrow> string \<Rightarrow> object_meta
    \<Rightarrow> ('s, go_error, unit) go" where
  "ensureKeysRepoSecretExists lib kc rnd secretName ownerType owner =
     Secret_EnsureExists lib kc secretName ownerType owner (fernet_FillSecret rnd)"

definition getSecret :: "(k_secret, 's) kind_client \<Rightarrow> string \<Rightarrow> string \<Rightarrow> ('s, go_error, k_secret) go" where
  "getSecret kc secretName secretNamespace = kc_Get kc (secretNamespace, secretName)"

definition key_indices :: "range_ord \<Rightarrow> (string, string) gomap \<Rightarrow> ('s, go_error, int list) go" where
  "key_indices ord keys =
     mapM (\<lambda>(k, v). case Atoi k of Some key \<Rightarrow> ret key | None \<Rightarrow> throw (Atoi_error k)) (range_of ord keys)"

text \<open>The staged key becomes the primary one.\<close>

definition promote_staged :: "int \<Rightarrow> (string, string) gomap \<Rightarrow> (string, string) gomap" where
  "promote_staged maxKeyIndex keys =
     AList.delete ''0''
       (AList.update (Itoa (int64_of (maxKeyIndex + 1)))
          (case map_of keys ''0'' of None \<Rightarrow> [] | Some v \<Rightarrow> v) keys)"

definition purge_excess ::
  "int \<Rightarrow> int list \<Rightarrow> (string, string) gomap \<Rightarrow> ('s, go_error, (string, string) gomap) go" where
  "purge_excess maxActiveKeys existingKeysIndices keys =
     (if int (length keys) > maxActiveKeys
      then if length existingKeysIndices \<le> 1 then panic ''index out of range''
           else ret (AList.delete (Itoa (existingKeysIndices ! 1)) keys)
      else ret keys)"

definition rotateKeys ::
  "(k_secret, 's) kind_client \<Rightarrow> ('s, go_error, string) go \<Rightarrow> range_ord \<Rightarrow> k_secret \<Rightarrow> int \<Rightarrow> ('s, go_error, unit) go" where
  "rotateKeys kc rnd ord sc maxActiveKeys =
     (let keys = map_entries (sec_Data sc)
      in bindM (key_indices ord keys) (\<lambda>existingKeysIndices.
           if existingKeysIndices = []
           then throw (errors_New ''key repository not initialized, secret is empty'')
           else
             let existingKeysIndices = sort existingKeysIndices;
                 keys = promote_staged (last existingKeysIndices) keys
             in bindM (generateKey rnd) (\<lambda>newKey.
                bindM (purge_excess maxActiveKeys existingKeysIndices (AList.update ''0'' newKey keys)) (\<lambda>keys.
                bindM (kc_Update kc (sc\<lparr>sec_Data := Some keys\<rparr>)) (\<lambda>_. ret ())))))"

section \<open>The controller\<close>

text \<open>Token expiration, window for expired tokens, and the time between two rotations, in seconds.\<close>

definition rotation_times :: "fernet_key_manager \<Rightarrow> int \<times> int \<times> int" where
  "rotation_times m =
     (let tokenExpiration = int_or (fk_TokenExpiration m) 86400;
          allowExpiredWindow = int_or (fk_TokenAllowExpiredWindow m) 172800
      in (tokenExpiration, allowExpiredWindow,
          int_or (fk_RotationInterval m) (int64_of (tokenExpiration + allowExpiredWindow))))"

definition maxActiveKeys_of :: "int \<times> int \<times> int \<Rightarrow> ('s, go_error, int) go" where
  "maxActiveKeys_of ts =
     (case ts of (tokenExpiration, allowExpiredWindow, rotationInterval) \<Rightarrow>
        if rotationInterval = 0 then panic ''integer divide by zero''
        else ret (int64_of (int64_of (int64_of (tokenExpiration + allowExpiredWindow + rotationInterval - 1)
                    sdiv rotationInterval) + 2)))"

text \<open>The result: nothing, or the request is queued again after a number of nanoseconds.\<close>

definition Fernet_Reconcile ::
  "k8s_lib \<Rightarrow> (k_secret, 's) kind_client \<Rightarrow> (fernet_key_manager, 's) kind_client \<Rightarrow> ('s, go_error, string) go
    \<Rightarrow> range_ord \<Rightarrow> namespaced_name \<Rightarrow> ('s, go_error, int option) go" where
  "Fernet_Reconcile lib kcs kcf rnd ord request =
     bindM (tryM (kc_Get kcf request)) (\<lambda>r.
       case r of
         Inl err \<Rightarrow> if IsNotFound lib err then ret None else throw err
       | Inr m \<Rightarrow>
           if om_Deleted (fk_meta m) then ret None
           else
             let keySecretName = ''fernet-keys-repository''
             in bindM (ensureKeysRepoSecretExists lib kcs rnd keySecretName ''fernetKeyManager'' (fk_meta m)) (\<lambda>_.
                bindM (maxActiveKeys_of (rotation_times m)) (\<lambda>maxActiveKeys.
                bindM (getSecret kcs keySecretName (om_Namespace (fk_meta m))) (\<lambda>keySecret.
                bindM (rotateKeys kcs rnd ord keySecret maxActiveKeys) (\<lambda>_.
                bindM (kc_StatusUpdate kcf (m\<lparr>fk_SecretName := keySecretName\<rparr>)) (\<lambda>_.
                  ret (Some (int64_of (1000000000 * snd (snd (rotation_times m)))))))))))"

section \<open>The repository\<close>

text \<open>
  Keys with the indices 0 and \<open>lo\<close> to \<open>hi\<close>; in a new repository, which has a staged key only, \<open>hi\<close> is 0.
\<close>

definition key_repo :: "(string, string) gomap \<Rightarrow> int \<Rightarrow> int \<Rightarrow> bool" where
  "key_repo keys lo hi \<longleftrightarrow>
     go_map keys \<and> 1 \<le> lo \<and> (lo \<le> hi \<or> lo = 1 \<and> hi = 0) \<and> hi < 2 ^ 63 \<and> fst ` set keys = Itoa ` insert 0 {lo..hi}"

lemma Itoa_0: "Itoa 0 = ''0''"
  by (simp add: Itoa_def nat_to_dec.simps digit_char_def char_of_eq_iff)

lemma int64_nonneg: "0 \<le> i \<Longrightarrow> i < 2 ^ 63 \<Longrightarrow> int64 i"
  by (simp add: int64_def)

lemma Itoa_eq_iff:
  assumes "0 \<le> i" "i < 2 ^ 63" "0 \<le> j" "j < 2 ^ 63"
  shows "Itoa i = Itoa j \<longleftrightarrow> i = j"
  using assms Itoa_inj int64_nonneg by blast

lemma map_entries_Some [simp]: "map_entries (Some m) = m"
  by (simp add: map_entries_def)

lemma mapM_ret: "\<forall>x \<in> set xs. f x = ret (g x) \<Longrightarrow> mapM f xs = ret (map g xs)"
  by (induction xs) (auto simp: bindM_def ret_def)

definition index_of_key :: "string \<Rightarrow> int" where
  "index_of_key k = the (Atoi k)"

lemma key_repo_index:
  assumes "key_repo keys lo hi" "k \<in> fst ` set keys"
  shows "\<exists>i \<in> insert 0 {lo..hi}. k = Itoa i \<and> Atoi k = Some i \<and> index_of_key k = i"
proof -
  from assms have "k \<in> Itoa ` insert 0 {lo..hi}" by (simp add: key_repo_def)
  then obtain i where i: "i \<in> insert 0 {lo..hi}" "k = Itoa i" by blast
  with assms have "Atoi k = Some i" by (auto simp: key_repo_def intro!: Atoi_Itoa int64_nonneg)
  with i show ?thesis by (auto simp: index_of_key_def)
qed

lemma key_indices_eq:
  assumes "key_repo keys lo hi" "range_perm ord"
  shows "key_indices ord keys = ret (map (\<lambda>(k, v). index_of_key k) (range_of ord keys))"
  unfolding key_indices_def
proof (rule mapM_ret, intro ballI)
  fix x assume "x \<in> set (range_of ord keys)"
  with assms(2) have "fst x \<in> fst ` set keys" by simp
  from key_repo_index [OF assms(1) this]
  show "(case x of (k, v) \<Rightarrow> case Atoi k of Some key \<Rightarrow> ret key | None \<Rightarrow> throw (Atoi_error k)) =
      ret (case x of (k, v) \<Rightarrow> index_of_key k)"
    by (cases x) auto
qed

lemma sorted_indices:
  assumes r: "key_repo keys lo hi" and p: "range_perm ord"
  shows "sort (map (\<lambda>(k, v). index_of_key k) (range_of ord keys)) = 0 # [lo..hi]" (is "sort ?is = _")
proof (rule sorted_distinct_set_unique)
  have is': "?is = map index_of_key (map fst (range_of ord keys))" by (simp add: case_prod_beta')
  have g: "go_map (range_of ord keys)" using r p by (simp add: key_repo_def go_map_range_of)
  have "inj_on index_of_key (fst ` set keys)"
    by (rule inj_onI) (metis key_repo_index [OF r])
  with g p have "distinct ?is" unfolding is' by (simp add: distinct_map go_map_def comp_inj_on)
  then show "distinct (sort ?is)" by simp
  have "index_of_key ` fst ` set keys = insert 0 {lo..hi}"
  proof (intro equalityI subsetI)
    fix i assume "i \<in> index_of_key ` fst ` set keys"
    then show "i \<in> insert 0 {lo..hi}" using key_repo_index [OF r] by blast
  next
    fix i assume i: "i \<in> insert 0 {lo..hi}"
    with r have "Itoa i \<in> fst ` set keys" by (auto simp: key_repo_def)
    moreover from i r have "Atoi (Itoa i) = Some i" by (auto simp: key_repo_def intro!: Atoi_Itoa int64_nonneg)
    ultimately show "i \<in> index_of_key ` fst ` set keys" by (metis image_eqI index_of_key_def option.sel)
  qed
  with p show "set (sort ?is) = set (0 # [lo..hi])" by (simp add: is' image_comp comp_def case_prod_beta')
  show "sorted (sort ?is)" by simp
  show "sorted (0 # [lo..hi])" using r by (auto simp: key_repo_def)
  show "distinct (0 # [lo..hi])" using r by (auto simp: key_repo_def)
qed

lemma key_repo_length:
  assumes "key_repo keys lo hi"
  shows "int (length keys) = hi - lo + 2"
proof -
  have "inj_on Itoa (insert 0 {lo..hi})"
    using assms by (intro inj_onI) (auto simp: key_repo_def Itoa_eq_iff)
  then have "card (fst ` set keys) = card (insert 0 {lo..hi})"
    using assms by (simp add: key_repo_def card_image del: image_insert)
  moreover have "card (fst ` set keys) = length keys"
    using assms by (metis distinct_card go_map_def key_repo_def length_map list.set_map)
  ultimately show ?thesis using assms by (auto simp: key_repo_def)
qed

text \<open>The key with an index.\<close>

definition key_at :: "(string, string) gomap \<Rightarrow> int \<Rightarrow> string option" where
  "key_at keys i = map_of keys (Itoa i)"

lemma key_at_update:
  assumes "0 \<le> i" "i < 2 ^ 63" "0 \<le> j" "j < 2 ^ 63"
  shows "key_at (AList.update (Itoa j) v keys) i = (if i = j then Some v else key_at keys i)"
    "key_at (AList.delete (Itoa j) keys) i = (if i = j then None else key_at keys i)"
  using assms by (auto simp: key_at_def AList.update_conv' AList.delete_conv' Itoa_eq_iff)

lemma go_map_alist [simp]:
  "go_map m \<Longrightarrow> go_map (AList.update k v m)" "go_map m \<Longrightarrow> go_map (AList.delete k m)"
  by (simp_all add: go_map_def AList.distinct_update AList.distinct_delete)

lemma alist_keys:
  "fst ` set (AList.update k v m) = insert k (fst ` set m)" "fst ` set (AList.delete k m) = fst ` set m - {k}"
proof -
  show "fst ` set (AList.update k v m) = insert k (fst ` set m)" by (simp add: AList.dom_update)
  show "fst ` set (AList.delete k m) = fst ` set m - {k}" by (metis AList.delete_keys set_map set_removeAll)
qed

lemma promote_repo:
  assumes r: "key_repo keys lo hi" and hi: "hi + 1 < 2 ^ 63"
  shows "key_repo (AList.update ''0'' newKey (promote_staged hi keys)) lo (hi + 1)"
proof -
  have i: "int64_of (hi + 1) = hi + 1" using r hi by (intro int64_of_id) (auto simp: key_repo_def int64_def)
  have "insert 0 {lo..hi + 1} = insert 0 (insert (hi + 1) {lo..hi})" using r by (auto simp: key_repo_def)
  moreover have "Itoa (hi + 1) \<noteq> Itoa 0" using Itoa_eq_iff [of "hi + 1" 0] r hi by (auto simp: key_repo_def)
  ultimately show ?thesis
    using r hi by (auto simp: key_repo_def promote_staged_def i alist_keys simp flip: Itoa_0)
qed

lemma purge_repo:
  assumes r: "key_repo keys lo hi" and "lo < hi"
  shows "key_repo (AList.delete (Itoa lo) keys) (lo + 1) hi"
proof -
  have "Itoa ` insert 0 {lo..hi} - {Itoa lo} = Itoa ` insert 0 {lo + 1..hi}"
  proof -
    have "insert 0 {lo..hi} = insert lo (insert 0 {lo + 1..hi})" using assms by auto
    moreover have "Itoa lo \<notin> Itoa ` insert 0 {lo + 1..hi}"
      using assms by (auto simp: key_repo_def Itoa_eq_iff)
    ultimately show ?thesis by auto
  qed
  then show ?thesis using assms by (simp add: key_repo_def alist_keys)
qed

section \<open>One rotation\<close>

text \<open>What a rotation does to a repository with the indices 0 and \<open>lo\<close> to \<open>hi\<close>.\<close>

definition next_lo :: "int \<Rightarrow> int \<Rightarrow> int \<Rightarrow> int" where
  "next_lo maxActiveKeys lo hi = (if hi - lo + 3 > maxActiveKeys then lo + 1 else lo)"

definition rotated :: "int \<Rightarrow> int \<Rightarrow> int \<Rightarrow> string \<Rightarrow> (string, string) gomap \<Rightarrow> (string, string) gomap" where
  "rotated maxActiveKeys lo hi newKey keys =
     (let keys = AList.update ''0'' newKey (promote_staged hi keys)
      in if hi - lo + 3 > maxActiveKeys then AList.delete (Itoa lo) keys else keys)"

lemma rotated_repo:
  assumes r: "key_repo keys lo hi" and hi: "hi + 1 < 2 ^ 63" and m: "2 \<le> maxActiveKeys"
  shows "key_repo (rotated maxActiveKeys lo hi newKey keys) (next_lo maxActiveKeys lo hi) (hi + 1)"
proof -
  have "lo \<le> hi \<or> lo = 1 \<and> hi = 0" using r by (simp add: key_repo_def)
  with m promote_repo [OF r hi, of newKey] purge_repo [OF promote_repo [OF r hi, of newKey]] show ?thesis
    by (auto simp: rotated_def next_lo_def Let_def)
qed

lemma rotated_key_at:
  assumes r: "key_repo keys lo hi" and hi: "hi + 1 < 2 ^ 63"
  shows "key_at (rotated maxActiveKeys lo hi newKey keys) 0 = Some newKey"
    and "hi + 1 \<ge> next_lo maxActiveKeys lo hi \<Longrightarrow>
      key_at (rotated maxActiveKeys lo hi newKey keys) (hi + 1) = key_at keys 0"
    and "next_lo maxActiveKeys lo hi \<le> i \<Longrightarrow> i \<le> hi \<Longrightarrow>
      key_at (rotated maxActiveKeys lo hi newKey keys) i = key_at keys i"
proof -
  have i64: "int64_of (hi + 1) = hi + 1" using r hi by (intro int64_of_id) (auto simp: key_repo_def int64_def)
  have "Itoa 0 \<in> fst ` set keys" using r by (simp add: key_repo_def)
  then obtain v where v: "key_at keys 0 = Some v"
    unfolding key_at_def by (metis image_iff map_of_eq_None_iff option.exhaust)
  note at = key_at_update [of _ 0, folded Itoa_0] key_at_update
  have step: "key_at (rotated maxActiveKeys lo hi newKey keys) i =
      (if hi - lo + 3 > maxActiveKeys \<and> i = lo then None
       else if i = 0 then Some newKey else if i = hi + 1 then Some v else key_at keys i)"
    if "0 \<le> i" "i < 2 ^ 63" for i
    using that r hi v
    by (auto simp: rotated_def promote_staged_def i64 Let_def key_repo_def key_at_update key_at_def [of keys 0]
        simp flip: Itoa_0)
  show "key_at (rotated maxActiveKeys lo hi newKey keys) 0 = Some newKey"
    using step [of 0] r by (auto simp: key_repo_def)
  show "key_at (rotated maxActiveKeys lo hi newKey keys) (hi + 1) = key_at keys 0"
    if "hi + 1 \<ge> next_lo maxActiveKeys lo hi"
    using step [of "hi + 1"] r hi v that by (auto simp: key_repo_def next_lo_def split: if_splits)
  show "key_at (rotated maxActiveKeys lo hi newKey keys) i = key_at keys i"
    if "next_lo maxActiveKeys lo hi \<le> i" "i \<le> hi"
    using step [of i] r that by (auto simp: key_repo_def next_lo_def split: if_splits)
qed

lemma rotateKeys_eq:
  fixes kc :: "(k_secret, 's) kind_client"
  assumes r: "key_repo (map_entries (sec_Data sc)) lo hi" and p: "range_perm ord"
    and hi: "hi + 1 < 2 ^ 63" and m: "2 \<le> maxActiveKeys"
  shows "rotateKeys kc rnd ord sc maxActiveKeys =
     bindM (generateKey rnd) (\<lambda>newKey.
       bindM (kc_Update kc (sc\<lparr>sec_Data := Some (rotated maxActiveKeys lo hi newKey (map_entries (sec_Data sc)))\<rparr>))
         (\<lambda>_. ret ()))"
proof -
  let ?keys = "map_entries (sec_Data sc)"
  have l: "1 \<le> lo" "lo \<le> hi \<or> lo = 1 \<and> hi = 0" using r by (simp_all add: key_repo_def)
  have srt: "sort (map (\<lambda>(k, v). index_of_key k) (range_of ord ?keys)) = 0 # [lo..hi]"
    by (rule sorted_indices [OF r p])
  then have ne: "map (\<lambda>(k, v). index_of_key k) (range_of ord ?keys) \<noteq> []" by (metis list.discI sort_key_simps(1))
  have la: "last (0 # [lo..hi]) = hi"
  proof (cases "lo \<le> hi")
    case True
    then show ?thesis using upto_rec2 [of lo hi] by simp
  qed (use l in auto)
  have purge: "purge_excess maxActiveKeys (0 # [lo..hi]) (AList.update ''0'' newKey (promote_staged hi ?keys)) =
      (ret (rotated maxActiveKeys lo hi newKey ?keys) :: ('s, go_error, (string, string) gomap) go)" for newKey
  proof -
    have len: "int (length (AList.update ''0'' newKey (promote_staged hi ?keys))) = hi - lo + 3"
      using key_repo_length [OF promote_repo [OF r hi, of newKey]] by simp
    show ?thesis
    proof (cases "hi - lo + 3 > maxActiveKeys")
      case True
      with m l have "lo \<le> hi" by linarith
      with True len show ?thesis by (simp add: purge_excess_def rotated_def Let_def upto_rec1)
    qed (simp add: purge_excess_def rotated_def Let_def len)
  qed
  define L where "L = 0 # [lo..hi]"
  define idx where "idx = map (\<lambda>(k, v). index_of_key k) (range_of ord ?keys)"
  have "key_indices ord ?keys = (ret idx :: ('s, go_error, int list) go)" "idx \<noteq> []" "sort idx = L" "last L = hi"
    using key_indices_eq [OF r p] ne srt la by (simp_all only: idx_def L_def not_False_eq_True)
  then show ?thesis using purge [folded L_def] by (simp add: rotateKeys_def Let_def)
qed

section \<open>Several rotations\<close>

text \<open>
  The part of a reconciliation that reads the secret and rotates its keys, and a sequence of
  reconciliations.
\<close>

definition rotation ::
  "(k_secret, 's) kind_client \<Rightarrow> ('s, go_error, string) go \<Rightarrow> range_ord \<Rightarrow> namespaced_name \<Rightarrow> int \<Rightarrow> ('s, go_error, unit) go" where
  "rotation kc rnd ord key maxActiveKeys =
     bindM (getSecret kc (snd key) (fst key)) (\<lambda>sc. rotateKeys kc rnd ord sc maxActiveKeys)"

fun reconciliations ::
  "k8s_lib \<Rightarrow> (k_secret, 's) kind_client \<Rightarrow> (fernet_key_manager, 's) kind_client \<Rightarrow> ('s, go_error, string) go
    \<Rightarrow> range_ord \<Rightarrow> namespaced_name \<Rightarrow> nat \<Rightarrow> ('s, go_error, unit) go" where
  "reconciliations lib kcs kcf rnd ord request 0 = ret ()"
| "reconciliations lib kcs kcf rnd ord request (Suc n) =
     bindM (Fernet_Reconcile lib kcs kcf rnd ord request) (\<lambda>_. reconciliations lib kcs kcf rnd ord request n)"

text \<open>A server that has a repository under a key, and a source of random bytes beside it.\<close>

locale key_repository = store_server lib kc sec_meta objects
  for lib :: k8s_lib and kc :: "(k_secret, 's) kind_client"
    and objects :: "'s \<Rightarrow> namespaced_name \<rightharpoonup> k_secret" +
  fixes rnd :: "('s, go_error, string) go" and ord :: range_ord
  assumes rnd_frame: "rnd s = (Ok b, s') \<Longrightarrow> objects s' = objects s"
    and ord: "range_perm ord"
begin

definition repo_at :: "namespaced_name \<Rightarrow> 's \<Rightarrow> k_secret \<Rightarrow> int \<Rightarrow> int \<Rightarrow> bool" where
  "repo_at key s sc lo hi \<longleftrightarrow>
     objects s key = Some sc \<and> key_of (sec_meta sc) = key \<and> key_repo (map_entries (sec_Data sc)) lo hi"

lemma rotation_step:
  assumes rep: "repo_at key s sc lo hi" and hi: "hi + 1 < 2 ^ 63" and m: "2 \<le> maxActiveKeys"
    and run: "rotation kc rnd ord key maxActiveKeys s = (Ok u, s')"
  shows "\<exists>newKey. repo_at key s'
     (sc\<lparr>sec_Data := Some (rotated maxActiveKeys lo hi newKey (map_entries (sec_Data sc)))\<rparr>)
     (next_lo maxActiveKeys lo hi) (hi + 1)"
proof -
  from run obtain sc' t where g: "kc_Get kc key s = (Ok sc', t)"
    and rot: "rotateKeys kc rnd ord sc' maxActiveKeys t = (Ok u, s')"
    by (auto simp: rotation_def getSecret_def elim!: bindM_OkE)
  from Get_Ok [OF g] rep have t: "t = s" "sc' = sc" by (auto simp: repo_at_def)
  have r: "key_repo (map_entries (sec_Data sc)) lo hi" using rep by (simp add: repo_at_def)
  from rot [unfolded t rotateKeys_eq [OF r ord hi m]] obtain newKey t' y where
    k: "generateKey rnd s = (Ok newKey, t')" and
    u: "kc_Update kc (sc\<lparr>sec_Data := Some (rotated maxActiveKeys lo hi newKey (map_entries (sec_Data sc)))\<rparr>) t' = (Ok y, s')"
    by (auto elim!: bindM_OkE simp: ret_def)
  from k have "objects t' = objects s"
    by (auto simp: generateKey_def ret_def elim!: bindM_OkE dest!: rnd_frame)
  with Update_Ok [OF u] rep rotated_repo [OF r hi m, of newKey] show ?thesis
    by (intro exI [of _ newKey]) (auto simp: repo_at_def)
qed

end

text \<open>
  Beside it the resources of the key managers, which are other objects.  The one that is reconciled
  has the namespace \<open>ns\<close> and the times \<open>times\<close>, which give \<open>maxActiveKeys\<close>.
\<close>

locale fernet_server = key_repository lib kc objects rnd ord
  for lib :: k8s_lib and kc :: "(k_secret, 's) kind_client"
    and objects :: "'s \<Rightarrow> namespaced_name \<rightharpoonup> k_secret" and rnd ord +
  fixes kcf :: "(fernet_key_manager, 's) kind_client" and request :: namespaced_name and ns :: string
    and times :: "int \<times> int \<times> int" and maxActiveKeys :: int
  assumes Get_frame: "kc_Get kcf k s = (r, s') \<Longrightarrow> objects s' = objects s"
    and StatusUpdate_frame: "kc_StatusUpdate kcf m s = (r', s') \<Longrightarrow> objects s' = objects s"
    and resource: "kc_Get kcf request s = (Ok m, s') \<Longrightarrow>
      om_Namespace (fk_meta m) = ns \<and> rotation_times m = times"
    and active: "maxActiveKeys_of times (t :: 's) = (Ok maxActiveKeys, t)"
    and keys_min: "2 \<le> maxActiveKeys"
begin

abbreviation keys_at :: "'s \<Rightarrow> k_secret \<Rightarrow> int \<Rightarrow> int \<Rightarrow> bool" where
  "keys_at \<equiv> repo_at (ns, ''fernet-keys-repository'')"

lemma ensure_existing:
  assumes rep: "repo_at (om_Namespace owner, name) s sc lo hi"
    and run: "ensureKeysRepoSecretExists lib kc rnd name ty owner s = (Ok u, s')"
  shows "objects s' = objects s"
proof -
  from rep have o: "objects s (om_Namespace owner, name) = Some sc" "key_of (sec_meta sc) = (om_Namespace owner, name)"
    and "map_entries (sec_Data sc) \<noteq> []"
    by (auto simp: repo_at_def key_repo_def)
  then have "sec_Data sc \<noteq> None" by (cases "sec_Data sc") (auto simp: map_entries_def)
  with o Secret_EnsureExists_existing [where objects = objects, OF kind_server_axioms run [unfolded ensureKeysRepoSecretExists_def] o]
  show ?thesis by (auto simp: fernet_FillSecret_def ret_def)
qed

text \<open>A reconciliation does nothing, because there is no resource, or rotates the keys.\<close>

lemma reconcile_step:
  assumes rep: "keys_at s sc lo hi" and hi: "hi + 1 < 2 ^ 63"
    and run: "Fernet_Reconcile lib kc kcf rnd ord request s = (Ok r, s')"
  shows "r = None \<and> objects s' = objects s \<or>
     (\<exists>newKey. keys_at s' (sc\<lparr>sec_Data := Some (rotated maxActiveKeys lo hi newKey (map_entries (sec_Data sc)))\<rparr>)
        (next_lo maxActiveKeys lo hi) (hi + 1))"
proof -
  obtain x t where g: "kc_Get kcf request s = (x, t)" by fastforce
  note f = Get_frame [OF g]
  show ?thesis
  proof (cases x)
    case (Ok m)
    have m: "om_Namespace (fk_meta m) = ns" "maxActiveKeys_of (rotation_times m) w = (Ok maxActiveKeys, w)" for w :: 's
      using resource [OF g [unfolded Ok]] active by simp_all
    show ?thesis
    proof (cases "om_Deleted (fk_meta m)")
      case True
      with run g Ok f show ?thesis by (auto simp: Fernet_Reconcile_def bindM_def tryM_def ret_def)
    next
      case False
      with run g Ok obtain t1 t2 u1 u2 u3 where
        e: "ensureKeysRepoSecretExists lib kc rnd ''fernet-keys-repository'' ''fernetKeyManager'' (fk_meta m) t = (Ok u1, t1)"
        and rot: "rotation kc rnd ord (ns, ''fernet-keys-repository'') maxActiveKeys t1 = (Ok u2, t2)"
        and st: "kc_StatusUpdate kcf (m\<lparr>fk_SecretName := ''fernet-keys-repository''\<rparr>) t2 = (Ok u3, s')"
        by (auto simp: Fernet_Reconcile_def rotation_def Let_def tryM_def ret_def bindM_Ok_iff m)
      from rep f m have rep': "repo_at (om_Namespace (fk_meta m), ''fernet-keys-repository'') t sc lo hi" by (simp add: repo_at_def)
      from ensure_existing [OF rep' e] rep f have "keys_at t1 sc lo hi" by (simp add: repo_at_def)
      from rotation_step [OF this hi keys_min rot] StatusUpdate_frame [OF st] show ?thesis by (simp add: repo_at_def)
    qed
  qed (use run g f in \<open>auto simp: Fernet_Reconcile_def bindM_def tryM_def ret_def throw_def split: if_splits\<close>)
qed

text \<open>
  The number of keys does not exceed its bound, or what it was, and a key with the index \<open>i\<close> is there
  after as many reconciliations as it takes to become the oldest one.
\<close>

lemma reconciliations_keep:
  assumes "keys_at s sc lo hi" "hi + int n < 2 ^ 63"
    and "reconciliations lib kc kcf rnd ord request n s = (Ok u, s')"
    and "lo \<le> i" "i \<le> hi" "hi + int n \<le> i + maxActiveKeys - 2"
  shows "\<exists>sc' lo' hi'. keys_at s' sc' lo' hi' \<and> lo' \<le> i \<and> i \<le> hi' \<and> hi' - lo' \<le> max (hi - lo) (maxActiveKeys - 2) \<and>
     key_at (map_entries (sec_Data sc')) i = key_at (map_entries (sec_Data sc)) i"
  using assms
proof (induction n arbitrary: s sc lo hi)
  case 0
  then show ?case by (intro exI [of _ sc] exI [of _ lo] exI [of _ hi]) (auto simp: ret_def)
next
  case (Suc n)
  let ?keys = "map_entries (sec_Data sc)"
  from Suc.prems(3) obtain v t where run: "Fernet_Reconcile lib kc kcf rnd ord request s = (Ok v, t)"
    and rest: "reconciliations lib kc kcf rnd ord request n t = (Ok u, s')" by (auto elim!: bindM_OkE)
  have hi: "hi + 1 < 2 ^ 63" using Suc.prems(2) by simp
  from reconcile_step [OF Suc.prems(1) hi run] consider "objects t = objects s"
    | newKey where "keys_at t (sc\<lparr>sec_Data := Some (rotated maxActiveKeys lo hi newKey ?keys)\<rparr>) (next_lo maxActiveKeys lo hi) (hi + 1)"
    by blast
  then show ?case
  proof cases
    case 1
    with Suc.prems(1) have "keys_at t sc lo hi" by (simp add: repo_at_def)
    from Suc.IH [OF this _ rest] Suc.prems show ?thesis by simp
  next
    case (2 newKey)
    have lo: "next_lo maxActiveKeys lo hi \<le> i" "hi + 1 - next_lo maxActiveKeys lo hi \<le> max (hi - lo) (maxActiveKeys - 2)"
      using Suc.prems(4-6) by (auto simp: next_lo_def)
    have r: "key_repo ?keys lo hi" using Suc.prems(1) by (simp add: repo_at_def)
    have keep: "key_at (rotated maxActiveKeys lo hi newKey ?keys) i = key_at ?keys i"
      by (rule rotated_key_at(3) [OF r hi lo(1) Suc.prems(5)])
    from Suc.IH [OF 2 _ rest lo(1)] Suc.prems(2,5,6) obtain sc' lo' hi' where "keys_at s' sc' lo' hi'" "lo' \<le> i" "i \<le> hi'"
      "hi' - lo' \<le> max (hi + 1 - next_lo maxActiveKeys lo hi) (maxActiveKeys - 2)"
      "key_at (map_entries (sec_Data sc')) i = key_at (rotated maxActiveKeys lo hi newKey ?keys) i" by auto
    with keep lo(2) show ?thesis by (intro exI [of _ sc'] exI [of _ lo'] exI [of _ hi']) auto
  qed
qed

end

section \<open>How many keys are kept\<close>

lemma maxActiveKeys_enough:
  assumes "0 \<le> te" "0 \<le> aw" "0 < ri" "te + aw + ri < 2 ^ 62"
  shows "\<exists>m. maxActiveKeys_of (te, aw, ri) s = (Ok m, s) \<and> 2 \<le> m \<and>
     te + aw \<le> (m - 2) * ri \<and> (m - 2) * ri < te + aw + ri"
proof -
  let ?q = "(te + aw + ri - 1) div ri"
  have i: "int64_of (te + aw + ri - 1) = te + aw + ri - 1"
    using assms by (intro int64_of_id) (simp add: int64_def)
  have q: "0 \<le> ?q" "?q \<le> te + aw + ri - 1"
    using assms zdiv_mono2 [of "te + aw + ri - 1" 1 ri] by (auto simp: pos_imp_zdiv_nonneg_iff)
  have sd: "(te + aw + ri - 1) sdiv ri = ?q" using assms by (auto simp: signed_divide_int_def sgn_if)
  have q64: "int64_of ?q = ?q" "int64_of (?q + 2) = ?q + 2"
    using q assms by (auto intro!: int64_of_id simp: int64_def)
  have "?q * ri + (te + aw + ri - 1) mod ri = te + aw + ri - 1" by simp
  moreover have "0 \<le> (te + aw + ri - 1) mod ri" "(te + aw + ri - 1) mod ri < ri" using assms by simp_all
  ultimately have "te + aw \<le> ?q * ri" "?q * ri < te + aw + ri" by linarith+
  then show ?thesis
    using assms q by (intro exI [of _ "?q + 2"]) (simp add: maxActiveKeys_of_def i sd q64 ret_def)
qed

end
