(* ===== verification/InfraLaws.thy ===== *)
theory InfraLaws
  imports ConfigService ContrailCni Control Kubemanager Webui Memcached Fernet ServiceLaws ManagerLaws
begin

text \<open>
  Facts on the controllers of Config, of the CNI plugin and of the Fernet keys: which containers the
  stateful set of Config gets, which pods it lets start, what its configuration files depend on, and
  how its reconciliation ends.
\<close>

section \<open>The containers of Config\<close>

definition container_names :: "stateful_set \<Rightarrow> string list" where
  "container_names sts = map pco_Name (pspec_Containers (pt_Spec (sts_Template sts)))"

text \<open>A block for a container keeps its name.\<close>

definition keeps_name :: "string \<Rightarrow> ('s, go_error, pod_container) go \<Rightarrow> bool" where
  "keeps_name n m \<longleftrightarrow> (\<forall>s c s'. m s = (Ok c, s') \<longrightarrow> pco_Name c = n)"

named_theorems keeps_name_intros

lemma keeps_name_if [keeps_name_intros]: "keeps_name n x \<Longrightarrow> keeps_name n y \<Longrightarrow> keeps_name n (if b then x else y)"
  by simp

lemma keeps_name_ret [keeps_name_intros]: "pco_Name c = n \<Longrightarrow> keeps_name n (ret c)"
  by (simp add: keeps_name_def)

lemma keeps_name_bind [keeps_name_intros]: "(\<And>x. keeps_name n (f x)) \<Longrightarrow> keeps_name n (bindM m f)"
  unfolding keeps_name_def by (blast elim: bindM_OkE)

lemma keeps_name_service [keeps_name_intros]:
  "pco_Name c = n \<Longrightarrow> (\<And>x. pco_Name (f x) = pco_Name x) \<Longrightarrow> keeps_name n (service_container containers command f c)"
  unfolding keeps_name_def by (blast dest: service_container_name)

lemma config_container_name:
  "keeps_name (pco_Name c) (config_configure_container name containers secretName b1 b2 c)"
  unfolding config_configure_container_def by (intro keeps_name_intros) simp_all

lemma config_configure_container_name:
  "config_configure_container name containers secretName b1 b2 c s = (Ok c', s') \<Longrightarrow> pco_Name c' = pco_Name c"
  by (rule config_container_name [unfolded keeps_name_def, rule_format])

lemma remove_if_names:
  assumes "remove_if b name sts s = (Ok sts', s')" and "distinct (container_names sts)"
  shows "container_names sts' = filter (\<lambda>n. \<not> (b \<and> n = name)) (container_names sts)"
proof (cases b)
  case True
  with assms have "sts' = update_spec (\<lambda>sp. sp\<lparr>pspec_Containers :=
      filter (\<lambda>c. pco_Name c \<noteq> name) (pspec_Containers (pt_Spec (sts_Template sts)))\<rparr>) sts"
    by (auto simp: remove_if_def container_names_def remove_containers_filter)
  with True show ?thesis by (simp add: container_names_def filter_map comp_def)
qed (use assms in \<open>auto simp: remove_if_def\<close>)

lemma config_intended_names:
  assumes run: "config_intended_sts ord account request c configMap secretCertificates sts0 s = (Ok sts, s')"
    and d: "distinct (container_names sts0)"
  shows "container_names sts =
     filter (\<lambda>n. \<not> (n \<in> {''nodemanagerconfig'', ''nodemanageranalytics''} \<and>
         (cf_NodeManager (cr_conf c) = Some False \<or> GetContainerFromList n (cf_Containers (cr_conf c)) = None)))
       (container_names sts0)"
proof -
  let ?off = "cf_NodeManager (cr_conf c) = Some False"
  let ?no = "\<lambda>n. GetContainerFromList n (cf_Containers (cr_conf c)) = None"
  from run obtain s1 t1 s2 t2 u t3 s3 t4 s4 t5 s5 t6 where
    1: "remove_if ?off ''nodemanagerconfig'' (service_volumes ord (snd request) ''config'' configMap secretCertificates sts0) s = (Ok s1, t1)"
    and 2: "remove_if ?off ''nodemanageranalytics'' s1 t1 = (Ok s2, t2)"
    and 3: "update_containers (config_configure_container (snd request) (cf_Containers (cr_conf c)) (cf_KeystoneSecretName (cr_conf c))
              (\<not> ?no ''nodemanagerconfig'') (\<not> ?no ''nodemanageranalytics''))
            (set_anti_affinity ''config'' (snd request) (set_service_account ''serviceaccount-statusmonitor-config'' s2)) t3 = (Ok s3, t4)"
    and 4: "remove_if (?no ''nodemanagerconfig'') ''nodemanagerconfig'' s3 t4 = (Ok s4, t5)"
    and 5: "remove_if (?no ''nodemanageranalytics'') ''nodemanageranalytics'' s4 t5 = (Ok s5, t6)"
    and 6: "update_init_containers (configure_init (cf_Containers (cr_conf c))) s5 t6 = (Ok sts, s')"
    unfolding config_intended_sts_def Let_def by (elim bindM_OkE) auto
  have n1: "container_names s1 = filter (\<lambda>n. \<not> (?off \<and> n = ''nodemanagerconfig'')) (container_names sts0)"
    using remove_if_names [OF 1] d by (simp add: container_names_def)
  have n2: "container_names s2 = filter (\<lambda>n. \<not> (?off \<and> n = ''nodemanageranalytics'')) (container_names s1)"
    using remove_if_names [OF 2] d n1 by simp
  have n3: "container_names s3 = container_names s2"
    using update_containers_names [OF 3 config_configure_container_name] by (simp add: container_names_def)
  have n4: "container_names s4 = filter (\<lambda>n. \<not> (?no ''nodemanagerconfig'' \<and> n = ''nodemanagerconfig'')) (container_names s3)"
    using remove_if_names [OF 4] d n1 n2 n3 by simp
  have n5: "container_names s5 = filter (\<lambda>n. \<not> (?no ''nodemanageranalytics'' \<and> n = ''nodemanageranalytics'')) (container_names s4)"
    using remove_if_names [OF 5] d n1 n2 n3 n4 by simp
  have "container_names sts = container_names s5"
    using update_init_containers_Containers [OF 6] by (simp add: container_names_def)
  then show ?thesis unfolding n5 n4 n3 n2 n1 filter_filter by (auto intro!: filter_cong)
qed

text \<open>The name of the stateful set does not change.\<close>

lemma remove_if_meta: "remove_if b name sts s = (Ok sts', s') \<Longrightarrow> sts_meta sts' = sts_meta sts"
  by (auto simp: remove_if_def remove_containers_def Let_def go_simps update_spec_def split: if_splits)

lemma config_intended_meta:
  "config_intended_sts ord account request c configMap secretCertificates sts0 s = (Ok sts, s') \<Longrightarrow> sts_meta sts = sts_meta sts0"
  unfolding config_intended_sts_def Let_def
  by (elim bindM_OkE) (auto dest!: remove_if_meta update_containers_meta)

section \<open>The pods that may start\<close>

definition pod_ready :: "pod \<Rightarrow> bool" where
  "pod_ready p \<longleftrightarrow> list_all cs_Ready (pod_ContainerStatuses p)"

definition with_label :: "string \<Rightarrow> string \<Rightarrow> pod \<Rightarrow> pod" where
  "with_label k v p = p\<lparr>pod_meta := (pod_meta p)\<lparr>om_Labels := map_option (AList.update k v) (om_Labels (pod_meta p))\<rparr>\<rparr>"

lemma key_with_label [simp]: "key_of (pod_meta (with_label k v p)) = key_of (pod_meta p)"
  by (simp add: with_label_def key_of_def)

lemma allow_start_result:
  assumes srv: "store_server lib kc pod_meta objects" and run: "allow_start kc p s = (Ok u, s')"
    and o: "objects s (key_of (pod_meta p)) = Some q" "key_of (pod_meta q) = key_of (pod_meta p)"
  shows "objects s' = (objects s)(key_of (pod_meta p) \<mapsto> with_label ''peers_ready'' ''true'' q)"
proof -
  from run obtain q' t ls x where g: "kc_Get kc (key_of (pod_meta p)) s = (Ok q', t)"
    and l: "set_label ''peers_ready'' ''true'' (om_Labels (pod_meta q')) t = (Ok ls, t)"
    and w: "kc_Update kc (q'\<lparr>pod_meta := (pod_meta q')\<lparr>om_Labels := ls\<rparr>\<rparr>) t = (Ok x, s')"
    by (auto simp: allow_start_def set_label_def go_simps split: option.splits)
  from kind_server.Get_Ok [OF store_server.axioms(1) [OF srv] g] o have q: "q' = q" "t = s" by auto
  from l have "ls = map_option (AList.update ''peers_ready'' ''true'') (om_Labels (pod_meta q'))"
    by (auto simp: set_label_def go_simps split: option.splits)
  then have e: "q'\<lparr>pod_meta := (pod_meta q')\<lparr>om_Labels := ls\<rparr>\<rparr> = with_label ''peers_ready'' ''true'' q"
    by (simp add: with_label_def q)
  from store_server.Update_Ok [OF srv w] show ?thesis
    unfolding e using o(2) by (simp add: q)
qed

lemma WaitForPeerPods_objects:
  assumes srv: "store_server lib kc pod_meta objects"
    and ps: "distinct (map (\<lambda>p. key_of (pod_meta p)) ps)" "\<And>p. p \<in> set ps \<Longrightarrow> objects s (key_of (pod_meta p)) = Some p"
    and run: "forM [0..<length ps] (\<lambda>idx. if peers_ready (take idx ps) then allow_start kc (ps ! idx) else ret ()) s = (Ok u, s')"
  shows "objects s' = (\<lambda>k. if k \<in> (\<lambda>i. key_of (pod_meta (ps ! i))) ` {i. i < length ps \<and> peers_ready (take i ps)}
     then map_option (with_label ''peers_ready'' ''true'') (objects s k) else objects s k)"
proof -
  let ?key = "\<lambda>i. key_of (pod_meta (ps ! i))"
  let ?P = "\<lambda>ys t. objects t = (\<lambda>k. if k \<in> ?key ` {i \<in> set ys. peers_ready (take i ps)}
     then map_option (with_label ''peers_ready'' ''true'') (objects s k) else objects s k)"
  have "?P [0..<length ps] s'"
  proof (rule forM_induct [OF run])
    fix ys i zs t t' v
    assume i: "[0..<length ps] = ys @ i # zs" and t: "?P ys t"
      and step: "(if peers_ready (take i ps) then allow_start kc (ps ! i) else ret ()) t = (Ok v, t')"
    have "i \<in> set [0..<length ps]" unfolding i by simp
    then have il: "i < length ps" by simp
    have "distinct (ys @ i # zs)" unfolding i [symmetric] by simp
    then have iy: "i \<notin> set ys" by simp
    have "set ys \<subseteq> set [0..<length ps]" unfolding i by auto
    then have "\<forall>j \<in> set ys. j < length ps \<and> j \<noteq> i" using iy by auto
    then have new: "?key i \<notin> ?key ` set ys"
      using ps(1) il by (fastforce simp: distinct_conv_nth)
    show "?P (ys @ [i]) t'"
    proof (cases "peers_ready (take i ps)")
      case True
      have o: "objects t (?key i) = Some (ps ! i)" using t new ps(2) [of "ps ! i"] il by auto
      from step True have a: "allow_start kc (ps ! i) t = (Ok v, t')" by simp
      show ?thesis unfolding allow_start_result [OF srv a o refl] t
        using True o ps(2) [of "ps ! i"] il by (auto simp: fun_eq_iff)
    qed (use step t in \<open>auto simp: fun_eq_iff\<close>)
  qed simp
  then show ?thesis by simp
qed

text \<open>Before a pod in the sorted list are those with smaller names.\<close>

lemma peers_ready_names:
  fixes f :: "pod \<Rightarrow> string"
  assumes "distinct (map f ps)" "i < length (sort_key f ps)"
  shows "peers_ready (take i (sort_key f ps)) \<longleftrightarrow> (\<forall>q \<in> set ps. f q < f (sort_key f ps ! i) \<longrightarrow> pod_ready q)"
proof -
  let ?ps = "sort_key f ps"
  have "distinct (map f ?ps)" using assms(1) by (metis distinct_map distinct_sort set_sort)
  then have d: "f (?ps ! j) \<noteq> f (?ps ! i)" if "j < length ?ps" "j \<noteq> i" for j
    using that assms(2) by (metis length_map nth_eq_iff_index_eq nth_map)
  have mono: "f (?ps ! j) \<le> f (?ps ! k)" if "j \<le> k" "k < length ?ps" for j k
    using that sorted_nth_mono [OF sorted_sort_key [of f ps], of j k] by simp
  have "set (take i ?ps) = {q \<in> set ps. f q < f (?ps ! i)}"
  proof (intro equalityI subsetI)
    fix q assume "q \<in> set (take i ?ps)"
    then obtain j where j: "j < i" "q = ?ps ! j" using assms(2) by (auto simp: in_set_conv_nth)
    then have "q \<in> set ?ps" using assms(2) nth_mem [of j ?ps] by simp
    with j assms(2) mono [of j i] d [of j] show "q \<in> {q \<in> set ps. f q < f (?ps ! i)}"
      by (simp add: order.strict_iff_order)
  next
    fix q assume q: "q \<in> {q \<in> set ps. f q < f (?ps ! i)}"
    then obtain j where j: "j < length ?ps" "q = ?ps ! j" by (metis (mono_tags) in_set_conv_nth mem_Collect_eq set_sort)
    with q mono [of i j] have "j < i" by (metis leD linorder_le_less_linear mem_Collect_eq)
    with j show "q \<in> set (take i ?ps)" by (auto simp: in_set_conv_nth)
  qed
  then show ?thesis by (auto simp: peers_ready_def pod_ready_def list_all_iff)
qed

section \<open>What the files of Config depend on\<close>

lemma map_of_fold_other:
  assumes "\<forall>x \<in> set xs. fst x \<noteq> k"
  shows "map_of (fold (\<lambda>(k, v). AList.update k v) xs m) k = map_of m k"
  using assms by (induction xs arbitrary: m) (auto simp: AList.update_conv')

lemma monitor_file:
  "map_of (fold (\<lambda>(k, v). AList.update k v) (config_pod_files l d podIP mon) []) (''monitorconfig.'' @ podIP @ ''.yaml'') = Some mon"
  unfolding config_pod_files_def by (simp add: map_of_fold_other)

text \<open>With the defaults filled in all ports are set.\<close>

lemma introspectPorts_defaults:
  "\<exists>a b c d e f. introspectPorts (Config_ConfigurationParameters cr) = (ret [(''contrail-api'', a), (''contrail-schema'', b),
      (''contrail-device-manager'', c), (''contrail-svc-monitor'', d), (''contrail-analytics-api'', e),
      (''contrail-collector'', f)] :: ('s, go_error, (string, int) gomap) go)"
  unfolding introspectPorts_def Config_ConfigurationParameters_def Let_def
  by (auto simp: ptr_or_def deref_ptr_def fun_eq_iff split: option.splits)

lemma config_template_defaults:
  "\<exists>d. config_template_of n (Config_ConfigurationParameters cr) fab auth ips podIP hostname = (ret d :: ('s, go_error, config_template) go)"
proof -
  have "port_text (Some x) = (ret (Itoa x) :: ('s, go_error, string) go)" for x
    by (simp add: port_text_def fun_eq_iff)
  then show ?thesis
    unfolding config_template_of_def Config_ConfigurationParameters_def Let_def by (simp add: fun_eq_iff ret_def)
qed

lemma introspect_nodes_differ:
  assumes "ports = [(''contrail-api'', a), (''contrail-schema'', b), (''contrail-device-manager'', c),
      (''contrail-svc-monitor'', d), (''contrail-analytics-api'', e), (''contrail-collector'', f)]"
  shows "introspect_nodes in_order ports podIP \<noteq> introspect_nodes in_reverse ports podIP"
proof -
  have "last (hd (introspect_nodes in_order ports podIP)) = CHR ''i''"
    by (simp add: introspect_nodes_def range_of_def in_order_def assms)
  moreover have "last (hd (introspect_nodes in_reverse ports podIP)) = CHR ''r''"
    by (simp add: introspect_nodes_def range_of_def in_reverse_def assms)
  ultimately show ?thesis by force
qed

lemma same_data_lookup:
  assumes "same_data (Some x) (Some y)" "map_of x k = Some v"
  shows "map_of y k = Some v"
  using assms(1) map_of_SomeD [OF assms(2)] by (auto simp: same_data_def list_all_iff)

text \<open>The monitor file of a single pod.\<close>

lemma config_files_single:
  assumes m: "\<forall>m. \<exists>t. marshal m = Inr t \<and> unmarshal t = mo_APIServerList m" and auth: "auth s = (Ok a, s)"
    and ports: "introspectPorts (Config_ConfigurationParameters c) = (ret ports :: ('s, go_error, (string, int) gomap) go)"
  shows "\<exists>data mon. config_files marshal ords auth request n (Config_ConfigurationParameters c) fab l [p] (s :: 's) = (Ok data, s) \<and>
     map_of data (''monitorconfig.'' @ pod_PodIP p @ ''.yaml'') = Some mon \<and>
     unmarshal mon = introspect_nodes (ords 0) ports (pod_PodIP p)"
proof -
  let ?h = "entry_of (om_Annotations (pod_meta p)) ''hostname''"
  obtain mon where mon: "StatusMonitorConfig marshal ?h (introspect_nodes (ords 0) ports (pod_PodIP p)) (pod_PodIP p) ''config''
      (snd request) (fst request) (om_Name (pod_meta p)) s = (Ok mon, s)" "unmarshal mon = introspect_nodes (ords 0) ports (pod_PodIP p)"
    using m unfolding StatusMonitorConfig_def by (metis monitor_config.select_convs(1) ret_def sum_result_simps(1))
  obtain d where d: "config_template_of n (Config_ConfigurationParameters c) fab a [pod_PodIP p] (pod_PodIP p) ?h = (ret d :: ('s, go_error, config_template) go)"
    using config_template_defaults by blast
  have "config_files marshal ords auth request n (Config_ConfigurationParameters c) fab l [p] s =
      (Ok (fold (\<lambda>(k, v). AList.update k v) (config_pod_files l d (pod_PodIP p) mon) []), s)"
    by (simp add: config_files_def Let_def bindM_def auth ports mon(1) d ret_def)
  then show ?thesis using mon(2) monitor_file by blast
qed

section \<open>How a reconciliation of Config ends\<close>

lemma Config_SetInstanceActive_ends:
  assumes "Config_SetInstanceActive stss kc sts request c s = (Ok c', s')"
  shows "\<exists>sts' u. kc_Get stss (fst request, om_Name (sts_meta sts)) s = (Ok sts', u) \<and>
     c' = set_cr_active (acceptable_replicas (sts_Replicas sts') \<le> sts_ReadyReplicas sts') c \<and>
     kc_StatusUpdate kc c' u = (Ok (), s')"
  using assms by (auto simp: Config_SetInstanceActive_def Let_def elim!: bindM_OkE)

lemma acceptable_replicas_quorum:
  assumes "0 \<le> r"
  shows "acceptable_replicas (Some r) \<le> up \<longleftrightarrow> r < 2 * up"
  using assms by (auto simp: acceptable_replicas_def)

text \<open>The flag of a changed configuration stays as it is until the comparison at the end.\<close>

lemma config_changed_kept:
  "config_pods lib ord marshal ords cy cls ocs kc request c ps m s = (Ok c', s') \<Longrightarrow>
     st_ConfigChanged (cr_status c') = st_ConfigChanged (cr_status c)"
  "SetEndpointInStatus kc c ip s = (Ok c', s') \<Longrightarrow>
     st_ConfigChanged (cr_status c') = st_ConfigChanged (cr_status c)"
  "st_ConfigChanged (cr_status (active_or_false c)) = st_ConfigChanged (cr_status c)"
  "st_ConfigChanged (cr_status (set_cr_active x c)) = st_ConfigChanged (cr_status c)"
  by (auto simp: config_pods_def Config_ManageNodeStatus_def SetEndpointInStatus_def Let_def set_cr_nodes_def
      active_or_false_def set_cr_active_def elim!: bindM_OkE)

lemma update_config_changed_result:
  assumes "update_config_changed kc key current c s = (Ok c', s')"
  shows "if snd current
    then \<exists>new. tryM (kc_Get kc key) s = (Ok new, s') \<and> st_ConfigChanged (cr_status c') =
           Some (\<not> same_data (cm_Data (fst current)) (case new of Inr cm \<Rightarrow> cm_Data cm | Inl _ \<Rightarrow> None))
    else s' = s \<and> st_ConfigChanged (cr_status c') = st_ConfigChanged (cr_status c)"
  using assms by (auto simp: update_config_changed_def Let_def elim!: bindM_OkE)

text \<open>The data of a configuration map that was read, as a map; none if it could not be read.\<close>

definition config_data :: "go_error + config_map \<Rightarrow> string \<rightharpoonup> string" where
  "config_data r = map_of (case r of Inr cm \<Rightarrow> map_entries (cm_Data cm) | Inl _ \<Rightarrow> [])"

lemma config_changed_decides:
  assumes maps: "\<forall>k t cm u. kc_Get kc k t = (Ok cm, u) \<longrightarrow> go_map (map_entries (cm_Data cm))"
    and cur: "CurrentConfigMapExists kc name request t0 = (Ok current, t1)"
    and upd: "update_config_changed kc (fst request, name) current c t2 = (Ok c', t3)"
  shows "\<exists>old. tryM (kc_Get kc (fst request, name)) t0 = (Ok old, t1) \<and>
     (if config_data old \<noteq> Map.empty
      then \<exists>new. tryM (kc_Get kc (fst request, name)) t2 = (Ok new, t3) \<and>
             (st_ConfigChanged (cr_status c') = Some True \<longleftrightarrow> config_data new \<noteq> config_data old)
      else t3 = t2 \<and> (st_ConfigChanged (cr_status c') = Some True \<longleftrightarrow> st_ConfigChanged (cr_status c) = Some True))"
proof -
  from cur obtain old where old: "tryM (kc_Get kc (fst request, name)) t0 = (Ok old, t1)"
    and current: "current = (case old of Inr cm \<Rightarrow> (cm, map_entries (cm_Data cm) \<noteq> [])
       | Inl _ \<Rightarrow> (\<lparr>cm_meta = new_meta, cm_Data = None\<rparr>, False))"
    by (auto simp: CurrentConfigMapExists_def elim!: bindM_OkE)
  have has: "snd current \<longleftrightarrow> config_data old \<noteq> Map.empty"
    by (auto simp: current config_data_def split: sum.splits)
  show ?thesis
  proof (cases "snd current")
    case True
    with update_config_changed_result [OF upd] obtain new where
      new: "tryM (kc_Get kc (fst request, name)) t2 = (Ok new, t3)"
      and flag: "st_ConfigChanged (cr_status c') =
         Some (\<not> same_data (cm_Data (fst current)) (case new of Inr cm \<Rightarrow> cm_Data cm | Inl _ \<Rightarrow> None))" by auto
    from True current obtain cm where cm: "old = Inr cm" "fst current = cm" "map_entries (cm_Data cm) \<noteq> []"
      by (cases old) auto
    with old have "kc_Get kc (fst request, name) t0 = (Ok cm, t1)" by (simp add: tryM_Ok_iff)
    with maps have x: "go_map (map_entries (cm_Data cm))" by blast
    have y: "go_map (map_entries (cm_Data cm'))" if "new = Inr cm'" for cm'
    proof -
      from new that have "kc_Get kc (fst request, name) t2 = (Ok cm', t3)" by (simp add: tryM_Ok_iff)
      with maps show ?thesis by blast
    qed
    have "same_data (cm_Data cm) (case new of Inr cm \<Rightarrow> cm_Data cm | Inl _ \<Rightarrow> None) \<longleftrightarrow>
        config_data new = config_data old"
    proof (cases "\<exists>cm' es. new = Inr cm' \<and> cm_Data cm' = Some es")
      case True
      then obtain cm' es where new': "new = Inr cm'" "cm_Data cm' = Some es" by blast
      from cm(3) obtain ds where ds: "cm_Data cm = Some ds" by (auto simp: map_entries_def split: option.splits)
      from same_data_iff [of ds es] x y [OF new'(1)] new' ds cm(1) show ?thesis
        by (auto simp: config_data_def map_entries_def)
    next
      case False
      with cm show ?thesis
        by (cases new) (auto simp: config_data_def map_entries_def same_data_def split: option.splits)
    qed
    with True has old new flag cm show ?thesis by auto
  next
    case False
    with update_config_changed_result [OF upd] has old show ?thesis by auto
  qed
qed

lemma Config_Reconcile_ends:
  assumes names: "names_kept lib (sv_sts cls)"
    and get: "kc_Get kc request s = (Ok c, s0)" and alive: "\<not> om_Deleted (cr_meta c)"
    and run: "Config_Reconcile lib ord ord1 ord2 marshal ords cy ex cls ocs kc request s = (Ok b, s')"
  shows "\<not> b \<and> config_dependencies_active ocs c (fst request) s0 = (Ok False, s')
     \<or> (\<exists>t svc t0 current t1 t2 t3 c1 c2 sts c' u.
          config_dependencies_active ocs c (fst request) s0 = (Ok True, t) \<and>
          Service_EnsureExists lib (sv_service cls) ord1 ord2 (Kubernetes_Service (snd request @ ''-config'') ''ClusterIP''
            config_service_ports ''config'' (cr_meta c)) t = (Ok svc, t0) \<and>
          CurrentConfigMapExists (sv_configmap cls) (snd request @ ''-config-configmap'') request t0 = (Ok current, t1) \<and>
          st_ConfigChanged (cr_status c1) = st_ConfigChanged (cr_status c) \<and>
          update_config_changed (sv_configmap cls) (fst request, snd request @ ''-config-configmap'') current c1 t2 = (Ok c2, t3) \<and>
          kc_Get (sv_sts cls) (fst request, sts_name request ''config'') t3 = (Ok sts, u) \<and>
          c' = set_cr_active (acceptable_replicas (sts_Replicas sts) \<le> sts_ReadyReplicas sts) (active_or_false c2) \<and>
          kc_StatusUpdate kc c' u = (Ok (), s') \<and> b = (st_ConfigChanged (cr_status c') = Some True))"
proof -
  let ?cm = "snd request @ ''-config-configmap''"
  from run alive obtain act t where act: "config_dependencies_active ocs c (fst request) s0 = (Ok act, t)"
    and rest: "\<not> act \<longrightarrow> \<not> b \<and> s' = t"
    and go: "act \<longrightarrow> (\<exists>svc t0 current t1 c1 t2 c2 t3 sts c' u.
          Service_EnsureExists lib (sv_service cls) ord1 ord2 (Kubernetes_Service (snd request @ ''-config'') ''ClusterIP''
            config_service_ports ''config'' (cr_meta c)) t = (Ok svc, t0) \<and>
          CurrentConfigMapExists (sv_configmap cls) ?cm request t0 = (Ok current, t1) \<and>
          st_ConfigChanged (cr_status c1) = st_ConfigChanged (cr_status c) \<and>
          update_config_changed (sv_configmap cls) (fst request, ?cm) current c1 t2 = (Ok c2, t3) \<and>
          om_Name (sts_meta sts) = sts_name request ''config'' \<and>
          Config_SetInstanceActive (sv_sts cls) kc sts request (active_or_false c2) t3 = (Ok c', s') \<and>
          b = (st_ConfigChanged (cr_status c') = Some True))"
    unfolding Config_Reconcile_def Let_def
    by (auto simp: get_instance_live [OF get] elim!: bindM_OkE split: if_splits prod.splits
        dest!: PrepareSTS_name [OF names] config_intended_meta CreateSTS_name [OF names] config_changed_kept(1,2)) blast+
  show ?thesis
  proof (cases act)
    case True
    with go obtain svc t0 current t1 c1 t2 c2 t3 sts c' where
      1: "Service_EnsureExists lib (sv_service cls) ord1 ord2 (Kubernetes_Service (snd request @ ''-config'') ''ClusterIP''
            config_service_ports ''config'' (cr_meta c)) t = (Ok svc, t0)"
      "CurrentConfigMapExists (sv_configmap cls) ?cm request t0 = (Ok current, t1)"
      "st_ConfigChanged (cr_status c1) = st_ConfigChanged (cr_status c)"
      "update_config_changed (sv_configmap cls) (fst request, ?cm) current c1 t2 = (Ok c2, t3)"
      "om_Name (sts_meta sts) = sts_name request ''config''"
      and set: "Config_SetInstanceActive (sv_sts cls) kc sts request (active_or_false c2) t3 = (Ok c', s')"
      and b: "b = (st_ConfigChanged (cr_status c') = Some True)" by blast
    from Config_SetInstanceActive_ends [OF set, unfolded 1(5)] obtain sts' u where
      2: "kc_Get (sv_sts cls) (fst request, sts_name request ''config'') t3 = (Ok sts', u)"
      "c' = set_cr_active (acceptable_replicas (sts_Replicas sts') \<le> sts_ReadyReplicas sts') (active_or_false c2)"
      "kc_StatusUpdate kc c' u = (Ok (), s')" by blast
    from act True have "config_dependencies_active ocs c (fst request) s0 = (Ok True, t)" by simp
    with 1(1-4) 2 b show ?thesis by blast
  qed (use act rest in auto)
qed

section \<open>The job of the CNI plugin\<close>

lemma PrepareJob_meta:
  assumes "\<forall>owner m m'. SetControllerReference lib owner m = Inr m' \<longrightarrow> om_Name m' = om_Name m \<and> om_Namespace m' = om_Namespace m"
    and "PrepareJob lib job c request s = (Ok job', s')"
  shows "key_of (job_meta job') = (fst request, snd request @ ''-contrailcni-job'')"
  using assms by (auto simp: PrepareJob_def Let_def go_simps key_of_def)

lemma cni_job_deletes:
  assumes "kc_Get (cnl_job ocs) (key_of (job_meta job)) t = (Ok j, t)" "job_Completions j = Some k" "k \<noteq> n"
    and "cni_job lib ocs request c n job t = (Ok r, s')"
  shows "r = Some 5 \<and> (\<exists>d. kc_DeleteWith (cnl_job ocs) ''Background''
     (new_meta\<lparr>om_Name := om_Name (job_meta job), om_Namespace := om_Namespace (job_meta job)\<rparr>) t = (d, s') \<and>
     (d = Ok () \<or> (\<exists>e. d = Err e)))"
  using assms by (auto simp: cni_job_def tryM_def bindM_def split: prod.splits outcome.splits)

end
