(* ===== verification/InfraProps.thy ===== *)
theory InfraProps
  imports InfraLaws ServiceProps
begin

text \<open>
  The properties of the controllers of the Fernet keys, of Config and of the CNI plugin.
\<close>

section \<open>A cluster in memory for the key manager\<close>

text \<open>
  The secrets are stored; a counter gives the random bytes; the resource never changes but for the
  name of the secret in its status.
\<close>

record fernet_state =
  fs_counter :: nat
  fs_status :: string
  fs_secrets :: "k_secret mem_objects"

definition mem_keys :: "(k_secret, fernet_state) kind_client" where
  "mem_keys = mem_client fs_secrets (\<lambda>v s. s\<lparr>fs_secrets := v\<rparr>) [] sec_meta"

definition mem_rnd :: "(fernet_state, go_error, string) go" where
  "mem_rnd s = (Ok [char_of (fs_counter s)], s\<lparr>fs_counter := Suc (fs_counter s)\<rparr>)"

definition mem_managers :: "fernet_key_manager \<Rightarrow> (fernet_key_manager, fernet_state) kind_client" where
  "mem_managers m =
     (mem_client (\<lambda>s. Map.empty) (\<lambda>v s. s) [] fk_meta)
       \<lparr>kc_Get := (\<lambda>k s. (if k = key_of (fk_meta m) then Ok (m\<lparr>fk_SecretName := fs_status s\<rparr>) else Err mem_NotFound, s)),
        kc_StatusUpdate := (\<lambda>x s. (Ok (), s\<lparr>fs_status := fk_SecretName x\<rparr>))\<rparr>"

definition ex_fernet :: fernet_key_manager where
  "ex_fernet = \<lparr>fk_meta = ex_meta ''keys'', fk_TokenExpiration = 0, fk_TokenAllowExpiredWindow = 0,
     fk_RotationInterval = 0, fk_SecretName = []\<rparr>"

lemma ex_fernet_times: "rotation_times (ex_fernet\<lparr>fk_SecretName := n\<rparr>) = (86400, 172800, 259200)"
  by (simp add: rotation_times_def ex_fernet_def int_or_def int64_of_def)

lemma ex_active_keys: "maxActiveKeys_of (86400, 172800, 259200) t = (Ok 3, t)"
  by (simp add: maxActiveKeys_of_def int64_of_def signed_divide_int_def ret_def)

interpretation memf: fernet_server mem_lib mem_keys fs_secrets mem_rnd in_order "mem_managers ex_fernet"
  "(''ns'', ''keys'')" "''ns''" "(86400, 172800, 259200)" 3
proof (intro fernet_server.intro key_repository.intro fernet_server_axioms.intro key_repository_axioms.intro)
  show "store_server mem_lib mem_keys sec_meta fs_secrets"
    unfolding mem_keys_def by (rule mem_client_store) simp
  show "range_perm in_order" by (rule range_perm_in_order)
qed (auto simp: mem_rnd_def mem_managers_def ex_fernet_times ex_active_keys ex_fernet_def ex_meta_def new_meta_def
  rotation_times_def int_or_def int64_of_def split: if_splits)

section \<open>The keys\<close>

definition ex_keys :: k_secret where
  "ex_keys = \<lparr>sec_meta = ex_meta ''fernet-keys-repository'', sec_Data = Some [(''0'', ''s''), (''1'', ''p'')],
     sec_StringData = None, sec_Type = []\<rparr>"

definition ex_keys_state :: fernet_state where
  "ex_keys_state = \<lparr>fs_counter = 0, fs_status = [], fs_secrets = [(''ns'', ''fernet-keys-repository'') \<mapsto> ex_keys]\<rparr>"

lemma Itoa_1: "Itoa 1 = ''1''"
  by (simp add: Itoa_def nat_to_dec.simps digit_char_def char_of_eq_iff)

lemma ex_keys_repo: "key_repo (map_entries (sec_Data ex_keys)) 1 1"
  by (auto simp: key_repo_def ex_keys_def map_entries_def go_map_def Itoa_0 Itoa_1)

lemma ex_keys_state_simps:
  "fs_secrets ex_keys_state (''ns'', ''fernet-keys-repository'') = Some ex_keys"
  "key_of (sec_meta ex_keys) = (''ns'', ''fernet-keys-repository'')"
  "sec_Data ex_keys \<noteq> None"
  by (simp_all add: ex_keys_state_def ex_keys_def ex_meta_def new_meta_def key_of_def)

lemma ex_fernet_run:
  "\<exists>s'. Fernet_Reconcile mem_lib mem_keys (mem_managers ex_fernet) mem_rnd in_order (''ns'', ''keys'') ex_keys_state =
     (Ok (Some 259200000000000), s')"
proof -
  have get: "kc_Get (mem_managers ex_fernet) (''ns'', ''keys'') s = (Ok (ex_fernet\<lparr>fk_SecretName := fs_status s\<rparr>), s)" for s
    by (simp add: mem_managers_def ex_fernet_def ex_meta_def new_meta_def key_of_def)
  have m: "\<not> om_Deleted (fk_meta ex_fernet)" "om_Namespace (fk_meta ex_fernet) = ''ns''"
    "key_of (fk_meta ex_fernet) = (''ns'', ''keys'')"
    by (simp_all add: ex_fernet_def ex_meta_def new_meta_def key_of_def)
  have ens: "\<exists>t. ensureKeysRepoSecretExists mem_lib mem_keys mem_rnd ''fernet-keys-repository'' ''fernetKeyManager''
      (fk_meta ex_fernet) ex_keys_state = (Ok (), t) \<and> fs_secrets t (''ns'', ''fernet-keys-repository'') = Some ex_keys"
    using ex_keys_state_simps m
    by (simp add: ensureKeysRepoSecretExists_def Secret_EnsureExists_def createNewOrGetExistingSecret_def mem_keys_def mem_client_def
        fernet_FillSecret_def bindM_def tryM_def ret_def)
  have rot: "\<exists>t'. bindM (getSecret mem_keys ''fernet-keys-repository'' ''ns'') (\<lambda>sc. rotateKeys mem_keys mem_rnd in_order sc 3) t = (Ok (), t')"
    if "fs_secrets t (''ns'', ''fernet-keys-repository'') = Some ex_keys" for t
    using that by (simp add: bindM_def getSecret_def rotateKeys_eq [OF ex_keys_repo range_perm_in_order] generateKey_def mem_rnd_def
        mem_keys_def mem_client_def ret_def)
  from ens obtain t where e: "ensureKeysRepoSecretExists mem_lib mem_keys mem_rnd ''fernet-keys-repository'' ''fernetKeyManager''
      (fk_meta ex_fernet) ex_keys_state = (Ok (), t)" and "fs_secrets t (''ns'', ''fernet-keys-repository'') = Some ex_keys" by blast
  from rot [OF this(2)] obtain sc w t' where "getSecret mem_keys ''fernet-keys-repository'' ''ns'' t = (Ok sc, w)"
    "rotateKeys mem_keys mem_rnd in_order sc 3 w = (Ok (), t')" by (auto elim!: bindM_OkE)
  with e show ?thesis
    by (simp add: Fernet_Reconcile_def bindM_def tryM_def ret_def get m Let_def ex_fernet_times ex_active_keys mem_managers_def
        int64_of_def)
qed

text \<open>
  C32: a reconciliation of a key manager that does not find its resource gone rotates the keys.  In a
  repository with the keys 0 (staged) and \<open>lo\<close> to \<open>hi\<close> (primary) the staged key becomes the primary
  key \<open>hi + 1\<close>, a new key is staged, every other key stays as it is, and the oldest one alone is
  removed when the keys would be more than the bound.  So their number grows up to the bound and
  never falls, not even when the bound has become smaller.
\<close>

theorem Fernet_Reconcile_rotates:
  assumes srv: "fernet_server lib kc objects rnd ord kcf request ns ts maxActiveKeys"
    and secret: "objects s (ns, ''fernet-keys-repository'') = Some sc" "key_of (sec_meta sc) = (ns, ''fernet-keys-repository'')"
    and repo: "key_repo (map_entries (sec_Data sc)) lo hi" "hi + 1 < 2 ^ 63"
    and run: "Fernet_Reconcile lib kc kcf rnd ord request s = (Ok (Some delay), s')"
  shows "\<exists>sc' lo' newKey. objects s' (ns, ''fernet-keys-repository'') = Some sc' \<and>
     key_repo (map_entries (sec_Data sc')) lo' (hi + 1) \<and>
     lo' = (if hi - lo + 3 > maxActiveKeys then lo + 1 else lo) \<and>
     key_at (map_entries (sec_Data sc')) 0 = Some newKey \<and>
     key_at (map_entries (sec_Data sc')) (hi + 1) = key_at (map_entries (sec_Data sc)) 0 \<and>
     (\<forall>i. lo' \<le> i \<and> i \<le> hi \<longrightarrow> key_at (map_entries (sec_Data sc')) i = key_at (map_entries (sec_Data sc)) i) \<and>
     int (length (map_entries (sec_Data sc'))) =
       (if int (length (map_entries (sec_Data sc))) + 1 > maxActiveKeys then int (length (map_entries (sec_Data sc)))
        else int (length (map_entries (sec_Data sc))) + 1)"
proof -
  let ?keys = "map_entries (sec_Data sc)" and ?lo = "next_lo maxActiveKeys lo hi"
  have k: "key_repository lib kc objects rnd ord" using srv by (rule fernet_server.axioms(1))
  note ra = key_repository.repo_at_def [OF k]
  have "key_repository.repo_at objects (ns, ''fernet-keys-repository'') s sc lo hi" using secret repo by (simp add: ra)
  from fernet_server.reconcile_step [OF srv this repo(2) run] obtain newKey where
    n: "objects s' (ns, ''fernet-keys-repository'') = Some (sc\<lparr>sec_Data := Some (rotated maxActiveKeys lo hi newKey ?keys)\<rparr>)"
      "key_repo (rotated maxActiveKeys lo hi newKey ?keys) ?lo (hi + 1)"
    by (auto simp: ra)
  have "?lo \<le> hi + 1" using repo(1) fernet_server.keys_min [OF srv] by (auto simp: key_repo_def next_lo_def)
  with rotated_key_at [OF repo, where maxActiveKeys = maxActiveKeys and newKey = newKey] n key_repo_length [OF repo(1)] key_repo_length [OF n(2)]
  show ?thesis
    by (intro exI [of _ "sc\<lparr>sec_Data := Some (rotated maxActiveKeys lo hi newKey ?keys)\<rparr>"] exI [of _ ?lo] exI [of _ newKey])
      (auto simp: next_lo_def)
qed

theorem Fernet_Reconcile_rotates_witness:
  "\<exists>sc' s'. Fernet_Reconcile mem_lib mem_keys (mem_managers ex_fernet) mem_rnd in_order (''ns'', ''keys'') ex_keys_state =
     (Ok (Some 259200000000000), s') \<and>
     fs_secrets s' (''ns'', ''fernet-keys-repository'') = Some sc' \<and> key_at (map_entries (sec_Data sc')) 2 = Some ''s'' \<and>
     key_at (map_entries (sec_Data sc')) 1 = Some ''p''"
proof -
  from ex_fernet_run obtain s' where run: "Fernet_Reconcile mem_lib mem_keys (mem_managers ex_fernet) mem_rnd in_order
      (''ns'', ''keys'') ex_keys_state = (Ok (Some 259200000000000), s')" by blast
  have k: "key_at (map_entries (sec_Data ex_keys)) 0 = Some ''s''" "key_at (map_entries (sec_Data ex_keys)) 1 = Some ''p''"
    by (simp_all add: key_at_def ex_keys_def map_entries_def Itoa_0 Itoa_1)
  from Fernet_Reconcile_rotates [OF memf.fernet_server_axioms ex_keys_state_simps(1,2) ex_keys_repo _ run] k run
  show ?thesis by auto
qed

text \<open>
  C33: keys outlive their tokens.  With the times of the resource (expiration of a token, window for
  expired tokens, interval of the rotation, none negative, the interval positive) the key that is
  the primary one now is still in the repository, unchanged, after every number of reconciliations
  whose intervals are shorter than the life of a token that was signed with it just before the first
  of them, and the number of keys stays in its bound.
\<close>

theorem fernet_keys_outlive_tokens:
  assumes srv: "fernet_server lib kc objects rnd ord kcf request ns (te, aw, ri) maxActiveKeys"
    and times: "0 \<le> te" "0 \<le> aw" "0 < ri" "te + aw + ri < 2 ^ 62"
    and secret: "objects s (ns, ''fernet-keys-repository'') = Some sc" "key_of (sec_meta sc) = (ns, ''fernet-keys-repository'')"
    and repo: "key_repo (map_entries (sec_Data sc)) lo hi" "1 \<le> hi" "hi + int n < 2 ^ 63"
    and life: "int n * ri < te + aw + ri"
    and run: "reconciliations lib kc kcf rnd ord request n s = (Ok u, s')"
  shows "\<exists>sc'. objects s' (ns, ''fernet-keys-repository'') = Some sc' \<and>
     key_at (map_entries (sec_Data sc')) hi = key_at (map_entries (sec_Data sc)) hi \<and>
     int (length (map_entries (sec_Data sc'))) \<le> max (int (length (map_entries (sec_Data sc)))) maxActiveKeys"
proof -
  have k: "key_repository lib kc objects rnd ord" using srv by (rule fernet_server.axioms(1))
  note ra = key_repository.repo_at_def [OF k]
  from maxActiveKeys_enough [OF times, of s] fernet_server.active [OF srv, of s]
  have m: "te + aw \<le> (maxActiveKeys - 2) * ri" by auto
  have "int n * ri < (maxActiveKeys - 1) * ri" using m life by (simp add: algebra_simps)
  then have "int n < maxActiveKeys - 1" using times(3) by simp
  moreover have lo: "lo \<le> hi" using repo(1,2) by (auto simp: key_repo_def)
  ultimately have b: "hi + int n \<le> hi + maxActiveKeys - 2" by simp
  have "key_repository.repo_at objects (ns, ''fernet-keys-repository'') s sc lo hi" using secret repo by (simp add: ra)
  from fernet_server.reconciliations_keep [OF srv this repo(3) run lo order.refl b] obtain sc' lo' hi' where
    "objects s' (ns, ''fernet-keys-repository'') = Some sc'" and r: "key_repo (map_entries (sec_Data sc')) lo' hi'"
    and "hi' - lo' \<le> max (hi - lo) (maxActiveKeys - 2)"
    and "key_at (map_entries (sec_Data sc')) hi = key_at (map_entries (sec_Data sc)) hi" by (auto simp: ra)
  with key_repo_length [OF repo(1)] key_repo_length [OF r] show ?thesis by auto
qed

theorem fernet_keys_outlive_tokens_witness:
  "\<exists>sc' s'. reconciliations mem_lib mem_keys (mem_managers ex_fernet) mem_rnd in_order (''ns'', ''keys'') 1 ex_keys_state = (Ok (), s') \<and>
     fs_secrets s' (''ns'', ''fernet-keys-repository'') = Some sc' \<and> key_at (map_entries (sec_Data sc')) 1 = Some ''p''"
proof -
  from ex_fernet_run obtain s' where run: "reconciliations mem_lib mem_keys (mem_managers ex_fernet) mem_rnd in_order
      (''ns'', ''keys'') 1 ex_keys_state = (Ok (), s')" by (auto simp: bindM_def)
  have k: "key_at (map_entries (sec_Data ex_keys)) 1 = Some ''p''"
    by (simp add: key_at_def ex_keys_def map_entries_def Itoa_1)
  from fernet_keys_outlive_tokens [OF memf.fernet_server_axioms _ _ _ _ ex_keys_state_simps(1,2) ex_keys_repo _ _ _ run] k run
  show ?thesis by auto
qed

section \<open>Config\<close>

text \<open>
  C35: \<open>WaitForPeerPods\<close> that succeeds gives the label \<open>peers_ready\<close> to exactly those pods of the
  instance before which, in the order of their names, all containers of all pods are ready; it
  changes nothing else, neither of these pods nor of any other.
\<close>

theorem WaitForPeerPods_labels:
  assumes srv: "store_server lib kc pod_meta objects"
    and list: "kc_List kc (fst request) [(''config'', snd request)] s = (Ok pods, s)"
    and names: "distinct (map (\<lambda>p. om_Name (pod_meta p)) pods)"
    and stored: "\<forall>p \<in> set pods. objects s (key_of (pod_meta p)) = Some p"
    and run: "WaitForPeerPods kc request s = (Ok u, s')"
  shows "(\<forall>p \<in> set pods. objects s' (key_of (pod_meta p)) =
            Some (if \<forall>q \<in> set pods. om_Name (pod_meta q) < om_Name (pod_meta p) \<longrightarrow> list_all cs_Ready (pod_ContainerStatuses q)
                  then with_label ''peers_ready'' ''true'' p else p)) \<and>
         (\<forall>k. k \<notin> (\<lambda>p. key_of (pod_meta p)) ` set pods \<longrightarrow> objects s' k = objects s k)"
proof -
  let ?name = "\<lambda>p. om_Name (pod_meta p)" and ?key = "\<lambda>p. key_of (pod_meta p)"
  define ps where "ps = sort_key ?name pods"
  have set: "set ps = set pods" and len: "length ps = length pods" by (simp_all add: ps_def)
  have inj: "inj_on ?name (set pods)" "distinct ps" using names by (simp_all add: distinct_map ps_def)
  then have "inj_on ?key (set ps)" unfolding set by (auto simp: inj_on_def key_of_def)
  with inj have d: "distinct (map ?key ps)" by (simp add: distinct_map)
  from run list have "forM [0..<length ps] (\<lambda>idx. if peers_ready (take idx ps) then allow_start kc (ps ! idx) else ret ()) s = (Ok u, s')"
    unfolding WaitForPeerPods_def bindM_def ps_def Let_def by simp
  from WaitForPeerPods_objects [OF srv d _ this] stored set
  have o: "objects s' = (\<lambda>k. if k \<in> (\<lambda>i. ?key (ps ! i)) ` {i. i < length ps \<and> peers_ready (take i ps)}
     then map_option (with_label ''peers_ready'' ''true'') (objects s k) else objects s k)" by blast
  show ?thesis
  proof (intro conjI ballI allI impI)
    fix p assume p: "p \<in> set pods"
    then obtain i where i: "i < length ps" "p = ps ! i" by (metis in_set_conv_nth set)
    have "?key p \<in> (\<lambda>i. ?key (ps ! i)) ` {i. i < length ps \<and> peers_ready (take i ps)} \<longleftrightarrow> peers_ready (take i ps)"
      using d i by (auto simp: distinct_conv_nth)
    moreover have "peers_ready (take i ps) \<longleftrightarrow> (\<forall>q \<in> set pods. ?name q < ?name p \<longrightarrow> list_all cs_Ready (pod_ContainerStatuses q))"
      using peers_ready_names [OF names, of i] i by (simp add: ps_def pod_ready_def)
    ultimately show "objects s' (?key p) = Some (if \<forall>q \<in> set pods. ?name q < ?name p \<longrightarrow> list_all cs_Ready (pod_ContainerStatuses q)
                  then with_label ''peers_ready'' ''true'' p else p)"
      unfolding o using stored p by auto
  next
    fix k assume "k \<notin> ?key ` set pods"
    then show "objects s' k = objects s k" unfolding o set [symmetric] by auto
  qed
qed

definition ex_config_pod :: "string \<Rightarrow> bool \<Rightarrow> pod" where
  "ex_config_pod n r = \<lparr>pod_meta = (ex_meta n)\<lparr>om_Labels := Some []\<rparr>, pod_HostNetwork = True, pod_Hostname = [], pod_NodeName = ''n1'',
     pod_Phase = ''Running'', pod_PodIP = ''10.0.0.1'', pod_ContainerStatuses = [\<lparr>cs_Name = ''api'', cs_Ready = r, cs_Running = True, cs_Terminated = False\<rparr>],
     pod_InitContainerStatuses = None, pod_Conditions = []\<rparr>"

theorem WaitForPeerPods_labels_witness:
  "\<exists>s'. WaitForPeerPods (mem_client (\<lambda>s. s) (\<lambda>v s. v) [(''ns'', ''b''), (''ns'', ''a'')] pod_meta) (''ns'', ''config1'')
       [(''ns'', ''a'') \<mapsto> ex_config_pod ''a'' False, (''ns'', ''b'') \<mapsto> ex_config_pod ''b'' True] = (Ok (), s') \<and>
     s' (''ns'', ''a'') = Some (with_label ''peers_ready'' ''true'' (ex_config_pod ''a'' False)) \<and>
     s' (''ns'', ''b'') = Some (ex_config_pod ''b'' True)"
proof -
  let ?kc = "mem_client (\<lambda>s. s) (\<lambda>v s. v) [(''ns'', ''b''), (''ns'', ''a'')] pod_meta"
  let ?s = "[(''ns'', ''a'') \<mapsto> ex_config_pod ''a'' False, (''ns'', ''b'') \<mapsto> ex_config_pod ''b'' True]"
  let ?pods = "[ex_config_pod ''b'' True, ex_config_pod ''a'' False]"
  have m: "om_Name (pod_meta (ex_config_pod n r)) = n" "key_of (pod_meta (ex_config_pod n r)) = (''ns'', n)"
    "om_Labels (pod_meta (ex_config_pod n r)) = Some []" "list_all cs_Ready (pod_ContainerStatuses (ex_config_pod n r)) = r" for n r
    by (simp_all add: ex_config_pod_def ex_meta_def new_meta_def key_of_def)
  have list: "kc_List ?kc (fst (''ns'', ''config1'')) [(''config'', snd (''ns'', ''config1''))] ?s = (Ok ?pods, ?s)"
    by (simp add: mem_client_def List.map_filter_simps)
  have lt: "''a'' < ''b''" "\<not> ''b'' < ''a''" "''a'' \<le> ''b''" "\<not> ''b'' \<le> ''a''" by code_simp+
  obtain s' where run: "WaitForPeerPods ?kc (''ns'', ''config1'') ?s = (Ok (), s')"
    using list by (simp add: WaitForPeerPods_def bindM_def Let_def m lt insort_key.simps peers_ready_def allow_start_def set_label_def
        mem_client_def ret_def upt_rec)
  from WaitForPeerPods_labels [OF mems.store_server_axioms list _ _ run] run show ?thesis
    by (simp add: m lt)
qed

text \<open>
  C36: the containers of the stateful set of Config.  A node manager is left out when the node managers
  are switched off and when it has no entry in the configuration of the containers; all other
  containers are kept, in their order.
\<close>

theorem config_containers:
  assumes run: "config_intended_sts ord account request c configMap secretCertificates sts0 s = (Ok sts, s')"
    and d: "distinct (container_names sts0)"
  shows "container_names sts =
     filter (\<lambda>n. \<not> (n \<in> {''nodemanagerconfig'', ''nodemanageranalytics''} \<and>
         (cf_NodeManager (cr_conf c) = Some False \<or> GetContainerFromList n (cf_Containers (cr_conf c)) = None)))
       (container_names sts0)"
  by (rule config_intended_names [OF run d])

definition ex_config_sts :: stateful_set where
  "ex_config_sts = update_spec (\<lambda>sp. sp\<lparr>pspec_Containers := [new_pod_container\<lparr>pco_Name := ''nodemanagerconfig''\<rparr>,
     new_pod_container\<lparr>pco_Name := ''sidecar''\<rparr>], pspec_InitContainers := []\<rparr>) config_GetSTS"

theorem config_containers_witness:
  "\<exists>sts. config_intended_sts in_order (ret ()) (''ns'', ''config1'') zero_config \<lparr>cm_meta = ex_meta ''cm'', cm_Data = None\<rparr> ex_certs
       ex_config_sts () = (Ok sts, ()) \<and> container_names sts = [''sidecar'']"
proof -
  have n: "container_names ex_config_sts = [''nodemanagerconfig'', ''sidecar'']"
    "pspec_InitContainers (pt_Spec (sts_Template ex_config_sts)) = []"
    "pspec_Containers (pt_Spec (sts_Template ex_config_sts)) = [new_pod_container\<lparr>pco_Name := ''nodemanagerconfig''\<rparr>,
       new_pod_container\<lparr>pco_Name := ''sidecar''\<rparr>]"
    by (simp_all add: container_names_def ex_config_sts_def)
  have cc: "config_configure_container name [] sn False False (new_pod_container\<lparr>pco_Name := m\<rparr>) =
      (ret (new_pod_container\<lparr>pco_Name := m\<rparr>) :: (unit, go_error, pod_container) go)"
    if "m = ''nodemanagerconfig'' \<or> m = ''sidecar''" for name sn m
    using that by (elim disjE) (simp_all add: config_configure_container_def)
  let ?cm = "\<lparr>cm_meta = ex_meta ''cm'', cm_Data = None\<rparr>"
  have z: "cf_NodeManager (cr_conf zero_config) = None" "cf_Containers (cr_conf zero_config) = []"
    by (simp_all add: zero_config_def no_config_configuration_def)
  have "\<exists>sts. config_intended_sts in_order (ret ()) (''ns'', ''config1'') zero_config ?cm ex_certs ex_config_sts () = (Ok sts, ())"
    using n by (simp add: config_intended_sts_def Let_def z remove_if_def update_containers_def
        update_init_containers_def cc remove_containers_filter service_volumes_def AddVolumesToIntendedSTS_def
        AddSecretVolumesToIntendedSTS_def add_volumes_def set_anti_affinity_def set_service_account_def)
  then obtain sts where run: "config_intended_sts in_order (ret ()) (''ns'', ''config1'') zero_config ?cm ex_certs ex_config_sts () = (Ok sts, ())"
    by blast
  from config_containers [OF run] n z run show ?thesis by auto
qed

text \<open>
  C37: the configuration of Config is not a function of what it is made from.  The monitor file lists the
  introspection ports in the order in which Go visits a map, so that for the same pod, nodes and
  resource two reconciliations can write data that the comparison at the end of the reconciliation
  takes for a change, which queues the request again.
\<close>

theorem config_files_order:
  fixes s :: 's
  assumes "\<forall>m. \<exists>t. marshal m = Inr t \<and> unmarshal t = mo_APIServerList m" and "auth s = (Ok a, s)"
  shows "\<exists>data1 data2. config_files marshal (\<lambda>_. in_order) auth request n (Config_ConfigurationParameters c) fab l [p] s = (Ok data1, s) \<and>
     config_files marshal (\<lambda>_. in_reverse) auth request n (Config_ConfigurationParameters c) fab l [p] s = (Ok data2, s) \<and>
     \<not> same_data (Some data1) (Some data2)"
proof -
  obtain a1 a2 a3 a4 a5 a6 where e: "(introspectPorts (Config_ConfigurationParameters c) :: ('s, go_error, (string, int) gomap) go) = ret [(''contrail-api'', a1), (''contrail-schema'', a2),
      (''contrail-device-manager'', a3), (''contrail-svc-monitor'', a4), (''contrail-analytics-api'', a5), (''contrail-collector'', a6)]"
    (is "_ = ret ?ports") using introspectPorts_defaults [of c] by blast
  note d = config_files_single [where request = request and n = n and fab = fab and l = l and p = p and marshal = marshal and unmarshal = unmarshal
      and auth = auth and s = s and a = a, OF assms e]
  obtain data1 mon1 where 1: "config_files marshal (\<lambda>_. in_order) auth request n (Config_ConfigurationParameters c) fab l [p] s = (Ok data1, s)"
    "map_of data1 (''monitorconfig.'' @ pod_PodIP p @ ''.yaml'') = Some mon1"
    "unmarshal mon1 = introspect_nodes in_order ?ports (pod_PodIP p)"
    using d [of "\<lambda>_. in_order"] by blast
  obtain data2 mon2 where 2: "config_files marshal (\<lambda>_. in_reverse) auth request n (Config_ConfigurationParameters c) fab l [p] s = (Ok data2, s)"
    "map_of data2 (''monitorconfig.'' @ pod_PodIP p @ ''.yaml'') = Some mon2"
    "unmarshal mon2 = introspect_nodes in_reverse ?ports (pod_PodIP p)"
    using d [of "\<lambda>_. in_reverse"] by blast
  have ne: "mon1 \<noteq> mon2" using 1(3) 2(3) introspect_nodes_differ [OF refl] by metis
  have "\<not> same_data (Some data1) (Some data2)"
    using same_data_lookup [OF _ 1(2)] 2(2) ne by (metis option.inject)
  with 1(1) 2(1) show ?thesis by blast
qed

text \<open>A text from which a list of texts can be read back.\<close>

fun write_texts :: "string list \<Rightarrow> string" where
  "write_texts [] = []"
| "write_texts ([] # xs) = CHR ''0'' # write_texts xs"
| "write_texts ((c # s) # xs) = CHR ''1'' # c # write_texts (s # xs)"

fun read_texts :: "string \<Rightarrow> string list" where
  "read_texts [] = []"
| "read_texts [c] = [[]]"
| "read_texts (b # c # r) =
     (if b = CHR ''0'' then [] # read_texts (c # r)
      else case read_texts r of [] \<Rightarrow> [[c]] | x # xs \<Rightarrow> (c # x) # xs)"

lemma read_write_texts: "read_texts (write_texts xs) = xs"
proof (induction xs rule: write_texts.induct)
  case (2 xs)
  then show ?case by (cases "write_texts xs") auto
qed auto

definition ex_config_auth :: config_auth where
  "ex_config_auth = \<lparr>cfa_AdminUsername = ''admin'', cfa_AdminPassword = ''pw'', cfa_Address = [], cfa_Port = 0, cfa_Region = [],
     cfa_AuthProtocol = [], cfa_UserDomainName = [], cfa_ProjectDomainName = []\<rparr>"

definition ex_config_nodes :: config_nodes where
  "ex_config_nodes =
     \<lparr>cfn_cassandra = \<lparr>sc_Port = 9160, sc_CQLPort = 9042, sc_JMXPort = 7200, sc_ServerIPList = [''10.0.0.1''], sc_Endpoint = []\<rparr>,
      cfn_zookeeper = \<lparr>zc_ClientPort = 2181, zc_ServerPort = 2888, zc_ElectionPort = 3888, zc_ServerIPList = [''10.0.0.1'']\<rparr>,
      cfn_rabbitmq = \<lparr>rc_Port = 5672, rc_SSLPort = 5673, rc_ServerIPList = [''10.0.0.1''], rc_Secret = []\<rparr>,
      cfn_login = ([], [], [])\<rparr>"

theorem config_files_order_witness:
  "\<exists>l data1 data2. config_files (\<lambda>m. Inr (write_texts (mo_APIServerList m))) (\<lambda>_. in_order) (ret ex_config_auth) (''ns'', ''config1'') ex_config_nodes
       (Config_ConfigurationParameters zero_config) [] l [ex_config_pod ''a'' True] () = (Ok data1, ()) \<and>
     config_files (\<lambda>m. Inr (write_texts (mo_APIServerList m))) (\<lambda>_. in_reverse) (ret ex_config_auth) (''ns'', ''config1'') ex_config_nodes
       (Config_ConfigurationParameters zero_config) [] l [ex_config_pod ''a'' True] () = (Ok data2, ()) \<and>
     \<not> same_data (Some data1) (Some data2)"
proof -
  have "\<forall>m. \<exists>t. (Inr (write_texts (mo_APIServerList m)) :: go_error + string) = Inr t \<and> read_texts t = mo_APIServerList m"
    by (simp add: read_write_texts)
  from config_files_order [OF this, where auth = "ret ex_config_auth" and s = "()" and a = ex_config_auth and request = "(''ns'', ''config1'')"
      and n = ex_config_nodes and c = zero_config and fab = "[]" and p = "ex_config_pod ''a'' True"]
  show ?thesis by (simp add: ret_def)
qed

text \<open>
  C34: a reconciliation of a Config resource that is there and not being deleted, and that returns no
  error, either stops because a service it depends on is not active, or ends by writing its status:
  active exactly when more than half of the replicas of its stateful set are ready.  The request is
  queued again exactly when the written status has the flag of a changed configuration.  If the
  configuration map had data before this reconciliation wrote it, the flag says whether that data
  differs from the data read back at the end (none if the map can not be read); otherwise it is the
  flag that the resource had before, which may be out of date.
\<close>

theorem Config_Reconcile_status:
  assumes names: "names_kept lib (sv_sts cls)"
    and get: "kc_Get kc request s = (Ok c, s0)" and alive: "\<not> om_Deleted (cr_meta c)"
    and range: "\<forall>k t sts u. kc_Get (sv_sts cls) k t = (Ok sts, u) \<longrightarrow> (\<exists>r \<ge> 0. sts_Replicas sts = Some r)"
    and maps: "\<forall>k t cm u. kc_Get (sv_configmap cls) k t = (Ok cm, u) \<longrightarrow> go_map (map_entries (cm_Data cm))"
    and run: "Config_Reconcile lib ord ord1 ord2 marshal ords cy ex cls ocs kc request s = (Ok b, s')"
  shows "\<not> b \<and> config_dependencies_active ocs c (fst request) s0 = (Ok False, s')
     \<or> (\<exists>t svc t0 old t1 t2 t3 sts replicas c' u.
          config_dependencies_active ocs c (fst request) s0 = (Ok True, t) \<and>
          Service_EnsureExists lib (sv_service cls) ord1 ord2 (Kubernetes_Service (snd request @ ''-config'') ''ClusterIP''
            config_service_ports ''config'' (cr_meta c)) t = (Ok svc, t0) \<and>
          tryM (kc_Get (sv_configmap cls) (fst request, snd request @ ''-config-configmap'')) t0 = (Ok old, t1) \<and>
          (if config_data old \<noteq> Map.empty
           then \<exists>new. tryM (kc_Get (sv_configmap cls) (fst request, snd request @ ''-config-configmap'')) t2 = (Ok new, t3) \<and>
                  (b \<longleftrightarrow> config_data new \<noteq> config_data old)
           else t3 = t2 \<and> (b \<longleftrightarrow> st_ConfigChanged (cr_status c) = Some True)) \<and>
          kc_Get (sv_sts cls) (fst request, sts_name request ''config'') t3 = (Ok sts, u) \<and>
          sts_Replicas sts = Some replicas \<and>
          st_Active (cr_status c') = Some (replicas < 2 * sts_ReadyReplicas sts) \<and>
          kc_StatusUpdate kc c' u = (Ok (), s') \<and> (b \<longleftrightarrow> st_ConfigChanged (cr_status c') = Some True))"
proof -
  from Config_Reconcile_ends [OF names get alive run] show ?thesis
  proof (elim disjE exE conjE)
    fix t svc t0 current t1 t2 t3 c1 c2 sts c' u
    assume 1: "config_dependencies_active ocs c (fst request) s0 = (Ok True, t)"
      "Service_EnsureExists lib (sv_service cls) ord1 ord2 (Kubernetes_Service (snd request @ ''-config'') ''ClusterIP''
            config_service_ports ''config'' (cr_meta c)) t = (Ok svc, t0)"
      and cur: "CurrentConfigMapExists (sv_configmap cls) (snd request @ ''-config-configmap'') request t0 = (Ok current, t1)"
      and kept: "st_ConfigChanged (cr_status c1) = st_ConfigChanged (cr_status c)"
      and upd: "update_config_changed (sv_configmap cls) (fst request, snd request @ ''-config-configmap'') current c1 t2 = (Ok c2, t3)"
      and g: "kc_Get (sv_sts cls) (fst request, sts_name request ''config'') t3 = (Ok sts, u)"
      and c': "c' = set_cr_active (acceptable_replicas (sts_Replicas sts) \<le> sts_ReadyReplicas sts) (active_or_false c2)"
      and w: "kc_StatusUpdate kc c' u = (Ok (), s')" and b: "b = (st_ConfigChanged (cr_status c') = Some True)"
    from range g obtain r where r: "0 \<le> r" "sts_Replicas sts = Some r" by blast
    from c' r acceptable_replicas_quorum [OF r(1)] have active: "st_Active (cr_status c') = Some (r < 2 * sts_ReadyReplicas sts)"
      by (simp add: set_cr_active_def)
    from b c' have flag: "b \<longleftrightarrow> st_ConfigChanged (cr_status c2) = Some True" by (simp add: config_changed_kept)
    from config_changed_decides [OF maps cur upd] kept flag obtain old where
      "tryM (kc_Get (sv_configmap cls) (fst request, snd request @ ''-config-configmap'')) t0 = (Ok old, t1)"
      "if config_data old \<noteq> Map.empty
       then \<exists>new. tryM (kc_Get (sv_configmap cls) (fst request, snd request @ ''-config-configmap'')) t2 = (Ok new, t3) \<and>
              (b \<longleftrightarrow> config_data new \<noteq> config_data old)
       else t3 = t2 \<and> (b \<longleftrightarrow> st_ConfigChanged (cr_status c) = Some True)" by metis
    with 1 g r active w b show ?thesis by blast
  qed blast
qed

definition ex_config :: config where
  "ex_config = zero_config\<lparr>cr_meta := ex_meta ''co'', cr_common := new_common\<lparr>pc_Replicas := Some 3\<rparr>,
     cr_conf := no_config_configuration\<lparr>cf_Containers :=
       map (\<lambda>n. \<lparr>co_Name = n, co_Image = ''img'', co_Command = None\<rparr>)
         ([''nodemanagerconfig'', ''nodemanageranalytics''] @ map pco_Name (pspec_Containers (pt_Spec (sts_Template config_GetSTS)))
          @ map pco_Name (pspec_InitContainers (pt_Spec (sts_Template config_GetSTS))))\<rparr>,
     cr_status := new_status\<lparr>st_ConfigChanged := Some True\<rparr>\<rparr>"

lemma ex_config_simps:
  "cr_meta ex_config = ex_meta ''co''" "pc_Replicas (cr_common ex_config) = Some 3" "cf_NodeManager (cr_conf ex_config) = None"
  by (simp_all add: ex_config_def zero_config_def no_config_configuration_def)

lemma ex_config_container:
  assumes "n \<in> co_Name ` set cs"
  shows "\<exists>x. GetContainerFromList n cs = Some x"
  using assms by (induction cs) auto

lemma config_configure_container_Ok:
  assumes "pco_Name c \<in> co_Name ` set cs"
  shows "\<exists>c'. config_configure_container name cs sn b1 b2 c s = (Ok c', s)"
proof -
  from ex_config_container [OF assms] obtain x where x: "GetContainerFromList (pco_Name c) cs = Some x" ..
  have "\<exists>c'. service_container cs cmd f c s = (Ok c', s)" for cmd f
    by (simp add: service_container_def x ret_def)
  moreover have "\<exists>c'. (if b then m1 else m2) s = (Ok c', s)"
    if "\<exists>c'. m1 s = (Ok c', s)" "\<exists>c'. m2 s = (Ok c', s)" for b and m1 m2 :: "('a, go_error, pod_container) go"
    using that by auto
  ultimately show ?thesis
    unfolding config_configure_container_def x deref_ptr_Some by (auto simp: ret_def)
qed

lemma mapM_Ok:
  assumes "\<And>x. x \<in> set xs \<Longrightarrow> \<exists>y. f x s = (Ok y, s)"
  shows "\<exists>ys. mapM f xs s = (Ok ys, s)"
  using assms by (induction xs) (force simp: bindM_def ret_def)+

lemma ex_config_intended:
  assumes "sts_Replicas sts = Some 3" "pt_Labels (sts_Template sts) \<noteq> None"
    and cs: "pspec_Containers (pt_Spec (sts_Template sts)) = pspec_Containers (pt_Spec (sts_Template config_GetSTS))"
    and ics: "pspec_InitContainers (pt_Spec (sts_Template sts)) = pspec_InitContainers (pt_Spec (sts_Template config_GetSTS))"
    and account: "account () = (Ok (), ())"
  shows "\<exists>sts'. config_intended_sts in_order account req ex_config cm sec sts () = (Ok sts', ()) \<and>
     sts_Replicas sts' = Some 3 \<and> pt_Labels (sts_Template sts') \<noteq> None"
proof -
  let ?cs = "cf_Containers (cr_conf ex_config)"
  have names: "co_Name ` set ?cs = {''nodemanagerconfig'', ''nodemanageranalytics''} \<union>
      pco_Name ` set (pspec_Containers (pt_Spec (sts_Template config_GetSTS))) \<union>
      pco_Name ` set (pspec_InitContainers (pt_Spec (sts_Template config_GetSTS)))"
    by (simp add: ex_config_def zero_config_def image_image image_Un Un_assoc)
  have nm: "\<exists>x. GetContainerFromList ''nodemanagerconfig'' ?cs = Some x" "\<exists>x. GetContainerFromList ''nodemanageranalytics'' ?cs = Some x"
    by (rule ex_config_container; simp add: names)+
  have "\<exists>xs. mapM (config_configure_container (snd req) ?cs (cf_KeystoneSecretName (cr_conf ex_config)) True True)
      (pspec_Containers (pt_Spec (sts_Template config_GetSTS))) () = (Ok xs, ())"
    by (intro mapM_Ok config_configure_container_Ok) (simp add: names)
  then obtain xs where xs: "mapM (config_configure_container (snd req) ?cs (cf_KeystoneSecretName (cr_conf ex_config)) True True)
      (pspec_Containers (pt_Spec (sts_Template config_GetSTS))) () = (Ok xs, ())" ..
  have "\<exists>ys. mapM (configure_init ?cs) (pspec_InitContainers (pt_Spec (sts_Template config_GetSTS))) () = (Ok ys, ())"
  proof (rule mapM_Ok)
    fix x assume "x \<in> set (pspec_InitContainers (pt_Spec (sts_Template config_GetSTS)))"
    with ex_config_container [of "pco_Name x" ?cs] show "\<exists>y. configure_init ?cs x () = (Ok y, ())"
      unfolding names by (auto simp: configure_init_def Let_def ret_def)
  qed
  then obtain ys where ys: "mapM (configure_init ?cs) (pspec_InitContainers (pt_Spec (sts_Template config_GetSTS))) () = (Ok ys, ())" ..
  from nm have nm': "GetContainerFromList ''nodemanagerconfig'' ?cs \<noteq> None" "GetContainerFromList ''nodemanageranalytics'' ?cs \<noteq> None"
    by blast+
  show ?thesis
    unfolding config_intended_sts_def Let_def ex_config_simps remove_if_def
    using assms nm'
    by (simp add: update_containers_def update_init_containers_def
        bindM_def ret_def xs ys service_volumes_def AddVolumesToIntendedSTS_def AddSecretVolumesToIntendedSTS_def add_volumes_def
        set_anti_affinity_def set_service_account_def update_spec_def)
qed

lemma ex_config_PrepareSTS:
  "\<exists>sts. PrepareSTS mem_lib (update_spec (\<lambda>sp. sp\<lparr>pspec_ShareProcessNamespace := Some True\<rparr>) config_GetSTS) (cr_common ex_config)
       ''config'' req owner True () = (Ok sts, ()) \<and>
     sts_Replicas sts = Some 3 \<and> pt_Labels (sts_Template sts) \<noteq> None \<and>
     pspec_Containers (pt_Spec (sts_Template sts)) = pspec_Containers (pt_Spec (sts_Template config_GetSTS)) \<and>
     pspec_InitContainers (pt_Spec (sts_Template sts)) = pspec_InitContainers (pt_Spec (sts_Template config_GetSTS))"
proof -
  have "\<exists>l. sts_Selector config_GetSTS = Some l" by (simp add: config_GetSTS_def)
  then show ?thesis
    by (auto simp: PrepareSTS_def Let_def SetSTSCommonConfiguration_def apply_common_def ex_config_def zero_config_def new_common_def
        update_spec_def map_entries_def ex_svc_simps)
qed

definition ex_active :: "'c \<Rightarrow> 'c cr" where
  "ex_active conf = \<lparr>cr_meta = ex_meta ''x'', cr_common = new_common, cr_conf = conf, cr_status = new_status\<lparr>st_Active := Some True\<rparr>\<rparr>"

definition ex_always :: "'o \<Rightarrow> ('o, unit) kind_client" where
  "ex_always x = ex_no_client\<lparr>kc_Get := (\<lambda>_. ret x), kc_List := (\<lambda>_ _. ret [x])\<rparr>"

definition ex_config_clients :: "unit config_clients" where
  "ex_config_clients = \<lparr>cfc_cassandra = ex_always (ex_active (cr_conf zero_cassandra)), cfc_zookeeper = ex_always (ex_active (cr_conf zero_zookeeper)),
     cfc_rabbitmq = ex_always (ex_active (cr_conf zero_rabbitmq)), cfc_keystone = ex_no_client\<rparr>"

text \<open>The configuration map is there and does not change; the flag of the resource is out of date.\<close>

definition ex_cfg_map :: config_map where
  "ex_cfg_map = \<lparr>cm_meta = ex_meta ''co-config-configmap'', cm_Data = Some [(''api.10.0.0.1'', ''conf'')]\<rparr>"

definition ex_cfg_svc :: "unit svc_clients" where
  "ex_cfg_svc = ex_svc_clients\<lparr>sv_configmap := ex_always ex_cfg_map\<rparr>"

lemma ex_Config_run:
  "\<exists>b. Config_Reconcile mem_lib in_order in_order in_order (\<lambda>m. Inr []) (\<lambda>_. in_order) ex_crypto
     \<lparr>exec_pod = (\<lambda>_ _ _ _. ret []), ParseIP = (\<lambda>_. True)\<rparr> ex_cfg_svc ex_config_clients (ex_always ex_config) req () = (Ok b, ())"
proof -
  have g: "get_instance mem_lib (ex_always ex_config) zero_config req () = (Ok (Some ex_config), ())"
    by (simp add: get_instance_def ex_always_def ex_svc_simps ex_cfg_svc_def)
  have alive: "\<not> om_Deleted (cr_meta ex_config)" by (simp add: ex_config_simps ex_meta_def new_meta_def)
  have act: "config_dependencies_active ex_config_clients ex_config ns () = (Ok True, ())" for ns
    by (simp add: config_dependencies_active_def ex_config_clients_def Cassandra_IsActive_def Zookeeper_IsActive_def Rabbitmq_IsActive_def
        IsActive_by_name_def IsActive_by_label_def is_active_def ex_active_def ex_always_def ex_svc_simps ex_cfg_svc_def)
  obtain svc where svc: "Service_EnsureExists mem_lib (sv_service ex_cfg_svc) in_order in_order
      (Kubernetes_Service (snd req @ ''-config'') ''ClusterIP'' config_service_ports ''config'' (cr_meta ex_config)) () = (Ok svc, ())"
    by (simp add: Service_EnsureExists_def service_mutate_def Let_def ex_svc_simps ex_cfg_svc_def)
  have cur: "CurrentConfigMapExists (sv_configmap ex_cfg_svc) (snd req @ ''-config-configmap'') req () = (Ok (ex_cfg_map, True), ())"
    by (simp add: CurrentConfigMapExists_def ex_always_def ex_cfg_map_def map_entries_def ex_svc_simps ex_cfg_svc_def)
  have upd: "\<exists>c'. update_config_changed (sv_configmap ex_cfg_svc) k (ex_cfg_map, True) x () = (Ok c', ())" for k and x :: config
    by (simp add: update_config_changed_def Let_def ex_always_def ex_svc_simps ex_cfg_svc_def)
  obtain cm where cm: "CreateConfigMap mem_lib (sv_configmap ex_cfg_svc) (snd req @ ''-config-configmap'') req ''config''
      (cr_meta ex_config) () = (Ok cm, ())"
    by (simp add: CreateConfigMap_def Let_def ex_always_def ex_svc_simps ex_cfg_svc_def)
  obtain sec where sec: "CreateSecret mem_lib (sv_secret ex_cfg_svc) (snd req @ ''-secret-certificates'') req ''config''
      (cr_meta ex_config) () = (Ok sec, ())"
    by (simp add: CreateSecret_def Let_def ex_svc_simps ex_cfg_svc_def)
  obtain sts where sts: "PrepareSTS mem_lib (update_spec (\<lambda>sp. sp\<lparr>pspec_ShareProcessNamespace := Some True\<rparr>) config_GetSTS)
      (cr_common ex_config) ''config'' req (cr_meta ex_config) True () = (Ok sts, ())"
    "sts_Replicas sts = Some 3" "pt_Labels (sts_Template sts) \<noteq> None"
    "pspec_Containers (pt_Spec (sts_Template sts)) = pspec_Containers (pt_Spec (sts_Template config_GetSTS))"
    "pspec_InitContainers (pt_Spec (sts_Template sts)) = pspec_InitContainers (pt_Spec (sts_Template config_GetSTS))"
    using ex_config_PrepareSTS by metis
  let ?account = "CreateAccount mem_lib (sv_serviceaccount ex_cfg_svc) (sv_clusterrole ex_cfg_svc) (sv_clusterrolebinding ex_cfg_svc)
      ''statusmonitor-config'' (fst req) (cr_meta ex_config)"
  have "?account () = (Ok (), ())"
    by (simp add: CreateAccount_def create_if_missing_def Let_def ex_svc_simps ex_cfg_svc_def)
  from ex_config_intended [where req = req and cm = cm and sec = sec and account = ?account, OF sts(2,3,4,5), OF this] obtain sts' where
    i: "config_intended_sts in_order ?account req ex_config cm sec sts () = (Ok sts', ())"
    and sts': "sts_Replicas sts' = Some 3" "pt_Labels (sts_Template sts') \<noteq> None" by metis
  have c: "CreateSTS mem_lib (sv_sts ex_cfg_svc) x ''config'' req () = (Ok x, ())" for x
    by (simp add: CreateSTS_def ex_svc_simps ex_cfg_svc_def)
  have u: "UpdateSTS mem_lib (sv_sts ex_cfg_svc) sts' ''config'' req ''deleteFirst'' () = (Ok (), ())"
    using sts' by (auto simp: UpdateSTS_def set_version_def set_label_def ex_ring_def ex_svc_simps ex_cfg_svc_def)
  have p: "PodIPListAndIPMapFromInstance (sv_node ex_cfg_svc) (sv_pod ex_cfg_svc) ex ''config'' cc req True w () = (Ok ([], []), ())"
    for ex cc w by (simp add: PodIPListAndIPMapFromInstance_def ex_svc_simps ex_cfg_svc_def)
  have e: "SetEndpointInStatus (ex_always ex_config) x ip () = (Ok (x\<lparr>cr_status := (cr_status x)\<lparr>st_Endpoint := ip\<rparr>\<rparr>), ())" for x ip
    by (simp add: SetEndpointInStatus_def ex_always_def ex_svc_simps ex_cfg_svc_def)
  have a: "\<exists>c'. Config_SetInstanceActive (sv_sts ex_cfg_svc) (ex_always ex_config) x req y () = (Ok c', ())" for x y
    by (simp add: Config_SetInstanceActive_def Let_def ex_always_def ex_svc_simps ex_cfg_svc_def)
  let ?c = "ex_config\<lparr>cr_status := (cr_status ex_config)\<lparr>st_Endpoint := ClusterIP svc\<rparr>\<rparr>"
  from upd [of "(fst req, snd req @ ''-config-configmap'')" ?c] obtain c1 where
    c1: "update_config_changed (sv_configmap ex_cfg_svc) (fst req, snd req @ ''-config-configmap'') (ex_cfg_map, True) ?c () = (Ok c1, ())" by blast
  from a [of sts' "active_or_false c1"] obtain c' where
    "Config_SetInstanceActive (sv_sts ex_cfg_svc) (ex_always ex_config) sts' req (active_or_false c1) () = (Ok c', ())" by blast
  with g alive act svc cur cm sec sts(1) i c u p e c1 show ?thesis
    by (simp add: Config_Reconcile_def bindM_def Let_def ret_def)
qed

theorem Config_Reconcile_status_witness:
  "st_ConfigChanged (cr_status ex_config) = Some True \<and>
   (\<exists>c'. Config_Reconcile mem_lib in_order in_order in_order (\<lambda>m. Inr []) (\<lambda>_. in_order) ex_crypto
     \<lparr>exec_pod = (\<lambda>_ _ _ _. ret []), ParseIP = (\<lambda>_. True)\<rparr> ex_cfg_svc ex_config_clients (ex_always ex_config) (''ns'', ''co'') () = (Ok False, ()) \<and>
     st_Active (cr_status c') = Some True \<and> st_ConfigChanged (cr_status c') \<noteq> Some True \<and>
     kc_StatusUpdate (ex_always ex_config) c' () = (Ok (), ()))"
proof -
  have names: "names_kept mem_lib (sv_sts ex_cfg_svc)"
    by (auto simp: names_kept_def ex_svc_simps ex_cfg_svc_def)
  have get: "kc_Get (ex_always ex_config) (''ns'', ''co'') () = (Ok ex_config, ())" "\<not> om_Deleted (cr_meta ex_config)"
    by (simp_all add: ex_always_def ex_svc_simps ex_config_simps ex_meta_def new_meta_def)
  have ring: "kc_Get (sv_sts ex_cfg_svc) k t = (Ok ex_ring, ())" for k t
    by (simp add: ex_svc_simps ex_cfg_svc_def)
  have r: "sts_Replicas ex_ring = Some 3" "sts_ReadyReplicas ex_ring = 2" by (simp_all add: ex_ring_def)
  have range: "\<forall>k t sts u. kc_Get (sv_sts ex_cfg_svc) k t = (Ok sts, u) \<longrightarrow> (\<exists>r \<ge> 0. sts_Replicas sts = Some r)"
    by (simp add: ring r)
  have cm: "kc_Get (sv_configmap ex_cfg_svc) k t = (Ok ex_cfg_map, ())" for k t
    by (simp add: ex_always_def ex_svc_simps ex_cfg_svc_def)
  then have maps: "\<forall>k t cm u. kc_Get (sv_configmap ex_cfg_svc) k t = (Ok cm, u) \<longrightarrow> go_map (map_entries (cm_Data cm))"
    by (simp add: ex_cfg_map_def map_entries_def go_map_def)
  have read: "tryM (kc_Get (sv_configmap ex_cfg_svc) k) t = (Ok (Inr ex_cfg_map), ())" for k t
    using cm by (simp add: tryM_def)
  have data: "config_data (Inr ex_cfg_map) \<noteq> Map.empty"
    by (simp add: config_data_def ex_cfg_map_def map_entries_def)
  have act: "config_dependencies_active ex_config_clients ex_config ns t \<noteq> (Ok False, ())" for ns t
    by (simp add: config_dependencies_active_def ex_config_clients_def Cassandra_IsActive_def Zookeeper_IsActive_def Rabbitmq_IsActive_def
        IsActive_by_name_def IsActive_by_label_def is_active_def ex_active_def ex_always_def ex_svc_simps)
  obtain b where run: "Config_Reconcile mem_lib in_order in_order in_order (\<lambda>m. Inr []) (\<lambda>_. in_order) ex_crypto
     \<lparr>exec_pod = (\<lambda>_ _ _ _. ret []), ParseIP = (\<lambda>_. True)\<rparr> ex_cfg_svc ex_config_clients (ex_always ex_config) (''ns'', ''co'') () = (Ok b, ())"
    using ex_Config_run by blast
  from Config_Reconcile_status [OF names get range maps run] act obtain sts replicas u t3 and c' :: config where
    b: "b \<longleftrightarrow> config_data (Inr ex_cfg_map) \<noteq> config_data (Inr ex_cfg_map)"
    and "kc_Get (sv_sts ex_cfg_svc) (fst (''ns'', ''co''), sts_name (''ns'', ''co'') ''config'') t3 = (Ok sts, u)"
    and c': "sts_Replicas sts = Some replicas" "st_Active (cr_status c') = Some (replicas < 2 * sts_ReadyReplicas sts)"
      "b \<longleftrightarrow> st_ConfigChanged (cr_status c') = Some True" "kc_StatusUpdate (ex_always ex_config) c' u = (Ok (), ())"
    unfolding read using data by fastforce
  then have "sts = ex_ring" by (simp add: ring)
  with c' r have "st_Active (cr_status c') = Some True" by simp
  with run b c'(3,4) show ?thesis by (auto simp: ex_config_def)
qed

section \<open>The CNI plugin\<close>













end
