(* ===== verification/CommandService.thy ===== *)
theory CommandService
  imports ServiceParts K8sObjects Memcached
begin

text \<open>
  \<open>pkg/controller/command\<close> and \<open>command_types.go\<close>: one reconciliation of a Command resource.  The user
  interface is a deployment; a new image is rolled out by a state machine that stops the deployment,
  migrates the data in a job and starts the deployment again (\<open>command_upgrade.go\<close>).

  The clients of Keystone and Swift are the fields of \<open>openstack_lib\<close>, \<open>sha1_uuid\<close> is \<open>uuid.NewSHA1\<close> with
  the name space of the package, \<open>am\<close> and \<open>gvk\<close> are what \<open>EnsureOwns\<close> needs of the scheme.
\<close>

section \<open>The resource\<close>

record command = "command_configuration cr" +
  cmd_UpgradeState :: string
  cmd_TargetContainerImage :: string
  cmd_ContainerImage :: string

definition CommandNotUpgrading :: string where "CommandNotUpgrading = ''not upgrading''"

definition CommandShuttingDownBeforeUpgrade :: string where
  "CommandShuttingDownBeforeUpgrade = ''shutting down before upgrade''"

definition CommandUpgrading :: string where "CommandUpgrading = ''upgrading''"

definition CommandStartingUpgradedDeployment :: string where
  "CommandStartingUpgradedDeployment = ''starting upgraded deployment''"

definition CommandUpgradeFailed :: string where "CommandUpgradeFailed = ''upgrade failed''"

definition Upgrading :: "command \<Rightarrow> bool" where
  "Upgrading c \<longleftrightarrow> cmd_UpgradeState c = CommandShuttingDownBeforeUpgrade \<or> cmd_UpgradeState c = CommandUpgrading"

definition Command_PodsCertSubjects :: "command \<Rightarrow> pod list \<Rightarrow> string \<Rightarrow> cert_subject list" where
  "Command_PodsCertSubjects c podList serviceIP =
     PodsCertSubjects podList (pc_HostNetwork (cr_common c)) \<lparr>Retriever = None, ServiceIP = serviceIP\<rparr>"

section \<open>Containers\<close>

definition command_image_default :: "string \<Rightarrow> string" where
  "command_image_default containerName =
     (case map_of [(''init'', ''localhost:5000/contrail-command''), (''api'', ''localhost:5000/contrail-command''),
                   (''wait-for-ready-conf'', ''localhost:5000/busybox'')] containerName of
        None \<Rightarrow> [] | Some i \<Rightarrow> i)"

definition getImage :: "container list \<Rightarrow> string \<Rightarrow> string" where
  "getImage containers containerName =
     (case GetContainerFromList containerName containers of
        None \<Rightarrow> command_image_default containerName
      | Some c \<Rightarrow> co_Image c)"

definition command_command_default :: "string \<Rightarrow> string list" where
  "command_command_default containerName =
     (case map_of [(''init'', [''bash'', ''-c'', ''/etc/contrail/bootstrap.sh'']),
                   (''api'', [''bash'', ''-c'', ''/etc/contrail/entrypoint.sh'']),
                   (''wait-for-ready-conf'', [''sh'', ''-c'', ''until grep ready /tmp/podinfo/pod_labels > /dev/null 2>&1; do sleep 1; done''])]
             containerName of
        None \<Rightarrow> [] | Some cmd \<Rightarrow> cmd)"

definition getCommand :: "container list \<Rightarrow> string \<Rightarrow> string list" where
  "getCommand containers containerName =
     (case GetContainerFromList containerName containers of
        None \<Rightarrow> command_command_default containerName
      | Some c \<Rightarrow> (case co_Command c of None \<Rightarrow> command_command_default containerName | Some cmd \<Rightarrow> cmd))"

section \<open>Configuration files\<close>

text \<open>\<open>strings.ToLower\<close>, on the letters of ASCII.\<close>

definition to_lower :: "string \<Rightarrow> string" where
  "to_lower s = map (\<lambda>c. let n = of_char c :: nat in if 65 \<le> n \<and> n \<le> 90 then char_of (n + 32) else c) s"

record command_pod_conf =
  cp_ConfigAPIURL :: string
  cp_AdminUsername :: string
  cp_AdminPassword :: string
  cp_SwiftUsername :: string
  cp_SwiftPassword :: string
  cp_PostgresAddress :: string
  cp_PostgresUser :: string
  cp_PostgresDBName :: string
  cp_HostIP :: string
  cp_CAFilePath :: string
  cp_PGPassword :: string
  cp_KeystoneAddress :: string
  cp_KeystonePort :: int
  cp_KeystoneAuthProtocol :: string

definition commandEntrypoint :: "command_pod_conf \<Rightarrow> string" where
  "commandEntrypoint d =
     text_lines
       [[],
        ''#!/bin/bash'',
        ''cp '' @ cp_CAFilePath d @ '' /etc/pki/ca-trust/source/anchors/'',
        ''update-ca-trust'',
        ''/bin/commandappserver -c /etc/contrail/command-app-server$POD_IP.yml run'']"

definition commandConfig :: "command_pod_conf \<Rightarrow> string" where
  "commandConfig d =
     text_lines
       [[],
        ''database:'',
        ''  host: '' @ cp_PostgresAddress d,
        ''  user: '' @ cp_PostgresUser d,
        ''  password: '' @ cp_PGPassword d,
        ''  name: '' @ cp_PostgresDBName d,
        ''  max_open_conn: 100'',
        ''  connection_retries: 10'',
        ''  retry_period: 3s'',
        ''  replication_status_timeout: 10s'',
        ''  debug: false'',
        [],
        ''log_level: debug'',
        [],
        ''homepage:'',
        ''  enabled: false # disable in order not to collide with server.static_files'',
        [],
        ''server:'',
        ''  enabled: true'',
        ''  read_timeout: 10'',
        ''  write_timeout: 5'',
        ''  log_api: true'',
        ''  log_body: true'',
        ''  address: '' @ [CHR 0x22] @ '':9091'' @ [CHR 0x22],
        ''  enable_vnc_replication: true'',
        ''  enable_gzip: false'',
        ''  tls:'',
        ''    enabled: true'',
        ''    key_file: /etc/certificates/server-key-'' @ cp_HostIP d @ ''.pem'',
        ''    cert_file: /etc/certificates/server-'' @ cp_HostIP d @ ''.crt'',
        ''  enable_grpc: false'',
        ''  enable_vnc_neutron: false'',
        ''  static_files:'',
        ''    /: /usr/share/contrail/public'',
        ''  dynamic_proxy_path: proxy'',
        ''  proxy:'',
        ''    /contrail:'',
        ''    - '' @ cp_ConfigAPIURL d,
        ''  notify_etcd: false'',
        [],
        ''no_auth: false'',
        ''insecure: true'',
        [],
        ''keystone:'',
        ''  local: false'',
        ''  insecure: true'',
        ''  authurl: '' @ cp_KeystoneAuthProtocol d @ ''://'' @ cp_KeystoneAddress d @ '':'' @ Itoa (cp_KeystonePort d) @ ''/v3'',
        ''  service_user:'',
        ''    id: '' @ cp_SwiftUsername d,
        ''    password: '' @ cp_SwiftPassword d,
        ''    project_name: service'',
        ''    domain_id: default'',
        [],
        ''sync:'',
        ''  enabled: false'',
        [],
        ''client:'',
        ''  id: '' @ cp_AdminUsername d,
        ''  password: '' @ cp_AdminPassword d,
        ''  project_name: admin'',
        ''  domain_id: default'',
        ''  schema_root: /'',
        ''  endpoint: https://localhost:9091'',
        [],
        ''agent:'',
        ''  enabled: false'',
        [],
        ''compilation:'',
        ''  enabled: false'',
        [],
        ''cache:'',
        ''  enabled: false'',
        [],
        ''replication:'',
        ''  cassandra:'',
        ''    enabled: false'',
        ''  amqp:'',
        ''    enabled: false'']"

text \<open>The files of the pods; \<open>conf\<close> is the configuration of \<open>commandConf\<close>, with the address of a pod to be filled in.\<close>

definition command_FillConfigMap :: "command_pod_conf \<Rightarrow> string list \<Rightarrow> config_map \<Rightarrow> config_map" where
  "command_FillConfigMap conf podIPs cm =
     cm\<lparr>cm_Data := Some (AList.update ''entrypoint.sh'' (commandEntrypoint conf)
          (fold (\<lambda>podIP. AList.update (''command-app-server'' @ podIP @ ''.yml'') (commandConfig (conf\<lparr>cp_HostIP := podIP\<rparr>)))
             podIPs (map_entries (cm_Data cm))))\<rparr>"

record bootstrap_endpoint =
  be_Name :: string
  be_PublicURL :: string
  be_PrivateURL :: string
  be_FQName :: "string list"
  be_UUID :: string

record command_bootstrap_conf =
  cb_ClusterName :: string
  cb_ConfigAPIURL :: string
  cb_AdminUsername :: string
  cb_AdminPassword :: string
  cb_SwiftUsername :: string
  cb_SwiftPassword :: string
  cb_PostgresAddress :: string
  cb_PostgresUser :: string
  cb_PostgresDBName :: string
  cb_HostIP :: string
  cb_PGPassword :: string
  cb_KeystoneAddress :: string
  cb_KeystonePort :: int
  cb_KeystoneAuthProtocol :: string
  cb_ContrailVersion :: string
  cb_Endpoints :: "bootstrap_endpoint list"

definition commandInitBootstrapScript :: "command_bootstrap_conf \<Rightarrow> string" where
  "commandInitBootstrapScript d =
     text_lines
       [[],
        ''#!/bin/bash'',
        [],
        ''export PGPASSWORD='' @ cb_PGPassword d,
        [],
        ''DB_QUERY_RESULT=$(psql -w -h '' @ cb_PostgresAddress d @ '' -U '' @ cb_PostgresUser d @ '' -d postgres -tAc '' @ [CHR 0x22] @ ''SELECT EXISTS (SELECT 1 FROM pg_database WHERE datname = '' @ [CHR 0x27] @ cb_PostgresDBName d @ [CHR 0x27] @ '')'' @ [CHR 0x22] @ '')'',
        ''DB_QUERY_EXIT_CODE=$?'',
        ''if [[ $DB_QUERY_EXIT_CODE == 0 && $DB_QUERY_RESULT == '' @ [CHR 0x27] @ ''f'' @ [CHR 0x27] @ '' ]]; then'',
        ''    createdb -w -h '' @ cb_PostgresAddress d @ '' -U '' @ cb_PostgresUser d @ '' '' @ cb_PostgresDBName d,
        ''fi'',
        [],
        ''if [[ $DB_QUERY_EXIT_CODE == 2 ]]; then'',
        ''    exit 1'',
        ''fi'',
        [],
        ''QUERY_RESULT=$(psql -w -h '' @ cb_PostgresAddress d @ '' -U '' @ cb_PostgresUser d @ '' -d '' @ cb_PostgresDBName d @ '' -tAc '' @ [CHR 0x22] @ ''SELECT EXISTS (SELECT 1 FROM node LIMIT 1)'' @ [CHR 0x22] @ '')'',
        ''QUERY_EXIT_CODE=$?'',
        ''if [[ $QUERY_EXIT_CODE == 0 && $QUERY_RESULT == '' @ [CHR 0x27] @ ''t'' @ [CHR 0x27] @ '' ]]; then'',
        ''    exit 0'',
        ''fi'',
        [],
        ''if [[ $QUERY_EXIT_CODE == 2 ]]; then'',
        ''    exit 1'',
        ''fi'',
        [],
        ''set -e'',
        ''psql -w -h '' @ cb_PostgresAddress d @ '' -U '' @ cb_PostgresUser d @ '' -d '' @ cb_PostgresDBName d @ '' -f /usr/share/contrail/gen_init_psql.sql'',
        ''psql -w -h '' @ cb_PostgresAddress d @ '' -U '' @ cb_PostgresUser d @ '' -d '' @ cb_PostgresDBName d @ '' -f /usr/share/contrail/init_psql.sql'',
        ''commandutil convert --intype yaml --in /usr/share/contrail/init_data.yaml --outtype rdbms -c /etc/contrail/command-app-server.yml'',
        ''commandutil convert --intype yaml --in /etc/contrail/init_cluster.yml --outtype rdbms -c /etc/contrail/command-app-server.yml'']"

definition endpoint_text :: "bootstrap_endpoint \<Rightarrow> string" where
  "endpoint_text e =
     text_lines
       [''  - data:'',
        ''      name: '' @ be_Name e,
        ''      uuid: '' @ be_UUID e,
        ''      fq_name:''] @
     ''      '' @ concat (map (\<lambda>n. ''- '' @ n @ [CHR 0x0A] @ ''      '') (be_FQName e)) @
     text_lines
       [''parent_uuid: 53494ca8-f40c-11e9-83ae-38c986460fd4'',
        ''      parent_type: contrail-cluster'',
        ''      prefix: '' @ be_Name e,
        ''      private_url: '' @ be_PrivateURL e,
        ''      public_url: '' @ be_PublicURL e,
        ''    kind: endpoint'']"

definition commandInitCluster :: "command_bootstrap_conf \<Rightarrow> string" where
  "commandInitCluster d =
     text_lines
       [[],
        ''---'',
        ''resources:'',
        ''  - data:'',
        ''      fq_name:'',
        ''        - default-global-system-config'',
        ''        - 534965b0-f40c-11e9-8de6-38c986460fd4'',
        ''      hostname: '' @ to_lower (cb_ClusterName d),
        ''      ip_address: '' @ cb_HostIP d,
        ''      isNode: '' @ [CHR 0x27] @ ''false'' @ [CHR 0x27],
        ''      name: 5349662b-f40c-11e9-a57d-38c986460fd4'',
        ''      node_type: private'',
        ''      parent_type: global-system-config'',
        ''      type: private'',
        ''      uuid: 5349552b-f40c-11e9-be04-38c986460fd4'',
        ''    kind: node'',
        ''  - data:'',
        ''      container_registry: localhost:5000'',
        ''      contrail_configuration:'',
        ''        key_value_pair:'',
        ''          - key: ssh_user'',
        ''            value: root'',
        ''          - key: ssh_pwd'',
        ''            value: contrail123'',
        ''          - key: UPDATE_IMAGES'',
        ''            value: '' @ [CHR 0x27] @ ''no'' @ [CHR 0x27],
        ''          - key: UPGRADE_KERNEL'',
        ''            value: '' @ [CHR 0x27] @ ''no'' @ [CHR 0x27],
        ''      contrail_version: '' @ [CHR 0x22] @ cb_ContrailVersion d @ [CHR 0x22],
        ''      display_name: '' @ cb_ClusterName d,
        ''      high_availability: false'',
        ''      name: '' @ to_lower (cb_ClusterName d),
        ''      fq_name:'',
        ''        - default-global-system-config'',
        ''        - '' @ to_lower (cb_ClusterName d),
        ''      orchestrator: openstack'',
        ''      parent_type: global-system-configsd'',
        ''      provisioning_state: CREATED'',
        ''      uuid: 53494ca8-f40c-11e9-83ae-38c986460fd4'',
        ''    kind: contrail_cluster'',
        ''  - data:'',
        ''      name: 53495bee-f40c-11e9-b88e-38c986460fd4'',
        ''      fq_name:'',
        ''        - default-global-system-config'',
        ''        - '' @ to_lower (cb_ClusterName d),
        ''        - 53495bee-f40c-11e9-b88e-38c986460fd4'',
        ''      node_refs:'',
        ''        - uuid: 5349552b-f40c-11e9-be04-38c986460fd4'',
        ''      parent_type: contrail-cluster'',
        ''      parent_uuid: 53494ca8-f40c-11e9-83ae-38c986460fd4'',
        ''      uuid: 53495ab8-f40c-11e9-b3bf-38c986460fd4'',
        ''    kind: contrail_config_database_node'',
        ''  - data:'',
        ''      name: 53495680-f40c-11e9-8520-38c986460fd4'',
        ''      fq_name:'',
        ''        - default-global-system-config'',
        ''        - '' @ to_lower (cb_ClusterName d),
        ''        - 53495680-f40c-11e9-8520-38c986460fd4'',
        ''      node_refs:'',
        ''        - uuid: 5349552b-f40c-11e9-be04-38c986460fd4'',
        ''      parent_type: contrail-cluster'',
        ''      parent_uuid: 53494ca8-f40c-11e9-83ae-38c986460fd4'',
        ''      uuid: 534955ae-f40c-11e9-97df-38c986460fd4'',
        ''    kind: contrail_control_node'',
        ''  - data:'',
        ''      name: 53495d87-f40c-11e9-8a67-38c986460fd4'',
        ''      fq_name:'',
        ''        - default-global-system-config'',
        ''        - '' @ to_lower (cb_ClusterName d),
        ''        - 53495d87-f40c-11e9-8a67-38c986460fd4'',
        ''      node_refs:'',
        ''        - uuid: 5349552b-f40c-11e9-be04-38c986460fd4'',
        ''      parent_type: contrail-cluster'',
        ''      parent_uuid: 53494ca8-f40c-11e9-83ae-38c986460fd4'',
        ''      uuid: 53495cca-f40c-11e9-a732-38c986460fd4'',
        ''    kind: contrail_webui_node'',
        ''  - data:'',
        ''      name: 53496300-f40c-11e9-8880-38c986460fd4'',
        ''      fq_name:'',
        ''        - default-global-system-config'',
        ''        - '' @ to_lower (cb_ClusterName d),
        ''        - 53496300-f40c-11e9-8880-38c986460fd4'',
        ''      node_refs:'',
        ''        - uuid: 5349552b-f40c-11e9-be04-38c986460fd4'',
        ''      parent_type: contrail-cluster'',
        ''      parent_uuid: 53494ca8-f40c-11e9-83ae-38c986460fd4'',
        ''      uuid: 53496300-f40c-11e9-8880-38c986460fd4'',
        ''    kind: contrail_config_node'',
        ''  - data:'',
        ''      name: 53496238-f40c-11e9-8494-38c986460eee'',
        ''      fq_name:'',
        ''        - default-global-system-config'',
        ''        - '' @ to_lower (cb_ClusterName d),
        ''        - 53496238-f40c-11e9-8494-38c986460eee'',
        ''      node_refs:'',
        ''        - uuid: 5349552b-f40c-11e9-be04-38c986460fd4'',
        ''      parent_type: contrail-cluster'',
        ''      parent_uuid: 53494ca8-f40c-11e9-83ae-38c986460fd4'',
        ''      uuid: 53496238-f40c-11e9-8494-38c986460eee'',
        ''    kind: openstack_storage_node'',
        ''  - data:'',
        ''      name: 53496300-f40c-11e9-8880-38c986460eff'',
        ''      fq_name:'',
        ''        - default-global-system-config'',
        ''        - '' @ to_lower (cb_ClusterName d),
        ''        - 53496300-f40c-11e9-8880-38c986460eff'',
        ''      node_refs:'',
        ''        - uuid: 5349552b-f40c-11e9-be04-38c986460fd4'',
        ''      parent_type: contrail-cluster'',
        ''      parent_uuid: 53494ca8-f40c-11e9-83ae-38c986460fd4'',
        ''      uuid: 53496300-f40c-11e9-8880-38c986460eff'',
        ''    kind: contrail_analytics_node'',
        ''  - data:'',
        ''      name: 53496300-f40c-11e9-8880-38c986460efe'',
        ''      fq_name:'',
        ''        - default-global-system-config'',
        ''        - '' @ to_lower (cb_ClusterName d),
        ''        - 53496300-f40c-11e9-8880-38c986460efe'',
        ''      node_refs:'',
        ''        - uuid: 5349552b-f40c-11e9-be04-38c986460fd4'',
        ''      parent_type: contrail-cluster'',
        ''      parent_uuid: 53494ca8-f40c-11e9-83ae-38c986460fd4'',
        ''      uuid: 53496300-f40c-11e9-8880-38c986460efe'',
        ''    kind: contrail_analytics_database_node''] @
     concat (map endpoint_text (cb_Endpoints d))"

definition migrationConfig :: "command_bootstrap_conf \<Rightarrow> string" where
  "migrationConfig d =
     text_lines
       [[],
        ''database:'',
        ''  host: '' @ cb_PostgresAddress d,
        ''  user: '' @ cb_PostgresUser d,
        ''  password: '' @ cb_PGPassword d,
        ''  name: '' @ cb_PostgresDBName d @ ''_migrated'',
        ''  max_open_conn: 100'',
        ''  connection_retries: 10'',
        ''  retry_period: 3s'',
        ''  replication_status_timeout: 10s'',
        ''  debug: false'',
        []] @
     ''log_level: debug''"

definition migrationScriptConfig :: "command_bootstrap_conf \<Rightarrow> string" where
  "migrationScriptConfig d =
     text_lines
       [[],
        ''#!/usr/bin/env bash'',
        [],
        ''set -e'',
        ''export PGPASSWORD='' @ cb_PGPassword d,
        ''export PGHOST='' @ cb_PostgresAddress d,
        ''export PGUSER='' @ cb_PostgresUser d,
        [],
        ''# Try to drop old databases the may or may not exists.'',
        ''dropdb -w --if-exists '' @ cb_PostgresDBName d @ ''_migrated'',
        ''dropdb -w --if-exists '' @ cb_PostgresDBName d @ ''_backup'',
        [],
        ''# Migrate old database dump to new one.'',
        ''commandutil migrate --in /backups/db.yml --out /backups/db_migrated.yml'',
        [],
        ''# Create a database for migrated data, initialize it with a new schema.'',
        ''createdb -w '' @ cb_PostgresDBName d @ ''_migrated'',
        ''psql -v ON_ERROR_STOP=ON -w -d '' @ cb_PostgresDBName d @ ''_migrated -f /usr/share/contrail/gen_init_psql.sql'',
        ''psql -v ON_ERROR_STOP=ON -w -d '' @ cb_PostgresDBName d @ ''_migrated -f /usr/share/contrail/init_psql.sql'',
        [],
        ''# Upload migrated data to the new database.'',
        ''commandutil convert --intype yaml --in /backups/db_migrated.yml --outtype rdbms -c /etc/contrail/migration.yml'',
        [],
        ''# Replace original database with the migrated one and store original one as backup.'',
        ''psql -v ON_ERROR_STOP=ON -w -d postgres <<END_OF_SQL'',
        ''BEGIN;'',
        ''ALTER DATABASE '' @ cb_PostgresDBName d @ '' RENAME TO '' @ cb_PostgresDBName d @ ''_backup;'',
        ''ALTER DATABASE '' @ cb_PostgresDBName d @ ''_migrated RENAME TO '' @ cb_PostgresDBName d @ '';'',
        ''COMMIT;''] @
     ''END_OF_SQL''"

text \<open>The template of the pods is also filled from the bootstrap configuration.\<close>

definition bootstrap_pod_conf :: "command_bootstrap_conf \<Rightarrow> command_pod_conf" where
  "bootstrap_pod_conf d =
     \<lparr>cp_ConfigAPIURL = cb_ConfigAPIURL d,
      cp_AdminUsername = cb_AdminUsername d,
      cp_AdminPassword = cb_AdminPassword d,
      cp_SwiftUsername = cb_SwiftUsername d,
      cp_SwiftPassword = cb_SwiftPassword d,
      cp_PostgresAddress = cb_PostgresAddress d,
      cp_PostgresUser = cb_PostgresUser d,
      cp_PostgresDBName = cb_PostgresDBName d,
      cp_HostIP = cb_HostIP d,
      cp_CAFilePath = [],
      cp_PGPassword = cb_PGPassword d,
      cp_KeystoneAddress = cb_KeystoneAddress d,
      cp_KeystonePort = cb_KeystonePort d,
      cp_KeystoneAuthProtocol = cb_KeystoneAuthProtocol d\<rparr>"

definition bootstrap_FillConfigMap :: "command_bootstrap_conf \<Rightarrow> config_map \<Rightarrow> config_map" where
  "bootstrap_FillConfigMap d cm =
     cm\<lparr>cm_Data := Some (
          AList.update ''migration.sh'' (migrationScriptConfig d)
         (AList.update ''migration.yml'' (migrationConfig d)
         (AList.update ''command-app-server.yml'' (commandConfig (bootstrap_pod_conf d))
         (AList.update ''init_cluster.yml'' (commandInitCluster d)
         (AList.update ''bootstrap.sh'' (commandInitBootstrapScript d) (map_entries (cm_Data cm)))))))\<rparr>"

definition makeBootstrapEndpoint ::
  "(string \<Rightarrow> string) \<Rightarrow> string \<times> string \<times> string \<Rightarrow> string list \<Rightarrow> bootstrap_endpoint" where
  "makeBootstrapEndpoint sha1_uuid e fqname =
     \<lparr>be_Name = fst e, be_PublicURL = fst (snd e), be_PrivateURL = snd (snd e), be_FQName = fqname,
      be_UUID = sha1_uuid (join_with '':'' fqname)\<rparr>"

definition ensureCommandConfigExist ::
  "k8s_lib \<Rightarrow> (config_map, 's) kind_client \<Rightarrow> string \<Rightarrow> command \<Rightarrow> k_secret \<Rightarrow> k_secret
    \<Rightarrow> string \<Rightarrow> string \<Rightarrow> string list \<Rightarrow> string \<Rightarrow> string \<Rightarrow> int \<Rightarrow> ('s, go_error, unit) go" where
  "ensureCommandConfigExist lib kc configMapName c keystoneSecret swiftSecret postgresAddress configEndpoint podIPs
     keystoneAuthProtocol keystoneAddress keystonePort =
     ConfigMap_EnsureExists lib kc configMapName ''command'' (cr_meta c)
       (command_FillConfigMap
          \<lparr>cp_ConfigAPIURL = ''https://'' @ configEndpoint @ '':'' @ Itoa ConfigApiPort,
           cp_AdminUsername = ''admin'', cp_AdminPassword = secret_value keystoneSecret ''password'',
           cp_SwiftUsername = secret_value swiftSecret ''user'', cp_SwiftPassword = secret_value swiftSecret ''password'',
           cp_PostgresAddress = postgresAddress, cp_PostgresUser = ''root'', cp_PostgresDBName = ''contrail_test'',
           cp_HostIP = [], cp_CAFilePath = SignerCAFilepath, cp_PGPassword = secret_value keystoneSecret ''password'',
           cp_KeystoneAddress = keystoneAddress, cp_KeystonePort = keystonePort,
           cp_KeystoneAuthProtocol = keystoneAuthProtocol\<rparr> podIPs)"

definition command_endpoints ::
  "command_configuration \<Rightarrow> int \<Rightarrow> int \<Rightarrow> int \<Rightarrow> string \<Rightarrow> string \<Rightarrow> string \<Rightarrow> string \<Rightarrow> string
    \<Rightarrow> (string \<times> string \<times> string) list" where
  "command_endpoints conf webUIPort swiftProxyPort keystonePort webUIAddress swiftProxyAddress keystoneAddress
     keystoneAuthProtocol configEndpoint =
     (let both = (\<lambda>name url. (name, url, url))
      in [both ''nodejs'' (''https://'' @ webUIAddress @ '':'' @ Itoa webUIPort),
          both ''telemetry'' (''https://'' @ configEndpoint @ '':'' @ Itoa AnalyticsApiPort),
          both ''config'' (''https://'' @ configEndpoint @ '':'' @ Itoa ConfigApiPort),
          both ''keystone'' (keystoneAuthProtocol @ ''://'' @ keystoneAddress @ '':'' @ Itoa keystonePort),
          both ''swift'' (''https://'' @ swiftProxyAddress @ '':'' @ Itoa swiftProxyPort)] @ cd_Endpoints conf)"

definition ensureCommandInitConfigExist ::
  "k8s_lib \<Rightarrow> (string \<Rightarrow> string) \<Rightarrow> (config_map, 's) kind_client \<Rightarrow> string \<Rightarrow> command \<Rightarrow> k_secret \<Rightarrow> k_secret
    \<Rightarrow> int \<Rightarrow> int \<Rightarrow> int \<Rightarrow> string \<Rightarrow> string \<Rightarrow> string \<Rightarrow> string \<Rightarrow> string \<Rightarrow> string \<Rightarrow> string \<Rightarrow> ('s, go_error, unit) go" where
  "ensureCommandInitConfigExist lib sha1_uuid kc configMapName c keystoneSecret swiftSecret webUIPort swiftProxyPort keystonePort
     webUIAddress swiftProxyAddress keystoneAddress keystoneAuthProtocol postgresAddress configEndpoint podIP =
     (let clusterName = str_or (cd_ClusterName (cr_conf c)) ''default'';
          ces = command_endpoints (cr_conf c) webUIPort swiftProxyPort keystonePort webUIAddress swiftProxyAddress
                  keystoneAddress keystoneAuthProtocol configEndpoint
      in ConfigMap_EnsureExists lib kc configMapName ''command'' (cr_meta c)
           (bootstrap_FillConfigMap
              \<lparr>cb_ClusterName = clusterName, cb_ConfigAPIURL = ''https://'' @ configEndpoint @ '':'' @ Itoa ConfigApiPort,
               cb_AdminUsername = ''admin'', cb_AdminPassword = secret_value keystoneSecret ''password'',
               cb_SwiftUsername = secret_value swiftSecret ''user'', cb_SwiftPassword = secret_value swiftSecret ''password'',
               cb_PostgresAddress = postgresAddress, cb_PostgresUser = ''root'', cb_PostgresDBName = ''contrail_test'',
               cb_HostIP = podIP, cb_PGPassword = secret_value keystoneSecret ''password'',
               cb_KeystoneAddress = keystoneAddress, cb_KeystonePort = keystonePort,
               cb_KeystoneAuthProtocol = keystoneAuthProtocol, cb_ContrailVersion = cd_ContrailVersion (cr_conf c),
               cb_Endpoints = map (\<lambda>e. makeBootstrapEndpoint sha1_uuid e
                                 [''default-global-system-config'', clusterName, fst e]) ces\<rparr>))"

section \<open>The deployment\<close>

definition command_name :: "command \<Rightarrow> string" where
  "command_name c = om_Name (cr_meta c)"

definition newDeployment :: "string \<Rightarrow> string \<Rightarrow> string \<Rightarrow> string \<Rightarrow> container list \<Rightarrow> deployment" where
  "newDeployment name namespace configVolumeName csrSignerCaVolumeName containers =
     new_deployment\<lparr>dep_meta := new_meta\<lparr>om_Name := name @ ''-command-deployment'', om_Namespace := namespace\<rparr>,
       dep_Selector := Some None,
       dep_Template := \<lparr>pt_Annotations = None, pt_Labels = None,
         pt_Spec = new_pod_spec\<lparr>pspec_Affinity := anti_affinity ''command'' name,
           pspec_Containers := [new_pod_container\<lparr>pco_Name := ''api'', pco_ImagePullPolicy := ''IfNotPresent'',
             pco_Image := getImage containers ''api'', pco_Command := getCommand containers ''api'',
             pco_WorkingDir := ''/home/contrail/'',
             pco_ReadinessProbe := Some (new_probe (HTTPGetAction ''HTTPS'' [] 9091 ''/'')),
             pco_VolumeMounts := [new_mount configVolumeName ''/etc/contrail'',
                                  new_mount (name @ ''-secret-certificates'') ''/etc/certificates'',
                                  new_mount csrSignerCaVolumeName SignerCAMountPath],
             pco_Env := [(''POD_IP'', EnvFieldRef ''status.podIP'')]\<rparr>],
           pspec_InitContainers := [new_pod_container\<lparr>pco_Name := ''wait-for-ready-conf'',
             pco_ImagePullPolicy := ''IfNotPresent'',
             pco_Image := getImage containers ''wait-for-ready-conf'',
             pco_Command := getCommand containers ''wait-for-ready-conf'',
             pco_VolumeMounts := [new_mount ''status'' ''/tmp/podinfo'']\<rparr>],
           pspec_DNSPolicy := ''ClusterFirst'',
           pspec_Tolerations := [exists_toleration ''NoSchedule'', exists_toleration ''NoExecute'']\<rparr>\<rparr>\<rparr>"

text \<open>The modes 0744 and 0644 of the volumes are 484 and 420.\<close>

definition newDeploymentWithVolumes :: "string \<Rightarrow> string \<Rightarrow> string \<Rightarrow> container list \<Rightarrow> deployment" where
  "newDeploymentWithVolumes name namespace instanceType containers =
     (let configVolumeName = name @ ''-'' @ instanceType @ ''-volume'';
          csrSignerCaVolumeName = name @ ''-csr-signer-ca'';
          d = newDeployment name namespace configVolumeName csrSignerCaVolumeName containers
      in d\<lparr>dep_Template := (dep_Template d)\<lparr>pt_Spec := (pt_Spec (dep_Template d))\<lparr>pspec_Volumes :=
           [\<lparr>vol_Name = configVolumeName, vol_Source = ConfigMapVolume (name @ ''-command-configmap'') (Some 484)\<rparr>,
            \<lparr>vol_Name = name @ ''-secret-certificates'', vol_Source = SecretVolume (name @ ''-secret-certificates'')\<rparr>,
            \<lparr>vol_Name = csrSignerCaVolumeName, vol_Source = ConfigMapVolume SignerCAConfigMapName None\<rparr>,
            \<lparr>vol_Name = ''status'', vol_Source = DownwardAPIVolume [(''pod_labels'', ''metadata.labels'')] (Some 420)\<rparr>]\<rparr>\<rparr>\<rparr>)"

text \<open>\<open>d.Spec = deploy.Spec\<close>: the metadata and the status of the deployment stay.\<close>

definition fillDeploymentSpec :: "command \<Rightarrow> deployment \<Rightarrow> deployment" where
  "fillDeploymentSpec c d =
     (let deploy = newDeploymentWithVolumes (command_name c) (om_Namespace (cr_meta c)) ''command'' (cd_Containers (cr_conf c))
      in deploy\<lparr>dep_meta := dep_meta d, dep_ReadyReplicas := dep_ReadyReplicas d\<rparr>)"

definition command_labels :: "string \<Rightarrow> (string, string) gomap" where
  "command_labels name = [(''contrail_manager'', ''command''), (''command'', name)]"

definition command_prepareIntendedDeployment ::
  "k8s_lib \<Rightarrow> deployment \<Rightarrow> command \<Rightarrow> ('s, go_error, deployment) go" where
  "command_prepareIntendedDeployment lib d0 c =
     (let podConfiguration = (if Upgrading c then (cr_common c)\<lparr>pc_Replicas := Some 0\<rparr> else cr_common c);
          labels = Some (command_labels (command_name c));
          d = SetDeploymentCommonConfiguration d0 podConfiguration;
          d = d\<lparr>dep_meta := (dep_meta d)\<lparr>om_Name := command_name c @ ''-command-deployment'',
                  om_Namespace := om_Namespace (cr_meta c), om_Labels := labels\<rparr>\<rparr>
      in bindM (deref_ptr (dep_Selector d)) (\<lambda>_.
           let d = d\<lparr>dep_Selector := Some labels, dep_Template := (dep_Template d)\<lparr>pt_Labels := labels\<rparr>\<rparr>
           in bindM (sum_result (SetControllerReference lib (cr_meta c) (dep_meta d))) (\<lambda>meta.
                ret (d\<lparr>dep_meta := meta\<rparr>))))"

text \<open>The function that is handed to \<open>CreateOrUpdate\<close>.\<close>

definition deployment_mutate :: "k8s_lib \<Rightarrow> command \<Rightarrow> deployment \<Rightarrow> ('s, go_error, deployment) go" where
  "deployment_mutate lib c d =
     command_prepareIntendedDeployment lib
       (if \<not> Upgrading c \<and> cmd_UpgradeState c \<noteq> CommandUpgradeFailed then fillDeploymentSpec c d else d) c"

section \<open>The jobs\<close>

record batch_job = K8sObjects.k8s_job +
  bj_meta :: object_meta
  bj_Template :: pod_template

definition job_template :: "string_map \<Rightarrow> volume list \<Rightarrow> pod_container list \<Rightarrow> pod_container \<Rightarrow> toleration list \<Rightarrow> pod_template" where
  "job_template nodeSelector volumes initContainers c tolerations =
     \<lparr>pt_Annotations = None, pt_Labels = None,
      pt_Spec = new_pod_spec\<lparr>pspec_HostNetwork := True, pspec_RestartPolicy := ''Never'', pspec_NodeSelector := nodeSelector,
        pspec_Volumes := volumes, pspec_InitContainers := initContainers, pspec_Containers := [c],
        pspec_DNSPolicy := ''ClusterFirst'', pspec_Tolerations := tolerations\<rparr>\<rparr>"

definition newBootStrapJob :: "command \<Rightarrow> namespaced_name \<Rightarrow> string \<Rightarrow> batch_job" where
  "newBootStrapJob c name commandBootStrapConfigName =
     (let volume = command_name c @ ''-bootstrap-config-volume''; containers = cd_Containers (cr_conf c)
      in \<lparr>job_Conditions = [], job_BackoffLimit = None, job_Failed = 0,
          bj_meta = new_meta\<lparr>om_Name := snd name, om_Namespace := fst name\<rparr>,
          bj_Template = job_template (pc_NodeSelector (cr_common c))
            [\<lparr>vol_Name = volume, vol_Source = ConfigMapVolume commandBootStrapConfigName (Some 484)\<rparr>] []
            (new_pod_container\<lparr>pco_Name := ''command-init'', pco_ImagePullPolicy := ''IfNotPresent'',
               pco_Image := getImage containers ''init'', pco_Command := getCommand containers ''init'',
               pco_VolumeMounts := [new_mount volume ''/etc/contrail'']\<rparr>)
            [exists_toleration ''NoSchedule'', exists_toleration ''NoExecute'']\<rparr>)"

text \<open>A job that exists is kept; an error other than \<open>NotFound\<close> is returned.\<close>

definition create_job_once ::
  "k8s_lib \<Rightarrow> (batch_job, 's) kind_client \<Rightarrow> object_meta \<Rightarrow> namespaced_name \<Rightarrow> batch_job \<Rightarrow> ('s, go_error, unit) go" where
  "create_job_once lib kcj owner jobName job =
     bindM (tryM (kc_Get kcj jobName)) (\<lambda>r.
       case r of
         Inr _ \<Rightarrow> ret ()
       | Inl err \<Rightarrow>
           if IsNotFound lib err
           then bindM (sum_result (SetControllerReference lib owner (bj_meta job))) (\<lambda>meta.
                bindM (kc_Create kcj (job\<lparr>bj_meta := meta\<rparr>)) (\<lambda>_. ret ()))
           else throw err)"

definition reconcileBootstrapJob ::
  "k8s_lib \<Rightarrow> (batch_job, 's) kind_client \<Rightarrow> command \<Rightarrow> string \<Rightarrow> ('s, go_error, unit) go" where
  "reconcileBootstrapJob lib kcj c commandBootStrapConfigName =
     (let jobName = (om_Namespace (cr_meta c), command_name c @ ''-bootstrap-job'')
      in create_job_once lib kcj (cr_meta c) jobName (newBootStrapJob c jobName commandBootStrapConfigName))"

section \<open>Upgrades\<close>

definition isImageChanged :: "command \<Rightarrow> bool" where
  "isImageChanged c \<longleftrightarrow>
     cmd_ContainerImage c \<noteq> [] \<and> cmd_ContainerImage c \<noteq> getImage (cd_Containers (cr_conf c)) ''api''"

definition isTargetImageChanged :: "command \<Rightarrow> bool" where
  "isTargetImageChanged c \<longleftrightarrow>
     cmd_TargetContainerImage c \<noteq> [] \<and> cmd_TargetContainerImage c \<noteq> getImage (cd_Containers (cr_conf c)) ''api''"

definition upgrade_job_key :: "command \<Rightarrow> namespaced_name" where
  "upgrade_job_key c = (om_Namespace (cr_meta c), command_name c @ ''-upgrade-job'')"

definition upgrade_job_meta :: "command \<Rightarrow> object_meta" where
  "upgrade_job_meta c = new_meta\<lparr>om_Name := command_name c @ ''-upgrade-job'', om_Namespace := om_Namespace (cr_meta c)\<rparr>"

text \<open>Finished and succeeded.\<close>

definition checkDataMigrationCompleted ::
  "k8s_lib \<Rightarrow> (batch_job, 's) kind_client \<Rightarrow> command \<Rightarrow> ('s, go_error, bool \<times> bool) go" where
  "checkDataMigrationCompleted lib kcj c =
     bindM (tryM (kc_Get kcj (upgrade_job_key c))) (\<lambda>r.
       case r of
         Inr job \<Rightarrow>
           if JobCompleted (K8sObjects.k8s_job.truncate job) then ret (True, True)
           else if JobFailed (K8sObjects.k8s_job.truncate job) then ret (True, False)
           else ret (False, False)
       | Inl err \<Rightarrow> if \<not> IsNotFound lib err then throw err else ret (False, False))"

definition ptrToInt32 :: "int option \<Rightarrow> int \<Rightarrow> int" where
  "ptrToInt32 ptr valueIfNil = (case ptr of None \<Rightarrow> valueIfNil | Some v \<Rightarrow> v)"

definition performUpgradeIfNeeded ::
  "k8s_lib \<Rightarrow> (batch_job, 's) kind_client \<Rightarrow> command \<Rightarrow> int \<Rightarrow> ('s, go_error, command) go" where
  "performUpgradeIfNeeded lib kcj c replicas =
     (let img = getImage (cd_Containers (cr_conf c)) ''api''
      in if cmd_UpgradeState c = CommandShuttingDownBeforeUpgrade then
           ret (if replicas = 0 then c\<lparr>cmd_UpgradeState := CommandUpgrading\<rparr> else c)
         else if cmd_UpgradeState c = CommandUpgrading then
           bindM (checkDataMigrationCompleted lib kcj c) (\<lambda>(finished, succeeded).
             if \<not> finished then ret c
             else if succeeded
             then ret (c\<lparr>cmd_UpgradeState := CommandStartingUpgradedDeployment,
                         cmd_ContainerImage := cmd_TargetContainerImage c\<rparr>)
             else ret (c\<lparr>cmd_UpgradeState := CommandUpgradeFailed\<rparr>))
         else if cmd_UpgradeState c = CommandStartingUpgradedDeployment then
           let c1 = (if isTargetImageChanged c
                     then c\<lparr>cmd_UpgradeState := CommandShuttingDownBeforeUpgrade, cmd_TargetContainerImage := img\<rparr>
                     else c);
               expectedReplicas = ptrToInt32 (pc_Replicas (cr_common c1)) 1
           in ret (if int32_of replicas = expectedReplicas
                   then c1\<lparr>cmd_UpgradeState := CommandNotUpgrading, cmd_TargetContainerImage := []\<rparr> else c1)
         else if cmd_UpgradeState c = CommandUpgradeFailed then
           if \<not> isImageChanged c
           then ret (c\<lparr>cmd_UpgradeState := CommandNotUpgrading, cmd_TargetContainerImage := []\<rparr>)
           else if isTargetImageChanged c
           then ret (c\<lparr>cmd_UpgradeState := CommandShuttingDownBeforeUpgrade, cmd_TargetContainerImage := img\<rparr>)
           else ret c
         else
           let c1 = c\<lparr>cmd_UpgradeState := CommandNotUpgrading, cmd_TargetContainerImage := []\<rparr>
           in if isImageChanged c1
              then ret (c1\<lparr>cmd_UpgradeState :=
                             (if replicas = 0 then CommandUpgrading else CommandShuttingDownBeforeUpgrade),
                           cmd_TargetContainerImage := img\<rparr>)
              else ret c1)"

definition deleteMigrationJob ::
  "k8s_lib \<Rightarrow> (batch_job, 's) kind_client \<Rightarrow> command \<Rightarrow> ('s, go_error, unit) go" where
  "deleteMigrationJob lib kcj c = 
     ignoring (IsNotFound lib) () (kc_DeleteWith kcj ''Foreground'' (upgrade_job_meta c))"

definition dataMigrationJob :: "command \<Rightarrow> string \<Rightarrow> string \<Rightarrow> string \<Rightarrow> batch_job" where
  "dataMigrationJob c oldImage newImage configMapName =
     (let volumeMounts = [new_mount configMapName ''/etc/contrail'', new_mount ''backup-volume'' ''/backups/'']
      in \<lparr>job_Conditions = [], job_BackoffLimit = Some 5, job_Failed = 0, bj_meta = upgrade_job_meta c,
          bj_Template = job_template (pc_NodeSelector (cr_common c))
            [\<lparr>vol_Name = configMapName, vol_Source = ConfigMapVolume configMapName (Some 484)\<rparr>,
             \<lparr>vol_Name = ''backup-volume'', vol_Source = EmptyDirVolume\<rparr>]
            [new_pod_container\<lparr>pco_Name := ''db-dump'', pco_ImagePullPolicy := ''IfNotPresent'', pco_Image := oldImage,
               pco_Command := [''bash'', ''-c'', ''commandutil convert --intype rdbms --outtype yaml --out /backups/db.yml -c /etc/contrail/command-app-server.yml''],
               pco_VolumeMounts := volumeMounts\<rparr>]
            (new_pod_container\<lparr>pco_Name := ''migration'', pco_ImagePullPolicy := ''IfNotPresent'', pco_Image := newImage,
               pco_Command := [''bash'', ''-c'', ''/etc/contrail/migration.sh''], pco_VolumeMounts := volumeMounts\<rparr>)
            [exists_toleration ''NoSchedule'']\<rparr>)"

definition reconcileDataMigrationJob ::
  "k8s_lib \<Rightarrow> (batch_job, 's) kind_client \<Rightarrow> command \<Rightarrow> string \<Rightarrow> ('s, go_error, unit) go" where
  "reconcileDataMigrationJob lib kcj c configMapName =
     (if cmd_UpgradeState c = CommandShuttingDownBeforeUpgrade then deleteMigrationJob lib kcj c
      else if cmd_UpgradeState c = CommandNotUpgrading then ret ()
      else create_job_once lib kcj (cr_meta c) (upgrade_job_key c)
             (dataMigrationJob c (cmd_ContainerImage c) (cmd_TargetContainerImage c) configMapName))"

section \<open>The controller\<close>

definition command_status :: "deployment \<Rightarrow> string \<Rightarrow> command \<Rightarrow> command" where
  "command_status d cip c =
     (let expectedReplicas = ptrToInt32 (dep_Replicas d) 1;
          active = (dep_ReadyReplicas d = expectedReplicas \<and>
                    (cmd_UpgradeState c = CommandNotUpgrading \<or> cmd_UpgradeState c = []))
      in c\<lparr>cr_status := (cr_status c)\<lparr>st_Endpoint := cip, st_Active := Some active\<rparr>,
           cmd_ContainerImage := str_or (cmd_ContainerImage c) (getImage (cd_Containers (cr_conf c)) ''api'')\<rparr>)"

definition command_updateStatus ::
  "(command, 's) kind_client \<Rightarrow> command \<Rightarrow> deployment \<Rightarrow> string \<Rightarrow> ('s, go_error, command) go" where
  "command_updateStatus kc c d cip =
     (let c = command_status d cip c in bindM (kc_StatusUpdate kc c) (\<lambda>_. ret c))"

text \<open>The Keystone and Swift clients: a token for a user, and a container of a service.\<close>

record ('t, 's) openstack_lib =
  os_NewClient :: "keystone_configuration cr \<Rightarrow> ('s, go_error, unit) go"
  os_PostAuthTokens :: "keystone_configuration cr \<Rightarrow> string \<Rightarrow> string \<Rightarrow> string \<Rightarrow> ('s, go_error, 't) go"
  os_kubeproxy_New :: "('s, go_error, unit) go"
  os_EndpointURL :: "'t \<Rightarrow> string \<Rightarrow> string \<Rightarrow> string"
  os_swift_NewClient :: "string \<Rightarrow> string \<Rightarrow> int \<Rightarrow> 't \<Rightarrow> string \<Rightarrow> ('s, go_error, unit) go"
  os_PutReadAllContainer :: "string \<Rightarrow> string \<Rightarrow> int \<Rightarrow> 't \<Rightarrow> string \<Rightarrow> string \<Rightarrow> ('s, go_error, unit) go"

definition wrapping :: "string \<Rightarrow> ('s, go_error, 'a) go \<Rightarrow> ('s, go_error, 'a) go" where
  "wrapping text m =
     bindM (tryM m) (\<lambda>r. case r of Inl err \<Rightarrow> throw (errors_New (text @ error_text err)) | Inr x \<Rightarrow> ret x)"

definition ensureContrailSwiftContainerExists ::
  "('t, 's) openstack_lib \<Rightarrow> command \<Rightarrow> keystone_configuration cr \<Rightarrow> int \<Rightarrow> k_secret \<Rightarrow> string \<Rightarrow> ('s, go_error, unit) go" where
  "ensureContrailSwiftContainerExists os c k sPort adminPass serviceName =
     bindM (os_NewClient os k) (\<lambda>_.
     bindM (wrapping ''failed to get keystone token: ''
              (os_PostAuthTokens os k ''admin'' (secret_value adminPass ''password'') ''admin'')) (\<lambda>token.
     bindM (wrapping ''failed to create kubeproxy: '' (os_kubeproxy_New os)) (\<lambda>_.
       let namespace = om_Namespace (cr_meta c); service = cd_SwiftInstance (cr_conf c) @ ''-proxy-swiftproxy'';
           swiftURL = os_EndpointURL os token serviceName ''public''
       in bindM (wrapping ''failed to create swift client '' (os_swift_NewClient os namespace service sPort token swiftURL)) (\<lambda>_.
          wrapping ''failed to create swift container (contrail_container): ''
            (os_PutReadAllContainer os namespace service sPort token swiftURL ''contrail_container'')))))"

definition command_ensureCertificatesExist ::
  "k8s_lib \<Rightarrow> ('key, 'ip, 'cert, 's) crypto_lib \<Rightarrow> (k_secret, 's) kind_client \<Rightarrow> command \<Rightarrow> pod list \<Rightarrow> string
    \<Rightarrow> ('s, go_error, unit) go" where
  "command_ensureCertificatesExist lib cy kc c pods serviceIP =
     EnsureExistsAndIsSigned lib cy kc (cr_meta c) (Command_PodsCertSubjects c pods serviceIP) ''command''"

text \<open>The pods of every name space are listed.\<close>

definition listCommandsPods :: "(pod, 's) kind_client \<Rightarrow> string \<Rightarrow> ('s, go_error, pod list) go" where
  "listCommandsPods kc commandName = kc_List kc [] (command_labels commandName)"

text \<open>\<open>EnsureOwns\<close> on an object of its own type, with its metadata \<open>m\<close>.\<close>

definition own ::
  "'ot apimachinery \<Rightarrow> (go_error + string \<times> string) \<Rightarrow> ('o, 's) kind_client \<Rightarrow> (object_meta \<Rightarrow> 'o \<Rightarrow> 'o) \<Rightarrow> object_meta
    \<Rightarrow> object_meta \<Rightarrow> 'o \<Rightarrow> ('s, go_error, 'o) go" where
  "own am gvk kc put owner m x =
     bindM (sum_result gvk) (\<lambda>gvk.
       kc_Update kc (put (m\<lparr>om_OwnerReferences := replace_ref am (owner_ref gvk owner) (om_OwnerReferences m)\<rparr>) x))"

definition own_cr ::
  "'ot apimachinery \<Rightarrow> (go_error + string \<times> string) \<Rightarrow> ('c cr, 's) kind_client \<Rightarrow> object_meta \<Rightarrow> string
    \<Rightarrow> ('s, go_error, 'c cr) go" where
  "own_cr am gvk kc owner name =
     bindM (kc_Get kc (om_Namespace owner, name)) (\<lambda>x.
       own am gvk kc (\<lambda>m x. x\<lparr>cr_meta := m\<rparr>) owner (cr_meta x) x)"

record 's command_clients =
  cmc_command :: "(command, 's) kind_client"
  cmc_postgres :: "(postgres_configuration cr, 's) kind_client"
  cmc_keystone :: "(keystone_configuration cr, 's) kind_client"
  cmc_swift :: "(swift_configuration cr, 's) kind_client"
  cmc_config :: "(config_configuration cr, 's) kind_client"
  cmc_webui :: "(webui_configuration cr, 's) kind_client"
  cmc_deployment :: "(deployment, 's) kind_client"
  cmc_job :: "(batch_job, 's) kind_client"

text \<open>A port of a status with integer fields.\<close>

definition int_port :: "'c cr \<Rightarrow> string \<Rightarrow> int" where
  "int_port x port = (case map_of (st_IntPorts (cr_status x)) port of None \<Rightarrow> 0 | Some n \<Rightarrow> n)"

text \<open>
  The part of the reconciliation that rolls out the deployment and migrates the data: up to the write
  of the status (\<open>command_publish\<close>), and the migration job after it.
\<close>

definition command_publish ::
  "k8s_lib \<Rightarrow> 's command_clients \<Rightarrow> command \<Rightarrow> int \<Rightarrow> string \<Rightarrow> ('s, go_error, command) go" where
  "command_publish lib ocs c replicas commandClusterIP =
     (let name = command_name c @ ''-command-deployment''; namespace = om_Namespace (cr_meta c);
          fresh = new_deployment\<lparr>dep_meta := new_meta\<lparr>om_Namespace := namespace, om_Name := name\<rparr>\<rparr>
      in bindM (ignoring (IsNotFound lib) fresh (kc_Get (cmc_deployment ocs) (namespace, name))) (\<lambda>_.
         bindM (performUpgradeIfNeeded lib (cmc_job ocs) c replicas) (\<lambda>c.
         bindM (kc_CreateOrUpdate (cmc_deployment ocs) fresh (deployment_mutate lib c)) (\<lambda>d.
           command_updateStatus (cmc_command ocs) c d commandClusterIP))))"

definition command_rollout ::
  "k8s_lib \<Rightarrow> 's command_clients \<Rightarrow> command \<Rightarrow> int \<Rightarrow> string \<Rightarrow> string \<Rightarrow> ('s, go_error, command) go" where
  "command_rollout lib ocs c replicas commandClusterIP commandBootStrapConfigName =
     bindM (command_publish lib ocs c replicas commandClusterIP) (\<lambda>c.
     bindM (reconcileDataMigrationJob lib (cmc_job ocs) c commandBootStrapConfigName) (\<lambda>_. ret c))"

definition command_configure ::
  "k8s_lib \<Rightarrow> (string \<Rightarrow> string) \<Rightarrow> ('t, 's) openstack_lib \<Rightarrow> 's svc_clients \<Rightarrow> 's command_clients \<Rightarrow> command \<Rightarrow> pod list \<Rightarrow> string
    \<Rightarrow> k_secret \<Rightarrow> postgres_configuration cr \<Rightarrow> keystone_configuration cr \<Rightarrow> swift_configuration cr \<Rightarrow> k_secret
    \<Rightarrow> config_configuration cr \<Rightarrow> webui_configuration cr \<Rightarrow> ('s, go_error, unit) go" where
  "command_configure lib sha1_uuid os cls ocs c commandPods commandClusterIP adminPasswordSecret psql keystone swiftService
     swiftSecret config webUI =
     (let keystoneAddress = st_Endpoint (cr_status keystone); keystonePort = ks_ListenPort (cr_conf keystone);
          keystoneAuthProtocol = ks_AuthProtocol (cr_conf keystone);
          swiftProxyPort = int_port swiftService ''swiftProxyPort'';
          bootstrap = command_name c @ ''-bootstrap-configmap''
      in bindM (if commandPods \<noteq> [] then SetPodsToReady (sv_pod cls) commandPods else ret ()) (\<lambda>_.
         bindM (ensureCommandConfigExist lib (sv_configmap cls) (command_name c @ ''-command-configmap'') c adminPasswordSecret
                  swiftSecret (st_Endpoint (cr_status psql)) (st_Endpoint (cr_status config))
                  (if commandPods \<noteq> [] then map pod_PodIP commandPods else [''0.0.0.0''])
                  keystoneAuthProtocol keystoneAddress keystonePort) (\<lambda>_.
         bindM (ensureCommandInitConfigExist lib sha1_uuid (sv_configmap cls) bootstrap c adminPasswordSecret swiftSecret
                  (int_port webUI ''webUIHttpsPort'') swiftProxyPort keystonePort
                  (st_Endpoint (cr_status webUI)) (st_ClusterIP (cr_status swiftService)) keystoneAddress keystoneAuthProtocol
                  (st_Endpoint (cr_status psql)) (st_Endpoint (cr_status config)) commandClusterIP) (\<lambda>_.
         bindM (reconcileBootstrapJob lib (cmc_job ocs) c bootstrap) (\<lambda>_.
         bindM (command_rollout lib ocs c (int (length commandPods)) commandClusterIP bootstrap) (\<lambda>c.
           ensureContrailSwiftContainerExists os c keystone swiftProxyPort adminPasswordSecret
             (sp_SwiftServiceName (sw_SwiftProxyConfiguration (cr_conf swiftService)))))))))"

text \<open>The services that Command needs: it waits for each of them.\<close>

definition command_services ::
  "k8s_lib \<Rightarrow> 'ot apimachinery \<Rightarrow> (go_error + string \<times> string) \<Rightarrow> (string \<Rightarrow> string) \<Rightarrow> ('t, 's) openstack_lib \<Rightarrow> 's svc_clients
    \<Rightarrow> 's command_clients \<Rightarrow> command \<Rightarrow> pod list \<Rightarrow> string \<Rightarrow> k_secret \<Rightarrow> ('s, go_error, unit) go" where
  "command_services lib am gvk sha1_uuid os cls ocs c commandPods commandClusterIP adminPasswordSecret =
     (let conf = cr_conf c; namespace = om_Namespace (cr_meta c)
      in bindM (own_cr am gvk (cmc_postgres ocs) (cr_meta c) (cd_PostgresInstance conf)) (\<lambda>psql.
         if \<not> is_active psql then ret ()
         else bindM (own_cr am gvk (cmc_keystone ocs) (cr_meta c) (cd_KeystoneInstance conf)) (\<lambda>keystone.
           if \<not> is_active keystone \<or> st_Endpoint (cr_status keystone) = [] then ret ()
           else bindM (own_cr am gvk (cmc_swift ocs) (cr_meta c) (cd_SwiftInstance conf)) (\<lambda>swiftService.
             if \<not> is_active swiftService \<or> st_Secret (cr_status swiftService) = [] then ret ()
             else bindM (kc_Get (sv_secret cls) (namespace, st_Secret (cr_status swiftService))) (\<lambda>swiftSecret.
               if st_ClusterIP (cr_status swiftService) = [] then ret ()
               else bindM (own_cr am gvk (cmc_config ocs) (cr_meta c) (cd_ConfigInstance conf)) (\<lambda>config.
                 if st_Endpoint (cr_status config) = [] then ret ()
                 else bindM (own_cr am gvk (cmc_webui ocs) (cr_meta c) (cd_WebUIInstance conf)) (\<lambda>webUI.
                   if \<not> is_active webUI then ret ()
                   else command_configure lib sha1_uuid os cls ocs c commandPods commandClusterIP adminPasswordSecret psql
                          keystone swiftService swiftSecret config webUI)))))))"

definition Command_Reconcile ::
  "k8s_lib \<Rightarrow> range_ord \<Rightarrow> range_ord \<Rightarrow> 'ot apimachinery \<Rightarrow> (go_error + string \<times> string) \<Rightarrow> (string \<Rightarrow> string)
    \<Rightarrow> ('t, 's) openstack_lib \<Rightarrow> ('key, 'ip, 'cert, 's) crypto_lib \<Rightarrow> 's svc_clients \<Rightarrow> 's command_clients
    \<Rightarrow> namespaced_name \<Rightarrow> ('s, go_error, unit) go" where
  "Command_Reconcile lib ord1 ord2 am gvk sha1_uuid os cy cls ocs request =
     bindM (tryM (kc_Get (cmc_command ocs) request)) (\<lambda>r.
       case r of
         Inl err \<Rightarrow> if IsNotFound lib err then ret () else throw err
       | Inr c \<Rightarrow>
           if om_Deleted (cr_meta c) then ret ()
           else
             bindM (Service_EnsureExists lib (sv_service cls) ord1 ord2
                      (Kubernetes_Service (snd request @ ''-command'') ''ClusterIP'' [(9091, [])] ''command'' (cr_meta c))) (\<lambda>commandService.
             bindM (wrapping ''failed to list command pods: '' (listCommandsPods (sv_pod cls) (command_name c))) (\<lambda>commandPods.
             bindM (forM commandPods (\<lambda>p. bindM (own am gvk (sv_pod cls) (\<lambda>m p. p\<lparr>pod_meta := m\<rparr>) (cr_meta c) (pod_meta p) p) (\<lambda>_. ret ()))) (\<lambda>_.
             bindM (command_ensureCertificatesExist lib cy (sv_secret cls) c commandPods (ClusterIP commandService)) (\<lambda>_.
             bindM (kc_Get (sv_secret cls) (om_Namespace (cr_meta c), cd_KeystoneSecretName (cr_conf c))) (\<lambda>adminPasswordSecret.
               command_services lib am gvk sha1_uuid os cls ocs c commandPods (ClusterIP commandService) adminPasswordSecret))))))"

end
