(* ===== verification/CommandLaws.thy ===== *)
theory CommandLaws
  imports CommandService ManagerLaws
begin

text \<open>
  Upgrades of Command: the rollouts of a resource, also those that fail, the edits of its
  specification and the progress of its jobs are the steps of a state machine.  The invariant says
  which migration job may exist in which state, and with it a new image is only taken over after the
  data was migrated to it, unless the job of an earlier upgrade has outlived its deletion.
\<close>

section \<open>The states\<close>

lemmas upgrade_states = CommandNotUpgrading_def CommandShuttingDownBeforeUpgrade_def CommandUpgrading_def
  CommandStartingUpgradedDeployment_def CommandUpgradeFailed_def

abbreviation api_image :: "command \<Rightarrow> string" where
  "api_image c \<equiv> getImage (cd_Containers (cr_conf c)) ''api''"

text \<open>The images of a migration job: of the container that dumps the data and of the one that migrates them.\<close>

definition job_images :: "batch_job \<Rightarrow> string list \<times> string list" where
  "job_images j =
     (map pco_Image (pspec_InitContainers (pt_Spec (bj_Template j))), map pco_Image (pspec_Containers (pt_Spec (bj_Template j))))"

lemma job_images_dataMigrationJob [simp]:
  "job_images ((dataMigrationJob c old new cm)\<lparr>bj_meta := m\<rparr>) = ([old], [new])"
  by (simp add: job_images_def dataMigrationJob_def job_template_def Let_def)

lemma key_of_upgrade_job [simp]: "key_of (upgrade_job_meta c) = upgrade_job_key c"
  by (simp add: upgrade_job_meta_def upgrade_job_key_def key_of_def)

lemma upgrade_job_key_cong: "cr_meta c' = cr_meta c \<Longrightarrow> upgrade_job_key c' = upgrade_job_key c"
  by (simp add: upgrade_job_key_def command_name_def)

definition upgrade_started :: "command \<Rightarrow> bool" where
  "upgrade_started c \<longleftrightarrow>
     cmd_UpgradeState c \<in> {CommandShuttingDownBeforeUpgrade, CommandUpgrading, CommandStartingUpgradedDeployment, CommandUpgradeFailed}"

text \<open>
  The steps, on the stored resource, the state of the cluster and a mark \<open>kept\<close>.  A rollout stores the
  resource when its status is written, whatever becomes of the migration job after that; a rollout
  that fails before leaves the resource as it was.  An edit changes the specification.  The jobs may
  run or go away, but keep what they run.  The mark says that a rollout has asked for the deletion of
  the migration job and that the job has been there ever since: the request failed, or it has not
  taken effect yet.  An upgrade begins while there are pods, and an image is configured.
\<close>

definition deletion_requested :: "'s command_clients \<Rightarrow> command \<Rightarrow> 's \<Rightarrow> 's \<Rightarrow> bool" where
  "deletion_requested ocs c t s' \<longleftrightarrow> cmd_UpgradeState c = CommandShuttingDownBeforeUpgrade \<and>
     (\<exists>d. kc_DeleteWith (cmc_job ocs) ''Foreground'' (upgrade_job_meta c) t = (d, s'))"

inductive upgrade_step ::
  "k8s_lib \<Rightarrow> 's command_clients \<Rightarrow> ('s \<Rightarrow> namespaced_name \<rightharpoonup> batch_job) \<Rightarrow> command \<times> 's \<times> bool \<Rightarrow> command \<times> 's \<times> bool \<Rightarrow> bool"
  for lib ocs jobs where
  rolls_out: "command_publish lib ocs c n ip s = (Ok c', t) \<Longrightarrow> reconcileDataMigrationJob lib (cmc_job ocs) c' cm t = (r, s') \<Longrightarrow>
    api_image c \<noteq> [] \<Longrightarrow> (\<not> upgrade_started c \<longrightarrow> n \<noteq> 0) \<Longrightarrow>
    upgrade_step lib ocs jobs (c, s, kept)
      (c', s', (deletion_requested ocs c' t s' \<or> kept) \<and> jobs s' (upgrade_job_key c') \<noteq> None)"
| fails: "command_publish lib ocs c n ip s = (r, s') \<Longrightarrow> (\<forall>c'. r \<noteq> Ok c') \<Longrightarrow>
    upgrade_step lib ocs jobs (c, s, kept) (c, s', kept)"
| is_edited: "cr_meta c' = cr_meta c \<Longrightarrow> cmd_UpgradeState c' = cmd_UpgradeState c \<Longrightarrow>
    cmd_TargetContainerImage c' = cmd_TargetContainerImage c \<Longrightarrow> cmd_ContainerImage c' = cmd_ContainerImage c \<Longrightarrow>
    upgrade_step lib ocs jobs (c, s, kept) (c', s, kept)"
| job_runs: "(\<forall>k j'. jobs s' k = Some j' \<longrightarrow> (\<exists>j. jobs s k = Some j \<and> bj_Template j' = bj_Template j)) \<Longrightarrow>
    upgrade_step lib ocs jobs (c, s, kept) (c, s', kept \<and> jobs s' (upgrade_job_key c) \<noteq> None)"

inductive_cases upgrade_stepE: "upgrade_step lib ocs jobs (c, s, kept) (c', s', kept')"

text \<open>Which migration job there may be in which state.\<close>

definition upgrade_ok :: "('s \<Rightarrow> namespaced_name \<rightharpoonup> batch_job) \<Rightarrow> command \<Rightarrow> 's \<Rightarrow> bool \<Rightarrow> bool" where
  "upgrade_ok jobs c s kept \<longleftrightarrow>
     (upgrade_started c \<longrightarrow> cmd_ContainerImage c \<noteq> [] \<and> cmd_TargetContainerImage c \<noteq> []) \<and>
     (kept \<longrightarrow> jobs s (upgrade_job_key c) \<noteq> None) \<and>
     (cmd_UpgradeState c = CommandShuttingDownBeforeUpgrade \<longrightarrow> \<not> kept \<longrightarrow> jobs s (upgrade_job_key c) = None) \<and>
     (cmd_UpgradeState c = CommandUpgrading \<longrightarrow> \<not> kept \<longrightarrow>
        (\<forall>j. jobs s (upgrade_job_key c) = Some j \<longrightarrow> job_images j = ([cmd_ContainerImage c], [cmd_TargetContainerImage c])))"

lemma upgrade_ok_jobs:
  assumes r: "\<forall>k j'. jobs s' k = Some j' \<longrightarrow> (\<exists>j. jobs s k = Some j \<and> bj_Template j' = bj_Template j)"
    and ok: "upgrade_ok jobs c s kept"
  shows "upgrade_ok jobs c s' (kept \<and> jobs s' (upgrade_job_key c) \<noteq> None)"
proof (cases "jobs s' (upgrade_job_key c)")
  case None
  with ok show ?thesis by (simp add: upgrade_ok_def)
next
  case (Some j')
  with r obtain j where "jobs s (upgrade_job_key c) = Some j" "bj_Template j' = bj_Template j" by blast
  with ok Some show ?thesis by (simp add: upgrade_ok_def job_images_def)
qed

section \<open>The cluster\<close>

text \<open>
  What the rollout relies on: the client of the jobs keeps its contract, creating stores the object,
  and the clients of the deployments and of the resource leave the jobs alone.
\<close>

locale create_server = kind_server +
  assumes Create_Ok: "kc_Create kc x s = (Ok y, s') \<Longrightarrow> objects s' = (objects s)(key_of (meta x) \<mapsto> x)"

locale upgrade_cluster = create_server lib "cmc_job ocs" bj_meta jobs
  for lib :: k8s_lib and ocs :: "'s command_clients" and jobs :: "'s \<Rightarrow> namespaced_name \<rightharpoonup> batch_job" +
  assumes controller_key: "SetControllerReference lib owner m = Inr m' \<Longrightarrow> key_of m' = key_of m"
    and Get_deployment: "kc_Get (cmc_deployment ocs) k s = (r, s') \<Longrightarrow> jobs s' = jobs s"
    and Put_deployment: "(\<And>d t. snd (f d t) = t) \<Longrightarrow> kc_CreateOrUpdate (cmc_deployment ocs) x f s = (r', s') \<Longrightarrow> jobs s' = jobs s"
    and Put_status: "kc_StatusUpdate (cmc_command ocs) c s = (r'', s') \<Longrightarrow> jobs s' = jobs s"
begin

lemma try_job:
  assumes "tryM (kc_Get (cmc_job ocs) k) s = (Ok r, t)"
  shows "t = s \<and> (case r of Inr j \<Rightarrow> jobs s k = Some j | Inl e \<Rightarrow> IsNotFound lib e \<longrightarrow> jobs s k = None)"
  using assms Get_Ok [of k s] Get_Err [of k s] by (cases r) (auto simp: tryM_Ok_iff)

lemma check_Ok:
  assumes "checkDataMigrationCompleted lib (cmc_job ocs) c s = (Ok (finished, succeeded), s')"
  shows "s' = s \<and> (finished \<longrightarrow> succeeded \<longrightarrow> (\<exists>j. jobs s (upgrade_job_key c) = Some j \<and> JobCompleted (K8sObjects.k8s_job.truncate j)))"
proof -
  from assms obtain r t where r: "tryM (kc_Get (cmc_job ocs) (upgrade_job_key c)) s = (Ok r, t)"
    and k: "(case r of Inr j \<Rightarrow> if JobCompleted (K8sObjects.k8s_job.truncate j) then ret (True, True)
           else if JobFailed (K8sObjects.k8s_job.truncate j) then ret (True, False) else ret (False, False)
       | Inl err \<Rightarrow> if \<not> IsNotFound lib err then throw err else ret (False, False)) t = (Ok (finished, succeeded), s')"
    unfolding checkDataMigrationCompleted_def by (rule bindM_OkE)
  from k try_job [OF r] show ?thesis by (cases r) (auto split: if_splits)
qed

lemma check_succeeds:
  assumes "jobs s (upgrade_job_key c) = Some j" "JobCompleted (K8sObjects.k8s_job.truncate j)"
    and "checkDataMigrationCompleted lib (cmc_job ocs) c s = (Ok b, s')"
  shows "b = (True, True)"
proof -
  from assms(3) obtain r t where r: "tryM (kc_Get (cmc_job ocs) (upgrade_job_key c)) s = (Ok r, t)"
    and k: "(case r of Inr j \<Rightarrow> if JobCompleted (K8sObjects.k8s_job.truncate j) then ret (True, True)
           else if JobFailed (K8sObjects.k8s_job.truncate j) then ret (True, False) else ret (False, False)
       | Inl err \<Rightarrow> if \<not> IsNotFound lib err then throw err else ret (False, False)) t = (Ok b, s')"
    unfolding checkDataMigrationCompleted_def by (rule bindM_OkE)
  from k try_job [OF r] assms(1,2) show ?thesis by (cases r) (auto split: if_splits)
qed

text \<open>The state machine of \<open>performUpgradeIfNeeded\<close>: what one call makes of the three fields.\<close>

lemma perform_frame:
  assumes "performUpgradeIfNeeded lib (cmc_job ocs) c n s = (Ok c', s')"
  shows "s' = s \<and> cr_meta c' = cr_meta c \<and> cr_conf c' = cr_conf c"
  using assms
  by (auto simp: performUpgradeIfNeeded_def Let_def bindM_Ok_iff dest!: check_Ok split: if_splits prod.splits)

lemma perform_image:
  assumes "performUpgradeIfNeeded lib (cmc_job ocs) c n s = (Ok c', s')" "cmd_ContainerImage c' \<noteq> cmd_ContainerImage c"
  shows "cmd_UpgradeState c = CommandUpgrading \<and> cmd_ContainerImage c' = cmd_TargetContainerImage c \<and>
    (\<exists>j. jobs s (upgrade_job_key c) = Some j \<and> JobCompleted (K8sObjects.k8s_job.truncate j))"
  using assms
  by (auto simp: performUpgradeIfNeeded_def Let_def bindM_Ok_iff dest!: check_Ok split: if_splits prod.splits)

lemma perform_completed:
  assumes "performUpgradeIfNeeded lib (cmc_job ocs) c n s = (Ok c', s')" "cmd_UpgradeState c = CommandUpgrading"
    and j: "jobs s (upgrade_job_key c) = Some j" "JobCompleted (K8sObjects.k8s_job.truncate j)"
  shows "c' = c\<lparr>cmd_UpgradeState := CommandStartingUpgradedDeployment, cmd_ContainerImage := cmd_TargetContainerImage c\<rparr>"
proof -
  have eq: "performUpgradeIfNeeded lib (cmc_job ocs) c n = bindM (checkDataMigrationCompleted lib (cmc_job ocs) c) (\<lambda>(finished, succeeded).
        if \<not> finished then ret c
        else if succeeded then ret (c\<lparr>cmd_UpgradeState := CommandStartingUpgradedDeployment, cmd_ContainerImage := cmd_TargetContainerImage c\<rparr>)
        else ret (c\<lparr>cmd_UpgradeState := CommandUpgradeFailed\<rparr>))"
    using assms(2) by (simp add: performUpgradeIfNeeded_def upgrade_states)
  from assms(1) show ?thesis unfolding eq
  proof (rule bindM_OkE, goal_cases)
    case (1 r t)
    from check_succeeds [OF j 1(1)] 1(2) show ?case by simp
  qed
qed

lemma create_job_once_Ok:
  assumes run: "create_job_once lib (cmc_job ocs) owner k job s = (Ok u, s')" and key: "key_of (bj_meta job) = k"
  shows "if jobs s k = None then \<exists>m. key_of m = k \<and> jobs s' = (jobs s)(k \<mapsto> job\<lparr>bj_meta := m\<rparr>) else jobs s' = jobs s"
proof -
  from run obtain r t where r: "tryM (kc_Get (cmc_job ocs) k) s = (Ok r, t)"
    and b: "(case r of Inr _ \<Rightarrow> ret () | Inl err \<Rightarrow> if IsNotFound lib err
           then bindM (sum_result (SetControllerReference lib owner (bj_meta job))) (\<lambda>meta.
                bindM (kc_Create (cmc_job ocs) (job\<lparr>bj_meta := meta\<rparr>)) (\<lambda>_. ret ()))
           else throw err) t = (Ok u, s')"
    unfolding create_job_once_def by (rule bindM_OkE)
  note t = try_job [OF r]
  show ?thesis
  proof (cases r)
    case (Inr j)
    with b t show ?thesis by auto
  next
    case (Inl e)
    with b have nf: "IsNotFound lib e" by (auto split: if_splits)
    with Inl b obtain m y where m: "SetControllerReference lib owner (bj_meta job) = Inr m"
      and y: "kc_Create (cmc_job ocs) (job\<lparr>bj_meta := m\<rparr>) t = (Ok y, s')"
      by (auto simp: bindM_Ok_iff sum_result_def split: sum.splits)
    from controller_key [OF m] key have "key_of m = k" by simp
    with Create_Ok [OF y] t Inl nf show ?thesis by auto
  qed
qed

lemma migration_jobs:
  assumes "reconcileDataMigrationJob lib (cmc_job ocs) c cm s = (Ok u, s')"
    and "cmd_UpgradeState c \<noteq> CommandShuttingDownBeforeUpgrade" "jobs s (upgrade_job_key c) = Some j"
  shows "jobs s' (upgrade_job_key c) = Some j"
proof -
  have key: "key_of (bj_meta (dataMigrationJob c a b cm)) = upgrade_job_key c" for a b
    by (simp add: dataMigrationJob_def Let_def)
  show ?thesis
    using assms create_job_once_Ok [OF _ key] by (auto simp: reconcileDataMigrationJob_def split: if_splits)
qed

lemma deployment_mutate_state: "snd (deployment_mutate lib c d t) = t"
proof -
  have "preserves (\<lambda>u. u = t) (deployment_mutate lib c d)"
    unfolding deployment_mutate_def command_prepareIntendedDeployment_def Let_def deref_ptr_def sum_result_def
    by (intro preserves_intros)
  then show ?thesis by (simp add: preserves_def)
qed

lemma ignoring_any:
  assumes "ignoring p x m s = (r, t)"
  shows "\<exists>d. m s = (d, t)"
  using assms by (cases "m s"; cases "fst (m s)") (auto simp: ignoring_def bindM_def tryM_def split: if_splits)

lemma ignoring_state:
  assumes "ignoring p x m s = (Ok y, t)"
  shows "\<exists>r. m s = (r, t)"
  using assms by (rule ignoring_any)

lemma publish_Ok:
  assumes "command_publish lib ocs c n ip s = (Ok c', t2)"
  obtains c1 d t where "performUpgradeIfNeeded lib (cmc_job ocs) c n t = (Ok c1, t)" "jobs t = jobs s"
    "c' = command_status d ip c1" "jobs t2 = jobs s"
proof -
  let ?fresh = "new_deployment\<lparr>dep_meta := new_meta\<lparr>om_Namespace := om_Namespace (cr_meta c), om_Name := command_name c @ ''-command-deployment''\<rparr>\<rparr>"
  from assms obtain d0 t c1 t' d t1 where
    g: "ignoring (IsNotFound lib) ?fresh (kc_Get (cmc_deployment ocs) (om_Namespace (cr_meta c), command_name c @ ''-command-deployment'')) s = (Ok d0, t)"
    and p: "performUpgradeIfNeeded lib (cmc_job ocs) c n t = (Ok c1, t')"
    and d: "kc_CreateOrUpdate (cmc_deployment ocs) ?fresh (deployment_mutate lib c1) t' = (Ok d, t1)"
    and st: "command_updateStatus (cmc_command ocs) c1 d ip t1 = (Ok c', t2)"
    unfolding command_publish_def Let_def by (elim bindM_OkE) auto
  have 1: "jobs t = jobs s" using ignoring_state [OF g] Get_deployment by blast
  have 2: "t' = t" using perform_frame [OF p] by simp
  have 3: "jobs t1 = jobs t" using Put_deployment [OF deployment_mutate_state d] 2 by simp
  have 4: "c' = command_status d ip c1" "jobs t2 = jobs t1"
    using st Put_status by (auto simp: command_updateStatus_def Let_def bindM_Ok_iff)
  show thesis using that [of t c1 d] p 1 2 3 4 by simp
qed

lemma rollout_Ok:
  assumes "command_rollout lib ocs c n ip cm s = (Ok c', s')"
  obtains c1 d t t2 where "performUpgradeIfNeeded lib (cmc_job ocs) c n t = (Ok c1, t)" "jobs t = jobs s"
    "c' = command_status d ip c1" "reconcileDataMigrationJob lib (cmc_job ocs) c' cm t2 = (Ok (), s')" "jobs t2 = jobs s"
proof -
  from assms obtain t2 where p: "command_publish lib ocs c n ip s = (Ok c', t2)"
    and j: "reconcileDataMigrationJob lib (cmc_job ocs) c' cm t2 = (Ok (), s')"
    unfolding command_rollout_def by (elim bindM_OkE) auto
  from publish_Ok [OF p] obtain c1 d t where "performUpgradeIfNeeded lib (cmc_job ocs) c n t = (Ok c1, t)" "jobs t = jobs s"
    "c' = command_status d ip c1" "jobs t2 = jobs s" by metis
  with that j show thesis by blast
qed

lemma perform_states:
  assumes "performUpgradeIfNeeded lib (cmc_job ocs) c n s = (Ok c', s')" "api_image c \<noteq> []" "\<not> upgrade_started c \<longrightarrow> n \<noteq> 0"
    and "upgrade_started c \<longrightarrow> cmd_ContainerImage c \<noteq> [] \<and> cmd_TargetContainerImage c \<noteq> []"
  shows "(upgrade_started c' \<longrightarrow> cmd_ContainerImage c' \<noteq> [] \<and> cmd_TargetContainerImage c' \<noteq> []) \<and>
    (cmd_UpgradeState c' = CommandUpgrading \<longrightarrow>
       (cmd_UpgradeState c = CommandUpgrading \<or> cmd_UpgradeState c = CommandShuttingDownBeforeUpgrade) \<and>
       cmd_ContainerImage c' = cmd_ContainerImage c \<and> cmd_TargetContainerImage c' = cmd_TargetContainerImage c)"
  using assms
  by (auto simp: performUpgradeIfNeeded_def Let_def bindM_Ok_iff upgrade_started_def upgrade_states isImageChanged_def
      split: if_splits prod.splits)

text \<open>A completed job, whichever it is, makes the next rollout take over the image.\<close>

lemma completed_job_taken:
  assumes st: "cmd_UpgradeState c1 = CommandUpgrading" and j: "jobs s1 (upgrade_job_key c1) = Some j"
    and done_: "JobCompleted (K8sObjects.k8s_job.truncate j)" and run: "command_rollout lib ocs c1 n ip cm s1 = (Ok c2, s2)"
  shows "cmd_UpgradeState c2 = CommandStartingUpgradedDeployment \<and> jobs s2 (upgrade_job_key c1) = Some j \<and>
    (cmd_TargetContainerImage c1 \<noteq> [] \<longrightarrow> cmd_ContainerImage c2 = cmd_TargetContainerImage c1)"
proof -
  from rollout_Ok [OF run] obtain b d t t2 where p: "performUpgradeIfNeeded lib (cmc_job ocs) c1 n t = (Ok b, t)"
    and t: "jobs t = jobs s1" and c2: "c2 = command_status d ip b"
    and m: "reconcileDataMigrationJob lib (cmc_job ocs) c2 cm t2 = (Ok (), s2)" and t2: "jobs t2 = jobs s1" by metis
  from perform_completed [OF p st j [folded t] done_]
  have "b = c1\<lparr>cmd_UpgradeState := CommandStartingUpgradedDeployment, cmd_ContainerImage := cmd_TargetContainerImage c1\<rparr>" .
  with c2 have c2': "cmd_UpgradeState c2 = CommandStartingUpgradedDeployment" "upgrade_job_key c2 = upgrade_job_key c1"
    "cmd_TargetContainerImage c1 \<noteq> [] \<longrightarrow> cmd_ContainerImage c2 = cmd_TargetContainerImage c1"
    by (simp_all add: command_status_def Let_def str_or_def upgrade_job_key_def command_name_def)
  then have "jobs s2 (upgrade_job_key c2) = Some j"
    using migration_jobs [OF m] j t2 by (simp add: upgrade_states)
  with c2' show ?thesis by simp
qed

text \<open>
  An upgrade that begins without pods keeps the job of the upgrade before: when that one has
  completed, the image is taken over without a migration.
\<close>

lemma stale_job:
  assumes st: "\<not> upgrade_started c" and im: "isImageChanged c" "api_image c \<noteq> []"
    and j: "jobs s (upgrade_job_key c) = Some j" "JobCompleted (K8sObjects.k8s_job.truncate j)"
    and run: "command_rollout lib ocs c 0 ip cm s = (Ok c1, s1)" "command_rollout lib ocs c1 n ip' cm' s1 = (Ok c2, s2)"
  shows "cmd_ContainerImage c2 = api_image c \<and> cmd_UpgradeState c2 = CommandStartingUpgradedDeployment \<and>
    jobs s2 (upgrade_job_key c) = Some j"
proof -
  from rollout_Ok [OF run(1)] obtain b d t t2 where p: "performUpgradeIfNeeded lib (cmc_job ocs) c 0 t = (Ok b, t)"
    and c1: "c1 = command_status d ip b" and m: "reconcileDataMigrationJob lib (cmc_job ocs) c1 cm t2 = (Ok (), s1)"
    and t2: "jobs t2 = jobs s" by metis
  have b: "cmd_UpgradeState b = CommandUpgrading" "cmd_TargetContainerImage b = api_image c" "cmd_ContainerImage b = cmd_ContainerImage c"
    using p st im(1) by (auto simp: performUpgradeIfNeeded_def Let_def upgrade_started_def isImageChanged_def)
  then have s1: "cmd_UpgradeState c1 = CommandUpgrading" "cmd_TargetContainerImage c1 = api_image c"
    "upgrade_job_key c1 = upgrade_job_key c"
    using perform_frame [OF p] c1 by (simp_all add: command_status_def Let_def upgrade_job_key_def command_name_def)
  have j1: "jobs s1 (upgrade_job_key c1) = Some j"
    using migration_jobs [OF m] s1 j(1) t2 by (simp add: upgrade_states)
  from completed_job_taken [OF s1(1) j1 j(2) run(2)] s1 im(2) show ?thesis by simp
qed

text \<open>The same happens when the deletion of a completed job has not taken effect before the pods are gone.\<close>

lemma lingering_job:
  assumes st: "cmd_UpgradeState c = CommandShuttingDownBeforeUpgrade" and im: "cmd_TargetContainerImage c \<noteq> []"
    and j: "jobs s (upgrade_job_key c) = Some j" "JobCompleted (K8sObjects.k8s_job.truncate j)"
    and run: "command_rollout lib ocs c 0 ip cm s = (Ok c1, s1)" "command_rollout lib ocs c1 n ip' cm' s1 = (Ok c2, s2)"
  shows "cmd_ContainerImage c2 = cmd_TargetContainerImage c \<and> jobs s2 (upgrade_job_key c) = Some j"
proof -
  from rollout_Ok [OF run(1)] obtain b d t t2 where p: "performUpgradeIfNeeded lib (cmc_job ocs) c 0 t = (Ok b, t)"
    and c1: "c1 = command_status d ip b" and m: "reconcileDataMigrationJob lib (cmc_job ocs) c1 cm t2 = (Ok (), s1)"
    and t2: "jobs t2 = jobs s" by metis
  have "b = c\<lparr>cmd_UpgradeState := CommandUpgrading\<rparr>"
    using p st by (auto simp: performUpgradeIfNeeded_def)
  then have s1: "cmd_UpgradeState c1 = CommandUpgrading" "cmd_TargetContainerImage c1 = cmd_TargetContainerImage c"
    "upgrade_job_key c1 = upgrade_job_key c"
    using c1 by (simp_all add: command_status_def Let_def upgrade_job_key_def command_name_def)
  have j1: "jobs s1 (upgrade_job_key c1) = Some j"
    using migration_jobs [OF m] s1 j(1) t2 by (simp add: upgrade_states)
  from completed_job_taken [OF s1(1) j1 j(2) run(2)] s1 im show ?thesis by simp
qed

end

section \<open>Rollouts that fail\<close>

text \<open>
  The cluster with the outcomes that are not a success: the deletion with the policy \<open>Foreground\<close> may
  leave the job, marked, and a request to the jobs that fails changes nothing.
\<close>

locale failing_cluster = upgrade_cluster lib ocs jobs + policy_server lib "cmc_job ocs" bj_meta jobs mark
  for lib :: k8s_lib and ocs :: "'s command_clients" and jobs :: "'s \<Rightarrow> namespaced_name \<rightharpoonup> batch_job"
    and mark :: "batch_job \<Rightarrow> batch_job" +
  assumes Get_any: "kc_Get (cmc_job ocs) k s = (r, s') \<Longrightarrow> jobs s' = jobs s"
    and Create_fails: "kc_Create (cmc_job ocs) x s = (r, s') \<Longrightarrow> (\<And>y. r \<noteq> Ok y) \<Longrightarrow> jobs s' = jobs s"
begin

lemma perform_jobs: "preserves (\<lambda>t. jobs t = J) (performUpgradeIfNeeded lib (cmc_job ocs) c n)"
proof -
  have get: "preserves (\<lambda>t. jobs t = J) (kc_Get (cmc_job ocs) k)" for k
    unfolding preserves_def by (metis Get_any prod.collapse)
  then show ?thesis
    unfolding performUpgradeIfNeeded_def checkDataMigrationCompleted_def Let_def
    by (auto intro!: preserves_intros get split: prod.split simp del: split_paired_All)
qed

lemma publish_jobs:
  assumes "command_publish lib ocs c n ip s = (r, s')"
  shows "jobs s' = jobs s"
proof -
  have dep: "preserves (\<lambda>t. jobs t = jobs s) (kc_Get (cmc_deployment ocs) k)" for k
    unfolding preserves_def by (metis Get_deployment prod.collapse)
  have put: "preserves (\<lambda>t. jobs t = jobs s) (kc_CreateOrUpdate (cmc_deployment ocs) x (deployment_mutate lib c))" for x c
    unfolding preserves_def by (metis Put_deployment deployment_mutate_state prod.collapse)
  have status: "preserves (\<lambda>t. jobs t = jobs s) (kc_StatusUpdate (cmc_command ocs) c)" for c
    unfolding preserves_def by (metis Put_status prod.collapse)
  have "preserves (\<lambda>t. jobs t = jobs s) (command_publish lib ocs c n ip)"
    unfolding command_publish_def command_updateStatus_def Let_def
    by (intro preserves_intros dep put status perform_jobs)
  from preservesD [OF this refl assms] show ?thesis .
qed

lemma create_job_once_not_Ok:
  assumes run: "create_job_once lib (cmc_job ocs) owner k job s = (r, s')" and r: "\<forall>u. r \<noteq> Ok u"
  shows "jobs s' = jobs s"
proof -
  obtain g t where g: "kc_Get (cmc_job ocs) k s = (g, t)" by (cases "kc_Get (cmc_job ocs) k s")
  note t = Get_any [OF g]
  show ?thesis
  proof (cases "\<exists>e m. g = Err e \<and> IsNotFound lib e \<and> SetControllerReference lib owner (bj_meta job) = Inr m")
    case True
    then obtain e m where m: "g = Err e" "IsNotFound lib e" "SetControllerReference lib owner (bj_meta job) = Inr m" by blast
    obtain c u where c: "kc_Create (cmc_job ocs) (job\<lparr>bj_meta := m\<rparr>) t = (c, u)"
      by (cases "kc_Create (cmc_job ocs) (job\<lparr>bj_meta := m\<rparr>) t")
    with run r g m have "u = s'" "\<forall>y. c \<noteq> Ok y"
      by (cases c; auto simp: create_job_once_def bindM_def tryM_def sum_result_def)+
    with Create_fails [OF c] t show ?thesis by simp
  next
    case False
    with run g t show ?thesis
      by (cases g) (auto simp: create_job_once_def bindM_def tryM_def sum_result_def split: if_splits sum.splits)
  qed
qed

lemma create_job_once_any:
  assumes run: "create_job_once lib (cmc_job ocs) owner k job s = (r, s')" and key: "key_of (bj_meta job) = k"
  shows "jobs s' = jobs s \<or> jobs s k = None \<and> (\<exists>m. jobs s' = (jobs s)(k \<mapsto> job\<lparr>bj_meta := m\<rparr>))"
proof (cases r)
  case (Ok u)
  with create_job_once_Ok [OF run [unfolded Ok] key] show ?thesis by (auto split: if_splits)
next
  case Err
  with create_job_once_not_Ok [OF run] show ?thesis by simp
next
  case Panic
  with create_job_once_not_Ok [OF run] show ?thesis by simp
next
  case Fatal
  with create_job_once_not_Ok [OF run] show ?thesis by simp
qed

lemma migration_any:
  assumes run: "reconcileDataMigrationJob lib (cmc_job ocs) c cm s = (r, s')"
    and st: "cmd_UpgradeState c \<noteq> CommandShuttingDownBeforeUpgrade"
  shows "jobs s' (upgrade_job_key c) = jobs s (upgrade_job_key c) \<or>
    jobs s (upgrade_job_key c) = None \<and>
    (\<exists>j. jobs s' (upgrade_job_key c) = Some j \<and> job_images j = ([cmd_ContainerImage c], [cmd_TargetContainerImage c]))"
proof (cases "cmd_UpgradeState c = CommandNotUpgrading")
  case True
  with run st show ?thesis by (simp add: reconcileDataMigrationJob_def)
next
  case False
  have key: "key_of (bj_meta (dataMigrationJob c a b cm)) = upgrade_job_key c" for a b
    by (simp add: dataMigrationJob_def Let_def)
  from run st False create_job_once_any [OF _ key] show ?thesis
    by (fastforce simp: reconcileDataMigrationJob_def)
qed

lemma rollout_keeps:
  assumes pub: "command_publish lib ocs c n ip s = (Ok c', t2)"
    and j: "reconcileDataMigrationJob lib (cmc_job ocs) c' cm t2 = (r, s')"
    and "api_image c \<noteq> []" "\<not> upgrade_started c \<longrightarrow> n \<noteq> 0" and ok: "upgrade_ok jobs c s kept"
  shows "upgrade_ok jobs c' s'
    ((deletion_requested ocs c' t2 s' \<or> kept) \<and> jobs s' (upgrade_job_key c') \<noteq> None)"
proof -
  from publish_Ok [OF pub] obtain c1 d t where p: "performUpgradeIfNeeded lib (cmc_job ocs) c n t = (Ok c1, t)"
    and t: "jobs t = jobs s" and c': "c' = command_status d ip c1" and t2: "jobs t2 = jobs s" by metis
  have f: "upgrade_job_key c' = upgrade_job_key c" "upgrade_started c' = upgrade_started c1"
    "cmd_UpgradeState c' = cmd_UpgradeState c1" "cmd_TargetContainerImage c' = cmd_TargetContainerImage c1"
    "cmd_ContainerImage c1 \<noteq> [] \<Longrightarrow> cmd_ContainerImage c' = cmd_ContainerImage c1"
    using perform_frame [OF p] c'
    by (simp_all add: upgrade_job_key_def command_name_def command_status_def Let_def upgrade_started_def str_or_def)
  note st = perform_states [OF p assms(3,4)] and m = migration_any [OF j, unfolded f(1) t2]
  have started: "upgrade_started c1 \<Longrightarrow> cmd_ContainerImage c1 \<noteq> [] \<and> cmd_TargetContainerImage c1 \<noteq> []"
    using st ok by (auto simp: upgrade_ok_def)
  moreover have "job_images k = ([cmd_ContainerImage c'], [cmd_TargetContainerImage c'])"
    if u: "cmd_UpgradeState c' = CommandUpgrading" and "\<not> kept" and k: "jobs s' (upgrade_job_key c) = Some k" for k
  proof -
    have sh: "cmd_UpgradeState c' \<noteq> CommandShuttingDownBeforeUpgrade" using u by (simp add: upgrade_states)
    show ?thesis
    proof (cases "jobs s (upgrade_job_key c)")
      case None
      then show ?thesis using m [OF sh] k by auto
    next
      case (Some k')
      have c1: "upgrade_started c1" using u f(3) by (simp add: upgrade_started_def)
      have "cmd_UpgradeState c = CommandUpgrading" "cmd_ContainerImage c1 = cmd_ContainerImage c"
        "cmd_TargetContainerImage c1 = cmd_TargetContainerImage c"
        using st u f(3) ok Some \<open>\<not> kept\<close> by (auto simp: upgrade_ok_def)
      with m [OF sh] Some k ok \<open>\<not> kept\<close> started [OF c1] f(4,5) show ?thesis by (auto simp: upgrade_ok_def)
    qed
  qed
  moreover have "deletion_requested ocs c' t2 s'" if "cmd_UpgradeState c' = CommandShuttingDownBeforeUpgrade"
    using j that ignoring_any [of "IsNotFound lib" "()" _ t2 r s']
    by (simp add: deletion_requested_def reconcileDataMigrationJob_def deleteMigrationJob_def)
  ultimately show ?thesis
    using f by (auto simp: upgrade_ok_def)
qed

lemma step_keeps:
  assumes "upgrade_step lib ocs jobs (c, s, kept) (c', s', kept')" "upgrade_ok jobs c s kept"
  shows "upgrade_ok jobs c' s' kept'"
proof -
  note ok = assms(2)
  from assms(1) show ?thesis
  proof (rule upgrade_stepE, goal_cases)
    case (1 n ip t cm r)
    from rollout_keeps [OF 1(2-5) ok] 1(1) show ?case by simp
  next
    case (2 n ip r)
    with publish_jobs [OF 2(3)] ok show ?case by (simp add: upgrade_ok_def)
  next
    case 3
    with ok upgrade_job_key_cong [of c' c] show ?case by (simp add: upgrade_ok_def upgrade_started_def)
  next
    case 4
    then show ?case using upgrade_ok_jobs ok by simp
  qed
qed

lemma reachable_ok:
  assumes "(upgrade_step lib ocs jobs)\<^sup>*\<^sup>* (c0, s0, False) (c, s, kept)" "\<not> upgrade_started c0"
  shows "upgrade_ok jobs c s kept"
  using assms(1)
proof (induction "(c, s, kept)" arbitrary: c s kept rule: rtranclp_induct)
  case base
  then show ?case using assms(2) by (auto simp: upgrade_ok_def upgrade_started_def)
next
  case (step y)
  obtain c1 s1 k1 where y: "y = (c1, s1, k1)" by (cases y)
  from step_keeps [OF step.hyps(2) [unfolded y] step.hyps(3) [OF y]] show ?case .
qed

text \<open>A new image is taken over when a job has migrated the data from the old image to the new one.\<close>

lemma image_migrated:
  assumes "(upgrade_step lib ocs jobs)\<^sup>*\<^sup>* (c0, s0, False) (c, s, kept)" "\<not> upgrade_started c0"
    and run: "command_publish lib ocs c n ip s = (Ok c', s')"
    and im: "cmd_ContainerImage c \<noteq> []" "cmd_ContainerImage c' \<noteq> cmd_ContainerImage c"
  shows "\<exists>j. jobs s (upgrade_job_key c) = Some j \<and> JobCompleted (K8sObjects.k8s_job.truncate j) \<and>
    (\<not> kept \<longrightarrow> job_images j = ([cmd_ContainerImage c], [cmd_ContainerImage c']))"
proof -
  have ok: "upgrade_ok jobs c s kept" using reachable_ok assms(1,2) .
  from publish_Ok [OF run] obtain c1 d t where p: "performUpgradeIfNeeded lib (cmc_job ocs) c n t = (Ok c1, t)"
    and t: "jobs t = jobs s" and c': "c' = command_status d ip c1" by metis
  have st: "cmd_ContainerImage c1 \<noteq> [] \<Longrightarrow> cmd_ContainerImage c' = cmd_ContainerImage c1"
    by (simp add: c' command_status_def Let_def str_or_def)
  have "cmd_ContainerImage c1 \<noteq> cmd_ContainerImage c" using st im by metis
  from perform_image [OF p this] t obtain j where u: "cmd_UpgradeState c = CommandUpgrading"
    "cmd_ContainerImage c1 = cmd_TargetContainerImage c" and j: "jobs s (upgrade_job_key c) = Some j"
    "JobCompleted (K8sObjects.k8s_job.truncate j)" by auto
  with ok have "cmd_TargetContainerImage c \<noteq> []" "\<not> kept \<longrightarrow> job_images j = ([cmd_ContainerImage c], [cmd_TargetContainerImage c])"
    by (auto simp: upgrade_ok_def upgrade_started_def)
  with u j st show ?thesis by simp
qed

end

end
