(* ===== verification/CommandProps.thy ===== *)
theory CommandProps
  imports CommandLaws
begin

text \<open>
  The properties of the upgrades of Command.  The witnesses upgrade a resource from the image \<open>a\<close> to
  the image \<open>b\<close> in a cluster in memory.
\<close>

section \<open>A cluster in memory\<close>

record mem_upgrades =
  mu_jobs :: "batch_job mem_objects"
  mu_deployments :: "deployment mem_objects"
  mu_commands :: "command mem_objects"

definition mem_none :: "('o, mem_upgrades) kind_client" where
  "mem_none = mem_client (\<lambda>_. Map.empty) (\<lambda>_ s. s) [] (\<lambda>_. new_meta)"

definition mem_commands :: "mem_upgrades command_clients" where
  "mem_commands =
     \<lparr>cmc_command = mem_client mu_commands (\<lambda>v s. s\<lparr>mu_commands := v\<rparr>) [] cr_meta,
      cmc_postgres = mem_none, cmc_keystone = mem_none, cmc_swift = mem_none, cmc_config = mem_none, cmc_webui = mem_none,
      cmc_deployment = mem_client mu_deployments (\<lambda>v s. s\<lparr>mu_deployments := v\<rparr>) [] dep_meta,
      cmc_job = mem_client mu_jobs (\<lambda>v s. s\<lparr>mu_jobs := v\<rparr>) [] bj_meta\<rparr>"

lemma mem_jobs_server: "create_server mem_lib (cmc_job mem_commands) bj_meta mu_jobs"
  unfolding mem_commands_def command_clients.simps
  by (intro create_server.intro mem_client_server create_server_axioms.intro) (auto simp: mem_client_def)

interpretation memc: create_server mem_lib "cmc_job mem_commands" bj_meta mu_jobs
  by (rule mem_jobs_server)

interpretation memu: upgrade_cluster mem_lib mem_commands mu_jobs
proof (intro upgrade_cluster.intro mem_jobs_server, unfold_locales, goal_cases)
  case (1 owner m m')
  then show ?case by (auto simp: mem_lib_def key_of_def)
next
  case (2 k s r s')
  then show ?case by (simp add: mem_commands_def mem_client_def)
next
  case (3 f x s r' s')
  then have "snd (f (case mu_deployments s (key_of (dep_meta x)) of None \<Rightarrow> x | Some z \<Rightarrow> z) s) = s" by blast
  with 3(2) show ?case
    by (auto simp: mem_commands_def mem_client_def split: prod.splits outcome.splits)
next
  case (4 c s r'' s')
  then show ?case by (auto simp: mem_commands_def mem_client_def)
qed

text \<open>A job that is being deleted keeps everything but its mark.\<close>

definition mark_job :: "batch_job \<Rightarrow> batch_job" where
  "mark_job j = j\<lparr>bj_meta := (bj_meta j)\<lparr>om_Deleted := True\<rparr>\<rparr>"

lemma mark_job_simps [simp]:
  "om_Deleted (bj_meta (mark_job j))" "key_of (bj_meta (mark_job j)) = key_of (bj_meta j)"
  by (simp_all add: mark_job_def key_of_def)

text \<open>The server may remove the job at once, or mark it and wait for the pods of the job.\<close>

definition slow_commands :: "mem_upgrades command_clients" where
  "slow_commands = mem_commands\<lparr>cmc_job := (cmc_job mem_commands)\<lparr>kc_DeleteWith := (\<lambda>p m s.
     case mu_jobs s (key_of m) of
       None \<Rightarrow> (Err mem_NotFound, s)
     | Some j \<Rightarrow> (Ok (), s\<lparr>mu_jobs := (mu_jobs s)(key_of m := if p = ''Foreground'' then Some (mark_job j) else None)\<rparr>))\<rparr>\<rparr>"

interpretation memp: policy_server mem_lib "cmc_job mem_commands" bj_meta mu_jobs mark_job
  by unfold_locales (auto simp: mem_commands_def mem_client_def split: if_splits)

interpretation memx: failing_cluster mem_lib mem_commands mu_jobs mark_job
  by unfold_locales (auto simp: mem_commands_def mem_client_def)

lemma slow_jobs:
  "kc_Get (cmc_job slow_commands) = kc_Get (cmc_job mem_commands)" "kc_Create (cmc_job slow_commands) = kc_Create (cmc_job mem_commands)"
  "kc_Delete (cmc_job slow_commands) = kc_Delete (cmc_job mem_commands)"
  "kc_CreateOrUpdate (cmc_job slow_commands) = kc_CreateOrUpdate (cmc_job mem_commands)"
  "cmc_deployment slow_commands = cmc_deployment mem_commands" "cmc_command slow_commands = cmc_command mem_commands"
  by (simp_all add: slow_commands_def)

lemma slow_server: "kind_server mem_lib (cmc_job slow_commands) bj_meta mu_jobs"
  using memc.kind_server_axioms unfolding kind_server_def slow_jobs .

lemma slow_cluster: "upgrade_cluster mem_lib slow_commands mu_jobs"
  using memu.upgrade_cluster_axioms
  unfolding upgrade_cluster_def upgrade_cluster_axioms_def create_server_def create_server_axioms_def kind_server_def slow_jobs .

interpretation slowu: upgrade_cluster mem_lib slow_commands mu_jobs
  by (rule slow_cluster)

interpretation slowp: policy_server mem_lib "cmc_job slow_commands" bj_meta mu_jobs mark_job
  by (intro policy_server.intro slow_server, unfold_locales) (auto simp: slow_commands_def split: option.splits)

interpretation slowf: failing_cluster mem_lib slow_commands mu_jobs mark_job
  by unfold_locales (auto simp: slow_jobs mem_commands_def mem_client_def)

lemma mem_mutate:
  assumes "dep_Selector d \<noteq> None"
  shows "\<exists>d'. deployment_mutate mem_lib c d t = (Ok d', t) \<and> dep_Selector d' \<noteq> None"
  using assms
  by (auto simp: deployment_mutate_def command_prepareIntendedDeployment_def Let_def deref_ptr_def sum_result_def mem_lib_def
      SetDeploymentCommonConfiguration_def fillDeploymentSpec_def newDeploymentWithVolumes_def newDeployment_def)

definition deployed :: "command \<Rightarrow> mem_upgrades \<Rightarrow> bool" where
  "deployed c s \<longleftrightarrow>
     (\<exists>d. mu_deployments s (om_Namespace (cr_meta c), command_name c @ ''-command-deployment'') = Some d \<and> dep_Selector d \<noteq> None)"

text \<open>What a rollout leaves of the jobs.\<close>

definition next_jobs :: "command \<Rightarrow> string \<Rightarrow> batch_job mem_objects \<Rightarrow> batch_job mem_objects" where
  "next_jobs c cm js =
     (if cmd_UpgradeState c = CommandShuttingDownBeforeUpgrade then js(upgrade_job_key c := None)
      else if cmd_UpgradeState c = CommandNotUpgrading then js
      else if js (upgrade_job_key c) = None
      then js(upgrade_job_key c \<mapsto> (dataMigrationJob c (cmd_ContainerImage c) (cmd_TargetContainerImage c) cm)
             \<lparr>bj_meta := projr (SetControllerReference mem_lib (cr_meta c) (upgrade_job_meta c))\<rparr>)
      else js)"

lemma mem_migration:
  "reconcileDataMigrationJob mem_lib (cmc_job mem_commands) c cm s = (Ok (), s\<lparr>mu_jobs := next_jobs c cm (mu_jobs s)\<rparr>)"
  by (cases "mu_jobs s (upgrade_job_key c)")
     (auto simp: reconcileDataMigrationJob_def next_jobs_def deleteMigrationJob_def create_job_once_def ignoring_def mem_commands_def
      mem_client_def tryM_def bindM_def mem_lib_def sum_result_def fun_upd_idem dataMigrationJob_def Let_def upgrade_job_meta_def
      key_of_def upgrade_job_key_def)

text \<open>What a rollout of \<open>c\<close> leaves, if \<open>c1\<close> is the resource after \<open>performUpgradeIfNeeded\<close>.\<close>

definition rolled :: "command \<Rightarrow> command \<Rightarrow> string \<Rightarrow> mem_upgrades \<Rightarrow> command \<Rightarrow> mem_upgrades \<Rightarrow> bool" where
  "rolled c c1 cm s c' s' \<longleftrightarrow> cr_meta c' = cr_meta c \<and> cr_conf c' = cr_conf c \<and>
    cmd_UpgradeState c' = cmd_UpgradeState c1 \<and> cmd_TargetContainerImage c' = cmd_TargetContainerImage c1 \<and>
    cmd_ContainerImage c' = cmd_ContainerImage c1 \<and> deployed c' s' \<and> mu_jobs s' = next_jobs c' cm (mu_jobs s)"

lemma mem_publish:
  assumes p: "performUpgradeIfNeeded mem_lib (cmc_job mem_commands) c n s = (Ok c1, s)"
    and d: "deployed c s" and im: "cmd_ContainerImage c1 \<noteq> []"
  shows "\<exists>c' t s'. command_publish mem_lib mem_commands c n ip s = (Ok c', t) \<and>
    reconcileDataMigrationJob mem_lib (cmc_job mem_commands) c' cm t = (Ok (), s') \<and> rolled c c1 cm s c' s'"
proof -
  let ?k = "(om_Namespace (cr_meta c), command_name c @ ''-command-deployment'')"
  let ?fresh = "new_deployment\<lparr>dep_meta := new_meta\<lparr>om_Namespace := om_Namespace (cr_meta c), om_Name := command_name c @ ''-command-deployment''\<rparr>\<rparr>"
  from d obtain d0 where d0: "mu_deployments s ?k = Some d0" "dep_Selector d0 \<noteq> None" by (auto simp: deployed_def)
  from mem_mutate [OF d0(2)] obtain d1 where d1: "deployment_mutate mem_lib c1 d0 s = (Ok d1, s)" "dep_Selector d1 \<noteq> None" by metis
  let ?s1 = "s\<lparr>mu_deployments := (mu_deployments s)(?k \<mapsto> d1)\<rparr>"
  let ?c' = "command_status d1 ip c1"
  let ?s2 = "?s1\<lparr>mu_commands := (mu_commands s)(key_of (cr_meta c1) \<mapsto> ?c')\<rparr>"
  have get: "ignoring (IsNotFound mem_lib) ?fresh (kc_Get (cmc_deployment mem_commands) ?k) s = (Ok d0, s)"
    using d0 by (simp add: mem_commands_def mem_client_def ignoring_def bindM_def tryM_def)
  have put: "kc_CreateOrUpdate (cmc_deployment mem_commands) ?fresh (deployment_mutate mem_lib c1) s = (Ok d1, ?s1)"
    using d0 d1 by (simp add: mem_commands_def mem_client_def key_of_def)
  have st: "command_updateStatus (cmc_command mem_commands) c1 d1 ip ?s1 = (Ok ?c', ?s2)"
    by (simp add: command_updateStatus_def Let_def mem_commands_def mem_client_def bindM_def command_status_def)
  have "command_publish mem_lib mem_commands c n ip s = (Ok ?c', ?s2)"
    unfolding command_publish_def Let_def using get p put st by simp
  moreover have "reconcileDataMigrationJob mem_lib (cmc_job mem_commands) ?c' cm ?s2 = (Ok (), ?s2\<lparr>mu_jobs := next_jobs ?c' cm (mu_jobs ?s2)\<rparr>)"
    by (rule mem_migration)
  moreover have "cr_meta c1 = cr_meta c" "cr_conf c1 = cr_conf c" using memu.perform_frame [OF p] by simp_all
  ultimately show ?thesis
    using im d1(2) by (fastforce simp: rolled_def command_status_def Let_def str_or_def deployed_def command_name_def)
qed

lemma mem_rollout:
  assumes "performUpgradeIfNeeded mem_lib (cmc_job mem_commands) c n s = (Ok c1, s)" "deployed c s" "cmd_ContainerImage c1 \<noteq> []"
  shows "\<exists>c' s'. command_rollout mem_lib mem_commands c n ip cm s = (Ok c', s') \<and> rolled c c1 cm s c' s'"
proof -
  from mem_publish [OF assms] obtain c' t s' where "command_publish mem_lib mem_commands c n ip s = (Ok c', t)"
    "reconcileDataMigrationJob mem_lib (cmc_job mem_commands) c' cm t = (Ok (), s')" "rolled c c1 cm s c' s'" by metis
  then show ?thesis by (auto simp: command_rollout_def)
qed

section \<open>Upgrades\<close>

definition ex_command :: command where
  "ex_command = \<lparr>cr_meta = new_meta\<lparr>om_Name := ''c'', om_Namespace := ''ns''\<rparr>, cr_common = new_common,
     cr_conf = no_command_configuration\<lparr>cd_Containers := [\<lparr>co_Name = ''api'', co_Image = ''b'', co_Command = None\<rparr>]\<rparr>,
     cr_status = new_status, cmd_UpgradeState = CommandNotUpgrading, cmd_TargetContainerImage = [], cmd_ContainerImage = ''a''\<rparr>"

definition ex_completed :: "batch_job \<Rightarrow> batch_job" where
  "ex_completed j = j\<lparr>job_Conditions := [(''Complete'', ''True'')]\<rparr>"

definition ex_old_job :: batch_job where
  "ex_old_job = ex_completed (dataMigrationJob ex_command ''older'' ''a'' ''cm'')"

definition ex_upgrade_cluster :: "batch_job option \<Rightarrow> mem_upgrades" where
  "ex_upgrade_cluster j = \<lparr>mu_jobs = (\<lambda>k. if k = upgrade_job_key ex_command then j else None),
     mu_deployments = [(''ns'', ''c-command-deployment'') \<mapsto> new_deployment\<lparr>dep_Selector := Some None\<rparr>], mu_commands = Map.empty\<rparr>"

lemma ex_command_simps:
  "api_image ex_command = ''b''" "isImageChanged ex_command" "\<not> upgrade_started ex_command" "cmd_ContainerImage ex_command = ''a''"
  "deployed ex_command (ex_upgrade_cluster j)" "mu_jobs (ex_upgrade_cluster j) (upgrade_job_key ex_command) = j"
  by (simp_all add: ex_command_def getImage_def isImageChanged_def upgrade_started_def upgrade_states deployed_def command_name_def
      ex_upgrade_cluster_def)

lemma ex_completed_simps [simp]:
  "JobCompleted (K8sObjects.k8s_job.truncate (ex_completed j))" "bj_Template (ex_completed j) = bj_Template j"
  by (simp_all add: ex_completed_def JobCompleted_def K8sObjects.k8s_job.defs)

text \<open>The first call of an upgrade, with the number of pods.\<close>

lemma ex_begins:
  "performUpgradeIfNeeded mem_lib kcj ex_command n s =
     (Ok (ex_command\<lparr>cmd_UpgradeState := (if n = 0 then CommandUpgrading else CommandShuttingDownBeforeUpgrade),
        cmd_TargetContainerImage := ''b''\<rparr>), s)"
  using ex_command_simps(1-3) by (simp add: performUpgradeIfNeeded_def Let_def upgrade_started_def isImageChanged_def)

text \<open>
  C39: an upgrade of Command takes over a new image only after the data was migrated to it, as far as
  the migration job of the upgrade before was deleted.  Consider a sequence of rollouts, with and
  without an error, edits of the resource and changes of its jobs (they run or go away but keep what
  they run), in which an upgrade begins while there are pods and the \<open>api\<close> container has an image.  If
  a rollout writes a status with a changed image, then it has found a completed migration job.
  This job dumped the data with the old image and migrated them with the new one, unless it was there
  ever since the last rollout that asked for its deletion: the request failed, or it has not taken
  effect, which the policy \<open>Foreground\<close> of the deletion allows.
\<close>

theorem upgrade_migrates:
  assumes "failing_cluster lib ocs jobs mark" "\<not> upgrade_started c0"
    and "(upgrade_step lib ocs jobs)\<^sup>*\<^sup>* (c0, s0, False) (c, s, kept)"
    and "command_publish lib ocs c n ip s = (Ok c', s')"
    and "cmd_ContainerImage c \<noteq> []" "cmd_ContainerImage c' \<noteq> cmd_ContainerImage c"
  shows "\<exists>j. jobs s (upgrade_job_key c) = Some j \<and> JobCompleted (K8sObjects.k8s_job.truncate j) \<and>
    (\<not> kept \<longrightarrow> job_images j = ([cmd_ContainerImage c], [cmd_ContainerImage c']))"
  using failing_cluster.image_migrated [OF assms(1,3,2,4-6)] .

lemma ex_upgraded:
  obtains c s c' s' where "(upgrade_step mem_lib mem_commands mu_jobs)\<^sup>*\<^sup>* (ex_command, ex_upgrade_cluster None, False) (c, s, False)"
    "command_publish mem_lib mem_commands c 0 ip s = (Ok c', s')" "cmd_ContainerImage c = ''a''" "cmd_ContainerImage c' = ''b''"
proof -
  note e = ex_command_simps
  let ?b = "\<lambda>n. ex_command\<lparr>cmd_UpgradeState := (if n = (0::int) then CommandUpgrading else CommandShuttingDownBeforeUpgrade), cmd_TargetContainerImage := ''b''\<rparr>"
  have "cmd_ContainerImage (?b 1) \<noteq> []" using e(4) by simp
  from mem_publish [OF ex_begins e(5) this] obtain c1 t1 s1 where
    r1: "command_publish mem_lib mem_commands ex_command 1 ip (ex_upgrade_cluster None) = (Ok c1, t1)"
      "reconcileDataMigrationJob mem_lib (cmc_job mem_commands) c1 [] t1 = (Ok (), s1)"
    and q1: "rolled ex_command (?b 1) [] (ex_upgrade_cluster None) c1 s1" by metis
  have c1: "cr_meta c1 = cr_meta ex_command" "cr_conf c1 = cr_conf ex_command" "cmd_UpgradeState c1 = CommandShuttingDownBeforeUpgrade"
      "cmd_TargetContainerImage c1 = ''b''" "cmd_ContainerImage c1 = ''a''" "deployed c1 s1"
      "mu_jobs s1 = next_jobs c1 [] (mu_jobs (ex_upgrade_cluster None))"
    using q1 e(4) by (simp_all add: rolled_def)
  have p2: "performUpgradeIfNeeded mem_lib (cmc_job mem_commands) c1 0 s1 = (Ok (c1\<lparr>cmd_UpgradeState := CommandUpgrading\<rparr>), s1)"
    using c1(3) by (simp add: performUpgradeIfNeeded_def)
  have "cmd_ContainerImage (c1\<lparr>cmd_UpgradeState := CommandUpgrading\<rparr>) \<noteq> []" using c1(5) by simp
  from mem_publish [OF p2 c1(6) this] obtain c2 t2 s2 where r2: "command_publish mem_lib mem_commands c1 0 ip s1 = (Ok c2, t2)"
      "reconcileDataMigrationJob mem_lib (cmc_job mem_commands) c2 [] t2 = (Ok (), s2)"
    and q2: "rolled c1 (c1\<lparr>cmd_UpgradeState := CommandUpgrading\<rparr>) [] s1 c2 s2" by metis
  have c2: "cr_meta c2 = cr_meta ex_command" "cr_conf c2 = cr_conf ex_command" "cmd_UpgradeState c2 = CommandUpgrading"
      "cmd_TargetContainerImage c2 = ''b''" "cmd_ContainerImage c2 = ''a''" "deployed c2 s2" "mu_jobs s2 = next_jobs c2 [] (mu_jobs s1)"
    using q2 c1(1-5) by (simp_all add: rolled_def)
  have k: "upgrade_job_key c2 = upgrade_job_key c1" using c1(1) c2(1) by (intro upgrade_job_key_cong) simp
  have none: "mu_jobs s1 (upgrade_job_key c1) = None" using c1(3,7) by (simp add: next_jobs_def)
  then obtain j where j: "mu_jobs s2 (upgrade_job_key c2) = Some j"
    using c2(3,7) k by (auto simp: next_jobs_def upgrade_states)
  define s3 where "s3 = s2\<lparr>mu_jobs := (mu_jobs s2)(upgrade_job_key c2 \<mapsto> ex_completed j)\<rparr>"
  have j3: "mu_jobs s3 (upgrade_job_key c2) = Some (ex_completed j)" "deployed c2 s3"
    using c2(6) by (simp_all add: s3_def deployed_def)
  have "checkDataMigrationCompleted mem_lib (cmc_job mem_commands) c2 s3 = (Ok (True, True), s3)"
    using j3(1) by (simp add: checkDataMigrationCompleted_def mem_commands_def mem_client_def tryM_def bindM_def)
  then have p4: "performUpgradeIfNeeded mem_lib (cmc_job mem_commands) c2 0 s3
      = (Ok (c2\<lparr>cmd_UpgradeState := CommandStartingUpgradedDeployment, cmd_ContainerImage := cmd_TargetContainerImage c2\<rparr>), s3)"
    using c2(3) by (simp add: performUpgradeIfNeeded_def upgrade_states)
  have "cmd_ContainerImage (c2\<lparr>cmd_UpgradeState := CommandStartingUpgradedDeployment, cmd_ContainerImage := cmd_TargetContainerImage c2\<rparr>) \<noteq> []"
    using c2(4) by simp
  from mem_publish [OF p4 j3(2) this] obtain c4 t4 where r4: "command_publish mem_lib mem_commands c2 0 ip s3 = (Ok c4, t4)"
    and q4: "cmd_ContainerImage c4 = ''b''" using c2(4) unfolding rolled_def by fastforce
  have "upgrade_step mem_lib mem_commands mu_jobs (ex_command, ex_upgrade_cluster None, False) (c1, s1, False)"
    using upgrade_step.rolls_out [OF r1, where jobs = mu_jobs and kept = False] e none by auto
  moreover have "upgrade_step mem_lib mem_commands mu_jobs (c1, s1, False) (c2, s2, False)"
    using upgrade_step.rolls_out [OF r2, where jobs = mu_jobs and kept = False] c1(2,3) c2(3) e
    by (auto simp: upgrade_started_def upgrade_states deletion_requested_def)
  moreover have "upgrade_step mem_lib mem_commands mu_jobs (c2, s2, False) (c2, s3, False)"
    using upgrade_step.job_runs [where jobs = mu_jobs and kept = False and c = c2 and s = s2 and s' = s3] j
    by (auto simp: s3_def)
  ultimately have "(upgrade_step mem_lib mem_commands mu_jobs)\<^sup>*\<^sup>* (ex_command, ex_upgrade_cluster None, False) (c2, s3, False)"
    by (meson converse_rtranclp_into_rtranclp rtranclp.rtrancl_refl)
  from that [OF this r4 c2(5) q4] show thesis .
qed

theorem upgrade_migrates_witness:
  "\<exists>c s c' s' j. (upgrade_step mem_lib mem_commands mu_jobs)\<^sup>*\<^sup>* (ex_command, ex_upgrade_cluster None, False) (c, s, False) \<and>
     command_publish mem_lib mem_commands c 0 [] s = (Ok c', s') \<and> cmd_ContainerImage c' = ''b'' \<and>
     mu_jobs s (upgrade_job_key c) = Some j \<and> JobCompleted (K8sObjects.k8s_job.truncate j) \<and> job_images j = ([''a''], [''b''])"
proof -
  obtain c s c' s' where r: "(upgrade_step mem_lib mem_commands mu_jobs)\<^sup>*\<^sup>* (ex_command, ex_upgrade_cluster None, False) (c, s, False)"
    "command_publish mem_lib mem_commands c 0 [] s = (Ok c', s')" and im: "cmd_ContainerImage c = ''a''" "cmd_ContainerImage c' = ''b''"
    by (rule ex_upgraded)
  from upgrade_migrates [OF memx.failing_cluster_axioms ex_command_simps(3) r] im r show ?thesis by auto
qed

text \<open>
  a completed job whose deletion was requested and has not taken effect when the pods are gone: two
  rollouts take over the new image without a migration.
\<close>

theorem lingering_job_skips_migration:
  assumes "upgrade_cluster lib ocs jobs" "cmd_UpgradeState c = CommandShuttingDownBeforeUpgrade" "cmd_TargetContainerImage c \<noteq> []"
    and "jobs s (upgrade_job_key c) = Some (mark_job j)" "JobCompleted (K8sObjects.k8s_job.truncate j)"
    and "command_rollout lib ocs c 0 ip cm s = (Ok c1, s1)" "command_rollout lib ocs c1 n ip' cm' s1 = (Ok c2, s2)"
  shows "cmd_ContainerImage c2 = cmd_TargetContainerImage c \<and> jobs s2 (upgrade_job_key c) = Some (mark_job j)"
proof -
  from assms(5) have "JobCompleted (K8sObjects.k8s_job.truncate (mark_job j))"
    by (simp add: mark_job_def K8sObjects.k8s_job.defs)
  from upgrade_cluster.lingering_job [OF assms(1-4) this assms(6,7)] show ?thesis .
qed

text \<open>Such a job is reached from a completed upgrade: its deletion is requested, and the server waits.\<close>

lemma slow_publish: "command_publish mem_lib slow_commands = command_publish mem_lib mem_commands"
proof -
  have "checkDataMigrationCompleted mem_lib (cmc_job slow_commands) = checkDataMigrationCompleted mem_lib (cmc_job mem_commands)"
    by (rule ext) (simp only: checkDataMigrationCompleted_def slow_jobs)
  then have "performUpgradeIfNeeded mem_lib (cmc_job slow_commands) = performUpgradeIfNeeded mem_lib (cmc_job mem_commands)"
    by (intro ext) (simp only: performUpgradeIfNeeded_def)
  then show ?thesis by (intro ext) (simp only: command_publish_def slow_jobs)
qed

theorem lingering_job_reached:
  "\<exists>c s. upgrade_step mem_lib slow_commands mu_jobs (ex_command, ex_upgrade_cluster (Some ex_old_job), False) (c, s, True) \<and>
     cmd_UpgradeState c = CommandShuttingDownBeforeUpgrade \<and> mu_jobs s (upgrade_job_key c) = Some (mark_job ex_old_job)"
proof -
  note e = ex_command_simps
  let ?s = "ex_upgrade_cluster (Some ex_old_job)"
  let ?b = "ex_command\<lparr>cmd_UpgradeState := (if (1::int) = 0 then CommandUpgrading else CommandShuttingDownBeforeUpgrade), cmd_TargetContainerImage := ''b''\<rparr>"
  have "cmd_ContainerImage ?b \<noteq> []" using e(4) by simp
  from mem_publish [OF ex_begins e(5) this] obtain c t s' where
    p: "command_publish mem_lib mem_commands ex_command 1 [] ?s = (Ok c, t)" and q: "rolled ex_command ?b [] ?s c s'" by metis
  have c: "cmd_UpgradeState c = CommandShuttingDownBeforeUpgrade" "upgrade_job_key c = upgrade_job_key ex_command"
    using q by (auto simp: rolled_def intro: upgrade_job_key_cong)
  have j: "mu_jobs t (upgrade_job_key c) = Some ex_old_job"
    using memx.publish_jobs [OF p] c(2) e(6) by simp
  let ?t = "t\<lparr>mu_jobs := (mu_jobs t)(upgrade_job_key c \<mapsto> mark_job ex_old_job)\<rparr>"
  have r: "reconcileDataMigrationJob mem_lib (cmc_job slow_commands) c [] t = (Ok (), ?t)"
    using c(1) j by (simp add: reconcileDataMigrationJob_def deleteMigrationJob_def slow_commands_def ignoring_def bindM_def tryM_def)
  have "deletion_requested slow_commands c t ?t"
    using c(1) j by (simp add: deletion_requested_def slow_commands_def)
  with upgrade_step.rolls_out [OF p [folded slow_publish] r, where jobs = mu_jobs and kept = False] e c(1)
  show ?thesis by (intro exI [of _ c] exI [of _ ?t]) auto
qed

text \<open>
  C40: an upgrade that begins without pods does not delete the migration job of the upgrade before.
  When that job has completed, two rollouts take over the new image and the job is still the old one:
  the data were not migrated.
\<close>

theorem stale_job_skips_migration:
  assumes "upgrade_cluster lib ocs jobs" "\<not> upgrade_started c" "isImageChanged c" "api_image c \<noteq> []"
    and "jobs s (upgrade_job_key c) = Some j" "JobCompleted (K8sObjects.k8s_job.truncate j)"
    and "command_rollout lib ocs c 0 ip cm s = (Ok c1, s1)" "command_rollout lib ocs c1 n ip' cm' s1 = (Ok c2, s2)"
  shows "cmd_ContainerImage c2 = api_image c \<and> cmd_UpgradeState c2 = CommandStartingUpgradedDeployment \<and>
    jobs s2 (upgrade_job_key c) = Some j"
  using upgrade_cluster.stale_job [OF assms] .

theorem stale_job_skips_migration_witness:
  "\<exists>c1 s1 c2 s2. command_rollout mem_lib mem_commands ex_command 0 [] [] (ex_upgrade_cluster (Some ex_old_job)) = (Ok c1, s1) \<and>
     command_rollout mem_lib mem_commands c1 0 [] [] s1 = (Ok c2, s2) \<and> cmd_ContainerImage ex_command = ''a'' \<and>
     cmd_ContainerImage c2 = ''b'' \<and> mu_jobs s2 (upgrade_job_key ex_command) = Some ex_old_job \<and>
     job_images ex_old_job = ([''older''], [''a''])"
proof -
  note e = ex_command_simps
  let ?s = "ex_upgrade_cluster (Some ex_old_job)"
  have old: "JobCompleted (K8sObjects.k8s_job.truncate ex_old_job)" "job_images ex_old_job = ([''older''], [''a''])"
    by (simp_all add: ex_old_job_def job_images_def) (simp_all add: dataMigrationJob_def job_template_def Let_def)
  let ?b = "\<lambda>n. ex_command\<lparr>cmd_UpgradeState := (if n = (0::int) then CommandUpgrading else CommandShuttingDownBeforeUpgrade), cmd_TargetContainerImage := ''b''\<rparr>"
  have "cmd_ContainerImage (?b 0) \<noteq> []" using e(4) by simp
  from mem_rollout [OF ex_begins e(5) this] obtain c1 s1 where
    r1: "command_rollout mem_lib mem_commands ex_command 0 [] [] ?s = (Ok c1, s1)" and q1: "rolled ex_command (?b 0) [] ?s c1 s1" by blast
  have c1: "cr_meta c1 = cr_meta ex_command" "cmd_UpgradeState c1 = CommandUpgrading" "cmd_TargetContainerImage c1 = ''b''"
      "deployed c1 s1" "mu_jobs s1 = next_jobs c1 [] (mu_jobs ?s)"
    using q1 by (simp_all add: rolled_def)
  have "mu_jobs s1 (upgrade_job_key c1) = Some ex_old_job"
    using c1(2,5) e(6) upgrade_job_key_cong [OF c1(1)] by (simp add: next_jobs_def upgrade_states)
  then have "checkDataMigrationCompleted mem_lib (cmc_job mem_commands) c1 s1 = (Ok (True, True), s1)"
    using old(1) by (simp add: checkDataMigrationCompleted_def mem_commands_def mem_client_def tryM_def bindM_def)
  then have p: "performUpgradeIfNeeded mem_lib (cmc_job mem_commands) c1 0 s1
      = (Ok (c1\<lparr>cmd_UpgradeState := CommandStartingUpgradedDeployment, cmd_ContainerImage := cmd_TargetContainerImage c1\<rparr>), s1)"
    using c1(2) by (simp add: performUpgradeIfNeeded_def upgrade_states)
  have "cmd_ContainerImage (c1\<lparr>cmd_UpgradeState := CommandStartingUpgradedDeployment, cmd_ContainerImage := cmd_TargetContainerImage c1\<rparr>) \<noteq> []"
    using c1(3) by simp
  from mem_rollout [OF p c1(4) this] obtain c2 s2 where r2: "command_rollout mem_lib mem_commands c1 0 [] [] s1 = (Ok c2, s2)" by blast
  from stale_job_skips_migration [OF memu.upgrade_cluster_axioms e(3,2) _ e(6) old(1) r1 r2] e(1,4) r1 r2 old(2)
  show ?thesis by auto
qed

text \<open>
  a rollout panics when the deployment is gone while an upgrade is under way: the labels are written
  through the selector of a deployment that has not been filled in.
\<close>

theorem upgrade_without_deployment_panics:
  assumes "Upgrading c" "dep_Selector d = None"
  shows "fst (deployment_mutate lib c d s) = Panic ''nil pointer dereference''"
  using assms by (simp add: deployment_mutate_def command_prepareIntendedDeployment_def Let_def deref_ptr_def bindM_def
      SetDeploymentCommonConfiguration_def)

theorem upgrade_without_deployment_panics_witness:
  "fst (deployment_mutate mem_lib (ex_command\<lparr>cmd_UpgradeState := CommandUpgrading\<rparr>) new_deployment s) = Panic ''nil pointer dereference''"
  by (rule upgrade_without_deployment_panics) (simp_all add: Upgrading_def new_deployment_def)

end
