(* ===== verification/KeystoneService.thy ===== *)
theory KeystoneService
  imports CommandService Fernet
begin

text \<open>
  \<open>pkg/controller/keystone\<close> and the methods of \<open>keystone_types.go\<close> that it calls: one reconciliation of a
  Keystone resource.  An external Keystone is only asked for a token; else the controller makes a key
  manager, a service, certificates, the files, a bootstrap job and a stateful set.
\<close>

section \<open>The resource\<close>

text \<open>The field \<open>Port\<close> of the status is the entry \<open>port\<close> of its ports.\<close>

record keystone = "keystone_configuration cr" +
  ky_External :: bool

definition Keystone_PodsCertSubjects :: "keystone \<Rightarrow> pod list \<Rightarrow> string \<Rightarrow> cert_subject list" where
  "Keystone_PodsCertSubjects k podList serviceIP =
     PodsCertSubjects podList (pc_HostNetwork (cr_common k))
       \<lparr>Retriever = (if ks_PublicEndpoint (cr_conf k) \<noteq> [] then Some (\<lambda>_. [ks_PublicEndpoint (cr_conf k)]) else None),
        ServiceIP = serviceIP\<rparr>"

definition keystone_image :: "keystone_configuration \<Rightarrow> string \<Rightarrow> string" where
  "keystone_image conf containerName =
     (case GetContainerFromList containerName (ks_Containers conf) of
        None \<Rightarrow>
          (case map_of [(''keystoneDbInit'', ''localhost:5000/postgresql-client''),
                        (''keystoneInit'', ''localhost:5000/centos-binary-keystone:train''),
                        (''keystone'', ''localhost:5000/centos-binary-keystone:train''),
                        (''wait-for-ready-conf'', ''localhost:5000/busybox'')] containerName of
             None \<Rightarrow> [] | Some i \<Rightarrow> i)
      | Some c \<Rightarrow> co_Image c)"

definition keystone_command_default :: "string \<Rightarrow> string list" where
  "keystone_command_default containerName =
     (case map_of [(''keystoneDbInit'', [''/bin/sh'']),
                   (''wait-for-ready-conf'', [''sh'', ''-c'', ''until grep ready /tmp/podinfo/pod_labels > /dev/null 2>&1; do sleep 1; done''])]
             containerName of
        None \<Rightarrow> [] | Some cmd \<Rightarrow> cmd)"

definition keystone_command :: "keystone_configuration \<Rightarrow> string \<Rightarrow> string list" where
  "keystone_command conf containerName =
     (case GetContainerFromList containerName (ks_Containers conf) of
        None \<Rightarrow> keystone_command_default containerName
      | Some c \<Rightarrow> (case co_Command c of None \<Rightarrow> keystone_command_default containerName | Some cmd \<Rightarrow> cmd))"

section \<open>Configuration files\<close>

definition keystoneKollaServiceConfig :: "string \<Rightarrow> string" where
  "keystoneKollaServiceConfig listenAddress =
     text_lines
       [''{'',
        ''    '' @ [CHR 0x22] @ ''command'' @ [CHR 0x22] @ '': '' @ [CHR 0x22] @ ''/usr/sbin/httpd'' @ [CHR 0x22] @ '','',
        ''    '' @ [CHR 0x22] @ ''config_files'' @ [CHR 0x22] @ '': ['',
        ''        {'',
        ''            '' @ [CHR 0x22] @ ''source'' @ [CHR 0x22] @ '': '' @ [CHR 0x22] @ ''/var/lib/kolla/config_files/keystone'' @ listenAddress @ ''.conf'' @ [CHR 0x22] @ '','',
        ''            '' @ [CHR 0x22] @ ''dest'' @ [CHR 0x22] @ '': '' @ [CHR 0x22] @ ''/etc/keystone/keystone.conf'' @ [CHR 0x22] @ '','',
        ''            '' @ [CHR 0x22] @ ''owner'' @ [CHR 0x22] @ '': '' @ [CHR 0x22] @ ''keystone'' @ [CHR 0x22] @ '','',
        ''            '' @ [CHR 0x22] @ ''perm'' @ [CHR 0x22] @ '': '' @ [CHR 0x22] @ ''0600'' @ [CHR 0x22],
        ''        },'',
        ''        {'',
        ''            '' @ [CHR 0x22] @ ''source'' @ [CHR 0x22] @ '': '' @ [CHR 0x22] @ ''/var/lib/kolla/config_files/keystone-paste.ini'' @ [CHR 0x22] @ '','',
        ''            '' @ [CHR 0x22] @ ''dest'' @ [CHR 0x22] @ '': '' @ [CHR 0x22] @ ''/etc/keystone/keystone-paste.ini'' @ [CHR 0x22] @ '','',
        ''            '' @ [CHR 0x22] @ ''owner'' @ [CHR 0x22] @ '': '' @ [CHR 0x22] @ ''keystone'' @ [CHR 0x22] @ '','',
        ''            '' @ [CHR 0x22] @ ''perm'' @ [CHR 0x22] @ '': '' @ [CHR 0x22] @ ''0600'' @ [CHR 0x22] @ '','',
        ''            '' @ [CHR 0x22] @ ''optional'' @ [CHR 0x22] @ '': true'',
        ''        },'',
        ''        {'',
        ''            '' @ [CHR 0x22] @ ''source'' @ [CHR 0x22] @ '': '' @ [CHR 0x22] @ ''/var/lib/kolla/config_files/domains'' @ [CHR 0x22] @ '','',
        ''            '' @ [CHR 0x22] @ ''dest'' @ [CHR 0x22] @ '': '' @ [CHR 0x22] @ ''/etc/keystone/domains'' @ [CHR 0x22] @ '','',
        ''            '' @ [CHR 0x22] @ ''owner'' @ [CHR 0x22] @ '': '' @ [CHR 0x22] @ ''keystone'' @ [CHR 0x22] @ '','',
        ''            '' @ [CHR 0x22] @ ''perm'' @ [CHR 0x22] @ '': '' @ [CHR 0x22] @ ''0600'' @ [CHR 0x22] @ '','',
        ''            '' @ [CHR 0x22] @ ''optional'' @ [CHR 0x22] @ '': true'',
        ''        },'',
        ''        {'',
        ''            '' @ [CHR 0x22] @ ''source'' @ [CHR 0x22] @ '': '' @ [CHR 0x22] @ ''/var/lib/kolla/config_files/wsgi-keystone'' @ listenAddress @ ''.conf'' @ [CHR 0x22] @ '','',
        ''            '' @ [CHR 0x22] @ ''dest'' @ [CHR 0x22] @ '': '' @ [CHR 0x22] @ ''/etc/httpd/conf.d/wsgi-keystone.conf'' @ [CHR 0x22] @ '','',
        ''            '' @ [CHR 0x22] @ ''owner'' @ [CHR 0x22] @ '': '' @ [CHR 0x22] @ ''keystone'' @ [CHR 0x22] @ '','',
        ''            '' @ [CHR 0x22] @ ''perm'' @ [CHR 0x22] @ '': '' @ [CHR 0x22] @ ''0600'' @ [CHR 0x22],
        ''        }'',
        ''    ],'',
        ''    '' @ [CHR 0x22] @ ''permissions'' @ [CHR 0x22] @ '': ['',
        ''        {'',
        ''            '' @ [CHR 0x22] @ ''path'' @ [CHR 0x22] @ '': '' @ [CHR 0x22] @ ''/var/log/kolla'' @ [CHR 0x22] @ '','',
        ''            '' @ [CHR 0x22] @ ''owner'' @ [CHR 0x22] @ '': '' @ [CHR 0x22] @ ''keystone:kolla'' @ [CHR 0x22],
        ''        },'',
        ''        {'',
        ''            '' @ [CHR 0x22] @ ''path'' @ [CHR 0x22] @ '': '' @ [CHR 0x22] @ ''/etc/keystone/domains'' @ [CHR 0x22] @ '','',
        ''            '' @ [CHR 0x22] @ ''owner'' @ [CHR 0x22] @ '': '' @ [CHR 0x22] @ ''keystone:keystone'' @ [CHR 0x22] @ '','',
        ''            '' @ [CHR 0x22] @ ''perm'' @ [CHR 0x22] @ '': '' @ [CHR 0x22] @ ''0700'' @ [CHR 0x22],
        ''        }'',
        ''    ]''] @
     ''}''"

definition keystoneConf :: "string \<Rightarrow> string \<Rightarrow> string \<Rightarrow> string" where
  "keystoneConf rabbitMQServer postgreSQLServer memcacheServer =
     text_lines
       [[],
        ''[DEFAULT]'',
        ''debug = False'',
        ''transport_url = rabbit://guest:guest@'' @ rabbitMQServer @ ''//'',
        ''use_stderr = True'',
        [],
        ''[oslo_middleware]'',
        ''enable_proxy_headers_parsing = True'',
        [],
        ''[database]'',
        ''connection = postgresql://keystone:contrail123@'' @ postgreSQLServer @ ''/keystone'',
        ''max_retries = -1'',
        [],
        ''[token]'',
        ''revoke_by_id = False'',
        ''provider = fernet'',
        ''expiration = 86400'',
        ''allow_expired_window = 172800'',
        [],
        ''[fernet_tokens]'',
        ''max_active_keys = 3'',
        [],
        ''[cache]'',
        ''backend = dogpile.cache.memcached'',
        ''enabled = True'',
        ''memcache_servers = '' @ memcacheServer,
        []]"

definition wsgiKeystoneConf :: "string \<Rightarrow> int \<Rightarrow> string" where
  "wsgiKeystoneConf listenAddress listenPort =
     text_lines
       [[],
        ''Listen '' @ listenAddress @ '':'' @ Itoa listenPort,
        [],
        ''ServerName '' @ listenAddress,
        ''ServerSignature Off'',
        ''ServerTokens Prod'',
        ''TraceEnable off'',
        [],
        [],
        ''<Directory '' @ [CHR 0x22] @ ''/usr/bin'' @ [CHR 0x22] @ ''>'',
        ''    <FilesMatch '' @ [CHR 0x22] @ ''^keystone-wsgi-(public|admin)$'' @ [CHR 0x22] @ ''>'',
        ''        Options None'',
        ''        Require all granted'',
        ''    </FilesMatch>'',
        ''</Directory>'',
        [],
        [],
        ''<VirtualHost *:'' @ Itoa listenPort @ ''>'',
        ''    SSLEngine on'',
        ''    SSLCertificateFile '' @ [CHR 0x22] @ ''/etc/certificates/server-'' @ listenAddress @ ''.crt'' @ [CHR 0x22],
        ''    SSLCertificateKeyFile '' @ [CHR 0x22] @ ''/etc/certificates/server-key-'' @ listenAddress @ ''.pem'' @ [CHR 0x22],
        ''    WSGIDaemonProcess keystone-public processes=8 threads=1 user=keystone group=keystone display-name=%{GROUP} python-path=/usr/lib/python2.7/site-packages'',
        ''    WSGIProcessGroup keystone-public'',
        ''    WSGIScriptAlias / /usr/bin/keystone-wsgi-public'',
        ''    WSGIApplicationGroup %{GLOBAL}'',
        ''    WSGIPassAuthorization On'',
        ''    <IfVersion >= 2.4>'',
        ''      ErrorLogFormat '' @ [CHR 0x22] @ ''%{cu}t %M'' @ [CHR 0x22],
        ''    </IfVersion>'',
        ''    LogFormat '' @ [CHR 0x22] @ ''%{X-Forwarded-For}i %l %u %t '' @ [CHR 0x5C, CHR 0x22] @ ''%r'' @ [CHR 0x5C, CHR 0x22] @ '' %>s %b %D '' @ [CHR 0x5C, CHR 0x22] @ ''%{Referer}i'' @ [CHR 0x5C, CHR 0x22] @ '' '' @ [CHR 0x5C, CHR 0x22] @ ''%{User-Agent}i'' @ [CHR 0x5C, CHR 0x22, CHR 0x22] @ '' logformat'',
        ''    ErrorLog '' @ [CHR 0x22] @ ''|/usr/sbin/rotatelogs /var/log/kolla/keystone/keystone-apache-public-error.log'' @ [CHR 0x22],
        ''    CustomLog '' @ [CHR 0x22] @ ''|/usr/sbin/rotatelogs /var/log/kolla/keystone/keystone-apache-public-access.log 604800'' @ [CHR 0x22] @ '' logformat'',
        ''</VirtualHost>'']"

definition keystone_FillConfigMap :: "string list \<Rightarrow> int \<Rightarrow> string \<Rightarrow> string \<Rightarrow> string \<Rightarrow> config_map \<Rightarrow> config_map" where
  "keystone_FillConfigMap podIPs listenPort rabbitMQServer postgreSQLServer memcacheServer cm =
     cm\<lparr>cm_Data := Some (fold (\<lambda>podIP data.
          AList.update (''wsgi-keystone'' @ podIP @ ''.conf'') (wsgiKeystoneConf podIP listenPort)
         (AList.update (''keystone'' @ podIP @ ''.conf'') (keystoneConf rabbitMQServer postgreSQLServer memcacheServer)
         (AList.update (''config'' @ podIP @ ''.json'') (keystoneKollaServiceConfig podIP) data)))
         podIPs (map_entries (cm_Data cm)))\<rparr>"

definition ensureKeystoneExists ::
  "k8s_lib \<Rightarrow> (config_map, 's) kind_client \<Rightarrow> string \<Rightarrow> keystone \<Rightarrow> string \<Rightarrow> string \<Rightarrow> string list \<Rightarrow> ('s, go_error, unit) go" where
  "ensureKeystoneExists lib kc configMapName k postgresNode memcachedNode podIPs =
     ConfigMap_EnsureExists lib kc configMapName ''keystone'' (cr_meta k)
       (keystone_FillConfigMap podIPs (ks_ListenPort (cr_conf k)) ''localhost:5672'' postgresNode memcachedNode)"

definition keystoneInitKollaServiceConfig :: string where
  "keystoneInitKollaServiceConfig =
     text_lines
       [''{'',
        ''    '' @ [CHR 0x22] @ ''command'' @ [CHR 0x22] @ '': '' @ [CHR 0x22] @ ''/usr/bin/bootstrap.sh'' @ [CHR 0x22] @ '','',
        ''    '' @ [CHR 0x22] @ ''config_files'' @ [CHR 0x22] @ '': ['',
        ''        {'',
        ''            '' @ [CHR 0x22] @ ''source'' @ [CHR 0x22] @ '': '' @ [CHR 0x22] @ ''/var/lib/kolla/config_files/keystone.conf'' @ [CHR 0x22] @ '','',
        ''            '' @ [CHR 0x22] @ ''dest'' @ [CHR 0x22] @ '': '' @ [CHR 0x22] @ ''/etc/keystone/keystone.conf'' @ [CHR 0x22] @ '','',
        ''            '' @ [CHR 0x22] @ ''owner'' @ [CHR 0x22] @ '': '' @ [CHR 0x22] @ ''keystone'' @ [CHR 0x22] @ '','',
        ''            '' @ [CHR 0x22] @ ''perm'' @ [CHR 0x22] @ '': '' @ [CHR 0x22] @ ''0600'' @ [CHR 0x22],
        ''        },'',
        ''        {'',
        [CHR 0x09, CHR 0x09, CHR 0x09, CHR 0x22] @ ''source'' @ [CHR 0x22] @ '': '' @ [CHR 0x22] @ ''/var/lib/kolla/config_files/bootstrap.sh'' @ [CHR 0x22] @ '','',
        [CHR 0x09, CHR 0x09, CHR 0x09, CHR 0x22] @ ''dest'' @ [CHR 0x22] @ '': '' @ [CHR 0x22] @ ''/usr/bin/bootstrap.sh'' @ [CHR 0x22] @ '','',
        [CHR 0x09, CHR 0x09, CHR 0x09, CHR 0x22] @ ''owner'' @ [CHR 0x22] @ '': '' @ [CHR 0x22] @ ''root'' @ [CHR 0x22] @ '','',
        [CHR 0x09, CHR 0x09, CHR 0x09, CHR 0x22] @ ''perm'' @ [CHR 0x22] @ '': '' @ [CHR 0x22] @ ''0755'' @ [CHR 0x22],
        [CHR 0x09, CHR 0x09] @ ''}'',
        ''    ],'',
        ''    '' @ [CHR 0x22] @ ''permissions'' @ [CHR 0x22] @ '': ['',
        ''        {'',
        ''            '' @ [CHR 0x22] @ ''path'' @ [CHR 0x22] @ '': '' @ [CHR 0x22] @ ''/var/log/kolla'' @ [CHR 0x22] @ '','',
        ''            '' @ [CHR 0x22] @ ''owner'' @ [CHR 0x22] @ '': '' @ [CHR 0x22] @ ''keystone:kolla'' @ [CHR 0x22],
        ''        },'',
        ''        {'',
        ''            '' @ [CHR 0x22] @ ''path'' @ [CHR 0x22] @ '': '' @ [CHR 0x22] @ ''/etc/keystone/domains'' @ [CHR 0x22] @ '','',
        ''            '' @ [CHR 0x22] @ ''owner'' @ [CHR 0x22] @ '': '' @ [CHR 0x22] @ ''keystone:keystone'' @ [CHR 0x22] @ '','',
        ''            '' @ [CHR 0x22] @ ''perm'' @ [CHR 0x22] @ '': '' @ [CHR 0x22] @ ''0700'' @ [CHR 0x22],
        ''        }'',
        ''    ]''] @
     ''}''"

definition keystoneInitBootstrapScript :: "string \<Rightarrow> string \<Rightarrow> string \<Rightarrow> int \<Rightarrow> string \<Rightarrow> int \<Rightarrow> string" where
  "keystoneInitBootstrapScript adminPassword region publicAddress publicPort internalAddress internalPort =
     text_lines
       [[],
        ''#!/bin/bash'',
        [],
        ''keystone-manage db_sync'',
        ''keystone-manage bootstrap --bootstrap-password '' @ adminPassword @ '' '' @ [CHR 0x5C],
        ''  --bootstrap-region-id '' @ region @ '' '' @ [CHR 0x5C],
        ''  --bootstrap-admin-url https://'' @ publicAddress @ '':'' @ Itoa publicPort @ ''/v3/ '' @ [CHR 0x5C],
        ''  --bootstrap-internal-url https://'' @ internalAddress @ '':'' @ Itoa internalPort @ ''/v3/ '' @ [CHR 0x5C],
        ''  --bootstrap-public-url https://'' @ publicAddress @ '':'' @ Itoa publicPort @ ''/v3/'']"

definition ensureKeystoneInitExist ::
  "k8s_lib \<Rightarrow> (config_map, 's) kind_client \<Rightarrow> string \<Rightarrow> keystone \<Rightarrow> k_secret \<Rightarrow> string \<Rightarrow> string \<Rightarrow> string \<Rightarrow> int
    \<Rightarrow> ('s, go_error, unit) go" where
  "ensureKeystoneInitExist lib kc configMapName k sec postgresNode memcachedNode clusterIP nodePort =
     (let conf = cr_conf k; external = ks_PublicEndpoint conf \<noteq> [];
          publicAddress = (if external then ks_PublicEndpoint conf else clusterIP);
          publicPort = (if external then nodePort else int32_of (ks_ListenPort conf))
      in ConfigMap_EnsureExists lib kc configMapName ''keystone'' (cr_meta k) (\<lambda>cm.
           cm\<lparr>cm_Data := Some (
             AList.update ''bootstrap.sh'' (keystoneInitBootstrapScript (secret_value sec ''password'') (ks_Region conf)
               publicAddress publicPort clusterIP (ks_ListenPort conf))
            (AList.update ''keystone.conf'' (keystoneConf ''localhost:5672'' postgresNode memcachedNode)
            (AList.update ''config.json'' keystoneInitKollaServiceConfig (map_entries (cm_Data cm)))))\<rparr>))"

section \<open>Credential keys\<close>

definition credential_FillSecret :: "('s, go_error, string) go \<Rightarrow> k_secret \<Rightarrow> ('s, go_error, k_secret) go" where
  "credential_FillSecret rnd sc =
     (if sec_Data sc \<noteq> None then ret sc
      else bindM (generateKey rnd) (\<lambda>stagedKey.
           bindM (generateKey rnd) (\<lambda>primaryKey.
             ret (sc\<lparr>sec_Data := Some [(''0'', stagedKey), (''1'', primaryKey)]\<rparr>))))"

definition ensureCredentialKeysSecretExists ::
  "k8s_lib \<Rightarrow> (k_secret, 's) kind_client \<Rightarrow> ('s, go_error, string) go \<Rightarrow> string \<Rightarrow> keystone \<Rightarrow> ('s, go_error, unit) go" where
  "ensureCredentialKeysSecretExists lib kc rnd secretName k =
     Secret_EnsureExists lib kc secretName ''keystone'' (cr_meta k) (credential_FillSecret rnd)"

definition fernet_mutate :: "fernet_key_manager \<Rightarrow> fernet_key_manager" where
  "fernet_mutate m = m\<lparr>fk_TokenExpiration := 86400, fk_TokenAllowExpiredWindow := 172800, fk_RotationInterval := 259200\<rparr>"

definition ensureFernetKeyManagerExists ::
  "(fernet_key_manager, 's) kind_client \<Rightarrow> string \<Rightarrow> string \<Rightarrow> ('s, go_error, unit) go" where
  "ensureFernetKeyManagerExists kc name namespace =
     bindM (kc_CreateOrUpdate kc
              \<lparr>fk_meta = new_meta\<lparr>om_Name := name, om_Namespace := namespace\<rparr>, fk_TokenExpiration = 0,
               fk_TokenAllowExpiredWindow = 0, fk_RotationInterval = 0, fk_SecretName = []\<rparr>
              (\<lambda>m. ret (fernet_mutate m))) (\<lambda>_. ret ())"

section \<open>Workloads\<close>

definition newKollaEnvs :: "string \<Rightarrow> (string \<times> env_source) list" where
  "newKollaEnvs kollaService =
     [(''KOLLA_SERVICE_NAME'', EnvValue kollaService), (''KOLLA_CONFIG_STRATEGY'', EnvValue ''COPY_ALWAYS''),
      (''MY_POD_IP'', EnvFieldRef ''status.podIP''),
      (''KOLLA_CONFIG_FILE'', EnvValue ''/var/lib/kolla/config_files/config$(MY_POD_IP).json'')]"

definition newKeystoneSTS :: "keystone \<Rightarrow> stateful_set" where
  "newKeystoneSTS k =
     (let name = om_Name (cr_meta k); conf = cr_conf k
      in \<lparr>sts_meta = new_meta\<lparr>om_Name := name @ ''-keystone-statefulset'', om_Namespace := om_Namespace (cr_meta k)\<rparr>,
          sts_Replicas = None, sts_PodManagementPolicy = [], sts_Selector = Some None,
          sts_Template = \<lparr>pt_Annotations = None, pt_Labels = None,
            pt_Spec = new_pod_spec\<lparr>pspec_Affinity := anti_affinity ''keystone'' name, pspec_DNSPolicy := ''ClusterFirst'',
              pspec_InitContainers := [new_pod_container\<lparr>pco_Name := ''wait-for-ready-conf'',
                pco_ImagePullPolicy := ''IfNotPresent'', pco_Image := keystone_image conf ''wait-for-ready-conf'',
                pco_Command := keystone_command conf ''wait-for-ready-conf'',
                pco_VolumeMounts := [new_mount ''status'' ''/tmp/podinfo'']\<rparr>],
              pspec_Containers := [new_pod_container\<lparr>pco_Name := ''keystone'', pco_Image := keystone_image conf ''keystone'',
                pco_ImagePullPolicy := ''IfNotPresent'', pco_Env := newKollaEnvs ''keystone'',
                pco_Command := keystone_command conf ''keystone'',
                pco_VolumeMounts := [new_mount ''keystone-config-volume'' ''/var/lib/kolla/config_files/'',
                                     new_mount ''keystone-fernet-keys'' ''/etc/keystone/fernet-keys'',
                                     new_mount ''keystone-credential-keys'' ''/etc/keystone/credential-keys'',
                                     new_mount (name @ ''-secret-certificates'') ''/etc/certificates''],
                pco_ReadinessProbe := Some (new_probe (HTTPGetAction ''HTTPS'' [] (int32_of (ks_ListenPort conf)) ''/v3'')),
                pco_Requests := [(''cpu'', ''2'')]\<rparr>],
              pspec_Tolerations := [exists_toleration ''NoSchedule'', exists_toleration ''NoExecute'']\<rparr>\<rparr>,
          sts_ServiceName = [], sts_VolumeClaimTemplates = [], sts_ReadyReplicas = 0, sts_CurrentRevision = [],
          sts_UpdateRevision = []\<rparr>)"

definition updateKeystoneSTS :: "keystone \<Rightarrow> stateful_set \<Rightarrow> string \<Rightarrow> string \<Rightarrow> string \<Rightarrow> stateful_set" where
  "updateKeystoneSTS k sts kcName fernetKeysSecretName credentialKeysSecretName =
     (let new = pt_Spec (sts_Template (newKeystoneSTS k)); certificates = om_Name (cr_meta k) @ ''-secret-certificates''
      in update_spec (\<lambda>sp. sp\<lparr>pspec_Affinity := pspec_Affinity new, pspec_Containers := pspec_Containers new,
           pspec_InitContainers := pspec_InitContainers new,
           pspec_Volumes :=
             [\<lparr>vol_Name = ''keystone-fernet-keys'', vol_Source = SecretVolume fernetKeysSecretName\<rparr>,
              \<lparr>vol_Name = ''keystone-credential-keys'', vol_Source = SecretVolume credentialKeysSecretName\<rparr>,
              \<lparr>vol_Name = ''keystone-config-volume'', vol_Source = ConfigMapVolume kcName None\<rparr>,
              \<lparr>vol_Name = certificates, vol_Source = SecretVolume certificates\<rparr>,
              \<lparr>vol_Name = ''status'', vol_Source = DownwardAPIVolume [(''pod_labels'', ''metadata.labels'')] (Some 420)\<rparr>]\<rparr>) sts)"

definition ensureStatefulSetExists ::
  "k8s_lib \<Rightarrow> (stateful_set, 's) kind_client \<Rightarrow> keystone \<Rightarrow> string \<Rightarrow> string \<Rightarrow> string \<Rightarrow> ('s, go_error, stateful_set) go" where
  "ensureStatefulSetExists lib kc k kcName fernetKeysSecretName credentialKeysSecretName =
     kc_CreateOrUpdate kc (newKeystoneSTS k) (\<lambda>sts.
       PrepareSTS lib (updateKeystoneSTS k sts kcName fernetKeysSecretName credentialKeysSecretName) (cr_common k) ''keystone''
         (om_Namespace (cr_meta k), om_Name (cr_meta k)) (cr_meta k) True)"

definition initDBScript :: string where
  "initDBScript =
     text_lines
       [''DB_USER=${DB_USER:-root}'',
        ''DB_NAME=${DB_NAME:-contrail_test}'',
        ''KEYSTONE_USER_PASS=${KEYSTONE_USER_PASS:-contrail123}'',
        ''KEYSTONE='' @ [CHR 0x22] @ ''keystone'' @ [CHR 0x22],
        ''export PGPASSWORD=${PGPASSWORD:-contrail123}'',
        [],
        ''createuser -h ${PSQL_ENDPOINT} -U $DB_USER $KEYSTONE'',
        ''psql -h ${PSQL_ENDPOINT} -U $DB_USER -d postgres -c '' @ [CHR 0x22] @ ''ALTER USER $KEYSTONE WITH PASSWORD '' @ [CHR 0x27] @ ''$KEYSTONE_USER_PASS'' @ [CHR 0x27, CHR 0x22],
        ''createdb -h ${PSQL_ENDPOINT} -U $DB_USER $KEYSTONE''] @
     ''psql -h ${PSQL_ENDPOINT} -U $DB_USER -d postgres -c '' @ [CHR 0x22] @ ''GRANT ALL PRIVILEGES ON DATABASE $KEYSTONE TO $KEYSTONE'' @ [CHR 0x22]"

definition keystone_BootStrapJob ::
  "keystone \<Rightarrow> namespaced_name \<Rightarrow> string \<Rightarrow> string \<Rightarrow> string \<Rightarrow> string \<Rightarrow> string \<Rightarrow> batch_job" where
  "keystone_BootStrapJob k name kcbName fernetKeysSecretName credentialKeysSecretName adminPassSecretName psqlIP =
     (let conf = cr_conf k
      in \<lparr>job_Conditions = [], job_BackoffLimit = None, job_Failed = 0,
          bj_meta = new_meta\<lparr>om_Name := snd name, om_Namespace := fst name\<rparr>,
          bj_Template = \<lparr>pt_Annotations = None, pt_Labels = None,
            pt_Spec = new_pod_spec\<lparr>pspec_HostNetwork := True, pspec_RestartPolicy := ''Never'',
              pspec_NodeSelector := pc_NodeSelector (cr_common k),
              pspec_Volumes := [\<lparr>vol_Name = ''keystone-bootstrap-config-volume'', vol_Source = ConfigMapVolume kcbName None\<rparr>,
                                \<lparr>vol_Name = ''keystone-fernet-keys'', vol_Source = SecretVolume fernetKeysSecretName\<rparr>,
                                \<lparr>vol_Name = ''keystone-credential-keys'', vol_Source = SecretVolume credentialKeysSecretName\<rparr>,
                                \<lparr>vol_Name = adminPassSecretName, vol_Source = SecretVolume adminPassSecretName\<rparr>],
              pspec_InitContainers := [new_pod_container\<lparr>pco_Name := ''keystone-db-init'',
                pco_Image := keystone_image conf ''keystoneDbInit'', pco_ImagePullPolicy := ''IfNotPresent'',
                pco_Command := keystone_command conf ''keystoneDbInit'', pco_Args := [''-c'', initDBScript],
                pco_Env := [(''PSQL_ENDPOINT'', EnvValue psqlIP), (''PGPASSWORD'', EnvSecretKeyRef adminPassSecretName ''password'')]\<rparr>],
              pspec_Containers := [new_pod_container\<lparr>pco_Name := ''keystone-bootstrap'',
                pco_Image := keystone_image conf ''keystoneInit'', pco_ImagePullPolicy := ''IfNotPresent'',
                pco_Env := [(''KOLLA_SERVICE_NAME'', EnvValue ''keystone''), (''KOLLA_CONFIG_STRATEGY'', EnvValue ''COPY_ALWAYS'')],
                pco_Command := keystone_command conf ''keystoneInit'',
                pco_VolumeMounts := [new_mount ''keystone-bootstrap-config-volume'' ''/var/lib/kolla/config_files/'',
                                     new_mount ''keystone-fernet-keys'' ''/etc/keystone/fernet-keys'',
                                     new_mount ''keystone-credential-keys'' ''/etc/keystone/credential-keys'']\<rparr>],
              pspec_Tolerations := [exists_toleration ''NoSchedule'', exists_toleration ''NoExecute'']\<rparr>\<rparr>\<rparr>)"

definition keystone_reconcileBootstrapJob ::
  "k8s_lib \<Rightarrow> (batch_job, 's) kind_client \<Rightarrow> keystone \<Rightarrow> string \<Rightarrow> string \<Rightarrow> string \<Rightarrow> string \<Rightarrow> string \<Rightarrow> ('s, go_error, unit) go" where
  "keystone_reconcileBootstrapJob lib kcj k kcbName fernetKeysSecretName credentialKeysSecretName adminPassSecretName psqlIP =
     (let jobName = (om_Namespace (cr_meta k), om_Name (cr_meta k) @ ''-bootstrap-job'')
      in create_job_once lib kcj (cr_meta k) jobName
           (keystone_BootStrapJob k jobName kcbName fernetKeysSecretName credentialKeysSecretName adminPassSecretName psqlIP))"

section \<open>The controller\<close>

definition keystone_ensureServiceExists ::
  "k8s_lib \<Rightarrow> (k8s_service, 's) kind_client \<Rightarrow> range_ord \<Rightarrow> range_ord \<Rightarrow> keystone \<Rightarrow> ('s, go_error, service_conf) go" where
  "keystone_ensureServiceExists lib kc ord1 ord2 k =
     Service_EnsureExists lib kc ord1 ord2
       (Kubernetes_Service (om_Name (cr_meta k) @ ''-service'') ''NodePort'' [(int32_of (ks_ListenPort (cr_conf k)), ''api'')]
          ''keystone'' (cr_meta k))"

definition listKeystonePods :: "(pod, 's) kind_client \<Rightarrow> string \<Rightarrow> ('s, go_error, pod list) go" where
  "listKeystonePods kc keystoneName = kc_List kc [] [(''contrail_manager'', ''keystone''), (''keystone'', keystoneName)]"

definition keystone_ensureCertificatesExist ::
  "k8s_lib \<Rightarrow> ('key, 'ip, 'cert, 's) crypto_lib \<Rightarrow> (k_secret, 's) kind_client \<Rightarrow> keystone \<Rightarrow> pod list \<Rightarrow> string
    \<Rightarrow> ('s, go_error, unit) go" where
  "keystone_ensureCertificatesExist lib cy kc k pods serviceIP =
     EnsureExistsAndIsSigned lib cy kc (cr_meta k) (Keystone_PodsCertSubjects k pods serviceIP) ''keystone''"

text \<open>Both functions that write the status start from the empty one.\<close>

definition keystone_status :: "stateful_set \<Rightarrow> string \<Rightarrow> keystone \<Rightarrow> keystone" where
  "keystone_status sts cip k =
     (let intendentReplicas = (case sts_Replicas sts of None \<Rightarrow> 1 | Some r \<Rightarrow> r);
          st = (if sts_ReadyReplicas sts = intendentReplicas
                then new_status\<lparr>st_Active := Some True, st_IntPorts := [(''port'', ks_ListenPort (cr_conf k))]\<rparr>
                else new_status)
      in k\<lparr>cr_status := st\<lparr>st_Endpoint := cip\<rparr>, ky_External := False\<rparr>)"

definition external_status :: "keystone \<Rightarrow> keystone" where
  "external_status k =
     k\<lparr>cr_status := new_status\<lparr>st_Active := Some True, st_IntPorts := [(''port'', ks_ListenPort (cr_conf k))],
         st_Endpoint := ks_ExternalAddress (cr_conf k)\<rparr>, ky_External := True\<rparr>"

definition keystone_cr :: "keystone \<Rightarrow> keystone_configuration cr" where
  "keystone_cr k = cr.truncate k"

text \<open>The error of a Keystone that is not ready is only logged.\<close>

definition externalKeystoneReady ::
  "('t, 's) openstack_lib \<Rightarrow> keystone \<Rightarrow> string \<Rightarrow> ('s, go_error, bool) go" where
  "externalKeystoneReady os k adminPassword =
     bindM (tryM (bindM (os_NewClient os (keystone_cr k)) (\<lambda>_.
                    os_PostAuthTokens os (keystone_cr k) ''admin'' adminPassword ''admin''))) (\<lambda>r.
       ret (case r of Inl _ \<Rightarrow> False | Inr _ \<Rightarrow> True))"

record 's keystone_clients =
  kyc_keystone :: "(keystone, 's) kind_client"
  kyc_postgres :: "(postgres_configuration cr, 's) kind_client"
  kyc_memcached :: "(memcached_configuration cr, 's) kind_client"
  kyc_fernet :: "(fernet_key_manager, 's) kind_client"
  kyc_job :: "(batch_job, 's) kind_client"

definition keystone_external ::
  "('t, 's) openstack_lib \<Rightarrow> 's svc_clients \<Rightarrow> 's keystone_clients \<Rightarrow> keystone \<Rightarrow> ('s, go_error, int option) go" where
  "keystone_external os cls ocs k =
     bindM (kc_Get (sv_secret cls) (om_Namespace (cr_meta k), ks_KeystoneSecretName (cr_conf k))) (\<lambda>adminPasswordSecret.
     bindM (externalKeystoneReady os k (secret_value adminPasswordSecret ''password'')) (\<lambda>isReady.
       if isReady then bindM (kc_StatusUpdate (kyc_keystone ocs) (external_status k)) (\<lambda>_. ret None)
       else ret (Some (int64_of (ks_ExternalAddressRetrySec (cr_conf k) * 1000000000)))))"

text \<open>
  The part after the services that Keystone waits for.  The status is computed from the stateful set
  that \<open>ensureStatefulSetExists\<close> wrote; \<open>UpdateSTS\<close> writes again only when another writer
  changed the images or the number of replicas in between, and the answer to that write is not read.
\<close>

definition keystone_deploy ::
  "k8s_lib \<Rightarrow> 'ot apimachinery \<Rightarrow> (go_error + string \<times> string) \<Rightarrow> ('s, go_error, string) go \<Rightarrow> 's svc_clients \<Rightarrow> 's keystone_clients
    \<Rightarrow> namespaced_name \<Rightarrow> keystone \<Rightarrow> pod list \<Rightarrow> service_conf \<Rightarrow> string \<Rightarrow> string \<Rightarrow> ('s, go_error, unit) go" where
  "keystone_deploy lib am gvk rnd cls ocs request k keystonePods svc psqlEndpoint memcachedEndpoint =
     (let name = om_Name (cr_meta k); namespace = om_Namespace (cr_meta k);
          adminPasswordSecretName = ks_KeystoneSecretName (cr_conf k);
          kcName = name @ ''-keystone''; kcbName = name @ ''-keystone-bootstrap'';
          credentialKeysSecretName = name @ ''-credential-keys-repository''
      in bindM (kc_Get (sv_secret cls) (namespace, adminPasswordSecretName)) (\<lambda>adminPasswordSecret.
         bindM (ensureKeystoneExists lib (sv_configmap cls) kcName k psqlEndpoint memcachedEndpoint (map pod_PodIP keystonePods)) (\<lambda>_.
         bindM (ensureKeystoneInitExist lib (sv_configmap cls) kcbName k adminPasswordSecret psqlEndpoint memcachedEndpoint
                  (ClusterIP svc) (NodePort svc ''api'')) (\<lambda>_.
         bindM (ensureCredentialKeysSecretExists lib (sv_secret cls) rnd credentialKeysSecretName k) (\<lambda>_.
         bindM (kc_Get (kyc_fernet ocs) (namespace, name @ ''-fernet-key-manager'')) (\<lambda>m.
         bindM (own am gvk (kyc_fernet ocs) (\<lambda>meta m. m\<lparr>fk_meta := meta\<rparr>) (cr_meta k) (fk_meta m) m) (\<lambda>m.
           if fk_SecretName m = [] then ret ()
           else
             bindM (keystone_reconcileBootstrapJob lib (kyc_job ocs) k kcbName (fk_SecretName m) credentialKeysSecretName
                      adminPasswordSecretName psqlEndpoint) (\<lambda>_.
             bindM (ensureStatefulSetExists lib (sv_sts cls) k kcName (fk_SecretName m) credentialKeysSecretName) (\<lambda>sts.
             bindM (UpdateSTS lib (sv_sts cls) sts ''keystone'' request ''deleteFirst'') (\<lambda>_.
               kc_StatusUpdate (kyc_keystone ocs) (keystone_status sts (ClusterIP svc) k)))))))))))"

definition Keystone_Reconcile ::
  "k8s_lib \<Rightarrow> range_ord \<Rightarrow> range_ord \<Rightarrow> 'ot apimachinery \<Rightarrow> (go_error + string \<times> string) \<Rightarrow> ('t, 's) openstack_lib
    \<Rightarrow> ('s, go_error, string) go \<Rightarrow> ('key, 'ip, 'cert, 's) crypto_lib \<Rightarrow> 's svc_clients \<Rightarrow> 's keystone_clients
    \<Rightarrow> namespaced_name \<Rightarrow> ('s, go_error, int option) go" where
  "Keystone_Reconcile lib ord1 ord2 am gvk os rnd cy cls ocs request =
     bindM (tryM (kc_Get (kyc_keystone ocs) request)) (\<lambda>r.
       case r of
         Inl err \<Rightarrow> if IsNotFound lib err then ret None else throw err
       | Inr k \<Rightarrow>
           if om_Deleted (cr_meta k) then ret None
           else if ks_ExternalAddress (cr_conf k) \<noteq> [] then keystone_external os cls ocs k
           else
             let name = om_Name (cr_meta k); conf = cr_conf k
             in bindM (ensureFernetKeyManagerExists (kyc_fernet ocs) (name @ ''-fernet-key-manager'') (om_Namespace (cr_meta k))) (\<lambda>_.
                bindM (keystone_ensureServiceExists lib (sv_service cls) ord1 ord2 k) (\<lambda>svc.
                bindM (wrapping ''failed to list command pods: '' (listKeystonePods (sv_pod cls) name)) (\<lambda>keystonePods.
                bindM (keystone_ensureCertificatesExist lib cy (sv_secret cls) k keystonePods (ClusterIP svc)) (\<lambda>_.
                bindM (if keystonePods \<noteq> [] then SetPodsToReady (sv_pod cls) keystonePods else ret ()) (\<lambda>_.
                bindM (own_cr am gvk (kyc_postgres ocs) (cr_meta k) (ks_PostgresInstance conf)) (\<lambda>psql.
                  if \<not> is_active psql then ret None
                  else bindM (own_cr am gvk (kyc_memcached ocs) (cr_meta k) (ks_MemcachedInstance conf)) (\<lambda>memcached.
                    if \<not> is_active memcached then ret None
                    else bindM (keystone_deploy lib am gvk rnd cls ocs request k keystonePods svc (st_Endpoint (cr_status psql))
                                  (st_Endpoint (cr_status memcached))) (\<lambda>_. ret None)))))))))"

section \<open>Facts\<close>

text \<open>
  The key manager that the controller makes keeps three keys, which is the number that the
  configuration file of Keystone has.
\<close>

lemma text_lines_line: "l \<in> set ls \<Longrightarrow> \<exists>pre post. text_lines ls = pre @ l @ [CHR 0x0A] @ post"
  by (force simp: text_lines_def in_set_conv_decomp)

theorem keystone_key_number:
  "maxActiveKeys_of (rotation_times (fernet_mutate m)) s = (Ok 3, s) \<and>
   (\<exists>pre post. keystoneConf rabbit postgres memcache = pre @ ''max_active_keys = 3'' @ [CHR 0x0A] @ post)"
proof
  show "maxActiveKeys_of (rotation_times (fernet_mutate m)) s = (Ok 3, s)"
    by (simp add: maxActiveKeys_of_def rotation_times_def fernet_mutate_def int_or_def Let_def int64_of_def signed_divide_int_def)
  show "\<exists>pre post. keystoneConf rabbit postgres memcache = pre @ ''max_active_keys = 3'' @ [CHR 0x0A] @ post"
    unfolding keystoneConf_def by (rule text_lines_line) simp
qed

text \<open>
  With an external Keystone, a reconciliation that succeeds writes a status that is active and has
  the external address, or leaves the resource alone and asks to be called again.
\<close>

theorem keystone_external_result:
  assumes "ks_ExternalAddress (cr_conf k) \<noteq> []" "\<not> om_Deleted (cr_meta k)"
    and get: "kc_Get (kyc_keystone ocs) request s = (Ok k, s)"
    and run: "Keystone_Reconcile lib ord1 ord2 am gvk os rnd cy cls ocs request s = (Ok r, s')"
  shows "(\<exists>t t'. r = None \<and> kc_StatusUpdate (kyc_keystone ocs) (external_status k) t = (Ok t', s')) \<or>
    r = Some (int64_of (ks_ExternalAddressRetrySec (cr_conf k) * 1000000000))"
proof -
  have "keystone_external os cls ocs k s = (Ok r, s')"
    using run assms(1,2) get by (simp add: Keystone_Reconcile_def)
  then show ?thesis
    unfolding keystone_external_def by (elim bindM_OkE) (auto simp: bindM_Ok_iff split: if_splits)
qed

end
