(* ===== verification/Provisionmanager.thy ===== *)
theory Provisionmanager
  imports ServiceParts ManagerTypes
begin

text \<open>
  \<open>pkg/controller/provisionmanager\<close> and the methods of \<open>provisionmanager_types.go\<close>: one reconciliation
  of a ProvisionManager resource.  It runs the provisioner and writes the files that tell it which
  nodes the cluster has.  \<open>yaml.Marshal\<close> and \<open>json.Marshal\<close> are the fields of \<open>pm_marshal\<close>; \<open>ords kind i\<close>
  is the order in which the nodes of the \<open>i\<close>-th resource of a kind are visited.
\<close>

section \<open>The stateful set\<close>

definition provisionmanager_GetSTS :: stateful_set where
  "provisionmanager_GetSTS =
     \<lparr>sts_meta = new_meta\<lparr>om_Name := ''provisionmanager''\<rparr>, sts_Replicas = Some 1,
      sts_PodManagementPolicy = [], sts_Selector = Some (Some [(''app'', ''provisionmanager'')]),
      sts_Template =
        \<lparr>pt_Annotations = None, pt_Labels = Some [(''app'', ''provisionmanager''), (''contrail_manager'', ''provisionmanager'')],
         pt_Spec = new_pod_spec\<lparr>pspec_NodeSelector := Some [(''node-role.kubernetes.io/master'', [])],
                    pspec_Tolerations := [exists_toleration ''NoSchedule'', exists_toleration ''NoExecute''],
                    pspec_HostNetwork := True,
                    pspec_InitContainers := [new_pod_container\<lparr>pco_Name := ''init'',
                                               pco_Image := ''busybox'',
                                               pco_Command := [''sh'', ''-c'', ''until grep ready /tmp/podinfo/pod_labels > /dev/null 2>&1; do sleep 1; done''],
                                               pco_VolumeMounts := [new_mount ''metadata'' ''/tmp/podinfo''],
                                               pco_ImagePullPolicy := ''IfNotPresent'',
                                               pco_SecurityContext := Some (new_security_context\<lparr>sx_Privileged := Some False,
                                                   sx_ProcMount := ''Default''\<rparr>),
                                               pco_TerminationMessagePath := ''/dev/termination-log'',
                                               pco_TerminationMessagePolicy := ''File''\<rparr>],
                    pspec_Containers := [new_pod_container\<lparr>pco_Name := ''provisioner'',
                                           pco_Image := ''docker.io/kaweue/contrail-provisioner:master.1175'',
                                           pco_Env := [(''POD_IP'', EnvFieldRef ''status.podIP''),
                                                       (''POD_NAME'', EnvFieldRef ''metadata.name'')],
                                           pco_VolumeMounts := [new_mount ''provisionmanager-data'' ''/var/lib/provisionmanager'',
                                                                new_mount ''provisionmanager-logs'' ''/var/log/provisionmanager'',
                                                                new_mount ''metadata'' ''/etc/provision/metadata''],
                                           pco_ImagePullPolicy := ''IfNotPresent''\<rparr>],
                    pspec_Volumes := [\<lparr>vol_Name = ''provisionmanager-data'', vol_Source = HostPathVolume ''/var/lib/contrail/provisionManager'' []\<rparr>,
                                       \<lparr>vol_Name = ''provisionmanager-logs'', vol_Source = HostPathVolume ''/var/log/contrail/provisionmanager'' []\<rparr>,
                                       \<lparr>vol_Name = ''metadata'', vol_Source = DownwardAPIVolume [(''pod_labels'', ''metadata.labels''), (''managed_by'', ''metadata.annotations['' @ [CHR 0x27] @ ''managed_by'' @ [CHR 0x27] @ '']'')] (Some 420)\<rparr>]\<rparr>\<rparr>,
      sts_ServiceName = ''provisionmanager'', sts_VolumeClaimTemplates = [], sts_ReadyReplicas = 0,
      sts_CurrentRevision = [], sts_UpdateRevision = []\<rparr>"

section \<open>What the provisioner is told\<close>

type_synonym provisionmanager = "provisionmanager_service_configuration cr"

record pm_encryption =
  pe_CA :: string
  pe_Cert :: string
  pe_Key :: string
  pe_Insecure :: bool

record pm_api_server =
  pa_APIPort :: string
  pa_APIServerList :: "string list"
  pa_Encryption :: pm_encryption
  pa_Annotations :: string_map

record pm_node =
  pn_IPAddress :: string
  pn_Hostname :: string
  pn_Annotations :: string_map

record pm_control_node =
  pcn_Node :: pm_node
  pcn_ASN :: int

record keystone_auth_parameters =
  kap_AdminUsername :: string
  kap_AdminPassword :: string
  kap_AuthUrl :: string
  kap_TenantName :: string
  kap_Encryption :: pm_encryption

record pm_marshal =
  ym_keystone :: "keystone_auth_parameters \<Rightarrow> go_error + string"
  ym_nodes :: "pm_node list \<Rightarrow> go_error + string"
  ym_control_nodes :: "pm_control_node list \<Rightarrow> go_error + string"
  ym_api_server :: "pm_api_server \<Rightarrow> go_error + string"
  ym_global_vrouter :: "global_vrouter_configuration \<Rightarrow> go_error + string"

record 's pm_clients =
  pmc_config :: "(config_configuration cr, 's) kind_client"
  pmc_control :: "(control_configuration cr, 's) kind_client"
  pmc_vrouter :: "(vrouter_service_configuration cr, 's) kind_client"
  pmc_cassandra :: "(cassandra_configuration cr, 's) kind_client"
  pmc_keystone :: "(keystone_configuration cr, 's) kind_client"

definition GetDataIPFromAnnotations :: "(pod, 's) kind_client \<Rightarrow> string \<Rightarrow> string \<Rightarrow> ('s, go_error, string) go" where
  "GetDataIPFromAnnotations kc podName namespace =
     bindM (kc_Get kc (namespace, podName)) (\<lambda>p.
       ret (entry_of (om_Annotations (pod_meta p)) ''dataSubnetIP''))"

definition GetGlobalVrouterConfig :: "provisionmanager \<Rightarrow> global_vrouter_configuration" where
  "GetGlobalVrouterConfig c =
     (let g = pm_GlobalVrouterConfiguration (ps_ProvisionManagerConfiguration (cr_conf c))
      in \<lparr>gc_EcmpHashingIncludeFields =
            (if gc_EcmpHashingIncludeFields g = no_ecmp_hashing_include_fields
             then \<lparr>HashingConfigured = True, SourceIp = True, DestinationIp = True, IpProtocol = True,
                   SourcePort = True, DestinationPort = True\<rparr>
             else gc_EcmpHashingIncludeFields g),
          gc_EncapsulationPriorities = str_or (gc_EncapsulationPriorities g) ''VXLAN,MPLSoGRE,MPLSoUDP'',
          gc_VxlanNetworkIdentifierMode = str_or (gc_VxlanNetworkIdentifierMode g) ''automatic''\<rparr>)"

definition pm_encryption_of :: "string \<Rightarrow> pm_encryption" where
  "pm_encryption_of podIP =
     \<lparr>pe_CA = SignerCAFilepath, pe_Cert = ''/etc/certificates/server-'' @ podIP @ ''.crt'',
      pe_Key = ''/etc/certificates/server-key-'' @ podIP @ ''.pem'', pe_Insecure = False\<rparr>"

text \<open>\<open>%q\<close> of a name: no character of the name of a resource is escaped.\<close>

definition GetAuthParameters ::
  "(k_secret, 's) kind_client \<Rightarrow> (keystone_configuration cr, 's) kind_client \<Rightarrow> provisionmanager \<Rightarrow> string
    \<Rightarrow> ('s, go_error, keystone_auth_parameters) go" where
  "GetAuthParameters kcs kck c podIP =
     (let namespace = om_Namespace (cr_meta c); conf = ps_ProvisionManagerConfiguration (cr_conf c)
      in bindM (kc_Get kcs (namespace, pm_KeystoneSecretName conf)) (\<lambda>adminPasswordSecret.
         bindM (kc_Get kck (namespace, pm_KeystoneInstance conf)) (\<lambda>keystone.
           if st_Endpoint (cr_status keystone) = []
           then throw (errors_New ([CHR 0x22] @ pm_KeystoneInstance conf @ [CHR 0x22] @ '' Status.Endpoint empty''))
           else ret \<lparr>kap_AdminUsername = ''admin'', kap_AdminPassword = secret_value adminPasswordSecret ''password'',
                     kap_AuthUrl = ks_AuthProtocol (cr_conf keystone) @ ''://'' @ st_Endpoint (cr_status keystone) @ '':'' @
                       Itoa (ks_ListenPort (cr_conf keystone)) @ ''/v3/auth'',
                     kap_TenantName = ''admin'', kap_Encryption = pm_encryption_of podIP\<rparr>)))"

definition getPodsHostname ::
  "(pod, 's) kind_client \<Rightarrow> (k8s_node, 's) kind_client \<Rightarrow> string \<Rightarrow> string \<Rightarrow> ('s, go_error, string) go" where
  "getPodsHostname kcp kcn podName namespace =
     bindM (kc_Get kcp (namespace, podName)) (\<lambda>p.
       if \<not> pod_HostNetwork p then ret (pod_Hostname p)
       else if pod_NodeName p = [] then ret []
       else bindM (kc_Get kcn ([], pod_NodeName p)) (\<lambda>n.
              case find (\<lambda>(ty, _). ty = ''Hostname'') (kn_Addresses n) of
                Some (_, address) \<Rightarrow> ret address
              | None \<Rightarrow> throw (errors_New (''couldn'' @ [CHR 0x27] @ ''t get pods hostname''))))"

text \<open>
  The loop over the nodes of the resources of one kind.  A pod without a host name is left out; \<open>node_of\<close>
  makes a node of the resource, the name and the address of the pod and its host name.
\<close>

definition node_entry ::
  "(string \<Rightarrow> ('s, go_error, string) go) \<Rightarrow> (string \<Rightarrow> string \<Rightarrow> string \<Rightarrow> ('s, go_error, 'n) go) \<Rightarrow> string \<times> string
    \<Rightarrow> ('s, go_error, 'n option) go" where
  "node_entry hostname_of node_of e =
     bindM (hostname_of (fst e)) (\<lambda>hostname.
       if hostname = [] then ret None
       else bindM (node_of (fst e) (snd e) hostname) (\<lambda>n. ret (Some n)))"

definition service_nodes ::
  "(string \<Rightarrow> ('s, go_error, string) go) \<Rightarrow> ('c cr \<Rightarrow> string \<Rightarrow> string \<Rightarrow> string \<Rightarrow> ('s, go_error, 'n) go) \<Rightarrow> (nat \<Rightarrow> range_ord)
    \<Rightarrow> 'c cr list \<Rightarrow> ('s, go_error, 'n list) go" where
  "service_nodes hostname_of node_of ords items =
     bindM (mapM (\<lambda>(i, sv).
              bindM (mapM (node_entry hostname_of (node_of sv)) (range_of (ords i) (map_entries (st_Nodes (cr_status sv))))) (\<lambda>ns.
                ret (List.map_filter id ns)))
            (zip [0..<length items] items)) (\<lambda>nss. ret (concat nss))"

text \<open>The file with the nodes of a kind, sorted by their addresses; there is none without a resource.\<close>

definition nodes_file ::
  "string \<Rightarrow> ('n list \<Rightarrow> go_error + string) \<Rightarrow> ('n \<Rightarrow> string) \<Rightarrow> ('s, go_error, 'n list) go \<Rightarrow> 'c cr list
    \<Rightarrow> ('s, go_error, (string, string) gomap) go" where
  "nodes_file name marshal address nodes items =
     (if items = [] then ret []
      else bindM nodes (\<lambda>nodeList.
           bindM (sum_result (marshal (sort_key address nodeList))) (\<lambda>yaml. ret [(name, yaml)])))"

definition plain_node :: "'c cr \<Rightarrow> string \<Rightarrow> string \<Rightarrow> string \<Rightarrow> ('s, go_error, pm_node) go" where
  "plain_node sv podName ipAddress hostname =
     ret \<lparr>pn_IPAddress = ipAddress, pn_Hostname = hostname, pn_Annotations = None\<rparr>"

definition control_node_of ::
  "(string \<Rightarrow> ('s, go_error, string) go) \<Rightarrow> control_configuration cr \<Rightarrow> string \<Rightarrow> string \<Rightarrow> string
    \<Rightarrow> ('s, go_error, pm_control_node) go" where
  "control_node_of dataIP_of sv podName ipAddress hostname =
     bindM (dataIP_of podName) (\<lambda>dataIP.
       let asnNumber = entry_of (Some (st_Ports (cr_status sv))) ''asnNumber''
       in case Atoi asnNumber of
            None \<Rightarrow> throw (Atoi_error asnNumber)
          | Some asn \<Rightarrow>
              ret \<lparr>pcn_Node = \<lparr>pn_IPAddress = str_or dataIP ipAddress, pn_Hostname = hostname, pn_Annotations = None\<rparr>,
                   pcn_ASN = asn\<rparr>)"

text \<open>The files of the pods: the last one of the pods with an address is kept.\<close>

definition pod_files ::
  "string \<Rightarrow> (string \<Rightarrow> ('s, go_error, string) go) \<Rightarrow> pod list \<Rightarrow> ('s, go_error, (string, string) gomap) go" where
  "pod_files prefix content pods =
     foldM (\<lambda>p data. bindM (content (pod_PodIP p)) (\<lambda>yaml.
       ret (AList.update (prefix @ pod_PodIP p @ ''.yaml'') yaml data))) pods []"

section \<open>The configuration\<close>

definition pm_map :: "namespaced_name \<Rightarrow> string \<Rightarrow> string" where
  "pm_map request kind = snd request @ ''-provisionmanager-configmap-'' @ kind"

text \<open>The data of the eight config maps.\<close>

record pm_data =
  pd_confignodes :: "(string, string) gomap"
  pd_controlnodes :: "(string, string) gomap"
  pd_analyticsnodes :: "(string, string) gomap"
  pd_vrouternodes :: "(string, string) gomap"
  pd_databasenodes :: "(string, string) gomap"
  pd_apiserver :: "(string, string) gomap"
  pd_keystoneauth :: "(string, string) gomap"
  pd_globalvrouter :: "(string, string) gomap"

definition pm_api_port :: "config_configuration cr list \<Rightarrow> string" where
  "pm_api_port configs =
     (if configs = [] then [] else entry_of (Some (st_Ports (cr_status (last configs)))) ''apiPort'')"

definition pm_files ::
  "pm_marshal \<Rightarrow> (string \<Rightarrow> nat \<Rightarrow> range_ord) \<Rightarrow> 's svc_clients \<Rightarrow> 's pm_clients \<Rightarrow> provisionmanager \<Rightarrow> config_cluster
    \<Rightarrow> string \<Rightarrow> config_configuration cr list \<Rightarrow> pod list \<Rightarrow> ('s, go_error, pm_data) go" where
  "pm_files ym ords cls ocs c configNodes namespace configs pods =
     (let hostname_of = (\<lambda>podName. getPodsHostname (sv_pod cls) (sv_node cls) podName namespace);
          dataIP_of = (\<lambda>podName. GetDataIPFromAnnotations (sv_pod cls) podName namespace)
      in bindM (sum_result (ym_global_vrouter ym (GetGlobalVrouterConfig c))) (\<lambda>globalVrouter.
         bindM (if cc_AuthMode configNodes = AuthenticationModeKeystone
                then pod_files ''keystone-auth-'' (\<lambda>podIP.
                       bindM (GetAuthParameters (sv_secret cls) (pmc_keystone ocs) c podIP) (\<lambda>k.
                         sum_result (ym_keystone ym k))) pods
                else ret []) (\<lambda>keystoneAuth.
         bindM (nodes_file ''confignodes.yaml'' (ym_nodes ym) pn_IPAddress
                  (service_nodes hostname_of plain_node (ords ''config'') configs) configs) (\<lambda>configNodeData.
         bindM (nodes_file ''analyticsnodes.yaml'' (ym_nodes ym) pn_IPAddress
                  (service_nodes hostname_of plain_node (ords ''analytics'') configs) configs) (\<lambda>analyticsNodeData.
         bindM (kc_List (pmc_control ocs) namespace []) (\<lambda>controls.
         bindM (nodes_file ''controlnodes.yaml'' (ym_control_nodes ym) (\<lambda>n. pn_IPAddress (pcn_Node n))
                  (service_nodes hostname_of (control_node_of dataIP_of) (ords ''control'') controls) controls) (\<lambda>controlNodeData.
         bindM (kc_List (pmc_vrouter ocs) namespace []) (\<lambda>vrouters.
         bindM (nodes_file ''vrouternodes.yaml'' (ym_nodes ym) pn_IPAddress
                  (service_nodes hostname_of plain_node (ords ''vrouter'') vrouters) vrouters) (\<lambda>vrouterNodeData.
         bindM (pod_files ''apiserver-'' (\<lambda>podIP. sum_result (ym_api_server ym
                  \<lparr>pa_APIPort = pm_api_port configs,
                   pa_APIServerList = EndpointList (cc_APIServerIPList configNodes) (cc_APIServerPort configNodes),
                   pa_Encryption = pm_encryption_of podIP, pa_Annotations = None\<rparr>)) pods) (\<lambda>apiServerData.
         bindM (kc_List (pmc_cassandra ocs) namespace []) (\<lambda>cassandras.
         bindM (nodes_file ''databasenodes.yaml'' (ym_nodes ym) pn_IPAddress
                  (service_nodes hostname_of plain_node (ords ''cassandra'') cassandras) cassandras) (\<lambda>databaseNodeData.
           ret \<lparr>pd_confignodes = configNodeData, pd_controlnodes = controlNodeData, pd_analyticsnodes = analyticsNodeData,
                pd_vrouternodes = vrouterNodeData, pd_databasenodes = databaseNodeData, pd_apiserver = apiServerData,
                pd_keystoneauth = keystoneAuth, pd_globalvrouter = [(''globalvrouter.json'', globalVrouter)]\<rparr>))))))))))))"

definition update_map ::
  "(config_map, 's) kind_client \<Rightarrow> config_map \<Rightarrow> (string, string) gomap \<Rightarrow> ('s, go_error, unit) go" where
  "update_map kc cm data = bindM (kc_Update kc (cm\<lparr>cm_Data := Some data\<rparr>)) (\<lambda>_. ret ())"

text \<open>
  The defaults of the configuration of the Config nodes are filled in through the pointer of the
  resource, and the pods are sorted in place: both are part of the result.
\<close>

definition instanceConfiguration ::
  "pm_marshal \<Rightarrow> (string \<Rightarrow> nat \<Rightarrow> range_ord) \<Rightarrow> 's svc_clients \<Rightarrow> 's pm_clients \<Rightarrow> provisionmanager \<Rightarrow> namespaced_name
    \<Rightarrow> pod list \<Rightarrow> ('s, go_error, provisionmanager \<times> pod list) go" where
  "instanceConfiguration ym ords cls ocs c request podList =
     (let kc = sv_configmap cls; get = (\<lambda>kind. kc_Get kc (fst request, pm_map request kind))
      in bindM (get ''confignodes'') (\<lambda>configNodes.
         bindM (get ''controlnodes'') (\<lambda>controlNodes.
         bindM (get ''vrouternodes'') (\<lambda>vrouterNodes.
         bindM (get ''analyticsnodes'') (\<lambda>analyticsNodes.
         bindM (get ''databasenodes'') (\<lambda>databaseNodes.
         bindM (get ''apiserver'') (\<lambda>apiServer.
         bindM (get ''keystoneauth'') (\<lambda>keystoneAuth.
         bindM (get ''globalvrouter'') (\<lambda>globalVrouter.
         bindM (deref_ptr (ps_ConfigNodesConfiguration (cr_conf c))) (\<lambda>information.
         let information = Config_FillWithDefaultValues information;
             c = c\<lparr>cr_conf := (cr_conf c)\<lparr>ps_ConfigNodesConfiguration := Some information\<rparr>\<rparr>
         in bindM (kc_List (pmc_config ocs) (fst request) []) (\<lambda>configs.
            let pods = sort_by_ip podList
            in bindM (pm_files ym ords cls ocs c information (fst request) configs pods) (\<lambda>d.
               bindM (update_map kc configNodes (pd_confignodes d)) (\<lambda>_.
               bindM (update_map kc controlNodes (pd_controlnodes d)) (\<lambda>_.
               bindM (update_map kc analyticsNodes (pd_analyticsnodes d)) (\<lambda>_.
               bindM (update_map kc vrouterNodes (pd_vrouternodes d)) (\<lambda>_.
               bindM (update_map kc databaseNodes (pd_databasenodes d)) (\<lambda>_.
               bindM (update_map kc apiServer (pd_apiserver d)) (\<lambda>_.
               bindM (update_map kc keystoneAuth (pd_keystoneauth d)) (\<lambda>_.
               bindM (update_map kc globalVrouter (pd_globalvrouter d)) (\<lambda>_.
                 ret (c, pods)))))))))))))))))))))"

section \<open>The controller\<close>

definition RequiredAnnotationsKey :: string where "RequiredAnnotationsKey = ''managed_by''"

definition ProvisionManager_PodsCertSubjects :: "provisionmanager \<Rightarrow> pod list \<Rightarrow> cert_subject list" where
  "ProvisionManager_PodsCertSubjects c podList =
     PodsCertSubjects podList (pc_HostNetwork (cr_common c)) \<lparr>Retriever = None, ServiceIP = []\<rparr>"

definition provisionmanager_resourceHandler ::
  "'q queue_add \<Rightarrow> (string \<Rightarrow> go_error + object_meta list) \<Rightarrow> 'q handler_methods" where
  "provisionmanager_resourceHandler = resourceHandler"

definition provisionmanager_configure_container ::
  "string \<Rightarrow> container list \<Rightarrow> pod_container \<Rightarrow> ('s, go_error, pod_container) go" where
  "provisionmanager_configure_container name containers c =
     (if pco_Name c = ''provisioner''
      then service_container containers
             [''sh'', ''-c'', ''/app/contrail-provisioner/contrail-provisioner-image.binary '' @ [CHR 0x5C, CHR 0x0A, CHR 0x09, CHR 0x09, CHR 0x09, CHR 0x09, CHR 0x09] @ ''-controlNodes /etc/provision/control/controlnodes.yaml '' @ [CHR 0x5C, CHR 0x0A, CHR 0x09, CHR 0x09, CHR 0x09, CHR 0x09, CHR 0x09] @ ''-configNodes /etc/provision/config/confignodes.yaml '' @ [CHR 0x5C, CHR 0x0A, CHR 0x09, CHR 0x09, CHR 0x09, CHR 0x09, CHR 0x09] @ ''-analyticsNodes /etc/provision/analytics/analyticsnodes.yaml '' @ [CHR 0x5C, CHR 0x0A, CHR 0x09, CHR 0x09, CHR 0x09, CHR 0x09, CHR 0x09] @ ''-vrouterNodes /etc/provision/vrouter/vrouternodes.yaml '' @ [CHR 0x5C, CHR 0x0A, CHR 0x09, CHR 0x09, CHR 0x09, CHR 0x09, CHR 0x09] @ ''-databaseNodes /etc/provision/database/databasenodes.yaml '' @ [CHR 0x5C, CHR 0x0A, CHR 0x09, CHR 0x09, CHR 0x09, CHR 0x09, CHR 0x09] @ ''-apiserver /etc/provision/apiserver/apiserver-${POD_IP}.yaml '' @ [CHR 0x5C, CHR 0x0A, CHR 0x09, CHR 0x09, CHR 0x09, CHR 0x09, CHR 0x09] @ ''-keystoneAuthConf /etc/provision/keystone/keystone-auth-${POD_IP}.yaml '' @ [CHR 0x5C, CHR 0x0A, CHR 0x09, CHR 0x09, CHR 0x09, CHR 0x09, CHR 0x09] @ ''-globalVrouterConf /etc/provision/globalvrouter/globalvrouter.json '' @ [CHR 0x5C, CHR 0x0A, CHR 0x09, CHR 0x09, CHR 0x09, CHR 0x09, CHR 0x09] @ ''-mode watch'']
             (\<lambda>c. add_mount (name @ ''-csr-signer-ca'') SignerCAMountPath
               (fold (\<lambda>(kind, dir) c. add_mount (name @ ''-provisionmanager-'' @ kind @ ''-volume'') (''/etc/provision/'' @ dir) c)
                  [(''confignodes'', ''config''), (''analyticsnodes'', ''analytics''), (''controlnodes'', ''control''),
                   (''vrouternodes'', ''vrouter''), (''databasenodes'', ''database''), (''apiserver'', ''apiserver''),
                   (''keystoneauth'', ''keystone''), (''globalvrouter'', ''globalvrouter'')]
                  (add_mount (name @ ''-secret-certificates'') ''/etc/certificates'' c))) c
      else ret c)"

text \<open>
  \<open>maps\<close> are the config maps with their kinds; an object that could not be read has no name, and
  maps with one name share a volume.
\<close>

definition provisionmanager_intended_sts ::
  "range_ord \<Rightarrow> namespaced_name \<Rightarrow> provisionmanager \<Rightarrow> (string \<times> config_map) list \<Rightarrow> k_secret \<Rightarrow> stateful_set
    \<Rightarrow> ('s, go_error, stateful_set) go" where
  "provisionmanager_intended_sts ord request c maps secretCertificates sts0 =
     (let name = snd request;
          containers = pm_Containers (ps_ProvisionManagerConfiguration (cr_conf c));
          sts = sts0\<lparr>sts_Template := (sts_Template sts0)\<lparr>pt_Annotations :=
                  Some [(RequiredAnnotationsKey, name @ ''-provisionmanager'')]\<rparr>\<rparr>;
          sts = AddVolumesToIntendedSTS ord sts
                  (AList.update SignerCAConfigMapName (name @ ''-csr-signer-ca'')
                    (fold (\<lambda>(kind, cm). AList.update (om_Name (cm_meta cm)) (name @ ''-provisionmanager-'' @ kind @ ''-volume'')) maps []));
          sts = AddSecretVolumesToIntendedSTS ord sts
                  [(om_Name (sec_meta secretCertificates), name @ ''-secret-certificates'')]
      in bindM (update_containers (provisionmanager_configure_container name containers) sts) (\<lambda>sts.
           update_init_containers (configure_init containers) (set_anti_affinity ''provisionmanager'' name sts)))"

definition provisionmanager_ensureCertificatesExist ::
  "k8s_lib \<Rightarrow> ('key, 'ip, 'cert, 's) crypto_lib \<Rightarrow> (k_secret, 's) kind_client \<Rightarrow> provisionmanager \<Rightarrow> pod list
    \<Rightarrow> ('s, go_error, unit) go" where
  "provisionmanager_ensureCertificatesExist lib cy kc c pods =
     EnsureExistsAndIsSigned lib cy kc (cr_meta c) (ProvisionManager_PodsCertSubjects c pods) ''provisionmanager''"

definition provisionmanager_pods ::
  "k8s_lib \<Rightarrow> pm_marshal \<Rightarrow> (string \<Rightarrow> nat \<Rightarrow> range_ord) \<Rightarrow> ('key, 'ip, 'cert, 's) crypto_lib \<Rightarrow> 's svc_clients \<Rightarrow> 's pm_clients
    \<Rightarrow> namespaced_name \<Rightarrow> provisionmanager \<Rightarrow> pod list \<Rightarrow> ('s, go_error, provisionmanager) go" where
  "provisionmanager_pods lib ym ords cy cls ocs request c podList =
     bindM (instanceConfiguration ym ords cls ocs c request podList) (\<lambda>(c, podList).
     bindM (provisionmanager_ensureCertificatesExist lib cy (sv_secret cls) c podList) (\<lambda>_.
     bindM (SetPodsToReady (sv_pod cls) podList) (\<lambda>_. ret c)))"

text \<open>The kinds of the config maps, in the order in which they are created.\<close>

definition pm_kinds :: "string list" where
  "pm_kinds = [''confignodes'', ''controlnodes'', ''vrouternodes'', ''analyticsnodes'', ''databasenodes'', ''apiserver'',
     ''keystoneauth'', ''globalvrouter'']"

definition ProvisionManager_Reconcile ::
  "k8s_lib \<Rightarrow> range_ord \<Rightarrow> pm_marshal \<Rightarrow> (string \<Rightarrow> nat \<Rightarrow> range_ord) \<Rightarrow> ('key, 'ip, 'cert, 's) crypto_lib \<Rightarrow> 's exec_lib
    \<Rightarrow> 's svc_clients \<Rightarrow> 's pm_clients \<Rightarrow> (provisionmanager, 's) kind_client \<Rightarrow> namespaced_name \<Rightarrow> ('s, go_error, unit) go" where
  "ProvisionManager_Reconcile lib ord ym ords cy ex cls ocs kc request =
     bindM (tryM (kc_Get kc request)) (\<lambda>r.
       case r of
         Inl err \<Rightarrow> if IsNotFound lib err then ret () else throw err
       | Inr c \<Rightarrow>
           if om_Deleted (cr_meta c) then ret ()
           else
             let instanceType = ''provisionmanager''
             in bindM (mapM (\<lambda>kind. CreateConfigMap lib (sv_configmap cls) (pm_map request kind) request instanceType (cr_meta c)) pm_kinds) (\<lambda>maps.
                bindM (CreateSecret lib (sv_secret cls) (snd request @ ''-secret-certificates'') request instanceType (cr_meta c)) (\<lambda>secretCertificates.
                bindM (PrepareSTS lib provisionmanager_GetSTS (cr_common c) instanceType request (cr_meta c) True) (\<lambda>sts.
                bindM (provisionmanager_intended_sts ord request c (zip pm_kinds maps) secretCertificates sts) (\<lambda>sts.
                bindM (CreateSTS lib (sv_sts cls) sts instanceType request) (\<lambda>sts.
                bindM (UpdateSTS lib (sv_sts cls) sts instanceType request ''deleteFirst'') (\<lambda>_.
                bindM (PodIPListAndIPMapFromInstance (sv_node cls) (sv_pod cls) ex instanceType (cr_common c)
                         request True (no_wants\<lparr>getHostname := True\<rparr>)) (\<lambda>(podIPList, podIPMap).
                bindM (if podIPMap \<noteq> []
                       then provisionmanager_pods lib ym ords cy cls ocs request c podIPList
                       else ret c) (\<lambda>c.
                bindM (SetInstanceActive (sv_sts cls) kc set_cr_active sts request (active_or_false c)) (\<lambda>_.
                  ret ()))))))))))"

end
