(* ===== verification/EndToEnd.thy ===== *)
theory EndToEnd
  imports Provisionmanager ProvMain ServiceLaws
begin

text \<open>
  From the status of the services to the API server: the nodes file that the ProvisionManager
  controller writes holds exactly the pods with a host name, in whatever order the maps are visited,
  and the provisioner that reads it makes the API server hold them.
\<close>

section \<open>The nodes of a file\<close>

text \<open>The node of one pod, and the nodes of all pods of some services, with \<open>host\<close> the host name of a pod.\<close>

definition named_node :: "(string \<Rightarrow> string) \<Rightarrow> string \<times> string \<Rightarrow> pm_node option" where
  "named_node host e =
     (if host (fst e) = [] then None
      else Some \<lparr>pn_IPAddress = snd e, pn_Hostname = host (fst e), pn_Annotations = None\<rparr>)"

definition named_nodes :: "(string \<Rightarrow> string) \<Rightarrow> 'c cr list \<Rightarrow> pm_node list" where
  "named_nodes host items =
     concat (map (\<lambda>sv. List.map_filter (named_node host) (map_entries (st_Nodes (cr_status sv)))) items)"

text \<open>The host names of the pods of the services can be read, and reading them changes nothing.\<close>

definition hosts_readable :: "(string \<Rightarrow> ('s, go_error, string) go) \<Rightarrow> (string \<Rightarrow> string) \<Rightarrow> 'c cr list \<Rightarrow> bool" where
  "hosts_readable hostname_of host items \<longleftrightarrow>
     (\<forall>sv \<in> set items. \<forall>e \<in> set (map_entries (st_Nodes (cr_status sv))). \<forall>t. hostname_of (fst e) t = (Ok (host (fst e)), t))"

lemma map_filter_id_map: "List.map_filter id (map f xs) = List.map_filter f xs"
  by (induction xs) (simp_all add: List.map_filter_simps split: option.splits)

lemma mset_map_filter: "mset xs = mset ys \<Longrightarrow> mset (List.map_filter f xs) = mset (List.map_filter f ys)"
  by (simp add: List.map_filter_def)

lemma named_node_None_annotations:
  "n \<in> set (named_nodes host items) \<Longrightarrow> pn_Annotations n = None"
  by (auto simp: named_nodes_def named_node_def List.map_filter_def split: if_splits)

lemma mapM_pure:
  assumes "\<And>x t. x \<in> set xs \<Longrightarrow> f x t = (Ok (g x), t)"
  shows "mapM f xs s = (Ok (map g xs), s)"
  using assms by (induction xs) (simp_all add: bindM_def)

lemma node_entry_plain:
  assumes "\<And>t. hostname_of (fst e) t = (Ok (host (fst e)), t)"
  shows "node_entry hostname_of (plain_node sv) e t = (Ok (named_node host e), t)"
  using assms by (simp add: node_entry_def named_node_def plain_node_def bindM_def)

lemma service_nodes_plain:
  assumes h: "hosts_readable hostname_of host items" and o: "\<forall>i. range_perm (ords i)"
  shows "\<exists>ns. (\<forall>s. service_nodes hostname_of plain_node ords items s = (Ok ns, s)) \<and>
    mset ns = mset (named_nodes host items)"
proof -
  let ?es = "\<lambda>(i, sv). range_of (ords i) (map_entries (st_Nodes (cr_status sv)))"
  let ?ix = "zip [0..<length items] items"
  let ?body = "\<lambda>(i, sv). bindM (mapM (node_entry hostname_of (plain_node sv)) (range_of (ords i) (map_entries (st_Nodes (cr_status sv)))))
                  (\<lambda>ns. ret (List.map_filter id ns))"
  have "?body x t = (Ok (List.map_filter (named_node host) (?es x)), t)" if "x \<in> set ?ix" for x t
  proof -
    obtain i sv where x: "x = (i, sv)" by (cases x)
    then have "sv \<in> set items" using that by (auto dest: set_zip_rightD)
    then have "mapM (node_entry hostname_of (plain_node sv)) (?es x) t = (Ok (map (named_node host) (?es x)), t)"
      using h o by (intro mapM_pure node_entry_plain) (auto simp: x hosts_readable_def set_range_of)
    then show ?thesis by (simp add: x map_filter_id_map)
  qed
  then have "mapM ?body ?ix s = (Ok (map (\<lambda>x. List.map_filter (named_node host) (?es x)) ?ix), s)" for s
    by (rule mapM_pure)
  then have 1: "service_nodes hostname_of plain_node ords items s
      = (Ok (concat (map (\<lambda>x. List.map_filter (named_node host) (?es x)) ?ix)), s)" for s
    unfolding service_nodes_def by simp
  have "map (\<lambda>x. mset (List.map_filter (named_node host) (?es x))) ?ix
      = map ((\<lambda>sv. mset (List.map_filter (named_node host) (map_entries (st_Nodes (cr_status sv))))) \<circ> snd) ?ix"
    using o by (intro map_cong) (auto intro!: mset_map_filter mset_range_of)
  also have "\<dots> = map (\<lambda>sv. mset (List.map_filter (named_node host) (map_entries (st_Nodes (cr_status sv))))) items"
    by (simp flip: map_map)
  finally have "mset (concat (map (\<lambda>x. List.map_filter (named_node host) (?es x)) ?ix)) = mset (named_nodes host items)"
    by (simp add: mset_concat comp_def named_nodes_def)
  with 1 show ?thesis by blast
qed

lemma nodes_file_none: "nodes_file name marshal address nodes [] = ret []"
  by (simp add: nodes_file_def)

lemma nodes_file_content:
  assumes h: "hosts_readable hostname_of host items" and o: "\<forall>i. range_perm (ords i)" and "items \<noteq> []"
    and ok: "nodes_file name marshal pn_IPAddress (service_nodes hostname_of plain_node ords items) items s = (Ok m, s')"
  obtains ns y where "m = [(name, y)]" "marshal ns = Inr y" "mset ns = mset (named_nodes host items)"
    "sorted (map pn_IPAddress ns)"
proof -
  obtain l where l: "\<And>s. service_nodes hostname_of plain_node ords items s = (Ok l, s)"
    "mset l = mset (named_nodes host items)" using service_nodes_plain [OF h o] by blast
  from ok \<open>items \<noteq> []\<close> obtain y where "marshal (sort_key pn_IPAddress l) = Inr y" "m = [(name, y)]"
    by (auto simp: nodes_file_def go_simps l(1) sum_result_def split: sum.splits)
  then show thesis using that [of y "sort_key pn_IPAddress l"] l(2) by simp
qed

text \<open>With distinct addresses, the file does not depend on the order in which the maps are visited.\<close>

lemma nodes_file_order:
  assumes h: "hosts_readable hostname_of host items" and o: "\<forall>i. range_perm (ords i)" "\<forall>i. range_perm (ords' i)"
    and d: "distinct (map pn_IPAddress (named_nodes host items))"
  shows "nodes_file name marshal pn_IPAddress (service_nodes hostname_of plain_node ords items) items
    = nodes_file name marshal pn_IPAddress (service_nodes hostname_of plain_node ords' items) items"
proof
  fix s
  obtain l where l: "\<And>s. service_nodes hostname_of plain_node ords items s = (Ok l, s)"
    "mset l = mset (named_nodes host items)" using service_nodes_plain [OF h o(1)] by blast
  obtain l' where l': "\<And>s. service_nodes hostname_of plain_node ords' items s = (Ok l', s)"
    "mset l' = mset (named_nodes host items)" using service_nodes_plain [OF h o(2)] by blast
  have "inj_on pn_IPAddress (set l)" using d l(2) by (metis distinct_map mset_eq_setD)
  then have "sort_key pn_IPAddress l = sort_key pn_IPAddress l'"
    using l(2) l'(2) by (intro sort_key_unique) simp_all
  then show "nodes_file name marshal pn_IPAddress (service_nodes hostname_of plain_node ords items) items s
      = nodes_file name marshal pn_IPAddress (service_nodes hostname_of plain_node ords' items) items s"
    by (simp add: nodes_file_def bindM_def l(1) l'(1))
qed

section \<open>Reading the file back\<close>

definition read_back :: "pm_node \<Rightarrow> node" where
  "read_back n = \<lparr>IPAddress = pn_IPAddress n, Hostname = pn_Hostname n, Annotations = pn_Annotations n\<rparr>"

text \<open>\<open>yaml.Unmarshal\<close> undoes \<open>yaml.Marshal\<close> on nodes without annotations, which are left out of the text.\<close>

definition yaml_roundtrip :: "pm_marshal \<Rightarrow> yaml_lib \<Rightarrow> bool" where
  "yaml_roundtrip ym yl \<longleftrightarrow>
     (\<forall>ns y. (\<forall>n \<in> set ns. pn_Annotations n = None) \<longrightarrow> ym_nodes ym ns = Inr y \<longrightarrow> yaml_nodes yl y = Inr (map read_back ns))"

lemma find_by_key:
  assumes "distinct (map f xs)" "set xs = set ys"
  shows "find (\<lambda>x. f x = h) xs = find (\<lambda>x. f x = h) ys"
proof (cases "h \<in> f ` set xs")
  case False
  then have "find (\<lambda>x. f x = h) xs = None" "find (\<lambda>x. f x = h) ys = None"
    using assms(2) by (auto simp: find_None_iff)
  then show ?thesis by simp
next
  case True
  then obtain x y where "find (\<lambda>x. f x = h) xs = Some x" "find (\<lambda>x. f x = h) ys = Some y"
    using assms(2) by (metis (mono_tags, lifting) find_None_iff imageE not_Some_eq)
  moreover from this have "x \<in> set xs" "y \<in> set xs" "f x = f y"
    using assms(2) by (auto simp: find_Some_iff)
  ultimately show ?thesis using assms(1) by (metis distinct_map inj_onD)
qed

text \<open>What the API server holds for a host name after the provisioner has read the nodes \<open>ns\<close>.\<close>

definition provisioned ::
  "(string, string) gomap \<Rightarrow> pm_node list \<Rightarrow> (string \<rightharpoonup> node_content) \<Rightarrow> (string \<rightharpoonup> node_content)" where
  "provisioned ann ns st h =
     (case find (\<lambda>n. pn_Hostname n = h) ns of
        Some n \<Rightarrow> Some (pn_IPAddress n, map_of ann)
      | None \<Rightarrow> (case st h of None \<Rightarrow> None | Some d \<Rightarrow> if map_of ann \<subseteq>\<^sub>m snd d then None else Some d))"

lemma find_map_key: "find P (map f xs) = map_option f (find (P \<circ> f) xs)"
  by (induction xs) simp_all

lemma reconciled_read_back:
  assumes "mset ns = mset ms" "distinct (map pn_Hostname ms)" "\<forall>n \<in> set ms. pn_Annotations n = None"
  shows "reconciled ann (map (infra_node_of k) (map read_back ns)) st = provisioned ann ms st"
proof
  fix h
  have s: "set (rev ns) = set ms" using assms(1) by (metis mset_eq_setD set_rev)
  have "required_for (map (infra_node_of k) (map read_back ns)) h
      = map_option (infra_node_of k \<circ> read_back) (find (\<lambda>n. pn_Hostname n = h) (rev ns))"
    by (cases k) (simp_all add: required_for_def rev_map find_map_key comp_def read_back_def)
  also have "find (\<lambda>n. pn_Hostname n = h) (rev ns) = find (\<lambda>n. pn_Hostname n = h) ms"
    using find_by_key [OF assms(2), of "rev ns" h] s by simp
  finally have req: "required_for (map (infra_node_of k) (map read_back ns)) h
      = map_option (infra_node_of k \<circ> read_back) (find (\<lambda>n. pn_Hostname n = h) ms)" .
  show "reconciled ann (map (infra_node_of k) (map read_back ns)) st h = provisioned ann ms st h"
  proof (cases "find (\<lambda>n. pn_Hostname n = h) ms")
    case None
    with req show ?thesis by (simp add: reconciled_def provisioned_def)
  next
    case (Some n)
    then have "n \<in> set ms" by (auto simp: find_Some_iff)
    with assms(3) have "node_content (infra_node_of k (read_back n)) = (pn_IPAddress n, Map.empty)"
      by (cases k) (simp_all add: read_back_def entries_def)
    with Some req show ?thesis by (simp add: reconciled_def provisioned_def)
  qed
qed

lemma pm_files_confignodes:
  assumes "pm_files ym ords cls ocs c info namespace configs pods s = (Ok d, s')"
  obtains t t' where "nodes_file ''confignodes.yaml'' (ym_nodes ym) pn_IPAddress
      (service_nodes (\<lambda>p. getPodsHostname (sv_pod cls) (sv_node cls) p namespace) plain_node (ords ''config'') configs) configs t
      = (Ok (pd_confignodes d), t')"
  using assms unfolding pm_files_def Let_def by (elim bindM_OkE) (auto simp: ret_run)

text \<open>The provisioner, started on the text of the nodes \<open>ns\<close>.\<close>

lemma provisioner_reads:
  assumes srv: "live_infra_server cl contents (env_ord env)" "range_perm (env_aord env)"
    and yaml: "yaml_nodes (env_yaml env) y = Inr (map read_back ns)" and ns: "mset ns = mset ms"
    and ms: "distinct (map pn_Hostname ms)" "\<forall>n \<in> set ms. pn_Annotations n = None"
    and ok: "entries_ok (contents (w_api w) k)" "go_map ann"
    and free: "\<forall>n \<in> set ms. \<forall>x. store_of (contents (w_api w) k) (pn_Hostname n) = Some x \<longrightarrow> map_of ann \<subseteq>\<^sub>m snd x"
    and fdata: "w_files w path = FileData y"
  shows "\<exists>s'. runNodeManager env path (infra_node_type k) cl ann w = Some (Ok (), w\<lparr>w_api := s'\<rparr>) \<and>
    store_of (contents s' k) = provisioned ann ms (store_of (contents (w_api w) k))"
proof -
  have s: "set ns = set ms" using ns by (metis mset_eq_setD)
  have "\<forall>c \<in> set (map read_back ns). go_map (entries (Annotations c))"
    using ms(2) s by (auto simp: read_back_def entries_def go_map_def)
  moreover have "\<forall>c \<in> set (map read_back ns). \<forall>x. store_of (contents (w_api w) k) (Hostname c) = Some x
      \<longrightarrow> map_of ann \<subseteq>\<^sub>m snd x"
    using free s by (auto simp: read_back_def)
  ultimately obtain s' where
    "ManageNodes (env_yaml env) (env_ord env) (env_aord env) y ann (infra_node_type k) cl (w_api w) = (Ok (), s')"
    "store_of (contents s' k) = reconciled ann (map (infra_node_of k) (map read_back ns)) (store_of (contents (w_api w) k))"
    using ManageNodes_outcome [OF srv(1) yaml ok(1) _ ok(2) srv(2)] by blast
  with runNodeManager_Ok [OF fdata this(1)] reconciled_read_back [OF ns ms] show ?thesis by metis
qed

end
