(* ===== verification/Spec2Isabelle.thy ===== *)
theory Spec2Isabelle
  imports ProvProps OperatorProps ServiceProps InfraProps CommandProps KeystoneService EndToEnd
begin

text \<open>
  A verification development for the Contrail operator.

  The repository has two programs.  The \<^emph>\<open>operator\<close> (\<open>src/pkg\<close>, \<open>src/cmd\<close>) runs in a Kubernetes
  cluster: controllers watch resources, and for each request they reconcile what is in the cluster
  with what a resource asks for.  The \<^emph>\<open>provisioner\<close> (\<open>src/contrail-provisioner\<close>) runs beside a
  service: it reads which nodes of a type are required and makes the configuration API have exactly
  these.

  \<^bold>\<open>How Go is written down.\<close>  A function that talks to a server is a function of the state outside
  the process which returns an outcome (value, error, panic, end of the process) and the new state
  (\<open>Prelude\<close>: type \<open>go\<close>, \<open>bindM\<close>, \<open>tryM\<close>, \<open>forM\<close>, \<open>mapM\<close>).  A pointer is an \<open>option\<close> and reading
  through \<open>nil\<close> is a panic (\<open>deref_ptr\<close>).  A map is an association list with distinct keys; a loop
  over a map takes the order of its visits as an argument.  Machine integers are integers with the
  wrap-around written out (\<open>int32_of\<close>, \<open>int64_of\<close>).  Code outside the repository (client libraries,
  decoders, cryptography, the clock) is an argument: a record of functions, whose documented
  behaviour is stated where a theorem needs it as the assumptions of a locale or as premises.

  \<^bold>\<open>Loops without bound.\<close>  \<open>retry\<close> of the provisioner with no limit of attempts, and the drawing of
  random letters, may run for ever: they are \<open>partial_function (option)\<close>, \<open>None\<close> meaning that the
  call does not return, and that they return is a theorem.  All other loops are structural
  recursions; no fuel is used anywhere.

  \<^bold>\<open>The provisioner.\<close>
  \<^item> \<open>VncTypes\<close>: the objects of the configuration API and the client, a parameter record
    (\<open>contrail-go-types\<close>).
  \<^item> \<open>ContrailClient\<close>, \<open>ContrailNodes\<close>: annotations (\<open>contrailclient.go\<close>) and \<open>Create\<close>, \<open>Update\<close>,
    \<open>Delete\<close> and the reading of the five node types.  The locale \<open>annotated_node\<close> is the Go interface
    of a node, interpreted on them (\<open>iface\<close>).
  \<^item> \<open>ProvReconcile\<close>: the action map and its execution (\<open>reconcile.go\<close>, \<open>nodemanager.go\<close>).
  \<^item> \<open>NodeStore\<close>: the locales \<open>node_provider\<close> and \<open>live_node_provider\<close>, the contract between the
    reconciler and the node types; what the reconciler achieves is proved from it.  \<open>ApiServer\<close>:
    the documented behaviour of the API (\<open>api_server\<close>, \<open>infra_server\<close> and the live versions), from
    which the code of the node types gets the contract (two sublocales).  \<open>MemApi\<close>: an API in
    memory that has this behaviour (\<open>mem\<close>).
  \<^item> \<open>Retry\<close>, \<open>Watcher\<close>, \<open>ProvMain\<close>: \<open>retry\<close>, the file watcher and both modes of \<open>main.go\<close>.
  \<^item> \<open>ProvProps\<close>: properties C2 to C12.

  \<^bold>\<open>The operator.\<close>
  \<^item> \<open>K8s\<close>: objects and client; \<open>kind_server\<close> is the contract of a client for one type of object, which
    \<open>policy_server\<close> extends by deletions with a propagation policy: the object is gone at once, or is
    marked for deletion and stays readable.
    \<open>Utils\<close>: event predicates, common configuration, addresses of pods (\<open>utils.go\<close>).
  \<^item> \<open>CrTypes\<close>, \<open>ClusterConf\<close>, \<open>ManagerTypes\<close>, \<open>BaseTypes\<close>: the resources, their defaults, what one
    service reads of another, and the functions that the controllers share
    (\<open>pkg/apis/contrail/v1alpha1\<close>).
  \<^item> \<open>CertTemplates\<close>, \<open>Secrets\<close>, \<open>Certificates\<close>: \<open>pkg/certificates\<close> and secrets.  \<open>K8sObjects\<close>:
    config maps, services, owners, local volumes, jobs.  \<open>ClusterInfo\<close>: what the operator reads of
    the cluster.  \<open>RandString\<close>: random strings.
  \<^item> \<open>Enqueue\<close>: the event handlers; the locale \<open>event_handler\<close> is the interface they share and is
    interpreted on all three (\<open>bo\<close>, \<open>gk\<close>, \<open>fo\<close>).  The work queue belongs to client-go: its \<open>Add\<close> is an
    argument of the handlers, and the theorems say with which requests it is called.
  \<^item> \<open>Manager\<close>, \<open>ManagerReconcile\<close>: the manager controller, with its laws in \<open>ManagerLaws\<close> (which also
    has the client in memory, interpretation \<open>memk\<close>) and \<open>ManagerStatus\<close>.
  \<^item> \<open>Workloads\<close>, \<open>Zookeeper\<close>, \<open>Cassandra\<close>, \<open>Rabbitmq\<close>: the controllers of three services with the
    methods of their resources and their configuration files.
  \<^item> \<open>ServiceLaws\<close>: facts on these three controllers, among them how a reconciliation ends.
  \<^item> \<open>ServiceParts\<close>: the blocks that the other controllers repeat.  \<open>ConfigFiles\<close> and \<open>ConfigService\<close>,
    \<open>Control\<close>, \<open>Kubemanager\<close>, \<open>Webui\<close>: the controllers of the Contrail services, again with the methods
    of their resources and all their files.
  \<^item> \<open>ContrailCni\<close>, \<open>Memcached\<close>: a job and a deployment.  \<open>Base64\<close>, \<open>Fernet\<close>: the keys that sign the tokens
    of Keystone; the locales \<open>key_repository\<close> and \<open>fernet_server\<close> are the contract of the cluster they are
    kept in (interpretation \<open>memf\<close>).
  \<^item> \<open>Provisionmanager\<close>: the controller that runs the provisioner and writes the files it reads.
    \<open>EndToEnd\<close>: what such a file holds, and what the provisioner makes of it; property C1, which spans
    both programs, is in this theory.
  \<^item> \<open>InfraLaws\<close>: facts on the controllers of Config, of the CNI plugin and of the keys.
  \<^item> \<open>CommandService\<close>: the controller of Command, with its configuration files, its jobs and the state
    machine of its upgrades.  \<open>CommandLaws\<close>: the upgrades as a step relation with an invariant, in
    which a rollout may fail and a deleted job may linger; the locales \<open>create_server\<close>,
    \<open>upgrade_cluster\<close> and \<open>failing_cluster\<close> are what a rollout needs of the cluster.  They are interpreted on
    a cluster that removes a deleted job at once (\<open>memc\<close>, \<open>memu\<close>, \<open>memx\<close>) and on one that keeps it
    until its dependents are gone (\<open>slowu\<close>, \<open>slowf\<close>).
  \<^item> \<open>KeystoneService\<close>: the controller of Keystone; the key manager it makes keeps as many keys as its
    configuration file says.
  \<^item> \<open>OperatorProps\<close>: properties C13 to C22.  \<open>ServiceProps\<close>: properties C23 to C31.  \<open>InfraProps\<close>:
    properties C32 to C38.  \<open>CommandProps\<close>: properties C39 and C40.

  \<^bold>\<open>Not modelled.\<close>  The registration of watches and the start of the processes (\<open>add\<close>, \<open>cmd\<close>); the
  controllers of Vrouter, Postgres, Swift and the monitor; the status monitor and
  the HTTP clients, which are input and output; generated code, of which \<open>VncTypes\<close> has what the
  provisioner uses; tests and deployment files.  Log messages have no effect and are left out.
\<close>

section \<open>From the operator to the API server\<close>

text \<open>
  C1: the two programs together.  When the ProvisionManager controller has made the file of the
  Config nodes, the provisioner that reads it returns and leaves in the API server exactly the pods
  of the Config resources that have a host name, each with its address and the required annotations,
  no other managed node, and every node that is not managed as it was, whatever the orders in which
  the maps are visited.  Host names can be read and are distinct, none belongs to a node that is not
  managed, the text of a list of nodes decodes to the list, and the API server behaves as documented.
\<close>

theorem operator_nodes_provisioned:
  assumes made: "pm_files ym ords cls ocs c info namespace configs pods s = (Ok d, s')"
    and some: "configs \<noteq> []" and ords: "\<forall>i. range_perm (ords ''config'' i)"
    and hosts: "hosts_readable (\<lambda>p. getPodsHostname (sv_pod cls) (sv_node cls) p namespace) host configs"
    and uniq: "distinct (map pn_Hostname (named_nodes host configs))"
    and yaml: "yaml_roundtrip ym (env_yaml env)"
    and srv: "live_infra_server cl contents (env_ord env)" "range_perm (env_aord env)"
    and ok: "entries_ok (contents (w_api w) ConfigKind)" "go_map ann"
    and free: "\<forall>n \<in> set (named_nodes host configs). \<forall>x.
      store_of (contents (w_api w) ConfigKind) (pn_Hostname n) = Some x \<longrightarrow> map_of ann \<subseteq>\<^sub>m snd x"
  shows "\<exists>y api. pd_confignodes d = [(''confignodes.yaml'', y)] \<and>
     runNodeManager env path ConfigNodeType cl ann (w\<lparr>w_files := (w_files w)(path := FileData y)\<rparr>)
       = Some (Ok (), w\<lparr>w_files := (w_files w)(path := FileData y), w_api := api\<rparr>) \<and>
     store_of (contents api ConfigKind)
       = provisioned ann (named_nodes host configs) (store_of (contents (w_api w) ConfigKind))"
proof -
  obtain t t' where "nodes_file ''confignodes.yaml'' (ym_nodes ym) pn_IPAddress
      (service_nodes (\<lambda>p. getPodsHostname (sv_pod cls) (sv_node cls) p namespace) plain_node (ords ''config'') configs) configs t
      = (Ok (pd_confignodes d), t')"
    using pm_files_confignodes [OF made] .
  then obtain ns y where y: "pd_confignodes d = [(''confignodes.yaml'', y)]" "ym_nodes ym ns = Inr y"
    "mset ns = mset (named_nodes host configs)"
    using nodes_file_content [OF hosts ords some] by blast
  have ann: "\<forall>n \<in> set (named_nodes host configs). pn_Annotations n = None"
    by (blast dest: named_node_None_annotations)
  then have "yaml_nodes (env_yaml env) y = Inr (map read_back ns)"
    using yaml y(2,3) unfolding yaml_roundtrip_def by (metis mset_eq_setD)
  from provisioner_reads [where w = "w\<lparr>w_files := (w_files w)(path := FileData y)\<rparr>" and k = ConfigKind and path = path,
      OF srv this y(3) uniq ann _ ok(2)] ok(1) free y(1)
  show ?thesis by auto
qed

definition ex_pm_config :: "config_configuration cr" where
  "ex_pm_config = \<lparr>cr_meta = new_meta, cr_common = new_common, cr_conf = no_config_configuration,
     cr_status = new_status\<lparr>st_Nodes := Some [(''p'', ''1.1.1.1'')]\<rparr>\<rparr>"

definition ex_pm_node :: pm_node where
  "ex_pm_node = \<lparr>pn_IPAddress = ''1.1.1.1'', pn_Hostname = ''h'', pn_Annotations = None\<rparr>"

definition ex_pm_marshal :: pm_marshal where
  "ex_pm_marshal = \<lparr>ym_keystone = (\<lambda>_. Inr []),
     ym_nodes = (\<lambda>ns. if ns = [ex_pm_node] then Inr ''yaml'' else Inl (errors_New ''too long'')),
     ym_control_nodes = (\<lambda>_. Inr []), ym_api_server = (\<lambda>_. Inr []), ym_global_vrouter = (\<lambda>_. Inr [])\<rparr>"

definition ex_pm_env :: prov_env where
  "ex_pm_env = ex_env\<lparr>env_yaml := ex_yaml\<lparr>yaml_nodes := (\<lambda>_. Inr [read_back ex_pm_node])\<rparr>\<rparr>"

definition ex_pm_clients :: "unit pm_clients" where
  "ex_pm_clients = \<lparr>pmc_config = ex_no_client, pmc_control = ex_no_client, pmc_vrouter = ex_no_client,
     pmc_cassandra = ex_no_client, pmc_keystone = ex_no_client\<rparr>"

definition ex_pm :: provisionmanager where
  "ex_pm = \<lparr>cr_meta = new_meta, cr_common = new_common, cr_conf = no_provisionmanager_service_configuration,
     cr_status = new_status\<rparr>"

definition ex_pm_info :: config_cluster where
  "ex_pm_info = \<lparr>cc_APIServerPort = 8082, cc_APIServerIPList = [''1.1.1.1''], cc_AnalyticsServerPort = 8081,
     cc_AnalyticsServerIPList = [''1.1.1.1''], cc_CollectorPort = 8086, cc_CollectorServerIPList = [''1.1.1.1''],
     cc_RedisPort = 6379, cc_AuthMode = ''noauth''\<rparr>"

definition ex_pm_svc :: "unit svc_clients" where
  "ex_pm_svc = ex_svc_clients\<lparr>sv_pod := ex_no_client\<lparr>kc_Get := (\<lambda>_. ret ex_pod)\<rparr>\<rparr>"

definition ex_pm_data :: pm_data where
  "ex_pm_data = \<lparr>pd_confignodes = [(''confignodes.yaml'', ''yaml'')], pd_controlnodes = [],
     pd_analyticsnodes = [(''analyticsnodes.yaml'', ''yaml'')], pd_vrouternodes = [], pd_databasenodes = [],
     pd_apiserver = [], pd_keystoneauth = [], pd_globalvrouter = [(''globalvrouter.json'', [])]\<rparr>"

lemmas ex_pm_simps = ex_pm_config_def ex_pm_node_def ex_pm_marshal_def ex_pm_env_def ex_pm_clients_def ex_pm_def
  ex_pm_svc_def ex_pm_info_def ex_pm_data_def ex_no_client_def ex_pod_def new_status_def map_entries_def range_of_in_order

lemma ex_pm_hostname: "getPodsHostname (sv_pod ex_pm_svc) (sv_node ex_pm_svc) p ns t = (Ok ''h'', t)"
  by (simp add: getPodsHostname_def ex_pm_simps bindM_def)

lemma ex_pm_nodes: "named_nodes (\<lambda>_. ''h'') [ex_pm_config] = [ex_pm_node]"
  by (simp add: named_nodes_def named_node_def ex_pm_simps List.map_filter_simps)

lemma ex_pm_nodes_file:
  "nodes_file name (ym_nodes ex_pm_marshal) pn_IPAddress
     (service_nodes (\<lambda>p. getPodsHostname (sv_pod ex_pm_svc) (sv_node ex_pm_svc) p ns) plain_node (\<lambda>_. in_order) [ex_pm_config])
     [ex_pm_config] t = (Ok [(name, ''yaml'')], t)"
proof -
  have h: "hosts_readable (\<lambda>p. getPodsHostname (sv_pod ex_pm_svc) (sv_node ex_pm_svc) p ns) (\<lambda>_. ''h'') [ex_pm_config]"
    by (simp add: hosts_readable_def ex_pm_hostname)
  have "service_nodes (\<lambda>p. getPodsHostname (sv_pod ex_pm_svc) (sv_node ex_pm_svc) p ns) plain_node (\<lambda>_. in_order) [ex_pm_config] t
      = (Ok [ex_pm_node], t)"
    using service_nodes_plain [OF h, of "\<lambda>_. in_order"] by (auto simp: ex_pm_nodes range_perm_in_order)
  then show ?thesis by (simp add: nodes_file_def sum_result_def ex_pm_marshal_def)
qed

lemma ex_pm_files:
  "pm_files ex_pm_marshal (\<lambda>_ _. in_order) ex_pm_svc ex_pm_clients ex_pm ex_pm_info ''ns'' [ex_pm_config] [] () = (Ok ex_pm_data, ())"
proof -
  have "kc_List (pmc_control ex_pm_clients) ''ns'' [] = ret []" "kc_List (pmc_vrouter ex_pm_clients) ''ns'' [] = ret []"
    "kc_List (pmc_cassandra ex_pm_clients) ''ns'' [] = ret []" "ym_global_vrouter ex_pm_marshal g = Inr []"
    "cc_AuthMode ex_pm_info \<noteq> AuthenticationModeKeystone" for g
    by (simp_all add: ex_pm_clients_def ex_no_client_def ex_pm_marshal_def ex_pm_info_def AuthenticationModeKeystone_def)
  then show ?thesis
    by (simp add: pm_files_def Let_def sum_result_def pod_files_def nodes_file_none ex_pm_nodes_file ex_pm_data_def)
qed

theorem operator_nodes_provisioned_witness:
  "\<exists>y api. pd_confignodes ex_pm_data = [(''confignodes.yaml'', y)] \<and>
     runNodeManager ex_pm_env ''/f'' ConfigNodeType mem_api ex_ann (ex_world\<lparr>w_files := (w_files ex_world)(''/f'' := FileData y)\<rparr>)
       = Some (Ok (), ex_world\<lparr>w_files := (w_files ex_world)(''/f'' := FileData y), w_api := api\<rparr>) \<and>
     store_of (api ConfigKind) ''h'' = Some (''1.1.1.1'', [''managed_by'' \<mapsto> ''prov'']) \<and>
     store_of (api ConfigKind) ''b'' = None"
proof -
  have "\<exists>y api. pd_confignodes ex_pm_data = [(''confignodes.yaml'', y)] \<and>
     runNodeManager ex_pm_env ''/f'' ConfigNodeType mem_api ex_ann (ex_world\<lparr>w_files := (w_files ex_world)(''/f'' := FileData y)\<rparr>)
       = Some (Ok (), ex_world\<lparr>w_files := (w_files ex_world)(''/f'' := FileData y), w_api := api\<rparr>) \<and>
     store_of (api ConfigKind) = provisioned ex_ann (named_nodes (\<lambda>_. ''h'') [ex_pm_config]) (store_of (w_api ex_world ConfigKind))"
    by (rule operator_nodes_provisioned [where contents = "\<lambda>s. s", OF ex_pm_files])
       (use mem.live_infra_server_axioms ex_facts in
         \<open>simp_all add: hosts_readable_def ex_pm_hostname ex_pm_nodes yaml_roundtrip_def ex_env_def ex_yaml_def
           ex_world_def range_perm_in_order, simp_all add: ex_pm_simps ex_env_def ex_yaml_def ex_state_def ex_entry_def store_of_def range_perm_in_order\<close>)
  moreover have "provisioned ex_ann (named_nodes (\<lambda>_. ''h'') [ex_pm_config]) (store_of (w_api ex_world ConfigKind)) ''h''
      = Some (''1.1.1.1'', [''managed_by'' \<mapsto> ''prov''])"
    "provisioned ex_ann (named_nodes (\<lambda>_. ''h'') [ex_pm_config]) (store_of (w_api ex_world ConfigKind)) ''b'' = None"
    by (simp_all add: provisioned_def ex_pm_nodes ex_pm_node_def ex_ann_def ex_world_def ex_state_def ex_entry_def
        store_of_def entry_content_def map_le_def)
  ultimately show ?thesis by metis
qed

end
